(* ===== verification/Prelude.thy ===== *)
theory Prelude
  imports Main "HOL-Library.Word"
begin

section \<open>Prelude: machine integers, times, results\<close>

text \<open>
  Shared vocabulary of the development.  Go's \<open>int64\<close> and \<open>int32\<close> are words of their
  width read as two's complement, so that \<open>++\<close> wraps as the compiled code does; a Go
  pointer to a value is an \<open>option\<close>; a function with an \<open>error\<close> result returns a sum
  whose left side is the error; \<open>time.Time\<close> is an instant together with the location it
  is displayed in.  The lemmas declared here let \<open>simp\<close> and \<open>auto\<close> walk through chains
  of early returns.
\<close>

named_theorems domain_defs "unfolding equations of the domain operations"
named_theorems tx_defs "unfolding equations of the transaction primitives"

subsection \<open>Integers\<close>

type_synonym i64 = "64 word"
type_synonym i32 = "32 word"

text \<open>Signed reading of the revision counters: a step of \<open>++\<close> is a step of one below the maximum.\<close>

lemma sint_Suc_i64:
  fixes x :: i64
  assumes "sint x < 2 ^ 63 - 1"
  shows "sint (x + 1) = sint x + 1"
proof -
  have "- (2 ^ 63) \<le> sint x" using sint_greater_eq[of x] by simp
  then show ?thesis using assms
    by (simp add: sint_word_ariths(1) signed_take_bit_int_eq_self)
qed

lemma sint_Suc_i32:
  fixes x :: i32
  assumes "sint x < 2 ^ 31 - 1"
  shows "sint (x + 1) = sint x + 1"
proof -
  have "- (2 ^ 31) \<le> sint x" using sint_greater_eq[of x] by simp
  then show ?thesis using assms
    by (simp add: sint_word_ariths(1) signed_take_bit_int_eq_self)
qed

lemma word_neq_plus_one [simp]: "(x :: 'a::len word) \<noteq> x + 1" "x + 1 \<noteq> x"
  by simp_all

subsection \<open>Times\<close>

text \<open>
  An instant counts nanoseconds from the zero \<open>time.Time\<close> (1 January of year 1, UTC).
  \<open>UTC()\<close> changes the location only, \<open>Equal\<close> and \<open>Before\<close> compare instants,
  \<open>Truncate\<close> rounds the instant down to a multiple of a duration since the zero time.
\<close>

datatype location = UTC | Zone string

record gotime =
  nanos :: int
  loc :: location

definition utc :: "gotime \<Rightarrow> gotime" where
  "utc t = t\<lparr>loc := UTC\<rparr>"

definition zero_time :: gotime where
  "zero_time = \<lparr>nanos = 0, loc = UTC\<rparr>"

definition time_is_zero :: "gotime \<Rightarrow> bool" where
  "time_is_zero t \<longleftrightarrow> nanos t = 0"

definition time_equal :: "gotime \<Rightarrow> gotime \<Rightarrow> bool" where
  "time_equal s t \<longleftrightarrow> nanos s = nanos t"

definition time_before :: "gotime \<Rightarrow> gotime \<Rightarrow> bool" where
  "time_before s t \<longleftrightarrow> nanos s < nanos t"

definition truncate_time :: "int \<Rightarrow> gotime \<Rightarrow> gotime" where
  "truncate_time d t = (if d \<le> 0 then t else t\<lparr>nanos := nanos t - nanos t mod d\<rparr>)"

definition microsecond :: int where
  "microsecond = 1000"

lemma utc_simps [simp]:
  "nanos (utc t) = nanos t" "loc (utc t) = UTC" "utc (utc t) = utc t"
  by (simp_all add: utc_def)

lemma truncate_utc [simp]: "loc (truncate_time d t) = loc t"
  by (simp add: truncate_time_def)

lemma utc_truncate_utc [simp]: "utc (truncate_time d (utc t)) = truncate_time d (utc t)"
  by (simp add: truncate_time_def utc_def)

subsection \<open>Results\<close>

text \<open>The early return \<open>if err != nil { return err }\<close>, and the wrapping of one package's errors in another's.\<close>

fun rbind :: "'e + 'a \<Rightarrow> ('a \<Rightarrow> 'e + 'b) \<Rightarrow> 'e + 'b" where
  "rbind (Inl e) f = Inl e"
| "rbind (Inr x) f = f x"

fun err_map :: "('e \<Rightarrow> 'f) \<Rightarrow> 'e + 'a \<Rightarrow> 'f + 'a" where
  "err_map h (Inl e) = Inl (h e)"
| "err_map h (Inr x) = Inr x"

lemma rbind_eq_Inr [simp]: "rbind m f = Inr y \<longleftrightarrow> (\<exists>x. m = Inr x \<and> f x = Inr y)"
  by (cases m) auto

lemma rbind_eq_Inl: "rbind m f = Inl e \<longleftrightarrow> m = Inl e \<or> (\<exists>x. m = Inr x \<and> f x = Inl e)"
  by (cases m) auto

lemma rbind_cong: "m = n \<Longrightarrow> (\<And>x. n = Inr x \<Longrightarrow> f x = g x) \<Longrightarrow> rbind m f = rbind n g"
  by (cases n) auto

lemma err_map_eq_Inr [simp]: "err_map h m = Inr y \<longleftrightarrow> m = Inr y"
  by (cases m) auto

lemma err_map_eq_Inl [simp]: "err_map h m = Inl f \<longleftrightarrow> (\<exists>e. m = Inl e \<and> f = h e)"
  by (cases m) auto

lemma find_SomeD: "find P xs = Some x \<Longrightarrow> P x \<and> x \<in> set xs"
  by (induction xs) (auto split: if_splits)

lemma if_Inl_eq_Inr [simp]: "(if c then Inl e else r) = Inr y \<longleftrightarrow> \<not> c \<and> r = Inr y"
  by simp

end
