(* ===== verification/GoText.thy ===== *)
theory GoText
  imports Prelude "HOL-Library.Sublist"
begin

section \<open>Go strings: bytes, runes, white space, line endings\<close>

text \<open>
  A Go string is a byte sequence, which is what HOL's \<open>string\<close> is (a \<open>char\<close> is one of 256
  bytes).  This theory models the parts of Go's standard library the program's text rules
  use: UTF-8 decoding as \<open>range\<close> and \<open>utf8.RuneCountInString\<close> do it (an invalid byte
  is one U+FFFD), \<open>unicode.IsSpace\<close>, \<open>unicode.IsControl\<close>, \<open>strings.TrimSpace\<close> and
  \<open>strings.ReplaceAll\<close> with a non-empty pattern; then the line-ending and control-character
  rules the domain packages share.
\<close>

subsection \<open>UTF-8 decoding\<close>

abbreviation byte :: "char \<Rightarrow> nat" where
  "byte c \<equiv> of_char c"

definition cont_byte :: "nat \<Rightarrow> bool" where
  "cont_byte b \<longleftrightarrow> 0x80 \<le> b \<and> b \<le> 0xBF"

definition second_ok :: "nat \<Rightarrow> nat \<Rightarrow> bool" where
  "second_ok b0 b1 \<longleftrightarrow>
     (if b0 = 0xE0 then 0xA0 \<le> b1 \<and> b1 \<le> 0xBF
      else if b0 = 0xED then 0x80 \<le> b1 \<and> b1 \<le> 0x9F
      else if b0 = 0xF0 then 0x90 \<le> b1 \<and> b1 \<le> 0xBF
      else if b0 = 0xF4 then 0x80 \<le> b1 \<and> b1 \<le> 0x8F
      else cont_byte b1)"

definition rune_error :: nat where
  "rune_error = 0xFFFD"

text \<open>\<open>utf8.DecodeRuneInString\<close>: the first rune and the bytes it takes.\<close>

fun decode_rune :: "string \<Rightarrow> nat \<times> nat" where
  "decode_rune [] = (rune_error, 0)"
| "decode_rune (c0 # cs) =
     (let b0 = byte c0 in
      if b0 < 0x80 then (b0, 1)
      else if 0xC2 \<le> b0 \<and> b0 \<le> 0xDF then
        (case cs of
           c1 # _ \<Rightarrow> if cont_byte (byte c1) then ((b0 - 0xC0) * 64 + (byte c1 - 0x80), 2)
                      else (rune_error, 1)
         | _ \<Rightarrow> (rune_error, 1))
      else if 0xE0 \<le> b0 \<and> b0 \<le> 0xEF then
        (case cs of
           c1 # c2 # _ \<Rightarrow>
             if second_ok b0 (byte c1) \<and> cont_byte (byte c2)
             then ((b0 - 0xE0) * 4096 + (byte c1 - 0x80) * 64 + (byte c2 - 0x80), 3)
             else (rune_error, 1)
         | _ \<Rightarrow> (rune_error, 1))
      else if 0xF0 \<le> b0 \<and> b0 \<le> 0xF4 then
        (case cs of
           c1 # c2 # c3 # _ \<Rightarrow>
             if second_ok b0 (byte c1) \<and> cont_byte (byte c2) \<and> cont_byte (byte c3)
             then ((b0 - 0xF0) * 262144 + (byte c1 - 0x80) * 4096 + (byte c2 - 0x80) * 64
                     + (byte c3 - 0x80), 4)
             else (rune_error, 1)
         | _ \<Rightarrow> (rune_error, 1))
      else (rune_error, 1))"

lemma decode_rune_size:
  "s \<noteq> [] \<Longrightarrow> 1 \<le> snd (decode_rune s) \<and> snd (decode_rune s) \<le> length s"
  by (cases s rule: decode_rune.cases) (auto simp: Let_def split: list.splits)

lemma decode_rune_ascii: "byte c < 0x80 \<Longrightarrow> decode_rune (c # cs) = (byte c, 1)"
  by simp

declare decode_rune.simps(2) [simp del]

lemmas decode_rune_code = decode_rune.simps second_ok_def cont_byte_def rune_error_def

text \<open>\<open>for offset, rune := range s\<close>: the runes with their byte offsets.\<close>

function range_from :: "nat \<Rightarrow> string \<Rightarrow> (nat \<times> nat) list" where
  "range_from off [] = []"
| "range_from off (c # cs) =
     (let (r, k) = decode_rune (c # cs)
      in (off, r) # range_from (off + k) (drop k (c # cs)))"
  by pat_completeness auto
termination
proof (relation "measure (\<lambda>(off, s). length s)", goal_cases)
  case (2 off c cs x r k)
  then have "1 \<le> k" using decode_rune_size[of "c # cs"] by (simp add: prod_eq_iff)
  then show ?case by simp
qed simp

declare range_from.simps(2) [simp del]

definition runes :: "string \<Rightarrow> nat list" where
  "runes s = map snd (range_from 0 s)"

definition rune_count :: "string \<Rightarrow> nat" where
  "rune_count s = length (runes s)"

lemma map_snd_range_from: "map snd (range_from n s) = map snd (range_from m s)"
proof (induction n s arbitrary: m rule: range_from.induct)
  case (1 off)
  show ?case by simp
next
  case (2 off c cs)
  obtain r k where rk: "decode_rune (c # cs) = (r, k)" by fastforce
  have "map snd (range_from (off + k) (drop k (c # cs))) =
        map snd (range_from (m + k) (drop k (c # cs)))"
    using 2[OF rk[symmetric] refl] by blast
  then show ?case by (simp only: range_from.simps(2) rk Let_def prod.case list.map snd_conv)
qed

lemma runes_Nil [simp]: "runes [] = []"
  by (simp add: runes_def)

lemma runes_step: "decode_rune (c # cs) = (r, k) \<Longrightarrow> runes (c # cs) = r # runes (drop k (c # cs))"
  by (simp add: runes_def range_from.simps(2) map_snd_range_from[of k _ 0])

lemma runes_ascii [simp]: "byte c < 0x80 \<Longrightarrow> runes (c # cs) = byte c # runes cs"
  using runes_step[OF decode_rune_ascii] by simp

lemma range_from_ascii:
  "byte c < 0x80 \<Longrightarrow> range_from off (c # cs) = (off, byte c) # range_from (Suc off) cs"
  by (simp add: range_from.simps(2) decode_rune_ascii)

lemma runes_eq_Nil [simp]: "runes s = [] \<longleftrightarrow> s = []"
  by (cases s) (auto simp: runes_def range_from.simps(2) split: prod.splits)

lemma rune_count_le: "rune_count s \<le> length s"
proof (induction "length s" arbitrary: s rule: less_induct)
  case less
  show ?case
  proof (cases s)
    case (Cons c cs)
    obtain r k where rk: "decode_rune s = (r, k)" by fastforce
    then have k: "1 \<le> k" "k \<le> length s" using decode_rune_size[of s] Cons by auto
    then have "rune_count (drop k s) \<le> length (drop k s)" by (intro less) auto
    then show ?thesis using runes_step[of c cs r k] rk k Cons by (simp add: rune_count_def)
  qed (simp add: rune_count_def)
qed

subsection \<open>White space and control characters\<close>

definition is_space :: "nat \<Rightarrow> bool" where
  "is_space r \<longleftrightarrow>
     (9 \<le> r \<and> r \<le> 13) \<or> r = 0x20 \<or> r = 0x85 \<or> r = 0xA0 \<or> r = 0x1680 \<or>
     (0x2000 \<le> r \<and> r \<le> 0x200A) \<or> r = 0x2028 \<or> r = 0x2029 \<or> r = 0x202F \<or> r = 0x205F \<or>
     r = 0x3000"

lemma rune_error_not_space [simp]: "\<not> is_space rune_error"
  by (simp add: is_space_def rune_error_def)

definition is_control :: "nat \<Rightarrow> bool" where
  "is_control r \<longleftrightarrow> r < 0x20 \<or> (0x7F \<le> r \<and> r < 0xA0)"

text \<open>\<open>utf8.DecodeLastRuneInString\<close>: the suffix that is one whole rune, else one invalid byte.\<close>

definition last_rune :: "string \<Rightarrow> nat \<times> nat" where
  "last_rune s =
     (case find (\<lambda>k. k \<le> length s \<and> snd (decode_rune (drop (length s - k) s)) = k
                     \<and> (k = 1 \<longrightarrow> byte (last s) < 0x80)) [1, 2, 3, 4] of
        Some k \<Rightarrow> decode_rune (drop (length s - k) s)
      | None \<Rightarrow> (rune_error, if s = [] then 0 else 1))"

lemma last_rune_size: "s \<noteq> [] \<Longrightarrow> 1 \<le> snd (last_rune s) \<and> snd (last_rune s) \<le> length s"
  by (auto simp: last_rune_def Suc_le_eq dest: find_SomeD split: option.splits)

subsection \<open>strings.TrimSpace\<close>

function trim_left :: "string \<Rightarrow> string" where
  "trim_left [] = []"
| "trim_left (c # cs) =
     (let (r, k) = decode_rune (c # cs)
      in if is_space r then trim_left (drop k (c # cs)) else c # cs)"
  by pat_completeness auto
termination
proof (relation "measure length", goal_cases)
  case (2 c cs x r k)
  then have "1 \<le> k" using decode_rune_size[of "c # cs"] by (simp add: prod_eq_iff)
  then show ?case by simp
qed simp

function trim_right :: "string \<Rightarrow> string" where
  "trim_right [] = []"
| "trim_right (c # cs) =
     (let (r, k) = last_rune (c # cs)
      in if is_space r then trim_right (take (length (c # cs) - k) (c # cs)) else c # cs)"
  by pat_completeness auto
termination
proof (relation "measure length", goal_cases)
  case (2 c cs x r k)
  then have "1 \<le> k" using last_rune_size[of "c # cs"] by (simp add: prod_eq_iff)
  then show ?case by simp
qed simp

declare trim_left.simps(2) [simp del] trim_right.simps(2) [simp del]

definition trim_space :: "string \<Rightarrow> string" where
  "trim_space s = trim_right (trim_left s)"

lemma trim_space_Nil [simp]: "trim_space [] = []"
  by (simp add: trim_space_def)

lemma trim_left_all_space: "trim_left s = [] \<longleftrightarrow> (\<forall>r\<in>set (runes s). is_space r)"
proof (induction s rule: trim_left.induct)
  case 1
  show ?case by simp
next
  case (2 c cs)
  obtain r k where rk: "decode_rune (c # cs) = (r, k)" by fastforce
  show ?case
  proof (cases "is_space r")
    case True
    then show ?thesis using 2[OF rk[symmetric] refl True] rk runes_step[OF rk]
      by (simp add: trim_left.simps(2))
  next
    case False
    then show ?thesis using rk runes_step[OF rk] by (simp add: trim_left.simps(2))
  qed
qed

lemma trim_left_step:
  assumes "trim_left s \<noteq> []"
  shows "\<not> is_space (fst (decode_rune (trim_left s)))"
  using assms
proof (induction s rule: trim_left.induct)
  case (2 c cs)
  obtain r k where rk: "decode_rune (c # cs) = (r, k)" by fastforce
  then show ?case using 2 by (cases "is_space r") (simp_all add: trim_left.simps(2))
qed simp

text \<open>
  Trimming on the right never eats the rune the left trim stopped at: a prefix of the text
  starts with the same rune, or with an undecodable byte, which is not white space.
\<close>

lemma list5_cases:
  obtains "t = []" | a where "t = [a]" | a b where "t = [a, b]"
    | a b c where "t = [a, b, c]" | a b c d ts where "t = a # b # c # d # ts"
  by (metis list.exhaust)

lemma decode_rune_take:
  assumes "0 < m"
  shows "fst (decode_rune (take m t)) = fst (decode_rune t) \<or>
    fst (decode_rune (take m t)) = rune_error"
proof -
  from assms have "m = 1 \<or> m = 2 \<or> m = 3 \<or> (\<exists>n. m = Suc (Suc (Suc (Suc n))))"
    by presburger
  then show ?thesis
    by (elim disjE exE; cases rule: list5_cases [of t]) (simp_all add: decode_rune.simps(2) Let_def)
qed

lemma last_rune_whole:
  assumes "last_rune t = (r, length t)" "t \<noteq> []"
  shows "r = fst (decode_rune t) \<or> r = rune_error"
proof (cases "find (\<lambda>k. k \<le> length t \<and> snd (decode_rune (drop (length t - k) t)) = k
                     \<and> (k = 1 \<longrightarrow> byte (last t) < 0x80)) [1, 2, 3, 4]")
  case None
  then show ?thesis using assms by (simp add: last_rune_def)
next
  case (Some k)
  then have lr: "decode_rune (drop (length t - k) t) = (r, length t)"
    using assms(1) unfolding last_rune_def by (simp only: option.case)
  moreover have "snd (decode_rune (drop (length t - k) t)) = k"
    using find_SomeD[OF Some] by blast
  ultimately have "k = length t" by (simp only: snd_conv)
  then have "decode_rune t = (r, length t)" using lr by (simp only: diff_self_eq_0 drop_0)
  then show ?thesis by (simp only: fst_conv simp_thms)
qed

lemma trim_right_keeps:
  assumes "t \<noteq> []" "\<not> is_space (fst (decode_rune t))"
  shows "trim_right t \<noteq> []"
  using assms
proof (induction t rule: trim_right.induct)
  case (2 c cs)
  obtain r k where rk: "last_rune (c # cs) = (r, k)" by fastforce
  then have k: "1 \<le> k" "k \<le> length (c # cs)" using last_rune_size[of "c # cs"] by auto
  show ?case
  proof (cases "is_space r")
    case True
    have "k \<noteq> length (c # cs)"
    proof
      assume "k = length (c # cs)"
      with rk have "last_rune (c # cs) = (r, length (c # cs))" by (simp only:)
      from last_rune_whole[OF this list.distinct(2)] True 2(3) show False
        by (elim disjE) (simp_all only: rune_error_not_space)
    qed
    then have m: "0 < length (c # cs) - k" using k by linarith
    then have "\<not> is_space (fst (decode_rune (take (length (c # cs) - k) (c # cs))))"
      using decode_rune_take[OF m, of "c # cs"] 2(3) rune_error_not_space by metis
    moreover have "take (length (c # cs) - k) (c # cs) \<noteq> []" using m by (simp del: length_Cons)
    ultimately show ?thesis
      using 2(1)[OF rk[symmetric] refl True] True rk by (simp add: trim_right.simps(2))
  next
    case False
    then show ?thesis using rk by (simp add: trim_right.simps(2))
  qed
qed simp

lemma trim_space_empty_iff: "trim_space s = [] \<longleftrightarrow> (\<forall>r\<in>set (runes s). is_space r)"
proof (cases "trim_left s = []")
  case True
  then show ?thesis using trim_left_all_space[of s] by (simp add: trim_space_def)
next
  case False
  then have "trim_space s \<noteq> []"
    unfolding trim_space_def by (rule trim_right_keeps) (rule trim_left_step[OF False])
  then show ?thesis using trim_left_all_space[of s] False by simp
qed

subsection \<open>Runes of concatenations and of trimmed texts\<close>

text \<open>Decoding is aligned at every byte that does not continue a rune.\<close>

lemma second_ok_cont: "second_ok b0 b1 \<Longrightarrow> cont_byte b1"
  by (auto simp: second_ok_def cont_byte_def split: if_splits)

lemma decode_rune_append:
  assumes "a \<noteq> []" "\<not> cont_byte (byte c)"
  shows "decode_rune (a @ c # b) = decode_rune a"
proof -
  have "\<not> second_ok x (byte c)" for x using assms(2) second_ok_cont by blast
  with assms show ?thesis
    by (cases rule: list5_cases [of a])
      (simp_all add: decode_rune.simps(2) Let_def split: list.splits)
qed

lemma runes_append:
  assumes "\<not> cont_byte (byte c)"
  shows "runes (a @ c # b) = runes a @ runes (c # b)"
proof (induction "length a" arbitrary: a rule: less_induct)
  case less
  show ?case
  proof (cases a)
    case (Cons x xs)
    obtain r k where rk: "decode_rune a = (r, k)" by fastforce
    then have k: "1 \<le> k" "k \<le> length a" using decode_rune_size[of a] Cons by auto
    have "decode_rune (a @ c # b) = (r, k)" using rk Cons assms by (subst decode_rune_append) auto
    moreover have "drop k (a @ c # b) = drop k a @ c # b" using k by simp
    ultimately have "runes (a @ c # b) = r # runes (drop k a @ c # b)"
      using runes_step[of x "xs @ c # b" r k] Cons by (simp only: append_Cons)
    also have "runes (drop k a @ c # b) = runes (drop k a) @ runes (c # b)"
      using k Cons by (intro less) auto
    also have "r # runes (drop k a) @ runes (c # b) = runes a @ runes (c # b)"
      using runes_step[of x xs r k] Cons rk by simp
    finally show ?thesis .
  qed simp
qed

lemma cont_not_ascii: "byte c < 0x80 \<Longrightarrow> \<not> cont_byte (byte c)"
  by (simp add: cont_byte_def)

lemma runes_ascii_append:
  "\<forall>c\<in>set a. byte c < 0x80 \<Longrightarrow> runes (a @ b) = map of_char a @ runes b"
  by (induction a) auto

lemma trim_left_runes: "set (runes (trim_left s)) \<subseteq> set (runes s)"
proof (induction s rule: trim_left.induct)
  case (2 c cs)
  obtain r k where rk: "decode_rune (c # cs) = (r, k)" by fastforce
  then show ?case using 2[OF rk[symmetric] refl] runes_step[OF rk]
    by (cases "is_space r") (auto simp: trim_left.simps(2))
qed simp

text \<open>Cutting the last rune off: it starts at a byte that does not continue a rune.\<close>

lemma decode_rune_lead:
  "decode_rune (c # cs) = (r, k) \<Longrightarrow> r \<noteq> rune_error \<Longrightarrow> \<not> cont_byte (byte c)"
  by (auto simp: decode_rune.simps(2) Let_def cont_byte_def split: if_splits)

lemma last_rune_cut:
  assumes "last_rune s = (r, k)" "r \<noteq> rune_error"
  shows "runes s = runes (take (length s - k) s) @ runes (drop (length s - k) s)"
proof -
  have "s \<noteq> []" using assms by (auto simp: last_rune_def decode_rune.simps(1) split: option.splits)
  then have k: "1 \<le> k" "k \<le> length s" using last_rune_size[of s] assms by auto
  obtain j where j: "decode_rune (drop (length s - j) s) = (r, k)"
      "snd (decode_rune (drop (length s - j) s)) = j"
    using assms by (auto simp: last_rune_def dest!: find_SomeD split: option.splits if_splits)
  then have j: "decode_rune (drop (length s - k) s) = (r, k)" by simp
  obtain c cs where cs: "drop (length s - k) s = c # cs"
    using k by (cases "drop (length s - k) s") auto
  have "\<not> cont_byte (byte c)" using decode_rune_lead j cs assms(2) by metis
  then have "runes (take (length s - k) s @ c # cs) = runes (take (length s - k) s) @ runes (c # cs)"
    by (rule runes_append)
  then show ?thesis using cs by (metis append_take_drop_id)
qed

lemma trim_right_runes: "set (runes (trim_right s)) \<subseteq> set (runes s)"
proof (induction s rule: trim_right.induct)
  case (2 c cs)
  obtain r k where rk: "last_rune (c # cs) = (r, k)" by fastforce
  show ?case
  proof (cases "is_space r")
    case True
    then have "r \<noteq> rune_error" by auto
    from last_rune_cut[OF rk this]
    have "set (runes (take (length (c # cs) - k) (c # cs))) \<subseteq> set (runes (c # cs))"
      by (metis Un_upper1 set_append)
    then show ?thesis using 2[OF rk[symmetric] refl True] rk True
      by (auto simp: trim_right.simps(2))
  next
    case False
    then show ?thesis using rk by (simp add: trim_right.simps(2))
  qed
qed simp

lemma trim_space_runes: "set (runes (trim_space s)) \<subseteq> set (runes s)"
  using trim_left_runes trim_right_runes unfolding trim_space_def by blast

lemma trim_left_bytes: "set (trim_left s) \<subseteq> set s"
proof (induction s rule: trim_left.induct)
  case (2 c cs)
  obtain r k where rk: "decode_rune (c # cs) = (r, k)" by fastforce
  have "set (drop k (c # cs)) \<subseteq> set (c # cs)" by (rule set_drop_subset)
  then show ?case using 2[OF rk[symmetric] refl] rk
    by (cases "is_space r") (auto simp: trim_left.simps(2))
qed simp

lemma trim_right_bytes: "set (trim_right s) \<subseteq> set s"
proof (induction s rule: trim_right.induct)
  case (2 c cs)
  obtain r k where rk: "last_rune (c # cs) = (r, k)" by fastforce
  have "set (take (length (c # cs) - k) (c # cs)) \<subseteq> set (c # cs)" by (rule set_take_subset)
  then show ?case using 2[OF rk[symmetric] refl] rk
    by (cases "is_space r") (auto simp: trim_right.simps(2))
qed simp

lemma trim_space_bytes: "set (trim_space s) \<subseteq> set s"
  using trim_left_bytes trim_right_bytes unfolding trim_space_def by blast

subsection \<open>strings.ReplaceAll and line endings\<close>

text \<open>Replacement of every occurrence, left to right; the program's patterns are non-empty.\<close>

function replace_all :: "string \<Rightarrow> string \<Rightarrow> string \<Rightarrow> string" where
  "replace_all old new [] = []"
| "replace_all old new (c # cs) =
     (if old \<noteq> [] \<and> prefix old (c # cs)
      then new @ replace_all old new (drop (length old) (c # cs))
      else c # replace_all old new cs)"
  by pat_completeness auto
termination
  by (relation "measure (\<lambda>(old, new, s). length s)") (auto simp: length_greater_0_conv)

declare replace_all.simps(2) [simp del]

abbreviation CR :: char where "CR \<equiv> CHR 0x0D"
abbreviation LF :: char where "LF \<equiv> CHR 0x0A"

definition normalizeLineEndings :: "string \<Rightarrow> string" where
  "normalizeLineEndings value = replace_all [CR] [LF] (replace_all [CR, LF] [LF] value)"

lemma replace_CR_map: "replace_all [CR] [LF] s = map (\<lambda>c. if c = CR then LF else c) s"
  by (induction s) (auto simp: replace_all.simps(2))

lemma replace_CRLF_id: "CR \<notin> set s \<Longrightarrow> replace_all [CR, LF] [LF] s = s"
  by (induction s) (auto simp: replace_all.simps(2))

lemma normalize_no_CR [simp]: "CR \<notin> set (normalizeLineEndings s)"
  by (auto simp: normalizeLineEndings_def replace_CR_map split: if_splits)

lemma normalize_id: "CR \<notin> set s \<Longrightarrow> normalizeLineEndings s = s"
  by (auto simp: normalizeLineEndings_def replace_CRLF_id replace_CR_map intro: map_idI)

lemma normalize_idem [simp]:
  "normalizeLineEndings (normalizeLineEndings s) = normalizeLineEndings s"
  by (rule normalize_id) simp

lemma normalize_Nil [simp]: "normalizeLineEndings [] = []"
  by (simp add: normalizeLineEndings_def)

text \<open>The line-based reading: \<open>\r\n\<close>, a lone \<open>\r\<close> and \<open>\n\<close> all end a line.\<close>

fun split_lines :: "string \<Rightarrow> string" where
  "split_lines (c # d # cs) =
     (if c = CR then LF # split_lines (if d = LF then cs else d # cs)
      else c # split_lines (d # cs))"
| "split_lines [c] = [if c = CR then LF else c]"
| "split_lines [] = []"

lemma normalize_split_lines: "normalizeLineEndings s = split_lines s"
  unfolding normalizeLineEndings_def replace_CR_map
  by (induction s rule: split_lines.induct) (auto simp: replace_all.simps(2))

subsection \<open>The control-character rule\<close>

text \<open>
  Rejected are NUL, the C0 controls other than line feed and tab, and DEL: the loop that
  \<open>NormalizeAndValidateText\<close>, \<open>NormalizeText\<close> and \<open>NormalizeSuccessSignal\<close> share.
\<close>

definition forbidden_rune :: "nat \<Rightarrow> bool" where
  "forbidden_rune r \<longleftrightarrow> r = 0 \<or> (r < 0x20 \<and> r \<noteq> 10 \<and> r \<noteq> 9) \<or> r = 0x7F"

definition has_forbidden :: "string \<Rightarrow> bool" where
  "has_forbidden s \<longleftrightarrow> list_ex forbidden_rune (runes s)"

lemma has_forbidden_Nil [simp]: "\<not> has_forbidden []"
  by (simp add: has_forbidden_def)

lemma rune_count_Nil [simp]: "rune_count [] = 0"
  by (simp add: rune_count_def)

text \<open>What the validated texts of the program have in common, for a limit on the code points.\<close>

definition text_ok :: "nat \<Rightarrow> string \<Rightarrow> bool" where
  "text_ok limit s \<longleftrightarrow> CR \<notin> set s \<and> \<not> has_forbidden s \<and> rune_count s \<le> limit"

lemma text_ok_Nil [simp]: "text_ok n []"
  by (simp add: text_ok_def)

lemma text_ok_normalized: "text_ok n s \<Longrightarrow> normalizeLineEndings s = s"
  by (simp add: text_ok_def normalize_id)

lemma text_ok_mono: "text_ok m s \<Longrightarrow> m \<le> n \<Longrightarrow> text_ok n s"
  by (auto simp: text_ok_def)

lemma forbidden_control: "forbidden_rune r \<Longrightarrow> is_control r \<and> r \<noteq> 10 \<and> r \<noteq> 9"
  by (auto simp: forbidden_rune_def is_control_def)

lemmas text_eval =
  runes_def range_from.simps(2) decode_rune.simps(2) cont_byte_def second_ok_def rune_error_def
  Let_def rune_count_def has_forbidden_def forbidden_rune_def is_space_def is_control_def
  trim_space_def trim_left.simps(2) trim_right.simps(2) last_rune_def
  normalize_split_lines

end
