(* ===== verification/CycleDomain.thy ===== *)
theory CycleDomain
  imports GoText
begin

section \<open>The PDCA cycle\<close>

text \<open>
  Model of \<open>backend/internal/domain/cycle/cycle.go\<close>: the cycle record with its four frames,
  their revision counters, its review schedule and its life cycle
  (active, then completed or canceled).  The Go types \<open>Status\<close>, \<open>CancellationReason\<close>,
  \<open>Frame\<close> and \<open>ReviewDate\<close> are strings with named constants, and so they are here: a value
  read from a client or from the database can be any string, and the default branches of the
  code stay visible.
\<close>

datatype cycle_error =
    ErrInvalidFrame | ErrInvalidReviewDate | ErrFrameTextTooLong | ErrForbiddenCharacter
  | ErrCycleNotActive | ErrRevisionConflict | ErrCycleIncomplete | ErrAIOperationRunning

definition MaxFrameCodePoints :: nat where
  "MaxFrameCodePoints = 200"

type_synonym cycle_status = string

abbreviation StatusActive :: cycle_status where "StatusActive \<equiv> ''active''"
abbreviation StatusCompleted :: cycle_status where "StatusCompleted \<equiv> ''completed''"
abbreviation StatusCanceled :: cycle_status where "StatusCanceled \<equiv> ''canceled''"

type_synonym cancellation_reason = string

abbreviation CancellationGoalAchieved :: cancellation_reason where
  "CancellationGoalAchieved \<equiv> ''goal_achieved''"
abbreviation CancellationGoalEnded :: cancellation_reason where
  "CancellationGoalEnded \<equiv> ''goal_ended''"
abbreviation CancellationReplanned :: cancellation_reason where
  "CancellationReplanned \<equiv> ''replanned''"

type_synonym frame = string

abbreviation FramePlan :: frame where "FramePlan \<equiv> ''plan''"
abbreviation FrameDo :: frame where "FrameDo \<equiv> ''do''"
abbreviation FrameCheck :: frame where "FrameCheck \<equiv> ''check''"
abbreviation FrameAction :: frame where "FrameAction \<equiv> ''action''"

definition allFrames :: "frame list" where
  "allFrames = [FramePlan, FrameDo, FrameCheck, FrameAction]"

type_synonym review_date = string

record Revisions =
  rev_Content :: i64
  rev_Plan :: i64
  rev_Do :: i64
  rev_Check :: i64
  rev_Action :: i64

definition zero_Revisions :: Revisions where
  "zero_Revisions = \<lparr>rev_Content = 0, rev_Plan = 0, rev_Do = 0, rev_Check = 0, rev_Action = 0\<rparr>"

record PDCACycle =
  cy_ID :: string
  cy_UserID :: string
  cy_GoalID :: string
  cy_GoalVersionID :: string
  cy_SequenceNumber :: i32
  cy_Status :: cycle_status
  cy_StartedAt :: gotime
  cy_CompletedAt :: "gotime option"
  cy_CanceledAt :: "gotime option"
  cy_CancellationReason :: "cancellation_reason option"
  cy_Plan :: string
  cy_Do :: string
  cy_Check :: string
  cy_Action :: string
  cy_Revisions :: Revisions
  cy_ReviewDate :: "review_date option"
  cy_ReviewScheduleRevision :: i64
  cy_ActionLastAIRevision :: "i64 option"
  cy_ActionModifiedAfterAI :: bool
  cy_StartOperationID :: string
  cy_StartRequestHash :: string
  cy_CompletionOperationID :: "string option"
  cy_CompletionRequestHash :: "string option"
  cy_CreatedAt :: gotime
  cy_UpdatedAt :: gotime

record SaveFrameOutcome =
  sf_Cycle :: PDCACycle
  sf_Frame :: frame
  sf_Content :: string
  sf_NoOp :: bool
  sf_SavedAt :: gotime

record ChangeReviewScheduleOutcome =
  crs_Cycle :: PDCACycle
  crs_NoOp :: bool

definition cycle_New ::
  "string \<Rightarrow> string \<Rightarrow> string \<Rightarrow> string \<Rightarrow> i32 \<Rightarrow> string \<Rightarrow> string \<Rightarrow> gotime \<Rightarrow> PDCACycle" where
  "cycle_New ident userID goalID goalVersionID sequence operationID requestHash now0 =
     (let now = utc now0 in
      \<lparr>cy_ID = ident, cy_UserID = userID, cy_GoalID = goalID, cy_GoalVersionID = goalVersionID,
       cy_SequenceNumber = sequence, cy_Status = StatusActive, cy_StartedAt = now,
       cy_CompletedAt = None, cy_CanceledAt = None, cy_CancellationReason = None,
       cy_Plan = [], cy_Do = [], cy_Check = [], cy_Action = [],
       cy_Revisions = zero_Revisions, cy_ReviewDate = None, cy_ReviewScheduleRevision = 0,
       cy_ActionLastAIRevision = None, cy_ActionModifiedAfterAI = False,
       cy_StartOperationID = operationID, cy_StartRequestHash = requestHash,
       cy_CompletionOperationID = None, cy_CompletionRequestHash = None,
       cy_CreatedAt = now, cy_UpdatedAt = now\<rparr>)"

lemma cycle_New_sel [simp]:
  "cy_ID (cycle_New a u g v n op h now) = a"
  "cy_UserID (cycle_New a u g v n op h now) = u"
  "cy_GoalID (cycle_New a u g v n op h now) = g"
  "cy_GoalVersionID (cycle_New a u g v n op h now) = v"
  "cy_SequenceNumber (cycle_New a u g v n op h now) = n"
  "cy_Status (cycle_New a u g v n op h now) = StatusActive"
  "cy_StartedAt (cycle_New a u g v n op h now) = utc now"
  "cy_CompletedAt (cycle_New a u g v n op h now) = None"
  "cy_CanceledAt (cycle_New a u g v n op h now) = None"
  "cy_CancellationReason (cycle_New a u g v n op h now) = None"
  "cy_Plan (cycle_New a u g v n op h now) = []"
  "cy_Do (cycle_New a u g v n op h now) = []"
  "cy_Check (cycle_New a u g v n op h now) = []"
  "cy_Action (cycle_New a u g v n op h now) = []"
  "cy_Revisions (cycle_New a u g v n op h now) = zero_Revisions"
  "cy_ReviewDate (cycle_New a u g v n op h now) = None"
  "cy_ReviewScheduleRevision (cycle_New a u g v n op h now) = 0"
  "cy_ActionLastAIRevision (cycle_New a u g v n op h now) = None"
  "cy_ActionModifiedAfterAI (cycle_New a u g v n op h now) = False"
  "cy_StartOperationID (cycle_New a u g v n op h now) = op"
  "cy_StartRequestHash (cycle_New a u g v n op h now) = h"
  "cy_CompletionOperationID (cycle_New a u g v n op h now) = None"
  "cy_CompletionRequestHash (cycle_New a u g v n op h now) = None"
  "cy_CreatedAt (cycle_New a u g v n op h now) = utc now"
  "cy_UpdatedAt (cycle_New a u g v n op h now) = utc now"
  by (simp_all add: cycle_New_def Let_def)

lemma cycle_New_utc [simp]: "cycle_New a u g v n op h (utc now) = cycle_New a u g v n op h now"
  by (simp add: cycle_New_def)

definition ParseFrame :: "string \<Rightarrow> cycle_error + frame" where
  "ParseFrame value =
     (case find (\<lambda>candidate. value = candidate) allFrames of
        Some _ \<Rightarrow> Inr value
      | None \<Rightarrow> Inl ErrInvalidFrame)"

lemma ParseFrame_Inr: "ParseFrame v = Inr f \<longleftrightarrow> f = v \<and> v \<in> set allFrames"
  by (auto simp: ParseFrame_def allFrames_def)

lemma ParseFrame_known: "v \<in> set allFrames \<Longrightarrow> ParseFrame v = Inr v"
  by (simp add: ParseFrame_Inr)

lemma ParseFrame_unknown: "v \<notin> set allFrames \<Longrightarrow> ParseFrame v = Inl ErrInvalidFrame"
  by (auto simp: ParseFrame_def find_None_iff split: option.splits)

subsection \<open>Review dates\<close>

text \<open>
  \<open>time.Parse("2006-01-02", _)\<close> wants four, two and two digits with dashes between them, a
  month from 1 to 12 and a day the month has in that year; \<open>Format\<close> writes them back padded.
\<close>

definition is_leap :: "nat \<Rightarrow> bool" where
  "is_leap y \<longleftrightarrow> y mod 4 = 0 \<and> (y mod 100 \<noteq> 0 \<or> y mod 400 = 0)"

definition days_in :: "nat \<Rightarrow> nat \<Rightarrow> nat" where
  "days_in m y = (if m = 2 then if is_leap y then 29 else 28
                  else if m \<in> {4, 6, 9, 11} then 30 else 31)"

definition valid_ymd :: "nat \<Rightarrow> nat \<Rightarrow> nat \<Rightarrow> bool" where
  "valid_ymd y m d \<longleftrightarrow> 1 \<le> m \<and> m \<le> 12 \<and> 1 \<le> d \<and> d \<le> days_in m y"

definition is_digit :: "nat \<Rightarrow> bool" where
  "is_digit r \<longleftrightarrow> 48 \<le> r \<and> r \<le> 57"

definition digit_char :: "nat \<Rightarrow> char" where
  "digit_char n = char_of (48 + n mod 10)"

fun time_parse_date :: "string \<Rightarrow> (nat \<times> nat \<times> nat) option" where
  "time_parse_date [y1, y2, y3, y4, s1, m1, m2, s2, d1, d2] =
     (if list_all (\<lambda>c. is_digit (byte c)) [y1, y2, y3, y4, m1, m2, d1, d2] \<and>
         s1 = CHR ''-'' \<and> s2 = CHR ''-''
      then let num = (\<lambda>c. byte c - 48);
               y = num y1 * 1000 + num y2 * 100 + num y3 * 10 + num y4;
               m = num m1 * 10 + num m2;
               d = num d1 * 10 + num d2
           in if valid_ymd y m d then Some (y, m, d) else None
      else None)"
| "time_parse_date _ = None"

definition time_format_date :: "nat \<Rightarrow> nat \<Rightarrow> nat \<Rightarrow> string" where
  "time_format_date y m d =
     [digit_char (y div 1000), digit_char (y div 100), digit_char (y div 10), digit_char y,
      CHR ''-'', digit_char (m div 10), digit_char m, CHR ''-'', digit_char (d div 10), digit_char d]"

definition ParseReviewDate :: "string \<Rightarrow> cycle_error + review_date" where
  "ParseReviewDate value =
     (if length value \<noteq> length ''2006-01-02'' then Inl ErrInvalidReviewDate
      else if list_ex (\<lambda>(index, character).
                 if index = 4 \<or> index = 7 then character \<noteq> byte (CHR ''-'')
                 else character < byte (CHR ''0'') \<or> byte (CHR ''9'') < character)
                (range_from 0 value)
      then Inl ErrInvalidReviewDate
      else case time_parse_date value of
        None \<Rightarrow> Inl ErrInvalidReviewDate
      | Some (y, m, d) \<Rightarrow>
          if y < 1 \<or> 9999 < y \<or> time_format_date y m d \<noteq> value then Inl ErrInvalidReviewDate
          else Inr value)"

lemma byte_digit_char [simp]: "byte (digit_char n) = 48 + n mod 10"
proof -
  have "48 + n mod 10 < 256" by (simp add: trans_less_add2)
  then show ?thesis by (simp add: digit_char_def)
qed

lemma valid_ymd_bounds: "valid_ymd y m d \<Longrightarrow> m \<le> 12 \<and> d \<le> 31"
  by (auto simp: valid_ymd_def days_in_def split: if_splits)

lemma div_digit: "(n::nat) div k = n div (k * 10) * 10 + n div k mod 10"
  by (simp add: div_mult2_eq)

lemma digits2:
  assumes "m \<le> (99::nat)"
  shows "m div 10 mod 10 * 10 + m mod 10 = m"
proof -
  have "m div 10 < 10" using assms by simp
  then show ?thesis by simp
qed

lemma digits4:
  assumes "y \<le> (9999::nat)"
  shows "y div 1000 mod 10 * 1000 + y div 100 mod 10 * 100 + y div 10 mod 10 * 10 + y mod 10 = y"
proof -
  have "y div 1000 < 10" using assms by simp
  then have "y div 1000 mod 10 = y div 1000" by simp
  moreover have "y div 10 = y div 100 * 10 + y div 10 mod 10" using div_digit[of y 10] by simp
  moreover have "y div 100 = y div 1000 * 10 + y div 100 mod 10" using div_digit[of y 100] by simp
  moreover have "y = y div 10 * 10 + y mod 10" by simp
  ultimately show ?thesis by linarith
qed

lemma mod10_le_9 [simp]: "(n::nat) mod 10 \<le> 9" "\<not> 9 < (n::nat) mod 10"
  using mod_less_divisor[of 10 n] by linarith+

lemma time_parse_format:
  assumes "y \<le> 9999" "valid_ymd y m d"
  shows "time_parse_date (time_format_date y m d) = Some (y, m, d)"
  using assms valid_ymd_bounds[OF assms(2)] digits4[of y] digits2[of m] digits2[of d]
  by (simp add: time_format_date_def is_digit_def Let_def)

lemma time_parse_valid: "time_parse_date v = Some (y, m, d) \<Longrightarrow> valid_ymd y m d"
  by (induction v rule: time_parse_date.induct) (auto simp: Let_def split: if_splits)

lemma range_format:
  "range_from 0 (time_format_date y m d) =
     [(0, 48 + y div 1000 mod 10), (1, 48 + y div 100 mod 10), (2, 48 + y div 10 mod 10),
      (3, 48 + y mod 10), (4, 45), (5, 48 + m div 10 mod 10), (6, 48 + m mod 10), (7, 45),
      (8, 48 + d div 10 mod 10), (9, 48 + d mod 10)]"
  by (simp add: time_format_date_def range_from_ascii trans_less_add2)

lemma ParseReviewDate_format:
  assumes "1 \<le> y" "y \<le> 9999" "valid_ymd y m d"
  shows "ParseReviewDate (time_format_date y m d) = Inr (time_format_date y m d)"
proof -
  have "\<not> 9 < y div 1000" using assms(2) by simp
  then show ?thesis using assms
    by (simp add: ParseReviewDate_def range_format time_parse_format)
      (simp add: time_format_date_def)
qed

lemma ParseReviewDate_Inr:
  "ParseReviewDate v = Inr w \<Longrightarrow>
     w = v \<and> (\<exists>y m d. 1 \<le> y \<and> y \<le> 9999 \<and> valid_ymd y m d \<and> v = time_format_date y m d)"
  using time_parse_valid[of v]
  by (force simp: ParseReviewDate_def Suc_le_eq not_less split: if_splits option.splits)

text \<open>The dates the program accepts: the calendar dates of the years 1 to 9999, written in full.\<close>

definition calendar_date :: "string \<Rightarrow> bool" where
  "calendar_date v \<longleftrightarrow>
     (\<exists>y m d. 1 \<le> y \<and> y \<le> 9999 \<and> valid_ymd y m d \<and> v = time_format_date y m d)"

lemma ParseReviewDate_total:
  "ParseReviewDate v = Inl ErrInvalidReviewDate \<or> ParseReviewDate v = Inr v"
  by (auto simp: ParseReviewDate_def split: option.splits)

lemma ParseReviewDate_eq:
  "ParseReviewDate v = (if calendar_date v then Inr v else Inl ErrInvalidReviewDate)"
proof (cases "calendar_date v")
  case True
  then show ?thesis by (auto simp: calendar_date_def intro: ParseReviewDate_format)
next
  case False
  then have "ParseReviewDate v \<noteq> Inr v"
    using ParseReviewDate_Inr[of v v] unfolding calendar_date_def by blast
  then show ?thesis using ParseReviewDate_total[of v] False by simp
qed

definition review_date_ok :: "review_date option \<Rightarrow> bool" where
  "review_date_ok r \<longleftrightarrow> (case r of None \<Rightarrow> True | Some v \<Rightarrow> calendar_date v)"

definition reviewScheduleTargetsEqual :: "review_date option \<Rightarrow> review_date option \<Rightarrow> bool" where
  "reviewScheduleTargetsEqual current target =
     (case (current, target) of
        (Some c, Some t) \<Rightarrow> c = t
      | _ \<Rightarrow> current = None \<and> target = None)"

lemma reviewScheduleTargetsEqual_iff [simp]: "reviewScheduleTargetsEqual a b \<longleftrightarrow> a = b"
  by (auto simp: reviewScheduleTargetsEqual_def split: option.splits)

definition ChangeReviewSchedule ::
  "PDCACycle \<Rightarrow> review_date option \<Rightarrow> i64 \<Rightarrow> cycle_error + ChangeReviewScheduleOutcome" where
  "ChangeReviewSchedule current target0 expectedRevision =
     (if cy_Status current \<noteq> StatusActive then Inl ErrCycleNotActive
      else if cy_ReviewScheduleRevision current <s 0 \<or> expectedRevision <s 0
      then Inl ErrRevisionConflict
      else rbind (case cy_ReviewDate current of
                    None \<Rightarrow> Inr ()
                  | Some d \<Rightarrow> rbind (ParseReviewDate d) (\<lambda>_. Inr ())) (\<lambda>_.
        rbind (case target0 of
                 None \<Rightarrow> Inr None
               | Some d \<Rightarrow> rbind (ParseReviewDate d) (\<lambda>parsed. Inr (Some parsed))) (\<lambda>target.
          if reviewScheduleTargetsEqual (cy_ReviewDate current) target
          then Inr \<lparr>crs_Cycle = current, crs_NoOp = True\<rparr>
          else if cy_ReviewScheduleRevision current \<noteq> expectedRevision
          then Inl ErrRevisionConflict
          else Inr \<lparr>crs_Cycle = current\<lparr>cy_ReviewDate := target,
                      cy_ReviewScheduleRevision := cy_ReviewScheduleRevision current + 1\<rparr>,
                    crs_NoOp = False\<rparr>)))"

subsection \<open>Frame texts\<close>

definition NormalizeAndValidateText :: "string \<Rightarrow> cycle_error + string" where
  "NormalizeAndValidateText value0 =
     (let value = normalizeLineEndings value0 in
      if has_forbidden value then Inl ErrForbiddenCharacter
      else if rune_count value > MaxFrameCodePoints then Inl ErrFrameTextTooLong
      else Inr value)"

definition IsBlank :: "string \<Rightarrow> bool" where
  "IsBlank value \<longleftrightarrow> trim_space value = []"

definition FrameRevision :: "PDCACycle \<Rightarrow> frame \<Rightarrow> i64" where
  "FrameRevision current frame =
     (if frame = FramePlan then rev_Plan (cy_Revisions current)
      else if frame = FrameDo then rev_Do (cy_Revisions current)
      else if frame = FrameCheck then rev_Check (cy_Revisions current)
      else if frame = FrameAction then rev_Action (cy_Revisions current)
      else -1)"

definition FrameContent :: "PDCACycle \<Rightarrow> frame \<Rightarrow> string" where
  "FrameContent current frame =
     (if frame = FramePlan then cy_Plan current
      else if frame = FrameDo then cy_Do current
      else if frame = FrameCheck then cy_Check current
      else if frame = FrameAction then cy_Action current
      else [])"

definition MissingRequiredFrames :: "PDCACycle \<Rightarrow> frame list" where
  "MissingRequiredFrames current =
     filter (\<lambda>frame. IsBlank (FrameContent current frame)) allFrames"

lemma FrameContent_cong:
  "cy_Plan c' = cy_Plan c \<Longrightarrow> cy_Do c' = cy_Do c \<Longrightarrow> cy_Check c' = cy_Check c \<Longrightarrow>
     cy_Action c' = cy_Action c \<Longrightarrow> FrameContent c' = FrameContent c"
  by (rule ext) (simp add: FrameContent_def)

lemma MissingRequiredFrames_cong:
  "FrameContent c' = FrameContent c \<Longrightarrow> MissingRequiredFrames c' = MissingRequiredFrames c"
  by (simp add: MissingRequiredFrames_def)

subsection \<open>Transitions\<close>

definition cycle_SaveFrame ::
  "PDCACycle \<Rightarrow> frame \<Rightarrow> string \<Rightarrow> i64 \<Rightarrow> bool \<Rightarrow> gotime \<Rightarrow> cycle_error + SaveFrameOutcome" where
  "cycle_SaveFrame current frame content0 expectedRevision aiRunning now =
     (if cy_Status current \<noteq> StatusActive then Inl ErrCycleNotActive
      else if aiRunning \<and> frame = FrameAction then Inl ErrAIOperationRunning
      else rbind (ParseFrame frame) (\<lambda>_.
        rbind (NormalizeAndValidateText content0) (\<lambda>content.
          if FrameContent current frame = content
          then Inr \<lparr>sf_Cycle = current, sf_Frame = frame, sf_Content = content, sf_NoOp = True,
                    sf_SavedAt = cy_UpdatedAt current\<rparr>
          else if FrameRevision current frame \<noteq> expectedRevision then Inl ErrRevisionConflict
          else
            let revs = (cy_Revisions current)\<lparr>rev_Content := rev_Content (cy_Revisions current) + 1\<rparr>;
                written =
                  (if frame = FramePlan then
                     Inr (current\<lparr>cy_Plan := content,
                            cy_Revisions := revs\<lparr>rev_Plan := rev_Plan revs + 1\<rparr>\<rparr>)
                   else if frame = FrameDo then
                     Inr (current\<lparr>cy_Do := content,
                            cy_Revisions := revs\<lparr>rev_Do := rev_Do revs + 1\<rparr>\<rparr>)
                   else if frame = FrameCheck then
                     Inr (current\<lparr>cy_Check := content,
                            cy_Revisions := revs\<lparr>rev_Check := rev_Check revs + 1\<rparr>\<rparr>)
                   else if frame = FrameAction then
                     Inr (current\<lparr>cy_Action := content,
                            cy_Revisions := revs\<lparr>rev_Action := rev_Action revs + 1\<rparr>,
                            cy_ActionModifiedAfterAI := (cy_ActionLastAIRevision current \<noteq> None)\<rparr>)
                   else Inl ErrInvalidFrame)
            in rbind written (\<lambda>c.
                 let saved = c\<lparr>cy_UpdatedAt := utc now\<rparr>
                 in Inr \<lparr>sf_Cycle = saved, sf_Frame = frame, sf_Content = content, sf_NoOp = False,
                         sf_SavedAt = cy_UpdatedAt saved\<rparr>))))"

definition ApplyAIAction :: "PDCACycle \<Rightarrow> string \<Rightarrow> gotime \<Rightarrow> cycle_error + PDCACycle" where
  "ApplyAIAction current action0 now =
     (if cy_Status current \<noteq> StatusActive then Inl ErrCycleNotActive
      else rbind (NormalizeAndValidateText action0) (\<lambda>action.
        if IsBlank action then Inl ErrCycleIncomplete
        else
          let revs = cy_Revisions current;
              revs' = revs\<lparr>rev_Content := rev_Content revs + 1, rev_Action := rev_Action revs + 1\<rparr>;
              appliedRevision = rev_Content revs'
          in Inr (current\<lparr>cy_Action := action, cy_Revisions := revs',
                    cy_ActionLastAIRevision := Some appliedRevision,
                    cy_ActionModifiedAfterAI := False,
                    cy_UpdatedAt := utc now\<rparr>)))"

definition cycle_Complete ::
  "PDCACycle \<Rightarrow> string \<Rightarrow> string \<Rightarrow> i64 \<Rightarrow> bool \<Rightarrow> gotime \<Rightarrow> cycle_error + PDCACycle" where
  "cycle_Complete current operationID requestHash expectedContentRevision aiRunning now0 =
     (if cy_Status current \<noteq> StatusActive then Inl ErrCycleNotActive
      else if rev_Content (cy_Revisions current) \<noteq> expectedContentRevision
      then Inl ErrRevisionConflict
      else if aiRunning then Inl ErrAIOperationRunning
      else if length (MissingRequiredFrames current) \<noteq> 0 then Inl ErrCycleIncomplete
      else let now = utc now0 in
        Inr (current\<lparr>cy_Status := StatusCompleted, cy_CompletedAt := Some now,
               cy_CompletionOperationID := Some operationID,
               cy_CompletionRequestHash := Some requestHash, cy_UpdatedAt := now\<rparr>))"

definition IsValidCancellationReason :: "cancellation_reason \<Rightarrow> bool" where
  "IsValidCancellationReason reason \<longleftrightarrow>
     reason = CancellationGoalAchieved \<or> reason = CancellationGoalEnded \<or>
     reason = CancellationReplanned"

definition cycle_Cancel ::
  "PDCACycle \<Rightarrow> cancellation_reason \<Rightarrow> gotime \<Rightarrow> cycle_error + PDCACycle" where
  "cycle_Cancel current reason now0 =
     (if cy_Status current \<noteq> StatusActive then Inl ErrCycleNotActive
      else if \<not> IsValidCancellationReason reason then Inl ErrCycleNotActive
      else let now = utc now0 in
        Inr (current\<lparr>cy_Status := StatusCanceled, cy_CanceledAt := Some now,
               cy_CancellationReason := Some reason, cy_UpdatedAt := now\<rparr>))"

lemmas [domain_defs] =
  ChangeReviewSchedule_def cycle_SaveFrame_def ApplyAIAction_def cycle_Complete_def cycle_Cancel_def

subsection \<open>Laws of the operations\<close>

lemma NormalizeAndValidateText_Inr:
  "NormalizeAndValidateText v = Inr w \<longleftrightarrow>
     w = normalizeLineEndings v \<and> text_ok MaxFrameCodePoints w"
  by (auto simp: NormalizeAndValidateText_def Let_def text_ok_def not_less)

lemma IsBlank_iff: "IsBlank s \<longleftrightarrow> (\<forall>r\<in>set (runes s). is_space r)"
  by (simp add: IsBlank_def trim_space_empty_iff)

lemma IsBlank_Nil [simp]: "IsBlank []"
  by (simp add: IsBlank_def)

text \<open>One equation for the write of a frame, whichever it is.\<close>

definition write_frame :: "frame \<Rightarrow> string \<Rightarrow> gotime \<Rightarrow> PDCACycle \<Rightarrow> PDCACycle" where
  "write_frame frame content now c =
     (let revs = (cy_Revisions c)\<lparr>rev_Content := rev_Content (cy_Revisions c) + 1\<rparr> in
      (if frame = FramePlan then
         c\<lparr>cy_Plan := content, cy_Revisions := revs\<lparr>rev_Plan := rev_Plan revs + 1\<rparr>\<rparr>
       else if frame = FrameDo then
         c\<lparr>cy_Do := content, cy_Revisions := revs\<lparr>rev_Do := rev_Do revs + 1\<rparr>\<rparr>
       else if frame = FrameCheck then
         c\<lparr>cy_Check := content, cy_Revisions := revs\<lparr>rev_Check := rev_Check revs + 1\<rparr>\<rparr>
       else
         c\<lparr>cy_Action := content, cy_Revisions := revs\<lparr>rev_Action := rev_Action revs + 1\<rparr>,
           cy_ActionModifiedAfterAI := (cy_ActionLastAIRevision c \<noteq> None)\<rparr>)
      \<lparr>cy_UpdatedAt := utc now\<rparr>)"

lemma cycle_SaveFrame_eq:
  "cycle_SaveFrame c f content e running now =
     (if cy_Status c \<noteq> StatusActive then Inl ErrCycleNotActive
      else if running \<and> f = FrameAction then Inl ErrAIOperationRunning
      else if f \<notin> set allFrames then Inl ErrInvalidFrame
      else rbind (NormalizeAndValidateText content) (\<lambda>text.
        if FrameContent c f = text
        then Inr \<lparr>sf_Cycle = c, sf_Frame = f, sf_Content = text, sf_NoOp = True,
                  sf_SavedAt = cy_UpdatedAt c\<rparr>
        else if FrameRevision c f \<noteq> e then Inl ErrRevisionConflict
        else Inr \<lparr>sf_Cycle = write_frame f text now c, sf_Frame = f, sf_Content = text,
                  sf_NoOp = False, sf_SavedAt = utc now\<rparr>))"
proof (cases "f \<in> set allFrames")
  case True
  then consider "f = FramePlan" | "f = FrameDo" | "f = FrameCheck" | "f = FrameAction"
    by (auto simp: allFrames_def)
  then show ?thesis
    by cases (cases "NormalizeAndValidateText content";
      simp add: ParseFrame_known cycle_SaveFrame_def write_frame_def Let_def allFrames_def)+
next
  case False
  then show ?thesis by (simp add: cycle_SaveFrame_def ParseFrame_unknown)
qed

lemma write_frame_content [simp]:
  "f \<in> set allFrames \<Longrightarrow> FrameContent (write_frame f text now c) f = text"
  "f \<in> set allFrames \<Longrightarrow> g \<noteq> f \<Longrightarrow>
     FrameContent (write_frame f text now c) g = FrameContent c g"
  by (auto simp: FrameContent_def write_frame_def Let_def allFrames_def)

lemma write_frame_revision [simp]:
  "f \<in> set allFrames \<Longrightarrow> FrameRevision (write_frame f text now c) f = FrameRevision c f + 1"
  "f \<in> set allFrames \<Longrightarrow> g \<noteq> f \<Longrightarrow>
     FrameRevision (write_frame f text now c) g = FrameRevision c g"
  by (auto simp: FrameRevision_def write_frame_def Let_def allFrames_def)

lemma write_frame_frame [simp]:
  "cy_ID (write_frame f text now c) = cy_ID c"
  "cy_UserID (write_frame f text now c) = cy_UserID c"
  "cy_GoalID (write_frame f text now c) = cy_GoalID c"
  "cy_GoalVersionID (write_frame f text now c) = cy_GoalVersionID c"
  "cy_SequenceNumber (write_frame f text now c) = cy_SequenceNumber c"
  "cy_Status (write_frame f text now c) = cy_Status c"
  "cy_StartOperationID (write_frame f text now c) = cy_StartOperationID c"
  "cy_StartRequestHash (write_frame f text now c) = cy_StartRequestHash c"
  "cy_ReviewDate (write_frame f text now c) = cy_ReviewDate c"
  "cy_ReviewScheduleRevision (write_frame f text now c) = cy_ReviewScheduleRevision c"
  "cy_ActionLastAIRevision (write_frame f text now c) = cy_ActionLastAIRevision c"
  "cy_UpdatedAt (write_frame f text now c) = utc now"
  "rev_Content (cy_Revisions (write_frame f text now c)) = rev_Content (cy_Revisions c) + 1"
  by (simp_all add: write_frame_def Let_def)

subsection \<open>The invariant of a cycle\<close>

text \<open>
  The life-cycle tuples are the ones \<open>validateCycleStatusTimes\<close> of the application layer and
  the database's check constraints ask for; the content revision is the sum of the frames'
  (as 64-bit integers, so also across a wrap-around); every stored text is normalised and
  within the limit; every time is UTC.
\<close>

definition lifecycle_ok :: "PDCACycle \<Rightarrow> bool" where
  "lifecycle_ok c \<longleftrightarrow>
     (cy_Status c = StatusActive \<and> cy_CompletedAt c = None \<and> cy_CanceledAt c = None \<and>
        cy_CancellationReason c = None \<and> cy_CompletionOperationID c = None \<and>
        cy_CompletionRequestHash c = None) \<or>
     (cy_Status c = StatusCompleted \<and> cy_CompletedAt c = Some (cy_UpdatedAt c) \<and>
        cy_CanceledAt c = None \<and> cy_CancellationReason c = None \<and>
        cy_CompletionOperationID c \<noteq> None \<and> cy_CompletionRequestHash c \<noteq> None \<and>
        MissingRequiredFrames c = []) \<or>
     (cy_Status c = StatusCanceled \<and> cy_CompletedAt c = None \<and>
        cy_CanceledAt c = Some (cy_UpdatedAt c) \<and>
        (\<exists>r. cy_CancellationReason c = Some r \<and> IsValidCancellationReason r) \<and>
        cy_CompletionOperationID c = None \<and> cy_CompletionRequestHash c = None)"

definition revisions_ok :: "PDCACycle \<Rightarrow> bool" where
  "revisions_ok c \<longleftrightarrow>
     (let r = cy_Revisions c
      in rev_Content r = rev_Plan r + rev_Do r + rev_Check r + rev_Action r)"

definition texts_ok :: "PDCACycle \<Rightarrow> bool" where
  "texts_ok c \<longleftrightarrow>
     list_all (\<lambda>f. text_ok MaxFrameCodePoints (FrameContent c f)) allFrames"

definition cycle_inv :: "PDCACycle \<Rightarrow> bool" where
  "cycle_inv c \<longleftrightarrow>
     lifecycle_ok c \<and> revisions_ok c \<and> texts_ok c \<and>
     (cy_ActionLastAIRevision c = None \<longrightarrow> \<not> cy_ActionModifiedAfterAI c) \<and>
     review_date_ok (cy_ReviewDate c) \<and>
     loc (cy_StartedAt c) = UTC \<and> loc (cy_CreatedAt c) = UTC \<and> loc (cy_UpdatedAt c) = UTC"

lemma lifecycle_ok_active:
  "cy_Status c = StatusActive \<Longrightarrow> lifecycle_ok c \<longleftrightarrow>
     cy_CompletedAt c = None \<and> cy_CanceledAt c = None \<and> cy_CancellationReason c = None \<and>
     cy_CompletionOperationID c = None \<and> cy_CompletionRequestHash c = None"
  by (simp add: lifecycle_ok_def)

lemma lifecycle_ok_completed:
  "cy_Status c = StatusCompleted \<Longrightarrow> lifecycle_ok c \<longleftrightarrow>
     cy_CompletedAt c = Some (cy_UpdatedAt c) \<and> cy_CanceledAt c = None \<and>
     cy_CancellationReason c = None \<and> cy_CompletionOperationID c \<noteq> None \<and>
     cy_CompletionRequestHash c \<noteq> None \<and> MissingRequiredFrames c = []"
  by (simp add: lifecycle_ok_def)

lemma lifecycle_ok_canceled:
  "cy_Status c = StatusCanceled \<Longrightarrow> lifecycle_ok c \<longleftrightarrow>
     cy_CompletedAt c = None \<and> cy_CanceledAt c = Some (cy_UpdatedAt c) \<and>
     (\<exists>r. cy_CancellationReason c = Some r \<and> IsValidCancellationReason r) \<and>
     cy_CompletionOperationID c = None \<and> cy_CompletionRequestHash c = None"
  by (simp add: lifecycle_ok_def)

lemmas lifecycle_ok_simps = lifecycle_ok_active lifecycle_ok_completed lifecycle_ok_canceled

lemma texts_ok_iff:
  "texts_ok c \<longleftrightarrow>
     text_ok MaxFrameCodePoints (cy_Plan c) \<and> text_ok MaxFrameCodePoints (cy_Do c) \<and>
     text_ok MaxFrameCodePoints (cy_Check c) \<and> text_ok MaxFrameCodePoints (cy_Action c)"
  by (simp add: texts_ok_def allFrames_def FrameContent_def)

lemmas cycle_inv_simps = cycle_inv_def lifecycle_ok_simps revisions_ok_def texts_ok_iff Let_def

end
