(* ===== verification/CycleLifecycle.thy ===== *)
theory CycleLifecycle
  imports CycleDomain
begin

section \<open>The life of a cycle\<close>

text \<open>
  What the operations of \<open>CycleDomain\<close> keep and establish: every operation preserves
  \<open>cycle_inv\<close>, so every cycle that starts with \<open>cycle_New\<close> and moves by successful
  operations satisfies it; the optimistic revision checks refuse stale writers; a terminal
  cycle never moves again.
\<close>

subsection \<open>Preservation of the invariant, operation by operation\<close>

lemma cycle_New_inv: "cycle_inv (cycle_New cid u g v n op h now)"
  by (simp add: cycle_inv_simps review_date_ok_def cycle_New_def zero_Revisions_def)

lemma write_frame_inv:
  assumes "cycle_inv c" "cy_Status c = StatusActive" "f \<in> set allFrames"
    "text_ok MaxFrameCodePoints text"
  shows "cycle_inv (write_frame f text now c)"
  using assms by (simp add: cycle_inv_simps write_frame_def allFrames_def)

lemma cycle_SaveFrame_cases:
  assumes "cycle_SaveFrame c f content e running now = Inr r"
  obtains (noop) "cy_Status c = StatusActive" "f \<in> set allFrames" "sf_NoOp r" "sf_Cycle r = c"
      "sf_Content r = normalizeLineEndings content"
      "FrameContent c f = normalizeLineEndings content"
      "text_ok MaxFrameCodePoints (normalizeLineEndings content)" "running \<longrightarrow> f \<noteq> FrameAction"
    | (written) "cy_Status c = StatusActive" "f \<in> set allFrames" "\<not> sf_NoOp r"
      "sf_Cycle r = write_frame f (normalizeLineEndings content) now c"
      "sf_Content r = normalizeLineEndings content" "FrameRevision c f = e"
      "FrameContent c f \<noteq> normalizeLineEndings content"
      "text_ok MaxFrameCodePoints (normalizeLineEndings content)" "running \<longrightarrow> f \<noteq> FrameAction"
  using assms unfolding cycle_SaveFrame_eq
  by (auto simp: NormalizeAndValidateText_Inr split: if_splits)

lemma cycle_SaveFrame_inv:
  assumes "cycle_SaveFrame c f content e running now = Inr r" "cycle_inv c"
  shows "cycle_inv (sf_Cycle r)"
  using assms(1) by (cases rule: cycle_SaveFrame_cases) (simp_all add: assms(2) write_frame_inv)

lemma ApplyAIAction_inv:
  assumes "ApplyAIAction c action now = Inr c'" "cycle_inv c"
  shows "cycle_inv c'"
proof -
  have c: "cy_Status c = StatusActive" "text_ok MaxFrameCodePoints (normalizeLineEndings action)"
    using assms(1) by (auto simp: ApplyAIAction_def NormalizeAndValidateText_Inr)
  have c': "c' = c\<lparr>cy_Action := normalizeLineEndings action,
       cy_Revisions := (cy_Revisions c)\<lparr>rev_Content := rev_Content (cy_Revisions c) + 1,
                                      rev_Action := rev_Action (cy_Revisions c) + 1\<rparr>,
       cy_ActionLastAIRevision := Some (rev_Content (cy_Revisions c) + 1),
       cy_ActionModifiedAfterAI := False, cy_UpdatedAt := utc now\<rparr>"
    using assms(1) by (auto simp: ApplyAIAction_def NormalizeAndValidateText_Inr Let_def
        split: if_splits)
  show ?thesis
    using assms(2) c by (simp add: c' cycle_inv_simps)
qed

lemma ChangeReviewSchedule_cases:
  assumes "ChangeReviewSchedule c target e = Inr r"
  obtains (noop) "cy_Status c = StatusActive" "crs_NoOp r" "crs_Cycle r = c"
      "cy_ReviewDate c = target" "review_date_ok target"
    | (written) "cy_Status c = StatusActive" "\<not> crs_NoOp r" "cy_ReviewDate c \<noteq> target"
      "review_date_ok target" "cy_ReviewScheduleRevision c = e" "\<not> e <s 0"
      "crs_Cycle r = c\<lparr>cy_ReviewDate := target, cy_ReviewScheduleRevision := e + 1\<rparr>"
proof (cases "cy_ReviewDate c = target")
  case True
  with assms show thesis
    by (intro noop) (auto simp: ChangeReviewSchedule_def review_date_ok_def ParseReviewDate_eq
        split: if_splits option.splits)
next
  case False
  with assms show thesis
    by (intro written) (auto simp: ChangeReviewSchedule_def review_date_ok_def ParseReviewDate_eq
        split: if_splits option.splits)
qed

lemma ChangeReviewSchedule_inv:
  assumes "ChangeReviewSchedule c target e = Inr r" "cycle_inv c"
  shows "cycle_inv (crs_Cycle r)"
  using assms(1)
  by (cases rule: ChangeReviewSchedule_cases) (use assms(2) in \<open>simp_all add: cycle_inv_simps\<close>)

lemma cycle_Complete_Inr:
  "cycle_Complete c op h e running now = Inr c' \<longleftrightarrow>
     cy_Status c = StatusActive \<and> rev_Content (cy_Revisions c) = e \<and> \<not> running \<and>
     MissingRequiredFrames c = [] \<and>
     c' = c\<lparr>cy_Status := StatusCompleted, cy_CompletedAt := Some (utc now),
            cy_CompletionOperationID := Some op, cy_CompletionRequestHash := Some h,
            cy_UpdatedAt := utc now\<rparr>"
  by (auto simp: cycle_Complete_def Let_def)

lemma cycle_Complete_inv:
  assumes "cycle_Complete c op h e running now = Inr c'" "cycle_inv c"
  shows "cycle_inv c'"
proof -
  have "MissingRequiredFrames c' = MissingRequiredFrames c"
    using assms(1)
    by (intro MissingRequiredFrames_cong FrameContent_cong) (simp_all add: cycle_Complete_Inr)
  then show ?thesis using assms by (simp add: cycle_Complete_Inr cycle_inv_simps)
qed

lemma cycle_Cancel_Inr:
  "cycle_Cancel c reason now = Inr c' \<longleftrightarrow>
     cy_Status c = StatusActive \<and> IsValidCancellationReason reason \<and>
     c' = c\<lparr>cy_Status := StatusCanceled, cy_CanceledAt := Some (utc now),
            cy_CancellationReason := Some reason, cy_UpdatedAt := utc now\<rparr>"
  by (auto simp: cycle_Cancel_def Let_def)

lemma cycle_Cancel_inv:
  "cycle_Cancel c reason now = Inr c' \<Longrightarrow> cycle_inv c \<Longrightarrow> cycle_inv c'"
  by (simp add: cycle_Cancel_Inr cycle_inv_simps)

subsection \<open>The state machine\<close>

text \<open>A step is one successful operation; failed operations leave the cycle as it was.\<close>

inductive cycle_step :: "PDCACycle \<Rightarrow> PDCACycle \<Rightarrow> bool" where
  save: "cycle_SaveFrame c f content e running now = Inr r \<Longrightarrow> cycle_step c (sf_Cycle r)"
| ai: "ApplyAIAction c action now = Inr c' \<Longrightarrow> cycle_step c c'"
| schedule: "ChangeReviewSchedule c target e = Inr r \<Longrightarrow> cycle_step c (crs_Cycle r)"
| complete: "cycle_Complete c op h e running now = Inr c' \<Longrightarrow> cycle_step c c'"
| cancel: "cycle_Cancel c reason now = Inr c' \<Longrightarrow> cycle_step c c'"

inductive cycle_reachable :: "PDCACycle \<Rightarrow> bool" where
  start: "cycle_reachable (cycle_New cid u g v n op h now)"
| step: "cycle_reachable c \<Longrightarrow> cycle_step c c' \<Longrightarrow> cycle_reachable c'"

inductive_cases cycle_step_elim: "cycle_step c c'"

lemma cycle_step_inv: "cycle_step c c' \<Longrightarrow> cycle_inv c \<Longrightarrow> cycle_inv c'"
  by (elim cycle_step_elim)
    (auto intro: cycle_SaveFrame_inv ApplyAIAction_inv ChangeReviewSchedule_inv
      cycle_Complete_inv cycle_Cancel_inv)

lemma cycle_step_active: "cycle_step c c' \<Longrightarrow> cy_Status c = StatusActive"
  by (elim cycle_step_elim)
    (auto simp: domain_defs split: if_splits)

lemma cycle_step_identity:
  "cycle_step c c' \<Longrightarrow>
     cy_ID c' = cy_ID c \<and> cy_UserID c' = cy_UserID c \<and> cy_GoalID c' = cy_GoalID c \<and>
     cy_GoalVersionID c' = cy_GoalVersionID c \<and> cy_SequenceNumber c' = cy_SequenceNumber c \<and>
     cy_StartOperationID c' = cy_StartOperationID c \<and>
     cy_StartRequestHash c' = cy_StartRequestHash c"
  by (elim cycle_step_elim)
    (auto simp: ApplyAIAction_def cycle_Complete_Inr cycle_Cancel_Inr Let_def
      elim!: cycle_SaveFrame_cases ChangeReviewSchedule_cases split: if_splits)

subsection \<open>Properties\<close>

text \<open>A concrete cycle the witnesses run.\<close>

definition sample_now :: gotime where
  "sample_now = \<lparr>nanos = 63000000000000000123, loc = Zone ''JST''\<rparr>"

definition sample_cycle :: PDCACycle where
  "sample_cycle = cycle_New ''c1'' ''u1'' ''g1'' ''v1'' 1 ''op1'' ''h1'' sample_now"

definition filled_cycle :: PDCACycle where
  "filled_cycle =
     write_frame FrameAction ''a'' sample_now (write_frame FrameCheck ''c'' sample_now
       (write_frame FrameDo ''d'' sample_now (write_frame FramePlan ''p'' sample_now sample_cycle)))"

lemmas sample_defs =
  sample_cycle_def filled_cycle_def cycle_New_def write_frame_def sample_now_def
  zero_Revisions_def utc_def Let_def

lemma sample_save:
  assumes "f \<in> set allFrames"
  shows "cycle_SaveFrame sample_cycle f ''x'' 0 False sample_now =
    Inr \<lparr>sf_Cycle = write_frame f ''x'' sample_now sample_cycle, sf_Frame = f,
         sf_Content = ''x'', sf_NoOp = False, sf_SavedAt = utc sample_now\<rparr>"
  using assms
  by (auto simp: cycle_SaveFrame_eq NormalizeAndValidateText_def sample_cycle_def
      text_eval FrameContent_def FrameRevision_def zero_Revisions_def MaxFrameCodePoints_def
      allFrames_def)

lemma filled_cycle_complete: "MissingRequiredFrames filled_cycle = []"
  by (simp add: MissingRequiredFrames_def allFrames_def FrameContent_def sample_defs IsBlank_def
      text_eval)

text \<open>[C1] Every cycle the domain operations can produce from a new one is well formed:
  terminal metadata agrees with the status, a completed cycle has no blank frame, a canceled
  one carries one of the three reasons, the content revision is the sum of the frame
  revisions, every frame is normalised text of at most 200 code points, the review date is a
  calendar date, and every timestamp is in UTC.\<close>

theorem cycle_reachable_inv: "cycle_reachable c \<Longrightarrow> cycle_inv c"
  by (induction rule: cycle_reachable.induct) (auto intro: cycle_New_inv cycle_step_inv)

theorem cycle_reachable_inv_witness:
  "cycle_inv (write_frame FramePlan ''x'' sample_now sample_cycle)"
proof -
  have "cycle_step sample_cycle (write_frame FramePlan ''x'' sample_now sample_cycle)"
    using cycle_step.save[OF sample_save[of FramePlan]] by (simp add: allFrames_def)
  then have "cycle_reachable (write_frame FramePlan ''x'' sample_now sample_cycle)"
    unfolding sample_cycle_def by (rule cycle_reachable.step[OF cycle_reachable.start])
  then show ?thesis by (rule cycle_reachable_inv)
qed

text \<open>[C3] A frame save that writes is an optimistic update of that frame alone: it needs the
  frame's current revision, stores the normalised text, advances the frame's and the content
  revision by one, and leaves every other frame, revision, the review schedule, the identity
  and the status as they were.\<close>

theorem SaveFrame_writes_one_frame:
  assumes "cycle_SaveFrame c f content e running now = Inr r" "\<not> sf_NoOp r"
  shows "FrameRevision c f = e \<and> FrameRevision (sf_Cycle r) f = e + 1 \<and>
    FrameContent (sf_Cycle r) f = normalizeLineEndings content \<and>
    rev_Content (cy_Revisions (sf_Cycle r)) = rev_Content (cy_Revisions c) + 1 \<and>
    (\<forall>g. g \<noteq> f \<longrightarrow> FrameContent (sf_Cycle r) g = FrameContent c g \<and>
                 FrameRevision (sf_Cycle r) g = FrameRevision c g) \<and>
    cy_Status (sf_Cycle r) = StatusActive \<and> cy_ID (sf_Cycle r) = cy_ID c \<and>
    cy_ReviewDate (sf_Cycle r) = cy_ReviewDate c \<and>
    cy_ReviewScheduleRevision (sf_Cycle r) = cy_ReviewScheduleRevision c"
  using assms by (elim cycle_SaveFrame_cases) simp_all

theorem SaveFrame_writes_one_frame_witness:
  "FrameRevision (write_frame FrameDo ''x'' sample_now sample_cycle) FrameDo = 1"
  using SaveFrame_writes_one_frame[OF sample_save[of FrameDo]] by (simp add: allFrames_def)

text \<open>[C4] Retries and lost updates: once a save has gone through, sending the same text again
  is a no-op whatever revision the client still holds, and another writer that read the frame
  before the save and now writes a different valid text gets a revision conflict.\<close>

theorem SaveFrame_retry_and_conflict:
  assumes "cycle_SaveFrame c f content e False now = Inr r" "\<not> sf_NoOp r"
  shows "cycle_SaveFrame (sf_Cycle r) f content e' False now' =
      Inr \<lparr>sf_Cycle = sf_Cycle r, sf_Frame = f, sf_Content = normalizeLineEndings content,
           sf_NoOp = True, sf_SavedAt = cy_UpdatedAt (sf_Cycle r)\<rparr> \<and>
    (text_ok MaxFrameCodePoints (normalizeLineEndings other) \<and>
       normalizeLineEndings other \<noteq> normalizeLineEndings content \<longrightarrow>
     cycle_SaveFrame (sf_Cycle r) f other e False now' = Inl ErrRevisionConflict)"
  using assms(1)
proof (cases rule: cycle_SaveFrame_cases)
  case noop
  then show ?thesis using assms(2) by simp
next
  case written
  have ok: "NormalizeAndValidateText t = Inr (normalizeLineEndings t)"
    if "text_ok MaxFrameCodePoints (normalizeLineEndings t)" for t
    using that by (simp add: NormalizeAndValidateText_Inr)
  show ?thesis using written by (simp add: cycle_SaveFrame_eq ok)
qed

theorem SaveFrame_retry_and_conflict_witness:
  "cycle_SaveFrame (write_frame FrameCheck ''x'' sample_now sample_cycle) FrameCheck ''y'' 0
     False sample_now = Inl ErrRevisionConflict"
  using SaveFrame_retry_and_conflict[OF sample_save[of FrameCheck], of 0 sample_now "''y''"]
  by (simp add: allFrames_def text_ok_def text_eval MaxFrameCodePoints_def)

text \<open>[C5] Completion succeeds exactly on an active cycle at the expected content revision, with
  no AI operation running and all four frames non-blank, and then only sets the terminal
  metadata; otherwise the first failing check names the error.\<close>

theorem Complete_outcome:
  "cycle_Complete c op h e running now =
     (if cy_Status c \<noteq> StatusActive then Inl ErrCycleNotActive
      else if rev_Content (cy_Revisions c) \<noteq> e then Inl ErrRevisionConflict
      else if running then Inl ErrAIOperationRunning
      else if \<exists>f\<in>set allFrames. \<forall>x\<in>set (runes (FrameContent c f)). is_space x
      then Inl ErrCycleIncomplete
      else Inr (c\<lparr>cy_Status := StatusCompleted, cy_CompletedAt := Some (utc now),
                  cy_CompletionOperationID := Some op, cy_CompletionRequestHash := Some h,
                  cy_UpdatedAt := utc now\<rparr>))"
proof -
  have "MissingRequiredFrames c \<noteq> [] \<longleftrightarrow>
      (\<exists>f\<in>set allFrames. \<forall>x\<in>set (runes (FrameContent c f)). is_space x)"
    by (simp add: MissingRequiredFrames_def filter_empty_conv IsBlank_iff)
  then show ?thesis by (simp add: cycle_Complete_def Let_def)
qed

theorem Complete_outcome_witness:
  "\<exists>c'. cycle_Complete filled_cycle ''op2'' ''h2'' 4 False sample_now = Inr c' \<and>
     cy_Status c' = StatusCompleted"
  using Complete_outcome[of filled_cycle "''op2''" "''h2''" 4 False sample_now]
  by (simp add: allFrames_def FrameContent_def sample_defs text_eval)

text \<open>A cycle that is not active accepts no operation at all: every transition fails with
  the not-active error, so completed and canceled cycles are final.\<close>

theorem terminal_cycle_is_final:
  assumes "cy_Status c \<noteq> StatusActive"
  shows "cycle_SaveFrame c f content e running now = Inl ErrCycleNotActive \<and>
    ApplyAIAction c content now = Inl ErrCycleNotActive \<and>
    ChangeReviewSchedule c target e = Inl ErrCycleNotActive \<and>
    cycle_Complete c op h e running now = Inl ErrCycleNotActive \<and>
    cycle_Cancel c reason now = Inl ErrCycleNotActive \<and> \<not> cycle_step c c'"
  using assms cycle_step_active[of c c'] by (auto simp: domain_defs)

theorem terminal_cycle_is_final_witness:
  "ApplyAIAction (sample_cycle\<lparr>cy_Status := StatusCanceled\<rparr>) ''a'' sample_now =
     Inl ErrCycleNotActive"
  using terminal_cycle_is_final[of "sample_cycle\<lparr>cy_Status := StatusCanceled\<rparr>"] by simp

text \<open>[C9] \<open>ParseReviewDate\<close> accepts exactly the calendar dates of the years 1 to 9999 in the
  form YYYY-MM-DD (leap years included) and returns them unchanged.\<close>

theorem ParseReviewDate_exact:
  "ParseReviewDate v = Inr w \<longleftrightarrow>
     w = v \<and> (\<exists>y m d. 1 \<le> y \<and> y \<le> 9999 \<and> 1 \<le> m \<and> m \<le> 12 \<and> 1 \<le> d \<and> d \<le> days_in m y \<and>
       v = time_format_date y m d)"
  by (auto simp: ParseReviewDate_eq calendar_date_def valid_ymd_def)

text \<open>The review schedule is a compare-and-set on its own revision: re-sending the stored
  target is a no-op at any non-negative revision, a stale revision with a different target is
  a conflict, and a write changes the date and advances the schedule revision only (the
  content revision and \<open>UpdatedAt\<close> stay).\<close>

theorem ChangeReviewSchedule_contract:
  assumes "cy_Status c = StatusActive" "\<not> cy_ReviewScheduleRevision c <s 0" "\<not> e <s 0"
    "review_date_ok (cy_ReviewDate c)" "review_date_ok target"
  shows "ChangeReviewSchedule c target e =
    (if cy_ReviewDate c = target then Inr \<lparr>crs_Cycle = c, crs_NoOp = True\<rparr>
     else if cy_ReviewScheduleRevision c \<noteq> e then Inl ErrRevisionConflict
     else Inr \<lparr>crs_Cycle = c\<lparr>cy_ReviewDate := target, cy_ReviewScheduleRevision := e + 1\<rparr>,
               crs_NoOp = False\<rparr>)"
  using assms
  by (cases "cy_ReviewDate c"; cases target;
      simp add: ChangeReviewSchedule_def review_date_ok_def ParseReviewDate_eq)

theorem ChangeReviewSchedule_contract_witness:
  "ChangeReviewSchedule sample_cycle (Some (time_format_date 2024 2 29)) 0 =
     Inr \<lparr>crs_Cycle = sample_cycle\<lparr>cy_ReviewDate := Some (time_format_date 2024 2 29),
          cy_ReviewScheduleRevision := 1\<rparr>, crs_NoOp = False\<rparr>"
proof -
  have "calendar_date (time_format_date 2024 2 29)"
    unfolding calendar_date_def
    by (rule exI[of _ 2024], rule exI[of _ 2], rule exI[of _ 29])
      (simp add: valid_ymd_def days_in_def is_leap_def)
  then show ?thesis
    using ChangeReviewSchedule_contract[of sample_cycle 0 "Some (time_format_date 2024 2 29)"]
    by (simp add: sample_cycle_def review_date_ok_def)
qed

end
