(* ===== verification/GoalDomain.thy ===== *)
theory GoalDomain
  imports CycleLifecycle
begin

section \<open>Goals, versions and drafts\<close>

text \<open>
  Model of \<open>backend/internal/domain/goal/goal.go\<close> (and of \<open>domain/user/user.go\<close>): a goal
  alternates between an active cycle and a review until it is terminated; its text lives in
  immutable numbered versions and in drafts, one for creating the goal and one per review.
\<close>

datatype goal_error =
    ErrTextRequired | ErrTextTooLong | ErrSuccessSignalTooLong | ErrGoalForbiddenCharacter
  | ErrStateConflict | ErrAlreadyTerminal | ErrDiscardRequired | FromCycle cycle_error

definition MaxGoalCodePoints :: nat where
  "MaxGoalCodePoints = 80"

definition MaxSuccessSignalCodePoints :: nat where
  "MaxSuccessSignalCodePoints = 120"

type_synonym goal_status = string

abbreviation StatusActiveCycle :: goal_status where "StatusActiveCycle \<equiv> ''active_cycle''"
abbreviation StatusGoalReview :: goal_status where "StatusGoalReview \<equiv> ''goal_review''"
abbreviation StatusAchieved :: goal_status where "StatusAchieved \<equiv> ''achieved''"
abbreviation StatusEnded :: goal_status where "StatusEnded \<equiv> ''ended''"

type_synonym draft_type = string

abbreviation DraftCreation :: draft_type where "DraftCreation \<equiv> ''creation''"
abbreviation DraftReview :: draft_type where "DraftReview \<equiv> ''review''"

record Goal =
  go_ID :: string
  go_UserID :: string
  go_Status :: goal_status
  go_CurrentVersionNumber :: i32
  go_NextCycleSequenceNumber :: i32
  go_Revision :: i64
  go_TerminalAt :: "gotime option"
  go_TerminalOperationID :: "string option"
  go_TerminalRequestHash :: "string option"
  go_CreatedAt :: gotime
  go_UpdatedAt :: gotime

record Version =
  ve_ID :: string
  ve_UserID :: string
  ve_GoalID :: string
  ve_VersionNumber :: i32
  ve_Body :: string
  ve_SuccessSignal :: "string option"
  ve_CreatedByOperationID :: string
  ve_CreatedAt :: gotime

record Draft =
  dr_ID :: string
  dr_UserID :: string
  dr_Type :: draft_type
  dr_GoalID :: "string option"
  dr_BaseGoalVersionID :: "string option"
  dr_ReviewCycleID :: "string option"
  dr_Body :: string
  dr_SuccessSignal :: "string option"
  dr_Revision :: i64
  dr_CreatedAt :: gotime
  dr_UpdatedAt :: gotime

record InitialAggregate =
  ia_Goal :: Goal
  ia_Version :: Version
  ia_Cycle :: PDCACycle

record ContinueResult =
  co_Goal :: Goal
  co_Version :: Version
  co_VersionCreated :: bool
  co_Cycle :: PDCACycle

record ReplanResult =
  rp_Goal :: Goal
  rp_CanceledCycle :: PDCACycle
  rp_Cycle :: PDCACycle

record User =
  us_ID :: string
  us_LastActiveAt :: gotime
  us_CreatedAt :: gotime
  us_UpdatedAt :: gotime

definition user_New :: "string \<Rightarrow> gotime \<Rightarrow> User" where
  "user_New ident now0 =
     (let now = utc now0 in
      \<lparr>us_ID = ident, us_LastActiveAt = now, us_CreatedAt = now, us_UpdatedAt = now\<rparr>)"

subsection \<open>Texts\<close>

definition NormalizeText :: "string \<Rightarrow> bool \<Rightarrow> goal_error + string" where
  "NormalizeText value0 allowEmpty =
     (let value = normalizeLineEndings value0 in
      if has_forbidden value then Inl ErrGoalForbiddenCharacter
      else if rune_count value > MaxGoalCodePoints then Inl ErrTextTooLong
      else if \<not> allowEmpty \<and> trim_space value = [] then Inl ErrTextRequired
      else Inr value)"

definition NormalizeSuccessSignal :: "string option \<Rightarrow> goal_error + string option" where
  "NormalizeSuccessSignal value =
     (case value of
        None \<Rightarrow> Inr None
      | Some v \<Rightarrow>
          let normalized = normalizeLineEndings v in
          if has_forbidden normalized then Inl ErrGoalForbiddenCharacter
          else if trim_space normalized = [] then Inr None
          else if rune_count normalized > MaxSuccessSignalCodePoints then Inl ErrSuccessSignalTooLong
          else Inr (Some normalized))"

definition optionalTextEqual :: "string option \<Rightarrow> string option \<Rightarrow> bool" where
  "optionalTextEqual left right =
     (case (left, right) of
        (Some l, Some r) \<Rightarrow> l = r
      | _ \<Rightarrow> left = None \<and> right = None)"

lemma optionalTextEqual_iff [simp]: "optionalTextEqual a b \<longleftrightarrow> a = b"
  by (auto simp: optionalTextEqual_def split: option.splits)

subsection \<open>Drafts\<close>

definition NewDraft :: "string \<Rightarrow> string \<Rightarrow> string \<Rightarrow> gotime \<Rightarrow> goal_error + Draft" where
  "NewDraft ident userID body0 now0 =
     rbind (NormalizeText body0 True) (\<lambda>body.
       let now = utc now0 in
       Inr \<lparr>dr_ID = ident, dr_UserID = userID, dr_Type = DraftCreation, dr_GoalID = None,
            dr_BaseGoalVersionID = None, dr_ReviewCycleID = None, dr_Body = body,
            dr_SuccessSignal = None, dr_Revision = 0, dr_CreatedAt = now, dr_UpdatedAt = now\<rparr>)"

text \<open>The boolean tells that nothing changed.\<close>

definition SaveDraft ::
  "Draft \<Rightarrow> string \<Rightarrow> string option \<Rightarrow> i64 \<Rightarrow> gotime \<Rightarrow> goal_error + (Draft \<times> bool)" where
  "SaveDraft current body0 successSignal0 expectedRevision now =
     rbind (NormalizeText body0 True) (\<lambda>body.
     rbind (NormalizeSuccessSignal successSignal0) (\<lambda>successSignal.
       if dr_Body current = body \<and> optionalTextEqual (dr_SuccessSignal current) successSignal
       then Inr (current, True)
       else if dr_Revision current \<noteq> expectedRevision then Inl ErrStateConflict
       else Inr (current\<lparr>dr_Body := body, dr_SuccessSignal := successSignal,
                   dr_Revision := dr_Revision current + 1, dr_UpdatedAt := utc now\<rparr>, False)))"

subsection \<open>Starting a goal\<close>

definition StartInitial ::
  "Draft \<Rightarrow> string \<Rightarrow> string \<Rightarrow> string \<Rightarrow> string \<Rightarrow> string \<Rightarrow> gotime \<Rightarrow> goal_error + InitialAggregate"
where
  "StartInitial draft goalID versionID cycleID operationID requestHash now0 =
     (if dr_Type draft \<noteq> DraftCreation then Inl ErrStateConflict
      else rbind (NormalizeText (dr_Body draft) False) (\<lambda>body.
      rbind (NormalizeSuccessSignal (dr_SuccessSignal draft)) (\<lambda>successSignal.
        let now = utc now0;
            created =
              \<lparr>go_ID = goalID, go_UserID = dr_UserID draft, go_Status = StatusActiveCycle,
               go_CurrentVersionNumber = 1, go_NextCycleSequenceNumber = 2, go_Revision = 0,
               go_TerminalAt = None, go_TerminalOperationID = None,
               go_TerminalRequestHash = None, go_CreatedAt = now, go_UpdatedAt = now\<rparr>;
            version =
              \<lparr>ve_ID = versionID, ve_UserID = dr_UserID draft, ve_GoalID = goalID,
               ve_VersionNumber = 1, ve_Body = body, ve_SuccessSignal = successSignal,
               ve_CreatedByOperationID = operationID, ve_CreatedAt = now\<rparr>
        in Inr \<lparr>ia_Goal = created, ia_Version = version,
                ia_Cycle = cycle_New cycleID (dr_UserID draft) goalID versionID 1 operationID
                             requestHash now\<rparr>)))"

subsection \<open>Review\<close>

definition EnterReview :: "Goal \<Rightarrow> gotime \<Rightarrow> goal_error + Goal" where
  "EnterReview current now =
     (if go_Status current \<noteq> StatusActiveCycle then Inl ErrStateConflict
      else Inr (current\<lparr>go_Status := StatusGoalReview, go_Revision := go_Revision current + 1,
                  go_UpdatedAt := utc now\<rparr>))"

definition NewReviewDraft ::
  "string \<Rightarrow> Goal \<Rightarrow> Version \<Rightarrow> PDCACycle \<Rightarrow> gotime \<Rightarrow> goal_error + Draft" where
  "NewReviewDraft ident current version completedCycle now0 =
     (if go_Status current \<noteq> StatusGoalReview \<or> ve_GoalID version \<noteq> go_ID current \<or>
         cy_GoalID completedCycle \<noteq> go_ID current \<or> cy_Status completedCycle \<noteq> StatusCompleted
      then Inl ErrStateConflict
      else let now = utc now0 in
        Inr \<lparr>dr_ID = ident, dr_UserID = go_UserID current, dr_Type = DraftReview,
             dr_GoalID = Some (go_ID current), dr_BaseGoalVersionID = Some (ve_ID version),
             dr_ReviewCycleID = Some (cy_ID completedCycle), dr_Body = ve_Body version,
             dr_SuccessSignal = ve_SuccessSignal version, dr_Revision = 0,
             dr_CreatedAt = now, dr_UpdatedAt = now\<rparr>)"

definition validateReviewReferences :: "Goal \<Rightarrow> Version \<Rightarrow> Draft \<Rightarrow> goal_error option" where
  "validateReviewReferences current version draft =
     (if go_Status current \<noteq> StatusGoalReview \<or> ve_UserID version \<noteq> go_UserID current \<or>
         ve_GoalID version \<noteq> go_ID current \<or>
         ve_VersionNumber version \<noteq> go_CurrentVersionNumber current \<or>
         dr_UserID draft \<noteq> go_UserID current \<or> dr_Type draft \<noteq> DraftReview \<or>
         dr_GoalID draft \<noteq> Some (go_ID current) \<or>
         dr_BaseGoalVersionID draft \<noteq> Some (ve_ID version) \<or>
         dr_ReviewCycleID draft = None \<or> dr_ReviewCycleID draft = Some []
      then Some ErrStateConflict else None)"

definition ReviewContentChanged ::
  "Goal \<Rightarrow> Version \<Rightarrow> Draft \<Rightarrow> goal_error + (string \<times> string option \<times> bool)" where
  "ReviewContentChanged current version draft =
     (case validateReviewReferences current version draft of
        Some e \<Rightarrow> Inl e
      | None \<Rightarrow>
          rbind (NormalizeText (dr_Body draft) False) (\<lambda>body.
          rbind (NormalizeSuccessSignal (dr_SuccessSignal draft)) (\<lambda>successSignal.
            let changed = normalizeLineEndings (ve_Body version) \<noteq> normalizeLineEndings body \<or>
                          \<not> optionalTextEqual (ve_SuccessSignal version) successSignal
            in Inr (body, successSignal, changed))))"

definition ReviewDraftDiffersFromVersion ::
  "Goal \<Rightarrow> Version \<Rightarrow> Draft \<Rightarrow> goal_error + bool" where
  "ReviewDraftDiffersFromVersion current version draft =
     (case validateReviewReferences current version draft of
        Some e \<Rightarrow> Inl e
      | None \<Rightarrow>
          rbind (NormalizeSuccessSignal (dr_SuccessSignal draft)) (\<lambda>draftSuccessSignal.
            Inr (normalizeLineEndings (ve_Body version) \<noteq> normalizeLineEndings (dr_Body draft) \<or>
                 \<not> optionalTextEqual (ve_SuccessSignal version) draftSuccessSignal)))"

definition ContinueReview ::
  "Goal \<Rightarrow> Version \<Rightarrow> Draft \<Rightarrow> string \<Rightarrow> string \<Rightarrow> string \<Rightarrow> string \<Rightarrow> gotime \<Rightarrow>
   goal_error + ContinueResult" where
  "ContinueReview current version draft versionID cycleID operationID requestHash now =
     rbind (ReviewContentChanged current version draft) (\<lambda>(body, successSignal, changed).
       let (selected, current1) =
             (if changed
              then (\<lparr>ve_ID = versionID, ve_UserID = go_UserID current, ve_GoalID = go_ID current,
                     ve_VersionNumber = go_CurrentVersionNumber current + 1, ve_Body = body,
                     ve_SuccessSignal = successSignal, ve_CreatedByOperationID = operationID,
                     ve_CreatedAt = utc now\<rparr>,
                    current\<lparr>go_CurrentVersionNumber := go_CurrentVersionNumber current + 1\<rparr>)
              else (version, current));
           sequence = go_NextCycleSequenceNumber current1;
           current2 = current1\<lparr>go_NextCycleSequenceNumber := go_NextCycleSequenceNumber current1 + 1,
                        go_Status := StatusActiveCycle,
                        go_Revision := go_Revision current1 + 1,
                        go_UpdatedAt := utc now\<rparr>
       in Inr \<lparr>co_Goal = current2, co_Version = selected, co_VersionCreated = changed,
               co_Cycle = cycle_New cycleID (go_UserID current2) (go_ID current2) (ve_ID selected)
                            sequence operationID requestHash now\<rparr>)"

subsection \<open>Replan and termination\<close>

definition Replan ::
  "Goal \<Rightarrow> Version \<Rightarrow> PDCACycle \<Rightarrow> string \<Rightarrow> string \<Rightarrow> string \<Rightarrow> gotime \<Rightarrow> goal_error + ReplanResult"
where
  "Replan current currentVersion activeCycle newCycleID operationID requestHash now0 =
     (if go_Status current \<noteq> StatusActiveCycle \<or> go_UserID current \<noteq> ve_UserID currentVersion \<or>
         go_ID current \<noteq> ve_GoalID currentVersion \<or>
         go_CurrentVersionNumber current \<noteq> ve_VersionNumber currentVersion \<or>
         cy_Status activeCycle \<noteq> StatusActive \<or> cy_UserID activeCycle \<noteq> go_UserID current \<or>
         cy_GoalID activeCycle \<noteq> go_ID current \<or>
         cy_GoalVersionID activeCycle \<noteq> ve_ID currentVersion \<or>
         cy_SequenceNumber activeCycle \<noteq> go_NextCycleSequenceNumber current - 1
      then Inl ErrStateConflict
      else let now = utc now0 in
        rbind (err_map FromCycle (cycle_Cancel activeCycle CancellationReplanned now)) (\<lambda>canceled.
          let next = cycle_New newCycleID (go_UserID current) (go_ID current) (ve_ID currentVersion)
                       (go_NextCycleSequenceNumber current) operationID requestHash now
          in Inr \<lparr>rp_Goal = current\<lparr>go_NextCycleSequenceNumber :=
                                     go_NextCycleSequenceNumber current + 1,
                                   go_Revision := go_Revision current + 1, go_UpdatedAt := now\<rparr>,
                  rp_CanceledCycle = canceled, rp_Cycle = next\<rparr>))"

definition Terminate ::
  "Goal \<Rightarrow> goal_status \<Rightarrow> string \<Rightarrow> string \<Rightarrow> gotime \<Rightarrow> goal_error + Goal" where
  "Terminate current outcome operationID requestHash now0 =
     (if go_Status current = StatusAchieved \<or> go_Status current = StatusEnded
      then Inl ErrAlreadyTerminal
      else if go_Status current \<noteq> StatusActiveCycle \<and> go_Status current \<noteq> StatusGoalReview
      then Inl ErrStateConflict
      else if outcome \<noteq> StatusAchieved \<and> outcome \<noteq> StatusEnded then Inl ErrStateConflict
      else let now = utc now0 in
        Inr (current\<lparr>go_Status := outcome, go_Revision := go_Revision current + 1,
               go_TerminalAt := Some now, go_TerminalOperationID := Some operationID,
               go_TerminalRequestHash := Some requestHash, go_UpdatedAt := now\<rparr>))"

end
