(* ===== verification/GoalLifecycle.thy ===== *)
theory GoalLifecycle
  imports GoalDomain
begin

section \<open>The life of a goal\<close>

text \<open>
  The aggregate the application moves through: a goal with its current version and its
  current cycle, plus the review draft while the goal is in review.  \<open>goal_step\<close> composes the
  domain operations the way \<open>CompleteCycle\<close>, \<open>ContinueReview\<close>, \<open>ReplanCycle\<close> and \<open>Terminate\<close>
  of the application layer compose them; \<open>phase_inv\<close> is what stays true.
\<close>

subsection \<open>Validated texts\<close>

definition body_ok :: "string \<Rightarrow> bool" where
  "body_ok b \<longleftrightarrow> text_ok MaxGoalCodePoints b"

definition signal_ok :: "string option \<Rightarrow> bool" where
  "signal_ok s \<longleftrightarrow>
     (case s of None \<Rightarrow> True
      | Some t \<Rightarrow> text_ok MaxSuccessSignalCodePoints t \<and> trim_space t \<noteq> [])"

definition version_ok :: "Version \<Rightarrow> bool" where
  "version_ok v \<longleftrightarrow> body_ok (ve_Body v) \<and> trim_space (ve_Body v) \<noteq> [] \<and> signal_ok (ve_SuccessSignal v)"

definition draft_ok :: "Draft \<Rightarrow> bool" where
  "draft_ok d \<longleftrightarrow> body_ok (dr_Body d) \<and> signal_ok (dr_SuccessSignal d)"

lemma NormalizeText_Inr:
  "NormalizeText v allowEmpty = Inr w \<longleftrightarrow>
     w = normalizeLineEndings v \<and> body_ok w \<and> (allowEmpty \<or> trim_space w \<noteq> [])"
  by (auto simp: NormalizeText_def Let_def body_ok_def text_ok_def not_less)

lemma NormalizeText_ok:
  "body_ok (normalizeLineEndings v) \<Longrightarrow> NormalizeText v True = Inr (normalizeLineEndings v)"
  by (simp add: NormalizeText_Inr)

lemma NormalizeSuccessSignal_Inr_ok: "NormalizeSuccessSignal s = Inr t \<Longrightarrow> signal_ok t"
  by (auto simp: NormalizeSuccessSignal_def signal_ok_def text_ok_def Let_def
      split: option.splits if_splits)

lemma NormalizeSuccessSignal_id: "signal_ok s \<Longrightarrow> NormalizeSuccessSignal s = Inr s"
  by (auto simp: NormalizeSuccessSignal_def signal_ok_def text_ok_def Let_def normalize_id
      split: option.splits)

lemma body_ok_normalized: "body_ok b \<Longrightarrow> normalizeLineEndings b = b"
  by (simp add: body_ok_def text_ok_normalized)

subsection \<open>Aggregates\<close>

definition refs_ok :: "Goal \<Rightarrow> Version \<Rightarrow> PDCACycle \<Rightarrow> bool" where
  "refs_ok g v c \<longleftrightarrow>
     ve_UserID v = go_UserID g \<and> ve_GoalID v = go_ID g \<and>
     ve_VersionNumber v = go_CurrentVersionNumber g \<and>
     cy_UserID c = go_UserID g \<and> cy_GoalID c = go_ID g \<and> cy_GoalVersionID c = ve_ID v \<and>
     cy_SequenceNumber c = go_NextCycleSequenceNumber g - 1"

definition not_terminated :: "Goal \<Rightarrow> bool" where
  "not_terminated g \<longleftrightarrow>
     go_TerminalAt g = None \<and> go_TerminalOperationID g = None \<and> go_TerminalRequestHash g = None"

definition draft_refs_ok :: "Goal \<Rightarrow> Version \<Rightarrow> PDCACycle \<Rightarrow> Draft \<Rightarrow> bool" where
  "draft_refs_ok g v c d \<longleftrightarrow>
     dr_UserID d = go_UserID g \<and> dr_Type d = DraftReview \<and> dr_GoalID d = Some (go_ID g) \<and>
     dr_BaseGoalVersionID d = Some (ve_ID v) \<and> dr_ReviewCycleID d = Some (cy_ID c)"

datatype phase =
    Working Goal Version PDCACycle
  | Reviewing Goal Version PDCACycle Draft
  | Terminated Goal Version PDCACycle

fun phase_inv :: "phase \<Rightarrow> bool" where
  "phase_inv (Working g v c) \<longleftrightarrow>
     go_Status g = StatusActiveCycle \<and> not_terminated g \<and> refs_ok g v c \<and> version_ok v \<and>
     cycle_inv c \<and> cy_Status c = StatusActive"
| "phase_inv (Reviewing g v c d) \<longleftrightarrow>
     go_Status g = StatusGoalReview \<and> not_terminated g \<and> refs_ok g v c \<and> version_ok v \<and>
     cycle_inv c \<and> cy_Status c = StatusCompleted \<and> draft_refs_ok g v c d \<and> draft_ok d"
| "phase_inv (Terminated g v c) \<longleftrightarrow>
     (go_Status g = StatusAchieved \<or> go_Status g = StatusEnded) \<and>
     go_TerminalAt g = Some (go_UpdatedAt g) \<and> go_TerminalOperationID g \<noteq> None \<and>
     go_TerminalRequestHash g \<noteq> None \<and> refs_ok g v c \<and> version_ok v \<and>
     cycle_inv c \<and> cy_Status c \<noteq> StatusActive"

subsection \<open>Steps\<close>

text \<open>
  Cycle steps other than completion and cancellation happen while working; completion opens
  the review with a draft of the current version; a review continues into the next cycle, on
  a new version when the text changed; a replan cancels the cycle and starts the next on the
  same version; termination cancels a running cycle or discards the review.
\<close>

inductive goal_step :: "phase \<Rightarrow> phase \<Rightarrow> bool" where
  work: "cycle_step c c' \<Longrightarrow> cy_Status c' = StatusActive \<Longrightarrow>
     goal_step (Working g v c) (Working g v c')"
| complete: "cycle_Complete c op h e False now = Inr c' \<Longrightarrow> EnterReview g now = Inr g' \<Longrightarrow>
     NewReviewDraft did g' v c' now = Inr d \<Longrightarrow> goal_step (Working g v c) (Reviewing g' v c' d)"
| save_draft: "SaveDraft d body signal e now = Inr (d', noop) \<Longrightarrow>
     goal_step (Reviewing g v c d) (Reviewing g v c d')"
| continue: "cy_ID c \<noteq> [] \<Longrightarrow> ContinueReview g v d vid cid op h now = Inr r \<Longrightarrow>
     goal_step (Reviewing g v c d) (Working (co_Goal r) (co_Version r) (co_Cycle r))"
| replan: "Replan g v c cid op h now = Inr r \<Longrightarrow>
     goal_step (Working g v c) (Working (rp_Goal r) v (rp_Cycle r))"
| terminate_work: "cycle_Cancel c reason now = Inr c' \<Longrightarrow> Terminate g outcome op h now = Inr g' \<Longrightarrow>
     goal_step (Working g v c) (Terminated g' v c')"
| terminate_review: "Terminate g outcome op h now = Inr g' \<Longrightarrow>
     goal_step (Reviewing g v c d) (Terminated g' v c)"

inductive goal_reachable :: "phase \<Rightarrow> bool" where
  start: "StartInitial d gid vid cid op h now = Inr a \<Longrightarrow>
     goal_reachable (Working (ia_Goal a) (ia_Version a) (ia_Cycle a))"
| step: "goal_reachable p \<Longrightarrow> goal_step p q \<Longrightarrow> goal_reachable q"

inductive_cases goal_step_Terminated: "goal_step (Terminated g v c) q"

lemma StartInitial_inv:
  "StartInitial d gid vid cid op h now = Inr a \<Longrightarrow>
     phase_inv (Working (ia_Goal a) (ia_Version a) (ia_Cycle a))"
  by (auto simp: StartInitial_def NormalizeText_Inr refs_ok_def version_ok_def not_terminated_def
      Let_def cycle_New_inv dest: NormalizeSuccessSignal_Inr_ok split: if_splits)

lemma SaveDraft_Inr:
  "SaveDraft d body signal e now = Inr (d', noop) \<longleftrightarrow>
     (\<exists>s. NormalizeSuccessSignal signal = Inr s \<and> body_ok (normalizeLineEndings body) \<and>
       (if dr_Body d = normalizeLineEndings body \<and> dr_SuccessSignal d = s
        then d' = d \<and> noop
        else dr_Revision d = e \<and> \<not> noop \<and>
          d' = d\<lparr>dr_Body := normalizeLineEndings body, dr_SuccessSignal := s,
                 dr_Revision := dr_Revision d + 1, dr_UpdatedAt := utc now\<rparr>))"
  by (auto simp: SaveDraft_def NormalizeText_Inr)

lemma SaveDraft_ok: "SaveDraft d body signal e now = Inr (d', noop) \<Longrightarrow> draft_ok d'"
  by (auto simp: SaveDraft_Inr draft_ok_def dest: NormalizeSuccessSignal_Inr_ok split: if_splits)

lemma SaveDraft_refs:
  "SaveDraft d body signal e now = Inr (d', noop) \<Longrightarrow>
     draft_refs_ok g v c d \<Longrightarrow> draft_refs_ok g v c d'"
  by (auto simp: SaveDraft_Inr draft_refs_ok_def split: if_splits)

lemma EnterReview_Inr:
  "EnterReview g now = Inr g' \<longleftrightarrow> go_Status g = StatusActiveCycle \<and>
     g' = g\<lparr>go_Status := StatusGoalReview, go_Revision := go_Revision g + 1, go_UpdatedAt := utc now\<rparr>"
  by (auto simp: EnterReview_def)

lemma Terminate_Inr:
  "Terminate g outcome op h now = Inr g' \<longleftrightarrow>
     (go_Status g = StatusActiveCycle \<or> go_Status g = StatusGoalReview) \<and>
     (outcome = StatusAchieved \<or> outcome = StatusEnded) \<and>
     g' = g\<lparr>go_Status := outcome, go_Revision := go_Revision g + 1,
            go_TerminalAt := Some (utc now), go_TerminalOperationID := Some op,
            go_TerminalRequestHash := Some h, go_UpdatedAt := utc now\<rparr>"
  by (auto simp: Terminate_def Let_def)

lemma Replan_Inr:
  "Replan g v c cid op h now = Inr r \<longleftrightarrow>
     go_Status g = StatusActiveCycle \<and> refs_ok g v c \<and> cy_Status c = StatusActive \<and>
     r = \<lparr>rp_Goal = g\<lparr>go_NextCycleSequenceNumber := go_NextCycleSequenceNumber g + 1,
                     go_Revision := go_Revision g + 1, go_UpdatedAt := utc now\<rparr>,
          rp_CanceledCycle = c\<lparr>cy_Status := StatusCanceled, cy_CanceledAt := Some (utc now),
             cy_CancellationReason := Some CancellationReplanned, cy_UpdatedAt := utc now\<rparr>,
          rp_Cycle = cycle_New cid (go_UserID g) (go_ID g) (ve_ID v)
             (go_NextCycleSequenceNumber g) op h now\<rparr>"
  by (auto simp: Replan_def refs_ok_def Let_def cycle_Cancel_Inr IsValidCancellationReason_def)

lemma validateReviewReferences_None:
  "validateReviewReferences g v d = None \<longleftrightarrow>
     go_Status g = StatusGoalReview \<and> ve_UserID v = go_UserID g \<and> ve_GoalID v = go_ID g \<and>
     ve_VersionNumber v = go_CurrentVersionNumber g \<and> dr_UserID d = go_UserID g \<and>
     dr_Type d = DraftReview \<and> dr_GoalID d = Some (go_ID g) \<and>
     dr_BaseGoalVersionID d = Some (ve_ID v) \<and>
     dr_ReviewCycleID d \<noteq> None \<and> dr_ReviewCycleID d \<noteq> Some []"
  by (simp add: validateReviewReferences_def)

text \<open>On consistent references the review text is compared with the version's, and continuing
  computes the next version and cycle.\<close>

definition draft_changes :: "Version \<Rightarrow> Draft \<Rightarrow> bool" where
  "draft_changes v d \<longleftrightarrow> ve_Body v \<noteq> dr_Body d \<or> ve_SuccessSignal v \<noteq> dr_SuccessSignal d"

lemma ReviewContentChanged_eq:
  assumes "validateReviewReferences g v d = None" "version_ok v" "draft_ok d"
  shows "ReviewContentChanged g v d =
    (if trim_space (dr_Body d) = [] then Inl ErrTextRequired
     else Inr (dr_Body d, dr_SuccessSignal d, draft_changes v d))"
proof -
  have b: "normalizeLineEndings (dr_Body d) = dr_Body d" "normalizeLineEndings (ve_Body v) = ve_Body v"
    using assms by (auto simp: draft_ok_def version_ok_def body_ok_normalized)
  have n: "NormalizeText (dr_Body d) False =
      (if trim_space (dr_Body d) = [] then Inl ErrTextRequired else Inr (dr_Body d))"
    using assms(3) b by (auto simp: NormalizeText_def Let_def draft_ok_def body_ok_def text_ok_def)
  show ?thesis
    using assms b NormalizeSuccessSignal_id[of "dr_SuccessSignal d"]
    by (simp add: ReviewContentChanged_def n draft_changes_def draft_ok_def)
qed

definition next_version :: "Goal \<Rightarrow> Version \<Rightarrow> Draft \<Rightarrow> string \<Rightarrow> string \<Rightarrow> gotime \<Rightarrow> Version" where
  "next_version g v d vid op now =
     (if draft_changes v d
      then \<lparr>ve_ID = vid, ve_UserID = go_UserID g, ve_GoalID = go_ID g,
            ve_VersionNumber = go_CurrentVersionNumber g + 1, ve_Body = dr_Body d,
            ve_SuccessSignal = dr_SuccessSignal d, ve_CreatedByOperationID = op,
            ve_CreatedAt = utc now\<rparr>
      else v)"

lemma ContinueReview_eq:
  assumes "validateReviewReferences g v d = None" "version_ok v" "draft_ok d"
  shows "ContinueReview g v d vid cid op h now =
    (if trim_space (dr_Body d) = [] then Inl ErrTextRequired
     else let v' = next_version g v d vid op now in
       Inr \<lparr>co_Goal = g\<lparr>go_CurrentVersionNumber :=
                           if draft_changes v d then go_CurrentVersionNumber g + 1
                           else go_CurrentVersionNumber g,
                         go_NextCycleSequenceNumber := go_NextCycleSequenceNumber g + 1,
                         go_Status := StatusActiveCycle, go_Revision := go_Revision g + 1,
                         go_UpdatedAt := utc now\<rparr>,
            co_Version = v', co_VersionCreated = draft_changes v d,
            co_Cycle = cycle_New cid (go_UserID g) (go_ID g) (ve_ID v')
                         (go_NextCycleSequenceNumber g) op h now\<rparr>)"
  by (simp add: ContinueReview_def ReviewContentChanged_eq[OF assms] next_version_def Let_def)

lemma reviewing_refs:
  "phase_inv (Reviewing g v c d) \<Longrightarrow> cy_ID c \<noteq> [] \<Longrightarrow> validateReviewReferences g v d = None"
  by (simp add: validateReviewReferences_None refs_ok_def draft_refs_ok_def)

lemma cycle_step_refs: "cycle_step c c' \<Longrightarrow> refs_ok g v c \<Longrightarrow> refs_ok g v c'"
  using cycle_step_identity[of c c'] by (simp add: refs_ok_def)

lemma goal_step_inv: "goal_step p q \<Longrightarrow> phase_inv p \<Longrightarrow> phase_inv q"
proof (induction rule: goal_step.induct)
  case (work c c' g v)
  then show ?case using cycle_step_inv[of c c'] cycle_step_refs[of c c' g v] by simp
next
  case (complete c op h e now c' g g' did v d)
  have "cycle_inv c'" using complete cycle_Complete_inv[of c op h e False now c'] by simp
  then show ?case using complete
    by (auto simp: cycle_Complete_Inr EnterReview_Inr NewReviewDraft_def refs_ok_def Let_def
        not_terminated_def draft_refs_ok_def version_ok_def draft_ok_def split: if_splits)
next
  case (save_draft d body signal e now d' noop g v c)
  then show ?case using SaveDraft_ok[OF save_draft(1)] SaveDraft_refs[OF save_draft(1), of g v c]
    by simp
next
  case (continue c g v d vid cid op h now r)
  have "validateReviewReferences g v d = None" using continue reviewing_refs by blast
  then show ?case using continue
    by (auto simp: ContinueReview_eq Let_def refs_ok_def not_terminated_def next_version_def
        cycle_New_inv version_ok_def draft_ok_def split: if_splits)
next
  case (replan g v c cid op h now r)
  then show ?case by (simp add: Replan_Inr refs_ok_def not_terminated_def cycle_New_inv)
next
  case (terminate_work c reason now c' g outcome op h g' v)
  have "cycle_inv c'" using terminate_work cycle_Cancel_inv[of c reason now c'] by simp
  then show ?case using terminate_work
    by (auto simp: cycle_Cancel_Inr Terminate_Inr refs_ok_def)
next
  case (terminate_review g outcome op h now g' v c d)
  then show ?case by (auto simp: Terminate_Inr refs_ok_def)
qed

subsection \<open>Properties\<close>

text \<open>A concrete goal the witnesses run: a creation draft, the started goal, its review.\<close>

definition sample_draft :: Draft where
  "sample_draft =
     \<lparr>dr_ID = ''d1'', dr_UserID = ''u1'', dr_Type = DraftCreation, dr_GoalID = None,
      dr_BaseGoalVersionID = None, dr_ReviewCycleID = None, dr_Body = ''learn'',
      dr_SuccessSignal = Some ''done'', dr_Revision = 3, dr_CreatedAt = zero_time,
      dr_UpdatedAt = zero_time\<rparr>"

definition sample_goal :: Goal where
  "sample_goal =
     \<lparr>go_ID = ''g1'', go_UserID = ''u1'', go_Status = StatusActiveCycle,
      go_CurrentVersionNumber = 1, go_NextCycleSequenceNumber = 2, go_Revision = 0,
      go_TerminalAt = None, go_TerminalOperationID = None, go_TerminalRequestHash = None,
      go_CreatedAt = utc sample_now, go_UpdatedAt = utc sample_now\<rparr>"

definition sample_version :: Version where
  "sample_version =
     \<lparr>ve_ID = ''v1'', ve_UserID = ''u1'', ve_GoalID = ''g1'', ve_VersionNumber = 1,
      ve_Body = ''learn'', ve_SuccessSignal = Some ''done'', ve_CreatedByOperationID = ''op1'',
      ve_CreatedAt = utc sample_now\<rparr>"

lemma sample_start:
  "StartInitial sample_draft ''g1'' ''v1'' ''c1'' ''op1'' ''h1'' sample_now =
     Inr \<lparr>ia_Goal = sample_goal, ia_Version = sample_version, ia_Cycle = sample_cycle\<rparr>"
  by (simp add: StartInitial_def NormalizeText_def NormalizeSuccessSignal_def sample_draft_def
      sample_goal_def sample_version_def sample_cycle_def text_eval MaxGoalCodePoints_def
      MaxSuccessSignalCodePoints_def)

lemma sample_reachable: "goal_reachable (Working sample_goal sample_version sample_cycle)"
  using goal_reachable.start[OF sample_start] by simp

text \<open>The sample goal in review, its draft edited.\<close>

definition sample_completed :: PDCACycle where
  "sample_completed = filled_cycle\<lparr>cy_Status := StatusCompleted,
     cy_CompletedAt := Some (utc sample_now), cy_CompletionOperationID := Some ''op2'',
     cy_CompletionRequestHash := Some ''h2'', cy_UpdatedAt := utc sample_now\<rparr>"

definition sample_review_goal :: Goal where
  "sample_review_goal = sample_goal\<lparr>go_Status := StatusGoalReview, go_Revision := 1\<rparr>"

definition sample_review_draft :: Draft where
  "sample_review_draft =
     \<lparr>dr_ID = ''d2'', dr_UserID = ''u1'', dr_Type = DraftReview, dr_GoalID = Some ''g1'',
      dr_BaseGoalVersionID = Some ''v1'', dr_ReviewCycleID = Some ''c1'', dr_Body = ''teach'',
      dr_SuccessSignal = None, dr_Revision = 1, dr_CreatedAt = utc sample_now,
      dr_UpdatedAt = utc sample_now\<rparr>"

lemma sample_review_inv:
  "phase_inv (Reviewing sample_review_goal sample_version sample_completed sample_review_draft)"
proof -
  have "MissingRequiredFrames sample_completed = []"
    using filled_cycle_complete MissingRequiredFrames_cong[OF FrameContent_cong, of sample_completed filled_cycle]
    by (simp add: sample_completed_def)
  moreover have "text_ok MaxFrameCodePoints [a]" if "byte a \<in> {97..122}" for a
    using that by (auto simp: text_ok_def text_eval MaxFrameCodePoints_def)
  ultimately show ?thesis
    by (simp add: cycle_inv_simps review_date_ok_def sample_completed_def sample_review_goal_def
        sample_goal_def sample_version_def sample_review_draft_def sample_defs not_terminated_def
        refs_ok_def draft_refs_ok_def draft_ok_def version_ok_def body_ok_def signal_ok_def
        text_ok_def text_eval MaxGoalCodePoints_def MaxSuccessSignalCodePoints_def
        MaxFrameCodePoints_def)
qed

text \<open>[C2] Every aggregate the application's compositions of domain operations reach is
  consistent: the goal's status agrees with its cycle (active, completed and under review, or
  closed), the cycle and the version belong to the goal and carry its current numbers, the
  review draft points at them, and all texts are validated.\<close>

theorem goal_reachable_inv: "goal_reachable p \<Longrightarrow> phase_inv p"
  by (induction rule: goal_reachable.induct) (auto intro: goal_step_inv dest: StartInitial_inv)

theorem goal_reachable_inv_witness: "phase_inv (Working sample_goal sample_version sample_cycle)"
  by (rule goal_reachable_inv[OF sample_reachable])

text \<open>[C7] On a consistent working aggregate a replan is never rejected by the domain (the
  application treats a rejection as a broken invariant): it cancels the cycle as replanned
  with its texts untouched, and starts an empty cycle on the same version with the next
  sequence number, advancing the goal's revision by one.\<close>

theorem Replan_never_rejected:
  assumes "phase_inv (Working g v c)"
  shows "\<exists>r. Replan g v c cid op h now = Inr r \<and>
    cy_Status (rp_CanceledCycle r) = StatusCanceled \<and>
    cy_CancellationReason (rp_CanceledCycle r) = Some CancellationReplanned \<and>
    FrameContent (rp_CanceledCycle r) = FrameContent c \<and>
    cy_SequenceNumber (rp_Cycle r) = cy_SequenceNumber c + 1 \<and>
    cy_GoalVersionID (rp_Cycle r) = cy_GoalVersionID c \<and>
    MissingRequiredFrames (rp_Cycle r) = allFrames \<and>
    go_Revision (rp_Goal r) = go_Revision g + 1 \<and>
    phase_inv (Working (rp_Goal r) v (rp_Cycle r))"
proof -
  obtain r where r: "Replan g v c cid op h now = Inr r"
    using assms by (simp add: Replan_Inr)
  then have "goal_step (Working g v c) (Working (rp_Goal r) v (rp_Cycle r))"
    by (rule goal_step.replan)
  then have inv: "phase_inv (Working (rp_Goal r) v (rp_Cycle r))"
    using goal_step_inv assms by blast
  have "FrameContent (rp_CanceledCycle r) = FrameContent c"
    using r by (intro FrameContent_cong) (simp_all add: Replan_Inr)
  moreover have "MissingRequiredFrames (rp_Cycle r) = allFrames"
    using r by (simp add: Replan_Inr MissingRequiredFrames_def FrameContent_def allFrames_def)
  ultimately show ?thesis
    using r inv by (intro exI[of _ r]) (auto simp: Replan_Inr refs_ok_def)
qed

theorem Replan_never_rejected_witness:
  "\<exists>r. Replan sample_goal sample_version sample_cycle ''c2'' ''op3'' ''h3'' sample_now = Inr r \<and>
     cy_SequenceNumber (rp_Cycle r) = 2"
proof -
  have "phase_inv (Working sample_goal sample_version sample_cycle)"
    using StartInitial_inv[OF sample_start] by simp
  from Replan_never_rejected[OF this, of "''c2''" "''op3''" "''h3''" sample_now] show ?thesis
    by (auto simp: sample_cycle_def)
qed

text \<open>[C6] Continuing a consistent review fails only on a blank goal text; otherwise it creates
  version number plus one exactly when the text or the success signal differs from the current
  version (and keeps the version otherwise), and starts an empty cycle on that version with
  the next sequence number.\<close>

theorem ContinueReview_contract:
  assumes "phase_inv (Reviewing g v c d)" "cy_ID c \<noteq> []"
  shows "if trim_space (dr_Body d) = []
    then ContinueReview g v d vid cid op h now = Inl ErrTextRequired
    else \<exists>r. ContinueReview g v d vid cid op h now = Inr r \<and>
      (co_VersionCreated r \<longleftrightarrow> ve_Body v \<noteq> dr_Body d \<or> ve_SuccessSignal v \<noteq> dr_SuccessSignal d) \<and>
      ve_VersionNumber (co_Version r) =
        ve_VersionNumber v + (if co_VersionCreated r then 1 else 0) \<and>
      (\<not> co_VersionCreated r \<longrightarrow> co_Version r = v) \<and>
      ve_Body (co_Version r) = dr_Body d \<and> ve_SuccessSignal (co_Version r) = dr_SuccessSignal d \<and>
      cy_SequenceNumber (co_Cycle r) = cy_SequenceNumber c + 1 \<and>
      phase_inv (Working (co_Goal r) (co_Version r) (co_Cycle r))"
proof (cases "trim_space (dr_Body d) = []")
  case True
  then show ?thesis
    using ContinueReview_eq[OF reviewing_refs[OF assms]] assms by simp
next
  case False
  obtain r where r: "ContinueReview g v d vid cid op h now = Inr r"
    using ContinueReview_eq[OF reviewing_refs[OF assms]] assms False by (simp add: Let_def)
  have "goal_step (Reviewing g v c d) (Working (co_Goal r) (co_Version r) (co_Cycle r))"
    by (rule goal_step.continue[OF assms(2) r])
  then have "phase_inv (Working (co_Goal r) (co_Version r) (co_Cycle r))"
    using goal_step_inv assms(1) by blast
  moreover have "refs_ok g v c" using assms by simp
  ultimately show ?thesis
    using r False ContinueReview_eq[OF reviewing_refs[OF assms]] assms(1)
    by (intro if_not_P[THEN iffD2] exI[of _ r])
      (auto simp: Let_def next_version_def draft_changes_def refs_ok_def)
qed

theorem ContinueReview_contract_witness:
  "\<exists>r. ContinueReview sample_review_goal sample_version sample_review_draft ''v2'' ''c2'' ''op3'' ''h3''
       sample_now = Inr r \<and> ve_VersionNumber (co_Version r) = 2 \<and> ve_Body (co_Version r) = ''teach''"
proof -
  have "cy_ID sample_completed \<noteq> []" by (simp add: sample_completed_def sample_defs)
  moreover have "trim_space (dr_Body sample_review_draft) \<noteq> []"
    by (simp add: sample_review_draft_def text_eval)
  ultimately show ?thesis
    using ContinueReview_contract[OF sample_review_inv, of "''v2''" "''c2''" "''op3''" "''h3''" sample_now]
    by (auto simp: sample_version_def sample_review_draft_def)
qed



end
