(* ===== verification/AIOutput.thy ===== *)
theory AIOutput
  imports GoalLifecycle
begin

section \<open>AI operations and their outputs\<close>

text \<open>
  Model of \<open>backend/internal/domain/ai\<close> (\<open>operation_type.go\<close>, \<open>output.go\<close>) and of
  \<open>backend/internal/identifier/uuid.go\<close>.  An error made by \<open>errors.Join\<close> is the list of the
  joined errors; \<open>errors.Is\<close> asks for membership.
\<close>

type_synonym operation_type = string

abbreviation OperationGoalRefine :: operation_type where "OperationGoalRefine \<equiv> ''goal_refine''"
abbreviation OperationActionGenerate :: operation_type where
  "OperationActionGenerate \<equiv> ''action_generate''"
abbreviation OperationActionRefine :: operation_type where
  "OperationActionRefine \<equiv> ''action_refine''"

definition operation_Valid :: "operation_type \<Rightarrow> bool" where
  "operation_Valid operation \<longleftrightarrow>
     operation = OperationGoalRefine \<or> operation = OperationActionGenerate \<or>
     operation = OperationActionRefine"

datatype ai_output_error =
    ErrInvalidGoalSuggestion | ErrInvalidActionCount | ErrInvalidActionText
  | AIGoalError goal_error | AICycleError cycle_error

definition normalizeAIText :: "string \<Rightarrow> string \<times> bool" where
  "normalizeAIText value0 =
     (let value = normalizeLineEndings value0 in
      if list_ex (\<lambda>r. is_control r \<and> r \<noteq> 10 \<and> r \<noteq> 9) (runes value)
      then ([], False) else (value, True))"

definition ValidateGoalSuggestion :: "string \<Rightarrow> ai_output_error list + string" where
  "ValidateGoalSuggestion suggestion =
     (let (normalized, valid) = normalizeAIText suggestion in
      if \<not> valid then Inl [ErrInvalidGoalSuggestion, AIGoalError ErrGoalForbiddenCharacter]
      else if trim_space normalized = [] then Inl [ErrInvalidGoalSuggestion, AIGoalError ErrTextRequired]
      else if rune_count normalized > MaxGoalCodePoints
      then Inl [ErrInvalidGoalSuggestion, AIGoalError ErrTextTooLong]
      else Inr normalized)"

text \<open>The decimal digits \<open>fmt.Sprintf\<close> writes for \<open>%d\<close>.\<close>

fun decimal :: "nat \<Rightarrow> string" where
  "decimal n = (if n < 10 then [digit_char n] else decimal (n div 10) @ [digit_char n])"

declare decimal.simps [simp del]

text \<open>\<open>strings.Join\<close>.\<close>

fun join_strings :: "string \<Rightarrow> string list \<Rightarrow> string" where
  "join_strings sep [] = []"
| "join_strings sep [x] = x"
| "join_strings sep (x # y # xs) = x @ sep @ join_strings sep (y # xs)"

fun render_actions :: "nat \<Rightarrow> string list \<Rightarrow> ai_output_error list + string list" where
  "render_actions index [] = Inr []"
| "render_actions index (action # actions) =
     (let (normalized0, valid) = normalizeAIText action in
      if \<not> valid then Inl [ErrInvalidActionText, AICycleError ErrForbiddenCharacter]
      else let normalized = trim_space normalized0 in
        if normalized = [] then Inl [ErrInvalidActionText]
        else rbind (render_actions (index + 1) actions) (\<lambda>rest.
          Inr ((decimal (index + 1) @ ''. '' @ normalized) # rest)))"

definition RenderGeneratedActions :: "string list \<Rightarrow> ai_output_error list + string" where
  "RenderGeneratedActions actions =
     (if length actions < 1 \<or> length actions > 3 then Inl [ErrInvalidActionCount]
      else rbind (render_actions 0 actions) (\<lambda>rendered.
        let output = join_strings [LF, LF] rendered in
        if rune_count output > MaxFrameCodePoints
        then Inl [ErrInvalidActionText, AICycleError ErrFrameTextTooLong]
        else Inr output))"

definition ValidateRefinedAction :: "string \<Rightarrow> ai_output_error list + string" where
  "ValidateRefinedAction action =
     (let (normalized, valid) = normalizeAIText action in
      if \<not> valid then Inl [ErrInvalidActionText, AICycleError ErrForbiddenCharacter]
      else if trim_space normalized = [] then Inl [ErrInvalidActionText]
      else if rune_count normalized > MaxFrameCodePoints
      then Inl [ErrInvalidActionText, AICycleError ErrFrameTextTooLong]
      else Inr normalized)"

subsection \<open>Validated outputs\<close>

lemma normalizeAIText_True:
  "normalizeAIText v = (w, True) \<Longrightarrow> w = normalizeLineEndings v \<and> \<not> has_forbidden w \<and> CR \<notin> set w"
  by (auto simp: normalizeAIText_def Let_def has_forbidden_def list_ex_iff
      dest: forbidden_control split: if_splits)

lemma has_forbidden_iff: "has_forbidden s \<longleftrightarrow> (\<exists>r\<in>set (runes s). forbidden_rune r)"
  by (simp add: has_forbidden_def list_ex_iff)

text \<open>A text that passes the frame rules and is not blank is one an active cycle accepts as is.\<close>

lemma ApplyAIAction_accepts:
  assumes "text_ok MaxFrameCodePoints v" "\<not> IsBlank v" "cy_Status c = StatusActive"
  shows "\<exists>c'. ApplyAIAction c v now = Inr c' \<and> cy_Action c' = v \<and> cy_Status c' = StatusActive"
proof -
  have "NormalizeAndValidateText v = Inr v"
    using assms(1) text_ok_normalized by (simp add: NormalizeAndValidateText_Inr)
  then show ?thesis using assms by (simp add: ApplyAIAction_def Let_def)
qed

lemma decimal_bytes: "\<forall>c\<in>set (decimal n). 48 \<le> byte c \<and> byte c \<le> 57"
proof (induction n rule: decimal.induct)
  case (1 n)
  have "n mod 10 < 10" by simp
  then have "48 + n mod 10 \<le> 57" by linarith
  with 1 show ?case by (cases "n < 10") (auto simp: decimal.simps[of n])
qed

lemma decimal_not_Nil [simp]: "decimal n \<noteq> []"
  by (subst decimal.simps) simp

lemma render_actions_Inr:
  "render_actions k actions = Inr ys \<Longrightarrow>
     ys = map (\<lambda>(i, a). decimal (i + 1) @ ''. '' @ trim_space (normalizeLineEndings a))
            (enumerate k actions) \<and>
     (\<forall>a\<in>set actions. \<not> has_forbidden (normalizeLineEndings a) \<and>
        trim_space (normalizeLineEndings a) \<noteq> [])"
proof (induction k actions arbitrary: ys rule: render_actions.induct)
  case (2 index action actions)
  obtain n b where nb: "normalizeAIText action = (n, b)" by fastforce
  with 2(2) have b: "b" "trim_space n \<noteq> []"
    by (simp_all add: Let_def split: if_splits)
  from 2(2) nb b obtain rest where rest: "render_actions (index + 1) actions = Inr rest"
      "ys = (decimal (index + 1) @ ''. '' @ trim_space n) # rest"
    by (auto simp: Let_def)
  have "n = normalizeLineEndings action" "\<not> has_forbidden n"
    using normalizeAIText_True[of action n] nb b by auto
  with 2(1)[OF nb[symmetric] refl _ refl _ rest(1)] b rest show ?case by auto
qed simp

text \<open>Runes and bytes of a numbered item, and of items joined by blank lines.\<close>

lemma numbered_runes:
  "runes (decimal n @ ''. '' @ t) = map of_char (decimal n) @ [46, 32] @ runes t"
  using decimal_bytes[of n] by (subst runes_ascii_append) force+

lemma join_lines_ok:
  assumes "\<forall>x\<in>set xs. CR \<notin> set x \<and> \<not> has_forbidden x"
  shows "CR \<notin> set (join_strings [LF, LF] xs) \<and> \<not> has_forbidden (join_strings [LF, LF] xs)"
  using assms
proof (induction "[LF, LF]" xs rule: join_strings.induct)
  case (3 x y xs)
  define b where "b = join_strings [LF, LF] (y # xs)"
  have "CR \<notin> set b \<and> \<not> has_forbidden b" using 3 unfolding b_def by simp
  moreover have "runes (x @ LF # LF # b) = runes x @ runes (LF # LF # b)"
    by (rule runes_append) (simp add: cont_byte_def)
  then have "runes (x @ LF # LF # b) = runes x @ [10, 10] @ runes b" by simp
  moreover have "\<not> forbidden_rune 10" by (simp add: forbidden_rune_def)
  moreover have "join_strings [LF, LF] (x # y # xs) = x @ LF # LF # b" by (simp add: b_def)
  ultimately show ?case using 3(2) by (simp add: has_forbidden_iff ball_Un)
qed simp_all

lemma join_lines_first: "\<exists>t. join_strings sep (x # xs) = x @ t"
  by (cases xs) auto

lemma numbered_ok:
  assumes "\<not> has_forbidden t" "CR \<notin> set t"
  shows "\<not> has_forbidden (decimal n @ ''. '' @ t) \<and> CR \<notin> set (decimal n @ ''. '' @ t)"
proof -
  have "\<forall>c\<in>set (decimal n). 48 \<le> byte c \<and> byte c \<le> 57" by (rule decimal_bytes)
  moreover have "byte CR = 13" by simp
  ultimately have "CR \<notin> set (decimal n)" by fastforce
  moreover have "\<forall>r\<in>set (map of_char (decimal n)). \<not> forbidden_rune r"
    using decimal_bytes[of n] by (auto simp: forbidden_rune_def)
  ultimately show ?thesis
    using assms unfolding has_forbidden_iff numbered_runes by (auto simp: forbidden_rune_def)
qed

lemma RenderGeneratedActions_Inr:
  assumes "RenderGeneratedActions actions = Inr v"
  shows "1 \<le> length actions \<and> length actions \<le> 3 \<and>
    v = join_strings [LF, LF]
          (map (\<lambda>(i, a). decimal (i + 1) @ ''. '' @ trim_space (normalizeLineEndings a))
             (enumerate 0 actions)) \<and>
    (\<forall>a\<in>set actions. \<not> has_forbidden (normalizeLineEndings a) \<and>
       trim_space (normalizeLineEndings a) \<noteq> []) \<and>
    rune_count v \<le> MaxFrameCodePoints"
  using assms render_actions_Inr[of 0 actions]
  by (cases actions) (auto simp: RenderGeneratedActions_def Let_def split: if_splits)

lemma RenderGeneratedActions_ok:
  assumes "RenderGeneratedActions actions = Inr v"
  shows "text_ok MaxFrameCodePoints v \<and> \<not> IsBlank v"
proof -
  define items where "items = map (\<lambda>(i, a). decimal (i + 1) @ ''. '' @
    trim_space (normalizeLineEndings a)) (enumerate 0 actions)"
  note r = RenderGeneratedActions_Inr[OF assms]
  have v: "v = join_strings [LF, LF] items" using r unfolding items_def by blast
  have tr: "\<not> has_forbidden (trim_space (normalizeLineEndings a)) \<and>
      CR \<notin> set (trim_space (normalizeLineEndings a))" if "a \<in> set actions" for a
    using r that trim_space_runes[of "normalizeLineEndings a"]
      trim_space_bytes[of "normalizeLineEndings a"] by (auto simp: has_forbidden_iff)
  have "\<forall>x\<in>set items. CR \<notin> set x \<and> \<not> has_forbidden x"
  proof
    fix x assume "x \<in> set items"
    then obtain n a where "a \<in> set actions"
        "x = decimal n @ ''. '' @ trim_space (normalizeLineEndings a)"
      by (auto simp: items_def in_set_enumerate_eq simp del: append.simps) (metis nth_mem)
    then show "CR \<notin> set x \<and> \<not> has_forbidden x" using numbered_ok tr by metis
  qed
  then have safe: "CR \<notin> set v \<and> \<not> has_forbidden v" unfolding v by (rule join_lines_ok)
  obtain a as where "actions = a # as" using r by (cases actions) auto
  then obtain x xs where x: "items = (decimal 1 @ ''. '' @ x) # xs"
    unfolding items_def by (simp del: append.simps)
  then obtain t where "v = decimal 1 @ ''. '' @ x @ t"
    using join_lines_first[of "[LF, LF]" "decimal 1 @ ''. '' @ x" xs] unfolding v by auto
  then have "46 \<in> set (runes v)" using numbered_runes by simp
  moreover have "\<not> is_space 46" by (simp add: is_space_def)
  ultimately have "\<not> IsBlank v" unfolding IsBlank_iff by blast
  with safe show ?thesis using r by (auto simp: text_ok_def)
qed

lemma ValidateRefinedAction_Inr:
  "ValidateRefinedAction a = Inr v \<Longrightarrow> text_ok MaxFrameCodePoints v \<and> \<not> IsBlank v"
  by (auto simp: ValidateRefinedAction_def text_ok_def IsBlank_def dest: normalizeAIText_True
      split: if_splits prod.splits)

text \<open>What the provider's output validation accepts, the domain accepts: a refined action or
  a rendered list of generated actions that passes validation is stored unchanged by an active
  cycle, so no accepted output is lost to a second, stricter rule.\<close>

theorem validated_actions_apply:
  assumes "ValidateRefinedAction a = Inr v \<or> RenderGeneratedActions as = Inr v"
    "cy_Status c = StatusActive"
  shows "\<exists>c'. ApplyAIAction c v now = Inr c' \<and> cy_Action c' = v \<and> cy_Status c' = StatusActive"
  using assms ValidateRefinedAction_Inr RenderGeneratedActions_ok ApplyAIAction_accepts by blast

theorem validated_actions_apply_witness:
  "\<exists>c'. ApplyAIAction sample_cycle ''go'' sample_now = Inr c' \<and> cy_Action c' = ''go'' \<and>
     cy_Status c' = StatusActive"
proof -
  have "ValidateRefinedAction ''go'' = Inr ''go''"
    by (simp add: ValidateRefinedAction_def normalizeAIText_def text_eval MaxFrameCodePoints_def)
  moreover have "cy_Status sample_cycle = StatusActive"
    by (simp add: sample_cycle_def cycle_New_def Let_def)
  ultimately show ?thesis by (blast intro: validated_actions_apply)
qed

lemma ValidateGoalSuggestion_Inr:
  assumes "ValidateGoalSuggestion s = Inr v"
  shows "NormalizeText v allowEmpty = Inr v \<and> trim_space v \<noteq> []"
proof -
  obtain n b where nb: "normalizeAIText s = (n, b)" by fastforce
  with assms have v: "b" "n = v" "trim_space v \<noteq> []" "\<not> rune_count v > MaxGoalCodePoints"
    by (auto simp: ValidateGoalSuggestion_def split: if_splits)
  then have "normalizeLineEndings v = v" "\<not> has_forbidden v"
    using normalizeAIText_True[of s n] nb by (auto simp: normalize_id)
  with v show ?thesis by (simp add: NormalizeText_def Let_def)
qed

subsection \<open>Identifiers\<close>

definition isUUIDVariant :: "char \<Rightarrow> bool" where
  "isUUIDVariant value \<longleftrightarrow>
     value = CHR ''8'' \<or> value = CHR ''9'' \<or> value = CHR ''a'' \<or> value = CHR ''b''"

definition isLowerHex :: "nat \<Rightarrow> bool" where
  "isLowerHex value \<longleftrightarrow> (48 \<le> value \<and> value \<le> 57) \<or> (97 \<le> value \<and> value \<le> 102)"

definition IsCanonicalUUIDv7 :: "string \<Rightarrow> bool" where
  "IsCanonicalUUIDv7 value \<longleftrightarrow>
     length value = 36 \<and> value ! 8 = CHR ''-'' \<and> value ! 13 = CHR ''-'' \<and>
     value ! 18 = CHR ''-'' \<and> value ! 23 = CHR ''-'' \<and> value ! 14 = CHR ''7'' \<and>
     isUUIDVariant (value ! 19) \<and>
     list_all (\<lambda>(index, character). index \<in> {8, 13, 18, 23} \<or> isLowerHex character)
       (range_from 0 value)"

lemma IsCanonicalUUIDv7_nonempty: "IsCanonicalUUIDv7 v \<Longrightarrow> v \<noteq> []"
  by (auto simp: IsCanonicalUUIDv7_def)

end
