(* ===== verification/WorkspaceTypes.thy ===== *)
theory WorkspaceTypes
  imports AIOutput
begin

section \<open>Values and errors of the workspace application layer\<close>

text \<open>
  Model of \<open>backend/internal/application/workspace/types.go\<close>, of the sentinel errors of the
  use cases, and of the transaction monad they run in.  The sentinel errors are constructors;
  an error that wraps a persistence sentinel with a message (\<open>fmt.Errorf("%w: ...")\<close>) is the
  sentinel's constructor applied to the message; \<open>ErrRateLimitExceeded\<close> is the one of package
  \<open>ports\<close>, \<open>JoinErrors\<close> is \<open>errors.Join\<close> of two errors; errors of the domain packages are embedded, and
  \<open>Infrastructure\<close> stands for whatever error the database driver, the clock or the identifier
  generator returns.  The \<open>json\<close> tags of the views are not modelled.
\<close>

datatype workspace_error =
    ErrNotFound | ErrGoalDraftNotFound | ErrGoalNotFound | ErrCycleNotFound
  | ErrDraftTypeMismatch | ErrDraftRevisionConflict | ErrReviewRevisionConflict
  | ErrGoalRevisionConflict | ErrGoalVersionConflict | ErrGoalActiveLimit
  | ErrProgressingGoalLimitInvariant | ErrGoalReviewNotActive | ErrGoalReviewInvariant
  | ErrGoalStateConflict | ErrGoalAlreadyTerminal | ErrInvalidGoalOutcome
  | ErrInvalidTerminationRequest | ErrReplanConfirmation | ErrDeleteConfirmation
  | ErrDeleteConflict | ErrDiscardConfirmation | ErrAIInProgress | ErrAIInputIncomplete
  | ErrGoalRefineInputEmpty | ErrActionGenerateInputIncomplete | ErrActionRefineInputIncomplete
  | ErrAIReplacementRequired | ErrAIContextStale | ErrAISuggestionNotFound
  | ErrAIResultAlreadyAdopted | ErrAIUserLimit | ErrAIRateLimit | ErrAIBudget
  | ErrAIProviderRejected | ErrAIProviderUnavailable | ErrAIProviderTimeout
  | ErrAIInvalidResponse | ErrAIContextIsolation | ErrAIInputBudget
  | ErrIdempotencyKeyReused | ErrInvalidCursor
  | ErrDraftAlreadyExists
  | DraftAlreadyExistsError string
  | AIOperationInProgressError string
  | CycleCompletionIncompleteError "frame list"
  | ErrCyclePersistenceInvariant string
  | ErrGoalPersistenceInvariant string
  | ErrReviewTransitionInvariant string
  | ErrGoalDraftPersistenceInvariant string
  | ErrActionAIPersistenceInvariant string
  | ErrRateLimitExceeded
  | JoinErrors workspace_error workspace_error
  | CycleFailure cycle_error
  | GoalFailure goal_error
  | Infrastructure string

text \<open>
  \<open>errors.Is(err, ErrAIInProgress)\<close> also holds of the error that carries the generation, and
  \<open>errors.Is(err, cycle.ErrCycleIncomplete)\<close> of the error that carries the missing frames.
\<close>

definition is_ai_in_progress :: "workspace_error \<Rightarrow> bool" where
  "is_ai_in_progress err \<longleftrightarrow>
     (case err of ErrAIInProgress \<Rightarrow> True | AIOperationInProgressError _ \<Rightarrow> True | _ \<Rightarrow> False)"

definition is_cycle_incomplete :: "workspace_error \<Rightarrow> bool" where
  "is_cycle_incomplete err \<longleftrightarrow>
     (case err of CycleCompletionIncompleteError _ \<Rightarrow> True | CycleFailure e \<Rightarrow> e = ErrCycleIncomplete
      | _ \<Rightarrow> False)"

text \<open>An error of package \<open>goal\<close> that is one of package \<open>cycle\<close> passed on is that error.\<close>

fun goal_failure :: "goal_error \<Rightarrow> workspace_error" where
  "goal_failure (FromCycle e) = CycleFailure e"
| "goal_failure e = GoalFailure e"

subsection \<open>Views\<close>

record GoalVersionView =
  gvv_ID :: string
  gvv_VersionNumber :: i32
  gvv_Body :: string
  gvv_SuccessSignal :: "string option"
  gvv_CreatedAt :: gotime

record DraftView =
  dv_ID :: string
  dv_DraftType :: string
  dv_GoalID :: "string option"
  dv_BaseGoalVersionID :: "string option"
  dv_ReviewCycleID :: "string option"
  dv_Body :: string
  dv_SuccessSignal :: "string option"
  dv_Revision :: i64
  dv_UpdatedAt :: gotime
  dv_Replayed :: bool

record CyclePredecessorView =
  cpv_CycleID :: string
  cpv_CycleSequenceNumber :: i32
  cpv_Status :: cycle_status
  cpv_CancellationReason :: "cancellation_reason option"
  cpv_GoalVersionNumber :: i32

record PreviousCompletedCycleActionView =
  pca_CycleID :: string
  pca_CycleSequenceNumber :: i32
  pca_GoalVersionNumber :: i32
  pca_Action :: string

record FrameRevisions =
  fr_Plan :: i64
  fr_Do :: i64
  fr_Check :: i64
  fr_Action :: i64

record CycleView =
  cv_ID :: string
  cv_GoalID :: string
  cv_SequenceNumber :: i32
  cv_Status :: cycle_status
  cv_GoalVersion :: GoalVersionView
  cv_PreviousCompletedCycleAction :: "PreviousCompletedCycleActionView option"
  cv_StartedAt :: gotime
  cv_CompletedAt :: "gotime option"
  cv_CanceledAt :: "gotime option"
  cv_CancellationReason :: "cancellation_reason option"
  cv_Plan :: string
  cv_Do :: string
  cv_Check :: string
  cv_Action :: string
  cv_ContentRevision :: i64
  cv_FrameRevisions :: FrameRevisions
  cv_ReviewDate :: "review_date option"
  cv_ReviewScheduleRevision :: i64
  cv_Predecessor :: "CyclePredecessorView option"

record ReviewScheduleView =
  rsv_ReviewDate :: "review_date option"
  rsv_ReviewScheduleRevision :: i64

record CurrentWorkView =
  cw_Kind :: string
  cw_CycleID :: string
  cw_CycleSequenceNumber :: i32
  cw_ReviewSchedule :: "ReviewScheduleView option"
  cw_ReviewDraftID :: string
  cw_TriggerCycleID :: string
  cw_TriggerCycleSequenceNumber :: i32

record GoalView =
  gv_ID :: string
  gv_Status :: goal_status
  gv_Revision :: i64
  gv_CurrentVersion :: GoalVersionView
  gv_CurrentWork :: "CurrentWorkView option"
  gv_NextCycleSequenceNumber :: i32
  gv_CycleCount :: i32
  gv_CreatedAt :: gotime
  gv_TerminalAt :: "gotime option"

record GoalPage =
  gp_Items :: "GoalView list"
  gp_NextCursor :: "string option"

definition CycleSummaryPreviewMaxCodePoints :: nat where
  "CycleSummaryPreviewMaxCodePoints = 120"

record CycleFramePreview =
  cfp_Text :: string
  cfp_Truncated :: bool

record CycleLearningPreview =
  clp_Check :: CycleFramePreview
  clp_Action :: CycleFramePreview

record CycleSummary =
  cs_ID :: string
  cs_SequenceNumber :: i32
  cs_Status :: cycle_status
  cs_StartedAt :: gotime
  cs_CompletedAt :: "gotime option"
  cs_CanceledAt :: "gotime option"
  cs_CancellationReason :: "cancellation_reason option"
  cs_GoalVersion :: GoalVersionView
  cs_PlanPreview :: string
  cs_LearningPreview :: "CycleLearningPreview option"

record CyclePage =
  cp_Items :: "CycleSummary list"
  cp_NextCursor :: "string option"

subsection \<open>Commands and their results\<close>

record ContinueReviewInput =
  cri_UserID :: string
  cri_GoalID :: string
  cri_OperationID :: string
  cri_ExpectedGoalRevision :: i64
  cri_ExpectedDraftRevision :: i64

record ContinueReviewResult =
  crr_Goal :: GoalView
  crr_VersionCreated :: bool
  crr_Cycle :: CycleView
  crr_Replayed :: bool

record CompleteCycleInput =
  cci_UserID :: string
  cci_GoalID :: string
  cci_CycleID :: string
  cci_OperationID :: string
  cci_ExpectedGoalRevision :: i64
  cci_ExpectedContentRevision :: i64

record CommandReplayResourceIDs =
  rids_GoalID :: string
  rids_CycleID :: string

record CommandReplayResponse =
  crep_Replayed :: bool
  crep_Operation :: string
  crep_ResourceIDs :: CommandReplayResourceIDs
  crep_CurrentGoalState :: goal_status
  crep_CurrentWorkspace :: "CurrentWorkView option"

text \<open>
  In a replay without a draft the code leaves \<open>ReviewDraft\<close> at its zero value; the option says
  whether the field was set.
\<close>

record CompleteCycleResult =
  ccr_CompletedCycle :: CycleView
  ccr_Goal :: GoalView
  ccr_ReviewDraft :: "DraftView option"
  ccr_Replayed :: bool
  ccr_Replay :: "CommandReplayResponse option"

record ReplanCycleInput =
  rci_UserID :: string
  rci_GoalID :: string
  rci_CycleID :: string
  rci_OperationID :: string
  rci_ExpectedGoalRevision :: i64
  rci_ExpectedContentRevision :: i64
  rci_ExpectedReviewScheduleRevision :: i64
  rci_Confirmed :: bool

record ReplanCycleResult =
  rcr_CanceledCycle :: CycleView
  rcr_Goal :: GoalView
  rcr_Cycle :: CycleView
  rcr_Replayed :: bool

record TerminateInput =
  ti_UserID :: string
  ti_GoalID :: string
  ti_OperationID :: string
  ti_Outcome :: goal_status
  ti_ExpectedGoalRevision :: i64
  ti_ExpectedState :: goal_status
  ti_ActiveCycleID :: string
  ti_ExpectedCycleContentRevision :: "i64 option"
  ti_ConfirmDiscardReviewDraft :: bool

record TerminateResult =
  tr_Goal :: GoalView
  tr_CanceledCycle :: "CycleView option"
  tr_Replayed :: bool

record SaveFrameInput =
  sfi_UserID :: string
  sfi_GoalID :: string
  sfi_CycleID :: string
  sfi_Frame :: frame
  sfi_Content :: string
  sfi_ExpectedFrameRevision :: i64

record SaveFrameResult =
  sfr_CycleID :: string
  sfr_Frame :: frame
  sfr_Content :: string
  sfr_FrameRevision :: i64
  sfr_ContentRevision :: i64
  sfr_SavedAt :: gotime

record ChangeReviewScheduleInput =
  csi_UserID :: string
  csi_GoalID :: string
  csi_CycleID :: string
  csi_ReviewDate :: "review_date option"
  csi_ExpectedReviewScheduleRevision :: i64

record AIContextCycle =
  acc_ID :: string
  acc_GoalID :: string
  acc_SequenceNumber :: i32
  acc_Status :: cycle_status
  acc_GoalBody :: string
  acc_Plan :: string
  acc_Do :: string
  acc_Check :: string
  acc_Action :: string

record AISnapshot =
  as_GenerationID :: string
  as_Operation :: operation_type
  as_TargetRevision :: i64
  as_SourceGoalRevision :: i64
  as_CanonicalProviderInputHash :: string
  as_MaxOutputTokens :: i64
  as_GoalID :: string
  as_GoalBody :: string
  as_SourceText :: string
  as_CurrentCycle :: "AIContextCycle option"
  as_PastCycles :: "AIContextCycle list"
  as_CurrentTruncated :: bool
  as_ReplayedOutput :: "string option"
  as_ReplayedContextChanged :: bool
  as_ReplayedContentRevision :: i64
  as_ReplayedActionRevision :: i64

subsection \<open>Transactions\<close>

text \<open>
  A function on a transaction returns an error or its result and the new state of the
  transaction; the errors are those of the workspace, or of the sessions and accounts.  \<open>tx_bind\<close> is the early return \<open>if err != nil { return err }\<close>; \<open>tx_lift\<close>
  runs a pure fallible function, \<open>tx_check\<close> returns the error a validation reports.
\<close>

type_synonym ('e, 's, 'a) etx = "'s \<Rightarrow> 'e + 'a \<times> 's"

type_synonym ('s, 'a) tx = "(workspace_error, 's, 'a) etx"

definition tx_return :: "'a \<Rightarrow> ('e, 's, 'a) etx" where
  "tx_return x s = Inr (x, s)"

definition tx_fail :: "'e \<Rightarrow> ('e, 's, 'a) etx" where
  "tx_fail e s = Inl e"

definition tx_bind :: "('e, 's, 'a) etx \<Rightarrow> ('a \<Rightarrow> ('e, 's, 'b) etx) \<Rightarrow> ('e, 's, 'b) etx" where
  "tx_bind m f s = (case m s of Inl e \<Rightarrow> Inl e | Inr (x, s') \<Rightarrow> f x s')"

definition tx_lift :: "'e + 'a \<Rightarrow> ('e, 's, 'a) etx" where
  "tx_lift r s = (case r of Inl e \<Rightarrow> Inl e | Inr x \<Rightarrow> Inr (x, s))"

definition tx_check :: "'e option \<Rightarrow> ('e, 's, unit) etx" where
  "tx_check e s = (case e of Some err \<Rightarrow> Inl err | None \<Rightarrow> Inr ((), s))"

definition tx_map_error :: "('e \<Rightarrow> 'f) \<Rightarrow> ('e, 's, 'a) etx \<Rightarrow> ('f, 's, 'a) etx" where
  "tx_map_error h m s = (case m s of Inl e \<Rightarrow> Inl (h e) | Inr r \<Rightarrow> Inr r)"

text \<open>
  \<open>defer rollback\<close> and \<open>Commit\<close>: the state is the new one exactly when the operation returned
  without an error.
\<close>

definition commit_or_rollback :: "('e, 's, 'a) etx \<Rightarrow> 's \<Rightarrow> ('e + 'a) \<times> 's" where
  "commit_or_rollback operation s =
     (case operation s of Inl e \<Rightarrow> (Inl e, s) | Inr (x, s') \<Rightarrow> (Inr x, s'))"

lemma tx_bind_Inr [simp]:
  "tx_bind m f s = Inr (y, t) \<longleftrightarrow> (\<exists>x s'. m s = Inr (x, s') \<and> f x s' = Inr (y, t))"
  by (auto simp: tx_bind_def split: sum.splits)

lemma tx_bind_Inl: "m s = Inl e \<Longrightarrow> tx_bind m f s = Inl e"
  by (simp add: tx_bind_def)

lemma tx_bind_step: "m s = Inr (x, s') \<Longrightarrow> tx_bind m f s = f x s'"
  by (simp add: tx_bind_def)

lemma tx_return_Inr [simp]: "tx_return x s = Inr (y, t) \<longleftrightarrow> y = x \<and> t = s"
  by (auto simp: tx_return_def)

lemma tx_fail_Inr [simp]: "tx_fail e s \<noteq> Inr r"
  by (simp add: tx_fail_def)

lemma tx_fail_Inl [simp]: "tx_fail e s = Inl e' \<longleftrightarrow> e = e'"
  by (simp add: tx_fail_def)

lemma tx_lift_Inr [simp]: "tx_lift r s = Inr (y, t) \<longleftrightarrow> r = Inr y \<and> t = s"
  by (auto simp: tx_lift_def split: sum.splits)

lemma tx_check_Inr [simp]: "tx_check e s = Inr (u, t) \<longleftrightarrow> e = None \<and> t = s"
  by (auto simp: tx_check_def split: option.splits)

lemma tx_map_error_Inr [simp]: "tx_map_error h m s = Inr r \<longleftrightarrow> m s = Inr r"
  by (auto simp: tx_map_error_def split: sum.splits)

lemma commit_rollback: "commit_or_rollback m s = (Inl e, t) \<Longrightarrow> t = s"
  by (auto simp: commit_or_rollback_def split: sum.splits)

lemma commit_Inr: "commit_or_rollback m s = (Inr x, t) \<longleftrightarrow> m s = Inr (x, t)"
  by (auto simp: commit_or_rollback_def split: sum.splits)

text \<open>A function that only reads leaves the state as it was.\<close>

definition read_only :: "('e, 's, 'a) etx \<Rightarrow> bool" where
  "read_only m \<longleftrightarrow> (\<forall>s x t. m s = Inr (x, t) \<longrightarrow> t = s)"

named_theorems read_only_intros "functions that only read"

lemma read_onlyD: "read_only m \<Longrightarrow> m s = Inr (x, t) \<Longrightarrow> t = s"
  by (auto simp: read_only_def)

lemma read_only_return [read_only_intros]: "read_only (tx_return x)"
  and read_only_fail [read_only_intros]: "read_only (tx_fail e)"
  and read_only_lift [read_only_intros]: "read_only (tx_lift r)"
  and read_only_check [read_only_intros]: "read_only (tx_check c)"
  by (auto simp: read_only_def)

lemma read_only_bind [read_only_intros]:
  "read_only m \<Longrightarrow> (\<And>x. read_only (f x)) \<Longrightarrow> read_only (tx_bind m f)"
  by (fastforce simp: read_only_def)

lemma read_only_map_error [read_only_intros]: "read_only m \<Longrightarrow> read_only (tx_map_error h m)"
  by (auto simp: read_only_def)

lemma read_only_if [read_only_intros]:
  "read_only m \<Longrightarrow> read_only n \<Longrightarrow> read_only (if b then m else n)"
  by simp

lemma read_only_option [read_only_intros]:
  "read_only m \<Longrightarrow> (\<And>x. read_only (f x)) \<Longrightarrow> read_only (case r of None \<Rightarrow> m | Some x \<Rightarrow> f x)"
  by (cases r) auto

end
