(* ===== verification/Wire.thy ===== *)
theory Wire
  imports WorkspaceTypes
begin

section \<open>Wire formats: JSON request bodies, digests, base64, signed cursors, CSRF tokens\<close>

text \<open>
  Model of the encodings the application layer builds on: \<open>hashRequest\<close> of
  \<open>workspace/service.go\<close>, the sealing of list cursors in \<open>workspace/cycle_use_cases.go\<close> and
  \<open>workspace/goal_use_cases.go\<close>, and \<open>internal/csrftoken/token.go\<close>.  From the standard library
  the JSON encoding of flat structs (with Go's escaping of HTML characters) and the unpadded URL
  alphabet of base64 are written out.  SHA-256 and HMAC-SHA-256 are parameters: functions from
  byte strings to byte strings of length 32.
\<close>

subsection \<open>Hexadecimal and decimal\<close>

definition hex_digit :: "nat \<Rightarrow> char" where
  "hex_digit n = char_of (if n mod 16 < 10 then 48 + n mod 16 else 87 + n mod 16)"

definition hex_encode :: "string \<Rightarrow> string" where
  "hex_encode s = concat (map (\<lambda>c. [hex_digit (byte c div 16), hex_digit (byte c)]) s)"

definition decimal_int :: "int \<Rightarrow> string" where
  "decimal_int i = (if i < 0 then CHR ''-'' # decimal (nat (- i)) else decimal (nat i))"

subsection \<open>JSON\<close>

abbreviation QUOTE :: char where "QUOTE \<equiv> CHR 0x22"
abbreviation BACKSLASH :: char where "BACKSLASH \<equiv> CHR 0x5C"

text \<open>One byte below \<open>utf8.RuneSelf\<close> in a string, as \<open>encoding/json\<close> writes it.\<close>

definition json_ascii :: "char \<Rightarrow> string" where
  "json_ascii c =
     (if c = QUOTE \<or> c = BACKSLASH then [BACKSLASH, c]
      else if byte c = 8 then [BACKSLASH, CHR ''b'']
      else if byte c = 12 then [BACKSLASH, CHR ''f'']
      else if byte c = 10 then [BACKSLASH, CHR ''n'']
      else if byte c = 13 then [BACKSLASH, CHR ''r'']
      else if byte c = 9 then [BACKSLASH, CHR ''t'']
      else if byte c < 0x20 \<or> c = CHR ''<'' \<or> c = CHR ''>'' \<or> c = CHR ''&''
      then [BACKSLASH, CHR ''u'', CHR ''0'', CHR ''0'', hex_digit (byte c div 16), hex_digit (byte c)]
      else [c])"

function json_escape :: "string \<Rightarrow> string" where
  "json_escape [] = []"
| "json_escape (c # cs) =
     (let (r, k) = decode_rune (c # cs) in
      (if byte c < 0x80 then json_ascii c
       else if r = rune_error \<and> k = 1 then BACKSLASH # ''ufffd''
       else if r = 0x2028 then BACKSLASH # ''u2028''
       else if r = 0x2029 then BACKSLASH # ''u2029''
       else take k (c # cs)) @ json_escape (drop k (c # cs)))"
  by pat_completeness auto
termination
proof (relation "measure length", goal_cases)
  case (2 c cs x r k)
  then have "1 \<le> k" using decode_rune_size[of "c # cs"] by (simp add: prod_eq_iff)
  then show ?case by simp
qed simp

declare json_escape.simps(2) [simp del]

text \<open>
  The values \<open>json.Marshal\<close> is given: a struct is the list of its tags and values in the order
  of declaration, \<open>JRaw\<close> is a \<open>json.RawMessage\<close>.
\<close>

datatype json_value =
    JString string | JInt int | JBool bool | JNull | JRaw string
  | JArray "json_value list" | JObject "(string \<times> json_value) list"

lemma size_json_field [termination_simp]:
  "(key, value) \<in> set members \<Longrightarrow>
     size value < Suc (size_list (size_prod (\<lambda>_. 0) size) members)"
  by (induction members) auto

fun json_encode :: "json_value \<Rightarrow> string" where
  "json_encode (JString s) = QUOTE # json_escape s @ [QUOTE]"
| "json_encode (JInt i) = decimal_int i"
| "json_encode (JBool b) = (if b then ''true'' else ''false'')"
| "json_encode JNull = ''null''"
| "json_encode (JRaw s) = s"
| "json_encode (JArray items) =
     CHR ''['' # join_strings '','' (map json_encode items) @ '']''"
| "json_encode (JObject members) =
     CHR ''{'' # join_strings '',''
       (map (\<lambda>(key, value). QUOTE # key @ QUOTE # CHR '':'' # json_encode value) members) @ ''}''"

definition json_marshal :: "(string \<times> json_value) list \<Rightarrow> string" where
  "json_marshal tagged = json_encode (JObject tagged)"

definition hashRequest :: "(string \<Rightarrow> string) \<Rightarrow> (string \<times> json_value) list \<Rightarrow> string" where
  "hashRequest sha256 value = hex_encode (sha256 (json_marshal value))"

subsection \<open>Base64 in the unpadded URL alphabet\<close>

definition b64_char :: "nat \<Rightarrow> char" where
  "b64_char v =
     (if v < 26 then char_of (65 + v) else if v < 52 then char_of (71 + v)
      else if v < 62 then char_of (v - 4) else if v = 62 then CHR ''-'' else CHR ''_'')"

definition b64_value :: "char \<Rightarrow> nat option" where
  "b64_value c =
     (let n = byte c in
      if 65 \<le> n \<and> n \<le> 90 then Some (n - 65)
      else if 97 \<le> n \<and> n \<le> 122 then Some (n - 71)
      else if 48 \<le> n \<and> n \<le> 57 then Some (n + 4)
      else if n = 45 then Some 62
      else if n = 95 then Some 63
      else None)"

text \<open>Groups of three bytes as four digits of six bits, and back.\<close>

fun b64_digits :: "nat list \<Rightarrow> nat list" where
  "b64_digits (a # b # c # rest) =
     [a div 4, (a mod 4) * 16 + b div 16, (b mod 16) * 4 + c div 64, c mod 64] @ b64_digits rest"
| "b64_digits [a, b] = [a div 4, (a mod 4) * 16 + b div 16, (b mod 16) * 4]"
| "b64_digits [a] = [a div 4, (a mod 4) * 16]"
| "b64_digits [] = []"

fun b64_bytes :: "nat list \<Rightarrow> nat list option" where
  "b64_bytes (x # y # z # w # rest) =
     map_option (\<lambda>r. [x * 4 + y div 16, (y mod 16) * 16 + z div 4, (z mod 4) * 64 + w] @ r)
       (b64_bytes rest)"
| "b64_bytes [x, y, z] = Some [x * 4 + y div 16, (y mod 16) * 16 + z div 4]"
| "b64_bytes [x, y] = Some [x * 4 + y div 16]"
| "b64_bytes [x] = None"
| "b64_bytes [] = Some []"

definition b64_encode :: "string \<Rightarrow> string" where
  "b64_encode s = map b64_char (b64_digits (map of_char s))"

text \<open>The decoder skips line breaks wherever they stand.\<close>

definition b64_decode :: "string \<Rightarrow> string option" where
  "b64_decode s =
     (let body = filter (\<lambda>c. c \<noteq> CR \<and> c \<noteq> LF) s in
      if list_all (\<lambda>c. b64_value c \<noteq> None) body
      then map_option (map char_of) (b64_bytes (map (\<lambda>c. the (b64_value c)) body))
      else None)"

text \<open>The strict decoder also requires the unused bits of the last digit to be zero.\<close>

definition b64_decode_strict :: "string \<Rightarrow> string option" where
  "b64_decode_strict s =
     (case b64_decode s of
        None \<Rightarrow> None
      | Some raw \<Rightarrow> if b64_encode raw = filter (\<lambda>c. c \<noteq> CR \<and> c \<noteq> LF) s then Some raw else None)"

lemma b64_value_char: "v < 64 \<Longrightarrow> b64_value (b64_char v) = Some v"
  by (auto simp: b64_value_def b64_char_def Let_def)

lemma b64_char_plain: "v < 64 \<Longrightarrow> b64_char v \<noteq> CR \<and> b64_char v \<noteq> LF"
proof -
  assume "v < 64"
  then have "b64_value (b64_char v) \<noteq> None" by (simp add: b64_value_char)
  then show ?thesis by (auto simp: b64_value_def)
qed

lemma sextets:
  assumes "a < 256" "b < 256" "c < (256 :: nat)"
  shows "a div 4 < 64" "(a mod 4) * 16 + b div 16 < 64" "(b mod 16) * 4 + c div 64 < 64"
    "c mod 64 < 64" "(a mod 4) * 16 < 64" "(b mod 16) * 4 < 64"
proof -
  have d: "b div 16 < 16" "c div 64 < 4" using assms by (simp_all add: less_mult_imp_div_less)
  have m: "a mod 4 \<le> 3" "b mod 16 \<le> 15"
    using mod_less_divisor[of 4 a] mod_less_divisor[of 16 b] by linarith+
  show "a div 4 < 64" using assms by (simp add: less_mult_imp_div_less)
  show "(a mod 4) * 16 + b div 16 < 64" "(b mod 16) * 4 + c div 64 < 64"
    "(a mod 4) * 16 < 64" "(b mod 16) * 4 < 64"
    using d m by linarith+
  show "c mod 64 < 64" by simp
qed

lemma octets:
  assumes "a < 256" "b < 256" "c < (256 :: nat)"
  shows "a div 4 * 4 + ((a mod 4) * 16 + b div 16) div 16 = a"
    "((a mod 4) * 16 + b div 16) mod 16 * 16 + ((b mod 16) * 4 + c div 64) div 4 = b"
    "((b mod 16) * 4 + c div 64) mod 4 * 64 + c mod 64 = c"
    "a div 4 * 4 + ((a mod 4) * 16) div 16 = a"
    "((a mod 4) * 16 + b div 16) mod 16 * 16 + ((b mod 16) * 4) div 4 = b"
proof -
  have d: "b div 16 < 16" "c div 64 < 4" using assms by (simp_all add: less_mult_imp_div_less)
  have q: "(x * 16 + b div 16) div 16 = x" "(x * 16 + b div 16) mod 16 = b div 16"
    "(x * 4 + c div 64) div 4 = x" "(x * 4 + c div 64) mod 4 = c div 64" for x
    using d by simp_all
  show "a div 4 * 4 + ((a mod 4) * 16 + b div 16) div 16 = a"
    "((a mod 4) * 16 + b div 16) mod 16 * 16 + ((b mod 16) * 4 + c div 64) div 4 = b"
    "((b mod 16) * 4 + c div 64) mod 4 * 64 + c mod 64 = c"
    "a div 4 * 4 + ((a mod 4) * 16) div 16 = a"
    "((a mod 4) * 16 + b div 16) mod 16 * 16 + ((b mod 16) * 4) div 4 = b"
    unfolding q by simp_all
qed

lemma b64_digits_range: "\<forall>a\<in>set s. a < 256 \<Longrightarrow> \<forall>v\<in>set (b64_digits s). v < 64"
proof (induction s rule: b64_digits.induct)
  case (1 a b c rest)
  then show ?case using sextets[of a b c] by simp
next
  case (2 a b)
  then show ?case using sextets[of a b 0] by simp
next
  case (3 a)
  then show ?case using sextets[of a 0 0] by simp
qed simp

lemma b64_bytes_digits: "\<forall>a\<in>set s. a < 256 \<Longrightarrow> b64_bytes (b64_digits s) = Some s"
proof (induction s rule: b64_digits.induct)
  case (1 a b c rest)
  then show ?case using octets[of a b c] by simp
next
  case (2 a b)
  then show ?case using octets[of a b 0] by simp
next
  case (3 a)
  then show ?case using octets[of a 0 0] by simp
qed simp

lemma filter_b64_encode: "filter (\<lambda>c. c \<noteq> CR \<and> c \<noteq> LF) (b64_encode s) = b64_encode s"
proof -
  have "\<forall>v\<in>set (b64_digits (map of_char s)). v < 64"
    by (rule b64_digits_range) (auto simp: less_trans)
  then show ?thesis by (auto simp: b64_encode_def filter_id_conv b64_char_plain)
qed

lemma b64_roundtrip: "b64_decode (b64_encode s) = Some s"
proof -
  have r: "\<forall>a\<in>set (map of_char s). a < (256 :: nat)" by auto
  then have "\<forall>v\<in>set (b64_digits (map of_char s)). v < 64" by (rule b64_digits_range)
  then have "list_all (\<lambda>c. b64_value c \<noteq> None) (b64_encode s)"
    "map (\<lambda>c. the (b64_value c)) (b64_encode s) = b64_digits (map of_char s)"
    by (auto simp: b64_encode_def list_all_iff b64_value_char intro!: map_idI)
  then show ?thesis
    using b64_bytes_digits[OF r] by (simp add: b64_decode_def filter_b64_encode o_def)
qed

lemma length_b64_digits: "length (b64_digits s) = (4 * length s + 2) div 3"
  by (induction s rule: b64_digits.induct) auto

subsection \<open>Sealed cursors\<close>

text \<open>
  A cursor is the JSON body with its HMAC behind it, in base64; what opens it is the check
  of the signature, before anything of the body is read.
\<close>

definition sha256_Size :: nat where
  "sha256_Size = 32"

definition seal_cursor :: "(string \<Rightarrow> string \<Rightarrow> string) \<Rightarrow> string \<Rightarrow> string \<Rightarrow> string" where
  "seal_cursor hmac key body = b64_encode (body @ hmac key body)"

definition open_cursor :: "(string \<Rightarrow> string \<Rightarrow> string) \<Rightarrow> string \<Rightarrow> string \<Rightarrow> string option" where
  "open_cursor hmac key encoded =
     (case b64_decode encoded of
        None \<Rightarrow> None
      | Some raw \<Rightarrow>
          if length raw \<le> sha256_Size then None
          else let body = take (length raw - sha256_Size) raw;
                   signature = drop (length raw - sha256_Size) raw in
               if signature \<noteq> hmac key body then None else Some body)"

lemma open_seal_cursor:
  assumes "length (hmac key body) = sha256_Size" "body \<noteq> []"
  shows "open_cursor hmac key (seal_cursor hmac key body) = Some body"
  using assms by (simp add: open_cursor_def seal_cursor_def b64_roundtrip)

lemma open_cursor_signed:
  assumes "open_cursor hmac key encoded = Some body"
  shows "b64_decode encoded = Some (body @ hmac key body)"
proof -
  obtain raw where raw: "b64_decode encoded = Some raw"
    using assms by (auto simp: open_cursor_def split: option.splits)
  with assms have "body = take (length raw - sha256_Size) raw"
      "hmac key body = drop (length raw - sha256_Size) raw"
    by (auto simp: open_cursor_def Let_def split: if_splits)
  then have "raw = body @ hmac key body" by (simp only: append_take_drop_id)
  with raw show ?thesis by simp
qed

subsection \<open>CSRF tokens\<close>

datatype csrf_error = ErrSessionIDInvalid

definition stableTokenContextV1 :: string where
  "stableTokenContextV1 = ''fukamu-csrf-token-v1''"

definition csrf_Derive ::
  "(string \<Rightarrow> string \<Rightarrow> string) \<Rightarrow> string \<Rightarrow> string \<Rightarrow> csrf_error + string" where
  "csrf_Derive hmac key sessionID =
     (if \<not> IsCanonicalUUIDv7 sessionID then Inl ErrSessionIDInvalid
      else let message = stableTokenContextV1 @ [CHR 0x00] @ sessionID;
               digest = hmac key message in
           Inr (b64_encode digest))"

definition csrf_IsValid :: "string \<Rightarrow> bool" where
  "csrf_IsValid value \<longleftrightarrow>
     length value = 43 \<and>
     list_all (\<lambda>character.
        (97 \<le> byte character \<and> byte character \<le> 122) \<or>
        (65 \<le> byte character \<and> byte character \<le> 90) \<or>
        (48 \<le> byte character \<and> byte character \<le> 57) \<or>
        character = CHR ''-'' \<or> character = CHR ''_'') value \<and>
     (case b64_decode_strict value of
        None \<Rightarrow> False
      | Some decoded \<Rightarrow> length decoded = 32 \<and> b64_encode decoded = value)"

lemma b64_char_alphabet:
  "v < 64 \<Longrightarrow> let c = b64_char v in (97 \<le> byte c \<and> byte c \<le> 122) \<or> (65 \<le> byte c \<and> byte c \<le> 90) \<or>
     (48 \<le> byte c \<and> byte c \<le> 57) \<or> c = CHR ''-'' \<or> c = CHR ''_''"
  by (auto simp: b64_char_def Let_def)

lemma csrf_derived_token_is_valid:
  assumes "\<And>k m. length (hmac k m) = 32" "IsCanonicalUUIDv7 sessionID"
  shows "\<exists>token. csrf_Derive hmac key sessionID = Inr token \<and> csrf_IsValid token"
proof -
  define d where "d = hmac key (stableTokenContextV1 @ [CHR 0x00] @ sessionID)"
  have l: "length d = 32" using assms(1) by (simp add: d_def)
  have r: "\<forall>v\<in>set (b64_digits (map of_char d)). v < 64"
    by (rule b64_digits_range) auto
  have "length (b64_encode d) = 43" using l by (simp add: b64_encode_def length_b64_digits)
  moreover have "b64_decode_strict (b64_encode d) = Some d"
    by (simp add: b64_decode_strict_def b64_roundtrip filter_b64_encode)
  ultimately have "csrf_IsValid (b64_encode d)"
    using r b64_char_alphabet l
    by (auto simp: csrf_IsValid_def b64_encode_def list_all_iff Let_def)
  moreover have "csrf_Derive hmac key sessionID = Inr (b64_encode d)"
    using assms(2) by (simp add: csrf_Derive_def d_def)
  ultimately show ?thesis by blast
qed

definition sample_uuid :: string where
  "sample_uuid = ''0190a2b4-0000-7000-8000-000000000001''"

lemma sample_uuid_canonical: "IsCanonicalUUIDv7 sample_uuid"
  by (simp add: IsCanonicalUUIDv7_def sample_uuid_def range_from_ascii isUUIDVariant_def isLowerHex_def)

subsection \<open>Identifiers and digests in JSON\<close>

definition json_plain :: "string \<Rightarrow> bool" where
  "json_plain s \<longleftrightarrow> (\<forall>c\<in>set s. 0x20 \<le> byte c \<and> byte c < 0x80 \<and> c \<noteq> QUOTE \<and> c \<noteq> BACKSLASH \<and>
     c \<noteq> CHR ''<'' \<and> c \<noteq> CHR ''>'' \<and> c \<noteq> CHR ''&'')"

lemma json_escape_plain: "json_plain s \<Longrightarrow> json_escape s = s"
  by (induction s)
    (auto simp: json_plain_def json_escape.simps(2) decode_rune_ascii json_ascii_def)

lemma json_plain_no_quote: "json_plain s \<Longrightarrow> QUOTE \<notin> set s"
  by (auto simp: json_plain_def)

lemma decode_rune_small:
  assumes "decode_rune (c # cs) = (r, k)" "r < 0x80"
  shows "byte c = r \<and> k = 1"
proof (cases "byte c < 0x80")
  case True
  then show ?thesis using assms by (simp add: decode_rune_ascii)
next
  case False
  from assms have "0x80 \<le> r"
    using False by (cases rule: list5_cases[of cs])
      (auto simp: decode_rune.simps(2) Let_def second_ok_def cont_byte_def rune_error_def
        split: if_splits)
  then show ?thesis using assms(2) by simp
qed

text \<open>The characters of a canonical identifier are lower-case hexadecimal digits and dashes.\<close>

lemma uuid_bytes:
  assumes "list_all (\<lambda>(i, r). i \<in> {8, 13, 18, 23} \<or> isLowerHex r) (range_from off s)"
    "\<forall>i\<in>{8, 13, 18, 23}. off \<le> i \<and> i < off + length s \<longrightarrow> s ! (i - off) = CHR ''-''"
  shows "\<forall>c\<in>set s. isLowerHex (byte c) \<or> c = CHR ''-''"
  using assms
proof (induction s arbitrary: off)
  case (Cons c cs)
  obtain r k where rk: "decode_rune (c # cs) = (r, k)" by fastforce
  have c: "(isLowerHex (byte c) \<or> c = CHR ''-'') \<and> byte c < 0x80"
  proof (cases "off \<in> {8, 13, 18, 23}")
    case True
    then have "c = CHR ''-''" using Cons(3) by fastforce
    then show ?thesis by simp
  next
    case False
    then have "isLowerHex r" using Cons(2) rk by (simp add: range_from.simps(2))
    moreover from this have "r < 0x80" by (auto simp: isLowerHex_def)
    then have "byte c = r" using decode_rune_small[OF rk] by blast
    ultimately show ?thesis by (auto simp: isLowerHex_def)
  qed
  then have "list_all (\<lambda>(i, r). i \<in> {8, 13, 18, 23} \<or> isLowerHex r) (range_from (Suc off) cs)"
    using Cons(2) by (simp add: range_from_ascii)
  moreover have "\<forall>i\<in>{8, 13, 18, 23}. Suc off \<le> i \<and> i < Suc off + length cs \<longrightarrow>
      cs ! (i - Suc off) = CHR ''-''"
  proof (intro ballI impI)
    fix i assume i: "i \<in> {8, 13, 18, 23}" "Suc off \<le> i \<and> i < Suc off + length cs"
    then have "off \<le> i \<and> i < off + length (c # cs)" by simp
    then have "(c # cs) ! (i - off) = CHR ''-''" using Cons(3) i(1) by blast
    moreover have "i - off = Suc (i - Suc off)" using i(2) by linarith
    ultimately show "cs ! (i - Suc off) = CHR ''-''" by simp
  qed
  ultimately show ?case using Cons(1) c by simp
qed simp

lemma canonical_plain: "IsCanonicalUUIDv7 s \<Longrightarrow> json_plain s"
proof -
  assume u: "IsCanonicalUUIDv7 s"
  have "\<forall>c\<in>set s. isLowerHex (byte c) \<or> c = CHR ''-''"
    using u by (intro uuid_bytes[of 0]) (auto simp: IsCanonicalUUIDv7_def)
  then show ?thesis by (fastforce simp: json_plain_def isLowerHex_def)
qed

text \<open>Decimal notation determines the number, and uses no character JSON gives a meaning to.\<close>

lemma decimal_small: "n < 10 \<Longrightarrow> decimal n = [digit_char n]"
  and decimal_large: "\<not> n < 10 \<Longrightarrow> decimal n = decimal (n div 10) @ [digit_char n]"
  by (subst decimal.simps, simp)+

lemma digit_char_eq [simp]: "digit_char a = digit_char b \<longleftrightarrow> a mod 10 = b mod 10"
proof
  assume "digit_char a = digit_char b"
  then have "byte (digit_char a) = byte (digit_char b)" by (simp only:)
  then show "a mod 10 = b mod 10" by simp
qed (simp add: digit_char_def)

lemma decimal_inj: "decimal m = decimal n \<Longrightarrow> m = n"
proof (induction m arbitrary: n rule: less_induct)
  case (less m)
  show ?case
  proof (cases "m < 10")
    case True
    then show ?thesis using less(2)
      by (cases "n < 10") (auto simp: decimal_small decimal_large eq_commute[of "[]"])
  next
    case False
    with less(2) have n: "\<not> n < 10" by (auto simp: decimal_small decimal_large)
    with less(2) False have "decimal (m div 10) = decimal (n div 10)" "m mod 10 = n mod 10"
      by (simp_all add: decimal_large)
    moreover have "m div 10 < m" using False by simp
    ultimately show ?thesis using less(1) by (metis div_mult_mod_eq)
  qed
qed

lemma decimal_int_bytes: "\<forall>c\<in>set (decimal_int i). (48 \<le> byte c \<and> byte c \<le> 57) \<or> c = CHR ''-''"
  using decimal_bytes by (auto simp: decimal_int_def)

lemma decimal_int_inj: "decimal_int i = decimal_int j \<Longrightarrow> i = j"
proof -
  have neg: "CHR ''-'' \<notin> set (decimal n)" for n using decimal_bytes[of n] by fastforce
  have cross: "CHR ''-'' # decimal m \<noteq> decimal n" "decimal n \<noteq> CHR ''-'' # decimal m" for m n
    using neg[of n] by (metis list.set_intros(1))+
  assume "decimal_int i = decimal_int j"
  then show ?thesis
    unfolding decimal_int_def by (simp add: cross split: if_splits) (auto dest: decimal_inj)
qed

lemma decimal_int_no_delim: "CHR '','' \<notin> set (decimal_int i)" "CHR ''}'' \<notin> set (decimal_int i)"
  using decimal_int_bytes[of i] by fastforce+

end
