(* ===== verification/Views.thy ===== *)
theory Views
  imports Wire "HOL-Library.List_Lexorder" "HOL-Library.Char_ord"
begin

section \<open>Validation of the views the store returns\<close>

text \<open>
  Model of the checks the use cases make on every view before it leaves the application:
  \<open>validateCycleView\<close>, \<open>validateCycleSummaries\<close> and their helpers in
  \<open>workspace/cycle_use_cases.go\<close>, \<open>validateGoalCurrentWork\<close> in \<open>workspace/goal_use_cases.go\<close>,
  the comparisons of views in \<open>workspace/review_transition_use_cases.go\<close>.  A validation returns
  the error it reports, \<open>None\<close> for \<open>nil\<close>.  Go compares strings byte by byte, which is the
  lexicographic order of the library on lists of characters.
\<close>

definition cycleInvariantError :: "string \<Rightarrow> workspace_error" where
  "cycleInvariantError detail = ErrCyclePersistenceInvariant detail"

definition goalInvariantError :: "string \<Rightarrow> workspace_error" where
  "goalInvariantError detail = ErrGoalPersistenceInvariant detail"

definition reviewTransitionInvariant :: "string \<Rightarrow> workspace_error" where
  "reviewTransitionInvariant detail = ErrReviewTransitionInvariant detail"

text \<open>The message \<open>"%s affected %d rows, want %d"\<close> and the checks of affected rows.\<close>

definition rows_message :: "string \<Rightarrow> i64 \<Rightarrow> i64 \<Rightarrow> string" where
  "rows_message operation actual expected =
     operation @ '' affected '' @ decimal_int (sint actual) @ '' rows, want '' @
     decimal_int (sint expected)"

definition requireCycleRows :: "string \<Rightarrow> i64 \<Rightarrow> i64 \<Rightarrow> workspace_error option" where
  "requireCycleRows operation actual expected =
     (if actual = expected then None
      else Some (ErrCyclePersistenceInvariant (rows_message operation actual expected)))"

definition requireGoalRows :: "string \<Rightarrow> i64 \<Rightarrow> i64 \<Rightarrow> workspace_error option" where
  "requireGoalRows operation actual expected =
     (if actual = expected then None
      else Some (ErrGoalPersistenceInvariant (rows_message operation actual expected)))"

definition requireReviewTransitionRows :: "string \<Rightarrow> i64 \<Rightarrow> i64 \<Rightarrow> workspace_error option" where
  "requireReviewTransitionRows operation actual expected =
     (if actual = expected then None
      else Some (ErrReviewTransitionInvariant (rows_message operation actual expected)))"

lemma require_rows_None [simp]:
  "requireCycleRows operation actual expected = None \<longleftrightarrow> actual = expected"
  "requireGoalRows operation actual expected = None \<longleftrightarrow> actual = expected"
  "requireReviewTransitionRows operation actual expected = None \<longleftrightarrow> actual = expected"
  by (simp_all add: requireCycleRows_def requireGoalRows_def requireReviewTransitionRows_def)

subsection \<open>Comparisons\<close>

definition optionalStringsEqual :: "string option \<Rightarrow> string option \<Rightarrow> bool" where
  "optionalStringsEqual left right =
     (case (left, right) of
        (Some l, Some r) \<Rightarrow> l = r
      | _ \<Rightarrow> left = None \<and> right = None)"

lemma optionalStringsEqual_iff [simp]: "optionalStringsEqual a b \<longleftrightarrow> a = b"
  by (auto simp: optionalStringsEqual_def split: option.splits)

definition reviewDatesEqual :: "review_date option \<Rightarrow> review_date option \<Rightarrow> bool" where
  "reviewDatesEqual left right =
     (case (left, right) of
        (Some l, Some r) \<Rightarrow> l = r
      | _ \<Rightarrow> left = None \<and> right = None)"

lemma reviewDatesEqual_iff [simp]: "reviewDatesEqual a b \<longleftrightarrow> a = b"
  by (auto simp: reviewDatesEqual_def split: option.splits)

definition goalVersionViewsEqual :: "GoalVersionView \<Rightarrow> GoalVersionView \<Rightarrow> bool" where
  "goalVersionViewsEqual first second \<longleftrightarrow>
     gvv_ID first = gvv_ID second \<and>
     gvv_VersionNumber first = gvv_VersionNumber second \<and>
     gvv_Body first = gvv_Body second \<and>
     optionalStringsEqual (gvv_SuccessSignal first) (gvv_SuccessSignal second) \<and>
     time_equal (gvv_CreatedAt first) (gvv_CreatedAt second)"

definition goalVersionViewMatchesDomain :: "GoalVersionView \<Rightarrow> Version \<Rightarrow> bool" where
  "goalVersionViewMatchesDomain view version \<longleftrightarrow>
     gvv_ID view = ve_ID version \<and>
     gvv_VersionNumber view = ve_VersionNumber version \<and>
     gvv_Body view = ve_Body version \<and>
     optionalStringsEqual (gvv_SuccessSignal view) (ve_SuccessSignal version) \<and>
     time_equal (gvv_CreatedAt view) (ve_CreatedAt version)"

definition canceledCycleViewMatchesDomain :: "CycleView \<Rightarrow> PDCACycle \<Rightarrow> bool" where
  "canceledCycleViewMatchesDomain view canceled \<longleftrightarrow>
     (case (cv_CanceledAt view, cy_CanceledAt canceled, cv_CancellationReason view,
            cy_CancellationReason canceled) of
        (Some va, Some ca, Some vr, Some cr) \<Rightarrow>
          cv_ID view = cy_ID canceled \<and>
          cv_GoalID view = cy_GoalID canceled \<and>
          cv_SequenceNumber view = cy_SequenceNumber canceled \<and>
          cv_Status view = cy_Status canceled \<and>
          gvv_ID (cv_GoalVersion view) = cy_GoalVersionID canceled \<and>
          time_equal (cv_StartedAt view) (cy_StartedAt canceled) \<and>
          cv_CompletedAt view = None \<and> cy_CompletedAt canceled = None \<and>
          time_equal va ca \<and>
          vr = cr \<and>
          cv_Plan view = cy_Plan canceled \<and>
          cv_Do view = cy_Do canceled \<and>
          cv_Check view = cy_Check canceled \<and>
          cv_Action view = cy_Action canceled \<and>
          cv_ContentRevision view = rev_Content (cy_Revisions canceled) \<and>
          fr_Plan (cv_FrameRevisions view) = rev_Plan (cy_Revisions canceled) \<and>
          fr_Do (cv_FrameRevisions view) = rev_Do (cy_Revisions canceled) \<and>
          fr_Check (cv_FrameRevisions view) = rev_Check (cy_Revisions canceled) \<and>
          fr_Action (cv_FrameRevisions view) = rev_Action (cy_Revisions canceled)
      | _ \<Rightarrow> False)"

subsection \<open>Views of Cycles\<close>

definition validateCycleStatusTimes ::
  "cycle_status \<Rightarrow> gotime option \<Rightarrow> gotime option \<Rightarrow> cancellation_reason option \<Rightarrow>
   workspace_error option" where
  "validateCycleStatusTimes status completedAt canceledAt reason =
     (if status = StatusActive then
        (if completedAt \<noteq> None \<or> canceledAt \<noteq> None \<or> reason \<noteq> None
         then Some (cycleInvariantError ''active Cycle has terminal metadata'') else None)
      else if status = StatusCompleted then
        (if completedAt = None \<or> canceledAt \<noteq> None \<or> reason \<noteq> None
         then Some (cycleInvariantError ''completed Cycle terminal metadata is invalid'') else None)
      else if status = StatusCanceled then
        (if completedAt \<noteq> None \<or> canceledAt = None \<or> reason = None \<or>
            \<not> IsValidCancellationReason (the reason)
         then Some (cycleInvariantError ''canceled Cycle terminal metadata is invalid'') else None)
      else Some (cycleInvariantError ''Cycle status is invalid''))"

definition validateCycleSummaryStatusTimes ::
  "cycle_status \<Rightarrow> gotime option \<Rightarrow> gotime option \<Rightarrow> cancellation_reason option \<Rightarrow>
   workspace_error option" where
  "validateCycleSummaryStatusTimes status completedAt canceledAt reason =
     (if status = StatusActive then
        (if completedAt \<noteq> None \<or> canceledAt \<noteq> None \<or> reason \<noteq> None
         then Some (cycleInvariantError ''active Cycle summary has terminal metadata'') else None)
      else if status = StatusCompleted then
        (if completedAt = None \<or> canceledAt \<noteq> None \<or> reason \<noteq> None
         then Some (cycleInvariantError ''completed Cycle summary terminal metadata is invalid'')
         else None)
      else if status = StatusCanceled then
        (if completedAt \<noteq> None \<or> canceledAt = None \<or> reason = None \<or>
            \<not> IsValidCancellationReason (the reason)
         then Some (cycleInvariantError ''canceled Cycle summary terminal metadata is invalid'')
         else None)
      else Some (cycleInvariantError ''Cycle status is invalid''))"

definition validateCycleGoalVersion :: "GoalVersionView \<Rightarrow> workspace_error option" where
  "validateCycleGoalVersion version =
     (if \<not> IsCanonicalUUIDv7 (gvv_ID version) \<or> sint (gvv_VersionNumber version) \<le> 0 \<or>
         time_is_zero (gvv_CreatedAt version)
      then Some (cycleInvariantError ''Cycle Goal Version is incomplete'') else None)"

definition validatePreviousCompletedCycleAction :: "CycleView \<Rightarrow> workspace_error option" where
  "validatePreviousCompletedCycleAction view =
     (if cv_Status view \<noteq> StatusActive \<or> cv_SequenceNumber view = 1 then
        (if cv_PreviousCompletedCycleAction view \<noteq> None \<or> cv_Predecessor view \<noteq> None
         then Some (cycleInvariantError ''Cycle must not expose a previous completed Action'')
         else None)
      else
        (case cv_Predecessor view of
           None \<Rightarrow> Some (cycleInvariantError ''active Cycle predecessor is inconsistent'')
         | Some predecessor \<Rightarrow>
             if \<not> IsCanonicalUUIDv7 (cpv_CycleID predecessor) \<or>
                cpv_CycleID predecessor = cv_ID view \<or>
                cpv_CycleSequenceNumber predecessor \<noteq> cv_SequenceNumber view - 1 \<or>
                sint (cpv_GoalVersionNumber predecessor) \<le> 0 \<or>
                sint (cpv_GoalVersionNumber predecessor) > sint (gvv_VersionNumber (cv_GoalVersion view)) \<or>
                sint (cpv_GoalVersionNumber predecessor)
                  < sint (gvv_VersionNumber (cv_GoalVersion view) - 1)
             then Some (cycleInvariantError ''active Cycle predecessor is inconsistent'')
             else if cpv_Status predecessor = StatusCompleted then
               (case cv_PreviousCompletedCycleAction view of
                  None \<Rightarrow> Some (cycleInvariantError ''active Cycle previous completed Action is inconsistent'')
                | Some previous \<Rightarrow>
                    if cpv_CancellationReason predecessor \<noteq> None \<or>
                       pca_CycleID previous \<noteq> cpv_CycleID predecessor \<or>
                       pca_CycleSequenceNumber previous \<noteq> cpv_CycleSequenceNumber predecessor \<or>
                       pca_GoalVersionNumber previous \<noteq> cpv_GoalVersionNumber predecessor \<or>
                       IsBlank (pca_Action previous) \<or>
                       rune_count (pca_Action previous) > MaxFrameCodePoints
                    then Some (cycleInvariantError ''active Cycle previous completed Action is inconsistent'')
                    else None)
             else if cpv_Status predecessor = StatusCanceled then
               (if cpv_CancellationReason predecessor \<noteq> Some CancellationReplanned \<or>
                   cpv_GoalVersionNumber predecessor \<noteq> gvv_VersionNumber (cv_GoalVersion view) \<or>
                   cv_PreviousCompletedCycleAction view \<noteq> None
                then Some (cycleInvariantError ''active Cycle replanned predecessor is inconsistent'')
                else None)
             else Some (cycleInvariantError ''active Cycle predecessor status is invalid'')))"

definition or_else :: "workspace_error option \<Rightarrow> workspace_error option \<Rightarrow> workspace_error option" where
  "or_else first second = (case first of Some e \<Rightarrow> Some e | None \<Rightarrow> second)"

lemma or_else_simps [simp]: "or_else None b = b" "or_else (Some e) b = Some e"
  by (simp_all add: or_else_def)

lemma or_else_None [simp]: "or_else a b = None \<longleftrightarrow> a = None \<and> b = None"
  by (auto simp: or_else_def split: option.splits)

definition validateCycleView :: "CycleView \<Rightarrow> string \<Rightarrow> string \<Rightarrow> workspace_error option" where
  "validateCycleView view goalID cycleID =
     (if cv_ID view \<noteq> cycleID \<or> cv_GoalID view \<noteq> goalID \<or> sint (cv_SequenceNumber view) \<le> 0 \<or>
         time_is_zero (cv_StartedAt view) \<or>
         sint (cv_ContentRevision view) < 0 \<or> sint (cv_ReviewScheduleRevision view) < 0 \<or>
         sint (fr_Plan (cv_FrameRevisions view)) < 0 \<or> sint (fr_Do (cv_FrameRevisions view)) < 0 \<or>
         sint (fr_Check (cv_FrameRevisions view)) < 0 \<or> sint (fr_Action (cv_FrameRevisions view)) < 0
      then Some (cycleInvariantError ''Cycle view metadata is inconsistent'')
      else if (case cv_ReviewDate view of
                 None \<Rightarrow> False | Some d \<Rightarrow> (case ParseReviewDate d of Inl _ \<Rightarrow> True | Inr _ \<Rightarrow> False))
      then Some (cycleInvariantError ''Cycle review date is invalid'')
      else if cv_ContentRevision view \<noteq>
              fr_Plan (cv_FrameRevisions view) + fr_Do (cv_FrameRevisions view) +
              fr_Check (cv_FrameRevisions view) + fr_Action (cv_FrameRevisions view)
      then Some (cycleInvariantError ''Cycle content revision does not match frame revisions'')
      else or_else (validateCycleStatusTimes (cv_Status view) (cv_CompletedAt view)
                      (cv_CanceledAt view) (cv_CancellationReason view))
          (or_else (validateCycleGoalVersion (cv_GoalVersion view))
                   (validatePreviousCompletedCycleAction view)))"

subsection \<open>Summaries of Cycles\<close>

definition validCycleFramePreview :: "CycleFramePreview \<Rightarrow> bool" where
  "validCycleFramePreview preview \<longleftrightarrow>
     (let len = rune_count (cfp_Text preview) in
      len \<le> CycleSummaryPreviewMaxCodePoints \<and>
      (\<not> cfp_Truncated preview \<or> len = CycleSummaryPreviewMaxCodePoints))"

definition validateCycleSummaryPreviews :: "CycleSummary \<Rightarrow> workspace_error option" where
  "validateCycleSummaryPreviews row =
     (if rune_count (cs_PlanPreview row) > CycleSummaryPreviewMaxCodePoints
      then Some (cycleInvariantError ''Cycle Plan preview exceeds the bounded summary limit'')
      else if cs_Status row = StatusActive then
        (if cs_LearningPreview row \<noteq> None
         then Some (cycleInvariantError ''active Cycle summary exposes a learning preview'') else None)
      else
        (case cs_LearningPreview row of
           None \<Rightarrow> Some (cycleInvariantError ''terminal Cycle summary is missing its learning preview'')
         | Some preview \<Rightarrow>
             if \<not> validCycleFramePreview (clp_Check preview) \<or> \<not> validCycleFramePreview (clp_Action preview)
             then Some (cycleInvariantError ''terminal Cycle summary learning preview is invalid'')
             else None))"

definition cycleSummaryFollows :: "CycleSummary \<Rightarrow> CycleSummary \<Rightarrow> bool" where
  "cycleSummaryFollows previous current \<longleftrightarrow>
     (if cs_SequenceNumber current \<noteq> cs_SequenceNumber previous
      then sint (cs_SequenceNumber current) < sint (cs_SequenceNumber previous)
      else cs_ID current < cs_ID previous)"

text \<open>The loop over the rows, with the row before the current one.\<close>

fun validate_summaries_from :: "CycleSummary option \<Rightarrow> CycleSummary list \<Rightarrow> workspace_error option" where
  "validate_summaries_from previous [] = None"
| "validate_summaries_from previous (row # rows) =
     (if \<not> IsCanonicalUUIDv7 (cs_ID row) \<or> sint (cs_SequenceNumber row) \<le> 0 \<or>
         time_is_zero (cs_StartedAt row)
      then Some (cycleInvariantError ''Cycle query row metadata is incomplete'')
      else or_else (validateCycleSummaryStatusTimes (cs_Status row) (cs_CompletedAt row)
                      (cs_CanceledAt row) (cs_CancellationReason row))
          (or_else (validateCycleSummaryPreviews row)
          (or_else (validateCycleGoalVersion (cs_GoalVersion row))
             (if (case previous of None \<Rightarrow> False | Some p \<Rightarrow> \<not> cycleSummaryFollows p row)
              then Some (cycleInvariantError ''Cycle query rows are not in stable order'')
              else validate_summaries_from (Some row) rows))))"

definition validateCycleSummaries :: "CycleSummary list \<Rightarrow> workspace_error option" where
  "validateCycleSummaries rows = validate_summaries_from None rows"

subsection \<open>Views of Goals\<close>

definition validReviewScheduleView :: "ReviewScheduleView option \<Rightarrow> bool" where
  "validReviewScheduleView view =
     (case view of
        None \<Rightarrow> False
      | Some v \<Rightarrow>
          if sint (rsv_ReviewScheduleRevision v) < 0 then False
          else (case rsv_ReviewDate v of
                  None \<Rightarrow> True
                | Some d \<Rightarrow>
                    if rsv_ReviewScheduleRevision v = 0 then False
                    else (case ParseReviewDate d of Inl _ \<Rightarrow> False | Inr _ \<Rightarrow> True)))"

definition validateGoalCurrentWork :: "GoalView \<Rightarrow> workspace_error option" where
  "validateGoalCurrentWork view =
     (if gv_Status view = StatusActiveCycle then
        (case gv_CurrentWork view of
           None \<Rightarrow> Some (goalInvariantError ''active Goal current work is invalid'')
         | Some work \<Rightarrow>
             if cw_Kind work \<noteq> ''active_cycle'' \<or> cw_CycleID work = [] \<or>
                sint (cw_CycleSequenceNumber work) \<le> 0 \<or> cw_ReviewDraftID work \<noteq> [] \<or>
                cw_TriggerCycleID work \<noteq> [] \<or> cw_TriggerCycleSequenceNumber work \<noteq> 0 \<or>
                \<not> validReviewScheduleView (cw_ReviewSchedule work)
             then Some (goalInvariantError ''active Goal current work is invalid'') else None)
      else if gv_Status view = StatusGoalReview then
        (case gv_CurrentWork view of
           None \<Rightarrow> Some (goalInvariantError ''review Goal current work is invalid'')
         | Some work \<Rightarrow>
             if cw_Kind work \<noteq> ''goal_review'' \<or> cw_ReviewDraftID work = [] \<or>
                cw_TriggerCycleID work = [] \<or> sint (cw_TriggerCycleSequenceNumber work) \<le> 0 \<or>
                cw_CycleID work \<noteq> [] \<or> cw_CycleSequenceNumber work \<noteq> 0 \<or>
                cw_ReviewSchedule work \<noteq> None
             then Some (goalInvariantError ''review Goal current work is invalid'') else None)
      else if gv_Status view = StatusAchieved \<or> gv_Status view = StatusEnded then
        (if gv_CurrentWork view \<noteq> None
         then Some (goalInvariantError ''terminal Goal has current work'') else None)
      else Some (goalInvariantError ''Goal status is invalid''))"

end
