(* ===== verification/CycleUseCases.thy ===== *)
theory CycleUseCases
  imports Views
begin

section \<open>The use cases of Cycles\<close>

text \<open>
  Model of \<open>workspace/cycle_ports.go\<close> and \<open>workspace/cycle_use_cases.go\<close>.  The Go interfaces
  \<open>CycleTx\<close> and \<open>CycleQueryRepository\<close> are records of functions over a transaction state; a
  use case is the function the code passes to \<open>WithinCycleTransaction\<close>, with the reading of
  the clock and the answer of the identifier generator as arguments.
\<close>

record CycleListKeyset =
  clk_SequenceNumber :: i32
  clk_CycleID :: string

record CycleListQuery =
  clq_UserID :: string
  clq_GoalID :: string
  clq_After :: "CycleListKeyset option"
  clq_FetchLimit :: int

record CycleQueryRepository =
  QueryCycleRows :: "CycleListQuery \<Rightarrow> workspace_error + CycleSummary list"
  QueryCycle :: "string \<Rightarrow> string \<Rightarrow> string \<Rightarrow> workspace_error + CycleView"

record CompleteCycleReceipt =
  crc_GoalID :: string
  crc_CycleID :: string
  crc_RequestHash :: string

record ReplanCycleReceipt =
  rrc_GoalID :: string
  rrc_CycleID :: string
  rrc_RequestHash :: string
  rrc_ReplannedCycleID :: string
  rrc_ReplannedCancellationReason :: "cancellation_reason option"

record 's CycleTx =
  FindCompleteCycleReceipt :: "string \<Rightarrow> string \<Rightarrow> ('s, CompleteCycleReceipt option) tx"
  FindReplanCycleReceipt :: "string \<Rightarrow> string \<Rightarrow> ('s, ReplanCycleReceipt option) tx"
  LockUser :: "string \<Rightarrow> ('s, unit) tx"
  LockGoal :: "string \<Rightarrow> string \<Rightarrow> ('s, Goal) tx"
  LockCycle :: "string \<Rightarrow> string \<Rightarrow> string \<Rightarrow> ('s, PDCACycle) tx"
  LoadCurrentGoalVersion :: "string \<Rightarrow> string \<Rightarrow> i32 \<Rightarrow> ('s, Version) tx"
  HasRunningCycleGeneration :: "string \<Rightarrow> string \<Rightarrow> string \<Rightarrow> ('s, bool) tx"
  SaveCycleFrameCAS :: "PDCACycle \<Rightarrow> frame \<Rightarrow> i64 \<Rightarrow> ('s, i64) tx"
  SaveCycleReviewScheduleCAS :: "PDCACycle \<Rightarrow> i64 \<Rightarrow> ('s, i64) tx"
  CompleteCycleCAS :: "PDCACycle \<Rightarrow> i64 \<Rightarrow> ('s, i64) tx"
  CancelCycleCAS :: "PDCACycle \<Rightarrow> i64 \<Rightarrow> ('s, i64) tx"
  TryInsertCycleClaim :: "PDCACycle \<Rightarrow> ('s, i64) tx"
  ReplanGoalCAS :: "Goal \<Rightarrow> i64 \<Rightarrow> ('s, i64) tx"
  InsertReviewDraft :: "Draft \<Rightarrow> ('s, i64) tx"
  EnterGoalReviewCAS :: "Goal \<Rightarrow> i64 \<Rightarrow> ('s, i64) tx"
  LoadGoalView :: "string \<Rightarrow> string \<Rightarrow> ('s, GoalView) tx"
  LoadCycleView :: "string \<Rightarrow> string \<Rightarrow> string \<Rightarrow> ('s, CycleView) tx"
  FindReviewDraftByCycle :: "string \<Rightarrow> string \<Rightarrow> string \<Rightarrow> ('s, DraftView option) tx"

subsection \<open>Listing\<close>

record cycleCursorPayload =
  ccp_Scope :: string
  ccp_Category :: "16 word option"
  ccp_Time :: "gotime option"
  ccp_Sequence :: "i32 option"
  ccp_ID :: string

text \<open>The JSON body of a cursor; \<open>omitempty\<close> leaves an empty identifier out.\<close>

definition cycle_cursor_body :: "string \<Rightarrow> CycleListKeyset \<Rightarrow> string" where
  "cycle_cursor_body goalID keyset =
     json_marshal
       ([(''scope'', JString (''cycles:'' @ goalID)),
         (''sequence'', JInt (sint (clk_SequenceNumber keyset)))] @
        (if clk_CycleID keyset = [] then [] else [(''id'', JString (clk_CycleID keyset))]))"

definition encodeCycleCursor ::
  "(string \<Rightarrow> string \<Rightarrow> string) \<Rightarrow> string \<Rightarrow> string \<Rightarrow> CycleListKeyset \<Rightarrow> string" where
  "encodeCycleCursor hmac key goalID keyset = seal_cursor hmac key (cycle_cursor_body goalID keyset)"

definition decodeCycleCursor ::
  "(string \<Rightarrow> string \<Rightarrow> string) \<Rightarrow> (string \<Rightarrow> cycleCursorPayload option) \<Rightarrow> string \<Rightarrow> string \<Rightarrow> string \<Rightarrow>
   workspace_error + CycleListKeyset option" where
  "decodeCycleCursor hmac unmarshal key encoded goalID =
     (if trim_space encoded = [] then Inr None
      else case open_cursor hmac key encoded of
        None \<Rightarrow> Inl ErrInvalidCursor
      | Some body \<Rightarrow>
          (case unmarshal body of
             None \<Rightarrow> Inl ErrInvalidCursor
           | Some payload \<Rightarrow>
               if ccp_Scope payload \<noteq> ''cycles:'' @ goalID \<or> ccp_Category payload \<noteq> None \<or>
                  ccp_Time payload \<noteq> None \<or> ccp_Sequence payload = None \<or>
                  sint (the (ccp_Sequence payload)) \<le> 0 \<or> \<not> IsCanonicalUUIDv7 (ccp_ID payload)
               then Inl ErrInvalidCursor
               else Inr (Some \<lparr>clk_SequenceNumber = the (ccp_Sequence payload),
                               clk_CycleID = ccp_ID payload\<rparr>)))"

definition clamp_limit :: "int \<Rightarrow> int" where
  "clamp_limit limit0 =
     (let limit = (if limit0 \<le> 0 then 20 else limit0) in if limit > 50 then 50 else limit)"

definition ListCycles ::
  "CycleQueryRepository \<Rightarrow> (string \<Rightarrow> string \<Rightarrow> string) \<Rightarrow> (string \<Rightarrow> cycleCursorPayload option) \<Rightarrow>
   string \<Rightarrow> string \<Rightarrow> string \<Rightarrow> string \<Rightarrow> int \<Rightarrow> workspace_error + CyclePage" where
  "ListCycles queries hmac unmarshal key userID goalID cursorValue limit0 =
     (let limit = clamp_limit limit0 in
      rbind (decodeCycleCursor hmac unmarshal key cursorValue goalID) (\<lambda>after.
      rbind (QueryCycleRows queries \<lparr>clq_UserID = userID, clq_GoalID = goalID, clq_After = after,
               clq_FetchLimit = limit + 1\<rparr>) (\<lambda>rows.
      if int (length rows) > limit + 1
      then Inl (cycleInvariantError ''Cycle query returned more rows than requested'')
      else (case validateCycleSummaries rows of
        Some e \<Rightarrow> Inl e
      | None \<Rightarrow>
          if int (length rows) > limit
          then let final_row = rows ! (nat limit - 1);
                   next_cursor = encodeCycleCursor hmac key goalID
                     \<lparr>clk_SequenceNumber = cs_SequenceNumber final_row, clk_CycleID = cs_ID final_row\<rparr>
               in Inr \<lparr>cp_Items = take (nat limit) rows, cp_NextCursor = Some next_cursor\<rparr>
          else Inr \<lparr>cp_Items = rows, cp_NextCursor = None\<rparr>))))"

definition GetCycle ::
  "CycleQueryRepository \<Rightarrow> string \<Rightarrow> string \<Rightarrow> string \<Rightarrow> workspace_error + CycleView" where
  "GetCycle queries userID goalID cycleID =
     rbind (QueryCycle queries userID goalID cycleID) (\<lambda>view.
       case validateCycleView view goalID cycleID of Some e \<Rightarrow> Inl e | None \<Rightarrow> Inr view)"

subsection \<open>Saving a frame, changing the review schedule\<close>

definition SaveFrame :: "'s CycleTx \<Rightarrow> gotime \<Rightarrow> SaveFrameInput \<Rightarrow> ('s, SaveFrameResult) tx" where
  "SaveFrame tx now0 input =
     (let now = utc now0 in
      tx_bind (LockGoal tx (sfi_UserID input) (sfi_GoalID input)) (\<lambda>lockedGoal.
      tx_bind (LockCycle tx (sfi_UserID input) (sfi_GoalID input) (sfi_CycleID input)) (\<lambda>current.
      if cy_UserID current \<noteq> sfi_UserID input \<or> cy_GoalID current \<noteq> sfi_GoalID input \<or>
         cy_ID current \<noteq> sfi_CycleID input
      then tx_fail (cycleInvariantError ''locked Cycle target does not match the command'')
      else if go_Status lockedGoal \<noteq> StatusActiveCycle then tx_fail ErrGoalStateConflict
      else
        tx_bind (if sfi_Frame input = FrameAction
                 then HasRunningCycleGeneration tx (sfi_UserID input) (sfi_GoalID input) (sfi_CycleID input)
                 else tx_return False) (\<lambda>aiRunning.
        tx_bind (tx_lift (err_map CycleFailure
                   (cycle_SaveFrame current (sfi_Frame input) (sfi_Content input)
                      (sfi_ExpectedFrameRevision input) aiRunning now))) (\<lambda>saved.
        tx_bind (if sf_NoOp saved then tx_return ()
                 else tx_bind (SaveCycleFrameCAS tx (sf_Cycle saved) (sf_Frame saved)
                                 (sfi_ExpectedFrameRevision input)) (\<lambda>rows.
                      tx_check (requireCycleRows ''save Cycle frame'' rows 1))) (\<lambda>_.
        tx_return \<lparr>sfr_CycleID = cy_ID (sf_Cycle saved), sfr_Frame = sf_Frame saved,
                   sfr_Content = sf_Content saved,
                   sfr_FrameRevision = FrameRevision (sf_Cycle saved) (sf_Frame saved),
                   sfr_ContentRevision = rev_Content (cy_Revisions (sf_Cycle saved)),
                   sfr_SavedAt = sf_SavedAt saved\<rparr>))))))"

definition uc_ChangeReviewSchedule ::
  "'s CycleTx \<Rightarrow> ChangeReviewScheduleInput \<Rightarrow> ('s, CycleView) tx" where
  "uc_ChangeReviewSchedule tx input =
     tx_bind (LockGoal tx (csi_UserID input) (csi_GoalID input)) (\<lambda>lockedGoal.
     tx_bind (LockCycle tx (csi_UserID input) (csi_GoalID input) (csi_CycleID input)) (\<lambda>current.
     if cy_UserID current \<noteq> csi_UserID input \<or> cy_GoalID current \<noteq> csi_GoalID input \<or>
        cy_ID current \<noteq> csi_CycleID input
     then tx_fail (cycleInvariantError ''locked Cycle target does not match the review schedule command'')
     else if go_Status lockedGoal \<noteq> StatusActiveCycle then tx_fail ErrGoalStateConflict
     else
       tx_bind (tx_lift (err_map CycleFailure
                  (ChangeReviewSchedule current (csi_ReviewDate input)
                     (csi_ExpectedReviewScheduleRevision input)))) (\<lambda>changed.
       tx_bind (if crs_NoOp changed then tx_return ()
                else tx_bind (SaveCycleReviewScheduleCAS tx (crs_Cycle changed)
                                (csi_ExpectedReviewScheduleRevision input)) (\<lambda>rows.
                     tx_check (requireCycleRows ''change Cycle review schedule'' rows 1))) (\<lambda>_.
       tx_bind (LoadCycleView tx (csi_UserID input) (csi_GoalID input) (csi_CycleID input)) (\<lambda>view.
       tx_bind (tx_check (validateCycleView view (csi_GoalID input) (csi_CycleID input))) (\<lambda>_.
       tx_return view))))))"

subsection \<open>Completing a Cycle\<close>

definition completeCycleRequestHash :: "(string \<Rightarrow> string) \<Rightarrow> CompleteCycleInput \<Rightarrow> string" where
  "completeCycleRequestHash sha256 input =
     hashRequest sha256
       [(''goalId'', JString (cci_GoalID input)), (''cycleId'', JString (cci_CycleID input)),
        (''goalRevision'', JInt (sint (cci_ExpectedGoalRevision input))),
        (''contentRevision'', JInt (sint (cci_ExpectedContentRevision input)))]"

definition validateCompleteCycleReceipt ::
  "CompleteCycleReceipt option \<Rightarrow> CompleteCycleInput \<Rightarrow> string \<Rightarrow> workspace_error option" where
  "validateCompleteCycleReceipt receipt input requestHash =
     (case receipt of
        None \<Rightarrow> None
      | Some r \<Rightarrow>
          if crc_GoalID r \<noteq> cci_GoalID input \<or> crc_CycleID r \<noteq> cci_CycleID input \<or>
             crc_RequestHash r \<noteq> requestHash
          then Some ErrIdempotencyKeyReused else None)"

definition completeCycleMaterializationError :: "string \<Rightarrow> workspace_error \<Rightarrow> workspace_error" where
  "completeCycleMaterializationError resource err =
     (if err = ErrNotFound \<or> err = ErrGoalNotFound \<or> err = ErrCycleNotFound
      then cycleInvariantError
             (''Complete Cycle '' @ resource @ '' disappeared after its parent lock'')
      else err)"

definition validateCompleteCycleReplay ::
  "CompleteCycleResult \<Rightarrow> CompleteCycleReceipt \<Rightarrow> bool \<Rightarrow> workspace_error option" where
  "validateCompleteCycleReplay result receipt hasDraft =
     (let goal_view = ccr_Goal result; completed = ccr_CompletedCycle result in
      if gv_ID goal_view \<noteq> crc_GoalID receipt \<or> validateGoalCurrentWork goal_view \<noteq> None \<or>
         validateCycleView completed (crc_GoalID receipt) (crc_CycleID receipt) \<noteq> None \<or>
         cv_Status completed \<noteq> StatusCompleted
      then Some (cycleInvariantError ''Complete Cycle replay resources are inconsistent'')
      else if hasDraft then
        (case (ccr_ReviewDraft result, gv_CurrentWork goal_view) of
           (Some draft, Some work) \<Rightarrow>
             if ccr_Replay result \<noteq> None \<or> dv_GoalID draft \<noteq> Some (crc_GoalID receipt) \<or>
                dv_ReviewCycleID draft \<noteq> Some (crc_CycleID receipt) \<or>
                dv_BaseGoalVersionID draft \<noteq> Some (gvv_ID (cv_GoalVersion completed)) \<or>
                \<not> optionalStringsEqual (dv_SuccessSignal draft)
                    (gvv_SuccessSignal (cv_GoalVersion completed)) \<or>
                dv_DraftType draft \<noteq> DraftReview \<or> gv_Status goal_view \<noteq> StatusGoalReview \<or>
                cw_ReviewDraftID work \<noteq> dv_ID draft \<or> cw_TriggerCycleID work \<noteq> crc_CycleID receipt
             then Some (cycleInvariantError ''Complete Cycle replay Draft is inconsistent'')
             else None
         | _ \<Rightarrow> Some (cycleInvariantError ''Complete Cycle replay Draft is inconsistent''))
      else if gv_Status goal_view = StatusGoalReview \<and>
              (case gv_CurrentWork goal_view of
                 None \<Rightarrow> False | Some work \<Rightarrow> cw_TriggerCycleID work = crc_CycleID receipt)
      then Some (cycleInvariantError ''current Cycle Review Draft is missing'')
      else
        (case ccr_Replay result of
           None \<Rightarrow> Some (cycleInvariantError ''Complete Cycle replay response is inconsistent'')
         | Some replay \<Rightarrow>
             if ccr_Replayed result \<or> crep_Operation replay \<noteq> ''complete_cycle'' \<or>
                rids_GoalID (crep_ResourceIDs replay) \<noteq> crc_GoalID receipt \<or>
                rids_CycleID (crep_ResourceIDs replay) \<noteq> crc_CycleID receipt
             then Some (cycleInvariantError ''Complete Cycle replay response is inconsistent'')
             else None))"

definition buildCompleteCycleReplay ::
  "'s CycleTx \<Rightarrow> CompleteCycleInput \<Rightarrow> CompleteCycleReceipt \<Rightarrow> ('s, CompleteCycleResult) tx" where
  "buildCompleteCycleReplay tx input receipt =
     tx_bind (tx_map_error (completeCycleMaterializationError ''Goal'')
                (LoadGoalView tx (cci_UserID input) (crc_GoalID receipt))) (\<lambda>goal_view.
     tx_bind (tx_map_error (completeCycleMaterializationError ''Cycle'')
                (LoadCycleView tx (cci_UserID input) (crc_GoalID receipt) (crc_CycleID receipt)))
       (\<lambda>cycle_view.
     tx_bind (tx_map_error (completeCycleMaterializationError ''Review Draft'')
                (FindReviewDraftByCycle tx (cci_UserID input) (crc_GoalID receipt) (crc_CycleID receipt)))
       (\<lambda>draft.
     case draft of
       None \<Rightarrow>
         (let result = \<lparr>ccr_CompletedCycle = cycle_view, ccr_Goal = goal_view, ccr_ReviewDraft = None,
                ccr_Replayed = False,
                ccr_Replay = Some \<lparr>crep_Replayed = True, crep_Operation = ''complete_cycle'',
                  crep_ResourceIDs = \<lparr>rids_GoalID = crc_GoalID receipt,
                                      rids_CycleID = crc_CycleID receipt\<rparr>,
                  crep_CurrentGoalState = gv_Status goal_view,
                  crep_CurrentWorkspace = gv_CurrentWork goal_view\<rparr>\<rparr>
          in tx_bind (tx_check (validateCompleteCycleReplay result receipt False))
               (\<lambda>_. tx_return result))
     | Some d \<Rightarrow>
         (let result = \<lparr>ccr_CompletedCycle = cycle_view, ccr_Goal = goal_view,
                ccr_ReviewDraft = Some d, ccr_Replayed = True, ccr_Replay = None\<rparr>
          in tx_bind (tx_check (validateCompleteCycleReplay result receipt True))
               (\<lambda>_. tx_return result)))))"

definition validateCompletedCycleResult ::
  "CompleteCycleResult \<Rightarrow> string \<Rightarrow> string \<Rightarrow> string \<Rightarrow> i64 \<Rightarrow> workspace_error option" where
  "validateCompletedCycleResult result goalID cycleID draftID expectedGoalRevision =
     (let goal_view = ccr_Goal result; completed = ccr_CompletedCycle result;
          version = cv_GoalVersion completed in
      if validateCycleView completed goalID cycleID \<noteq> None \<or>
         cv_Status completed \<noteq> StatusCompleted \<or> cv_CompletedAt completed = None
      then Some (cycleInvariantError ''completed Cycle response is inconsistent'')
      else if gv_ID goal_view \<noteq> goalID \<or> gv_Revision goal_view \<noteq> expectedGoalRevision + 1 \<or>
         \<not> goalVersionViewsEqual (gv_CurrentVersion goal_view) version \<or>
         validateGoalCurrentWork goal_view \<noteq> None \<or> gv_Status goal_view \<noteq> StatusGoalReview \<or>
         (case gv_CurrentWork goal_view of
            None \<Rightarrow> True
          | Some work \<Rightarrow> cw_Kind work \<noteq> ''goal_review'' \<or> cw_ReviewDraftID work \<noteq> draftID \<or>
              cw_TriggerCycleID work \<noteq> cycleID \<or>
              cw_TriggerCycleSequenceNumber work \<noteq> cv_SequenceNumber completed)
      then Some (cycleInvariantError ''reviewing Goal response is inconsistent'')
      else if (case ccr_ReviewDraft result of
            None \<Rightarrow> True
          | Some draft \<Rightarrow> dv_ID draft \<noteq> draftID \<or> dv_DraftType draft \<noteq> DraftReview \<or>
              dv_GoalID draft \<noteq> Some goalID \<or> dv_ReviewCycleID draft \<noteq> Some cycleID \<or>
              dv_BaseGoalVersionID draft \<noteq> Some (gvv_ID version) \<or>
              dv_Body draft \<noteq> gvv_Body version \<or>
              \<not> optionalStringsEqual (dv_SuccessSignal draft) (gvv_SuccessSignal version) \<or>
              dv_Revision draft \<noteq> 0)
      then Some (cycleInvariantError ''Cycle Review Draft response is inconsistent'')
      else None)"

text \<open>The current version of a locked Goal, which the Cycle must have been started with.\<close>

definition missing_version_conflict :: "workspace_error \<Rightarrow> workspace_error" where
  "missing_version_conflict err =
     (if err = ErrNotFound \<or> err = ErrGoalVersionConflict then ErrGoalVersionConflict else err)"

definition complete_failure :: "PDCACycle \<Rightarrow> cycle_error \<Rightarrow> workspace_error" where
  "complete_failure current err =
     (if err = ErrCycleIncomplete then CycleCompletionIncompleteError (MissingRequiredFrames current)
      else CycleFailure err)"

definition canonical_id :: "workspace_error \<Rightarrow> workspace_error + string \<Rightarrow> workspace_error + string" where
  "canonical_id err generated =
     rbind generated (\<lambda>i. if \<not> IsCanonicalUUIDv7 i then Inl err else Inr i)"

text \<open>The part of \<open>CompleteCycle\<close> behind the locks: the transition and its writes.\<close>

definition complete_locked ::
  "'s CycleTx \<Rightarrow> gotime \<Rightarrow> workspace_error + string \<Rightarrow> string \<Rightarrow> CompleteCycleInput \<Rightarrow> Goal \<Rightarrow>
   ('s, CompleteCycleResult) tx" where
  "complete_locked tx now0 newID requestHash input lockedGoal =
     tx_bind (LockCycle tx (cci_UserID input) (cci_GoalID input) (cci_CycleID input)) (\<lambda>current.
     if cy_UserID current \<noteq> cci_UserID input \<or> cy_GoalID current \<noteq> cci_GoalID input \<or>
        cy_ID current \<noteq> cci_CycleID input
     then tx_fail (cycleInvariantError ''locked Cycle target does not match the command'')
     else if go_Status lockedGoal \<noteq> StatusActiveCycle then tx_fail ErrGoalStateConflict
     else if go_Revision lockedGoal \<noteq> cci_ExpectedGoalRevision input
     then tx_fail ErrGoalRevisionConflict
     else
       tx_bind (tx_map_error missing_version_conflict
                  (LoadCurrentGoalVersion tx (cci_UserID input) (cci_GoalID input)
                     (go_CurrentVersionNumber lockedGoal))) (\<lambda>currentVersion.
       if ve_UserID currentVersion \<noteq> cci_UserID input \<or> ve_GoalID currentVersion \<noteq> cci_GoalID input \<or>
          ve_VersionNumber currentVersion \<noteq> go_CurrentVersionNumber lockedGoal \<or>
          ve_ID currentVersion \<noteq> cy_GoalVersionID current
       then tx_fail ErrGoalVersionConflict
       else
         tx_bind (HasRunningCycleGeneration tx (cci_UserID input) (cci_GoalID input) (cci_CycleID input))
           (\<lambda>aiRunning. let now = utc now0 in
         tx_bind (tx_lift (err_map (complete_failure current)
                    (cycle_Complete current (cci_OperationID input) requestHash
                       (cci_ExpectedContentRevision input) aiRunning now))) (\<lambda>completed.
         tx_bind (tx_lift (canonical_id
                    (cycleInvariantError ''ID generator returned a non-canonical UUIDv7'') newID))
           (\<lambda>reviewDraftID.
         tx_bind (tx_lift (err_map goal_failure (EnterReview lockedGoal now))) (\<lambda>reviewingGoal.
         tx_bind (tx_lift (err_map goal_failure
                    (NewReviewDraft reviewDraftID reviewingGoal currentVersion completed now)))
           (\<lambda>reviewDraft.
         tx_bind (CompleteCycleCAS tx completed (cci_ExpectedContentRevision input)) (\<lambda>rows.
         tx_bind (tx_check (requireCycleRows ''complete Cycle'' rows 1)) (\<lambda>_.
         tx_bind (InsertReviewDraft tx reviewDraft) (\<lambda>rows.
         tx_bind (tx_check (requireCycleRows ''insert Cycle Review Draft'' rows 1)) (\<lambda>_.
         tx_bind (EnterGoalReviewCAS tx reviewingGoal (cci_ExpectedGoalRevision input)) (\<lambda>rows.
         tx_bind (tx_check (requireCycleRows ''enter Goal review'' rows 1)) (\<lambda>_.
         tx_bind (tx_map_error (completeCycleMaterializationError ''Cycle'')
                    (LoadCycleView tx (cci_UserID input) (cci_GoalID input) (cci_CycleID input)))
           (\<lambda>completedView.
         tx_bind (tx_map_error (completeCycleMaterializationError ''Goal'')
                    (LoadGoalView tx (cci_UserID input) (cci_GoalID input))) (\<lambda>goal_view.
         tx_bind (tx_map_error (completeCycleMaterializationError ''Review Draft'')
                    (FindReviewDraftByCycle tx (cci_UserID input) (cci_GoalID input) (cci_CycleID input)))
           (\<lambda>draft.
         if draft = None \<or> dv_ID (the draft) \<noteq> reviewDraftID
         then tx_fail (cycleInvariantError ''new Cycle Review Draft is missing'')
         else
           let result = \<lparr>ccr_CompletedCycle = completedView, ccr_Goal = goal_view,
                 ccr_ReviewDraft = draft, ccr_Replayed = False, ccr_Replay = None\<rparr> in
           tx_bind (tx_check (validateCompletedCycleResult result (cci_GoalID input)
                      (cci_CycleID input) reviewDraftID (cci_ExpectedGoalRevision input))) (\<lambda>_.
           tx_return result)))))))))))))))))"

definition CompleteCycle ::
  "'s CycleTx \<Rightarrow> (string \<Rightarrow> string) \<Rightarrow> gotime \<Rightarrow> workspace_error + string \<Rightarrow> CompleteCycleInput \<Rightarrow>
   ('s, CompleteCycleResult) tx" where
  "CompleteCycle tx sha256 now0 newID input =
     (let requestHash = completeCycleRequestHash sha256 input in
      tx_bind (FindCompleteCycleReceipt tx (cci_UserID input) (cci_OperationID input)) (\<lambda>_.
      tx_bind (LockUser tx (cci_UserID input)) (\<lambda>_.
      tx_bind (FindCompleteCycleReceipt tx (cci_UserID input) (cci_OperationID input)) (\<lambda>receipt.
      tx_bind (tx_check (validateCompleteCycleReceipt receipt input requestHash)) (\<lambda>_.
      tx_bind (LockGoal tx (cci_UserID input) (cci_GoalID input)) (\<lambda>lockedGoal.
      if go_UserID lockedGoal \<noteq> cci_UserID input \<or> go_ID lockedGoal \<noteq> cci_GoalID input
      then tx_fail (cycleInvariantError ''locked Goal target does not match the command'')
      else (case receipt of
        Some r \<Rightarrow> buildCompleteCycleReplay tx input r
      | None \<Rightarrow> complete_locked tx now0 newID requestHash input lockedGoal)))))))"

subsection \<open>Replanning a Cycle\<close>

definition replanCycleRequestHash :: "(string \<Rightarrow> string) \<Rightarrow> ReplanCycleInput \<Rightarrow> string" where
  "replanCycleRequestHash sha256 input =
     hashRequest sha256
       [(''goalId'', JString (rci_GoalID input)), (''cycleId'', JString (rci_CycleID input)),
        (''goalRevision'', JInt (sint (rci_ExpectedGoalRevision input))),
        (''contentRevision'', JInt (sint (rci_ExpectedContentRevision input))),
        (''reviewScheduleRevision'', JInt (sint (rci_ExpectedReviewScheduleRevision input))),
        (''confirmed'', JBool (rci_Confirmed input))]"

definition validateReplanCycleReceipt ::
  "ReplanCycleReceipt option \<Rightarrow> ReplanCycleInput \<Rightarrow> string \<Rightarrow> workspace_error option" where
  "validateReplanCycleReceipt receipt input requestHash =
     (case receipt of
        None \<Rightarrow> None
      | Some r \<Rightarrow>
          if rrc_GoalID r \<noteq> rci_GoalID input \<or> rrc_RequestHash r \<noteq> requestHash \<or>
             rrc_ReplannedCycleID r \<noteq> rci_CycleID input \<or> rrc_CycleID r = [] \<or>
             rrc_ReplannedCancellationReason r \<noteq> Some CancellationReplanned
          then Some ErrIdempotencyKeyReused else None)"

definition replanCycleMaterializationError :: "string \<Rightarrow> workspace_error \<Rightarrow> workspace_error" where
  "replanCycleMaterializationError resource err =
     (if err = ErrNotFound \<or> err = ErrGoalNotFound \<or> err = ErrCycleNotFound
      then cycleInvariantError (''Replan Cycle '' @ resource @ '' disappeared after its parent lock'')
      else err)"

definition validateReplanCyclePair ::
  "CycleView \<Rightarrow> CycleView \<Rightarrow> string \<Rightarrow> string \<Rightarrow> workspace_error option" where
  "validateReplanCyclePair canceled successor goalID canceledCycleID =
     (if validateCycleView canceled goalID canceledCycleID \<noteq> None \<or>
         validateCycleView successor goalID (cv_ID successor) \<noteq> None \<or>
         cv_Status canceled \<noteq> StatusCanceled \<or>
         cv_CancellationReason canceled \<noteq> Some CancellationReplanned \<or>
         cv_CanceledAt canceled = None \<or>
         cv_SequenceNumber successor \<noteq> cv_SequenceNumber canceled + 1 \<or>
         \<not> goalVersionViewsEqual (cv_GoalVersion successor) (cv_GoalVersion canceled)
      then Some (cycleInvariantError ''Replan Cycle pair is inconsistent'') else None)"

definition zero_FrameRevisions :: FrameRevisions where
  "zero_FrameRevisions = \<lparr>fr_Plan = 0, fr_Do = 0, fr_Check = 0, fr_Action = 0\<rparr>"

definition validateFreshReplanCycleResult ::
  "ReplanCycleResult \<Rightarrow> ReplanResult \<Rightarrow> ReplanCycleInput \<Rightarrow> workspace_error option" where
  "validateFreshReplanCycleResult result replanned input =
     (let canceled = rcr_CanceledCycle result; successor = rcr_Cycle result; goal_view = rcr_Goal result in
      or_else (validateReplanCyclePair canceled successor (rci_GoalID input) (rci_CycleID input))
        (if cv_ID successor \<noteq> cy_ID (rp_Cycle replanned) \<or> cv_Status successor \<noteq> StatusActive \<or>
            cv_ContentRevision successor \<noteq> 0 \<or> cv_FrameRevisions successor \<noteq> zero_FrameRevisions \<or>
            cv_Plan successor \<noteq> [] \<or> cv_Do successor \<noteq> [] \<or> cv_Check successor \<noteq> [] \<or>
            cv_Action successor \<noteq> [] \<or>
            cv_ReviewDate successor \<noteq> None \<or> cv_ReviewScheduleRevision successor \<noteq> 0 \<or>
            cv_PreviousCompletedCycleAction successor \<noteq> None \<or>
            cv_ReviewScheduleRevision canceled \<noteq> cy_ReviewScheduleRevision (rp_CanceledCycle replanned) \<or>
            \<not> reviewDatesEqual (cv_ReviewDate canceled) (cy_ReviewDate (rp_CanceledCycle replanned)) \<or>
            gv_ID goal_view \<noteq> rci_GoalID input \<or> gv_Status goal_view \<noteq> StatusActiveCycle \<or>
            gv_Revision goal_view \<noteq> rci_ExpectedGoalRevision input + 1 \<or>
            \<not> goalVersionViewsEqual (gv_CurrentVersion goal_view) (cv_GoalVersion successor) \<or>
            gv_NextCycleSequenceNumber goal_view \<noteq> cv_SequenceNumber successor + 1 \<or>
            validateGoalCurrentWork goal_view \<noteq> None \<or>
            (case gv_CurrentWork goal_view of
               None \<Rightarrow> True
             | Some work \<Rightarrow> cw_Kind work \<noteq> ''active_cycle'' \<or> cw_CycleID work \<noteq> cv_ID successor \<or>
                 cw_CycleSequenceNumber work \<noteq> cv_SequenceNumber successor)
         then Some (cycleInvariantError ''fresh Replan Cycle response is inconsistent'') else None))"

definition validateReplanCycleReplay ::
  "ReplanCycleResult \<Rightarrow> ReplanCycleReceipt \<Rightarrow> workspace_error option" where
  "validateReplanCycleReplay result receipt =
     (let successor = rcr_Cycle result; goal_view = rcr_Goal result in
      if \<not> rcr_Replayed result \<or> gv_ID goal_view \<noteq> rrc_GoalID receipt \<or>
         cv_ID successor \<noteq> rrc_CycleID receipt \<or> validateGoalCurrentWork goal_view \<noteq> None
      then Some (cycleInvariantError ''Replan Cycle replay Goal is inconsistent'')
      else if cv_Status successor = StatusActive \<and>
         (gv_Status goal_view \<noteq> StatusActiveCycle \<or>
          (case gv_CurrentWork goal_view of
             None \<Rightarrow> True
           | Some work \<Rightarrow> cw_CycleID work \<noteq> cv_ID successor \<or>
               cw_CycleSequenceNumber work \<noteq> cv_SequenceNumber successor))
      then Some (cycleInvariantError ''active Replan Cycle replay is not the current Goal work'')
      else validateReplanCyclePair (rcr_CanceledCycle result) successor (rrc_GoalID receipt)
             (rrc_ReplannedCycleID receipt))"

definition buildReplanCycleReplay ::
  "'s CycleTx \<Rightarrow> ReplanCycleInput \<Rightarrow> ReplanCycleReceipt \<Rightarrow> ('s, ReplanCycleResult) tx" where
  "buildReplanCycleReplay tx input receipt =
     tx_bind (tx_map_error (replanCycleMaterializationError ''replay canceled Cycle'')
                (LoadCycleView tx (rci_UserID input) (rrc_GoalID receipt) (rrc_ReplannedCycleID receipt)))
       (\<lambda>canceled.
     tx_bind (tx_map_error (replanCycleMaterializationError ''replay Goal'')
                (LoadGoalView tx (rci_UserID input) (rrc_GoalID receipt))) (\<lambda>goal_view.
     tx_bind (tx_map_error (replanCycleMaterializationError ''replay successor Cycle'')
                (LoadCycleView tx (rci_UserID input) (rrc_GoalID receipt) (rrc_CycleID receipt)))
       (\<lambda>successor.
     let result = \<lparr>rcr_CanceledCycle = canceled, rcr_Goal = goal_view, rcr_Cycle = successor,
           rcr_Replayed = True\<rparr> in
     tx_bind (tx_check (validateReplanCycleReplay result receipt)) (\<lambda>_. tx_return result))))"

definition classifyLostReplanCycleClaim ::
  "'s CycleTx \<Rightarrow> ReplanCycleInput \<Rightarrow> string \<Rightarrow> ('s, 'a) tx" where
  "classifyLostReplanCycleClaim tx input requestHash =
     tx_bind (FindReplanCycleReceipt tx (rci_UserID input) (rci_OperationID input)) (\<lambda>receipt.
     tx_bind (tx_check (validateReplanCycleReceipt receipt input requestHash)) (\<lambda>_.
     if receipt = None
     then tx_fail (cycleInvariantError
            ''Replan Cycle claim affected no row without a competing receipt'')
     else tx_fail (cycleInvariantError
            ''matching Replan Cycle receipt appeared while its User lock was held'')))"

definition replan_failure :: "goal_error \<Rightarrow> workspace_error" where
  "replan_failure err =
     (if err = ErrStateConflict
      then cycleInvariantError ''validated Replan aggregate was rejected by Domain''
      else goal_failure err)"

text \<open>The part of \<open>ReplanCycle\<close> behind the locks of the User and the Goal.\<close>

definition replan_locked ::
  "'s CycleTx \<Rightarrow> gotime \<Rightarrow> workspace_error + string \<Rightarrow> string \<Rightarrow> ReplanCycleInput \<Rightarrow> Goal \<Rightarrow>
   ('s, ReplanCycleResult) tx" where
  "replan_locked tx now0 newID requestHash input lockedGoal =
     tx_bind (LockCycle tx (rci_UserID input) (rci_GoalID input) (rci_CycleID input)) (\<lambda>current.
     if cy_UserID current \<noteq> rci_UserID input \<or> cy_GoalID current \<noteq> rci_GoalID input \<or>
        cy_ID current \<noteq> rci_CycleID input
     then tx_fail (cycleInvariantError ''locked Cycle target does not match Replan Cycle'')
     else if go_Status lockedGoal \<noteq> StatusActiveCycle then tx_fail ErrGoalStateConflict
     else if go_Revision lockedGoal \<noteq> rci_ExpectedGoalRevision input
     then tx_fail ErrGoalRevisionConflict
     else if cy_Status current \<noteq> StatusActive then tx_fail (CycleFailure ErrCycleNotActive)
     else if sint (go_NextCycleSequenceNumber lockedGoal) \<le> 1 \<or>
        cy_SequenceNumber current \<noteq> go_NextCycleSequenceNumber lockedGoal - 1
     then tx_fail (cycleInvariantError
            ''active Cycle sequence does not match its Goal during Replan'')
     else if rev_Content (cy_Revisions current) \<noteq> rci_ExpectedContentRevision input \<or>
        cy_ReviewScheduleRevision current \<noteq> rci_ExpectedReviewScheduleRevision input
     then tx_fail (CycleFailure ErrRevisionConflict)
     else
       tx_bind (tx_map_error missing_version_conflict
                  (LoadCurrentGoalVersion tx (rci_UserID input) (rci_GoalID input)
                     (go_CurrentVersionNumber lockedGoal))) (\<lambda>currentVersion.
       if ve_UserID currentVersion \<noteq> rci_UserID input \<or> ve_GoalID currentVersion \<noteq> rci_GoalID input \<or>
          ve_VersionNumber currentVersion \<noteq> go_CurrentVersionNumber lockedGoal \<or>
          ve_ID currentVersion \<noteq> cy_GoalVersionID current
       then tx_fail ErrGoalVersionConflict
       else
         tx_bind (HasRunningCycleGeneration tx (rci_UserID input) (rci_GoalID input) (rci_CycleID input))
           (\<lambda>aiRunning.
         if aiRunning then tx_fail ErrAIInProgress
         else
           tx_bind (tx_lift (canonical_id (cycleInvariantError
                      ''ID generator returned a non-canonical Replan Cycle UUIDv7'') newID))
             (\<lambda>newCycleID. let now = truncate_time microsecond (utc now0) in
           tx_bind (tx_lift (err_map replan_failure
                      (Replan lockedGoal currentVersion current newCycleID (rci_OperationID input)
                         requestHash now))) (\<lambda>replanned.
           tx_bind (CancelCycleCAS tx (rp_CanceledCycle replanned) (rci_ExpectedContentRevision input))
             (\<lambda>rows.
           tx_bind (tx_check (requireCycleRows ''cancel replanned Cycle'' rows 1)) (\<lambda>_.
           tx_bind (TryInsertCycleClaim tx (rp_Cycle replanned)) (\<lambda>rows.
           if rows = 0 then classifyLostReplanCycleClaim tx input requestHash
           else
             tx_bind (tx_check (requireCycleRows ''insert replanned successor Cycle'' rows 1)) (\<lambda>_.
             tx_bind (ReplanGoalCAS tx (rp_Goal replanned) (rci_ExpectedGoalRevision input)) (\<lambda>rows.
             tx_bind (tx_check (requireCycleRows ''advance replanned Goal'' rows 1)) (\<lambda>_.
             tx_bind (tx_map_error (replanCycleMaterializationError ''canceled Cycle'')
                        (LoadCycleView tx (rci_UserID input) (rci_GoalID input) (rci_CycleID input)))
               (\<lambda>canceledView.
             tx_bind (tx_map_error (replanCycleMaterializationError ''Goal'')
                        (LoadGoalView tx (rci_UserID input) (rci_GoalID input))) (\<lambda>goal_view.
             tx_bind (tx_map_error (replanCycleMaterializationError ''successor Cycle'')
                        (LoadCycleView tx (rci_UserID input) (rci_GoalID input) newCycleID))
               (\<lambda>successorView.
             let result = \<lparr>rcr_CanceledCycle = canceledView, rcr_Goal = goal_view,
                   rcr_Cycle = successorView, rcr_Replayed = False\<rparr> in
             tx_bind (tx_check (validateFreshReplanCycleResult result replanned input)) (\<lambda>_.
             tx_return result)))))))))))))))"

definition ReplanCycle ::
  "'s CycleTx \<Rightarrow> (string \<Rightarrow> string) \<Rightarrow> gotime \<Rightarrow> workspace_error + string \<Rightarrow> ReplanCycleInput \<Rightarrow>
   ('s, ReplanCycleResult) tx" where
  "ReplanCycle tx sha256 now0 newID input =
     (if \<not> rci_Confirmed input then tx_fail ErrReplanConfirmation
      else
        let requestHash = replanCycleRequestHash sha256 input in
        tx_bind (LockUser tx (rci_UserID input)) (\<lambda>_.
        tx_bind (FindReplanCycleReceipt tx (rci_UserID input) (rci_OperationID input)) (\<lambda>receipt.
        tx_bind (tx_check (validateReplanCycleReceipt receipt input requestHash)) (\<lambda>_.
        tx_bind (LockGoal tx (rci_UserID input) (rci_GoalID input)) (\<lambda>lockedGoal.
        if go_UserID lockedGoal \<noteq> rci_UserID input \<or> go_ID lockedGoal \<noteq> rci_GoalID input
        then tx_fail (cycleInvariantError ''locked Goal target does not match Replan Cycle'')
        else (case receipt of
          Some r \<Rightarrow> buildReplanCycleReplay tx input r
        | None \<Rightarrow> replan_locked tx now0 newID requestHash input lockedGoal))))))"

end
