(* ===== verification/CycleContract.thy ===== *)
theory CycleContract
  imports CycleUseCases
begin

section \<open>The contract of a Cycle transaction and what the use cases make of it\<close>

text \<open>
  \<open>cycle_tx_laws\<close> states what the use cases of Cycles rely on when they call the interface
  \<open>CycleTx\<close>: which of its operations only read, that a write touches the rows of the aggregate's
  own User only, that the unique keys of the tables hold after each of them, and that a recorded
  operation key is found again.  The lemmas of the locale follow the use cases through these laws;
  \<open>CycleStore\<close> interprets the locale on the PostgreSQL adapter.
\<close>

subsection \<open>Following a transaction\<close>

text \<open>\<open>keeps f m\<close>: a successful run of \<open>m\<close> leaves \<open>f\<close> of the state as it was; \<open>ensures P m\<close>: it ends
  in a state with \<open>P\<close>.\<close>

definition keeps :: "('s \<Rightarrow> 'd) \<Rightarrow> ('e, 's, 'a) etx \<Rightarrow> bool" where
  "keeps f m \<longleftrightarrow> (\<forall>s x t. m s = Inr (x, t) \<longrightarrow> f t = f s)"

definition ensures :: "('s \<Rightarrow> bool) \<Rightarrow> ('e, 's, 'a) etx \<Rightarrow> bool" where
  "ensures P m \<longleftrightarrow> (\<forall>s x t. m s = Inr (x, t) \<longrightarrow> P t)"

named_theorems keeps_intros "how a transaction keeps a part of the state"

lemma keepsD: "keeps f m \<Longrightarrow> m s = Inr (x, t) \<Longrightarrow> f t = f s"
  by (auto simp: keeps_def)

lemma keeps_pure [keeps_intros]:
  "keeps f (tx_return x)" "keeps f (tx_fail e)" "keeps f (tx_lift r)" "keeps f (tx_check c)"
  by (auto simp: keeps_def)

lemma keeps_bind [keeps_intros]:
  "keeps f m \<Longrightarrow> (\<And>s x t. m s = Inr (x, t) \<Longrightarrow> keeps f (g x)) \<Longrightarrow> keeps f (tx_bind m g)"
  unfolding keeps_def by simp metis

lemma keeps_map_error [keeps_intros]: "keeps f m \<Longrightarrow> keeps f (tx_map_error h m)"
  by (auto simp: keeps_def)

lemma keeps_if [keeps_intros]:
  "(b \<Longrightarrow> keeps f m) \<Longrightarrow> (\<not> b \<Longrightarrow> keeps f n) \<Longrightarrow> keeps f (if b then m else n)"
  by simp

lemma keeps_option [keeps_intros]:
  "(r = None \<Longrightarrow> keeps f m) \<Longrightarrow> (\<And>x. r = Some x \<Longrightarrow> keeps f (g x)) \<Longrightarrow>
   keeps f (case r of None \<Rightarrow> m | Some x \<Rightarrow> g x)"
  by (cases r) auto

lemma keeps_let [keeps_intros]: "keeps f (m v) \<Longrightarrow> keeps f (let x = v in m x)"
  by simp

lemma keeps_of: "keeps f m \<Longrightarrow> keeps (\<lambda>s. g (f s)) m"
  unfolding keeps_def by metis

text \<open>\<open>preserves P m\<close>: an invariant of the state.\<close>

definition preserves :: "('s \<Rightarrow> bool) \<Rightarrow> ('e, 's, 'a) etx \<Rightarrow> bool" where
  "preserves P m \<longleftrightarrow> (\<forall>s x t. P s \<longrightarrow> m s = Inr (x, t) \<longrightarrow> P t)"

lemma preservesD: "preserves P m \<Longrightarrow> P s \<Longrightarrow> m s = Inr (x, t) \<Longrightarrow> P t"
  by (auto simp: preserves_def)

lemma preserves_keeps: "keeps f m \<Longrightarrow> preserves (\<lambda>s. P (f s)) m"
  unfolding keeps_def preserves_def by metis

lemma preserves_pure:
  "preserves P (tx_return x)" "preserves P (tx_fail e)" "preserves P (tx_lift r)"
  "preserves P (tx_check c)"
  by (auto simp: preserves_def)

lemma preserves_bind:
  assumes "preserves P m" "\<And>x. preserves P (g x)"
  shows "preserves P (tx_bind m g)"
proof (unfold preserves_def, intro allI impI)
  fix s x t
  assume "P s" "tx_bind m g s = Inr (x, t)"
  then obtain y s' where m: "m s = Inr (y, s')" and g: "g y s' = Inr (x, t)" by auto
  show "P t" using preservesD[OF assms(2) preservesD[OF assms(1) \<open>P s\<close> m] g] .
qed

lemma preserves_map_error: "preserves P m \<Longrightarrow> preserves P (tx_map_error h m)"
  by (auto simp: preserves_def)

lemma preserves_if: "preserves P m \<Longrightarrow> preserves P n \<Longrightarrow> preserves P (if b then m else n)"
  by simp

lemma preserves_option:
  "preserves P m \<Longrightarrow> (\<And>x. preserves P (g x)) \<Longrightarrow> preserves P (case r of None \<Rightarrow> m | Some x \<Rightarrow> g x)"
  by (cases r) auto

lemma preserves_let: "preserves P (m v) \<Longrightarrow> preserves P (let x = v in m x)"
  by simp

lemma preserves_prod: "(\<And>a b. preserves P (g a b)) \<Longrightarrow> preserves P (case p of (a, b) \<Rightarrow> g a b)"
  by (cases p) simp

lemmas preserves_intros =
  preserves_pure preserves_bind preserves_map_error preserves_if preserves_option preserves_let

lemma ensuresD: "ensures P m \<Longrightarrow> m s = Inr (x, t) \<Longrightarrow> P t"
  by (auto simp: ensures_def)

lemma ensures_fail: "ensures P (tx_fail e)"
  by (auto simp: ensures_def)

lemma ensures_bind: "(\<And>s x t. m s = Inr (x, t) \<Longrightarrow> ensures P (g x)) \<Longrightarrow> ensures P (tx_bind m g)"
  unfolding ensures_def by simp metis

lemma ensures_if:
  "(b \<Longrightarrow> ensures P m) \<Longrightarrow> (\<not> b \<Longrightarrow> ensures P n) \<Longrightarrow> ensures P (if b then m else n)"
  by simp

lemma ensures_let: "ensures P (m v) \<Longrightarrow> ensures P (let x = v in m x)"
  by simp

lemmas ensures_intros = ensures_fail ensures_if ensures_let

text \<open>A compare-and-set that must write its row, and what the writes after it leave alone.\<close>

lemma ensures_cas:
  assumes "\<And>s t. m s = Inr (1, t) \<Longrightarrow> P t" "\<And>r. keeps P (g r)"
  shows "ensures P (tx_bind m (\<lambda>rows. tx_bind (tx_check (requireCycleRows message rows 1)) g))"
proof (unfold ensures_def, intro allI impI)
  fix s x t
  assume "tx_bind m (\<lambda>rows. tx_bind (tx_check (requireCycleRows message rows 1)) g) s = Inr (x, t)"
  then obtain s' where m: "m s = Inr (1, s')" and g: "g () s' = Inr (x, t)"
    by auto
  show "P t" using assms(1)[OF m] keepsD[OF assms(2) g] by simp
qed

lemma ensures_claim:
  assumes "\<And>s t. m s = Inr (1, t) \<Longrightarrow> P t" "\<And>r. keeps P (g r)" "ensures P lost"
  shows "ensures P (tx_bind m (\<lambda>rows. if rows = 0 then lost
           else tx_bind (tx_check (requireCycleRows message rows 1)) g))"
proof (unfold ensures_def, intro allI impI)
  fix s x t
  assume "tx_bind m (\<lambda>rows. if rows = 0 then lost
            else tx_bind (tx_check (requireCycleRows message rows 1)) g) s = Inr (x, t)"
  then obtain rows s' where "m s = Inr (rows, s')"
      "rows = 0 \<and> lost s' = Inr (x, t) \<or> rows = 1 \<and> g () s' = Inr (x, t)"
    by (auto split: if_splits)
  then show "P t" using assms(1) keepsD[OF assms(2)] ensuresD[OF assms(3)] by metis
qed

subsection \<open>The owner of an aggregate\<close>

lemma cycle_SaveFrame_owner:
  assumes "cycle_SaveFrame current frame content r ai now = Inr saved"
  shows "cy_UserID (sf_Cycle saved) = cy_UserID current \<and> cy_ID (sf_Cycle saved) = cy_ID current"
  using assms by (auto simp: cycle_SaveFrame_def Let_def split: if_splits)

lemma ChangeReviewSchedule_owner:
  "ChangeReviewSchedule current target r = Inr changed \<Longrightarrow>
     cy_UserID (crs_Cycle changed) = cy_UserID current \<and> cy_ID (crs_Cycle changed) = cy_ID current"
  by (auto simp: ChangeReviewSchedule_def split: if_splits)

lemma cycle_Complete_owner:
  "cycle_Complete current operationID requestHash r ai now = Inr completed \<Longrightarrow>
     cy_UserID completed = cy_UserID current \<and> cy_CompletionOperationID completed = Some operationID \<and>
     cy_CompletionRequestHash completed = Some requestHash"
  by (auto simp: cycle_Complete_def Let_def split: if_splits)

lemma EnterReview_owner: "EnterReview current now = Inr reviewing \<Longrightarrow> go_UserID reviewing = go_UserID current"
  by (auto simp: EnterReview_def split: if_splits)

lemma NewReviewDraft_owner:
  "NewReviewDraft ident current version completed now = Inr draft \<Longrightarrow> dr_UserID draft = go_UserID current"
  by (auto simp: NewReviewDraft_def Let_def split: if_splits)

lemma Replan_owner:
  assumes "Replan current version active newID op h now = Inr replanned"
  shows "go_UserID (rp_Goal replanned) = go_UserID current \<and>
    cy_UserID (rp_CanceledCycle replanned) = go_UserID current \<and>
    cy_UserID (rp_Cycle replanned) = go_UserID current \<and>
    cy_StartOperationID (rp_Cycle replanned) = op \<and> cy_StartRequestHash (rp_Cycle replanned) = h"
  using assms by (auto simp: Replan_def cycle_Cancel_def Let_def split: if_splits)

subsection \<open>The laws\<close>

locale cycle_tx_laws =
  fixes tx :: "'s CycleTx"
    and contents :: "'s \<Rightarrow> 'd"
    and unique_keys :: "'d \<Rightarrow> bool"
    and foreign :: "string \<Rightarrow> 'd \<Rightarrow> 'f"
    and owns :: "'d \<Rightarrow> string \<Rightarrow> string \<Rightarrow> bool"
    and completion :: "'d \<Rightarrow> string \<Rightarrow> string \<Rightarrow> string option"
    and claim :: "'d \<Rightarrow> string \<Rightarrow> string \<Rightarrow> string option"
  assumes reads:
      "keeps contents (FindCompleteCycleReceipt tx u op)"
      "keeps contents (FindReplanCycleReceipt tx u op)"
      "keeps contents (LockUser tx u)"
      "keeps contents (LockGoal tx u g)"
      "keeps contents (LockCycle tx u g c)"
      "keeps contents (LoadCurrentGoalVersion tx u g n)"
      "keeps contents (HasRunningCycleGeneration tx u g c)"
      "keeps contents (LoadGoalView tx u g)"
      "keeps contents (LoadCycleView tx u g c)"
      "keeps contents (FindReviewDraftByCycle tx u g c)"
    and locked: "LockCycle tx u g c s = Inr (current, t) \<Longrightarrow> owns (contents s) u c"
    and unique_kept:
      "preserves (\<lambda>s. unique_keys (contents s)) (SaveCycleFrameCAS tx cycle frame e)"
      "preserves (\<lambda>s. unique_keys (contents s)) (SaveCycleReviewScheduleCAS tx cycle e)"
      "preserves (\<lambda>s. unique_keys (contents s)) (CompleteCycleCAS tx cycle e)"
      "preserves (\<lambda>s. unique_keys (contents s)) (CancelCycleCAS tx cycle e)"
      "preserves (\<lambda>s. unique_keys (contents s)) (TryInsertCycleClaim tx cycle)"
      "preserves (\<lambda>s. unique_keys (contents s)) (ReplanGoalCAS tx goal e)"
      "preserves (\<lambda>s. unique_keys (contents s)) (InsertReviewDraft tx draft)"
      "preserves (\<lambda>s. unique_keys (contents s)) (EnterGoalReviewCAS tx goal e)"
    and own_rows:
      "keeps (\<lambda>s. foreign (cy_UserID cycle) (contents s)) (SaveCycleFrameCAS tx cycle frame e)"
      "keeps (\<lambda>s. foreign (cy_UserID cycle) (contents s)) (CompleteCycleCAS tx cycle e)"
      "keeps (\<lambda>s. foreign (cy_UserID cycle) (contents s)) (CancelCycleCAS tx cycle e)"
      "keeps (\<lambda>s. foreign (cy_UserID cycle) (contents s)) (TryInsertCycleClaim tx cycle)"
      "keeps (\<lambda>s. foreign (go_UserID goal) (contents s)) (ReplanGoalCAS tx goal e)"
      "keeps (\<lambda>s. foreign (dr_UserID draft) (contents s)) (InsertReviewDraft tx draft)"
      "keeps (\<lambda>s. foreign (go_UserID goal) (contents s)) (EnterGoalReviewCAS tx goal e)"
    and own_schedule:
      "SaveCycleReviewScheduleCAS tx cycle e s = Inr (rows, t) \<Longrightarrow> unique_keys (contents s) \<Longrightarrow>
       owns (contents s) (cy_UserID cycle) (cy_ID cycle) \<Longrightarrow>
       foreign (cy_UserID cycle) (contents t) = foreign (cy_UserID cycle) (contents s)"
    and completion_found:
      "FindCompleteCycleReceipt tx u op s = Inr (receipt, t) \<Longrightarrow>
       map_option crc_RequestHash receipt = completion (contents s) u op"
    and completion_recorded:
      "CompleteCycleCAS tx cycle e s = Inr (1, t) \<Longrightarrow> cy_CompletionOperationID cycle = Some op \<Longrightarrow>
       completion (contents t) (cy_UserID cycle) op = cy_CompletionRequestHash cycle"
    and completion_kept:
      "keeps (\<lambda>s. completion (contents s)) (InsertReviewDraft tx draft)"
      "keeps (\<lambda>s. completion (contents s)) (EnterGoalReviewCAS tx goal e)"
    and claim_found:
      "FindReplanCycleReceipt tx u op s = Inr (receipt', t) \<Longrightarrow>
       map_option rrc_RequestHash receipt' = claim (contents s) u op"
    and claim_recorded:
      "TryInsertCycleClaim tx cycle s = Inr (1, t) \<Longrightarrow>
       claim (contents t) (cy_UserID cycle) (cy_StartOperationID cycle) = Some (cy_StartRequestHash cycle)"
    and claim_kept: "keeps (\<lambda>s. claim (contents s)) (ReplanGoalCAS tx goal e)"
begin

lemma reads_of: "keeps contents m \<Longrightarrow> keeps (\<lambda>s. f (contents s)) m"
  by (rule keeps_of)

lemmas reads_keep [keeps_intros] = reads reads[THEN reads_of]

lemma reads_preserve: "keeps contents m \<Longrightarrow> preserves (\<lambda>s. unique_keys (contents s)) m"
  by (rule preserves_keeps)

lemmas laws_preserve = preserves_intros unique_kept reads[THEN reads_preserve]

subsubsection \<open>The unique keys are an invariant of the commands\<close>

lemma SaveFrame_unique: "preserves (\<lambda>s. unique_keys (contents s)) (SaveFrame tx now input)"
  unfolding SaveFrame_def by (intro laws_preserve)

lemma ChangeReviewSchedule_unique:
  "preserves (\<lambda>s. unique_keys (contents s)) (uc_ChangeReviewSchedule tx input)"
  unfolding uc_ChangeReviewSchedule_def by (intro laws_preserve)

lemma CompleteCycle_unique:
  "preserves (\<lambda>s. unique_keys (contents s)) (CompleteCycle tx sha256 now newID input)"
  unfolding CompleteCycle_def buildCompleteCycleReplay_def complete_locked_def
  by (intro laws_preserve)

lemma ReplanCycle_unique:
  "preserves (\<lambda>s. unique_keys (contents s)) (ReplanCycle tx sha256 now newID input)"
  unfolding ReplanCycle_def buildReplanCycleReplay_def replan_locked_def
    classifyLostReplanCycleClaim_def
  by (intro laws_preserve)

subsubsection \<open>A command touches the rows of its User\<close>

lemma own_rows_of:
  "cy_UserID cycle = u \<Longrightarrow> keeps (\<lambda>s. foreign u (contents s)) (SaveCycleFrameCAS tx cycle frame e)"
  "cy_UserID cycle = u \<Longrightarrow> keeps (\<lambda>s. foreign u (contents s)) (CompleteCycleCAS tx cycle e)"
  "cy_UserID cycle = u \<Longrightarrow> keeps (\<lambda>s. foreign u (contents s)) (CancelCycleCAS tx cycle e)"
  "cy_UserID cycle = u \<Longrightarrow> keeps (\<lambda>s. foreign u (contents s)) (TryInsertCycleClaim tx cycle)"
  "go_UserID goal = u \<Longrightarrow> keeps (\<lambda>s. foreign u (contents s)) (ReplanGoalCAS tx goal e)"
  "dr_UserID draft = u \<Longrightarrow> keeps (\<lambda>s. foreign u (contents s)) (InsertReviewDraft tx draft)"
  "go_UserID goal = u \<Longrightarrow> keeps (\<lambda>s. foreign u (contents s)) (EnterGoalReviewCAS tx goal e)"
  using own_rows by blast+

lemma SaveFrame_foreign:
  "keeps (\<lambda>s. foreign (sfi_UserID input) (contents s)) (SaveFrame tx now input)"
  unfolding SaveFrame_def
  by (intro keeps_intros own_rows_of) (auto dest: cycle_SaveFrame_owner)

lemma CompleteCycle_foreign:
  "keeps (\<lambda>s. foreign (cci_UserID input) (contents s)) (CompleteCycle tx sha256 now newID input)"
  unfolding CompleteCycle_def buildCompleteCycleReplay_def complete_locked_def
  by (intro keeps_intros own_rows_of)
    (auto dest!: cycle_Complete_owner EnterReview_owner NewReviewDraft_owner)

lemma ReplanCycle_foreign:
  "keeps (\<lambda>s. foreign (rci_UserID input) (contents s)) (ReplanCycle tx sha256 now newID input)"
  unfolding ReplanCycle_def buildReplanCycleReplay_def replan_locked_def
    classifyLostReplanCycleClaim_def
  by (intro keeps_intros own_rows_of) (auto dest!: Replan_owner)

lemma ChangeReviewSchedule_foreign:
  assumes "unique_keys (contents s)" "uc_ChangeReviewSchedule tx input s = Inr (view, t)"
  shows "foreign (csi_UserID input) (contents t) = foreign (csi_UserID input) (contents s)"
proof -
  let ?u = "csi_UserID input"
  from assms(2) obtain g s1 c s2 changed s3 v s4 where
    g: "LockGoal tx ?u (csi_GoalID input) s = Inr (g, s1)" and
    c: "LockCycle tx ?u (csi_GoalID input) (csi_CycleID input) s1 = Inr (c, s2)" and
    cu: "cy_UserID c = ?u" "cy_ID c = csi_CycleID input" and
    changed: "ChangeReviewSchedule c (csi_ReviewDate input)
                (csi_ExpectedReviewScheduleRevision input) = Inr changed" and
    saved: "s3 = s2 \<or> SaveCycleReviewScheduleCAS tx (crs_Cycle changed)
              (csi_ExpectedReviewScheduleRevision input) s2 = Inr (1, s3)"
    and view: "LoadCycleView tx ?u (csi_GoalID input) (csi_CycleID input) s3 = Inr (v, s4)" "t = s4"
    by (auto simp: uc_ChangeReviewSchedule_def split: if_splits) blast+
  have same: "contents s2 = contents s" "contents t = contents s3"
    using keepsD[OF reads(4) g] keepsD[OF reads(5) c] keepsD[OF reads(9) view(1)] view(2) by simp_all
  have "owns (contents s2) ?u (csi_CycleID input)" using locked[OF c] keepsD[OF reads(5) c] by simp
  then have owns: "owns (contents s2) (cy_UserID (crs_Cycle changed)) (cy_ID (crs_Cycle changed))"
    using ChangeReviewSchedule_owner[OF changed] cu by simp
  from saved show ?thesis
  proof
    assume "s3 = s2"
    then show ?thesis using same by simp
  next
    assume "SaveCycleReviewScheduleCAS tx (crs_Cycle changed)
      (csi_ExpectedReviewScheduleRevision input) s2 = Inr (1, s3)"
    from own_schedule[OF this _ owns] show ?thesis
      using assms(1) same ChangeReviewSchedule_owner[OF changed] cu by simp
  qed
qed

subsubsection \<open>An operation key is used once\<close>

lemma complete_locked_records:
  assumes "go_UserID lockedGoal = cci_UserID input"
  shows "ensures (\<lambda>t. completion (contents t) (cci_UserID input) (cci_OperationID input) = Some requestHash)
    (complete_locked tx now newID requestHash input lockedGoal)"
proof -
  let ?P = "\<lambda>t. completion (contents t) (cci_UserID input) (cci_OperationID input) = Some requestHash"
  have kept: "keeps ?P (InsertReviewDraft tx draft)" "keeps ?P (EnterGoalReviewCAS tx goal e)" for draft goal e
    by (rule keeps_of[OF completion_kept(1)], rule keeps_of[OF completion_kept(2)])
  show ?thesis unfolding complete_locked_def
    by (intro ensures_intros ensures_bind ensures_cas keeps_intros kept)
      (auto dest!: cycle_Complete_owner completion_recorded)
qed

lemma replan_locked_records:
  assumes "go_UserID lockedGoal = rci_UserID input"
  shows "ensures (\<lambda>t. claim (contents t) (rci_UserID input) (rci_OperationID input) = Some requestHash)
    (replan_locked tx now newID requestHash input lockedGoal)"
proof -
  let ?P = "\<lambda>t. claim (contents t) (rci_UserID input) (rci_OperationID input) = Some requestHash"
  have kept: "keeps ?P (ReplanGoalCAS tx goal e)" for goal e
    by (rule keeps_of[OF claim_kept])
  have lost: "ensures ?P (classifyLostReplanCycleClaim tx input requestHash)"
    unfolding classifyLostReplanCycleClaim_def by (intro ensures_intros ensures_bind)
  show ?thesis unfolding replan_locked_def
    by (intro ensures_intros ensures_bind ensures_claim keeps_intros kept lost)
      (auto dest!: Replan_owner claim_recorded simp: assms)
qed

lemma CompleteCycle_key:
  assumes run: "CompleteCycle tx sha256 now newID input s = Inr (result, t)"
  shows "completion (contents t) (cci_UserID input) (cci_OperationID input) =
      Some (completeCycleRequestHash sha256 input)"
    and "completion (contents s) (cci_UserID input) (cci_OperationID input) = Some h \<Longrightarrow>
      contents t = contents s \<and> h = completeCycleRequestHash sha256 input \<and>
      (ccr_Replayed result \<or> ccr_Replay result \<noteq> None)"
proof -
  let ?u = "cci_UserID input" and ?op = "cci_OperationID input"
  let ?h = "completeCycleRequestHash sha256 input"
  from run obtain r0 s1 s2 receipt s3 g s4 where
    r0: "FindCompleteCycleReceipt tx ?u ?op s = Inr (r0, s1)" and
    l: "LockUser tx ?u s1 = Inr ((), s2)" and
    r: "FindCompleteCycleReceipt tx ?u ?op s2 = Inr (receipt, s3)" and
    ok: "validateCompleteCycleReceipt receipt input ?h = None" and
    g: "LockGoal tx ?u (cci_GoalID input) s3 = Inr (g, s4)" and
    gu: "go_UserID g = ?u" and
    rest: "(case receipt of Some r \<Rightarrow> buildCompleteCycleReplay tx input r
            | None \<Rightarrow> complete_locked tx now newID ?h input g) s4 = Inr (result, t)"
    by (auto simp: CompleteCycle_def Let_def split: if_splits)
  have same: "contents s2 = contents s" "contents s4 = contents s"
    using keepsD[OF reads(1) r0] keepsD[OF reads(3) l] keepsD[OF reads(1) r] keepsD[OF reads(4) g]
    by simp_all
  have found: "map_option crc_RequestHash receipt = completion (contents s) ?u ?op"
    using completion_found[OF r] same by simp
  have "completion (contents t) ?u ?op = Some ?h \<and>
    (completion (contents s) ?u ?op \<noteq> None \<longrightarrow>
       contents t = contents s \<and> completion (contents s) ?u ?op = Some ?h \<and>
       (ccr_Replayed result \<or> ccr_Replay result \<noteq> None))"
  proof (cases receipt)
    case None
    with found rest gu show ?thesis
      using ensuresD[OF complete_locked_records[OF gu]] by auto
  next
    case (Some rec)
    with rest have replay: "buildCompleteCycleReplay tx input rec s4 = Inr (result, t)" by simp
    then have flag: "ccr_Replayed result \<or> ccr_Replay result \<noteq> None"
      by (auto simp: buildCompleteCycleReplay_def Let_def split: option.splits)
    have "keeps contents (buildCompleteCycleReplay tx input rec)"
      unfolding buildCompleteCycleReplay_def by (intro keeps_intros)
    from keepsD[OF this replay] have "contents t = contents s" using same by simp
    moreover have "crc_RequestHash rec = ?h"
      using ok Some by (auto simp: validateCompleteCycleReceipt_def split: if_splits)
    ultimately show ?thesis using found Some flag by auto
  qed
  then show "completion (contents t) ?u ?op = Some ?h"
    and "completion (contents s) ?u ?op = Some h \<Longrightarrow> contents t = contents s \<and> h = ?h \<and>
      (ccr_Replayed result \<or> ccr_Replay result \<noteq> None)" by auto
qed

lemma ReplanCycle_key:
  assumes run: "ReplanCycle tx sha256 now newID input s = Inr (result, t)"
  shows "claim (contents t) (rci_UserID input) (rci_OperationID input) =
      Some (replanCycleRequestHash sha256 input)"
    and "claim (contents s) (rci_UserID input) (rci_OperationID input) = Some h \<Longrightarrow>
      contents t = contents s \<and> h = replanCycleRequestHash sha256 input \<and> rcr_Replayed result"
proof -
  let ?u = "rci_UserID input" and ?op = "rci_OperationID input"
  let ?h = "replanCycleRequestHash sha256 input"
  from run obtain s2 receipt s3 g s4 where
    l: "LockUser tx ?u s = Inr ((), s2)" and
    r: "FindReplanCycleReceipt tx ?u ?op s2 = Inr (receipt, s3)" and
    ok: "validateReplanCycleReceipt receipt input ?h = None" and
    g: "LockGoal tx ?u (rci_GoalID input) s3 = Inr (g, s4)" and
    gu: "go_UserID g = ?u" and
    rest: "(case receipt of Some r \<Rightarrow> buildReplanCycleReplay tx input r
            | None \<Rightarrow> replan_locked tx now newID ?h input g) s4 = Inr (result, t)"
    by (auto simp: ReplanCycle_def Let_def split: if_splits)
  have same: "contents s2 = contents s" "contents s4 = contents s"
    using keepsD[OF reads(3) l] keepsD[OF reads(2) r] keepsD[OF reads(4) g] by simp_all
  have found: "map_option rrc_RequestHash receipt = claim (contents s) ?u ?op"
    using claim_found[OF r] same by simp
  have "claim (contents t) ?u ?op = Some ?h \<and>
    (claim (contents s) ?u ?op \<noteq> None \<longrightarrow>
       contents t = contents s \<and> claim (contents s) ?u ?op = Some ?h \<and> rcr_Replayed result)"
  proof (cases receipt)
    case None
    with found rest gu show ?thesis
      using ensuresD[OF replan_locked_records[OF gu]] by auto
  next
    case (Some rec)
    with rest have replay: "buildReplanCycleReplay tx input rec s4 = Inr (result, t)" by simp
    then have flag: "rcr_Replayed result" by (auto simp: buildReplanCycleReplay_def Let_def)
    have "keeps contents (buildReplanCycleReplay tx input rec)"
      unfolding buildReplanCycleReplay_def by (intro keeps_intros)
    from keepsD[OF this replay] have "contents t = contents s" using same by simp
    moreover have "rrc_RequestHash rec = ?h"
      using ok Some by (auto simp: validateReplanCycleReceipt_def split: if_splits)
    ultimately show ?thesis using found Some flag by auto
  qed
  then show "claim (contents t) ?u ?op = Some ?h"
    and "claim (contents s) ?u ?op = Some h \<Longrightarrow>
      contents t = contents s \<and> h = ?h \<and> rcr_Replayed result" by auto
qed

end

end
