(* ===== verification/ReviewTransitions.thy ===== *)
theory ReviewTransitions
  imports CycleUseCases
begin

section \<open>Continuing a review and terminating a Goal\<close>

text \<open>
  Model of \<open>workspace/review_transition_ports.go\<close> and
  \<open>workspace/review_transition_use_cases.go\<close>.  A use case is the function the code passes to
  \<open>WithinReviewTransitionTransaction\<close>; the two identifiers \<open>ContinueReview\<close> may ask the
  generator for, one for a new version and one for the new Cycle, are two arguments.
\<close>

record ContinueReviewReceipt =
  crv_GoalID :: string
  crv_CycleID :: string
  crv_RequestHash :: string
  crv_VersionCreated :: bool

record GoalTerminationReceipt =
  gtr_GoalID :: string
  gtr_RequestHash :: string

record DraftGenerationState =
  dgs_ID :: string
  dgs_Status :: string

record DraftUsageState =
  dus_OperationID :: string
  dus_QuotaRetainUntil :: gotime
  dus_ProviderUsageFinalizedAt :: "gotime option"

record 's ReviewTransitionTx =
  rt_FindContinueReviewReceipt :: "string \<Rightarrow> string \<Rightarrow> ('s, ContinueReviewReceipt option) tx"
  rt_FindGoalTerminationReceipt :: "string \<Rightarrow> string \<Rightarrow> ('s, GoalTerminationReceipt option) tx"
  rt_LockUser :: "string \<Rightarrow> ('s, unit) tx"
  rt_LockGoal :: "string \<Rightarrow> string \<Rightarrow> ('s, Goal) tx"
  rt_LockCycle :: "string \<Rightarrow> string \<Rightarrow> string \<Rightarrow> ('s, PDCACycle) tx"
  rt_LockReviewDraft :: "string \<Rightarrow> string \<Rightarrow> ('s, Draft) tx"
  rt_LoadCurrentGoalVersion :: "string \<Rightarrow> string \<Rightarrow> i32 \<Rightarrow> ('s, Version) tx"
  rt_HasRunningGoalGeneration :: "string \<Rightarrow> string \<Rightarrow> ('s, bool) tx"
  rt_LockDraftGenerations :: "string \<Rightarrow> string \<Rightarrow> ('s, DraftGenerationState list) tx"
  rt_LockDraftUsages :: "string \<Rightarrow> string list \<Rightarrow> ('s, DraftUsageState list) tx"
  rt_InsertGoalVersion :: "Version \<Rightarrow> ('s, i64) tx"
  rt_TryInsertReviewCycleClaim :: "PDCACycle \<Rightarrow> ('s, i64) tx"
  rt_ContinueGoalCAS :: "Goal \<Rightarrow> i64 \<Rightarrow> ('s, i64) tx"
  rt_AttachDraftGenerations :: "string \<Rightarrow> string \<Rightarrow> string list \<Rightarrow> string \<Rightarrow> string \<Rightarrow> ('s, i64) tx"
  rt_AttachUsageToGoal :: "string \<Rightarrow> string list \<Rightarrow> string \<Rightarrow> ('s, i64) tx"
  rt_CancelCycleCAS :: "PDCACycle \<Rightarrow> i64 \<Rightarrow> ('s, i64) tx"
  rt_RedactDraftUsagesCAS :: "string \<Rightarrow> string list \<Rightarrow> ('s, i64) tx"
  rt_DeleteExpiredFinalizedDraftUsagesCAS :: "string \<Rightarrow> string list \<Rightarrow> gotime \<Rightarrow> ('s, i64) tx"
  rt_DeleteDraftGenerationsCAS :: "string \<Rightarrow> string \<Rightarrow> string list \<Rightarrow> ('s, i64) tx"
  rt_DeleteReviewDraftCAS :: "string \<Rightarrow> string \<Rightarrow> i64 \<Rightarrow> ('s, i64) tx"
  rt_TerminateGoalCAS :: "Goal \<Rightarrow> i64 \<Rightarrow> ('s, i64) tx"
  rt_LoadGoalView :: "string \<Rightarrow> string \<Rightarrow> ('s, GoalView) tx"
  rt_LoadCycleView :: "string \<Rightarrow> string \<Rightarrow> string \<Rightarrow> ('s, CycleView) tx"

subsection \<open>Requests and receipts\<close>

definition continueReviewRequestHash :: "(string \<Rightarrow> string) \<Rightarrow> ContinueReviewInput \<Rightarrow> string" where
  "continueReviewRequestHash sha256 input =
     hashRequest sha256
       [(''goalId'', JString (cri_GoalID input)),
        (''goalRevision'', JInt (sint (cri_ExpectedGoalRevision input))),
        (''draftRevision'', JInt (sint (cri_ExpectedDraftRevision input)))]"

definition terminateRequestHash :: "(string \<Rightarrow> string) \<Rightarrow> TerminateInput \<Rightarrow> string" where
  "terminateRequestHash sha256 input =
     hashRequest sha256
       ([(''goalId'', JString (ti_GoalID input)), (''outcome'', JString (ti_Outcome input)),
         (''expectedState'', JString (ti_ExpectedState input)),
         (''goalRevision'', JInt (sint (ti_ExpectedGoalRevision input)))] @
        (if ti_ActiveCycleID input = [] then []
         else [(''activeCycleId'', JString (ti_ActiveCycleID input))]) @
        (case ti_ExpectedCycleContentRevision input of
           None \<Rightarrow> [] | Some revision \<Rightarrow> [(''cycleRevision'', JInt (sint revision))]) @
        [(''confirmDiscardReviewDraft'', JBool (ti_ConfirmDiscardReviewDraft input))])"

definition validateTerminationInput :: "TerminateInput \<Rightarrow> workspace_error option" where
  "validateTerminationInput input =
     (if ti_Outcome input \<noteq> StatusAchieved \<and> ti_Outcome input \<noteq> StatusEnded
      then Some ErrInvalidGoalOutcome
      else if ti_ExpectedState input = StatusActiveCycle then
        (if ti_ActiveCycleID input = [] \<or> ti_ExpectedCycleContentRevision input = None \<or>
            ti_ConfirmDiscardReviewDraft input
         then Some ErrInvalidTerminationRequest else None)
      else if ti_ExpectedState input = StatusGoalReview then
        (if ti_ActiveCycleID input \<noteq> [] \<or> ti_ExpectedCycleContentRevision input \<noteq> None
         then Some ErrInvalidTerminationRequest else None)
      else Some ErrInvalidTerminationRequest)"

definition validateContinueReviewReceipt ::
  "ContinueReviewReceipt option \<Rightarrow> ContinueReviewInput \<Rightarrow> string \<Rightarrow> workspace_error option" where
  "validateContinueReviewReceipt receipt input requestHash =
     (case receipt of
        None \<Rightarrow> None
      | Some r \<Rightarrow>
          if crv_GoalID r \<noteq> cri_GoalID input \<or> crv_RequestHash r \<noteq> requestHash \<or> crv_CycleID r = []
          then Some ErrIdempotencyKeyReused else None)"

definition validateGoalTerminationReceipt ::
  "GoalTerminationReceipt option \<Rightarrow> TerminateInput \<Rightarrow> string \<Rightarrow> workspace_error option" where
  "validateGoalTerminationReceipt receipt input requestHash =
     (case receipt of
        None \<Rightarrow> None
      | Some r \<Rightarrow>
          if gtr_GoalID r \<noteq> ti_GoalID input \<or> gtr_RequestHash r \<noteq> requestHash
          then Some ErrIdempotencyKeyReused else None)"

subsection \<open>Validation of what was locked\<close>

definition validateLockedReviewDraft :: "Draft \<Rightarrow> string \<Rightarrow> string \<Rightarrow> workspace_error option" where
  "validateLockedReviewDraft draft userID goalID =
     (if dr_UserID draft \<noteq> userID \<or> dr_Type draft \<noteq> DraftReview \<or> dr_GoalID draft \<noteq> Some goalID \<or>
         dr_BaseGoalVersionID draft = None \<or> dr_ReviewCycleID draft = None
      then Some (reviewTransitionInvariant ''locked Review Draft references are inconsistent'')
      else None)"

definition validateReviewCurrentVersion ::
  "Version \<Rightarrow> Goal \<Rightarrow> string \<Rightarrow> string \<Rightarrow> Draft \<Rightarrow> workspace_error option" where
  "validateReviewCurrentVersion version current userID goalID draft =
     (if ve_UserID version \<noteq> userID \<or> ve_GoalID version \<noteq> goalID \<or>
         ve_VersionNumber version \<noteq> go_CurrentVersionNumber current \<or> ve_ID version = [] \<or>
         dr_BaseGoalVersionID draft \<noteq> Some (ve_ID version)
      then Some ErrGoalVersionConflict else None)"

fun review_generations_from ::
  "DraftGenerationState option \<Rightarrow> DraftGenerationState list \<Rightarrow> workspace_error + string list \<times> bool" where
  "review_generations_from previous [] = Inr ([], False)"
| "review_generations_from previous (generation # generations) =
     (if dgs_ID generation = [] \<or>
         (case previous of None \<Rightarrow> False | Some p \<Rightarrow> dgs_ID p \<ge> dgs_ID generation)
      then Inl (reviewTransitionInvariant
             ''Review generations are not locked once in UUID order'')
      else rbind (review_generations_from (Some generation) generations) (\<lambda>(ids, running).
             Inr (dgs_ID generation # ids, dgs_Status generation = ''running'' \<or> running)))"

definition validateReviewGenerations ::
  "DraftGenerationState list \<Rightarrow> workspace_error + string list \<times> bool" where
  "validateReviewGenerations generations = review_generations_from None generations"

fun review_usages_from ::
  "string list \<Rightarrow> string \<Rightarrow> DraftUsageState list \<Rightarrow> workspace_error option" where
  "review_usages_from known previous [] = None"
| "review_usages_from known previous (usage # usages) =
     (if dus_OperationID usage = [] \<or> previous \<ge> dus_OperationID usage
      then Some (reviewTransitionInvariant ''Review usages are not locked once in UUID order'')
      else if dus_OperationID usage \<notin> set known
      then Some (reviewTransitionInvariant ''Review usage does not belong to a locked generation'')
      else if time_is_zero (dus_QuotaRetainUntil usage)
      then Some (reviewTransitionInvariant ''Review usage retention deadline is missing'')
      else review_usages_from known (dus_OperationID usage) usages)"

definition validateReviewUsages :: "string list \<Rightarrow> DraftUsageState list \<Rightarrow> workspace_error option" where
  "validateReviewUsages generationIDs usages = review_usages_from generationIDs [] usages"

definition reviewUsageIDs :: "DraftUsageState list \<Rightarrow> string list" where
  "reviewUsageIDs usages = map dus_OperationID usages"

text \<open>A usage is kept, without its content, until its quota deadline and until it is final.\<close>

definition usage_retained :: "gotime \<Rightarrow> DraftUsageState \<Rightarrow> bool" where
  "usage_retained now usage \<longleftrightarrow>
     time_before now (dus_QuotaRetainUntil usage) \<or> dus_ProviderUsageFinalizedAt usage = None"

definition partitionReviewUsages ::
  "string list \<Rightarrow> DraftUsageState list \<Rightarrow> gotime \<Rightarrow> workspace_error + string list \<times> string list" where
  "partitionReviewUsages generationIDs usages now =
     (if \<not> sorted generationIDs
      then Inl (reviewTransitionInvariant ''Review generation retention input is not ordered'')
      else (case validateReviewUsages generationIDs usages of
        Some e \<Rightarrow> Inl e
      | None \<Rightarrow> Inr (map dus_OperationID (filter (usage_retained now) usages),
                     map dus_OperationID (filter (\<lambda>u. \<not> usage_retained now u) usages))))"

subsection \<open>Validation of the results\<close>

definition reviewTransitionMaterializationError :: "string \<Rightarrow> workspace_error \<Rightarrow> workspace_error" where
  "reviewTransitionMaterializationError resource err =
     (if err = ErrNotFound \<or> err = ErrGoalNotFound \<or> err = ErrCycleNotFound
      then reviewTransitionInvariant (resource @ '' disappeared after its parent lock'')
      else err)"

definition validateFreshContinueReviewResult ::
  "ContinueReviewResult \<Rightarrow> ContinueResult \<Rightarrow> i64 \<Rightarrow> string \<Rightarrow> workspace_error option" where
  "validateFreshContinueReviewResult result continued expectedGoalRevision reviewCycleID =
     (let cycle_view = crr_Cycle result; goal_view = crr_Goal result in
      if crr_Replayed result \<or> crr_VersionCreated result \<noteq> co_VersionCreated continued \<or>
         validateCycleView cycle_view (go_ID (co_Goal continued)) (cy_ID (co_Cycle continued)) \<noteq> None \<or>
         cv_Status cycle_view \<noteq> StatusActive \<or>
         (case cv_PreviousCompletedCycleAction cycle_view of
            None \<Rightarrow> True | Some previous \<Rightarrow> pca_CycleID previous \<noteq> reviewCycleID) \<or>
         gvv_ID (cv_GoalVersion cycle_view) \<noteq> cy_GoalVersionID (co_Cycle continued) \<or>
         \<not> goalVersionViewMatchesDomain (cv_GoalVersion cycle_view) (co_Version continued) \<or>
         cv_SequenceNumber cycle_view \<noteq> cy_SequenceNumber (co_Cycle continued) \<or>
         \<not> time_equal (cv_StartedAt cycle_view) (cy_StartedAt (co_Cycle continued)) \<or>
         cv_Plan cycle_view \<noteq> [] \<or> cv_Do cycle_view \<noteq> [] \<or>
         cv_Check cycle_view \<noteq> [] \<or> cv_Action cycle_view \<noteq> [] \<or>
         cv_ContentRevision cycle_view \<noteq> 0 \<or>
         cv_FrameRevisions cycle_view \<noteq> zero_FrameRevisions
      then Some (reviewTransitionInvariant ''continued Cycle response is inconsistent'')
      else if gv_ID goal_view \<noteq> go_ID (co_Goal continued) \<or>
         gv_Status goal_view \<noteq> StatusActiveCycle \<or>
         gv_Revision goal_view \<noteq> expectedGoalRevision + 1 \<or>
         \<not> goalVersionViewMatchesDomain (gv_CurrentVersion goal_view) (co_Version continued) \<or>
         gv_NextCycleSequenceNumber goal_view \<noteq> go_NextCycleSequenceNumber (co_Goal continued) \<or>
         (case gv_CurrentWork goal_view of
            None \<Rightarrow> True
          | Some work \<Rightarrow> cw_Kind work \<noteq> ''active_cycle'' \<or>
              cw_CycleID work \<noteq> cy_ID (co_Cycle continued) \<or>
              cw_CycleSequenceNumber work \<noteq> cy_SequenceNumber (co_Cycle continued)) \<or>
         validateGoalCurrentWork goal_view \<noteq> None
      then Some (reviewTransitionInvariant ''continued Goal response is inconsistent'')
      else None)"

definition validateTerminationResult ::
  "TerminateResult \<Rightarrow> TerminateInput \<Rightarrow> bool \<Rightarrow> workspace_error option" where
  "validateTerminationResult result input replayed =
     (let goal_view = tr_Goal result in
      if tr_Replayed result \<noteq> replayed \<or> gv_ID goal_view \<noteq> ti_GoalID input \<or>
         gv_Status goal_view \<noteq> ti_Outcome input \<or>
         gv_Revision goal_view \<noteq> ti_ExpectedGoalRevision input + 1 \<or>
         gv_TerminalAt goal_view = None \<or> gv_CurrentWork goal_view \<noteq> None \<or>
         validateGoalCurrentWork goal_view \<noteq> None
      then Some (reviewTransitionInvariant ''terminal Goal response is inconsistent'')
      else if ti_ExpectedState input = StatusGoalReview then
        (if tr_CanceledCycle result \<noteq> None
         then Some (reviewTransitionInvariant ''Review termination returned a canceled Cycle'')
         else None)
      else
        (case tr_CanceledCycle result of
           None \<Rightarrow> Some (reviewTransitionInvariant
                      ''termination canceled Cycle response is inconsistent'')
         | Some canceled \<Rightarrow>
             if validateCycleView canceled (ti_GoalID input) (ti_ActiveCycleID input) \<noteq> None \<or>
                cv_Status canceled \<noteq> StatusCanceled \<or> cv_CanceledAt canceled = None \<or>
                cv_CancellationReason canceled = None \<or>
                \<not> time_equal (the (cv_CanceledAt canceled)) (the (gv_TerminalAt goal_view))
             then Some (reviewTransitionInvariant
                      ''termination canceled Cycle response is inconsistent'')
             else
               let wantReason = (if ti_Outcome input = StatusAchieved then CancellationGoalAchieved
                                 else CancellationGoalEnded) in
               if cv_CancellationReason canceled \<noteq> Some wantReason
               then Some (reviewTransitionInvariant ''termination cancellation reason is inconsistent'')
               else None))"

definition validateFreshTerminationResult ::
  "TerminateResult \<Rightarrow> TerminateInput \<Rightarrow> Goal \<Rightarrow> PDCACycle option \<Rightarrow> Version option \<Rightarrow>
   workspace_error option" where
  "validateFreshTerminationResult result input terminated canceled currentVersion =
     or_else (validateTerminationResult result input False)
       (let goal_view = tr_Goal result in
        if go_TerminalAt terminated = None \<or> gv_TerminalAt goal_view = None \<or>
           \<not> time_equal (the (gv_TerminalAt goal_view)) (the (go_TerminalAt terminated)) \<or>
           gv_NextCycleSequenceNumber goal_view \<noteq> go_NextCycleSequenceNumber terminated \<or>
           gvv_VersionNumber (gv_CurrentVersion goal_view) \<noteq> go_CurrentVersionNumber terminated
        then Some (reviewTransitionInvariant ''fresh terminal Goal response is inconsistent'')
        else if (case currentVersion of
                   None \<Rightarrow> False
                 | Some version \<Rightarrow> \<not> goalVersionViewMatchesDomain (gv_CurrentVersion goal_view) version)
        then Some (reviewTransitionInvariant ''Review termination changed the current Goal Version'')
        else (case canceled of
            None \<Rightarrow> None
          | Some c \<Rightarrow>
              (case tr_CanceledCycle result of
                 None \<Rightarrow> Some (reviewTransitionInvariant
                            ''fresh canceled Cycle response is inconsistent'')
               | Some view \<Rightarrow>
                   if \<not> canceledCycleViewMatchesDomain view c
                   then Some (reviewTransitionInvariant
                            ''fresh canceled Cycle response is inconsistent'')
                   else if \<not> goalVersionViewsEqual (gv_CurrentVersion goal_view) (cv_GoalVersion view)
                   then Some (reviewTransitionInvariant
                            ''active termination Goal Version is inconsistent'')
                   else None)))"

subsection \<open>Continue Review\<close>

definition classifyLostContinueReviewClaim ::
  "'s ReviewTransitionTx \<Rightarrow> ContinueReviewInput \<Rightarrow> string \<Rightarrow> ('s, 'a) tx" where
  "classifyLostContinueReviewClaim tx input requestHash =
     tx_bind (rt_FindContinueReviewReceipt tx (cri_UserID input) (cri_OperationID input)) (\<lambda>receipt.
     tx_bind (tx_check (validateContinueReviewReceipt receipt input requestHash)) (\<lambda>_.
     if receipt = None
     then tx_fail (reviewTransitionInvariant
            ''continued Cycle claim affected no row without a competing receipt'')
     else tx_fail (reviewTransitionInvariant
            ''matching Continue Review receipt appeared while its Goal lock was held'')))"

definition buildContinueReviewReplay ::
  "'s ReviewTransitionTx \<Rightarrow> ContinueReviewInput \<Rightarrow> ContinueReviewReceipt \<Rightarrow>
   ('s, ContinueReviewResult) tx" where
  "buildContinueReviewReplay tx input receipt =
     tx_bind (tx_map_error (reviewTransitionMaterializationError ''Continue Review replay Goal'')
                (rt_LoadGoalView tx (cri_UserID input) (crv_GoalID receipt))) (\<lambda>goal_view.
     tx_bind (tx_map_error (reviewTransitionMaterializationError ''Continue Review replay Cycle'')
                (rt_LoadCycleView tx (cri_UserID input) (crv_GoalID receipt) (crv_CycleID receipt)))
       (\<lambda>cycle_view.
     if gv_ID goal_view \<noteq> crv_GoalID receipt \<or> validateGoalCurrentWork goal_view \<noteq> None \<or>
        validateCycleView cycle_view (crv_GoalID receipt) (crv_CycleID receipt) \<noteq> None
     then tx_fail (reviewTransitionInvariant ''Continue Review replay resources are inconsistent'')
     else tx_return \<lparr>crr_Goal = goal_view, crr_VersionCreated = crv_VersionCreated receipt,
                     crr_Cycle = cycle_view, crr_Replayed = True\<rparr>))"

definition content_conflict :: "goal_error \<Rightarrow> workspace_error" where
  "content_conflict err = (if err = ErrStateConflict then ErrGoalVersionConflict else goal_failure err)"

text \<open>The writes of \<open>ContinueReview\<close> and the views it returns.\<close>

definition continue_writes ::
  "'s ReviewTransitionTx \<Rightarrow> ContinueReviewInput \<Rightarrow> string \<Rightarrow> Draft \<Rightarrow> string list \<Rightarrow> string list \<Rightarrow>
   ContinueResult \<Rightarrow> ('s, ContinueReviewResult) tx" where
  "continue_writes tx input requestHash draft generationIDs usageIDs continued =
     tx_bind (if co_VersionCreated continued
              then tx_bind (rt_InsertGoalVersion tx (co_Version continued)) (\<lambda>rows.
                   tx_check (requireReviewTransitionRows ''insert continued Goal Version'' rows 1))
              else tx_return ()) (\<lambda>_.
     tx_bind (rt_TryInsertReviewCycleClaim tx (co_Cycle continued)) (\<lambda>rows.
     if rows = 0 then classifyLostContinueReviewClaim tx input requestHash
     else
       tx_bind (tx_check (requireReviewTransitionRows ''claim continued Cycle operation'' rows 1)) (\<lambda>_.
       tx_bind (rt_ContinueGoalCAS tx (co_Goal continued) (cri_ExpectedGoalRevision input)) (\<lambda>rows.
       tx_bind (tx_check (requireReviewTransitionRows ''continue reviewed Goal'' rows 1)) (\<lambda>_.
       tx_bind (rt_AttachDraftGenerations tx (cri_UserID input) (dr_ID draft) generationIDs
                  (cri_GoalID input) (ve_ID (co_Version continued))) (\<lambda>rows.
       tx_bind (tx_check (requireReviewTransitionRows ''attach Review generations'' rows
                  (of_nat (length generationIDs)))) (\<lambda>_.
       tx_bind (rt_AttachUsageToGoal tx (cri_UserID input) usageIDs (cri_GoalID input)) (\<lambda>rows.
       tx_bind (tx_check (requireReviewTransitionRows ''attach Review usage'' rows
                  (of_nat (length usageIDs)))) (\<lambda>_.
       tx_bind (rt_DeleteReviewDraftCAS tx (cri_UserID input) (dr_ID draft)
                  (cri_ExpectedDraftRevision input)) (\<lambda>rows.
       tx_bind (tx_check (requireReviewTransitionRows ''delete continued Review Draft'' rows 1)) (\<lambda>_.
       tx_bind (tx_map_error (reviewTransitionMaterializationError ''continued Goal'')
                  (rt_LoadGoalView tx (cri_UserID input) (cri_GoalID input))) (\<lambda>goal_view.
       tx_bind (tx_map_error (reviewTransitionMaterializationError ''continued Cycle'')
                  (rt_LoadCycleView tx (cri_UserID input) (cri_GoalID input)
                     (cy_ID (co_Cycle continued)))) (\<lambda>cycle_view.
       let result = \<lparr>crr_Goal = goal_view, crr_VersionCreated = co_VersionCreated continued,
             crr_Cycle = cycle_view, crr_Replayed = False\<rparr> in
       tx_bind (tx_check (validateFreshContinueReviewResult result continued
                  (cri_ExpectedGoalRevision input) (the (dr_ReviewCycleID draft)))) (\<lambda>_.
       tx_return result))))))))))))))"

definition continue_locked ::
  "'s ReviewTransitionTx \<Rightarrow> gotime \<Rightarrow> workspace_error + string \<Rightarrow> workspace_error + string \<Rightarrow>
   string \<Rightarrow> ContinueReviewInput \<Rightarrow> Goal \<Rightarrow> ('s, ContinueReviewResult) tx" where
  "continue_locked tx now0 newVersionID newCycleID requestHash input lockedGoal =
     (if go_Status lockedGoal \<noteq> StatusGoalReview then tx_fail ErrGoalReviewNotActive
      else
        tx_bind (tx_map_error (\<lambda>e. if e = ErrNotFound
                   then reviewTransitionInvariant ''Review Draft is missing while Goal is in review''
                   else e) (rt_LockReviewDraft tx (cri_UserID input) (cri_GoalID input))) (\<lambda>draft.
        tx_bind (tx_check (validateLockedReviewDraft draft (cri_UserID input) (cri_GoalID input))) (\<lambda>_.
        if go_Revision lockedGoal \<noteq> cri_ExpectedGoalRevision input then tx_fail ErrGoalRevisionConflict
        else if dr_Revision draft \<noteq> cri_ExpectedDraftRevision input
        then tx_fail ErrReviewRevisionConflict
        else
          tx_bind (rt_LockDraftGenerations tx (cri_UserID input) (dr_ID draft)) (\<lambda>generations.
          tx_bind (tx_lift (validateReviewGenerations generations)) (\<lambda>(generationIDs, running).
          if running then tx_fail ErrAIInProgress
          else
            tx_bind (rt_LockDraftUsages tx (cri_UserID input) generationIDs) (\<lambda>usages.
            tx_bind (tx_check (validateReviewUsages generationIDs usages)) (\<lambda>_.
            tx_bind (tx_map_error missing_version_conflict
                       (rt_LoadCurrentGoalVersion tx (cri_UserID input) (cri_GoalID input)
                          (go_CurrentVersionNumber lockedGoal))) (\<lambda>currentVersion.
            if validateReviewCurrentVersion currentVersion lockedGoal (cri_UserID input)
                 (cri_GoalID input) draft \<noteq> None
            then tx_fail ErrGoalVersionConflict
            else
              tx_bind (tx_lift (err_map content_conflict
                         (ReviewContentChanged lockedGoal currentVersion draft)))
                (\<lambda>(_, _, changed).
              tx_bind (if changed
                       then tx_lift (canonical_id (reviewTransitionInvariant
                         ''ID generator returned a non-canonical Goal Version UUIDv7'') newVersionID)
                       else tx_return (ve_ID currentVersion)) (\<lambda>versionID.
              tx_bind (tx_lift (canonical_id (reviewTransitionInvariant
                         ''ID generator returned a non-canonical Cycle UUIDv7'') newCycleID))
                (\<lambda>cycleID.
              tx_bind (tx_lift (err_map goal_failure
                         (ContinueReview lockedGoal currentVersion draft versionID cycleID
                            (cri_OperationID input) requestHash
                            (truncate_time microsecond (utc now0))))) (\<lambda>continued.
              continue_writes tx input requestHash draft generationIDs (reviewUsageIDs usages)
                continued))))))))))))"

definition uc_ContinueReview ::
  "'s ReviewTransitionTx \<Rightarrow> (string \<Rightarrow> string) \<Rightarrow> gotime \<Rightarrow> workspace_error + string \<Rightarrow>
   workspace_error + string \<Rightarrow> ContinueReviewInput \<Rightarrow> ('s, ContinueReviewResult) tx" where
  "uc_ContinueReview tx sha256 now0 newVersionID newCycleID input =
     (let requestHash = continueReviewRequestHash sha256 input in
      tx_bind (rt_FindContinueReviewReceipt tx (cri_UserID input) (cri_OperationID input)) (\<lambda>receipt0.
      tx_bind (tx_check (validateContinueReviewReceipt receipt0 input requestHash)) (\<lambda>_.
      tx_bind (rt_LockGoal tx (cri_UserID input) (cri_GoalID input)) (\<lambda>lockedGoal.
      if go_UserID lockedGoal \<noteq> cri_UserID input \<or> go_ID lockedGoal \<noteq> cri_GoalID input
      then tx_fail (reviewTransitionInvariant ''locked Goal target does not match Continue Review'')
      else (case receipt0 of
        Some r \<Rightarrow> buildContinueReviewReplay tx input r
      | None \<Rightarrow>
          tx_bind (rt_FindContinueReviewReceipt tx (cri_UserID input) (cri_OperationID input))
            (\<lambda>receipt.
          tx_bind (tx_check (validateContinueReviewReceipt receipt input requestHash)) (\<lambda>_.
          case receipt of
            Some r \<Rightarrow> buildContinueReviewReplay tx input r
          | None \<Rightarrow> continue_locked tx now0 newVersionID newCycleID requestHash input lockedGoal)))))))"

subsection \<open>Termination\<close>

definition buildGoalTerminationReplay ::
  "'s ReviewTransitionTx \<Rightarrow> TerminateInput \<Rightarrow> GoalTerminationReceipt \<Rightarrow> ('s, TerminateResult) tx"
where
  "buildGoalTerminationReplay tx input receipt =
     tx_bind (tx_map_error (reviewTransitionMaterializationError ''termination replay Goal'')
                (rt_LoadGoalView tx (ti_UserID input) (gtr_GoalID receipt))) (\<lambda>goal_view.
     tx_bind (if ti_ExpectedState input = StatusActiveCycle
              then tx_bind (tx_map_error (reviewTransitionMaterializationError
                              ''termination replay canceled Cycle'')
                      (rt_LoadCycleView tx (ti_UserID input) (gtr_GoalID receipt)
                         (ti_ActiveCycleID input))) (\<lambda>canceled. tx_return (Some canceled))
              else tx_return None) (\<lambda>canceled.
     let result = \<lparr>tr_Goal = goal_view, tr_CanceledCycle = canceled, tr_Replayed = True\<rparr> in
     tx_bind (tx_check (validateTerminationResult result input True)) (\<lambda>_. tx_return result)))"

definition terminateActiveCycle ::
  "'s ReviewTransitionTx \<Rightarrow> gotime \<Rightarrow> TerminateInput \<Rightarrow> string \<Rightarrow> Goal \<Rightarrow> ('s, TerminateResult) tx"
where
  "terminateActiveCycle tx now0 input requestHash lockedGoal =
     tx_bind (tx_map_error (\<lambda>e. if e = ErrNotFound \<or> e = ErrCycleNotFound then ErrGoalStateConflict
                              else e)
                (rt_LockCycle tx (ti_UserID input) (ti_GoalID input) (ti_ActiveCycleID input)))
       (\<lambda>current.
     if cy_UserID current \<noteq> ti_UserID input \<or> cy_GoalID current \<noteq> ti_GoalID input \<or>
        cy_ID current \<noteq> ti_ActiveCycleID input
     then tx_fail (reviewTransitionInvariant ''locked active Cycle does not match termination'')
     else if cy_Status current \<noteq> StatusActive then tx_fail ErrGoalStateConflict
     else if go_Revision lockedGoal \<noteq> ti_ExpectedGoalRevision input
     then tx_fail ErrGoalStateConflict
     else if rev_Content (cy_Revisions current) \<noteq> the (ti_ExpectedCycleContentRevision input)
     then tx_fail (CycleFailure ErrRevisionConflict)
     else
       tx_bind (rt_HasRunningGoalGeneration tx (ti_UserID input) (ti_GoalID input)) (\<lambda>running.
       if running then tx_fail ErrAIInProgress
       else
         let now = truncate_time microsecond (utc now0);
             reason = (if ti_Outcome input = StatusAchieved then CancellationGoalAchieved
                       else CancellationGoalEnded) in
         tx_bind (tx_lift (err_map CycleFailure (cycle_Cancel current reason now))) (\<lambda>canceled.
         tx_bind (tx_lift (err_map goal_failure
                    (Terminate lockedGoal (ti_Outcome input) (ti_OperationID input) requestHash now)))
           (\<lambda>terminated.
         tx_bind (rt_CancelCycleCAS tx canceled (the (ti_ExpectedCycleContentRevision input))) (\<lambda>rows.
         tx_bind (tx_check (requireReviewTransitionRows ''cancel active Cycle'' rows 1)) (\<lambda>_.
         tx_bind (rt_TerminateGoalCAS tx terminated (ti_ExpectedGoalRevision input)) (\<lambda>rows.
         tx_bind (tx_check (requireReviewTransitionRows ''terminate active Goal'' rows 1)) (\<lambda>_.
         tx_bind (tx_map_error (reviewTransitionMaterializationError ''terminal Goal'')
                    (rt_LoadGoalView tx (ti_UserID input) (ti_GoalID input))) (\<lambda>goal_view.
         tx_bind (tx_map_error (reviewTransitionMaterializationError ''canceled Cycle'')
                    (rt_LoadCycleView tx (ti_UserID input) (ti_GoalID input) (ti_ActiveCycleID input)))
           (\<lambda>canceledView.
         let result = \<lparr>tr_Goal = goal_view, tr_CanceledCycle = Some canceledView,
               tr_Replayed = False\<rparr> in
         tx_bind (tx_check (validateFreshTerminationResult result input terminated (Some canceled) None))
           (\<lambda>_. tx_return result)))))))))))"

text \<open>The writes of a termination out of a review.\<close>

definition terminate_review_writes ::
  "'s ReviewTransitionTx \<Rightarrow> gotime \<Rightarrow> TerminateInput \<Rightarrow> Draft \<Rightarrow> string list \<Rightarrow> string list \<Rightarrow>
   string list \<Rightarrow> Goal \<Rightarrow> Version \<Rightarrow> ('s, TerminateResult) tx" where
  "terminate_review_writes tx now input draft generationIDs retainedUsageIDs expiredUsageIDs
     terminated currentVersion =
     tx_bind (rt_RedactDraftUsagesCAS tx (ti_UserID input) retainedUsageIDs) (\<lambda>rows.
     tx_bind (tx_check (requireReviewTransitionRows ''redact retained Review usage'' rows
                (of_nat (length retainedUsageIDs)))) (\<lambda>_.
     tx_bind (rt_DeleteExpiredFinalizedDraftUsagesCAS tx (ti_UserID input) expiredUsageIDs now) (\<lambda>rows.
     tx_bind (tx_check (requireReviewTransitionRows ''delete expired Review usage'' rows
                (of_nat (length expiredUsageIDs)))) (\<lambda>_.
     tx_bind (rt_DeleteDraftGenerationsCAS tx (ti_UserID input) (dr_ID draft) generationIDs) (\<lambda>rows.
     tx_bind (tx_check (requireReviewTransitionRows ''delete Review generations'' rows
                (of_nat (length generationIDs)))) (\<lambda>_.
     tx_bind (rt_DeleteReviewDraftCAS tx (ti_UserID input) (dr_ID draft) (dr_Revision draft)) (\<lambda>rows.
     tx_bind (tx_check (requireReviewTransitionRows ''delete terminal Review Draft'' rows 1)) (\<lambda>_.
     tx_bind (rt_TerminateGoalCAS tx terminated (ti_ExpectedGoalRevision input)) (\<lambda>rows.
     tx_bind (tx_check (requireReviewTransitionRows ''terminate reviewed Goal'' rows 1)) (\<lambda>_.
     tx_bind (tx_map_error (reviewTransitionMaterializationError ''terminal Goal'')
                (rt_LoadGoalView tx (ti_UserID input) (ti_GoalID input))) (\<lambda>goal_view.
     let result = \<lparr>tr_Goal = goal_view, tr_CanceledCycle = None, tr_Replayed = False\<rparr> in
     tx_bind (tx_check (validateFreshTerminationResult result input terminated None
                (Some currentVersion))) (\<lambda>_. tx_return result))))))))))))"

definition terminateGoalReview ::
  "'s ReviewTransitionTx \<Rightarrow> gotime \<Rightarrow> TerminateInput \<Rightarrow> string \<Rightarrow> Goal \<Rightarrow> ('s, TerminateResult) tx"
where
  "terminateGoalReview tx now0 input requestHash lockedGoal =
     tx_bind (tx_map_error (\<lambda>e. if e = ErrNotFound
                then reviewTransitionInvariant ''Review Draft is missing during termination'' else e)
                (rt_LockReviewDraft tx (ti_UserID input) (ti_GoalID input))) (\<lambda>draft.
     tx_bind (tx_check (validateLockedReviewDraft draft (ti_UserID input) (ti_GoalID input))) (\<lambda>_.
     if go_Revision lockedGoal \<noteq> ti_ExpectedGoalRevision input then tx_fail ErrGoalStateConflict
     else
       tx_bind (rt_LockDraftGenerations tx (ti_UserID input) (dr_ID draft)) (\<lambda>generations.
       tx_bind (tx_lift (validateReviewGenerations generations)) (\<lambda>(generationIDs, running).
       if running then tx_fail ErrAIInProgress
       else
         tx_bind (rt_LockDraftUsages tx (ti_UserID input) generationIDs) (\<lambda>usages.
         tx_bind (tx_check (validateReviewUsages generationIDs usages)) (\<lambda>_.
         tx_bind (tx_map_error (\<lambda>e. if e = ErrNotFound \<or> e = ErrGoalVersionConflict
                    then reviewTransitionInvariant
                           ''current Goal Version is missing during Review termination''
                    else e)
                    (rt_LoadCurrentGoalVersion tx (ti_UserID input) (ti_GoalID input)
                       (go_CurrentVersionNumber lockedGoal))) (\<lambda>currentVersion.
         if validateReviewCurrentVersion currentVersion lockedGoal (ti_UserID input)
              (ti_GoalID input) draft \<noteq> None
         then tx_fail (reviewTransitionInvariant
                ''Review Draft base does not match current Goal Version'')
         else
           tx_bind (tx_lift (err_map (\<lambda>_. reviewTransitionInvariant
                        ''Review aggregate is inconsistent during termination'')
                      (ReviewDraftDiffersFromVersion lockedGoal currentVersion draft))) (\<lambda>changed.
           if changed \<and> \<not> ti_ConfirmDiscardReviewDraft input then tx_fail ErrDiscardConfirmation
           else
             let now = truncate_time microsecond (utc now0) in
             tx_bind (tx_lift (partitionReviewUsages generationIDs usages now))
               (\<lambda>(retainedUsageIDs, expiredUsageIDs).
             tx_bind (tx_lift (err_map goal_failure
                        (Terminate lockedGoal (ti_Outcome input) (ti_OperationID input)
                           requestHash now))) (\<lambda>terminated.
             terminate_review_writes tx now input draft generationIDs retainedUsageIDs
               expiredUsageIDs terminated currentVersion))))))))))"

definition uc_Terminate ::
  "'s ReviewTransitionTx \<Rightarrow> (string \<Rightarrow> string) \<Rightarrow> gotime \<Rightarrow> TerminateInput \<Rightarrow>
   ('s, TerminateResult) tx" where
  "uc_Terminate tx sha256 now0 input =
     (case validateTerminationInput input of
        Some e \<Rightarrow> tx_fail e
      | None \<Rightarrow>
          let requestHash = terminateRequestHash sha256 input in
          tx_bind (rt_LockUser tx (ti_UserID input)) (\<lambda>_.
          tx_bind (rt_FindGoalTerminationReceipt tx (ti_UserID input) (ti_OperationID input)) (\<lambda>receipt.
          tx_bind (tx_check (validateGoalTerminationReceipt receipt input requestHash)) (\<lambda>_.
          tx_bind (rt_LockGoal tx (ti_UserID input) (ti_GoalID input)) (\<lambda>lockedGoal.
          if go_UserID lockedGoal \<noteq> ti_UserID input \<or> go_ID lockedGoal \<noteq> ti_GoalID input
          then tx_fail (reviewTransitionInvariant ''locked Goal target does not match termination'')
          else (case receipt of
            Some r \<Rightarrow> buildGoalTerminationReplay tx input r
          | None \<Rightarrow>
              if go_Status lockedGoal = StatusAchieved \<or> go_Status lockedGoal = StatusEnded
              then tx_fail ErrGoalAlreadyTerminal
              else if go_Status lockedGoal \<noteq> ti_ExpectedState input then tx_fail ErrGoalStateConflict
              else if go_Status lockedGoal = StatusActiveCycle
              then terminateActiveCycle tx now0 input requestHash lockedGoal
              else if go_Status lockedGoal = StatusGoalReview
              then terminateGoalReview tx now0 input requestHash lockedGoal
              else tx_fail ErrGoalStateConflict))))))"

end
