(* ===== verification/AIContext.thy ===== *)
theory AIContext
  imports Views
begin

section \<open>Selection of the context an AI operation may send\<close>

text \<open>
  Model of \<open>workspace/context_selector.go\<close>, of the provider inputs in \<open>workspace/ai_ports.go\<close>,
  of \<open>infrastructure/aiprovider/tokenizer.go\<close> and of the checks of a selection in
  \<open>workspace/action_ai_use_cases.go\<close>.  The codec that counts the tokens of a text is code of a
  third party and a parameter; the search for the longest prefix that fits is modelled.
\<close>

subsection \<open>Runes back to bytes\<close>

definition encode_rune :: "nat \<Rightarrow> string" where
  "encode_rune r =
     (if r < 0x80 then [char_of r]
      else if r < 0x800 then [char_of (0xC0 + r div 64), char_of (0x80 + r mod 64)]
      else if (0xD800 \<le> r \<and> r \<le> 0xDFFF) \<or> r > 0x10FFFF
      then [CHR 0xEF, CHR 0xBF, CHR 0xBD]
      else if r < 0x10000
      then [char_of (0xE0 + r div 4096), char_of (0x80 + r div 64 mod 64), char_of (0x80 + r mod 64)]
      else [char_of (0xF0 + r div 262144), char_of (0x80 + r div 4096 mod 64),
            char_of (0x80 + r div 64 mod 64), char_of (0x80 + r mod 64)])"

definition string_of_runes :: "nat list \<Rightarrow> string" where
  "string_of_runes rs = concat (map encode_rune rs)"

subsection \<open>The token counter\<close>

record TokenCounter =
  Count :: "string \<Rightarrow> string \<Rightarrow> workspace_error + int"
  Truncate :: "string \<Rightarrow> string \<Rightarrow> int \<Rightarrow> string \<Rightarrow> workspace_error + string"

text \<open>The binary search of \<open>Truncate\<close>: the loop invariant is \<open>low \<le> high\<close>.\<close>

function truncate_search ::
  "(string \<Rightarrow> workspace_error + int) \<Rightarrow> nat list \<Rightarrow> int \<Rightarrow> string \<Rightarrow> nat \<Rightarrow> nat \<Rightarrow> workspace_error + nat"
where
  "truncate_search cnt rs maxTokens marker low high =
     (if low < high then
        let middle = (low + high + 1) div 2 in
        (case cnt (string_of_runes (take middle rs) @ marker) of
           Inl e \<Rightarrow> Inl e
         | Inr candidateCount \<Rightarrow>
             if candidateCount \<le> maxTokens
             then truncate_search cnt rs maxTokens marker middle high
             else truncate_search cnt rs maxTokens marker low (middle - 1))
      else Inr low)"
  by pat_completeness auto
termination
  by (relation "measure (\<lambda>(cnt, rs, m, marker, low, high). high - low)") auto

declare truncate_search.simps [simp del]

definition tokenizer_Truncate ::
  "(string \<Rightarrow> workspace_error + int) \<Rightarrow> string \<Rightarrow> int \<Rightarrow> string \<Rightarrow> workspace_error + string" where
  "tokenizer_Truncate cnt value maxTokens marker =
     (if maxTokens < 0 then Inl (Infrastructure ''token limit cannot be negative'')
      else rbind (cnt value) (\<lambda>count.
        if count \<le> maxTokens then Inr value
        else rbind (cnt marker) (\<lambda>markerCount.
          if markerCount > maxTokens then Inr []
          else rbind (truncate_search cnt (runes value) maxTokens marker 0 (length (runes value)))
                 (\<lambda>low. Inr (string_of_runes (take low (runes value)) @ marker)))))"

definition tokenizer_counter :: "(string \<Rightarrow> workspace_error + int) \<Rightarrow> TokenCounter" where
  "tokenizer_counter cnt =
     \<lparr>Count = (\<lambda>model value. cnt value),
      Truncate = (\<lambda>model value maxTokens marker. tokenizer_Truncate cnt value maxTokens marker)\<rparr>"

lemma truncate_search_bound:
  assumes "low \<le> high"
    "truncate_search cnt rs maxTokens marker low high = Inr k"
    "\<exists>n. cnt (string_of_runes (take low rs) @ marker) = Inr n \<and> n \<le> maxTokens"
  shows "low \<le> k \<and> k \<le> high \<and>
    (\<exists>n. cnt (string_of_runes (take k rs) @ marker) = Inr n \<and> n \<le> maxTokens)"
  using assms
proof (induction cnt rs maxTokens marker low high rule: truncate_search.induct)
  case (1 cnt rs maxTokens marker low high)
  show ?case
  proof (cases "low < high")
    case True
    define middle where "middle = Suc (low + high) div 2"
    then have mid: "middle = (low + high + 1) div 2" and m: "low \<le> middle" "middle \<le> high" "low \<le> middle - 1" "low < middle"
      using True by auto
    obtain n where n: "cnt (string_of_runes (take middle rs) @ marker) = Inr n"
      using 1(4) True
      by (cases "cnt (string_of_runes (take middle rs) @ marker)")
        (auto simp: truncate_search.simps[of _ _ _ _ low high] middle_def[symmetric] Let_def)
    show ?thesis
    proof (cases "n \<le> maxTokens")
      case le: True
      then have "truncate_search cnt rs maxTokens marker middle high = Inr k"
        using 1(4) True n
        by (simp add: truncate_search.simps[of _ _ _ _ low high] middle_def[symmetric] Let_def)
      from 1(1)[OF True mid n le m(2) this] n le m show ?thesis by auto
    next
      case gt: False
      then have "truncate_search cnt rs maxTokens marker low (middle - 1) = Inr k"
        using 1(4) True n
        by (simp add: truncate_search.simps[of _ _ _ _ low high] middle_def[symmetric] Let_def)
      from 1(2)[OF True mid n gt m(3) this 1(5)] m show ?thesis by auto
    qed
  next
    case False
    then show ?thesis using 1 by (auto simp: truncate_search.simps)
  qed
qed

lemma truncate_cases:
  assumes "tokenizer_Truncate cnt value maxTokens marker = Inr out"
  shows "(out = value \<and> (\<exists>n. cnt value = Inr n \<and> n \<le> maxTokens)) \<or> out = [] \<or>
    (\<exists>k count n. k \<le> length (runes value) \<and> out = string_of_runes (take k (runes value)) @ marker \<and>
       cnt value = Inr count \<and> maxTokens < count \<and> cnt out = Inr n \<and> n \<le> maxTokens)"
proof -
  from assms obtain count where c: "cnt value = Inr count" "0 \<le> maxTokens"
    by (auto simp: tokenizer_Truncate_def split: if_splits)
  show ?thesis
  proof (cases "count \<le> maxTokens")
    case True
    then show ?thesis using assms c by (simp add: tokenizer_Truncate_def)
  next
    case False
    with assms c obtain mc where mc: "cnt marker = Inr mc"
      by (auto simp: tokenizer_Truncate_def)
    show ?thesis
    proof (cases "mc > maxTokens")
      case True
      then show ?thesis using assms c False mc by (simp add: tokenizer_Truncate_def)
    next
      case le: False
      with assms c False mc obtain k where k:
        "truncate_search cnt (runes value) maxTokens marker 0 (length (runes value)) = Inr k"
        "out = string_of_runes (take k (runes value)) @ marker"
        by (auto simp: tokenizer_Truncate_def)
      have "\<exists>n. cnt (string_of_runes (take 0 (runes value)) @ marker) = Inr n \<and> n \<le> maxTokens"
        using mc le by (simp add: string_of_runes_def)
      from truncate_search_bound[OF _ k(1) this] k(2) False c(1) show ?thesis by auto
    qed
  qed
qed

text \<open>A truncated text fits: whatever the codec, the text \<open>Truncate\<close> returns is empty or has at
  most the permitted number of tokens, it is the text itself when that fits, and otherwise a
  prefix of its runes with the marker behind it.\<close>

theorem Truncate_fits:
  assumes "tokenizer_Truncate cnt value maxTokens marker = Inr out"
  shows "out = [] \<or>
    ((\<exists>n. cnt out = Inr n \<and> n \<le> maxTokens) \<and>
     (out = value \<or> (\<exists>k \<le> length (runes value). out = string_of_runes (take k (runes value)) @ marker)))"
  using truncate_cases[OF assms] by auto

theorem Truncate_fits_witness:
  "\<exists>n. (Inr (int (length ''hel~'')) :: workspace_error + int) = Inr n \<and> n \<le> 4"
proof -
  have "tokenizer_Truncate (\<lambda>s. Inr (int (length s))) ''hello'' 4 ''~'' = Inr ''hel~''"
    by (simp add: tokenizer_Truncate_def truncate_search.simps runes_ascii string_of_runes_def
        encode_rune_def Let_def char_of_def bit_0 bit_Suc)
  from Truncate_fits[OF this] show ?thesis by auto
qed

definition truncationMarker :: string where
  "truncationMarker =
    [CHR 0xE2, CHR 0x80, CHR 0xA6, CHR 0xEF, CHR 0xBC, CHR 0x88, CHR 0xE5, CHR 0x85, CHR
    0xA5, CHR 0xE5, CHR 0x8A, CHR 0x9B, CHR 0xE3, CHR 0x81, CHR 0xAE, CHR 0xE4, CHR
    0xB8, CHR 0x80, CHR 0xE9, CHR 0x83, CHR 0xA8, CHR 0xE3, CHR 0x82, CHR 0x92, CHR
    0xE7, CHR 0x9C, CHR 0x81, CHR 0xE7, CHR 0x95, CHR 0xA5, CHR 0xEF, CHR 0xBC, CHR 0x89]"

subsection \<open>Settings and inputs of the provider\<close>

record Settings =
  se_MaxProviderAttempts :: int
  se_MaxRetryBackoff :: int
  se_Model :: string
  se_MaxContextCycles :: int
  se_GoalRefineInstructions :: string
  se_ActionGenerateInstructions :: string
  se_ActionRefineInstructions :: string
  se_TokenCounter :: "TokenCounter option"
  se_GoalPromptVersion :: string
  se_GeneratePromptVersion :: string
  se_RefinePromptVersion :: string

record AIInputCycle =
  ic_SequenceNumber :: i32
  ic_Status :: cycle_status
  ic_GoalBody :: string
  ic_Plan :: string
  ic_Do :: string
  ic_Check :: string
  ic_Action :: string

record RefineGoalAIInput =
  rga_Instructions :: string
  rga_GoalBody :: string
  rga_SourceText :: string
  rga_PastCycles :: "AIInputCycle list"
  rga_MaxOutputTokens :: i64

text \<open>\<open>GenerateActionAIInput\<close> and \<open>RefineActionAIInput\<close> have the same fields.\<close>

record ActionAIInput =
  aai_Instructions :: string
  aai_GoalBody :: string
  aai_CurrentCycle :: "AIInputCycle option"
  aai_PastCycles :: "AIInputCycle list"
  aai_MaxOutputTokens :: i64

definition invalidResponseRetryInstruction :: string where
  "invalidResponseRetryInstruction =
     LF # ''The previous response was invalid. Follow the JSON Schema exactly and stay within the stated character limit.''"

definition providerInputTokenOverhead :: int where
  "providerInputTokenOverhead = 32"

definition aiOperationSettings ::
  "Settings \<Rightarrow> operation_type \<Rightarrow> workspace_error + string \<times> string" where
  "aiOperationSettings settings operation =
     (if operation = OperationGoalRefine
      then Inr (se_GoalRefineInstructions settings, se_GoalPromptVersion settings)
      else if operation = OperationActionGenerate
      then Inr (se_ActionGenerateInstructions settings, se_GeneratePromptVersion settings)
      else if operation = OperationActionRefine
      then Inr (se_ActionRefineInstructions settings, se_RefinePromptVersion settings)
      else Inl ErrAIInputBudget)"

definition aiInputCycle :: "AIContextCycle \<Rightarrow> bool \<Rightarrow> AIInputCycle" where
  "aiInputCycle item includeGoalBody =
     \<lparr>ic_SequenceNumber = acc_SequenceNumber item, ic_Status = acc_Status item,
      ic_GoalBody = (if includeGoalBody then acc_GoalBody item else []),
      ic_Plan = acc_Plan item, ic_Do = acc_Do item, ic_Check = acc_Check item,
      ic_Action = acc_Action item\<rparr>"

definition aiInputCurrentCycle :: "AIContextCycle option \<Rightarrow> AIInputCycle option" where
  "aiInputCurrentCycle item = map_option (\<lambda>i. aiInputCycle i False) item"

definition aiInputCycles :: "AIContextCycle list \<Rightarrow> AIInputCycle list" where
  "aiInputCycles items = map (\<lambda>item. aiInputCycle item True) items"

definition refineGoalAIInput :: "Settings \<Rightarrow> AISnapshot \<Rightarrow> RefineGoalAIInput" where
  "refineGoalAIInput settings snapshot =
     \<lparr>rga_Instructions = se_GoalRefineInstructions settings, rga_GoalBody = as_GoalBody snapshot,
      rga_SourceText = as_SourceText snapshot, rga_PastCycles = aiInputCycles (as_PastCycles snapshot),
      rga_MaxOutputTokens = as_MaxOutputTokens snapshot\<rparr>"

definition generateActionAIInput :: "Settings \<Rightarrow> AISnapshot \<Rightarrow> ActionAIInput" where
  "generateActionAIInput settings snapshot =
     \<lparr>aai_Instructions = se_ActionGenerateInstructions settings, aai_GoalBody = as_GoalBody snapshot,
      aai_CurrentCycle = aiInputCurrentCycle (as_CurrentCycle snapshot),
      aai_PastCycles = aiInputCycles (as_PastCycles snapshot),
      aai_MaxOutputTokens = as_MaxOutputTokens snapshot\<rparr>"

definition refineActionAIInput :: "Settings \<Rightarrow> AISnapshot \<Rightarrow> ActionAIInput" where
  "refineActionAIInput settings snapshot =
     \<lparr>aai_Instructions = se_ActionRefineInstructions settings, aai_GoalBody = as_GoalBody snapshot,
      aai_CurrentCycle = aiInputCurrentCycle (as_CurrentCycle snapshot),
      aai_PastCycles = aiInputCycles (as_PastCycles snapshot),
      aai_MaxOutputTokens = as_MaxOutputTokens snapshot\<rparr>"

definition json_cycle :: "AIInputCycle \<Rightarrow> json_value" where
  "json_cycle item = JObject
     [(''sequenceNumber'', JInt (sint (ic_SequenceNumber item))), (''status'', JString (ic_Status item)),
      (''goalBody'', JString (ic_GoalBody item)), (''plan'', JString (ic_Plan item)),
      (''do'', JString (ic_Do item)), (''check'', JString (ic_Check item)),
      (''action'', JString (ic_Action item))]"

definition json_action_input :: "ActionAIInput \<Rightarrow> string" where
  "json_action_input input = json_marshal
     [(''goalBody'', JString (aai_GoalBody input)),
      (''currentCycle'', case aai_CurrentCycle input of None \<Rightarrow> JNull | Some item \<Rightarrow> json_cycle item),
      (''pastCycles'', JArray (map json_cycle (aai_PastCycles input)))]"

definition providerLogicalInputJSON :: "Settings \<Rightarrow> AISnapshot \<Rightarrow> workspace_error + string" where
  "providerLogicalInputJSON settings snapshot =
     (if as_Operation snapshot = OperationGoalRefine
      then let input = refineGoalAIInput settings snapshot in
        Inr (json_marshal
          [(''goalBody'', JString (rga_GoalBody input)), (''sourceText'', JString (rga_SourceText input)),
           (''pastCycles'', JArray (map json_cycle (rga_PastCycles input)))])
      else if as_Operation snapshot = OperationActionGenerate
      then Inr (json_action_input (generateActionAIInput settings snapshot))
      else if as_Operation snapshot = OperationActionRefine
      then Inr (json_action_input (refineActionAIInput settings snapshot))
      else Inl ErrAIInputBudget)"

text \<open>Without a token counter the selection stops before anything is counted.\<close>

definition countProviderInput :: "Settings \<Rightarrow> TokenCounter \<Rightarrow> AISnapshot \<Rightarrow> workspace_error + int" where
  "countProviderInput settings counter snapshot =
     rbind (providerLogicalInputJSON settings snapshot) (\<lambda>encoded.
     rbind (aiOperationSettings settings (as_Operation snapshot)) (\<lambda>(instructions0, promptVersion).
       let instructions = (if se_MaxProviderAttempts settings > 1
                           then instructions0 @ invalidResponseRetryInstruction
                           else instructions0) in
       rbind (Count counter (se_Model settings) instructions) (\<lambda>instructionTokens.
       rbind (Count counter (se_Model settings) encoded) (\<lambda>inputTokens.
         Inr (instructionTokens + inputTokens + providerInputTokenOverhead)))))"

subsection \<open>Fields of the current input\<close>

text \<open>Reading or writing a frame when there is no current Cycle dereferences a nil pointer.\<close>

definition nil_dereference :: workspace_error where
  "nil_dereference = Infrastructure ''nil pointer dereference''"

definition contextField :: "AISnapshot \<Rightarrow> string \<Rightarrow> workspace_error + string" where
  "contextField snapshot name =
     (if name = ''goal'' then Inr (as_GoalBody snapshot)
      else if name = ''source'' then Inr (as_SourceText snapshot)
      else if name = ''plan'' \<or> name = ''do'' \<or> name = ''check'' \<or> name = ''action'' then
        (case as_CurrentCycle snapshot of
           None \<Rightarrow> Inl nil_dereference
         | Some current \<Rightarrow>
             Inr (if name = ''plan'' then acc_Plan current
                  else if name = ''do'' then acc_Do current
                  else if name = ''check'' then acc_Check current
                  else acc_Action current))
      else Inr [])"

definition setContextField :: "AISnapshot \<Rightarrow> string \<Rightarrow> string \<Rightarrow> workspace_error + AISnapshot" where
  "setContextField snapshot name value =
     (if name = ''goal'' then Inr (snapshot\<lparr>as_GoalBody := value\<rparr>)
      else if name = ''source'' then Inr (snapshot\<lparr>as_SourceText := value\<rparr>)
      else if name = ''plan'' \<or> name = ''do'' \<or> name = ''check'' \<or> name = ''action'' then
        (case as_CurrentCycle snapshot of
           None \<Rightarrow> Inl nil_dereference
         | Some current \<Rightarrow>
             Inr (snapshot\<lparr>as_CurrentCycle := Some
               (if name = ''plan'' then current\<lparr>acc_Plan := value\<rparr>
                else if name = ''do'' then current\<lparr>acc_Do := value\<rparr>
                else if name = ''check'' then current\<lparr>acc_Check := value\<rparr>
                else current\<lparr>acc_Action := value\<rparr>)\<rparr>))
      else Inr snapshot)"

text \<open>
  The minimal shares are the doubles nearest to the decimals in the code, as a numerator over a
  power of two.
\<close>

record contextFieldSpec =
  cfs_name :: string
  cfs_mantissa :: nat
  cfs_exponent :: nat

definition share_spec :: "string \<Rightarrow> nat \<Rightarrow> nat \<Rightarrow> contextFieldSpec" where
  "share_spec name mantissa exponent =
     \<lparr>cfs_name = name, cfs_mantissa = mantissa, cfs_exponent = exponent\<rparr>"

definition currentFieldSpecs :: "operation_type \<Rightarrow> contextFieldSpec list" where
  "currentFieldSpecs operation =
     (if operation = OperationGoalRefine
      then [share_spec ''source'' 3152519739159347 52, share_spec ''goal'' 5404319552844595 54]
      else if operation = OperationActionGenerate
      then [share_spec ''goal'' 3602879701896397 55, share_spec ''plan'' 3602879701896397 55,
            share_spec ''do'' 3602879701896397 55, share_spec ''check'' 3602879701896397 55]
      else if operation = OperationActionRefine
      then [share_spec ''action'' 3602879701896397 53, share_spec ''goal'' 3602879701896397 54,
            share_spec ''plan'' 149744687610069 50, share_spec ''do'' 149744687610069 50,
            share_spec ''check'' 149744687610069 50]
      else [])"

text \<open>
  \<open>int(float64(available) * share)\<close>: the product is rounded to 53 significant bits, ties to
  even, and then cut to an integer; the counts are far below \<open>2 ^ 53\<close>.
\<close>

fun bit_length :: "nat \<Rightarrow> nat" where
  "bit_length n = (if n = 0 then 0 else Suc (bit_length (n div 2)))"

declare bit_length.simps [simp del]

definition round_half_even :: "nat \<Rightarrow> nat \<Rightarrow> nat" where
  "round_half_even p shift =
     (let q = p div 2 ^ shift; r = p mod 2 ^ shift in
      if 2 * r > 2 ^ shift \<or> (2 * r = 2 ^ shift \<and> odd q) then q + 1 else q)"

definition share_of :: "int \<Rightarrow> contextFieldSpec \<Rightarrow> int" where
  "share_of available spec =
     (let p = nat available * cfs_mantissa spec;
          shift = bit_length p - 53 in
      int (round_half_even p shift * 2 ^ shift div 2 ^ cfs_exponent spec))"

subsection \<open>Truncation of the current input\<close>

definition setContextFields ::
  "AISnapshot \<Rightarrow> (string \<times> string) list \<Rightarrow> workspace_error + AISnapshot" where
  "setContextFields snapshot settings =
     foldl (\<lambda>acc (name, value). rbind acc (\<lambda>s. setContextField s name value)) (Inr snapshot) settings"

fun original_counts ::
  "Settings \<Rightarrow> TokenCounter \<Rightarrow> AISnapshot \<Rightarrow> contextFieldSpec list \<Rightarrow> workspace_error + int list" where
  "original_counts settings counter snapshot [] = Inr []"
| "original_counts settings counter snapshot (spec # specs) =
     rbind (contextField snapshot (cfs_name spec)) (\<lambda>text.
     rbind (Count counter (se_Model settings) text) (\<lambda>count.
     rbind (original_counts settings counter snapshot specs) (\<lambda>rest. Inr (count # rest))))"

text \<open>What is left over is handed out in the order of the fields.\<close>

fun distribute :: "int \<Rightarrow> (int \<times> int) list \<Rightarrow> int list" where
  "distribute remaining [] = []"
| "distribute remaining ((count, allocation) # rest) =
     (let needed = count - allocation in
      if needed \<le> 0 \<or> remaining \<le> 0 then allocation # distribute remaining rest
      else let extra = min needed remaining in
        (allocation + extra) # distribute (remaining - extra) rest)"

fun apply_allocations ::
  "Settings \<Rightarrow> TokenCounter \<Rightarrow> AISnapshot \<Rightarrow> (contextFieldSpec \<times> int) list \<Rightarrow> AISnapshot \<Rightarrow>
   workspace_error + AISnapshot" where
  "apply_allocations settings counter snapshot [] truncated = Inr truncated"
| "apply_allocations settings counter snapshot ((spec, allocation) # rest) truncated =
     rbind (contextField snapshot (cfs_name spec)) (\<lambda>original.
     rbind (Truncate counter (se_Model settings) original allocation truncationMarker) (\<lambda>value.
     rbind (setContextField truncated (cfs_name spec) value) (\<lambda>updated.
       apply_allocations settings counter snapshot rest
         (updated\<lparr>as_CurrentTruncated := as_CurrentTruncated updated \<or> value \<noteq> original\<rparr>))))"

definition apply_truncation ::
  "Settings \<Rightarrow> TokenCounter \<Rightarrow> AISnapshot \<Rightarrow> contextFieldSpec list \<Rightarrow> int list \<Rightarrow> AISnapshot \<Rightarrow>
   workspace_error + AISnapshot" where
  "apply_truncation settings counter snapshot specs allocations truncated =
     apply_allocations settings counter snapshot (zip specs allocations)
       (truncated\<lparr>as_CurrentTruncated := False\<rparr>)"

text \<open>The first of the largest positive allocations.\<close>

fun largest_from :: "nat \<Rightarrow> (nat \<times> int) option \<Rightarrow> int list \<Rightarrow> nat option" where
  "largest_from i best [] = map_option fst best"
| "largest_from i best (allocation # rest) =
     largest_from (Suc i)
       (if allocation > 0 \<and> (case best of None \<Rightarrow> True | Some (_, b) \<Rightarrow> allocation > b)
        then Some (i, allocation) else best) rest"

fun shrink ::
  "nat \<Rightarrow> Settings \<Rightarrow> TokenCounter \<Rightarrow> AISnapshot \<Rightarrow> contextFieldSpec list \<Rightarrow> int \<Rightarrow> int list \<Rightarrow>
   AISnapshot \<Rightarrow> workspace_error + AISnapshot" where
  "shrink 0 settings counter snapshot specs maxInputTokens allocations truncated =
     Inl ErrAIInputBudget"
| "shrink (Suc attempts) settings counter snapshot specs maxInputTokens allocations truncated =
     rbind (countProviderInput settings counter truncated) (\<lambda>count.
       if count \<le> maxInputTokens then Inr truncated
       else let excess = count - maxInputTokens in
         (case largest_from 0 None allocations of
            None \<Rightarrow> Inl ErrAIInputBudget
          | Some largest \<Rightarrow>
              let allocations' =
                    allocations[largest := max 0 (allocations ! largest - max 1 excess)] in
              rbind (apply_truncation settings counter snapshot specs allocations' truncated)
                (\<lambda>truncated'. shrink attempts settings counter snapshot specs maxInputTokens
                   allocations' truncated')))"

definition truncateCurrentInput ::
  "Settings \<Rightarrow> TokenCounter \<Rightarrow> AISnapshot \<Rightarrow> int \<Rightarrow> workspace_error + AISnapshot" where
  "truncateCurrentInput settings counter snapshot maxInputTokens =
     (let specs = currentFieldSpecs (as_Operation snapshot) in
      if specs = [] then Inl ErrAIInputBudget
      else
        rbind (setContextFields (snapshot\<lparr>as_PastCycles := []\<rparr>) (map (\<lambda>s. (cfs_name s, [])) specs))
          (\<lambda>emptied.
        rbind (countProviderInput settings counter emptied) (\<lambda>fixedTokens.
          let available = maxInputTokens - fixedTokens in
          if available \<le> 0 then Inl ErrAIInputBudget
          else
            let shares = map (share_of available) specs in
            rbind (original_counts settings counter snapshot specs) (\<lambda>originalCounts.
              let used = sum_list (map2 min originalCounts shares);
                  allocations = distribute (available - used) (zip originalCounts shares) in
              rbind (apply_truncation settings counter snapshot specs allocations
                       (snapshot\<lparr>as_PastCycles := []\<rparr>)) (\<lambda>truncated.
                shrink 16 settings counter snapshot specs maxInputTokens allocations truncated)))))"

subsection \<open>Selection\<close>

definition assertSameGoalContext :: "AISnapshot \<Rightarrow> workspace_error option" where
  "assertSameGoalContext snapshot =
     (if (case as_CurrentCycle snapshot of
            None \<Rightarrow> False
          | Some current \<Rightarrow> as_GoalID snapshot = [] \<or> acc_GoalID current \<noteq> as_GoalID snapshot)
      then Some ErrAIContextIsolation
      else if list_ex (\<lambda>item. as_GoalID snapshot = [] \<or> acc_GoalID item \<noteq> as_GoalID snapshot)
                (as_PastCycles snapshot)
      then Some ErrAIContextIsolation else None)"

fun add_candidates ::
  "Settings \<Rightarrow> TokenCounter \<Rightarrow> int \<Rightarrow> AISnapshot \<Rightarrow> AIContextCycle list \<Rightarrow> workspace_error + AISnapshot"
where
  "add_candidates settings counter maxInputTokens selected [] = Inr selected"
| "add_candidates settings counter maxInputTokens selected (candidate # candidates) =
     (let withCandidate = selected\<lparr>as_PastCycles := as_PastCycles selected @ [candidate]\<rparr> in
      rbind (countProviderInput settings counter withCandidate) (\<lambda>count.
        if count > maxInputTokens then Inr selected
        else add_candidates settings counter maxInputTokens withCandidate candidates))"

definition max_context_cycles :: "Settings \<Rightarrow> int" where
  "max_context_cycles settings =
     (if se_MaxContextCycles settings \<le> 0 then 10 else se_MaxContextCycles settings)"

text \<open>The selection starts without past Cycles, and without an action that is to be generated.\<close>

definition selection_start :: "AISnapshot \<Rightarrow> AISnapshot" where
  "selection_start snapshot =
     (let base = snapshot\<lparr>as_PastCycles := []\<rparr> in
      case as_CurrentCycle base of
        Some current \<Rightarrow>
          if as_Operation base = OperationActionGenerate
          then base\<lparr>as_CurrentCycle := Some (current\<lparr>acc_Action := []\<rparr>)\<rparr> else base
      | None \<Rightarrow> base)"

definition selectAIContext ::
  "Settings \<Rightarrow> AISnapshot \<Rightarrow> int \<Rightarrow> workspace_error + AISnapshot" where
  "selectAIContext settings snapshot maxInputTokens =
     (case se_TokenCounter settings of
        None \<Rightarrow> Inl ErrAIInputBudget
      | Some counter \<Rightarrow>
          if maxInputTokens \<le> 0 \<or> se_Model settings = [] then Inl ErrAIInputBudget
          else (case assertSameGoalContext snapshot of
            Some e \<Rightarrow> Inl e
          | None \<Rightarrow>
              let candidates = take (nat (max_context_cycles settings)) (as_PastCycles snapshot);
                  selected = selection_start snapshot in
              rbind (countProviderInput settings counter selected) (\<lambda>baseTokens.
              rbind (if baseTokens > maxInputTokens
                     then truncateCurrentInput settings counter selected maxInputTokens
                     else Inr selected) (\<lambda>fitted.
                add_candidates settings counter maxInputTokens fitted candidates))))"

subsection \<open>What a selection keeps\<close>

text \<open>Two snapshots of the same operation on the same target, up to the texts of the current input.\<close>

definition cycle_target :: "AIContextCycle \<Rightarrow> string \<times> string \<times> i32 \<times> cycle_status \<times> string" where
  "cycle_target c = (acc_ID c, acc_GoalID c, acc_SequenceNumber c, acc_Status c, acc_GoalBody c)"

definition same_target :: "AISnapshot \<Rightarrow> AISnapshot \<Rightarrow> bool" where
  "same_target s t \<longleftrightarrow>
     as_GenerationID t = as_GenerationID s \<and> as_Operation t = as_Operation s \<and>
     as_TargetRevision t = as_TargetRevision s \<and>
     as_SourceGoalRevision t = as_SourceGoalRevision s \<and>
     as_MaxOutputTokens t = as_MaxOutputTokens s \<and> as_GoalID t = as_GoalID s \<and>
     map_option cycle_target (as_CurrentCycle t) = map_option cycle_target (as_CurrentCycle s)"

lemma same_target_refl [simp]: "same_target s s"
  by (simp add: same_target_def)

lemma same_target_trans: "same_target s t \<Longrightarrow> same_target t u \<Longrightarrow> same_target s u"
  by (simp add: same_target_def)

lemma same_target_updates [simp]:
  "same_target s (t\<lparr>as_CurrentTruncated := b\<rparr>) \<longleftrightarrow> same_target s t"
  "same_target s (t\<lparr>as_PastCycles := ps\<rparr>) \<longleftrightarrow> same_target s t"
  "same_target (t\<lparr>as_CurrentTruncated := b\<rparr>) s \<longleftrightarrow> same_target t s"
  "same_target (t\<lparr>as_PastCycles := ps\<rparr>) s \<longleftrightarrow> same_target t s"
  by (simp_all add: same_target_def)

lemma setContextField_target:
  assumes "setContextField s name value = Inr t"
  shows "same_target s t \<and> as_PastCycles t = as_PastCycles s"
proof (cases "as_CurrentCycle s")
  case None
  then show ?thesis using assms
    by (auto simp: setContextField_def same_target_def split: if_splits)
next
  case (Some c)
  then show ?thesis using assms
    by (auto simp: setContextField_def same_target_def cycle_target_def split: if_splits)
qed

lemma apply_allocations_target:
  "apply_allocations settings counter snapshot ps truncated = Inr t \<Longrightarrow>
     same_target truncated t \<and> as_PastCycles t = as_PastCycles truncated"
proof (induction ps arbitrary: truncated)
  case (Cons p ps)
  obtain spec a where p: "p = (spec, a)" by fastforce
  from Cons(2) p obtain v u b where "setContextField truncated (cfs_name spec) v = Inr u"
    "apply_allocations settings counter snapshot ps (u\<lparr>as_CurrentTruncated := b\<rparr>) = Inr t"
    by auto
  then show ?case
    using Cons(1)[of "u\<lparr>as_CurrentTruncated := b\<rparr>"] setContextField_target same_target_trans
    by fastforce
qed simp

lemma apply_truncation_target:
  "apply_truncation settings counter snapshot specs allocations truncated = Inr t \<Longrightarrow>
     same_target truncated t \<and> as_PastCycles t = as_PastCycles truncated"
  unfolding apply_truncation_def by (drule apply_allocations_target) simp

lemma shrink_target:
  "shrink n settings counter snapshot specs maxInputTokens allocations truncated = Inr t \<Longrightarrow>
     same_target truncated t \<and> as_PastCycles t = as_PastCycles truncated \<and>
     (\<exists>c. countProviderInput settings counter t = Inr c \<and> c \<le> maxInputTokens)"
proof (induction n arbitrary: allocations truncated)
  case (Suc n)
  from Suc(2) obtain c where c: "countProviderInput settings counter truncated = Inr c" by auto
  show ?case
  proof (cases "c \<le> maxInputTokens")
    case True
    then show ?thesis using Suc(2) c by simp
  next
    case False
    with Suc(2) c obtain a u where u:
      "apply_truncation settings counter snapshot specs a truncated = Inr u"
      "shrink n settings counter snapshot specs maxInputTokens a u = Inr t"
      by (auto simp: Let_def split: option.splits)
    show ?thesis
      using apply_truncation_target[OF u(1)] Suc(1)[OF u(2)] same_target_trans by metis
  qed
qed simp

lemma truncateCurrentInput_target:
  assumes "truncateCurrentInput settings counter snapshot maxInputTokens = Inr t"
  shows "same_target snapshot t \<and> as_PastCycles t = [] \<and>
    (\<exists>c. countProviderInput settings counter t = Inr c \<and> c \<le> maxInputTokens)"
proof -
  define specs where "specs = currentFieldSpecs (as_Operation snapshot)"
  from assms obtain u a where
    "apply_truncation settings counter snapshot specs a (snapshot\<lparr>as_PastCycles := []\<rparr>) = Inr u"
    "shrink 16 settings counter snapshot specs maxInputTokens a u = Inr t"
    unfolding truncateCurrentInput_def specs_def[symmetric]
    by (auto simp: Let_def split: if_splits)
  then show ?thesis
    using apply_truncation_target shrink_target same_target_trans by fastforce
qed

lemma add_candidates_fits:
  assumes "add_candidates settings counter m selected cs = Inr t"
    "\<exists>c. countProviderInput settings counter selected = Inr c \<and> c \<le> m"
  shows "same_target selected t \<and>
    (\<exists>k. as_PastCycles t = as_PastCycles selected @ take k cs) \<and>
    (\<exists>c. countProviderInput settings counter t = Inr c \<and> c \<le> m)"
  using assms
proof (induction cs arbitrary: selected)
  case Nil
  then show ?case by auto
next
  case (Cons candidate cs)
  define w where "w = selected\<lparr>as_PastCycles := as_PastCycles selected @ [candidate]\<rparr>"
  from Cons(2) obtain n where n: "countProviderInput settings counter w = Inr n"
    by (auto simp: Let_def w_def)
  show ?case
  proof (cases "n > m")
    case True
    then have "t = selected" using Cons(2) n by (auto simp: Let_def w_def)
    then show ?thesis using Cons(3) by (auto intro: exI[of _ 0])
  next
    case False
    then have "add_candidates settings counter m w cs = Inr t"
      using Cons(2) n by (auto simp: Let_def w_def)
    from Cons(1)[OF this] n False obtain k where
      "same_target w t" "as_PastCycles t = as_PastCycles w @ take k cs"
      "\<exists>c. countProviderInput settings counter t = Inr c \<and> c \<le> m" by auto
    then show ?thesis by (auto simp: w_def intro!: exI[of _ "Suc k"])
  qed
qed

lemma selection_start_target:
  "same_target snapshot (selection_start snapshot) \<and> as_PastCycles (selection_start snapshot) = []"
  by (auto simp: selection_start_def same_target_def cycle_target_def Let_def split: option.splits)

lemma same_target_isolated:
  assumes "assertSameGoalContext s = None" "same_target s t"
    "set (as_PastCycles t) \<subseteq> set (as_PastCycles s)"
  shows "assertSameGoalContext t = None"
  using assms
  by (cases "as_CurrentCycle s"; cases "as_CurrentCycle t")
    (auto simp: assertSameGoalContext_def same_target_def cycle_target_def list_ex_iff
      split: if_splits)

text \<open>[C10] The context sent to the provider fits and is isolated: a selection that succeeds counts at
  most the permitted input tokens, concerns the same operation, target and current Cycle as the
  snapshot it was made from, takes as past Cycles the first ones of the snapshot up to the
  configured number, and contains no Cycle of another Goal.\<close>

theorem selectAIContext_fits_and_isolates:
  assumes "se_TokenCounter settings = Some counter"
    "selectAIContext settings snapshot maxInputTokens = Inr selected"
  shows "(\<exists>n. countProviderInput settings counter selected = Inr n \<and> n \<le> maxInputTokens) \<and>
    same_target snapshot selected \<and>
    (\<exists>k. as_PastCycles selected = take k (as_PastCycles snapshot)) \<and>
    int (length (as_PastCycles selected)) \<le> max_context_cycles settings \<and>
    assertSameGoalContext selected = None"
proof -
  define start where "start = selection_start snapshot"
  define m where "m = nat (max_context_cycles settings)"
  have start: "same_target snapshot start" "as_PastCycles start = []"
    using selection_start_target unfolding start_def by blast+
  from assms have iso: "assertSameGoalContext snapshot = None"
    by (auto simp: selectAIContext_def split: if_splits option.splits)
  with assms obtain base where base: "countProviderInput settings counter start = Inr base"
    by (cases "countProviderInput settings counter start")
      (auto simp: selectAIContext_def Let_def start_def split: if_splits)
  with assms iso obtain fitted where
    fit: "(if base > maxInputTokens then truncateCurrentInput settings counter start maxInputTokens
           else Inr start) = Inr fitted"
    and add: "add_candidates settings counter maxInputTokens fitted
               (take m (as_PastCycles snapshot)) = Inr selected"
    by (cases "base > maxInputTokens")
      (auto simp: selectAIContext_def Let_def start_def m_def split: if_splits)
  have f: "same_target start fitted \<and> as_PastCycles fitted = [] \<and>
    (\<exists>c. countProviderInput settings counter fitted = Inr c \<and> c \<le> maxInputTokens)"
    using fit base start(2) truncateCurrentInput_target by (cases "base > maxInputTokens") auto
  from add_candidates_fits[OF add] f obtain k where k: "same_target fitted selected"
    "as_PastCycles selected = take (min k m) (as_PastCycles snapshot)"
    "\<exists>c. countProviderInput settings counter selected = Inr c \<and> c \<le> maxInputTokens"
    by (auto simp: take_take)
  have same: "same_target snapshot selected" using start f k(1) same_target_trans by metis
  have "set (as_PastCycles selected) \<subseteq> set (as_PastCycles snapshot)"
    unfolding k(2) by (rule set_take_subset)
  from same_target_isolated[OF iso same this] have "assertSameGoalContext selected = None" .
  moreover have "int (length (as_PastCycles selected)) \<le> max_context_cycles settings"
    unfolding k(2) m_def by (auto simp: max_context_cycles_def min_def)
  ultimately show ?thesis using same k by blast
qed

text \<open>A small deployment: every byte is a token.\<close>

definition sample_counter :: TokenCounter where
  "sample_counter = tokenizer_counter (\<lambda>s. Inr (int (length s)))"

definition sample_settings :: Settings where
  "sample_settings =
     \<lparr>se_MaxProviderAttempts = 2, se_MaxRetryBackoff = 0, se_Model = ''m'', se_MaxContextCycles = 1,
      se_GoalRefineInstructions = ''go'', se_ActionGenerateInstructions = ''go'',
      se_ActionRefineInstructions = ''go'', se_TokenCounter = Some sample_counter,
      se_GoalPromptVersion = ''1'', se_GeneratePromptVersion = ''1'', se_RefinePromptVersion = ''1''\<rparr>"

definition sample_snapshot :: AISnapshot where
  "sample_snapshot =
     \<lparr>as_GenerationID = ''x'', as_Operation = OperationGoalRefine, as_TargetRevision = 0,
      as_SourceGoalRevision = 0, as_CanonicalProviderInputHash = [], as_MaxOutputTokens = 10,
      as_GoalID = ''g'', as_GoalBody = ''b'', as_SourceText = ''s'', as_CurrentCycle = None,
      as_PastCycles = [], as_CurrentTruncated = False, as_ReplayedOutput = None,
      as_ReplayedContextChanged = False, as_ReplayedContentRevision = 0,
      as_ReplayedActionRevision = 0\<rparr>"

theorem selectAIContext_fits_and_isolates_witness:
  "\<exists>selected. selectAIContext sample_settings sample_snapshot 1000 = Inr selected \<and>
     (\<exists>n. countProviderInput sample_settings sample_counter selected = Inr n \<and> n \<le> 1000)"
proof -
  obtain selected where s: "selectAIContext sample_settings sample_snapshot 1000 = Inr selected"
    by (simp add: selectAIContext_def sample_settings_def sample_snapshot_def Let_def
        assertSameGoalContext_def selection_start_def countProviderInput_def
        providerLogicalInputJSON_def aiOperationSettings_def sample_counter_def tokenizer_counter_def
        refineGoalAIInput_def json_marshal_def aiInputCycles_def json_escape.simps(2)
        decode_rune_ascii json_ascii_def invalidResponseRetryInstruction_def
        providerInputTokenOverhead_def)
  have "se_TokenCounter sample_settings = Some sample_counter" by (simp add: sample_settings_def)
  from selectAIContext_fits_and_isolates[OF this s] s show ?thesis by blast
qed

end
