(* ===== verification/PgRows.thy ===== *)
theory PgRows
  imports ReviewTransitions AIContext
begin

section \<open>Rows of the database and their mapping to the domain\<close>

text \<open>
  Model of the row mappings of \<open>backend/internal/infrastructure/postgres\<close>
  (\<open>workspace_cycle_mapping.go\<close>, \<open>workspace_goal_read_mapping.go\<close>, the mappings at the end of
  \<open>workspace_cycle_uow.go\<close> and the Review validation of \<open>workspace_store.go\<close>).

  The value types of the driver are modelled as the code uses them.  A \<open>pgtype.UUID\<close> is the
  text it renders to, \<open>None\<close> when it is not valid (SQL's NULL); a \<open>pgtype.Timestamptz\<close> and a
  \<open>pgtype.Date\<close> carry their value, the infinity modifier and the validity flag; the value of a
  date is its year, month and day.  A nullable text or number is an \<open>option\<close>.
\<close>

datatype infinity_modifier = Finite | PosInfinity | NegInfinity

type_synonym pgUUID = "string option"

record pgTimestamptz =
  tz_Time :: gotime
  tz_InfinityModifier :: infinity_modifier
  tz_Valid :: bool

record pgDate =
  da_Time :: "nat \<times> nat \<times> nat"
  da_InfinityModifier :: infinity_modifier
  da_Valid :: bool

definition uuidString :: "pgUUID \<Rightarrow> string" where
  "uuidString value = (case value of None \<Rightarrow> [] | Some encoded \<Rightarrow> encoded)"

definition nullableUUIDString :: "pgUUID \<Rightarrow> string option" where
  "nullableUUIDString value =
     (case value of None \<Rightarrow> None
      | Some _ \<Rightarrow> (let result = uuidString value in if result = [] then None else Some result))"

definition timestamptz :: "gotime \<Rightarrow> pgTimestamptz" where
  "timestamptz value = \<lparr>tz_Time = utc value, tz_InfinityModifier = Finite, tz_Valid = True\<rparr>"

definition null_Timestamptz :: pgTimestamptz where
  "null_Timestamptz = \<lparr>tz_Time = zero_time, tz_InfinityModifier = Finite, tz_Valid = False\<rparr>"

definition null_Date :: pgDate where
  "null_Date = \<lparr>da_Time = (1, 1, 1), da_InfinityModifier = Finite, da_Valid = False\<rparr>"

definition isFiniteGoalTimestamptz :: "pgTimestamptz \<Rightarrow> bool" where
  "isFiniteGoalTimestamptz value \<longleftrightarrow> tz_Valid value \<and> tz_InfinityModifier value = Finite"

text \<open>
  The Go functions that return a value and a flag return an \<open>option\<close> here: a value the callers
  drop when the flag is false is \<open>None\<close>.
\<close>

definition nullableGoalTimestamptz :: "pgTimestamptz \<Rightarrow> gotime option option" where
  "nullableGoalTimestamptz value =
     (if \<not> tz_Valid value then Some None
      else if tz_InfinityModifier value \<noteq> Finite then None
      else Some (Some (tz_Time value)))"

definition finiteCycleTimestamp :: "pgTimestamptz \<Rightarrow> gotime option" where
  "finiteCycleTimestamp value =
     (if \<not> tz_Valid value \<or> tz_InfinityModifier value \<noteq> Finite then None
      else Some (utc (tz_Time value)))"

definition nullableFiniteCycleTimestamp :: "pgTimestamptz \<Rightarrow> gotime option option" where
  "nullableFiniteCycleTimestamp value =
     (if \<not> tz_Valid value then Some None
      else if tz_InfinityModifier value \<noteq> Finite then None
      else Some (Some (utc (tz_Time value))))"

definition cyclePersistenceError :: "string \<Rightarrow> workspace_error" where
  "cyclePersistenceError message = ErrCyclePersistenceInvariant message"

definition goalTransitionPersistenceError :: "string \<Rightarrow> workspace_error" where
  "goalTransitionPersistenceError detail = ErrGoalPersistenceInvariant detail"

definition optionalNonEmptyText :: "string \<Rightarrow> string option" where
  "optionalNonEmptyText value = (if value = [] then None else Some value)"

subsection \<open>The review schedule\<close>

definition cycleReviewScheduleFromSQLC ::
  "pgDate \<Rightarrow> i64 \<Rightarrow> workspace_error + review_date option \<times> i64" where
  "cycleReviewScheduleFromSQLC value revision =
     (if revision <s 0 then Inl (cyclePersistenceError ''Cycle review schedule revision is invalid'')
      else if \<not> da_Valid value then Inr (None, revision)
      else if da_InfinityModifier value \<noteq> Finite
      then Inl (cyclePersistenceError ''Cycle review date is non-finite'')
      else
        (case da_Time value of (year, month, day) \<Rightarrow>
           let date = time_format_date year month day in
           case ParseReviewDate date of
             Inl _ \<Rightarrow> Inl (cyclePersistenceError ''Cycle review date is invalid'')
           | Inr parsed \<Rightarrow>
               if year < 1 \<or> 9999 < year
               then Inl (cyclePersistenceError ''Cycle review date is invalid'')
               else if revision = 0
               then Inl (cyclePersistenceError ''Cycle review date has no revision'')
               else Inr (Some parsed, revision)))"

definition cycleReviewDateParam :: "review_date option \<Rightarrow> cycle_error + pgDate" where
  "cycleReviewDateParam value =
     (case value of
        None \<Rightarrow> Inr null_Date
      | Some date \<Rightarrow>
          rbind (ParseReviewDate date) (\<lambda>parsed.
            case time_parse_date parsed of
              None \<Rightarrow> Inl ErrInvalidReviewDate
            | Some ymd \<Rightarrow> Inr \<lparr>da_Time = ymd, da_InfinityModifier = Finite, da_Valid = True\<rparr>))"

subsection \<open>Cycles\<close>

definition cycleLifecycleFromSQLC ::
  "string \<Rightarrow> pgTimestamptz \<Rightarrow> pgTimestamptz \<Rightarrow>
   workspace_error + cycle_status \<times> gotime option \<times> gotime option" where
  "cycleLifecycleFromSQLC statusValue completedValue canceledValue =
     (case (nullableFiniteCycleTimestamp completedValue, nullableFiniteCycleTimestamp canceledValue) of
        (Some completedAt, Some canceledAt) \<Rightarrow>
          if statusValue = StatusActive then
            if completedAt \<noteq> None \<or> canceledAt \<noteq> None
            then Inl (cyclePersistenceError ''active Cycle has terminal timestamps'')
            else Inr (statusValue, completedAt, canceledAt)
          else if statusValue = StatusCompleted then
            if completedAt = None \<or> canceledAt \<noteq> None
            then Inl (cyclePersistenceError ''completed Cycle timestamp tuple is invalid'')
            else Inr (statusValue, completedAt, canceledAt)
          else if statusValue = StatusCanceled then
            if completedAt \<noteq> None \<or> canceledAt = None
            then Inl (cyclePersistenceError ''canceled Cycle timestamp tuple is invalid'')
            else Inr (statusValue, completedAt, canceledAt)
          else Inl (cyclePersistenceError ''Cycle status is invalid'')
      | _ \<Rightarrow> Inl (cyclePersistenceError ''Cycle terminal timestamp is non-finite''))"

definition cycleCancellationReasonFromSQLC ::
  "cycle_status \<Rightarrow> string option \<Rightarrow> workspace_error + cancellation_reason option" where
  "cycleCancellationReasonFromSQLC status value =
     (if status \<noteq> StatusCanceled then
        if value \<noteq> None
        then Inl (cyclePersistenceError ''non-canceled Cycle has a cancellation reason'')
        else Inr None
      else case value of
        None \<Rightarrow> Inl (cyclePersistenceError ''canceled Cycle has no cancellation reason'')
      | Some reason \<Rightarrow>
          if \<not> IsValidCancellationReason reason
          then Inl (cyclePersistenceError ''Cycle cancellation reason is invalid'')
          else Inr (Some reason))"

definition cycleGoalVersionViewFromSQLC ::
  "pgUUID \<Rightarrow> i32 option \<Rightarrow> string \<Rightarrow> string \<Rightarrow> pgTimestamptz \<Rightarrow> workspace_error + GoalVersionView" where
  "cycleGoalVersionViewFromSQLC ident versionNumber body successSignal createdValue =
     (let versionID = uuidString ident in
      case (versionNumber, finiteCycleTimestamp createdValue) of
        (Some number, Some createdAt) \<Rightarrow>
          if versionID = [] \<or> sint number \<le> 0 \<or> body = []
          then Inl (cyclePersistenceError ''Cycle Goal Version is missing or invalid'')
          else Inr \<lparr>gvv_ID = versionID, gvv_VersionNumber = number, gvv_Body = body,
                    gvv_SuccessSignal = optionalNonEmptyText successSignal,
                    gvv_CreatedAt = createdAt\<rparr>
      | _ \<Rightarrow> Inl (cyclePersistenceError ''Cycle Goal Version is missing or invalid''))"

text \<open>The columns of \<open>pdca_cycles\<close> the statements read and write.\<close>

record PdcaCycleRow =
  pc_ID :: pgUUID
  pc_UserID :: pgUUID
  pc_GoalID :: pgUUID
  pc_GoalVersionID :: pgUUID
  pc_SequenceNumber :: i32
  pc_Status :: string
  pc_StartedAt :: pgTimestamptz
  pc_CompletedAt :: pgTimestamptz
  pc_CanceledAt :: pgTimestamptz
  pc_CancellationReason :: "string option"
  pc_Plan :: "string option"
  pc_DoText :: "string option"
  pc_CheckText :: "string option"
  pc_Action :: "string option"
  pc_ContentRevision :: i64
  pc_PlanRevision :: i64
  pc_DoRevision :: i64
  pc_CheckRevision :: i64
  pc_ActionRevision :: i64
  pc_ActionLastAiAppliedContentRevision :: "i64 option"
  pc_ActionUserModifiedAfterAi :: bool
  pc_StartOperationID :: pgUUID
  pc_StartRequestHash :: string
  pc_CompletionOperationID :: pgUUID
  pc_CompletionRequestHash :: "string option"
  pc_CreatedAt :: pgTimestamptz
  pc_UpdatedAt :: pgTimestamptz


definition cycleFromSQLC :: "PdcaCycleRow \<Rightarrow> workspace_error + PDCACycle" where
  "cycleFromSQLC row =
     (case (pc_Plan row, pc_DoText row, pc_CheckText row, pc_Action row) of
        (Some plan, Some do_text, Some check_text, Some action) \<Rightarrow>
          let ident = uuidString (pc_ID row); userID = uuidString (pc_UserID row);
              goalID = uuidString (pc_GoalID row); goalVersionID = uuidString (pc_GoalVersionID row);
              startOperationID = uuidString (pc_StartOperationID row) in
          rbind (cycleLifecycleFromSQLC (pc_Status row) (pc_CompletedAt row) (pc_CanceledAt row))
            (\<lambda>(status, completedAt, canceledAt).
          rbind (cycleCancellationReasonFromSQLC status (pc_CancellationReason row)) (\<lambda>cancellationReason.
          case (finiteCycleTimestamp (pc_StartedAt row), finiteCycleTimestamp (pc_CreatedAt row),
                finiteCycleTimestamp (pc_UpdatedAt row)) of
            (Some startedAt, Some createdAt, Some updatedAt) \<Rightarrow>
              if ident = [] \<or> userID = [] \<or> goalID = [] \<or> goalVersionID = [] \<or> startOperationID = [] \<or>
                 pc_StartRequestHash row = [] \<or> sint (pc_SequenceNumber row) \<le> 0 \<or>
                 pc_ContentRevision row <s 0 \<or> pc_PlanRevision row <s 0 \<or> pc_DoRevision row <s 0 \<or>
                 pc_CheckRevision row <s 0 \<or> pc_ActionRevision row <s 0
              then Inl (cyclePersistenceError ''locked Cycle required state is missing or invalid'')
              else if (case pc_ActionLastAiAppliedContentRevision row of
                         None \<Rightarrow> False
                       | Some r \<Rightarrow> r \<le>s 0 \<or> pc_ContentRevision row <s r)
              then Inl (cyclePersistenceError ''locked Cycle AI revision is invalid'')
              else
                rbind (if status = StatusCompleted then
                         (let operationID = uuidString (pc_CompletionOperationID row) in
                          case pc_CompletionRequestHash row of
                            None \<Rightarrow> Inl (cyclePersistenceError
                                            ''completed Cycle operation metadata is incomplete'')
                          | Some requestHash \<Rightarrow>
                              if operationID = [] \<or> requestHash = []
                              then Inl (cyclePersistenceError
                                          ''completed Cycle operation metadata is incomplete'')
                              else Inr (Some operationID, Some requestHash))
                       else if pc_CompletionOperationID row \<noteq> None \<or> pc_CompletionRequestHash row \<noteq> None
                       then Inl (cyclePersistenceError ''non-completed Cycle has completion metadata'')
                       else Inr (None, None))
                  (\<lambda>(completionOperationID, completionRequestHash).
                Inr \<lparr>cy_ID = ident, cy_UserID = userID, cy_GoalID = goalID,
                     cy_GoalVersionID = goalVersionID, cy_SequenceNumber = pc_SequenceNumber row,
                     cy_Status = status, cy_StartedAt = startedAt, cy_CompletedAt = completedAt,
                     cy_CanceledAt = canceledAt, cy_CancellationReason = cancellationReason,
                     cy_Plan = plan, cy_Do = do_text, cy_Check = check_text, cy_Action = action,
                     cy_Revisions = \<lparr>rev_Content = pc_ContentRevision row, rev_Plan = pc_PlanRevision row,
                       rev_Do = pc_DoRevision row, rev_Check = pc_CheckRevision row,
                       rev_Action = pc_ActionRevision row\<rparr>,
                     cy_ReviewDate = None, cy_ReviewScheduleRevision = 0,
                     cy_ActionLastAIRevision = pc_ActionLastAiAppliedContentRevision row,
                     cy_ActionModifiedAfterAI = pc_ActionUserModifiedAfterAi row,
                     cy_StartOperationID = startOperationID, cy_StartRequestHash = pc_StartRequestHash row,
                     cy_CompletionOperationID = completionOperationID,
                     cy_CompletionRequestHash = completionRequestHash,
                     cy_CreatedAt = createdAt, cy_UpdatedAt = updatedAt\<rparr>)
          | _ \<Rightarrow> Inl (cyclePersistenceError ''locked Cycle required state is missing or invalid'')))
      | _ \<Rightarrow> Inl (cyclePersistenceError ''locked Cycle content is missing''))"

subsection \<open>Views of a Cycle\<close>

record ListCycleSummariesRow =
  ls_CycleID :: pgUUID
  ls_SequenceNumber :: i32
  ls_Status :: string
  ls_StartedAt :: pgTimestamptz
  ls_CompletedAt :: pgTimestamptz
  ls_CanceledAt :: pgTimestamptz
  ls_CancellationReason :: "string option"
  ls_GoalVersionID :: pgUUID
  ls_GoalVersionNumber :: "i32 option"
  ls_GoalVersionBody :: string
  ls_GoalVersionSuccessSignal :: string
  ls_GoalVersionCreatedAt :: pgTimestamptz
  ls_PlanPreview :: string
  ls_CheckPreview :: string
  ls_CheckPreviewTruncated :: bool
  ls_ActionPreview :: string
  ls_ActionPreviewTruncated :: bool

definition cycleLearningPreviewFromSQLC ::
  "cycle_status \<Rightarrow> string \<Rightarrow> bool \<Rightarrow> string \<Rightarrow> bool \<Rightarrow> workspace_error + CycleLearningPreview option" where
  "cycleLearningPreviewFromSQLC status check checkTruncated action actionTruncated =
     (let terminal = status = StatusCompleted \<or> status = StatusCanceled in
      if \<not> terminal then
        if check \<noteq> [] \<or> checkTruncated \<or> action \<noteq> [] \<or> actionTruncated
        then Inl (cyclePersistenceError ''active Cycle has terminal learning preview columns'')
        else Inr None
      else Inr (Some \<lparr>clp_Check = \<lparr>cfp_Text = check, cfp_Truncated = checkTruncated\<rparr>,
                      clp_Action = \<lparr>cfp_Text = action, cfp_Truncated = actionTruncated\<rparr>\<rparr>))"

definition cycleSummaryFromReadRow :: "ListCycleSummariesRow \<Rightarrow> workspace_error + CycleSummary" where
  "cycleSummaryFromReadRow row =
     (let cycleID = uuidString (ls_CycleID row) in
      rbind (cycleLifecycleFromSQLC (ls_Status row) (ls_CompletedAt row) (ls_CanceledAt row))
        (\<lambda>(status, completedAt, canceledAt).
      rbind (cycleCancellationReasonFromSQLC status (ls_CancellationReason row)) (\<lambda>cancellationReason.
      rbind (cycleGoalVersionViewFromSQLC (ls_GoalVersionID row) (ls_GoalVersionNumber row)
               (ls_GoalVersionBody row) (ls_GoalVersionSuccessSignal row)
               (ls_GoalVersionCreatedAt row)) (\<lambda>version.
      rbind (cycleLearningPreviewFromSQLC status (ls_CheckPreview row) (ls_CheckPreviewTruncated row)
               (ls_ActionPreview row) (ls_ActionPreviewTruncated row)) (\<lambda>learningPreview.
      case finiteCycleTimestamp (ls_StartedAt row) of
        None \<Rightarrow> Inl (cyclePersistenceError ''Cycle summary identity or start timestamp is invalid'')
      | Some startedAt \<Rightarrow>
          if cycleID = [] \<or> sint (ls_SequenceNumber row) \<le> 0
          then Inl (cyclePersistenceError ''Cycle summary identity or start timestamp is invalid'')
          else Inr \<lparr>cs_ID = cycleID, cs_SequenceNumber = ls_SequenceNumber row, cs_Status = status,
                    cs_StartedAt = startedAt, cs_CompletedAt = completedAt, cs_CanceledAt = canceledAt,
                    cs_CancellationReason = cancellationReason, cs_GoalVersion = version,
                    cs_PlanPreview = ls_PlanPreview row, cs_LearningPreview = learningPreview\<rparr>)))))"

record GetCycleViewRow =
  gcv_CycleID :: pgUUID
  gcv_GoalID :: pgUUID
  gcv_SequenceNumber :: i32
  gcv_Status :: string
  gcv_StartedAt :: pgTimestamptz
  gcv_CompletedAt :: pgTimestamptz
  gcv_CanceledAt :: pgTimestamptz
  gcv_CancellationReason :: "string option"
  gcv_Plan :: string
  gcv_DoText :: string
  gcv_CheckText :: string
  gcv_Action :: string
  gcv_ContentRevision :: i64
  gcv_PlanRevision :: i64
  gcv_DoRevision :: i64
  gcv_CheckRevision :: i64
  gcv_ActionRevision :: i64
  gcv_ReviewDate :: pgDate
  gcv_ReviewScheduleRevision :: i64
  gcv_GoalVersionID :: pgUUID
  gcv_GoalVersionNumber :: "i32 option"
  gcv_GoalVersionBody :: string
  gcv_GoalVersionSuccessSignal :: string
  gcv_GoalVersionCreatedAt :: pgTimestamptz
  gcv_PreviousCycleID :: pgUUID
  gcv_PreviousCycleSequenceNumber :: "i32 option"
  gcv_PreviousCycleStatus :: "string option"
  gcv_PreviousCycleCancellationReason :: "string option"
  gcv_PreviousCycleAction :: string
  gcv_PreviousGoalVersionNumber :: "i32 option"


definition previousCompletedCycleActionFromSQLC ::
  "GetCycleViewRow \<Rightarrow> cycle_status \<Rightarrow>
   workspace_error + PreviousCompletedCycleActionView option \<times> CyclePredecessorView option" where
  "previousCompletedCycleActionFromSQLC row status =
     (if status \<noteq> StatusActive then Inr (None, None)
      else if gcv_SequenceNumber row = 1 then
        if gcv_PreviousCycleID row \<noteq> None \<or> gcv_PreviousCycleSequenceNumber row \<noteq> None \<or>
           gcv_PreviousCycleStatus row \<noteq> None \<or> gcv_PreviousCycleCancellationReason row \<noteq> None \<or>
           gcv_PreviousCycleAction row \<noteq> [] \<or> gcv_PreviousGoalVersionNumber row \<noteq> None
        then Inl (cyclePersistenceError ''first Cycle unexpectedly has a predecessor'')
        else Inr (None, None)
      else
        (let cycleID = uuidString (gcv_PreviousCycleID row) in
         case (gcv_PreviousCycleSequenceNumber row, gcv_PreviousCycleStatus row,
               gcv_PreviousGoalVersionNumber row) of
           (Some previousSequence, Some previousStatus, Some previousVersion) \<Rightarrow>
             if cycleID = [] \<or> cycleID = uuidString (gcv_CycleID row)
             then Inl (cyclePersistenceError ''active Cycle predecessor is missing or incomplete'')
             else if previousSequence \<noteq> gcv_SequenceNumber row - 1
             then Inl (cyclePersistenceError ''active Cycle predecessor sequence is inconsistent'')
             else
               (case gcv_GoalVersionNumber row of
                  None \<Rightarrow> Inl (cyclePersistenceError ''active Cycle predecessor Goal Version is invalid'')
                | Some currentVersion \<Rightarrow>
                    if sint previousVersion \<le> 0 \<or> currentVersion <s previousVersion \<or>
                       previousVersion <s currentVersion - 1
                    then Inl (cyclePersistenceError ''active Cycle predecessor Goal Version is invalid'')
                    else
                      rbind (cycleCancellationReasonFromSQLC previousStatus
                               (gcv_PreviousCycleCancellationReason row)) (\<lambda>previousReason.
                      let predecessor = \<lparr>cpv_CycleID = cycleID,
                            cpv_CycleSequenceNumber = previousSequence, cpv_Status = previousStatus,
                            cpv_CancellationReason = previousReason,
                            cpv_GoalVersionNumber = previousVersion\<rparr> in
                      if previousStatus = StatusCompleted then
                        if IsBlank (gcv_PreviousCycleAction row) \<or>
                           MaxFrameCodePoints < rune_count (gcv_PreviousCycleAction row)
                        then Inl (cyclePersistenceError ''active Cycle predecessor Action is blank'')
                        else Inr (Some \<lparr>pca_CycleID = cycleID, pca_CycleSequenceNumber = previousSequence,
                                       pca_GoalVersionNumber = previousVersion,
                                       pca_Action = gcv_PreviousCycleAction row\<rparr>,
                                  Some predecessor)
                      else if previousStatus = StatusCanceled then
                        if previousReason \<noteq> Some CancellationReplanned \<or>
                           previousVersion \<noteq> currentVersion
                        then Inl (cyclePersistenceError
                                    ''active Cycle predecessor is not a valid replanned Cycle'')
                        else Inr (None, Some predecessor)
                      else Inl (cyclePersistenceError ''active Cycle predecessor status is invalid'')))
         | _ \<Rightarrow> Inl (cyclePersistenceError ''active Cycle predecessor is missing or incomplete'')))"

definition cycleViewFromReadRow :: "GetCycleViewRow \<Rightarrow> workspace_error + CycleView" where
  "cycleViewFromReadRow row =
     (let cycleID = uuidString (gcv_CycleID row); goalID = uuidString (gcv_GoalID row) in
      rbind (cycleLifecycleFromSQLC (gcv_Status row) (gcv_CompletedAt row) (gcv_CanceledAt row))
        (\<lambda>(status, completedAt, canceledAt).
      rbind (cycleCancellationReasonFromSQLC status (gcv_CancellationReason row)) (\<lambda>cancellationReason.
      rbind (cycleGoalVersionViewFromSQLC (gcv_GoalVersionID row) (gcv_GoalVersionNumber row)
               (gcv_GoalVersionBody row) (gcv_GoalVersionSuccessSignal row)
               (gcv_GoalVersionCreatedAt row)) (\<lambda>version.
      case finiteCycleTimestamp (gcv_StartedAt row) of
        None \<Rightarrow> Inl (cyclePersistenceError
                  ''Cycle view identity, start timestamp, or revision is invalid'')
      | Some startedAt \<Rightarrow>
          if cycleID = [] \<or> goalID = [] \<or> sint (gcv_SequenceNumber row) \<le> 0 \<or>
             gcv_ContentRevision row <s 0 \<or> gcv_PlanRevision row <s 0 \<or> gcv_DoRevision row <s 0 \<or>
             gcv_CheckRevision row <s 0 \<or> gcv_ActionRevision row <s 0
          then Inl (cyclePersistenceError
                      ''Cycle view identity, start timestamp, or revision is invalid'')
          else
            rbind (previousCompletedCycleActionFromSQLC row status) (\<lambda>(previousAction, predecessor).
            rbind (cycleReviewScheduleFromSQLC (gcv_ReviewDate row) (gcv_ReviewScheduleRevision row))
              (\<lambda>(reviewDate, reviewScheduleRevision).
            Inr \<lparr>cv_ID = cycleID, cv_GoalID = goalID, cv_SequenceNumber = gcv_SequenceNumber row,
                 cv_Status = status, cv_GoalVersion = version,
                 cv_PreviousCompletedCycleAction = previousAction, cv_StartedAt = startedAt,
                 cv_CompletedAt = completedAt, cv_CanceledAt = canceledAt,
                 cv_CancellationReason = cancellationReason,
                 cv_Plan = gcv_Plan row, cv_Do = gcv_DoText row, cv_Check = gcv_CheckText row,
                 cv_Action = gcv_Action row, cv_ContentRevision = gcv_ContentRevision row,
                 cv_FrameRevisions = \<lparr>fr_Plan = gcv_PlanRevision row, fr_Do = gcv_DoRevision row,
                   fr_Check = gcv_CheckRevision row, fr_Action = gcv_ActionRevision row\<rparr>,
                 cv_ReviewDate = reviewDate, cv_ReviewScheduleRevision = reviewScheduleRevision,
                 cv_Predecessor = predecessor\<rparr>))))))"

text \<open>The ellipsis is the character U+2026.\<close>

definition cycleSummaryPreview :: "string \<Rightarrow> bool \<Rightarrow> string \<times> bool" where
  "cycleSummaryPreview v ellipsis =
     (let rs = runes v; maximum = CycleSummaryPreviewMaxCodePoints in
      if length rs \<le> maximum then (v, False)
      else if ellipsis
      then (string_of_runes (take (maximum - 1) rs) @ encode_rune 0x2026, True)
      else (string_of_runes (take maximum rs), True))"

subsection \<open>Receipts and identifiers\<close>

definition completeCycleReceiptFromSQLC ::
  "pgUUID \<Rightarrow> pgUUID \<Rightarrow> string option \<Rightarrow> workspace_error + CompleteCycleReceipt" where
  "completeCycleReceiptFromSQLC goal_id cycle_id request_hash =
     (let goalID = uuidString goal_id; cycleID = uuidString cycle_id in
      case request_hash of
        None \<Rightarrow> Inl (cyclePersistenceError ''Complete Cycle receipt is incomplete'')
      | Some requestHash \<Rightarrow>
          if goalID = [] \<or> cycleID = [] \<or> requestHash = []
          then Inl (cyclePersistenceError ''Complete Cycle receipt is incomplete'')
          else Inr \<lparr>crc_GoalID = goalID, crc_CycleID = cycleID, crc_RequestHash = requestHash\<rparr>)"

definition replanCycleReceiptFromSQLC ::
  "pgUUID \<Rightarrow> pgUUID \<Rightarrow> string \<Rightarrow> pgUUID \<Rightarrow> string option \<Rightarrow> workspace_error + ReplanCycleReceipt" where
  "replanCycleReceiptFromSQLC goal_id cycle_id request_hash replanned_cycle_id replanned_reason =
     (let goalID = uuidString goal_id; cycleID = uuidString cycle_id in
      if goalID = [] \<or> cycleID = [] \<or> request_hash = []
      then Inl (cyclePersistenceError ''Replan Cycle receipt identity is invalid'')
      else Inr \<lparr>rrc_GoalID = goalID, rrc_CycleID = cycleID, rrc_RequestHash = request_hash,
                rrc_ReplannedCycleID = uuidString replanned_cycle_id,
                rrc_ReplannedCancellationReason = replanned_reason\<rparr>)"

definition cycleIDsFromSQLC :: "pgUUID list \<Rightarrow> workspace_error + string list" where
  "cycleIDsFromSQLC rows =
     foldr (\<lambda>row rest.
       let ident = uuidString row in
       if ident = [] then Inl (cyclePersistenceError ''locked Cycle identity is invalid'')
       else rbind rest (\<lambda>ids. Inr (ident # ids))) rows (Inr [])"

definition continueReviewReceiptFromSQLC ::
  "pgUUID \<Rightarrow> pgUUID \<Rightarrow> string \<Rightarrow> bool \<Rightarrow> workspace_error + ContinueReviewReceipt" where
  "continueReviewReceiptFromSQLC goal_id cycle_id request_hash version_created =
     (let goalID = uuidString goal_id; cycleID = uuidString cycle_id in
      if goalID = [] \<or> cycleID = [] \<or> request_hash = []
      then Inl (cyclePersistenceError ''Continue Review receipt is incomplete'')
      else Inr \<lparr>crv_GoalID = goalID, crv_CycleID = cycleID, crv_RequestHash = request_hash,
                crv_VersionCreated = version_created\<rparr>)"

record ListAIContextCyclesRow =
  lac_CycleID :: pgUUID
  lac_GoalID :: pgUUID
  lac_SequenceNumber :: i32
  lac_Status :: string
  lac_GoalBody :: string
  lac_Plan :: string
  lac_DoText :: string
  lac_CheckText :: string
  lac_Action :: string

definition aiContextCycleFromSQLC :: "ListAIContextCyclesRow \<Rightarrow> workspace_error + AIContextCycle" where
  "aiContextCycleFromSQLC row =
     (let cycleID = uuidString (lac_CycleID row); goalID = uuidString (lac_GoalID row);
          status = lac_Status row in
      if cycleID = [] \<or> goalID = [] \<or> sint (lac_SequenceNumber row) \<le> 0 \<or> lac_GoalBody row = [] \<or>
         (status \<noteq> StatusCompleted \<and> status \<noteq> StatusCanceled)
      then Inl (cyclePersistenceError ''AI context Cycle state is invalid'')
      else Inr \<lparr>acc_ID = cycleID, acc_GoalID = goalID, acc_SequenceNumber = lac_SequenceNumber row,
                acc_Status = status, acc_GoalBody = lac_GoalBody row, acc_Plan = lac_Plan row,
                acc_Do = lac_DoText row, acc_Check = lac_CheckText row, acc_Action = lac_Action row\<rparr>)"

subsection \<open>Goals, versions and drafts\<close>

record GoalRow =
  gr_ID :: pgUUID
  gr_UserID :: pgUUID
  gr_Status :: string
  gr_CurrentVersionNumber :: i32
  gr_NextCycleSequenceNumber :: i32
  gr_Revision :: i64
  gr_TerminalAt :: pgTimestamptz
  gr_TerminalOperationID :: pgUUID
  gr_TerminalRequestHash :: "string option"
  gr_CreatedAt :: pgTimestamptz
  gr_UpdatedAt :: pgTimestamptz

definition goalFromTransitionRow :: "GoalRow \<Rightarrow> workspace_error + Goal" where
  "goalFromTransitionRow row =
     (if gr_ID row = None \<or> gr_UserID row = None \<or> \<not> isFiniteGoalTimestamptz (gr_CreatedAt row) \<or>
         \<not> isFiniteGoalTimestamptz (gr_UpdatedAt row)
      then Inl (goalTransitionPersistenceError ''required Goal identity or timestamp is missing'')
      else
        let ident = uuidString (gr_ID row); userID = uuidString (gr_UserID row);
            status = gr_Status row;
            result = (\<lambda>terminalAt terminalOperationID.
              \<lparr>go_ID = ident, go_UserID = userID, go_Status = status,
               go_CurrentVersionNumber = gr_CurrentVersionNumber row,
               go_NextCycleSequenceNumber = gr_NextCycleSequenceNumber row,
               go_Revision = gr_Revision row, go_TerminalAt = terminalAt,
               go_TerminalOperationID = terminalOperationID,
               go_TerminalRequestHash = gr_TerminalRequestHash row,
               go_CreatedAt = utc (tz_Time (gr_CreatedAt row)),
               go_UpdatedAt = utc (tz_Time (gr_UpdatedAt row))\<rparr>) in
        if ident = [] \<or> userID = []
        then Inl (goalTransitionPersistenceError ''required Goal identity is invalid'')
        else if status = StatusActiveCycle \<or> status = StatusGoalReview then
          if tz_Valid (gr_TerminalAt row) \<or> gr_TerminalOperationID row \<noteq> None \<or>
             gr_TerminalRequestHash row \<noteq> None
          then Inl (goalTransitionPersistenceError ''progressing Goal has terminal metadata'')
          else Inr (result None None)
        else if status = StatusAchieved \<or> status = StatusEnded then
          if \<not> isFiniteGoalTimestamptz (gr_TerminalAt row) \<or> gr_TerminalOperationID row = None \<or>
             gr_TerminalRequestHash row = None \<or> gr_TerminalRequestHash row = Some []
          then Inl (goalTransitionPersistenceError ''terminal Goal metadata is incomplete'')
          else
            let operationID = uuidString (gr_TerminalOperationID row) in
            if operationID = []
            then Inl (goalTransitionPersistenceError ''terminal Goal operation identity is invalid'')
            else Inr (result (Some (utc (tz_Time (gr_TerminalAt row)))) (Some operationID))
        else Inl (goalTransitionPersistenceError ''Goal status is invalid''))"

text \<open>
  The columns of the version joined to a Goal: those of a missing row are NULL, and its text
  columns are the empty strings of \<open>COALESCE\<close>.
\<close>

record GoalVersionRow =
  gvr_ID :: pgUUID
  gvr_UserID :: pgUUID
  gvr_GoalID :: pgUUID
  gvr_VersionNumber :: "i32 option"
  gvr_Body :: string
  gvr_SuccessSignal :: string
  gvr_CreatedByOperationID :: pgUUID
  gvr_CreatedAt :: pgTimestamptz

definition goalVersionFromTransitionRow :: "GoalVersionRow \<Rightarrow> workspace_error + Version" where
  "goalVersionFromTransitionRow row =
     (case gvr_VersionNumber row of
        None \<Rightarrow> Inl ErrGoalVersionConflict
      | Some number \<Rightarrow>
          if gvr_ID row = None \<or> gvr_UserID row = None \<or> gvr_GoalID row = None \<or> gvr_Body row = [] \<or>
             gvr_CreatedByOperationID row = None \<or> \<not> isFiniteGoalTimestamptz (gvr_CreatedAt row)
          then Inl ErrGoalVersionConflict
          else
            let versionID = uuidString (gvr_ID row); versionUserID = uuidString (gvr_UserID row);
                versionGoalID = uuidString (gvr_GoalID row);
                createdByOperationID = uuidString (gvr_CreatedByOperationID row) in
            if versionID = [] \<or> versionUserID = [] \<or> versionGoalID = [] \<or> createdByOperationID = []
            then Inl ErrGoalVersionConflict
            else Inr \<lparr>ve_ID = versionID, ve_UserID = versionUserID, ve_GoalID = versionGoalID,
                      ve_VersionNumber = number, ve_Body = gvr_Body row,
                      ve_SuccessSignal = optionalNonEmptyText (gvr_SuccessSignal row),
                      ve_CreatedByOperationID = createdByOperationID,
                      ve_CreatedAt = utc (tz_Time (gvr_CreatedAt row))\<rparr>)"

subsection \<open>The view of a Goal\<close>

record goalViewRow =
  gvw_View :: GoalView
  gvw_Category :: "16 word"
  gvw_SortTime :: gotime

record goalViewColumns =
  gc_goalID :: pgUUID
  gc_goalStatus :: string
  gc_goalRevision :: i64
  gc_nextCycleSequenceNumber :: i32
  gc_goalCreatedAt :: pgTimestamptz
  gc_goalTerminalAt :: pgTimestamptz
  gc_currentVersionID :: pgUUID
  gc_currentVersionNumber :: "i32 option"
  gc_currentVersionBody :: string
  gc_currentVersionSuccessSignal :: string
  gc_currentVersionCreatedAt :: pgTimestamptz
  gc_cycleCount :: i32
  gc_activeCycleID :: pgUUID
  gc_activeCycleSequenceNumber :: "i32 option"
  gc_activeCycleReviewDate :: pgDate
  gc_activeCycleReviewRevision :: i64
  gc_reviewDraftID :: pgUUID
  gc_triggerCycleID :: pgUUID
  gc_triggerCycleSequenceNumber :: "i32 option"
  gc_category :: "16 word"
  gc_sortTime :: pgTimestamptz

definition goalPersistenceError :: "string \<Rightarrow> workspace_error" where
  "goalPersistenceError message = ErrGoalPersistenceInvariant message"

text \<open>The current work of the view: the second half of \<open>mapGoalView\<close>.\<close>

definition mapCurrentWork :: "goalViewColumns \<Rightarrow> gotime option \<Rightarrow> workspace_error + CurrentWorkView option" where
  "mapCurrentWork columns terminalAt =
     (let status = gc_goalStatus columns;
          hasActive = gc_activeCycleID columns \<noteq> None \<or> gc_activeCycleSequenceNumber columns \<noteq> None;
          hasReview = gc_reviewDraftID columns \<noteq> None \<or> gc_triggerCycleID columns \<noteq> None \<or>
            gc_triggerCycleSequenceNumber columns \<noteq> None in
      if status = StatusActiveCycle then
        (case (gc_activeCycleID columns, gc_activeCycleSequenceNumber columns) of
           (Some _, Some sequence) \<Rightarrow>
             if terminalAt \<noteq> None \<or> hasReview
             then Inl (goalPersistenceError ''active Goal current work invalid'')
             else
               let cycleID = uuidString (gc_activeCycleID columns) in
               if cycleID = []
               then Inl (goalPersistenceError ''active Goal Cycle identity invalid'')
               else
                 rbind (cycleReviewScheduleFromSQLC (gc_activeCycleReviewDate columns)
                          (gc_activeCycleReviewRevision columns))
                   (\<lambda>(reviewDate, reviewScheduleRevision).
                 Inr (Some \<lparr>cw_Kind = ''active_cycle'', cw_CycleID = cycleID,
                           cw_CycleSequenceNumber = sequence,
                           cw_ReviewSchedule = Some \<lparr>rsv_ReviewDate = reviewDate,
                             rsv_ReviewScheduleRevision = reviewScheduleRevision\<rparr>,
                           cw_ReviewDraftID = [], cw_TriggerCycleID = [],
                           cw_TriggerCycleSequenceNumber = 0\<rparr>))
         | _ \<Rightarrow> Inl (goalPersistenceError ''active Goal current work invalid''))
      else if status = StatusGoalReview then
        (case (gc_reviewDraftID columns, gc_triggerCycleID columns,
               gc_triggerCycleSequenceNumber columns) of
           (Some _, Some _, Some sequence) \<Rightarrow>
             if terminalAt \<noteq> None \<or> hasActive
             then Inl (goalPersistenceError ''review Goal current work invalid'')
             else
               let reviewDraftID = uuidString (gc_reviewDraftID columns);
                   triggerCycleID = uuidString (gc_triggerCycleID columns) in
               if reviewDraftID = [] \<or> triggerCycleID = []
               then Inl (goalPersistenceError ''review Goal current work identity invalid'')
               else if da_Valid (gc_activeCycleReviewDate columns) \<or>
                  gc_activeCycleReviewRevision columns \<noteq> 0
               then Inl (goalPersistenceError ''review Goal exposes an active Cycle schedule'')
               else Inr (Some \<lparr>cw_Kind = ''goal_review'', cw_CycleID = [], cw_CycleSequenceNumber = 0,
                              cw_ReviewSchedule = None, cw_ReviewDraftID = reviewDraftID,
                              cw_TriggerCycleID = triggerCycleID,
                              cw_TriggerCycleSequenceNumber = sequence\<rparr>)
         | _ \<Rightarrow> Inl (goalPersistenceError ''review Goal current work invalid''))
      else if status = StatusAchieved \<or> status = StatusEnded then
        if terminalAt = None \<or> hasActive \<or> hasReview
        then Inl (goalPersistenceError ''terminal Goal state is invalid'')
        else Inr None
      else Inl (goalPersistenceError ''invalid Goal status''))"

definition mapGoalView :: "goalViewColumns \<Rightarrow> workspace_error + goalViewRow" where
  "mapGoalView columns =
     (let goalID = uuidString (gc_goalID columns) in
      if goalID = [] \<or> \<not> isFiniteGoalTimestamptz (gc_goalCreatedAt columns) \<or>
         \<not> isFiniteGoalTimestamptz (gc_sortTime columns)
      then Inl (goalPersistenceError ''Goal identity or timestamps are missing'')
      else
        (case (gc_currentVersionID columns, gc_currentVersionNumber columns) of
           (Some _, Some versionNumber) \<Rightarrow>
             if gc_currentVersionBody columns = [] \<or>
                \<not> isFiniteGoalTimestamptz (gc_currentVersionCreatedAt columns)
             then Inl (goalPersistenceError ''Goal current Version is missing'')
             else
               let currentVersionID = uuidString (gc_currentVersionID columns) in
               if currentVersionID = []
               then Inl (goalPersistenceError ''Goal current Version identity is invalid'')
               else
                 (case nullableGoalTimestamptz (gc_goalTerminalAt columns) of
                    None \<Rightarrow> Inl (goalPersistenceError ''Goal terminal timestamp is not finite'')
                  | Some terminalAt \<Rightarrow>
                      rbind (mapCurrentWork columns terminalAt) (\<lambda>work.
                      Inr \<lparr>gvw_View = \<lparr>gv_ID = goalID, gv_Status = gc_goalStatus columns,
                             gv_Revision = gc_goalRevision columns,
                             gv_CurrentVersion = \<lparr>gvv_ID = currentVersionID,
                               gvv_VersionNumber = versionNumber,
                               gvv_Body = gc_currentVersionBody columns,
                               gvv_SuccessSignal =
                                 optionalNonEmptyText (gc_currentVersionSuccessSignal columns),
                               gvv_CreatedAt = tz_Time (gc_currentVersionCreatedAt columns)\<rparr>,
                             gv_CurrentWork = work,
                             gv_NextCycleSequenceNumber = gc_nextCycleSequenceNumber columns,
                             gv_CycleCount = gc_cycleCount columns,
                             gv_CreatedAt = tz_Time (gc_goalCreatedAt columns),
                             gv_TerminalAt = terminalAt\<rparr>,
                           gvw_Category = gc_category columns,
                           gvw_SortTime = tz_Time (gc_sortTime columns)\<rparr>))
         | _ \<Rightarrow> Inl (goalPersistenceError ''Goal current Version is missing'')))"

subsection \<open>Drafts\<close>

record draftViewColumns =
  dc_id :: pgUUID
  dc_draftType :: string
  dc_goalID :: pgUUID
  dc_baseGoalVersionID :: pgUUID
  dc_reviewCycleID :: pgUUID
  dc_body :: string
  dc_successSignal :: string
  dc_revision :: i64
  dc_updatedAt :: pgTimestamptz

definition mapDraftView :: "draftViewColumns \<Rightarrow> workspace_error + DraftView" where
  "mapDraftView columns =
     (let ident = uuidString (dc_id columns) in
      if ident = [] \<or> \<not> isFiniteGoalTimestamptz (dc_updatedAt columns)
      then Inl (goalPersistenceError ''Draft identity or timestamp is missing'')
      else
        let goalID = nullableUUIDString (dc_goalID columns);
            baseGoalVersionID = nullableUUIDString (dc_baseGoalVersionID columns);
            reviewCycleID = nullableUUIDString (dc_reviewCycleID columns);
            view = \<lparr>dv_ID = ident, dv_DraftType = dc_draftType columns, dv_GoalID = goalID,
              dv_BaseGoalVersionID = baseGoalVersionID, dv_ReviewCycleID = reviewCycleID,
              dv_Body = dc_body columns,
              dv_SuccessSignal = optionalNonEmptyText (dc_successSignal columns),
              dv_Revision = dc_revision columns, dv_UpdatedAt = tz_Time (dc_updatedAt columns),
              dv_Replayed = False\<rparr> in
        if dc_draftType columns = DraftCreation then
          if goalID \<noteq> None \<or> baseGoalVersionID \<noteq> None \<or> reviewCycleID \<noteq> None
          then Inl (goalPersistenceError ''Creation Draft references Goal work'')
          else Inr view
        else if dc_draftType columns = DraftReview then
          if goalID = None \<or> baseGoalVersionID = None \<or> reviewCycleID = None
          then Inl (goalPersistenceError ''Review Draft references are incomplete'')
          else Inr view
        else Inl (goalPersistenceError ''invalid Draft type''))"

definition reviewDraftViewFromTransitionRow :: "draftViewColumns \<Rightarrow> workspace_error + DraftView" where
  "reviewDraftViewFromTransitionRow row =
     (if dc_id row = None \<or> dc_goalID row = None \<or> dc_baseGoalVersionID row = None \<or>
         dc_reviewCycleID row = None \<or> \<not> isFiniteGoalTimestamptz (dc_updatedAt row)
      then Inl (goalTransitionPersistenceError
                  ''Review Draft identity, references, or timestamp is missing'')
      else
        let ident = uuidString (dc_id row); goalID = uuidString (dc_goalID row);
            baseGoalVersionID = uuidString (dc_baseGoalVersionID row);
            reviewCycleID = uuidString (dc_reviewCycleID row) in
        if dc_draftType row \<noteq> DraftReview \<or> ident = [] \<or> goalID = [] \<or> baseGoalVersionID = [] \<or>
           reviewCycleID = []
        then Inl (goalTransitionPersistenceError ''Review Draft tuple is invalid'')
        else Inr \<lparr>dv_ID = ident, dv_DraftType = dc_draftType row, dv_GoalID = Some goalID,
                  dv_BaseGoalVersionID = Some baseGoalVersionID, dv_ReviewCycleID = Some reviewCycleID,
                  dv_Body = dc_body row, dv_SuccessSignal = optionalNonEmptyText (dc_successSignal row),
                  dv_Revision = dc_revision row, dv_UpdatedAt = utc (tz_Time (dc_updatedAt row)),
                  dv_Replayed = False\<rparr>)"

subsection \<open>The view of a review\<close>

record ReviewView =
  rv_Goal :: GoalView
  rv_ReviewDraft :: DraftView
  rv_TriggerCycle :: CycleView

definition optionalGoalTextMatches :: "string option \<Rightarrow> string option \<Rightarrow> bool" where
  "optionalGoalTextMatches left right =
     (case (left, right) of (Some l, Some r) \<Rightarrow> l = r | _ \<Rightarrow> left = None \<and> right = None)"

definition goalVersionViewsMatch :: "GoalVersionView \<Rightarrow> GoalVersionView \<Rightarrow> bool" where
  "goalVersionViewsMatch left right \<longleftrightarrow>
     gvv_ID left = gvv_ID right \<and> gvv_VersionNumber left = gvv_VersionNumber right \<and>
     gvv_Body left = gvv_Body right \<and>
     optionalGoalTextMatches (gvv_SuccessSignal left) (gvv_SuccessSignal right) \<and>
     time_equal (gvv_CreatedAt left) (gvv_CreatedAt right)"

text \<open>Every failure is \<open>ErrGoalReviewInvariant\<close>; the messages it wraps are left out.\<close>

definition validateGoalReviewView :: "string \<Rightarrow> ReviewView \<Rightarrow> workspace_error option" where
  "validateGoalReviewView goalID view =
     (let goal_view = rv_Goal view; draft = rv_ReviewDraft view; trigger = rv_TriggerCycle view in
      if goalID = [] \<or> gv_ID goal_view \<noteq> goalID \<or> gv_Status goal_view \<noteq> StatusGoalReview \<or>
         gv_TerminalAt goal_view \<noteq> None
      then Some ErrGoalReviewInvariant
      else
        (case gv_CurrentWork goal_view of
           None \<Rightarrow> Some ErrGoalReviewInvariant
         | Some work \<Rightarrow>
             if cw_Kind work \<noteq> ''goal_review'' \<or> cw_CycleID work \<noteq> [] \<or>
                cw_CycleSequenceNumber work \<noteq> 0 \<or> cw_ReviewDraftID work = [] \<or>
                cw_TriggerCycleID work = [] \<or> sint (cw_TriggerCycleSequenceNumber work) \<le> 0
             then Some ErrGoalReviewInvariant
             else if dv_ID draft = [] \<or> cw_ReviewDraftID work \<noteq> dv_ID draft \<or> cv_ID trigger = [] \<or>
                cw_TriggerCycleID work \<noteq> cv_ID trigger \<or>
                cw_TriggerCycleSequenceNumber work \<noteq> cv_SequenceNumber trigger
             then Some ErrGoalReviewInvariant
             else if sint (gv_NextCycleSequenceNumber goal_view) \<le> 1 \<or>
                cv_SequenceNumber trigger \<noteq> gv_NextCycleSequenceNumber goal_view - 1
             then Some ErrGoalReviewInvariant
             else if dv_DraftType draft \<noteq> DraftReview \<or> dv_GoalID draft \<noteq> Some (gv_ID goal_view) \<or>
                dv_BaseGoalVersionID draft \<noteq> Some (gvv_ID (gv_CurrentVersion goal_view)) \<or>
                dv_ReviewCycleID draft \<noteq> Some (cv_ID trigger)
             then Some ErrGoalReviewInvariant
             else if gvv_ID (gv_CurrentVersion goal_view) = [] \<or> cv_GoalID trigger \<noteq> gv_ID goal_view \<or>
                cv_Status trigger \<noteq> StatusCompleted \<or> cv_CompletedAt trigger = None \<or>
                cv_CanceledAt trigger \<noteq> None \<or> cv_CancellationReason trigger \<noteq> None \<or>
                \<not> goalVersionViewsMatch (cv_GoalVersion trigger) (gv_CurrentVersion goal_view)
             then Some ErrGoalReviewInvariant
             else None))"

end
