(* ===== verification/CycleStore.thy ===== *)
theory CycleStore
  imports Complex_Main PgRows
begin

section \<open>The PostgreSQL adapter of the Cycle transactions\<close>

text \<open>
  Model of \<open>workspace_cycle_uow.go\<close>, \<open>workspace_cycle_query.go\<close> and \<open>getGoalView\<close> over the
  statements of \<open>queries/cycle_transitions.sql\<close>, \<open>cycle_reads.sql\<close>, \<open>goal_transitions.sql\<close> and
  \<open>goals.sql\<close>.  A table is the list of its rows; an \<open>UPDATE\<close> rewrites the rows its \<open>WHERE\<close>
  clause selects and returns their number, a \<open>LEFT JOIN\<close> on a unique key is a lookup.

  The model is of the durable content mode \<open>legacy\<close>, in which \<open>contentBoundary\<close> writes the text as
  it is, and reads it as it is (the text that looks like a storage marker is wrapped by the
  database and unwrapped by \<open>Decrypt\<close>).  Unique constraints are modelled where a statement's
  outcome depends on them; the CHECK and FOREIGN KEY constraints only reject statements, whose
  transaction then rolls back, and are left out.  The row locks of \<open>FOR UPDATE\<close> have no effect on
  the values read.  Timestamps are stored with the microsecond precision of \<open>timestamptz\<close>.

  \<open>scan\<close> is the parser \<open>pgtype.UUID.Scan\<close> of the driver; \<open>mustUUID\<close> panics where it fails, which
  abandons the transaction like an error.
\<close>

record ReviewScheduleRow =
  sch_CycleID :: pgUUID
  sch_ReviewDate :: pgDate
  sch_ReviewScheduleRevision :: i64

record StoredVersionRow =
  sv_ID :: pgUUID
  sv_UserID :: pgUUID
  sv_GoalID :: pgUUID
  sv_VersionNumber :: i32
  sv_Body :: string
  sv_CreatedByOperationID :: pgUUID
  sv_CreatedAt :: pgTimestamptz

record StoredDraftRow =
  sd_ID :: pgUUID
  sd_UserID :: pgUUID
  sd_DraftType :: string
  sd_GoalID :: pgUUID
  sd_BaseGoalVersionID :: pgUUID
  sd_ReviewCycleID :: pgUUID
  sd_Body :: string
  sd_Revision :: i64
  sd_CreatedAt :: pgTimestamptz
  sd_UpdatedAt :: pgTimestamptz

text \<open>
  The tables of the AI operations.  A \<open>numeric(14, 8)\<close> column is the rational it holds, a \<open>date\<close> column
  of a budget month the midnight the driver renders it to.
\<close>

record GenerationRow =
  ge_ID :: pgUUID
  ge_UserID :: pgUUID
  ge_OperationType :: string
  ge_Status :: string
  ge_SourceGoalDraftID :: pgUUID
  ge_GoalID :: pgUUID
  ge_GoalVersionID :: pgUUID
  ge_CycleID :: pgUUID
  ge_TargetRevision :: i64
  ge_IdempotencyKey :: pgUUID
  ge_IdempotencyRequestHash :: string
  ge_CanonicalProviderInputHash :: string
  ge_SourceText :: "string option"
  ge_Output :: "string option"
  ge_ContextCycleIDs :: "string list"
  ge_Provider :: string
  ge_Model :: string
  ge_PromptVersion :: string
  ge_InputTokens :: "i64 option"
  ge_OutputTokens :: "i64 option"
  ge_EstimatedCostUSD :: "rat option"
  ge_BudgetMonthUtc :: pgTimestamptz
  ge_BudgetReservedCostUSD :: rat
  ge_AttemptCount :: "16 word"
  ge_FailureCode :: "string option"
  ge_ProviderRequestID :: "string option"
  ge_LeaseExpiresAt :: pgTimestamptz
  ge_ContextChanged :: bool
  ge_AdoptedAt :: pgTimestamptz
  ge_AdoptedDraftRevision :: "i64 option"
  ge_AppliedAt :: pgTimestamptz
  ge_StartedAt :: pgTimestamptz
  ge_FinishedAt :: pgTimestamptz

record UsageRow =
  us_OperationID :: pgUUID
  us_UserID :: pgUUID
  us_GoalID :: pgUUID
  us_OperationType :: string
  us_Status :: string
  us_Provider :: string
  us_Model :: string
  us_PromptVersion :: string
  us_AcceptedAt :: pgTimestamptz
  us_InputTokens :: "i64 option"
  us_OutputTokens :: "i64 option"
  us_EstimatedCostUSD :: "rat option"
  us_ProviderUsageFinalizedAt :: pgTimestamptz
  us_QuotaRetainUntil :: pgTimestamptz
  us_ContentDeleted :: bool
  us_SettlementBudgetMonthUtc :: pgTimestamptz
  us_SettlementReservationCostUSD :: "rat option"

record BudgetRow =
  bu_MonthUtc :: pgTimestamptz
  bu_ReservedCostUSD :: rat
  bu_ActualCostUSD :: rat
  bu_UnattributedCostUSD :: rat
  bu_UpdatedAt :: pgTimestamptz

record RateBucketRow =
  ra_Scope :: string
  ra_KeyHash :: string
  ra_WindowStart :: pgTimestamptz
  ra_RequestCount :: i32
  ra_ExpiresAt :: pgTimestamptz

record UserRow =
  ur_ID :: pgUUID
  ur_LastActiveAt :: pgTimestamptz
  ur_CreatedAt :: pgTimestamptz
  ur_UpdatedAt :: pgTimestamptz

record SessionRow =
  se_ID :: pgUUID
  se_UserID :: pgUUID
  se_TokenHash :: string
  se_CsrfTokenHash :: string
  se_CreatedAt :: pgTimestamptz
  se_LastSeenAt :: pgTimestamptz
  se_IdleExpiresAt :: pgTimestamptz
  se_AbsoluteExpiresAt :: pgTimestamptz
  se_RevokedAt :: pgTimestamptz

record AnonymousBootstrapRow =
  abr_KeyHash :: string
  abr_UserID :: pgUUID
  abr_ExpiresAt :: pgTimestamptz
  abr_CreatedAt :: pgTimestamptz

record AuthIdentityRow =
  id_ID :: pgUUID
  id_UserID :: pgUUID
  id_Provider :: string
  id_ProviderSubject :: string
  id_EmailAtLink :: "string option"
  id_EmailVerifiedAtLink :: "bool option"
  id_CreatedAt :: pgTimestamptz

record GoalDeleteReceiptRow =
  gdrow_UserID :: pgUUID
  gdrow_IdempotencyKey :: pgUUID
  gdrow_DeletedGoalID :: pgUUID
  gdrow_RequestHash :: string
  gdrow_DeletedAt :: pgTimestamptz
  gdrow_ExpiresAt :: pgTimestamptz

record RateLimitGuardRow =
  rg_Scope :: string
  rg_KeyHash :: string
  rg_ExpiresAt :: pgTimestamptz

record Database =
  db_users :: "UserRow list"
  db_sessions :: "SessionRow list"
  db_anonymous_bootstraps :: "AnonymousBootstrapRow list"
  db_auth_identities :: "AuthIdentityRow list"
  db_goals :: "GoalRow list"
  db_goal_versions :: "StoredVersionRow list"
  db_goal_version_success_signals :: "(pgUUID \<times> string) list"
  db_pdca_cycles :: "PdcaCycleRow list"
  db_pdca_cycle_review_schedules :: "ReviewScheduleRow list"
  db_goal_drafts :: "StoredDraftRow list"
  db_goal_draft_success_signals :: "(pgUUID \<times> string) list"
  db_ai_generations :: "GenerationRow list"
  db_ai_usage_events :: "UsageRow list"
  db_ai_budget_monthly :: "BudgetRow list"
  db_goal_delete_receipts :: "GoalDeleteReceiptRow list"
  db_abuse_rate_buckets :: "RateBucketRow list"
  db_anonymous_rate_limit_guards :: "RateLimitGuardRow list"

text \<open>The transaction: the database it sees and the storage formats of the Cycles it locked.\<close>

record workspaceCycleTx =
  wct_db :: Database
  wct_lockedCycleStorageFormat :: "string \<Rightarrow> string option"

type_synonym 'a store_tx = "(workspaceCycleTx, 'a) tx"

subsection \<open>Values and statements\<close>

definition mustUUID :: "(string \<Rightarrow> string option) \<Rightarrow> string \<Rightarrow> ('s, pgUUID) tx" where
  "mustUUID scan v =
     (case scan v of
        None \<Rightarrow> tx_fail (Infrastructure ''invalid UUID passed to PostgreSQL adapter'')
      | Some text \<Rightarrow> tx_return (Some text))"

text \<open>SQL's equality, which holds of no NULL.\<close>

definition sql_eq :: "'a option \<Rightarrow> 'a option \<Rightarrow> bool" where
  "sql_eq a b \<longleftrightarrow> a \<noteq> None \<and> a = b"

definition stored_time :: "pgTimestamptz \<Rightarrow> pgTimestamptz" where
  "stored_time value = value\<lparr>tz_Time := truncate_time microsecond (tz_Time value)\<rparr>"

definition query :: "(Database \<Rightarrow> 'a) \<Rightarrow> 'a store_tx" where
  "query f s = Inr (f (wct_db s), s)"

definition exec :: "(Database \<Rightarrow> workspace_error + i64 \<times> Database) \<Rightarrow> i64 store_tx" where
  "exec f s =
     (case f (wct_db s) of
        Inl e \<Rightarrow> Inl e
      | Inr (rows, d) \<Rightarrow> Inr (rows, s\<lparr>wct_db := d\<rparr>))"

definition update_rows :: "('r \<Rightarrow> bool) \<Rightarrow> ('r \<Rightarrow> 'r) \<Rightarrow> 'r list \<Rightarrow> i64 \<times> 'r list" where
  "update_rows selected change rows =
     (of_nat (length (filter selected rows)), map (\<lambda>r. if selected r then change r else r) rows)"

definition update_cycles ::
  "(PdcaCycleRow \<Rightarrow> bool) \<Rightarrow> (PdcaCycleRow \<Rightarrow> PdcaCycleRow) \<Rightarrow> Database \<Rightarrow> workspace_error + i64 \<times> Database" where
  "update_cycles selected change d =
     (let (rows, cycles) = update_rows selected change (db_pdca_cycles d)
      in Inr (rows, d\<lparr>db_pdca_cycles := cycles\<rparr>))"

definition update_goals ::
  "(GoalRow \<Rightarrow> bool) \<Rightarrow> (GoalRow \<Rightarrow> GoalRow) \<Rightarrow> Database \<Rightarrow> workspace_error + i64 \<times> Database" where
  "update_goals selected change d =
     (let (rows, goals) = update_rows selected change (db_goals d)
      in Inr (rows, d\<lparr>db_goals := goals\<rparr>))"

text \<open>The \<open>WHERE\<close> clause every statement on a Cycle or a Goal starts with.\<close>

definition owned_cycle :: "pgUUID \<Rightarrow> pgUUID \<Rightarrow> pgUUID \<Rightarrow> PdcaCycleRow \<Rightarrow> bool" where
  "owned_cycle cycle_id user_id goal_id c \<longleftrightarrow>
     sql_eq (pc_ID c) cycle_id \<and> sql_eq (pc_UserID c) user_id \<and> sql_eq (pc_GoalID c) goal_id"

definition owned_goal :: "pgUUID \<Rightarrow> pgUUID \<Rightarrow> GoalRow \<Rightarrow> bool" where
  "owned_goal goal_id user_id g \<longleftrightarrow> sql_eq (gr_ID g) goal_id \<and> sql_eq (gr_UserID g) user_id"

definition unique_violation :: workspace_error where
  "unique_violation = Infrastructure ''23505''"

subsection \<open>Receipts\<close>

definition store_FindCompleteCycleReceipt ::
  "(string \<Rightarrow> string option) \<Rightarrow> string \<Rightarrow> string \<Rightarrow> CompleteCycleReceipt option store_tx" where
  "store_FindCompleteCycleReceipt scan userID operationID =
     tx_bind (mustUUID scan userID) (\<lambda>user_id.
     tx_bind (mustUUID scan operationID) (\<lambda>operation_id.
     tx_bind (query (\<lambda>d. find (\<lambda>c. sql_eq (pc_UserID c) user_id \<and>
                               sql_eq (pc_CompletionOperationID c) operation_id) (db_pdca_cycles d)))
       (\<lambda>row.
     case row of
       None \<Rightarrow> tx_return None
     | Some c \<Rightarrow> tx_bind (tx_lift (completeCycleReceiptFromSQLC (pc_GoalID c) (pc_ID c)
                               (pc_CompletionRequestHash c))) (\<lambda>r. tx_return (Some r)))))"

definition previous_of :: "Database \<Rightarrow> PdcaCycleRow \<Rightarrow> PdcaCycleRow option" where
  "previous_of d c =
     find (\<lambda>p. sql_eq (pc_UserID p) (pc_UserID c) \<and> sql_eq (pc_GoalID p) (pc_GoalID c) \<and>
               pc_SequenceNumber p = pc_SequenceNumber c - 1) (db_pdca_cycles d)"

definition store_FindReplanCycleReceipt ::
  "(string \<Rightarrow> string option) \<Rightarrow> string \<Rightarrow> string \<Rightarrow> ReplanCycleReceipt option store_tx" where
  "store_FindReplanCycleReceipt scan userID operationID =
     tx_bind (mustUUID scan userID) (\<lambda>user_id.
     tx_bind (mustUUID scan operationID) (\<lambda>operation_id.
     tx_bind (query (\<lambda>d. map_option (\<lambda>c. (c, previous_of d c))
                (find (\<lambda>c. sql_eq (pc_UserID c) user_id \<and>
                           sql_eq (pc_StartOperationID c) operation_id) (db_pdca_cycles d))))
       (\<lambda>row.
     case row of
       None \<Rightarrow> tx_return None
     | Some (c, previous) \<Rightarrow>
         tx_bind (tx_lift (replanCycleReceiptFromSQLC (pc_GoalID c) (pc_ID c) (pc_StartRequestHash c)
                    (case previous of None \<Rightarrow> None | Some p \<Rightarrow> pc_ID p)
                    (case previous of None \<Rightarrow> None | Some p \<Rightarrow> pc_CancellationReason p)))
           (\<lambda>r. tx_return (Some r)))))"

subsection \<open>Locks and loads\<close>

definition store_LockUser :: "(string \<Rightarrow> string option) \<Rightarrow> string \<Rightarrow> unit store_tx" where
  "store_LockUser scan userID =
     tx_bind (mustUUID scan userID) (\<lambda>user_id.
     tx_bind (query (\<lambda>d. find (\<lambda>u. sql_eq (ur_ID u) user_id) (db_users d))) (\<lambda>row.
     if row = None then tx_fail ErrNotFound else tx_return ()))"

definition store_LockGoal :: "(string \<Rightarrow> string option) \<Rightarrow> string \<Rightarrow> string \<Rightarrow> Goal store_tx" where
  "store_LockGoal scan userID goalID =
     tx_bind (mustUUID scan goalID) (\<lambda>goal_id.
     tx_bind (mustUUID scan userID) (\<lambda>user_id.
     tx_bind (query (\<lambda>d. find (owned_goal goal_id user_id) (db_goals d))) (\<lambda>row.
     case row of None \<Rightarrow> tx_fail ErrGoalNotFound | Some g \<Rightarrow> tx_lift (goalFromTransitionRow g))))"

text \<open>The adapter notes the storage format of the Cycle it locks; in the mode modelled it is \<open>legacy\<close>.\<close>

definition note_storage_format :: "string \<Rightarrow> unit store_tx" where
  "note_storage_format cycleID s =
     Inr ((), s\<lparr>wct_lockedCycleStorageFormat := (wct_lockedCycleStorageFormat s)(cycleID \<mapsto> ''legacy'')\<rparr>)"

definition find_schedule :: "Database \<Rightarrow> pgUUID \<Rightarrow> ReviewScheduleRow option" where
  "find_schedule d cycle_id =
     find (\<lambda>r. sql_eq (sch_CycleID r) cycle_id) (db_pdca_cycle_review_schedules d)"

definition store_LockCycle ::
  "(string \<Rightarrow> string option) \<Rightarrow> string \<Rightarrow> string \<Rightarrow> string \<Rightarrow> PDCACycle store_tx" where
  "store_LockCycle scan userID goalID cycleID =
     tx_bind (mustUUID scan cycleID) (\<lambda>cycle_id.
     tx_bind (mustUUID scan goalID) (\<lambda>goal_id.
     tx_bind (mustUUID scan userID) (\<lambda>user_id.
     tx_bind (query (\<lambda>d. find (owned_cycle cycle_id user_id goal_id) (db_pdca_cycles d))) (\<lambda>row.
     case row of
       None \<Rightarrow> tx_fail ErrCycleNotFound
     | Some c \<Rightarrow>
         tx_bind (tx_lift (cycleFromSQLC c)) (\<lambda>current.
         tx_bind (note_storage_format (cy_ID current)) (\<lambda>_.
         tx_bind (query (\<lambda>d. find_schedule d cycle_id)) (\<lambda>schedule.
         case schedule of
           None \<Rightarrow> tx_return current
         | Some r \<Rightarrow>
             tx_bind (tx_lift (cycleReviewScheduleFromSQLC (sch_ReviewDate r)
                        (sch_ReviewScheduleRevision r))) (\<lambda>(date, revision).
             tx_return (current\<lparr>cy_ReviewDate := date,
                                cy_ReviewScheduleRevision := revision\<rparr>)))))))))"

definition signal_of :: "(pgUUID \<times> string) list \<Rightarrow> pgUUID \<Rightarrow> string" where
  "signal_of signals ident =
     (case find (\<lambda>(i, _). sql_eq i ident) signals of None \<Rightarrow> [] | Some (_, text) \<Rightarrow> text)"

definition version_columns :: "Database \<Rightarrow> StoredVersionRow option \<Rightarrow> GoalVersionRow" where
  "version_columns d v =
     (case v of
        None \<Rightarrow> \<lparr>gvr_ID = None, gvr_UserID = None, gvr_GoalID = None, gvr_VersionNumber = None,
                 gvr_Body = [], gvr_SuccessSignal = [], gvr_CreatedByOperationID = None,
                 gvr_CreatedAt = null_Timestamptz\<rparr>
      | Some r \<Rightarrow> \<lparr>gvr_ID = sv_ID r, gvr_UserID = sv_UserID r, gvr_GoalID = sv_GoalID r,
                   gvr_VersionNumber = Some (sv_VersionNumber r), gvr_Body = sv_Body r,
                   gvr_SuccessSignal = signal_of (db_goal_version_success_signals d) (sv_ID r),
                   gvr_CreatedByOperationID = sv_CreatedByOperationID r,
                   gvr_CreatedAt = sv_CreatedAt r\<rparr>)"

definition store_LoadCurrentGoalVersion ::
  "(string \<Rightarrow> string option) \<Rightarrow> string \<Rightarrow> string \<Rightarrow> i32 \<Rightarrow> Version store_tx" where
  "store_LoadCurrentGoalVersion scan userID goalID versionNumber =
     tx_bind (mustUUID scan goalID) (\<lambda>goal_id.
     tx_bind (mustUUID scan userID) (\<lambda>user_id.
     tx_bind (query (\<lambda>d. map_option (\<lambda>g. version_columns d
                (find (\<lambda>v. sql_eq (sv_UserID v) (gr_UserID g) \<and> sql_eq (sv_GoalID v) (gr_ID g) \<and>
                           sv_VersionNumber v = versionNumber) (db_goal_versions d)))
                (find (owned_goal goal_id user_id) (db_goals d)))) (\<lambda>row.
     case row of None \<Rightarrow> tx_fail ErrNotFound | Some r \<Rightarrow> tx_lift (goalVersionFromTransitionRow r))))"

definition store_HasRunningCycleGeneration ::
  "(string \<Rightarrow> string option) \<Rightarrow> string \<Rightarrow> string \<Rightarrow> string \<Rightarrow> bool store_tx" where
  "store_HasRunningCycleGeneration scan userID goalID cycleID =
     tx_bind (mustUUID scan userID) (\<lambda>user_id.
     tx_bind (mustUUID scan goalID) (\<lambda>goal_id.
     tx_bind (mustUUID scan cycleID) (\<lambda>cycle_id.
     query (\<lambda>d. list_ex (\<lambda>g. sql_eq (ge_UserID g) user_id \<and> sql_eq (ge_GoalID g) goal_id \<and>
       sql_eq (ge_CycleID g) cycle_id \<and> ge_Status g = ''running'') (db_ai_generations d)))))"

subsection \<open>Views\<close>

definition version_by_id :: "Database \<Rightarrow> pgUUID \<Rightarrow> pgUUID \<Rightarrow> StoredVersionRow option" where
  "version_by_id d version_id goal_id =
     find (\<lambda>v. sql_eq (sv_ID v) version_id \<and> sql_eq (sv_GoalID v) goal_id) (db_goal_versions d)"

definition cycle_view_row :: "Database \<Rightarrow> PdcaCycleRow \<Rightarrow> GetCycleViewRow" where
  "cycle_view_row d c =
     (let version = version_columns d (version_by_id d (pc_GoalVersionID c) (pc_GoalID c));
          schedule = find_schedule d (pc_ID c);
          previous = previous_of d c;
          previous_version = (case previous of
             None \<Rightarrow> None
           | Some p \<Rightarrow> find (\<lambda>v. sql_eq (sv_ID v) (pc_GoalVersionID p) \<and>
               sql_eq (sv_UserID v) (pc_UserID p) \<and> sql_eq (sv_GoalID v) (pc_GoalID p))
               (db_goal_versions d));
          text_of = (\<lambda>t. case t of None \<Rightarrow> [] | Some v \<Rightarrow> v) in
      \<lparr>gcv_CycleID = pc_ID c, gcv_GoalID = pc_GoalID c, gcv_SequenceNumber = pc_SequenceNumber c,
       gcv_Status = pc_Status c, gcv_StartedAt = pc_StartedAt c, gcv_CompletedAt = pc_CompletedAt c,
       gcv_CanceledAt = pc_CanceledAt c, gcv_CancellationReason = pc_CancellationReason c,
       gcv_Plan = text_of (pc_Plan c), gcv_DoText = text_of (pc_DoText c),
       gcv_CheckText = text_of (pc_CheckText c), gcv_Action = text_of (pc_Action c),
       gcv_ContentRevision = pc_ContentRevision c, gcv_PlanRevision = pc_PlanRevision c,
       gcv_DoRevision = pc_DoRevision c, gcv_CheckRevision = pc_CheckRevision c,
       gcv_ActionRevision = pc_ActionRevision c,
       gcv_ReviewDate = (case schedule of None \<Rightarrow> null_Date | Some r \<Rightarrow> sch_ReviewDate r),
       gcv_ReviewScheduleRevision =
         (case schedule of None \<Rightarrow> 0 | Some r \<Rightarrow> sch_ReviewScheduleRevision r),
       gcv_GoalVersionID = gvr_ID version, gcv_GoalVersionNumber = gvr_VersionNumber version,
       gcv_GoalVersionBody = gvr_Body version,
       gcv_GoalVersionSuccessSignal = gvr_SuccessSignal version,
       gcv_GoalVersionCreatedAt = gvr_CreatedAt version,
       gcv_PreviousCycleID = (case previous of None \<Rightarrow> None | Some p \<Rightarrow> pc_ID p),
       gcv_PreviousCycleSequenceNumber = map_option pc_SequenceNumber previous,
       gcv_PreviousCycleStatus = map_option pc_Status previous,
       gcv_PreviousCycleCancellationReason =
         (case previous of None \<Rightarrow> None | Some p \<Rightarrow> pc_CancellationReason p),
       gcv_PreviousCycleAction = (case previous of None \<Rightarrow> [] | Some p \<Rightarrow> text_of (pc_Action p)),
       gcv_PreviousGoalVersionNumber = map_option sv_VersionNumber previous_version\<rparr>)"

definition queryCycleView ::
  "(string \<Rightarrow> string option) \<Rightarrow> string \<Rightarrow> string \<Rightarrow> string \<Rightarrow> CycleView store_tx" where
  "queryCycleView scan userID goalID cycleID =
     tx_bind (mustUUID scan cycleID) (\<lambda>cycle_id.
     tx_bind (mustUUID scan goalID) (\<lambda>goal_id.
     tx_bind (mustUUID scan userID) (\<lambda>user_id.
     tx_bind (query (\<lambda>d.
       case find (owned_cycle cycle_id user_id goal_id) (db_pdca_cycles d) of
         None \<Rightarrow> None
       | Some c \<Rightarrow>
           if find (owned_goal (pc_GoalID c) (pc_UserID c)) (db_goals d) = None then None
           else Some (cycle_view_row d c))) (\<lambda>row.
     case row of None \<Rightarrow> tx_fail ErrCycleNotFound | Some r \<Rightarrow> tx_lift (cycleViewFromReadRow r)))))"

definition goal_view_columns :: "Database \<Rightarrow> GoalRow \<Rightarrow> goalViewColumns" where
  "goal_view_columns d g =
     (let version = version_columns d (find (\<lambda>v. sql_eq (sv_UserID v) (gr_UserID g) \<and>
            sql_eq (sv_GoalID v) (gr_ID g) \<and> sv_VersionNumber v = gr_CurrentVersionNumber g)
            (db_goal_versions d));
          of_goal = (\<lambda>c. sql_eq (pc_UserID c) (gr_UserID g) \<and> sql_eq (pc_GoalID c) (gr_ID g));
          active = find (\<lambda>c. of_goal c \<and> pc_Status c = ''active'') (db_pdca_cycles d);
          schedule = (case active of None \<Rightarrow> None | Some c \<Rightarrow> find_schedule d (pc_ID c));
          draft = find (\<lambda>r. sql_eq (sd_UserID r) (gr_UserID g) \<and> sql_eq (sd_GoalID r) (gr_ID g) \<and>
            sd_DraftType r = ''review'') (db_goal_drafts d);
          trigger = (case draft of
             None \<Rightarrow> None
           | Some r \<Rightarrow> find (\<lambda>c. of_goal c \<and> sql_eq (pc_ID c) (sd_ReviewCycleID r)) (db_pdca_cycles d));
          progressing = gr_Status g = ''active_cycle'' \<or> gr_Status g = ''goal_review'' in
      \<lparr>gc_goalID = gr_ID g, gc_goalStatus = gr_Status g, gc_goalRevision = gr_Revision g,
       gc_nextCycleSequenceNumber = gr_NextCycleSequenceNumber g, gc_goalCreatedAt = gr_CreatedAt g,
       gc_goalTerminalAt = gr_TerminalAt g, gc_currentVersionID = gvr_ID version,
       gc_currentVersionNumber = gvr_VersionNumber version, gc_currentVersionBody = gvr_Body version,
       gc_currentVersionSuccessSignal = gvr_SuccessSignal version,
       gc_currentVersionCreatedAt = gvr_CreatedAt version,
       gc_cycleCount = of_nat (length (filter of_goal (db_pdca_cycles d))),
       gc_activeCycleID = (case active of None \<Rightarrow> None | Some c \<Rightarrow> pc_ID c),
       gc_activeCycleSequenceNumber = map_option pc_SequenceNumber active,
       gc_activeCycleReviewDate = (case schedule of None \<Rightarrow> null_Date | Some r \<Rightarrow> sch_ReviewDate r),
       gc_activeCycleReviewRevision =
         (case schedule of None \<Rightarrow> 0 | Some r \<Rightarrow> sch_ReviewScheduleRevision r),
       gc_reviewDraftID = (case draft of None \<Rightarrow> None | Some r \<Rightarrow> sd_ID r),
       gc_triggerCycleID = (case trigger of None \<Rightarrow> None | Some c \<Rightarrow> pc_ID c),
       gc_triggerCycleSequenceNumber = map_option pc_SequenceNumber trigger,
       gc_category = (if progressing then 0 else 1),
       gc_sortTime = (if progressing then gr_UpdatedAt g else gr_TerminalAt g)\<rparr>)"

definition getGoalView :: "(string \<Rightarrow> string option) \<Rightarrow> string \<Rightarrow> string \<Rightarrow> GoalView store_tx" where
  "getGoalView scan userID goalID =
     tx_bind (mustUUID scan goalID) (\<lambda>goal_id.
     tx_bind (mustUUID scan userID) (\<lambda>user_id.
     tx_bind (query (\<lambda>d. map_option (goal_view_columns d)
                           (find (owned_goal goal_id user_id) (db_goals d)))) (\<lambda>row.
     case row of
       None \<Rightarrow> tx_fail ErrNotFound
     | Some columns \<Rightarrow> tx_bind (tx_lift (mapGoalView columns)) (\<lambda>r. tx_return (gvw_View r)))))"

definition store_FindReviewDraftByCycle ::
  "(string \<Rightarrow> string option) \<Rightarrow> string \<Rightarrow> string \<Rightarrow> string \<Rightarrow> DraftView option store_tx" where
  "store_FindReviewDraftByCycle scan userID goalID cycleID =
     tx_bind (mustUUID scan userID) (\<lambda>user_id.
     tx_bind (mustUUID scan goalID) (\<lambda>goal_id.
     tx_bind (mustUUID scan cycleID) (\<lambda>cycle_id.
     tx_bind (query (\<lambda>d. map_option (\<lambda>r.
         \<lparr>dc_id = sd_ID r, dc_draftType = sd_DraftType r, dc_goalID = sd_GoalID r,
          dc_baseGoalVersionID = sd_BaseGoalVersionID r, dc_reviewCycleID = sd_ReviewCycleID r,
          dc_body = sd_Body r,
          dc_successSignal = signal_of (db_goal_draft_success_signals d) (sd_ID r),
          dc_revision = sd_Revision r, dc_updatedAt = sd_UpdatedAt r\<rparr>)
       (find (\<lambda>r. sql_eq (sd_UserID r) user_id \<and> sql_eq (sd_GoalID r) goal_id \<and>
          sql_eq (sd_ReviewCycleID r) cycle_id \<and> sd_DraftType r = ''review'') (db_goal_drafts d))))
       (\<lambda>row.
     case row of
       None \<Rightarrow> tx_return None
     | Some r \<Rightarrow> tx_bind (tx_lift (reviewDraftViewFromTransitionRow r))
                  (\<lambda>view. tx_return (Some view))))))"

subsection \<open>Writes of a Cycle\<close>

definition store_SaveCycleFrameCAS ::
  "(string \<Rightarrow> string option) \<Rightarrow> PDCACycle \<Rightarrow> frame \<Rightarrow> i64 \<Rightarrow> i64 store_tx" where
  "store_SaveCycleFrameCAS scan current frame expectedFrameRevision =
     (if rev_Content (cy_Revisions current) \<le>s 0 \<or>
         FrameRevision current frame \<noteq> expectedFrameRevision + 1
      then tx_fail (ErrCyclePersistenceInvariant ''saved Cycle revision is inconsistent'')
      else (\<lambda>s.
        if wct_lockedCycleStorageFormat s (cy_ID current) = None
        then Inl (ErrCyclePersistenceInvariant ''Cycle was not locked before save'')
        else if frame \<notin> set allFrames then Inl (CycleFailure ErrInvalidFrame)
        else tx_bind (mustUUID scan (cy_ID current)) (\<lambda>cycle_id.
          tx_bind (mustUUID scan (cy_UserID current)) (\<lambda>user_id.
          tx_bind (mustUUID scan (cy_GoalID current)) (\<lambda>goal_id.
          let stamped = (\<lambda>r. r\<lparr>pc_ContentRevision := rev_Content (cy_Revisions current),
                pc_UpdatedAt := stored_time (timestamptz (cy_UpdatedAt current))\<rparr>);
              selected = (\<lambda>revision r. owned_cycle cycle_id user_id goal_id r \<and>
                pc_Status r = ''active'' \<and> revision r = expectedFrameRevision) in
          if frame = FramePlan then
            exec (update_cycles (selected pc_PlanRevision)
              (\<lambda>r. (stamped r)\<lparr>pc_Plan := Some (cy_Plan current),
                              pc_PlanRevision := FrameRevision current frame\<rparr>))
          else if frame = FrameDo then
            exec (update_cycles (selected pc_DoRevision)
              (\<lambda>r. (stamped r)\<lparr>pc_DoText := Some (cy_Do current),
                              pc_DoRevision := FrameRevision current frame\<rparr>))
          else if frame = FrameCheck then
            exec (update_cycles (selected pc_CheckRevision)
              (\<lambda>r. (stamped r)\<lparr>pc_CheckText := Some (cy_Check current),
                              pc_CheckRevision := FrameRevision current frame\<rparr>))
          else
            exec (update_cycles (selected pc_ActionRevision)
              (\<lambda>r. (stamped r)\<lparr>pc_Action := Some (cy_Action current),
                              pc_ActionRevision := FrameRevision current frame,
                              pc_ActionUserModifiedAfterAi := cy_ActionModifiedAfterAI current\<rparr>))))) s))"

definition store_SaveCycleReviewScheduleCAS ::
  "(string \<Rightarrow> string option) \<Rightarrow> PDCACycle \<Rightarrow> i64 \<Rightarrow> i64 store_tx" where
  "store_SaveCycleReviewScheduleCAS scan current expectedReviewScheduleRevision =
     (if cy_ReviewScheduleRevision current \<noteq> expectedReviewScheduleRevision + 1
      then tx_fail (ErrCyclePersistenceInvariant ''saved Cycle review schedule revision is inconsistent'')
      else (case cycleReviewDateParam (cy_ReviewDate current) of
        Inl _ \<Rightarrow> tx_fail (ErrCyclePersistenceInvariant ''saved Cycle review date is invalid'')
      | Inr reviewDate \<Rightarrow>
          tx_bind (mustUUID scan (cy_ID current)) (\<lambda>cycle_id.
          exec (\<lambda>d.
            let schedules = db_pdca_cycle_review_schedules d;
                row = \<lparr>sch_CycleID = cycle_id, sch_ReviewDate = reviewDate,
                       sch_ReviewScheduleRevision = cy_ReviewScheduleRevision current\<rparr>;
                selected = (\<lambda>r. sql_eq (sch_CycleID r) cycle_id \<and>
                  sch_ReviewScheduleRevision r = expectedReviewScheduleRevision) in
            if expectedReviewScheduleRevision \<noteq> 0 \<and> \<not> list_ex selected schedules
            then Inr (0, d)
            else if find_schedule d cycle_id = None
            then Inr (1, d\<lparr>db_pdca_cycle_review_schedules := schedules @ [row]\<rparr>)
            else let (rows, updated) = update_rows selected (\<lambda>_. row) schedules
                 in Inr (rows, d\<lparr>db_pdca_cycle_review_schedules := updated\<rparr>)))))"

definition store_CompleteCycleCAS ::
  "(string \<Rightarrow> string option) \<Rightarrow> PDCACycle \<Rightarrow> i64 \<Rightarrow> i64 store_tx" where
  "store_CompleteCycleCAS scan completed expectedContentRevision =
     (case (cy_CompletedAt completed, cy_CompletionOperationID completed,
            cy_CompletionRequestHash completed) of
        (Some completedAt, Some operationID, Some requestHash) \<Rightarrow>
          if cy_Status completed \<noteq> StatusCompleted
          then tx_fail (ErrCyclePersistenceInvariant ''completed Cycle state is incomplete'')
          else
            tx_bind (mustUUID scan operationID) (\<lambda>operation_id.
            tx_bind (mustUUID scan (cy_ID completed)) (\<lambda>cycle_id.
            tx_bind (mustUUID scan (cy_UserID completed)) (\<lambda>user_id.
            tx_bind (mustUUID scan (cy_GoalID completed)) (\<lambda>goal_id.
            exec (\<lambda>d.
              let selected = (\<lambda>r. owned_cycle cycle_id user_id goal_id r \<and> pc_Status r = ''active'' \<and>
                    pc_ContentRevision r = expectedContentRevision \<and>
                    pc_CompletionOperationID r = None \<and> pc_CompletionRequestHash r = None) in
              if list_ex selected (db_pdca_cycles d) \<and>
                 list_ex (\<lambda>r. sql_eq (pc_UserID r) user_id \<and>
                    sql_eq (pc_CompletionOperationID r) operation_id) (db_pdca_cycles d)
              then Inl unique_violation
              else update_cycles selected
                (\<lambda>r. r\<lparr>pc_Status := ''completed'',
                      pc_CompletedAt := stored_time (timestamptz completedAt),
                      pc_CompletionOperationID := operation_id,
                      pc_CompletionRequestHash := Some requestHash,
                      pc_UpdatedAt := stored_time (timestamptz (cy_UpdatedAt completed))\<rparr>) d)))))
      | _ \<Rightarrow> tx_fail (ErrCyclePersistenceInvariant ''completed Cycle state is incomplete''))"

definition store_CancelCycleCAS ::
  "(string \<Rightarrow> string option) \<Rightarrow> PDCACycle \<Rightarrow> i64 \<Rightarrow> i64 store_tx" where
  "store_CancelCycleCAS scan canceled expectedContentRevision =
     (case (cy_CanceledAt canceled, cy_CancellationReason canceled) of
        (Some canceledAt, Some reason) \<Rightarrow>
          if cy_Status canceled \<noteq> StatusCanceled
          then tx_fail (ErrCyclePersistenceInvariant ''canceled Cycle state is incomplete'')
          else
            tx_bind (mustUUID scan (cy_ID canceled)) (\<lambda>cycle_id.
            tx_bind (mustUUID scan (cy_UserID canceled)) (\<lambda>user_id.
            tx_bind (mustUUID scan (cy_GoalID canceled)) (\<lambda>goal_id.
            exec (update_cycles
              (\<lambda>r. owned_cycle cycle_id user_id goal_id r \<and> pc_Status r = ''active'' \<and>
                   pc_ContentRevision r = expectedContentRevision)
              (\<lambda>r. r\<lparr>pc_Status := cy_Status canceled,
                    pc_CanceledAt := stored_time (timestamptz canceledAt),
                    pc_CancellationReason := Some reason,
                    pc_UpdatedAt := stored_time (timestamptz (cy_UpdatedAt canceled))\<rparr>)))))
      | _ \<Rightarrow> tx_fail (ErrCyclePersistenceInvariant ''canceled Cycle state is incomplete''))"

text \<open>
  The columns \<open>TryInsertCycleClaim\<close> does not name take their defaults.  A row with the same start
  operation makes it insert nothing; the other unique keys of the table reject it.
\<close>

definition claim_row :: "pgUUID \<Rightarrow> pgUUID \<Rightarrow> pgUUID \<Rightarrow> pgUUID \<Rightarrow> pgUUID \<Rightarrow> PDCACycle \<Rightarrow> PdcaCycleRow" where
  "claim_row cycle_id user_id goal_id version_id operation_id current =
     \<lparr>pc_ID = cycle_id, pc_UserID = user_id, pc_GoalID = goal_id, pc_GoalVersionID = version_id,
      pc_SequenceNumber = cy_SequenceNumber current, pc_Status = cy_Status current,
      pc_StartedAt = stored_time (timestamptz (cy_StartedAt current)),
      pc_CompletedAt = null_Timestamptz, pc_CanceledAt = null_Timestamptz,
      pc_CancellationReason = None, pc_Plan = Some (cy_Plan current), pc_DoText = Some (cy_Do current),
      pc_CheckText = Some (cy_Check current), pc_Action = Some (cy_Action current),
      pc_ContentRevision = 0, pc_PlanRevision = 0, pc_DoRevision = 0, pc_CheckRevision = 0,
      pc_ActionRevision = 0, pc_ActionLastAiAppliedContentRevision = None,
      pc_ActionUserModifiedAfterAi = False, pc_StartOperationID = operation_id,
      pc_StartRequestHash = cy_StartRequestHash current, pc_CompletionOperationID = None,
      pc_CompletionRequestHash = None,
      pc_CreatedAt = stored_time (timestamptz (cy_CreatedAt current)),
      pc_UpdatedAt = stored_time (timestamptz (cy_UpdatedAt current))\<rparr>"

definition insert_claim :: "PdcaCycleRow \<Rightarrow> Database \<Rightarrow> workspace_error + i64 \<times> Database" where
  "insert_claim row d =
     (let cycles = db_pdca_cycles d in
      if list_ex (\<lambda>r. sql_eq (pc_UserID r) (pc_UserID row) \<and>
           sql_eq (pc_StartOperationID r) (pc_StartOperationID row)) cycles
      then Inr (0, d)
      else if list_ex (\<lambda>r. sql_eq (pc_ID r) (pc_ID row) \<or>
           sql_eq (pc_GoalID r) (pc_GoalID row) \<and>
             (pc_SequenceNumber r = pc_SequenceNumber row \<or>
              pc_Status r = ''active'' \<and> pc_Status row = ''active'')) cycles
      then Inl unique_violation
      else Inr (1, d\<lparr>db_pdca_cycles := cycles @ [row]\<rparr>))"

definition store_TryInsertCycleClaim ::
  "(string \<Rightarrow> string option) \<Rightarrow> PDCACycle \<Rightarrow> i64 store_tx" where
  "store_TryInsertCycleClaim scan current =
     tx_bind (mustUUID scan (cy_ID current)) (\<lambda>cycle_id.
     tx_bind (mustUUID scan (cy_UserID current)) (\<lambda>user_id.
     tx_bind (mustUUID scan (cy_GoalID current)) (\<lambda>goal_id.
     tx_bind (mustUUID scan (cy_GoalVersionID current)) (\<lambda>version_id.
     tx_bind (mustUUID scan (cy_StartOperationID current)) (\<lambda>operation_id.
     exec (insert_claim (claim_row cycle_id user_id goal_id version_id operation_id current)))))))"

subsection \<open>Writes of a Goal and of a review draft\<close>

definition store_ReplanGoalCAS :: "(string \<Rightarrow> string option) \<Rightarrow> Goal \<Rightarrow> i64 \<Rightarrow> i64 store_tx" where
  "store_ReplanGoalCAS scan replanned expectedRevision =
     (if go_Status replanned \<noteq> StatusActiveCycle \<or> go_Revision replanned \<noteq> expectedRevision + 1 \<or>
         go_NextCycleSequenceNumber replanned <s 3
      then tx_fail (ErrCyclePersistenceInvariant ''replanned Goal state is inconsistent'')
      else
        tx_bind (mustUUID scan (go_ID replanned)) (\<lambda>goal_id.
        tx_bind (mustUUID scan (go_UserID replanned)) (\<lambda>user_id.
        exec (update_goals
          (\<lambda>g. owned_goal goal_id user_id g \<and> gr_Status g = ''active_cycle'' \<and>
               gr_CurrentVersionNumber g = go_CurrentVersionNumber replanned \<and>
               gr_NextCycleSequenceNumber g = go_NextCycleSequenceNumber replanned - 1 \<and>
               gr_Revision g = expectedRevision)
          (\<lambda>g. g\<lparr>gr_NextCycleSequenceNumber := go_NextCycleSequenceNumber replanned,
                gr_Revision := go_Revision replanned,
                gr_UpdatedAt := stored_time (timestamptz (go_UpdatedAt replanned))\<rparr>)))))"

definition store_EnterGoalReviewCAS :: "(string \<Rightarrow> string option) \<Rightarrow> Goal \<Rightarrow> i64 \<Rightarrow> i64 store_tx" where
  "store_EnterGoalReviewCAS scan reviewing expectedRevision =
     (if go_Status reviewing \<noteq> StatusGoalReview \<or> go_Revision reviewing \<noteq> expectedRevision + 1
      then tx_fail (ErrCyclePersistenceInvariant ''reviewing Goal state is inconsistent'')
      else
        tx_bind (mustUUID scan (go_ID reviewing)) (\<lambda>goal_id.
        tx_bind (mustUUID scan (go_UserID reviewing)) (\<lambda>user_id.
        exec (update_goals
          (\<lambda>g. owned_goal goal_id user_id g \<and> gr_Status g = ''active_cycle'' \<and>
               gr_Revision g = expectedRevision \<and>
               gr_CurrentVersionNumber g = go_CurrentVersionNumber reviewing \<and>
               gr_NextCycleSequenceNumber g = go_NextCycleSequenceNumber reviewing)
          (\<lambda>g. g\<lparr>gr_Status := ''goal_review'', gr_Revision := go_Revision reviewing,
                gr_UpdatedAt := stored_time (timestamptz (go_UpdatedAt reviewing))\<rparr>)))))"

definition store_InsertReviewDraft :: "(string \<Rightarrow> string option) \<Rightarrow> Draft \<Rightarrow> i64 store_tx" where
  "store_InsertReviewDraft scan draft =
     (case (dr_GoalID draft, dr_BaseGoalVersionID draft, dr_ReviewCycleID draft) of
        (Some goalID, Some versionID, Some cycleID) \<Rightarrow>
          if dr_Type draft \<noteq> DraftReview
          then tx_fail (ErrCyclePersistenceInvariant ''Cycle Review Draft state is incomplete'')
          else
            tx_bind (mustUUID scan (dr_ID draft)) (\<lambda>draft_id.
            tx_bind (mustUUID scan (dr_UserID draft)) (\<lambda>user_id.
            tx_bind (mustUUID scan goalID) (\<lambda>goal_id.
            tx_bind (mustUUID scan versionID) (\<lambda>version_id.
            tx_bind (mustUUID scan cycleID) (\<lambda>cycle_id.
            let row = \<lparr>sd_ID = draft_id, sd_UserID = user_id, sd_DraftType = ''review'',
                  sd_GoalID = goal_id, sd_BaseGoalVersionID = version_id,
                  sd_ReviewCycleID = cycle_id, sd_Body = dr_Body draft,
                  sd_Revision = dr_Revision draft,
                  sd_CreatedAt = stored_time (timestamptz (dr_CreatedAt draft)),
                  sd_UpdatedAt = stored_time (timestamptz (dr_UpdatedAt draft))\<rparr> in
            tx_bind (exec (\<lambda>d.
              if list_ex (\<lambda>r. sql_eq (sd_ID r) draft_id \<or>
                   sd_DraftType r = ''review'' \<and> sql_eq (sd_GoalID r) goal_id) (db_goal_drafts d)
              then Inl unique_violation
              else Inr (1, d\<lparr>db_goal_drafts := db_goal_drafts d @ [row]\<rparr>))) (\<lambda>rows.
            case dr_SuccessSignal draft of
              None \<Rightarrow> tx_return rows
            | Some signal \<Rightarrow>
                if rows \<noteq> 1 then tx_return rows
                else
                  tx_bind (exec (\<lambda>d.
                    if list_ex (\<lambda>(i, _). sql_eq i draft_id) (db_goal_draft_success_signals d)
                    then Inl unique_violation
                    else Inr (1, d\<lparr>db_goal_draft_success_signals :=
                                 db_goal_draft_success_signals d @ [(draft_id, signal)]\<rparr>)))
                    (\<lambda>signalRows.
                  if signalRows \<noteq> 1
                  then tx_fail (ErrCyclePersistenceInvariant
                    ''inserted Review Draft success signal affected an unexpected row count'')
                  else tx_return rows)))))))
      | _ \<Rightarrow> tx_fail (ErrCyclePersistenceInvariant ''Cycle Review Draft state is incomplete''))"

subsection \<open>The transaction\<close>

definition store_CycleTx :: "(string \<Rightarrow> string option) \<Rightarrow> workspaceCycleTx CycleTx" where
  "store_CycleTx scan =
     \<lparr>FindCompleteCycleReceipt = store_FindCompleteCycleReceipt scan,
      FindReplanCycleReceipt = store_FindReplanCycleReceipt scan,
      LockUser = store_LockUser scan, LockGoal = store_LockGoal scan, LockCycle = store_LockCycle scan,
      LoadCurrentGoalVersion = store_LoadCurrentGoalVersion scan,
      HasRunningCycleGeneration = store_HasRunningCycleGeneration scan,
      SaveCycleFrameCAS = store_SaveCycleFrameCAS scan,
      SaveCycleReviewScheduleCAS = store_SaveCycleReviewScheduleCAS scan,
      CompleteCycleCAS = store_CompleteCycleCAS scan, CancelCycleCAS = store_CancelCycleCAS scan,
      TryInsertCycleClaim = store_TryInsertCycleClaim scan, ReplanGoalCAS = store_ReplanGoalCAS scan,
      InsertReviewDraft = store_InsertReviewDraft scan,
      EnterGoalReviewCAS = store_EnterGoalReviewCAS scan,
      LoadGoalView = getGoalView scan, LoadCycleView = queryCycleView scan,
      FindReviewDraftByCycle = store_FindReviewDraftByCycle scan\<rparr>"

definition WithinCycleTransaction :: "'a store_tx \<Rightarrow> Database \<Rightarrow> (workspace_error + 'a) \<times> Database" where
  "WithinCycleTransaction operation d =
     (case operation \<lparr>wct_db = d, wct_lockedCycleStorageFormat = Map.empty\<rparr> of
        Inl e \<Rightarrow> (Inl e, d)
      | Inr (x, s) \<Rightarrow> (Inr x, wct_db s))"

end
