(* ===== verification/CycleStoreLaws.thy ===== *)
theory CycleStoreLaws
  imports CycleContract CycleStore
begin

section \<open>The PostgreSQL adapter fulfils the contract of the Cycle transactions\<close>

text \<open>
  The laws of \<open>cycle_tx_laws\<close> proved for \<open>store_CycleTx\<close>: the unique keys of the schema hold after
  each statement, a statement on behalf of a User touches the rows of that User only, and the
  request hash recorded under an operation key is what the receipts report.
\<close>

subsection \<open>The unique keys of the schema\<close>

definition cycles_clash :: "PdcaCycleRow \<Rightarrow> PdcaCycleRow \<Rightarrow> bool" where
  "cycles_clash a b \<longleftrightarrow>
     sql_eq (pc_ID a) (pc_ID b) \<or>
     sql_eq (pc_GoalID a) (pc_GoalID b) \<and>
       (pc_SequenceNumber a = pc_SequenceNumber b \<or> pc_Status a = ''active'' \<and> pc_Status b = ''active'') \<or>
     sql_eq (pc_UserID a) (pc_UserID b) \<and>
       (sql_eq (pc_StartOperationID a) (pc_StartOperationID b) \<or>
        sql_eq (pc_CompletionOperationID a) (pc_CompletionOperationID b))"

definition schedules_clash :: "ReviewScheduleRow \<Rightarrow> ReviewScheduleRow \<Rightarrow> bool" where
  "schedules_clash a b \<longleftrightarrow> sql_eq (sch_CycleID a) (sch_CycleID b)"

definition goals_clash :: "GoalRow \<Rightarrow> GoalRow \<Rightarrow> bool" where
  "goals_clash a b \<longleftrightarrow> sql_eq (gr_ID a) (gr_ID b)"

definition drafts_clash :: "StoredDraftRow \<Rightarrow> StoredDraftRow \<Rightarrow> bool" where
  "drafts_clash a b \<longleftrightarrow>
     sql_eq (sd_ID a) (sd_ID b) \<or>
     sd_DraftType a = ''review'' \<and> sd_DraftType b = ''review'' \<and> sql_eq (sd_GoalID a) (sd_GoalID b)"

definition signals_clash :: "pgUUID \<times> string \<Rightarrow> pgUUID \<times> string \<Rightarrow> bool" where
  "signals_clash a b \<longleftrightarrow> sql_eq (fst a) (fst b)"

definition no_clash :: "('r \<Rightarrow> 'r \<Rightarrow> bool) \<Rightarrow> 'r list \<Rightarrow> bool" where
  "no_clash clash = sorted_wrt (\<lambda>a b. \<not> clash a b)"

definition store_unique_keys :: "Database \<Rightarrow> bool" where
  "store_unique_keys d \<longleftrightarrow>
     no_clash cycles_clash (db_pdca_cycles d) \<and>
     no_clash schedules_clash (db_pdca_cycle_review_schedules d) \<and>
     no_clash goals_clash (db_goals d) \<and>
     no_clash drafts_clash (db_goal_drafts d) \<and>
     no_clash signals_clash (db_goal_draft_success_signals d)"

lemma sql_eq_sym: "sql_eq a b \<longleftrightarrow> sql_eq b a"
  by (auto simp: sql_eq_def)

lemma sql_eq_trans: "sql_eq a b \<Longrightarrow> sql_eq b c \<Longrightarrow> sql_eq a c"
  by (auto simp: sql_eq_def)

lemma sql_eq_Some [simp]: "sql_eq a (Some x) \<longleftrightarrow> a = Some x" "sql_eq (Some x) a \<longleftrightarrow> a = Some x"
  by (auto simp: sql_eq_def)

lemma sql_eq_None [simp]: "\<not> sql_eq a None" "\<not> sql_eq None a"
  by (auto simp: sql_eq_def)

lemma no_clash_append:
  "no_clash clash (rows @ [r]) \<longleftrightarrow> no_clash clash rows \<and> (\<forall>a\<in>set rows. \<not> clash a r)"
  by (auto simp: no_clash_def sorted_wrt_append)

lemma no_clash_map:
  assumes "no_clash clash rows"
    and "\<And>a b. a \<in> set rows \<Longrightarrow> b \<in> set rows \<Longrightarrow> \<not> clash a b \<Longrightarrow> \<not> clash (f a) (f b)"
  shows "no_clash clash (map f rows)"
  using assms by (induction rows) (auto simp: no_clash_def)

lemma no_clashD:
  assumes "no_clash clash rows" "a \<in> set rows" "b \<in> set rows" "clash a b"
    and sym: "\<And>x y. clash x y \<Longrightarrow> clash y x"
  shows "a = b"
  using assms by (induction rows) (auto simp: no_clash_def)

lemma clash_sym:
  "cycles_clash x y \<Longrightarrow> cycles_clash y x"
  unfolding cycles_clash_def by (metis sql_eq_sym)

subsection \<open>Rewriting rows\<close>

lemma mustUUID_Inr [simp]:
  "mustUUID scan v s = Inr (x, t) \<longleftrightarrow> scan v \<noteq> None \<and> x = scan v \<and> t = s"
  by (auto simp: mustUUID_def split: option.splits)

lemma query_Inr [simp]: "query f s = Inr (x, t) \<longleftrightarrow> x = f (wct_db s) \<and> t = s"
  by (auto simp: query_def)

lemma exec_Inr [simp]:
  "exec f s = Inr (rows, t) \<longleftrightarrow> (\<exists>d. f (wct_db s) = Inr (rows, d) \<and> t = s\<lparr>wct_db := d\<rparr>)"
  by (auto simp: exec_def split: sum.splits)

lemma keeps_mustUUID [keeps_intros]: "keeps f (mustUUID scan v)"
  by (simp add: keeps_def)

lemma keeps_query [keeps_intros]: "keeps f (query q)"
  by (simp add: keeps_def)

lemma keeps_note [keeps_intros]: "keeps wct_db (note_storage_format c)"
  by (simp add: keeps_def note_storage_format_def)

lemma keeps_prod [keeps_intros]: "(\<And>a b. keeps f (g a b)) \<Longrightarrow> keeps f (case p of (a, b) \<Rightarrow> g a b)"
  by (cases p) simp

lemma keeps_exec:
  "(\<And>d rows d'. u d = Inr (rows, d') \<Longrightarrow> f d' = f d) \<Longrightarrow> keeps (\<lambda>s. f (wct_db s)) (exec u)"
  by (auto simp: keeps_def)

lemma preserves_exec:
  "(\<And>d rows d'. P d \<Longrightarrow> u d = Inr (rows, d') \<Longrightarrow> P d') \<Longrightarrow> preserves (\<lambda>s. P (wct_db s)) (exec u)"
  by (auto simp: preserves_def)

lemma store_reads:
  "keeps wct_db (store_FindCompleteCycleReceipt scan u op)"
  "keeps wct_db (store_FindReplanCycleReceipt scan u op)"
  "keeps wct_db (store_LockUser scan u)"
  "keeps wct_db (store_LockGoal scan u g)"
  "keeps wct_db (store_LockCycle scan u g c)"
  "keeps wct_db (store_LoadCurrentGoalVersion scan u g n)"
  "keeps wct_db (store_HasRunningCycleGeneration scan u g c)"
  "keeps wct_db (getGoalView scan u g)"
  "keeps wct_db (queryCycleView scan u g c)"
  "keeps wct_db (store_FindReviewDraftByCycle scan u g c)"
  unfolding store_FindCompleteCycleReceipt_def store_FindReplanCycleReceipt_def store_LockUser_def
    store_LockGoal_def store_LockCycle_def store_LoadCurrentGoalVersion_def
    store_HasRunningCycleGeneration_def getGoalView_def queryCycleView_def
    store_FindReviewDraftByCycle_def
  by (intro keeps_intros)+

subsection \<open>The unique keys after each statement\<close>

lemma update_cycles_Inr:
  "update_cycles selected change d = Inr (rows, d') \<longleftrightarrow>
     rows = of_nat (length (filter selected (db_pdca_cycles d))) \<and>
     d' = d\<lparr>db_pdca_cycles := map (\<lambda>r. if selected r then change r else r) (db_pdca_cycles d)\<rparr>"
  by (auto simp: update_cycles_def update_rows_def)

lemma update_goals_Inr:
  "update_goals selected change d = Inr (rows, d') \<longleftrightarrow>
     rows = of_nat (length (filter selected (db_goals d))) \<and>
     d' = d\<lparr>db_goals := map (\<lambda>g. if selected g then change g else g) (db_goals d)\<rparr>"
  by (auto simp: update_goals_def update_rows_def)

definition cycle_key :: "PdcaCycleRow \<Rightarrow> pgUUID \<times> pgUUID \<times> pgUUID \<times> i32 \<times> pgUUID" where
  "cycle_key r = (pc_ID r, pc_UserID r, pc_GoalID r, pc_SequenceNumber r, pc_StartOperationID r)"

lemma no_clash_update_cycles:
  assumes "no_clash cycles_clash rows"
    and key: "\<And>r. cycle_key (change r) = cycle_key r"
    and status: "\<And>r. selected r \<Longrightarrow> pc_Status (change r) = ''active'' \<Longrightarrow> pc_Status r = ''active''"
    and one: "\<And>a b. selected a \<Longrightarrow> selected b \<Longrightarrow> sql_eq (pc_ID a) (pc_ID b)"
    and op: "\<And>r x. r \<in> set rows \<Longrightarrow> selected r \<Longrightarrow> x \<in> set rows \<Longrightarrow>
      pc_CompletionOperationID (change r) = pc_CompletionOperationID r \<or>
      \<not> (sql_eq (pc_UserID x) (pc_UserID r) \<and>
         sql_eq (pc_CompletionOperationID x) (pc_CompletionOperationID (change r)))"
  shows "no_clash cycles_clash (map (\<lambda>r. if selected r then change r else r) rows)"
proof (rule no_clash_map[OF assms(1)])
  fix a b
  assume in_rows: "a \<in> set rows" "b \<in> set rows" and free: "\<not> cycles_clash a b"
  have keys: "pc_ID (change r) = pc_ID r" "pc_UserID (change r) = pc_UserID r"
      "pc_GoalID (change r) = pc_GoalID r" "pc_SequenceNumber (change r) = pc_SequenceNumber r"
      "pc_StartOperationID (change r) = pc_StartOperationID r" for r
    using key[of r] by (simp_all add: cycle_key_def)
  have "\<not> (selected a \<and> selected b)" using one[of a b] free by (auto simp: cycles_clash_def)
  then consider "\<not> selected a" "\<not> selected b" | "selected a" "\<not> selected b" | "\<not> selected a" "selected b"
    by blast
  then show "\<not> cycles_clash (if selected a then change a else a) (if selected b then change b else b)"
  proof cases
    case 1
    then show ?thesis using free by simp
  next
    case 2
    have "\<not> (sql_eq (pc_UserID a) (pc_UserID b) \<and>
        sql_eq (pc_CompletionOperationID (change a)) (pc_CompletionOperationID b))"
      using op[OF in_rows(1) 2(1) in_rows(2)] free by (auto simp: cycles_clash_def sql_eq_sym)
    then show ?thesis using free 2 status[of a] by (auto simp: cycles_clash_def keys)
  next
    case 3
    have "\<not> (sql_eq (pc_UserID a) (pc_UserID b) \<and>
        sql_eq (pc_CompletionOperationID a) (pc_CompletionOperationID (change b)))"
      using op[OF in_rows(2) 3(2) in_rows(1)] free by (auto simp: cycles_clash_def)
    then show ?thesis using free 3 status[of b] by (auto simp: cycles_clash_def keys)
  qed
qed

lemma unique_update_cycles:
  assumes "store_unique_keys d" and "update_cycles selected change d = Inr (rows, d')"
    and "\<And>r. cycle_key (change r) = cycle_key r"
    and "\<And>r. selected r \<Longrightarrow> pc_Status (change r) = ''active'' \<Longrightarrow> pc_Status r = ''active''"
    and "\<And>a b. selected a \<Longrightarrow> selected b \<Longrightarrow> sql_eq (pc_ID a) (pc_ID b)"
    and "\<And>r x. r \<in> set (db_pdca_cycles d) \<Longrightarrow> selected r \<Longrightarrow> x \<in> set (db_pdca_cycles d) \<Longrightarrow>
      pc_CompletionOperationID (change r) = pc_CompletionOperationID r \<or>
      \<not> (sql_eq (pc_UserID x) (pc_UserID r) \<and>
         sql_eq (pc_CompletionOperationID x) (pc_CompletionOperationID (change r)))"
  shows "store_unique_keys d'"
proof -
  have unique: "no_clash cycles_clash (db_pdca_cycles d)"
    using assms(1) by (simp add: store_unique_keys_def)
  have "no_clash cycles_clash (map (\<lambda>r. if selected r then change r else r) (db_pdca_cycles d))"
    by (rule no_clash_update_cycles[OF unique]) (fact assms(3-6))+
  then show ?thesis using assms(1,2) by (simp add: store_unique_keys_def update_cycles_Inr)
qed

lemma owned_cycle_same: "owned_cycle c u g a \<Longrightarrow> owned_cycle c u g b \<Longrightarrow> sql_eq (pc_ID a) (pc_ID b)"
  by (auto simp: owned_cycle_def sql_eq_def)

lemma preserves_fun_fail: "preserves P (\<lambda>_. Inl e)"
  by (simp add: preserves_def)

lemma preserves_fun_if:
  assumes "preserves P m" "preserves P n"
  shows "preserves P (\<lambda>s. if c s then m s else n s)"
proof (unfold preserves_def, intro allI impI)
  fix s x t
  assume "P s" "(if c s then m s else n s) = Inr (x, t)"
  then show "P t"
    by (cases "c s") (simp, erule (1) preservesD[OF assms(1)], simp, erule (1) preservesD[OF assms(2)])
qed

lemma preserves_mustUUID: "preserves P (mustUUID scan v)"
  by (simp add: preserves_def)

lemmas store_preserves = preserves_intros preserves_fun_fail preserves_fun_if preserves_prod preserves_mustUUID

lemma preserves_update_cycles:
  assumes "\<And>r. cycle_key (change r) = cycle_key r"
    and "\<And>r. pc_CompletionOperationID (change r) = pc_CompletionOperationID r"
    and "\<And>r. selected r \<Longrightarrow> pc_Status (change r) = ''active'' \<Longrightarrow> pc_Status r = ''active''"
    and "\<And>a b. selected a \<Longrightarrow> selected b \<Longrightarrow> sql_eq (pc_ID a) (pc_ID b)"
  shows "preserves (\<lambda>s. store_unique_keys (wct_db s)) (exec (update_cycles selected change))"
proof (rule preserves_exec)
  fix d rows d'
  assume "store_unique_keys d" "update_cycles selected change d = Inr (rows, d')"
  then show "store_unique_keys d'"
    by (rule unique_update_cycles) (simp_all add: assms)
qed

lemma SaveCycleFrameCAS_unique:
  "preserves (\<lambda>s. store_unique_keys (wct_db s)) (store_SaveCycleFrameCAS scan cycle frame e)"
  unfolding store_SaveCycleFrameCAS_def Let_def
  by (intro store_preserves preserves_update_cycles)
    (auto simp: cycle_key_def dest: owned_cycle_same)

lemma CancelCycleCAS_unique:
  "preserves (\<lambda>s. store_unique_keys (wct_db s)) (store_CancelCycleCAS scan cycle e)"
  unfolding store_CancelCycleCAS_def prod.case
  by (intro store_preserves preserves_update_cycles)
    (auto simp: cycle_key_def dest: owned_cycle_same)

lemma CompleteCycleCAS_unique:
  "preserves (\<lambda>s. store_unique_keys (wct_db s)) (store_CompleteCycleCAS scan cycle e)"
proof -
  have "store_unique_keys d'"
    if unique: "store_unique_keys d"
      and run: "(if list_ex selected (db_pdca_cycles d) \<and>
           list_ex (\<lambda>r. sql_eq (pc_UserID r) user_id \<and> sql_eq (pc_CompletionOperationID r) operation_id)
             (db_pdca_cycles d)
         then Inl unique_violation else update_cycles selected change d) = Inr (rows, d')"
      and change: "\<And>r. cycle_key (change r) = cycle_key r \<and> pc_Status (change r) = ''completed'' \<and>
         pc_CompletionOperationID (change r) = operation_id"
      and selected: "\<And>r. selected r \<Longrightarrow> owned_cycle cycle_id user_id goal_id r"
    for d d' rows selected change cycle_id user_id goal_id operation_id
  proof -
    from run have u: "update_cycles selected change d = Inr (rows, d')"
      and free: "\<not> (list_ex selected (db_pdca_cycles d) \<and>
        list_ex (\<lambda>r. sql_eq (pc_UserID r) user_id \<and> sql_eq (pc_CompletionOperationID r) operation_id)
          (db_pdca_cycles d))"
      by (simp_all split: if_splits)
    show ?thesis
    proof (rule unique_update_cycles[OF unique u])
      fix r x
      assume r: "r \<in> set (db_pdca_cycles d)" "selected r" and x: "x \<in> set (db_pdca_cycles d)"
      from selected[OF r(2)] have "sql_eq (pc_UserID r) user_id" by (simp add: owned_cycle_def)
      then show "pc_CompletionOperationID (change r) = pc_CompletionOperationID r \<or>
        \<not> (sql_eq (pc_UserID x) (pc_UserID r) \<and>
           sql_eq (pc_CompletionOperationID x) (pc_CompletionOperationID (change r)))"
        using r x free change[of r] sql_eq_trans by (auto simp: list_ex_iff)
    next
      fix a b
      assume "selected a" "selected b"
      then show "sql_eq (pc_ID a) (pc_ID b)" using selected owned_cycle_same by blast
    qed (simp_all add: change)
  qed
  then show ?thesis
    unfolding store_CompleteCycleCAS_def prod.case Let_def
    by (intro store_preserves preserves_exec) (fastforce simp: cycle_key_def)
qed

lemma unique_update_goals:
  assumes "\<And>g. gr_ID (change g) = gr_ID g"
  shows "preserves (\<lambda>s. store_unique_keys (wct_db s)) (exec (update_goals selected change))"
proof (rule preserves_exec)
  fix d rows d'
  assume unique: "store_unique_keys d" and "update_goals selected change d = Inr (rows, d')"
  then have d': "d' = d\<lparr>db_goals := map (\<lambda>g. if selected g then change g else g) (db_goals d)\<rparr>"
    by (simp add: update_goals_Inr)
  have "no_clash goals_clash (map (\<lambda>g. if selected g then change g else g) (db_goals d))"
    by (rule no_clash_map) (use unique assms in \<open>auto simp: store_unique_keys_def goals_clash_def\<close>)
  then show "store_unique_keys d'" using unique by (simp add: d' store_unique_keys_def)
qed

lemma ReplanGoalCAS_unique:
  "preserves (\<lambda>s. store_unique_keys (wct_db s)) (store_ReplanGoalCAS scan goal e)"
  unfolding store_ReplanGoalCAS_def by (intro store_preserves unique_update_goals) simp

lemma EnterGoalReviewCAS_unique:
  "preserves (\<lambda>s. store_unique_keys (wct_db s)) (store_EnterGoalReviewCAS scan goal e)"
  unfolding store_EnterGoalReviewCAS_def by (intro store_preserves unique_update_goals) simp

lemma insert_claim_unique:
  assumes "store_unique_keys d" "insert_claim row d = Inr (rows, d')" "pc_CompletionOperationID row = None"
  shows "store_unique_keys d'"
proof (cases "d' = d")
  case False
  with assms(2) have d': "d' = d\<lparr>db_pdca_cycles := db_pdca_cycles d @ [row]\<rparr>"
    and free: "\<And>r. r \<in> set (db_pdca_cycles d) \<Longrightarrow>
      \<not> (sql_eq (pc_UserID r) (pc_UserID row) \<and> sql_eq (pc_StartOperationID r) (pc_StartOperationID row)) \<and>
      \<not> (sql_eq (pc_ID r) (pc_ID row) \<or> sql_eq (pc_GoalID r) (pc_GoalID row) \<and>
          (pc_SequenceNumber r = pc_SequenceNumber row \<or>
           pc_Status r = ''active'' \<and> pc_Status row = ''active''))"
    by (auto simp: insert_claim_def Let_def list_ex_iff split: if_splits)
  have "no_clash cycles_clash (db_pdca_cycles d @ [row])"
    using assms(1) free by (auto simp: no_clash_append store_unique_keys_def cycles_clash_def assms(3))
  then show ?thesis using assms(1) by (simp add: d' store_unique_keys_def)
qed (use assms in simp)

lemma TryInsertCycleClaim_unique:
  "preserves (\<lambda>s. store_unique_keys (wct_db s)) (store_TryInsertCycleClaim scan cycle)"
  unfolding store_TryInsertCycleClaim_def
  by (intro store_preserves preserves_exec, erule (1) insert_claim_unique) (simp add: claim_row_def)

lemma InsertReviewDraft_unique:
  "preserves (\<lambda>s. store_unique_keys (wct_db s)) (store_InsertReviewDraft scan draft)"
  unfolding store_InsertReviewDraft_def prod.case Let_def
  by (intro store_preserves preserves_exec)
    (auto simp: store_unique_keys_def no_clash_append drafts_clash_def signals_clash_def list_ex_iff
      split: if_splits)

lemma find_schedule_None: "find_schedule d c = None \<longleftrightarrow>
    (\<forall>r\<in>set (db_pdca_cycle_review_schedules d). \<not> sql_eq (sch_CycleID r) c)"
  by (auto simp: find_schedule_def find_None_iff)

text \<open>What the upsert of a review schedule does to its table: nothing, a new row, or new values in the rows it
  selects.\<close>

definition upsert_schedule :: "ReviewScheduleRow \<Rightarrow> i64 \<Rightarrow> Database \<Rightarrow> ReviewScheduleRow list \<Rightarrow> bool" where
  "upsert_schedule row expected d schedules \<longleftrightarrow>
     schedules = db_pdca_cycle_review_schedules d \<or>
     find_schedule d (sch_CycleID row) = None \<and>
       schedules = db_pdca_cycle_review_schedules d @ [row] \<or>
     schedules = map (\<lambda>r. if sql_eq (sch_CycleID r) (sch_CycleID row) \<and>
         sch_ReviewScheduleRevision r = expected then row else r) (db_pdca_cycle_review_schedules d)"

lemma SaveCycleReviewScheduleCAS_upsert:
  assumes "store_SaveCycleReviewScheduleCAS scan cycle e s = Inr (rows, t)"
  obtains row schedules where "sch_CycleID row = scan (cy_ID cycle)"
    "upsert_schedule row e (wct_db s) schedules"
    "wct_db t = (wct_db s)\<lparr>db_pdca_cycle_review_schedules := schedules\<rparr>"
proof -
  from assms obtain date where date: "cycleReviewDateParam (cy_ReviewDate cycle) = Inr date"
    by (auto simp: store_SaveCycleReviewScheduleCAS_def split: sum.splits if_splits)
  define row where "row = \<lparr>sch_CycleID = scan (cy_ID cycle), sch_ReviewDate = date,
    sch_ReviewScheduleRevision = cy_ReviewScheduleRevision cycle\<rparr>"
  let ?schedules = "db_pdca_cycle_review_schedules (wct_db t)"
  have "upsert_schedule row e (wct_db s) ?schedules \<and>
      wct_db t = (wct_db s)\<lparr>db_pdca_cycle_review_schedules := ?schedules\<rparr>"
    using assms
    by (auto simp: store_SaveCycleReviewScheduleCAS_def date Let_def upsert_schedule_def row_def
        update_rows_def split: if_splits)
  then show thesis using that[of row ?schedules] by (simp add: row_def)
qed

lemma upsert_schedule_no_clash:
  assumes "no_clash schedules_clash (db_pdca_cycle_review_schedules d)"
    and "upsert_schedule row e d schedules"
  shows "no_clash schedules_clash schedules"
  using assms(2) unfolding upsert_schedule_def
proof (elim disjE conjE)
  assume "find_schedule d (sch_CycleID row) = None"
    and "schedules = db_pdca_cycle_review_schedules d @ [row]"
  then show ?thesis
    using assms(1) by (auto simp: no_clash_append schedules_clash_def find_schedule_None)
next
  assume "schedules = map (\<lambda>r. if sql_eq (sch_CycleID r) (sch_CycleID row) \<and>
      sch_ReviewScheduleRevision r = e then row else r) (db_pdca_cycle_review_schedules d)"
  then show ?thesis
    by (simp, intro no_clash_map[OF assms(1)])
      (auto simp: schedules_clash_def sql_eq_def split: if_splits)
qed (use assms in simp)

lemma SaveCycleReviewScheduleCAS_unique:
  "preserves (\<lambda>s. store_unique_keys (wct_db s)) (store_SaveCycleReviewScheduleCAS scan cycle e)"
proof (unfold preserves_def, intro allI impI)
  fix s x t
  assume unique: "store_unique_keys (wct_db s)"
    and "store_SaveCycleReviewScheduleCAS scan cycle e s = Inr (x, t)"
  then obtain row schedules where "upsert_schedule row e (wct_db s) schedules"
    and "wct_db t = (wct_db s)\<lparr>db_pdca_cycle_review_schedules := schedules\<rparr>"
    by (metis SaveCycleReviewScheduleCAS_upsert)
  then show "store_unique_keys (wct_db t)"
    using unique upsert_schedule_no_clash by (auto simp: store_unique_keys_def)
qed

subsection \<open>The rows of the other Users\<close>

text \<open>The rows a User does not own; a review schedule or the success signal of a draft belongs to the User of the
  Cycle or draft it refers to.\<close>

record ForeignRows =
  fr_users :: "UserRow list"
  fr_sessions :: "SessionRow list"
  fr_bootstraps :: "AnonymousBootstrapRow list"
  fr_identities :: "AuthIdentityRow list"
  fr_goals :: "GoalRow list"
  fr_versions :: "StoredVersionRow list"
  fr_version_signals :: "(pgUUID \<times> string) list"
  fr_cycles :: "PdcaCycleRow list"
  fr_schedules :: "ReviewScheduleRow list"
  fr_drafts :: "StoredDraftRow list"
  fr_draft_signals :: "(pgUUID \<times> string) list"
  fr_generations :: "GenerationRow list"
  fr_usages :: "UsageRow list"
  fr_budget :: "BudgetRow list"
  fr_receipts :: "GoalDeleteReceiptRow list"
  fr_buckets :: "RateBucketRow list"
  fr_guards :: "RateLimitGuardRow list"

definition cycle_of_other :: "pgUUID \<Rightarrow> PdcaCycleRow list \<Rightarrow> pgUUID \<Rightarrow> bool" where
  "cycle_of_other user cycles cycle_id \<longleftrightarrow>
     list_ex (\<lambda>c. sql_eq (pc_ID c) cycle_id \<and> \<not> sql_eq (pc_UserID c) user) cycles"

definition draft_of_other :: "pgUUID \<Rightarrow> StoredDraftRow list \<Rightarrow> pgUUID \<Rightarrow> bool" where
  "draft_of_other user drafts draft_id \<longleftrightarrow>
     list_ex (\<lambda>r. sql_eq (sd_ID r) draft_id \<and> \<not> sql_eq (sd_UserID r) user) drafts"

definition foreign_rows :: "pgUUID \<Rightarrow> Database \<Rightarrow> ForeignRows" where
  "foreign_rows user d =
     \<lparr>fr_users = db_users d, fr_sessions = db_sessions d, fr_bootstraps = db_anonymous_bootstraps d,
      fr_identities = db_auth_identities d,
      fr_goals = filter (\<lambda>g. \<not> sql_eq (gr_UserID g) user) (db_goals d),
      fr_versions = db_goal_versions d,
      fr_version_signals = db_goal_version_success_signals d,
      fr_cycles = filter (\<lambda>c. \<not> sql_eq (pc_UserID c) user) (db_pdca_cycles d),
      fr_schedules = filter (\<lambda>r. cycle_of_other user (db_pdca_cycles d) (sch_CycleID r))
        (db_pdca_cycle_review_schedules d),
      fr_drafts = filter (\<lambda>r. \<not> sql_eq (sd_UserID r) user) (db_goal_drafts d),
      fr_draft_signals = filter (\<lambda>r. draft_of_other user (db_goal_drafts d) (fst r))
        (db_goal_draft_success_signals d),
      fr_generations = db_ai_generations d, fr_usages = db_ai_usage_events d,
      fr_budget = db_ai_budget_monthly d, fr_receipts = db_goal_delete_receipts d,
      fr_buckets = db_abuse_rate_buckets d, fr_guards = db_anonymous_rate_limit_guards d\<rparr>"

lemma filter_update_rows:
  assumes "\<And>r. selected r \<Longrightarrow> \<not> P r \<and> \<not> P (change r)"
  shows "filter P (map (\<lambda>r. if selected r then change r else r) rows) = filter P rows"
  using assms by (induction rows) auto

lemma cycle_of_other_update:
  assumes "\<And>r. cycle_key (change r) = cycle_key r"
  shows "cycle_of_other user (map (\<lambda>r. if selected r then change r else r) cycles) = cycle_of_other user cycles"
proof -
  have "pc_ID (change r) = pc_ID r" "pc_UserID (change r) = pc_UserID r" for r
    using assms[of r] by (simp_all add: cycle_key_def)
  then show ?thesis by (intro ext) (induction cycles, auto simp: cycle_of_other_def)
qed

lemma foreign_update_cycles:
  assumes "\<And>r. cycle_key (change r) = cycle_key r" "\<And>r. selected r \<Longrightarrow> sql_eq (pc_UserID r) user"
    and "update_cycles selected change d = Inr (rows, d')"
  shows "foreign_rows user d' = foreign_rows user d"
proof -
  have key: "pc_UserID (change r) = pc_UserID r" for r
    using assms(1)[of r] by (simp add: cycle_key_def)
  have "filter (\<lambda>c. \<not> sql_eq (pc_UserID c) user) (map (\<lambda>r. if selected r then change r else r) rs) =
      filter (\<lambda>c. \<not> sql_eq (pc_UserID c) user) rs" for rs
    by (rule filter_update_rows) (simp add: key assms(2))
  then show ?thesis using assms(3)
    by (auto simp: foreign_rows_def update_cycles_Inr cycle_of_other_update[OF assms(1)])
qed

lemma foreign_update_goals:
  assumes "\<And>g. gr_UserID (change g) = gr_UserID g" "\<And>g. selected g \<Longrightarrow> sql_eq (gr_UserID g) user"
    and "update_goals selected change d = Inr (rows, d')"
  shows "foreign_rows user d' = foreign_rows user d"
proof -
  have "filter (\<lambda>c. \<not> sql_eq (gr_UserID c) user) (map (\<lambda>r. if selected r then change r else r) rs) =
      filter (\<lambda>c. \<not> sql_eq (gr_UserID c) user) rs" for rs
    by (rule filter_update_rows) (simp add: assms(1,2))
  then show ?thesis using assms(3) by (auto simp: foreign_rows_def update_goals_Inr)
qed

lemma foreign_append_cycle:
  assumes "sql_eq (pc_UserID row) user"
  shows "foreign_rows user (d\<lparr>db_pdca_cycles := db_pdca_cycles d @ [row]\<rparr>) = foreign_rows user d"
  using assms by (simp add: foreign_rows_def cycle_of_other_def)

lemma keeps_fun_fail [keeps_intros]: "keeps f (\<lambda>_. Inl e)"
  by (simp add: keeps_def)

lemma keeps_fun_if [keeps_intros]: "keeps f m \<Longrightarrow> keeps f n \<Longrightarrow> keeps f (\<lambda>s. if c s then m s else n s)"
  by (simp add: keeps_def)

lemma keeps_bind_UUID:
  assumes "\<And>x. scan v = Some x \<Longrightarrow> keeps f (g (Some x))"
  shows "keeps f (tx_bind (mustUUID scan v) g)"
  by (rule keeps_bind[OF keeps_mustUUID]) (use assms in auto)

lemmas own_intros =
  keeps_bind_UUID keeps_fun_fail keeps_fun_if keeps_prod keeps_pure keeps_bind keeps_if keeps_option

lemma keeps_exec_if: "keeps f (exec u) \<Longrightarrow> keeps f (exec (\<lambda>d. if c d then Inl err else u d))"
  by (auto simp: keeps_def exec_def)

lemma keeps_update_cycles:
  assumes "\<And>r. cycle_key (change r) = cycle_key r" "\<And>r. selected r \<Longrightarrow> sql_eq (pc_UserID r) user"
  shows "keeps (\<lambda>s. foreign_rows user (wct_db s)) (exec (update_cycles selected change))"
  by (rule keeps_exec) (rule foreign_update_cycles[OF assms])

lemma keeps_update_goals:
  assumes "\<And>g. gr_UserID (change g) = gr_UserID g" "\<And>g. selected g \<Longrightarrow> sql_eq (gr_UserID g) user"
  shows "keeps (\<lambda>s. foreign_rows user (wct_db s)) (exec (update_goals selected change))"
  by (rule keeps_exec) (rule foreign_update_goals[OF assms])

lemma SaveCycleFrameCAS_foreign:
  "keeps (\<lambda>s. foreign_rows (scan (cy_UserID cycle)) (wct_db s)) (store_SaveCycleFrameCAS scan cycle frame e)"
  unfolding store_SaveCycleFrameCAS_def Let_def
  by (intro own_intros keeps_update_cycles) (simp_all add: cycle_key_def owned_cycle_def)

lemma CancelCycleCAS_foreign:
  "keeps (\<lambda>s. foreign_rows (scan (cy_UserID cycle)) (wct_db s)) (store_CancelCycleCAS scan cycle e)"
  unfolding store_CancelCycleCAS_def prod.case
  by (intro own_intros keeps_update_cycles) (simp_all add: cycle_key_def owned_cycle_def)

lemma CompleteCycleCAS_foreign:
  "keeps (\<lambda>s. foreign_rows (scan (cy_UserID cycle)) (wct_db s)) (store_CompleteCycleCAS scan cycle e)"
  unfolding store_CompleteCycleCAS_def prod.case Let_def
  by (intro own_intros keeps_exec_if keeps_update_cycles) (simp_all add: cycle_key_def owned_cycle_def)

lemma ReplanGoalCAS_foreign:
  "keeps (\<lambda>s. foreign_rows (scan (go_UserID goal)) (wct_db s)) (store_ReplanGoalCAS scan goal e)"
  unfolding store_ReplanGoalCAS_def
  by (intro own_intros keeps_update_goals) (simp_all add: owned_goal_def)

lemma EnterGoalReviewCAS_foreign:
  "keeps (\<lambda>s. foreign_rows (scan (go_UserID goal)) (wct_db s)) (store_EnterGoalReviewCAS scan goal e)"
  unfolding store_EnterGoalReviewCAS_def
  by (intro own_intros keeps_update_goals) (simp_all add: owned_goal_def)

lemma TryInsertCycleClaim_foreign:
  "keeps (\<lambda>s. foreign_rows (scan (cy_UserID cycle)) (wct_db s)) (store_TryInsertCycleClaim scan cycle)"
  unfolding store_TryInsertCycleClaim_def
  by (intro own_intros keeps_exec)
    (auto simp: insert_claim_def Let_def claim_row_def split: if_splits intro!: foreign_append_cycle)

lemma keeps_foreign_signals:
  assumes "\<And>d rows d'. u d = Inr (rows, d') \<Longrightarrow> d' = d \<or> (\<exists>signal. \<not> draft_of_other user (db_goal_drafts d) (fst signal) \<and>
      d' = d\<lparr>db_goal_draft_success_signals := db_goal_draft_success_signals d @ [signal]\<rparr>)"
  shows "keeps (\<lambda>s. foreign_rows user (wct_db s)) (exec u)"
proof (rule keeps_exec)
  fix d rows d'
  assume "u d = Inr (rows, d')"
  from assms[OF this] show "foreign_rows user d' = foreign_rows user d" by (auto simp: foreign_rows_def)
qed

lemma InsertReviewDraft_foreign:
  "keeps (\<lambda>s. foreign_rows (scan (dr_UserID draft)) (wct_db s)) (store_InsertReviewDraft scan draft)"
proof (unfold keeps_def, intro allI impI)
  fix s x t
  let ?user = "scan (dr_UserID draft)"
  assume run: "store_InsertReviewDraft scan draft s = Inr (x, t)"
  from run obtain goalID versionID cycleID where
    refs: "dr_GoalID draft = Some goalID" "dr_BaseGoalVersionID draft = Some versionID"
      "dr_ReviewCycleID draft = Some cycleID"
    by (auto simp: store_InsertReviewDraft_def split: option.splits)
  let ?row = "\<lparr>sd_ID = scan (dr_ID draft), sd_UserID = ?user, sd_DraftType = ''review'',
    sd_GoalID = scan goalID, sd_BaseGoalVersionID = scan versionID,
    sd_ReviewCycleID = scan cycleID, sd_Body = dr_Body draft, sd_Revision = dr_Revision draft,
    sd_CreatedAt = stored_time (timestamptz (dr_CreatedAt draft)),
    sd_UpdatedAt = stored_time (timestamptz (dr_UpdatedAt draft))\<rparr>"
  let ?signals = "case dr_SuccessSignal draft of None \<Rightarrow> [] | Some signal \<Rightarrow> [(scan (dr_ID draft), signal)]"
  obtain row signals where
    row: "sd_UserID row = ?user" "?user \<noteq> None" and
    free: "\<And>r. r \<in> set (db_goal_drafts (wct_db s)) \<Longrightarrow> \<not> sql_eq (sd_ID r) (sd_ID row)" and
    signals: "signals = [] \<or> (\<exists>signal. signals = [signal] \<and> fst signal = sd_ID row)" and
    t: "wct_db t = (wct_db s)\<lparr>db_goal_drafts := db_goal_drafts (wct_db s) @ [row],
          db_goal_draft_success_signals := db_goal_draft_success_signals (wct_db s) @ signals\<rparr>"
    using run that[of ?row ?signals]
    by (auto simp: store_InsertReviewDraft_def refs Let_def list_ex_iff
        split: option.splits if_splits)
  have "\<not> draft_of_other ?user (db_goal_drafts (wct_db s)) (sd_ID row)"
    using free by (auto simp: draft_of_other_def list_ex_iff)
  then show "foreign_rows ?user (wct_db t) = foreign_rows ?user (wct_db s)"
    using row signals by (auto simp: t foreign_rows_def draft_of_other_def sql_eq_def)
qed

definition owns_cycle :: "(string \<Rightarrow> string option) \<Rightarrow> Database \<Rightarrow> string \<Rightarrow> string \<Rightarrow> bool" where
  "owns_cycle scan d userID cycleID \<longleftrightarrow>
     list_ex (\<lambda>c. sql_eq (pc_ID c) (scan cycleID) \<and> sql_eq (pc_UserID c) (scan userID)) (db_pdca_cycles d)"

lemma LockCycle_owns:
  assumes "store_LockCycle scan u g c s = Inr (current, t)"
  shows "owns_cycle scan (wct_db s) u c"
proof -
  from assms obtain row where
    "find (owned_cycle (scan c) (scan u) (scan g)) (db_pdca_cycles (wct_db s)) = Some row"
    by (auto simp: store_LockCycle_def split: option.splits)
  from find_SomeD[OF this] show ?thesis by (auto simp: owns_cycle_def list_ex_iff owned_cycle_def)
qed

lemma SaveCycleReviewScheduleCAS_foreign:
  assumes run: "store_SaveCycleReviewScheduleCAS scan cycle e s = Inr (rows, t)"
    and unique: "store_unique_keys (wct_db s)"
    and owns: "owns_cycle scan (wct_db s) (cy_UserID cycle) (cy_ID cycle)"
  shows "foreign_rows (scan (cy_UserID cycle)) (wct_db t) = foreign_rows (scan (cy_UserID cycle)) (wct_db s)"
proof -
  let ?user = "scan (cy_UserID cycle)" and ?id = "scan (cy_ID cycle)" and ?d = "wct_db s"
  obtain row schedules where row: "sch_CycleID row = ?id" and upsert: "upsert_schedule row e ?d schedules"
    and t: "wct_db t = ?d\<lparr>db_pdca_cycle_review_schedules := schedules\<rparr>"
    by (rule SaveCycleReviewScheduleCAS_upsert[OF run])
  from owns obtain c where c: "c \<in> set (db_pdca_cycles ?d)" "sql_eq (pc_ID c) ?id" "sql_eq (pc_UserID c) ?user"
    by (auto simp: owns_cycle_def list_ex_iff)
  have no_clash: "no_clash cycles_clash (db_pdca_cycles ?d)" using unique by (simp add: store_unique_keys_def)
  have mine: "\<not> cycle_of_other ?user (db_pdca_cycles ?d) ?id"
  proof
    assume "cycle_of_other ?user (db_pdca_cycles ?d) ?id"
    then obtain b where b: "b \<in> set (db_pdca_cycles ?d)" "sql_eq (pc_ID b) ?id" "\<not> sql_eq (pc_UserID b) ?user"
      by (auto simp: cycle_of_other_def list_ex_iff)
    have "cycles_clash c b" using b(2) c(2) by (auto simp: cycles_clash_def sql_eq_def)
    from no_clashD[OF no_clash c(1) b(1) this clash_sym] b(3) c(3) show False by simp
  qed
  have other: "\<not> cycle_of_other ?user (db_pdca_cycles ?d) (sch_CycleID r)" if "sql_eq (sch_CycleID r) ?id" for r
    using that mine by (simp add: sql_eq_def)
  have "filter (\<lambda>r. cycle_of_other ?user (db_pdca_cycles ?d) (sch_CycleID r)) schedules =
      filter (\<lambda>r. cycle_of_other ?user (db_pdca_cycles ?d) (sch_CycleID r)) (db_pdca_cycle_review_schedules ?d)"
    using upsert unfolding upsert_schedule_def
    by (elim disjE conjE) (simp, simp add: row mine,
      simp only:, rule filter_update_rows, simp add: row mine other)
  then show ?thesis by (simp add: t foreign_rows_def)
qed

subsection \<open>The recorded operation keys\<close>

definition completion_hash :: "(string \<Rightarrow> string option) \<Rightarrow> Database \<Rightarrow> string \<Rightarrow> string \<Rightarrow> string option" where
  "completion_hash scan d userID operationID =
     (case find (\<lambda>c. sql_eq (pc_UserID c) (scan userID) \<and>
                     sql_eq (pc_CompletionOperationID c) (scan operationID)) (db_pdca_cycles d) of
        None \<Rightarrow> None | Some c \<Rightarrow> pc_CompletionRequestHash c)"

definition claim_hash :: "(string \<Rightarrow> string option) \<Rightarrow> Database \<Rightarrow> string \<Rightarrow> string \<Rightarrow> string option" where
  "claim_hash scan d userID operationID =
     map_option pc_StartRequestHash
       (find (\<lambda>c. sql_eq (pc_UserID c) (scan userID) \<and>
                  sql_eq (pc_StartOperationID c) (scan operationID)) (db_pdca_cycles d))"

lemma FindCompleteCycleReceipt_hash:
  "store_FindCompleteCycleReceipt scan u op s = Inr (receipt, t) \<Longrightarrow>
     map_option crc_RequestHash receipt = completion_hash scan (wct_db s) u op"
  by (auto simp: store_FindCompleteCycleReceipt_def completion_hash_def completeCycleReceiptFromSQLC_def
      Let_def split: option.splits if_splits)

lemma FindReplanCycleReceipt_hash:
  "store_FindReplanCycleReceipt scan u op s = Inr (receipt, t) \<Longrightarrow>
     map_option rrc_RequestHash receipt = claim_hash scan (wct_db s) u op"
  by (auto simp: store_FindReplanCycleReceipt_def claim_hash_def replanCycleReceiptFromSQLC_def
      Let_def split: option.splits if_splits)

lemma find_None_append: "find P xs = None \<Longrightarrow> find P (xs @ ys) = find P ys"
  by (induction xs) (auto split: if_splits)

lemma find_all:
  assumes "\<And>x. x \<in> set xs \<Longrightarrow> P x \<Longrightarrow> f x = y" "\<exists>x\<in>set xs. P x"
  shows "\<exists>x. find P xs = Some x \<and> f x = y"
  using assms by (induction xs) auto

lemma CompleteCycleCAS_records:
  assumes run: "store_CompleteCycleCAS scan cycle e s = Inr (1, t)"
    and op: "cy_CompletionOperationID cycle = Some op"
  shows "completion_hash scan (wct_db t) (cy_UserID cycle) op = cy_CompletionRequestHash cycle"
proof -
  let ?user = "scan (cy_UserID cycle)" and ?op = "scan op" and ?rows = "db_pdca_cycles (wct_db s)"
  let ?sel = "\<lambda>r. owned_cycle (scan (cy_ID cycle)) ?user (scan (cy_GoalID cycle)) r \<and>
    pc_Status r = ''active'' \<and> pc_ContentRevision r = e \<and>
    pc_CompletionOperationID r = None \<and> pc_CompletionRequestHash r = None"
  from run op obtain hash finished where
    hash: "cy_CompletionRequestHash cycle = Some hash" and finished: "cy_CompletedAt cycle = Some finished"
    by (auto simp: store_CompleteCycleCAS_def split: option.splits)
  let ?change = "\<lambda>r. r\<lparr>pc_Status := ''completed'', pc_CompletedAt := stored_time (timestamptz finished),
    pc_CompletionOperationID := ?op, pc_CompletionRequestHash := Some hash,
    pc_UpdatedAt := stored_time (timestamptz (cy_UpdatedAt cycle))\<rparr>"
  have scanned: "?op \<noteq> None" and "update_cycles ?sel ?change (wct_db s) = Inr (1, wct_db t)" and
    "\<not> (list_ex ?sel ?rows \<and>
       list_ex (\<lambda>r. sql_eq (pc_UserID r) ?user \<and> sql_eq (pc_CompletionOperationID r) ?op) ?rows)"
    using run by (auto simp: store_CompleteCycleCAS_def op hash finished Let_def split: if_splits)
  then obtain selected change where
    u: "update_cycles selected change (wct_db s) = Inr (1, wct_db t)" and
    sel: "\<And>r. selected r \<Longrightarrow> sql_eq (pc_UserID r) ?user" and
    change: "\<And>r. pc_UserID (change r) = pc_UserID r \<and> pc_CompletionOperationID (change r) = ?op \<and>
       pc_CompletionRequestHash (change r) = Some hash" and
    free: "\<not> (list_ex selected ?rows \<and>
       list_ex (\<lambda>r. sql_eq (pc_UserID r) ?user \<and> sql_eq (pc_CompletionOperationID r) ?op) ?rows)"
    using that[of ?sel ?change] by (simp add: owned_cycle_def)
  have "filter selected ?rows \<noteq> []" using u by (auto simp: update_cycles_Inr)
  then obtain r where r: "r \<in> set ?rows" "selected r" by (auto simp: filter_empty_conv)
  have t: "db_pdca_cycles (wct_db t) = map (\<lambda>r. if selected r then change r else r) ?rows"
    using u by (simp add: update_cycles_Inr)
  have "\<exists>x. find (\<lambda>c. sql_eq (pc_UserID c) ?user \<and> sql_eq (pc_CompletionOperationID c) ?op)
      (db_pdca_cycles (wct_db t)) = Some x \<and> pc_CompletionRequestHash x = Some hash"
  proof (rule find_all)
    fix x
    assume "x \<in> set (db_pdca_cycles (wct_db t))"
      "sql_eq (pc_UserID x) ?user \<and> sql_eq (pc_CompletionOperationID x) ?op"
    then show "pc_CompletionRequestHash x = Some hash"
      using free r change by (auto simp: t list_ex_iff split: if_splits)
  next
    show "\<exists>x\<in>set (db_pdca_cycles (wct_db t)).
        sql_eq (pc_UserID x) ?user \<and> sql_eq (pc_CompletionOperationID x) ?op"
    proof (rule bexI)
      show "change r \<in> set (db_pdca_cycles (wct_db t))" using r by (force simp: t)
      show "sql_eq (pc_UserID (change r)) ?user \<and> sql_eq (pc_CompletionOperationID (change r)) ?op"
        using change[of r] sel[OF r(2)] scanned unfolding sql_eq_def by metis
    qed
  qed
  then show ?thesis by (auto simp: completion_hash_def hash)
qed

lemma TryInsertCycleClaim_records:
  assumes "store_TryInsertCycleClaim scan cycle s = Inr (1, t)"
  shows "claim_hash scan (wct_db t) (cy_UserID cycle) (cy_StartOperationID cycle) = Some (cy_StartRequestHash cycle)"
proof -
  let ?user = "scan (cy_UserID cycle)" and ?op = "scan (cy_StartOperationID cycle)"
  let ?key = "\<lambda>c. sql_eq (pc_UserID c) ?user \<and> sql_eq (pc_StartOperationID c) ?op"
  define row where "row = claim_row (scan (cy_ID cycle)) ?user (scan (cy_GoalID cycle))
    (scan (cy_GoalVersionID cycle)) ?op cycle"
  have row: "pc_UserID row = ?user" "pc_StartOperationID row = ?op"
      "pc_StartRequestHash row = cy_StartRequestHash cycle"
    by (simp_all add: row_def claim_row_def)
  from assms have scanned: "?user \<noteq> None" "?op \<noteq> None"
    and "\<exists>d. insert_claim row (wct_db s) = Inr (1, d) \<and> wct_db t = d"
    by (auto simp: store_TryInsertCycleClaim_def row_def)
  then obtain d where claim: "insert_claim row (wct_db s) = Inr (1, d)" and d: "wct_db t = d"
    by blast
  from claim have free: "\<And>r. r \<in> set (db_pdca_cycles (wct_db s)) \<Longrightarrow> \<not> ?key r"
    and t: "db_pdca_cycles (wct_db t) = db_pdca_cycles (wct_db s) @ [row]"
    by (auto simp: d insert_claim_def Let_def list_ex_iff row split: if_splits)
  have "find ?key (db_pdca_cycles (wct_db s)) = None" using free by (simp add: find_None_iff)
  then have "find ?key (db_pdca_cycles (wct_db t)) = Some row"
    using row scanned by (simp add: t find_None_append sql_eq_def)
  then show ?thesis by (simp add: claim_hash_def row)
qed

lemma completion_kept_by:
  "keeps (\<lambda>s. completion_hash scan (wct_db s)) (store_InsertReviewDraft scan draft)"
  "keeps (\<lambda>s. completion_hash scan (wct_db s)) (store_EnterGoalReviewCAS scan goal e)"
  unfolding store_InsertReviewDraft_def store_EnterGoalReviewCAS_def prod.case Let_def
  by (intro own_intros keeps_exec; auto simp: completion_hash_def update_goals_Inr split: if_splits)+

lemma claim_kept_by:
  "keeps (\<lambda>s. claim_hash scan (wct_db s)) (store_ReplanGoalCAS scan goal e)"
  unfolding store_ReplanGoalCAS_def
  by (intro own_intros keeps_exec) (auto simp: claim_hash_def update_goals_Inr)

subsection \<open>The interpretation\<close>

lemmas store_statements =
  FindCompleteCycleReceipt_hash FindReplanCycleReceipt_hash LockCycle_owns CompleteCycleCAS_records
  TryInsertCycleClaim_records SaveCycleReviewScheduleCAS_foreign

interpretation store: cycle_tx_laws
  "store_CycleTx scan" wct_db store_unique_keys "\<lambda>u. foreign_rows (scan u)" "owns_cycle scan"
  "completion_hash scan" "claim_hash scan" for scan
  by unfold_locales
    (simp_all add: store_CycleTx_def store_reads store_statements
      SaveCycleFrameCAS_unique SaveCycleReviewScheduleCAS_unique CompleteCycleCAS_unique
      CancelCycleCAS_unique TryInsertCycleClaim_unique ReplanGoalCAS_unique InsertReviewDraft_unique
      EnterGoalReviewCAS_unique SaveCycleFrameCAS_foreign CompleteCycleCAS_foreign
      CancelCycleCAS_foreign TryInsertCycleClaim_foreign ReplanGoalCAS_foreign
      InsertReviewDraft_foreign EnterGoalReviewCAS_foreign completion_kept_by claim_kept_by)

end
