(* ===== verification/GoalUseCases.thy ===== *)
theory GoalUseCases
  imports ReviewTransitions
begin

section \<open>The use cases of Goals: listing and deletion\<close>

text \<open>
  Model of \<open>workspace/goal_ports.go\<close> and \<open>workspace/goal_use_cases.go\<close>.  The JSON encoding of a
  cursor that contains a time is a parameter together with its decoding; \<open>rat_sign\<close> is the sign
  of a decimal as \<open>math/big\<close> reads it, \<open>None\<close> where it reads none.
\<close>

type_synonym goal_list_scope = string

abbreviation GoalListAll :: goal_list_scope where "GoalListAll \<equiv> ''all''"
abbreviation GoalListProgressing :: goal_list_scope where "GoalListProgressing \<equiv> ''progressing''"
abbreviation GoalListHistory :: goal_list_scope where "GoalListHistory \<equiv> ''history''"

record GoalListKeyset =
  glk_Category :: "16 word"
  glk_SortTime :: gotime
  glk_GoalID :: string

record GoalListQuery =
  glq_UserID :: string
  glq_Scope :: goal_list_scope
  glq_After :: "GoalListKeyset option"
  glq_FetchLimit :: int

record GoalQueryRow =
  gqr_View :: GoalView
  gqr_Category :: "16 word"
  gqr_SortTime :: gotime

record GoalQueryRepository =
  QueryGoalRows :: "GoalListQuery \<Rightarrow> workspace_error + GoalQueryRow list"
  QueryGoal :: "string \<Rightarrow> string \<Rightarrow> workspace_error + GoalView"

record goalCursorPayload =
  gcp_Scope :: string
  gcp_Category :: "16 word option"
  gcp_Time :: "gotime option"
  gcp_Sequence :: "i32 option"
  gcp_ID :: string

subsection \<open>Cursors\<close>

definition goalCursorCategoryMatchesScope :: "16 word \<Rightarrow> goal_list_scope \<Rightarrow> bool" where
  "goalCursorCategoryMatchesScope category scope \<longleftrightarrow>
     (if scope = GoalListAll then category = 0 \<or> category = 1
      else if scope = GoalListProgressing then category = 0
      else if scope = GoalListHistory then category = 1
      else False)"

definition encodeGoalCursor ::
  "(string \<Rightarrow> string \<Rightarrow> string) \<Rightarrow> (goalCursorPayload \<Rightarrow> string) \<Rightarrow> string \<Rightarrow> goal_list_scope \<Rightarrow>
   GoalListKeyset \<Rightarrow> string" where
  "encodeGoalCursor hmac marshal key scope keyset =
     seal_cursor hmac key (marshal
       \<lparr>gcp_Scope = scope, gcp_Category = Some (glk_Category keyset),
        gcp_Time = Some (glk_SortTime keyset), gcp_Sequence = None, gcp_ID = glk_GoalID keyset\<rparr>)"

definition decodeGoalCursor ::
  "(string \<Rightarrow> string \<Rightarrow> string) \<Rightarrow> (string \<Rightarrow> goalCursorPayload option) \<Rightarrow> string \<Rightarrow> string \<Rightarrow>
   goal_list_scope \<Rightarrow> workspace_error + GoalListKeyset option" where
  "decodeGoalCursor hmac unmarshal key encoded scope =
     (if trim_space encoded = [] then Inr None
      else case open_cursor hmac key encoded of
        None \<Rightarrow> Inl ErrInvalidCursor
      | Some body \<Rightarrow>
          (case unmarshal body of
             None \<Rightarrow> Inl ErrInvalidCursor
           | Some payload \<Rightarrow>
               (case (gcp_Category payload, gcp_Time payload) of
                  (Some category, Some sort_time) \<Rightarrow>
                    if gcp_Scope payload \<noteq> scope \<or> time_is_zero sort_time \<or>
                       gcp_Sequence payload \<noteq> None \<or> \<not> IsCanonicalUUIDv7 (gcp_ID payload) \<or>
                       \<not> goalCursorCategoryMatchesScope category scope
                    then Inl ErrInvalidCursor
                    else Inr (Some \<lparr>glk_Category = category, glk_SortTime = sort_time,
                                    glk_GoalID = gcp_ID payload\<rparr>)
                | _ \<Rightarrow> Inl ErrInvalidCursor)))"

subsection \<open>Listing\<close>

definition goalCategory :: "goal_status \<Rightarrow> workspace_error + 16 word" where
  "goalCategory status =
     (if status = StatusActiveCycle \<or> status = StatusGoalReview then Inr 0
      else if status = StatusAchieved \<or> status = StatusEnded then Inr 1
      else Inl (goalInvariantError ''Goal status is invalid''))"

definition goalQueryRowFollows :: "GoalQueryRow \<Rightarrow> GoalQueryRow \<Rightarrow> bool" where
  "goalQueryRowFollows previous current \<longleftrightarrow>
     (if gqr_Category current \<noteq> gqr_Category previous
      then sint (gqr_Category current) > sint (gqr_Category previous)
      else if \<not> time_equal (gqr_SortTime current) (gqr_SortTime previous)
      then time_before (gqr_SortTime current) (gqr_SortTime previous)
      else gv_ID (gqr_View current) < gv_ID (gqr_View previous))"

fun goal_rows_from ::
  "goal_list_scope \<Rightarrow> GoalQueryRow option \<Rightarrow> GoalQueryRow list \<Rightarrow> workspace_error option" where
  "goal_rows_from scope previous [] = None"
| "goal_rows_from scope previous (row # rows) =
     (if gv_ID (gqr_View row) = [] \<or> time_is_zero (gqr_SortTime row) \<or>
         \<not> goalCursorCategoryMatchesScope (gqr_Category row) scope
      then Some (goalInvariantError ''Goal query row metadata is incomplete'')
      else if goalCategory (gv_Status (gqr_View row)) \<noteq> Inr (gqr_Category row)
      then Some (goalInvariantError ''Goal query row category does not match status'')
      else or_else (validateGoalCurrentWork (gqr_View row))
        (if (case previous of None \<Rightarrow> False | Some p \<Rightarrow> \<not> goalQueryRowFollows p row)
         then Some (goalInvariantError ''Goal query rows are not in stable order'')
         else goal_rows_from scope (Some row) rows))"

definition validateGoalQueryRows :: "GoalQueryRow list \<Rightarrow> goal_list_scope \<Rightarrow> workspace_error option" where
  "validateGoalQueryRows rows scope = goal_rows_from scope None rows"

definition ListGoals ::
  "GoalQueryRepository \<Rightarrow> (string \<Rightarrow> string \<Rightarrow> string) \<Rightarrow> (goalCursorPayload \<Rightarrow> string) \<Rightarrow>
   (string \<Rightarrow> goalCursorPayload option) \<Rightarrow> string \<Rightarrow> string \<Rightarrow> string \<Rightarrow> string \<Rightarrow> int \<Rightarrow>
   workspace_error + GoalPage" where
  "ListGoals queries hmac marshal unmarshal key userID scope0 cursor limit0 =
     (let selected = (if scope0 = [] then GoalListAll else scope0) in
      if selected \<noteq> GoalListAll \<and> selected \<noteq> GoalListProgressing \<and> selected \<noteq> GoalListHistory
      then Inl ErrInvalidCursor
      else let limit = clamp_limit limit0 in
        rbind (decodeGoalCursor hmac unmarshal key cursor selected) (\<lambda>after.
        rbind (QueryGoalRows queries \<lparr>glq_UserID = userID, glq_Scope = selected, glq_After = after,
                 glq_FetchLimit = limit + 1\<rparr>) (\<lambda>rows.
        if int (length rows) > limit + 1
        then Inl (goalInvariantError ''Goal query returned more rows than requested'')
        else (case validateGoalQueryRows rows selected of
          Some e \<Rightarrow> Inl e
        | None \<Rightarrow>
            if int (length rows) > limit
            then let final_row = rows ! (nat limit - 1);
                     next_cursor = encodeGoalCursor hmac marshal key selected
                       \<lparr>glk_Category = gqr_Category final_row, glk_SortTime = gqr_SortTime final_row,
                        glk_GoalID = gv_ID (gqr_View final_row)\<rparr>
                 in Inr \<lparr>gp_Items = map gqr_View (take (nat limit) rows),
                         gp_NextCursor = Some next_cursor\<rparr>
            else Inr \<lparr>gp_Items = map gqr_View rows, gp_NextCursor = None\<rparr>))))"

definition GetGoal :: "GoalQueryRepository \<Rightarrow> string \<Rightarrow> string \<Rightarrow> workspace_error + GoalView" where
  "GetGoal queries userID goalID =
     rbind (QueryGoal queries userID goalID) (\<lambda>view.
       case validateGoalCurrentWork view of Some e \<Rightarrow> Inl e | None \<Rightarrow> Inr view)"

subsection \<open>Deletion\<close>

record GoalDeleteReceipt =
  gdr_GoalID :: string
  gdr_RequestHash :: string
  gdr_ExpiresAt :: gotime

record GoalDeleteTarget =
  gdt_Revision :: i64
  gdt_Status :: goal_status

record GoalDeleteGeneration =
  gdg_ID :: string
  gdg_ReservedCostUSD :: string

record GoalDeleteUsage =
  gdu_OperationID :: string
  gdu_Status :: string
  gdu_QuotaRetainUntil :: gotime
  gdu_ProviderUsageFinalizedAt :: "gotime option"

record MonthlyReservation =
  mr_MonthUtc :: gotime
  mr_AmountUSD :: string

record GoalDeleteReceiptRecord =
  gdrr_UserID :: string
  gdrr_IdempotencyKey :: string
  gdrr_GoalID :: string
  gdrr_RequestHash :: string
  gdrr_DeletedAt :: gotime
  gdrr_ExpiresAt :: gotime

record GoalDeleteResult =
  gdres_SourceState :: goal_status
  gdres_Replayed :: bool

record 's GoalTx =
  gt_LockUser :: "string \<Rightarrow> ('s, unit) tx"
  gt_FindGoalDeleteReceipt :: "string \<Rightarrow> string \<Rightarrow> ('s, GoalDeleteReceipt option) tx"
  gt_LockGoalForDelete :: "string \<Rightarrow> string \<Rightarrow> ('s, GoalDeleteTarget) tx"
  gt_LockGoalDraftIDs :: "string \<Rightarrow> string \<Rightarrow> ('s, string list) tx"
  gt_LockGoalCycleIDs :: "string \<Rightarrow> string \<Rightarrow> ('s, string list) tx"
  gt_LockRunningGoalGenerations :: "string \<Rightarrow> string \<Rightarrow> ('s, GoalDeleteGeneration list) tx"
  gt_LockGoalUsages :: "string \<Rightarrow> string \<Rightarrow> ('s, GoalDeleteUsage list) tx"
  gt_SumLockedGoalReservationsByMonth ::
    "string \<Rightarrow> string \<Rightarrow> string list \<Rightarrow> ('s, MonthlyReservation list) tx"
  gt_ReleaseGoalBudgetReservationCAS :: "gotime \<Rightarrow> string \<Rightarrow> gotime \<Rightarrow> ('s, i64) tx"
  gt_TerminalizeGoalGenerationCAS ::
    "string \<Rightarrow> string \<Rightarrow> GoalDeleteGeneration \<Rightarrow> gotime \<Rightarrow> ('s, i64) tx"
  gt_FailRunningGoalUsageCAS :: "string \<Rightarrow> string \<Rightarrow> string \<Rightarrow> ('s, i64) tx"
  gt_RedactGoalUsagesCAS :: "string \<Rightarrow> string \<Rightarrow> string list \<Rightarrow> ('s, i64) tx"
  gt_DeleteExpiredFinalizedGoalUsagesCAS ::
    "string \<Rightarrow> string \<Rightarrow> string list \<Rightarrow> gotime \<Rightarrow> ('s, i64) tx"
  gt_DeleteGoalCAS :: "string \<Rightarrow> string \<Rightarrow> i64 \<Rightarrow> ('s, i64) tx"
  gt_InsertGoalDeleteReceipt :: "GoalDeleteReceiptRecord \<Rightarrow> ('s, i64) tx"

definition goalDeleteReceiptTTL :: int where
  "goalDeleteReceiptTTL = 24 * 3600 * 1000000000"

definition goal_usage_retained :: "gotime \<Rightarrow> GoalDeleteUsage \<Rightarrow> bool" where
  "goal_usage_retained now usage \<longleftrightarrow>
     time_before now (gdu_QuotaRetainUntil usage) \<or> gdu_ProviderUsageFinalizedAt usage = None"

fun usage_ids_from :: "string list \<Rightarrow> GoalDeleteUsage list \<Rightarrow> workspace_error + string list" where
  "usage_ids_from seen [] = Inr []"
| "usage_ids_from seen (usage # usages) =
     (if gdu_OperationID usage = [] \<or> time_is_zero (gdu_QuotaRetainUntil usage)
      then Inl (goalInvariantError ''Goal usage identity or retention deadline is missing'')
      else if gdu_OperationID usage \<in> set seen
      then Inl (goalInvariantError ''Goal usage lock returned a duplicate operation'')
      else rbind (usage_ids_from (gdu_OperationID usage # seen) usages)
             (\<lambda>ids. Inr (gdu_OperationID usage # ids)))"

definition partitionGoalDeleteUsages ::
  "GoalDeleteUsage list \<Rightarrow> gotime \<Rightarrow> workspace_error + string list \<times> string list" where
  "partitionGoalDeleteUsages usages now =
     rbind (usage_ids_from [] usages) (\<lambda>usageIDs.
       if \<not> sorted usageIDs
       then Inl (goalInvariantError ''Goal usages are not locked in UUID order'')
       else Inr (map gdu_OperationID (filter (goal_usage_retained now) usages),
                 map gdu_OperationID (filter (\<lambda>u. \<not> goal_usage_retained now u) usages)))"

definition requireGoalIDOrder :: "string \<Rightarrow> string list \<Rightarrow> workspace_error option" where
  "requireGoalIDOrder kind ids =
     (if \<not> sorted ids
      then Some (goalInvariantError (kind @ '' rows are not locked in UUID order''))
      else if list_ex (\<lambda>index. ids ! index = ids ! (index - 1)) [1..<length ids]
      then Some (goalInvariantError (kind @ '' lock returned a duplicate row''))
      else None)"

definition requireGoalGenerationOrder :: "GoalDeleteGeneration list \<Rightarrow> workspace_error option" where
  "requireGoalGenerationOrder items =
     (if list_ex (\<lambda>item. gdg_ID item = [] \<or> gdg_ReservedCostUSD item = []) items
      then Some (goalInvariantError ''running Goal generation state is incomplete'')
      else requireGoalIDOrder ''AI Generation'' (map gdg_ID items))"

definition validPositiveGoalDecimal :: "(string \<Rightarrow> int option) \<Rightarrow> string \<Rightarrow> bool" where
  "validPositiveGoalDecimal rat_sign value \<longleftrightarrow>
     (if CHR ''/'' \<in> set value then False
      else case rat_sign value of None \<Rightarrow> False | Some sign \<Rightarrow> sign > 0)"

fun reservations_from ::
  "(string \<Rightarrow> int option) \<Rightarrow> MonthlyReservation option \<Rightarrow> MonthlyReservation list \<Rightarrow>
   workspace_error option" where
  "reservations_from rat_sign previous [] = None"
| "reservations_from rat_sign previous (item # items) =
     (if time_is_zero (mr_MonthUtc item) \<or> \<not> validPositiveGoalDecimal rat_sign (mr_AmountUSD item)
      then Some (goalInvariantError ''Goal budget reservation state is incomplete'')
      else if (case previous of None \<Rightarrow> False
               | Some p \<Rightarrow> \<not> time_before (mr_MonthUtc p) (mr_MonthUtc item))
      then Some (goalInvariantError ''Goal budget months are not locked in ascending order'')
      else reservations_from rat_sign (Some item) items)"

definition requireGoalMonthlyReservationOrder ::
  "(string \<Rightarrow> int option) \<Rightarrow> MonthlyReservation list \<Rightarrow> workspace_error option" where
  "requireGoalMonthlyReservationOrder rat_sign items = reservations_from rat_sign None items"

text \<open>The loops over the locked rows: each release or terminalisation must affect its row.\<close>

fun release_reservations ::
  "'s GoalTx \<Rightarrow> gotime \<Rightarrow> MonthlyReservation list \<Rightarrow> ('s, unit) tx" where
  "release_reservations tx now [] = tx_return ()"
| "release_reservations tx now (reservation # reservations) =
     tx_bind (gt_ReleaseGoalBudgetReservationCAS tx (mr_MonthUtc reservation) (mr_AmountUSD reservation)
                now) (\<lambda>rows.
     tx_bind (tx_check (requireGoalRows ''release Goal Delete budget reservation'' rows 1)) (\<lambda>_.
     release_reservations tx now reservations))"

fun terminalize_generations ::
  "'s GoalTx \<Rightarrow> gotime \<Rightarrow> string \<Rightarrow> string \<Rightarrow> GoalDeleteGeneration list \<Rightarrow> ('s, unit) tx" where
  "terminalize_generations tx now userID goalID [] = tx_return ()"
| "terminalize_generations tx now userID goalID (generation # generations) =
     tx_bind (gt_TerminalizeGoalGenerationCAS tx userID goalID generation now) (\<lambda>rows.
     tx_bind (tx_check (requireGoalRows ''terminalize Goal Delete generation'' rows 1)) (\<lambda>_.
     tx_bind (gt_FailRunningGoalUsageCAS tx userID goalID (gdg_ID generation)) (\<lambda>rows.
     tx_bind (tx_check (requireGoalRows ''terminalize Goal Delete usage'' rows 1)) (\<lambda>_.
     terminalize_generations tx now userID goalID generations))))"

definition deleteRequestHash :: "(string \<Rightarrow> string) \<Rightarrow> string \<Rightarrow> bool \<Rightarrow> i64 \<Rightarrow> string" where
  "deleteRequestHash sha256 goalID confirmed expectedRevision =
     hashRequest sha256
       [(''goalId'', JString goalID), (''confirmed'', JBool confirmed),
        (''revision'', JInt (sint expectedRevision))]"

text \<open>What is done to a Goal that was found and has no live receipt.\<close>

definition delete_goal_rows ::
  "'s GoalTx \<Rightarrow> (string \<Rightarrow> int option) \<Rightarrow> gotime \<Rightarrow> string \<Rightarrow> string \<Rightarrow> i64 \<Rightarrow> string \<Rightarrow> string \<Rightarrow>
   ('s, GoalDeleteResult) tx" where
  "delete_goal_rows tx rat_sign now userID goalID expectedRevision idempotencyKey requestHash =
     tx_bind (gt_LockGoalForDelete tx userID goalID) (\<lambda>target.
     if gdt_Revision target \<noteq> expectedRevision then tx_fail ErrDeleteConflict
     else
       tx_bind (gt_LockGoalDraftIDs tx userID goalID) (\<lambda>draftIDs.
       tx_bind (tx_check (requireGoalIDOrder ''Goal Draft'' draftIDs)) (\<lambda>_.
       tx_bind (gt_LockGoalCycleIDs tx userID goalID) (\<lambda>cycleIDs.
       tx_bind (tx_check (requireGoalIDOrder ''Cycle'' cycleIDs)) (\<lambda>_.
       tx_bind (gt_LockRunningGoalGenerations tx userID goalID) (\<lambda>generations.
       tx_bind (tx_check (requireGoalGenerationOrder generations)) (\<lambda>_.
       tx_bind (gt_SumLockedGoalReservationsByMonth tx userID goalID (map gdg_ID generations))
         (\<lambda>monthly.
       tx_bind (tx_check (requireGoalMonthlyReservationOrder rat_sign monthly)) (\<lambda>_.
       tx_bind (release_reservations tx now monthly) (\<lambda>_.
       tx_bind (terminalize_generations tx now userID goalID generations) (\<lambda>_.
       tx_bind (gt_LockGoalUsages tx userID goalID) (\<lambda>usages.
       tx_bind (tx_lift (partitionGoalDeleteUsages usages now)) (\<lambda>(redactUsageIDs, deleteUsageIDs).
       tx_bind (if redactUsageIDs = [] then tx_return ()
                else tx_bind (gt_RedactGoalUsagesCAS tx userID goalID redactUsageIDs) (\<lambda>rows.
                     tx_check (requireGoalRows ''redact Goal Delete usage'' rows
                       (of_nat (length redactUsageIDs))))) (\<lambda>_.
       tx_bind (if deleteUsageIDs = [] then tx_return ()
                else tx_bind (gt_DeleteExpiredFinalizedGoalUsagesCAS tx userID goalID deleteUsageIDs now)
                  (\<lambda>rows. tx_check (requireGoalRows ''delete expired Goal usage'' rows
                     (of_nat (length deleteUsageIDs))))) (\<lambda>_.
       tx_bind (gt_DeleteGoalCAS tx userID goalID expectedRevision) (\<lambda>rows.
       tx_bind (tx_check (requireGoalRows ''delete Goal'' rows 1)) (\<lambda>_.
       tx_bind (gt_InsertGoalDeleteReceipt tx
                  \<lparr>gdrr_UserID = userID, gdrr_IdempotencyKey = idempotencyKey, gdrr_GoalID = goalID,
                   gdrr_RequestHash = requestHash, gdrr_DeletedAt = now,
                   gdrr_ExpiresAt = now\<lparr>nanos := nanos now + goalDeleteReceiptTTL\<rparr>\<rparr>) (\<lambda>rows.
       tx_bind (tx_check (requireGoalRows ''insert Goal Delete receipt'' rows 1)) (\<lambda>_.
       tx_return \<lparr>gdres_SourceState = gdt_Status target, gdres_Replayed = False\<rparr>)))))))))))))))))))"

definition DeleteGoalWithResult ::
  "'s GoalTx \<Rightarrow> (string \<Rightarrow> string) \<Rightarrow> (string \<Rightarrow> int option) \<Rightarrow> gotime \<Rightarrow> string \<Rightarrow> string \<Rightarrow> bool \<Rightarrow> i64 \<Rightarrow>
   string \<Rightarrow> ('s, GoalDeleteResult) tx" where
  "DeleteGoalWithResult tx sha256 rat_sign now0 userID goalID confirmed expectedRevision idempotencyKey =
     (if \<not> confirmed then tx_fail ErrDeleteConfirmation
      else let now = utc now0;
               requestHash = deleteRequestHash sha256 goalID confirmed expectedRevision in
        tx_bind (gt_LockUser tx userID) (\<lambda>_.
        tx_bind (gt_FindGoalDeleteReceipt tx userID idempotencyKey) (\<lambda>receipt.
        case receipt of
          None \<Rightarrow> delete_goal_rows tx rat_sign now userID goalID expectedRevision idempotencyKey requestHash
        | Some r \<Rightarrow>
            if gdr_GoalID r \<noteq> goalID \<or> gdr_RequestHash r \<noteq> requestHash
            then tx_fail ErrIdempotencyKeyReused
            else if time_before now (gdr_ExpiresAt r)
            then tx_return \<lparr>gdres_SourceState = [], gdres_Replayed = True\<rparr>
            else delete_goal_rows tx rat_sign now userID goalID expectedRevision idempotencyKey
                   requestHash)))"

end
