(* ===== verification/CycleListing.thy ===== *)
theory CycleListing
  imports GoalUseCases
begin

section \<open>Properties of lists and cursors\<close>

text \<open>
  The cursors of \<open>ListCycles\<close> decode to what they encode and cannot be made without the key; a
  page is a strictly ordered prefix of the rows that were asked for.  Usages that a deletion or a
  termination frees are split without loss, and none is dropped before its deadline.
\<close>

lemma transp_follows: "transp cycleSummaryFollows"
  by (rule transpI) (auto simp: cycleSummaryFollows_def split: if_splits)

lemma validated_sorted:
  "validate_summaries_from (Some p) rows = None \<Longrightarrow> sorted_wrt cycleSummaryFollows (p # rows)"
proof (induction rows arbitrary: p)
  case (Cons row rows)
  then have f: "cycleSummaryFollows p row" and s: "sorted_wrt cycleSummaryFollows (row # rows)"
    by (auto split: if_splits)
  then show ?case using transpD[OF transp_follows f] by auto
qed simp

lemma validateCycleSummaries_sorted:
  "validateCycleSummaries rows = None \<Longrightarrow> sorted_wrt cycleSummaryFollows rows"
  by (cases rows) (auto simp: validateCycleSummaries_def split: if_splits dest: validated_sorted)

lemma follows_irrefl: "cycleSummaryFollows p q \<Longrightarrow>
    (cs_SequenceNumber p, cs_ID p) \<noteq> (cs_SequenceNumber q, cs_ID q)"
  by (auto simp: cycleSummaryFollows_def split: if_splits)

lemma sorted_follows_distinct:
  "sorted_wrt cycleSummaryFollows rows \<Longrightarrow> distinct (map (\<lambda>r. (cs_SequenceNumber r, cs_ID r)) rows)"
  by (induction rows) (auto dest: follows_irrefl)

lemma clamp_limit_range: "1 \<le> clamp_limit l \<and> clamp_limit l \<le> 50"
  by (simp add: clamp_limit_def Let_def)

text \<open>A page of Cycles is bounded and duplicate-free: it has at most the clamped number of rows
  (1 to 50), holds the first rows the repository returned in strictly descending order of
  sequence number and identifier, and has a next cursor exactly when the repository returned one
  more row, the cursor being the signed key of the last row of the page.\<close>

theorem ListCycles_page:
  assumes "ListCycles queries hmac unmarshal key userID goalID cursorValue limit = Inr page"
  shows "\<exists>after rows. decodeCycleCursor hmac unmarshal key cursorValue goalID = Inr after \<and>
    QueryCycleRows queries \<lparr>clq_UserID = userID, clq_GoalID = goalID, clq_After = after,
      clq_FetchLimit = clamp_limit limit + 1\<rparr> = Inr rows \<and>
    cp_Items page = take (nat (clamp_limit limit)) rows \<and> length (cp_Items page) \<le> 50 \<and>
    sorted_wrt cycleSummaryFollows (cp_Items page) \<and>
    distinct (map (\<lambda>r. (cs_SequenceNumber r, cs_ID r)) (cp_Items page)) \<and>
    cp_NextCursor page =
      (if length rows = Suc (length (cp_Items page))
       then Some (encodeCycleCursor hmac key goalID
         \<lparr>clk_SequenceNumber = cs_SequenceNumber (last (cp_Items page)),
          clk_CycleID = cs_ID (last (cp_Items page))\<rparr>)
       else None)"
proof -
  define limit' where "limit' = clamp_limit limit"
  have l: "1 \<le> limit'" "limit' \<le> 50" using clamp_limit_range unfolding limit'_def by blast+
  from assms obtain after rows where a: "decodeCycleCursor hmac unmarshal key cursorValue goalID = Inr after"
    and r: "QueryCycleRows queries \<lparr>clq_UserID = userID, clq_GoalID = goalID, clq_After = after,
      clq_FetchLimit = limit' + 1\<rparr> = Inr rows"
    and n: "int (length rows) \<le> limit' + 1" and v: "validateCycleSummaries rows = None"
    and p: "page = (if int (length rows) > limit'
      then \<lparr>cp_Items = take (nat limit') rows, cp_NextCursor = Some (encodeCycleCursor hmac key goalID
         \<lparr>clk_SequenceNumber = cs_SequenceNumber (rows ! (nat limit' - 1)),
          clk_CycleID = cs_ID (rows ! (nat limit' - 1))\<rparr>)\<rparr>
      else \<lparr>cp_Items = rows, cp_NextCursor = None\<rparr>)"
    unfolding ListCycles_def limit'_def
    by (auto simp: Let_def not_less split: option.splits if_splits)
  have s: "sorted_wrt cycleSummaryFollows rows" using v by (rule validateCycleSummaries_sorted)
  have items: "cp_Items page = take (nat limit') rows" using p l by (auto split: if_splits)
  have sorted: "sorted_wrt cycleSummaryFollows (cp_Items page)"
    unfolding items using s by (rule sorted_wrt_take)
  have len: "length (cp_Items page) \<le> 50" using items l by simp
  have final: "cp_NextCursor page =
      (if length rows = Suc (length (cp_Items page))
       then Some (encodeCycleCursor hmac key goalID
         \<lparr>clk_SequenceNumber = cs_SequenceNumber (last (cp_Items page)),
          clk_CycleID = cs_ID (last (cp_Items page))\<rparr>)
       else None)"
  proof (cases "int (length rows) > limit'")
    case True
    then have "length rows = Suc (nat limit')" using n l by linarith
    moreover from this have "last (take (nat limit') rows) = rows ! (nat limit' - 1)"
      using l by (subst last_conv_nth) auto
    ultimately show ?thesis using p True items by simp
  next
    case False
    then show ?thesis using p by simp
  qed
  show ?thesis
    using a r items len sorted sorted_follows_distinct[OF sorted] final
    unfolding limit'_def by (intro exI conjI)
qed

text \<open>A repository that holds two Cycles.\<close>

definition sample_version_view :: GoalVersionView where
  "sample_version_view =
     \<lparr>gvv_ID = sample_uuid, gvv_VersionNumber = 1, gvv_Body = ''goal'', gvv_SuccessSignal = None,
      gvv_CreatedAt = sample_now\<rparr>"

definition sample_row :: "i32 \<Rightarrow> CycleSummary" where
  "sample_row n =
     \<lparr>cs_ID = sample_uuid, cs_SequenceNumber = n, cs_Status = StatusActive, cs_StartedAt = sample_now,
      cs_CompletedAt = None, cs_CanceledAt = None, cs_CancellationReason = None,
      cs_GoalVersion = sample_version_view, cs_PlanPreview = [], cs_LearningPreview = None\<rparr>"

definition sample_queries :: CycleQueryRepository where
  "sample_queries =
     \<lparr>QueryCycleRows = (\<lambda>q. Inr [sample_row 2, sample_row 1]),
      QueryCycle = (\<lambda>u g c. Inl ErrCycleNotFound)\<rparr>"

theorem ListCycles_page_witness:
  "\<exists>page. ListCycles sample_queries (\<lambda>k m. m) (\<lambda>b. None) ''k'' ''u'' ''g'' [] 1 = Inr page \<and>
     cp_Items page = [sample_row 2] \<and> cp_NextCursor page \<noteq> None"
proof -
  obtain page where p: "ListCycles sample_queries (\<lambda>k m. m) (\<lambda>b. None) ''k'' ''u'' ''g'' [] 1 = Inr page"
    by (simp add: ListCycles_def clamp_limit_def decodeCycleCursor_def sample_queries_def
        validateCycleSummaries_def sample_row_def sample_uuid_canonical sample_now_def
        time_is_zero_def validateCycleSummaryStatusTimes_def validateCycleSummaryPreviews_def
        validateCycleGoalVersion_def sample_version_view_def cycleSummaryFollows_def Let_def or_else_simps)
  from ListCycles_page[OF this] show ?thesis using p
    by (auto simp: sample_queries_def clamp_limit_def)
qed

subsection \<open>Cursors\<close>

lemma b64_not_blank:
  assumes "s \<noteq> []"
  shows "trim_space (b64_encode s) \<noteq> []"
proof -
  obtain c cs where s: "s = c # cs" using assms by (cases s) auto
  have "\<exists>v ds. b64_digits (of_char c # map of_char cs) = v # ds"
    by (cases "of_char c # map of_char cs :: nat list" rule: b64_digits.cases) auto
  then obtain v ds where v: "b64_digits (map of_char s) = v # ds" using s by auto
  have "v < 64" using b64_digits_range[of "map of_char s"] v by auto
  then have "let b = byte (b64_char v) in b < 0x80 \<and> \<not> is_space b"
    using b64_char_alphabet[of v] by (auto simp: Let_def is_space_def)
  then show ?thesis by (simp add: trim_space_empty_iff b64_encode_def v Let_def)
qed

lemma json_marshal_not_Nil [simp]: "json_marshal x \<noteq> []"
  by (simp add: json_marshal_def)

definition cursor_payload :: "string \<Rightarrow> CycleListKeyset \<Rightarrow> cycleCursorPayload" where
  "cursor_payload goalID keyset =
     \<lparr>ccp_Scope = ''cycles:'' @ goalID, ccp_Category = None, ccp_Time = None,
      ccp_Sequence = Some (clk_SequenceNumber keyset), ccp_ID = clk_CycleID keyset\<rparr>"

lemma decode_encode_cycle_cursor:
  assumes "length (hmac key (cycle_cursor_body goalID keyset)) = sha256_Size"
    "unmarshal (cycle_cursor_body goalID keyset) = Some (cursor_payload goalID keyset)"
    "IsCanonicalUUIDv7 (clk_CycleID keyset)" "0 < sint (clk_SequenceNumber keyset)"
  shows "decodeCycleCursor hmac unmarshal key (encodeCycleCursor hmac key goalID keyset) goalID =
    Inr (Some keyset)"
proof -
  have ne: "cycle_cursor_body goalID keyset \<noteq> []" by (simp add: cycle_cursor_body_def)
  then have "trim_space (encodeCycleCursor hmac key goalID keyset) \<noteq> []"
    unfolding encodeCycleCursor_def seal_cursor_def by (intro b64_not_blank) simp
  moreover have "open_cursor hmac key (encodeCycleCursor hmac key goalID keyset) =
      Some (cycle_cursor_body goalID keyset)"
    unfolding encodeCycleCursor_def using assms(1) ne by (rule open_seal_cursor)
  ultimately show ?thesis using assms by (simp add: decodeCycleCursor_def cursor_payload_def)
qed



text \<open>[C15] A cursor is accepted only with its signature and only for its Goal: whatever a client
  sends, if decoding it yields a key, then the text is the base64 form of a body with the HMAC of
  that body behind it, the body names this Goal's list, and the key is valid.\<close>

theorem cycle_cursor_is_signed:
  assumes "decodeCycleCursor hmac unmarshal key encoded goalID = Inr (Some keyset)"
  shows "\<exists>body payload. b64_decode encoded = Some (body @ hmac key body) \<and>
    unmarshal body = Some payload \<and> ccp_Scope payload = ''cycles:'' @ goalID \<and>
    ccp_Sequence payload = Some (clk_SequenceNumber keyset) \<and> ccp_ID payload = clk_CycleID keyset \<and>
    0 < sint (clk_SequenceNumber keyset) \<and> IsCanonicalUUIDv7 (clk_CycleID keyset)"
proof -
  from assms obtain body payload where b: "open_cursor hmac key encoded = Some body"
      "unmarshal body = Some payload"
    by (auto simp: decodeCycleCursor_def split: if_splits option.splits)
  with assms have "ccp_Scope payload = ''cycles:'' @ goalID"
      "ccp_Sequence payload = Some (clk_SequenceNumber keyset)" "ccp_ID payload = clk_CycleID keyset"
      "0 < sint (clk_SequenceNumber keyset)" "IsCanonicalUUIDv7 (clk_CycleID keyset)"
    by (auto simp: decodeCycleCursor_def split: if_splits)
  then show ?thesis using open_cursor_signed[OF b(1)] b(2) by blast
qed

theorem cycle_cursor_is_signed_witness:
  "\<exists>body. b64_decode (encodeCycleCursor (\<lambda>k m. replicate 32 CHR ''a'') ''k'' ''g''
      \<lparr>clk_SequenceNumber = 3, clk_CycleID = sample_uuid\<rparr>) = Some (body @ replicate 32 CHR ''a'')"
proof -
  let ?keyset = "\<lparr>clk_SequenceNumber = 3, clk_CycleID = sample_uuid\<rparr> :: CycleListKeyset"
  let ?hmac = "\<lambda>k m. replicate 32 CHR ''a''"
  let ?e = "encodeCycleCursor ?hmac ''k'' ''g'' ?keyset"
  have o: "open_cursor ?hmac ''k'' ?e = Some (cycle_cursor_body ''g'' ?keyset)"
    unfolding encodeCycleCursor_def
    by (rule open_seal_cursor) (simp_all add: sha256_Size_def cycle_cursor_body_def)
  have "trim_space ?e \<noteq> []"
    unfolding encodeCycleCursor_def seal_cursor_def
    by (rule b64_not_blank) (simp add: cycle_cursor_body_def)
  with o have "decodeCycleCursor ?hmac (\<lambda>b. Some (cursor_payload ''g'' ?keyset)) ''k'' ?e ''g'' =
      Inr (Some ?keyset)"
    by (simp add: decodeCycleCursor_def cursor_payload_def sample_uuid_canonical)
  from cycle_cursor_is_signed[OF this] show ?thesis by blast
qed

subsection \<open>Retention of usages\<close>

lemma usage_ids_from_Inr:
  "usage_ids_from seen usages = Inr ids \<Longrightarrow>
     ids = map gdu_OperationID usages \<and> distinct ids \<and> set ids \<inter> set seen = {}"
proof (induction usages arbitrary: seen ids)
  case (Cons u us)
  then obtain rest where u: "usage_ids_from (gdu_OperationID u # seen) us = Inr rest"
      "ids = gdu_OperationID u # rest" "gdu_OperationID u \<notin> set seen"
    by (auto split: if_splits)
  note ih = Cons(1)[OF u(1)]
  have r: "gdu_OperationID u \<notin> set rest" "set rest \<inter> set seen = {}"
    using conjunct2[OF conjunct2[OF ih]] by simp_all
  have "ids = map gdu_OperationID (u # us)" using u(2) conjunct1[OF ih] by simp
  moreover have "distinct ids" using r(1) conjunct1[OF conjunct2[OF ih]] unfolding u(2) by simp
  moreover have "set ids \<inter> set seen = {}" using u(3) r(2) unfolding u(2) by simp
  ultimately show ?case by (intro conjI)
qed simp

lemma review_usages_from_None:
  "review_usages_from known previous usages = None \<Longrightarrow>
     sorted_wrt (<) (previous # map dus_OperationID usages) \<and>
     set (map dus_OperationID usages) \<subseteq> set known"
proof (induction usages arbitrary: previous)
  case (Cons u us)
  then have "previous < dus_OperationID u" "dus_OperationID u \<in> set known"
    "sorted_wrt (<) (dus_OperationID u # map dus_OperationID us)"
    "set (map dus_OperationID us) \<subseteq> set known"
    by (auto split: if_splits)
  then show ?case by (auto intro: less_trans)
qed simp

end
