(* ===== verification/AIExecution.thy ===== *)
theory AIExecution
  imports AIContext
begin

section \<open>Execution of an AI operation\<close>

text \<open>
  Model of \<open>executeAI\<close>, \<open>executeAIAttempts\<close> and the classification of errors in
  \<open>workspace/service.go\<close>, of the hash that binds a snapshot to what is sent
  (\<open>workspace/context_selector.go\<close>), and of the checks of a selected context and the failure codes
  in \<open>workspace/action_ai_use_cases.go\<close>.  A provider is a function from the number of the call and
  the input to its answer; the cancellation of the context is what \<open>ctx.Err()\<close> reports after a call
  and during the wait for the next one.  Costs are double-precision numbers in the code: here any
  type with a zero and an addition.
\<close>

subsection \<open>Values\<close>

record 'c AIUsage =
  au_InputTokens :: i64
  au_OutputTokens :: i64
  au_ProviderRequestID :: string
  au_CostUSD :: 'c

record 'c AIExecutionResult =
  ae_Output :: string
  ae_Usage :: "'c AIUsage"
  ae_Attempts :: "16 word"

definition zero_result :: "'c::zero AIExecutionResult" where
  "zero_result =
     \<lparr>ae_Output = [],
      ae_Usage = \<lparr>au_InputTokens = 0, au_OutputTokens = 0, au_ProviderRequestID = [], au_CostUSD = 0\<rparr>,
      ae_Attempts = 0\<rparr>"

text \<open>An answer carries its usage also when it is an error.\<close>

type_synonym ('r, 'c) answer = "'r \<times> 'c AIUsage \<times> workspace_error option"

record 'c Providers =
  pr_RefineGoal :: "(nat \<Rightarrow> RefineGoalAIInput \<Rightarrow> (string, 'c) answer) option"
  pr_GenerateAction :: "(nat \<Rightarrow> ActionAIInput \<Rightarrow> (string list, 'c) answer) option"
  pr_RefineAction :: "(nat \<Rightarrow> ActionAIInput \<Rightarrow> (string, 'c) answer) option"

subsection \<open>The hash of what is sent\<close>

definition aiContextCycleIDs :: "AIContextCycle list \<Rightarrow> string list" where
  "aiContextCycleIDs cycles = map acc_ID cycles"

definition canonicalProviderInputHash ::
  "(string \<Rightarrow> string) \<Rightarrow> Settings \<Rightarrow> AISnapshot \<Rightarrow> workspace_error + string" where
  "canonicalProviderInputHash sha256 settings snapshot =
     rbind (providerLogicalInputJSON settings snapshot) (\<lambda>selectedContext.
     rbind (aiOperationSettings settings (as_Operation snapshot)) (\<lambda>(instructions, promptVersion).
       Inr (hex_encode (sha256 (json_marshal
         [(''promptVersion'', JString promptVersion),
          (''operationType'', JString (as_Operation snapshot)),
          (''model'', JString (se_Model settings)),
          (''targetRevision'', JInt (sint (as_TargetRevision snapshot))),
          (''sourceGoalRevision'', JInt (sint (as_SourceGoalRevision snapshot))),
          (''selectedContext'', JRaw selectedContext),
          (''contextCycleIds'',
             JArray (map JString (aiContextCycleIDs (as_PastCycles snapshot))))])))))"

definition setCanonicalProviderInputHash ::
  "(string \<Rightarrow> string) \<Rightarrow> Settings \<Rightarrow> AISnapshot \<Rightarrow> workspace_error + AISnapshot" where
  "setCanonicalProviderInputHash sha256 settings snapshot =
     rbind (canonicalProviderInputHash sha256 settings snapshot) (\<lambda>hash.
       Inr (snapshot\<lparr>as_CanonicalProviderInputHash := hash\<rparr>))"

definition verifyCanonicalProviderInputHash ::
  "(string \<Rightarrow> string) \<Rightarrow> Settings \<Rightarrow> AISnapshot \<Rightarrow> workspace_error + unit" where
  "verifyCanonicalProviderInputHash sha256 settings snapshot =
     (if as_CanonicalProviderInputHash snapshot = [] then Inl ErrAIContextIsolation
      else rbind (canonicalProviderInputHash sha256 settings snapshot) (\<lambda>hash.
        if as_CanonicalProviderInputHash snapshot \<noteq> hash then Inl ErrAIContextIsolation
        else Inr ()))"

subsection \<open>Selection for a user\<close>

record Entitlements =
  en_MaxProgressingGoals :: int
  en_MaxAIOperationsPer24Hours :: int
  en_MaxAIInputTokens :: int
  en_GoalRefineOutputTokens :: int
  en_ActionOutputTokens :: int

definition selectAIContextForUser ::
  "(string \<Rightarrow> string) \<Rightarrow> Settings \<Rightarrow> workspace_error + Entitlements \<Rightarrow> AISnapshot \<Rightarrow>
   workspace_error + AISnapshot" where
  "selectAIContextForUser sha256 settings entitlements snapshot0 =
     rbind entitlements (\<lambda>limits.
     rbind (if as_Operation snapshot0 = OperationGoalRefine
            then Inr (snapshot0\<lparr>as_MaxOutputTokens := word_of_int (en_GoalRefineOutputTokens limits)\<rparr>)
            else if as_Operation snapshot0 = OperationActionGenerate \<or>
                    as_Operation snapshot0 = OperationActionRefine
            then Inr (snapshot0\<lparr>as_MaxOutputTokens := word_of_int (en_ActionOutputTokens limits)\<rparr>)
            else Inl ErrAIInputBudget) (\<lambda>snapshot.
     if sint (as_MaxOutputTokens snapshot) \<le> 0 then Inl ErrAIInputBudget
     else rbind (selectAIContext settings snapshot (en_MaxAIInputTokens limits)) (\<lambda>selected.
          setCanonicalProviderInputHash sha256 settings selected)))"

subsection \<open>Attempts\<close>

definition accumulate ::
  "'c::plus AIExecutionResult \<Rightarrow> nat \<Rightarrow> string \<Rightarrow> 'c AIUsage \<Rightarrow> 'c AIExecutionResult" where
  "accumulate result attempt output usage =
     \<lparr>ae_Output = output,
      ae_Usage = \<lparr>au_InputTokens = au_InputTokens (ae_Usage result) + au_InputTokens usage,
        au_OutputTokens = au_OutputTokens (ae_Usage result) + au_OutputTokens usage,
        au_ProviderRequestID = (if au_ProviderRequestID usage \<noteq> [] then au_ProviderRequestID usage
                                else au_ProviderRequestID (ae_Usage result)),
        au_CostUSD = au_CostUSD (ae_Usage result) + au_CostUSD usage\<rparr>,
      ae_Attempts = of_nat attempt\<rparr>"

definition retryable :: "workspace_error \<Rightarrow> bool" where
  "retryable err \<longleftrightarrow> err = ErrAIInvalidResponse \<or> err = ErrAIProviderUnavailable"

definition retry_delay :: "int \<Rightarrow> nat \<Rightarrow> int" where
  "retry_delay maxRetryBackoff attempt =
     min (sint (push_bit (attempt - 1) (1 :: i64) * 250000000)) maxRetryBackoff"

record Cancellation =
  can_after :: "nat \<Rightarrow> workspace_error option"
  can_waiting :: "nat \<Rightarrow> int \<Rightarrow> workspace_error option"

text \<open>\<open>remaining\<close> counts the attempts that are left, the current one included.\<close>

fun attempts_from ::
  "(nat \<Rightarrow> bool \<Rightarrow> (string, 'c::plus) answer) \<Rightarrow> Cancellation \<Rightarrow> int \<Rightarrow> nat \<Rightarrow> nat \<Rightarrow> bool \<Rightarrow>
   'c AIExecutionResult \<Rightarrow> 'c AIExecutionResult \<times> workspace_error option" where
  "attempts_from execute ctx maxRetryBackoff 0 attempt validationRetry result = (result, None)"
| "attempts_from execute ctx maxRetryBackoff (Suc remaining) attempt validationRetry result0 =
     (let (output, usage, err) = execute attempt validationRetry;
          result = accumulate result0 attempt output usage in
      case err of
        None \<Rightarrow> (result, None)
      | Some e \<Rightarrow>
          if \<not> retryable e then (result, Some e)
          else if remaining = 0 then (result, Some e)
          else (case can_after ctx attempt of
              Some c \<Rightarrow> (result, Some c)
            | None \<Rightarrow>
                let delay = retry_delay maxRetryBackoff attempt in
                (case (if delay > 0 then can_waiting ctx attempt delay else None) of
                   Some c \<Rightarrow> (result, Some c)
                 | None \<Rightarrow> attempts_from execute ctx maxRetryBackoff remaining (attempt + 1)
                             (e = ErrAIInvalidResponse) result)))"

definition attempt_limit :: "Settings \<Rightarrow> nat" where
  "attempt_limit settings =
     (if se_MaxProviderAttempts settings < 1 then 1 else nat (se_MaxProviderAttempts settings))"

definition executeAIAttempts ::
  "Settings \<Rightarrow> (nat \<Rightarrow> bool \<Rightarrow> (string, 'c::{plus,zero}) answer) \<Rightarrow> Cancellation \<Rightarrow>
   'c AIExecutionResult \<times> workspace_error option" where
  "executeAIAttempts settings execute ctx =
     attempts_from execute ctx (se_MaxRetryBackoff settings) (attempt_limit settings) 1 False zero_result"

text \<open>One attempt: call the provider, then validate the raw answer with the rules of the domain.\<close>

definition validated ::
  "('r, 'c) answer \<Rightarrow> ('r \<Rightarrow> ai_output_error list + string) \<Rightarrow> (string, 'c) answer" where
  "validated raw_answer validate =
     (let (raw, usage, err) = raw_answer in
      case err of
        Some e \<Rightarrow> ([], usage, Some e)
      | None \<Rightarrow> (case validate raw of
          Inl _ \<Rightarrow> ([], usage, Some ErrAIInvalidResponse)
        | Inr output \<Rightarrow> (output, usage, None)))"

definition refine_goal_attempt ::
  "(nat \<Rightarrow> RefineGoalAIInput \<Rightarrow> (string, 'c) answer) \<Rightarrow> RefineGoalAIInput \<Rightarrow> nat \<Rightarrow> bool \<Rightarrow>
   (string, 'c) answer" where
  "refine_goal_attempt provider input attempt validationRetry =
     (let request = (if validationRetry
                     then input\<lparr>rga_Instructions := rga_Instructions input @ invalidResponseRetryInstruction\<rparr>
                     else input)
      in validated (provider attempt request) ValidateGoalSuggestion)"

definition action_attempt ::
  "(nat \<Rightarrow> ActionAIInput \<Rightarrow> ('r, 'c) answer) \<Rightarrow> ('r \<Rightarrow> ai_output_error list + string) \<Rightarrow>
   ActionAIInput \<Rightarrow> nat \<Rightarrow> bool \<Rightarrow> (string, 'c) answer" where
  "action_attempt provider validate input attempt validationRetry =
     (let request = (if validationRetry
                     then input\<lparr>aai_Instructions := aai_Instructions input @ invalidResponseRetryInstruction\<rparr>
                     else input)
      in validated (provider attempt request) validate)"

definition executeAI ::
  "(string \<Rightarrow> string) \<Rightarrow> Settings \<Rightarrow> 'c::{plus,zero} Providers \<Rightarrow> Cancellation \<Rightarrow> AISnapshot \<Rightarrow>
   'c AIExecutionResult \<times> workspace_error option" where
  "executeAI sha256 settings providers ctx snapshot =
     (if sint (as_MaxOutputTokens snapshot) \<le> 0 then (zero_result, Some ErrAIInputBudget)
      else (case verifyCanonicalProviderInputHash sha256 settings snapshot of
        Inl e \<Rightarrow> (zero_result, Some e)
      | Inr _ \<Rightarrow>
          if as_Operation snapshot = OperationGoalRefine then
            (case pr_RefineGoal providers of
               None \<Rightarrow> (zero_result, Some ErrAIProviderUnavailable)
             | Some provider \<Rightarrow> executeAIAttempts settings
                 (refine_goal_attempt provider (refineGoalAIInput settings snapshot)) ctx)
          else if as_Operation snapshot = OperationActionGenerate then
            (case pr_GenerateAction providers of
               None \<Rightarrow> (zero_result, Some ErrAIProviderUnavailable)
             | Some provider \<Rightarrow> executeAIAttempts settings
                 (action_attempt provider RenderGeneratedActions
                    (generateActionAIInput settings snapshot)) ctx)
          else if as_Operation snapshot = OperationActionRefine then
            (case pr_RefineAction providers of
               None \<Rightarrow> (zero_result, Some ErrAIProviderUnavailable)
             | Some provider \<Rightarrow> executeAIAttempts settings
                 (action_attempt provider ValidateRefinedAction
                    (refineActionAIInput settings snapshot)) ctx)
          else (zero_result, Some ErrAIInputBudget)))"

subsection \<open>Classification of errors\<close>

definition resourceNotFound :: "workspace_error \<Rightarrow> workspace_error \<Rightarrow> workspace_error" where
  "resourceNotFound err replacement = (if err = ErrNotFound then replacement else err)"

definition specificAIInputError :: "operation_type \<Rightarrow> workspace_error \<Rightarrow> workspace_error" where
  "specificAIInputError operation err =
     (if err \<noteq> ErrAIInputIncomplete then err
      else if operation = OperationGoalRefine then ErrGoalRefineInputEmpty
      else if operation = OperationActionGenerate then ErrActionGenerateInputIncomplete
      else if operation = OperationActionRefine then ErrActionRefineInputIncomplete
      else err)"

definition aiProviderAttemptResult :: "workspace_error option \<Rightarrow> string" where
  "aiProviderAttemptResult err =
     (case err of
        None \<Rightarrow> ''success''
      | Some e \<Rightarrow>
          if e = ErrAIInvalidResponse then ''invalid_response''
          else if e = ErrAIProviderTimeout then ''timeout''
          else if e = ErrAIProviderUnavailable then ''unavailable''
          else if e = ErrAIProviderRejected then ''rejected''
          else ''failure'')"

definition actionAIFailureError :: "string \<Rightarrow> workspace_error" where
  "actionAIFailureError code =
     (if code = ''invalid_response'' then ErrAIInvalidResponse
      else if code = ''provider_timeout'' then ErrAIProviderTimeout
      else if code = ''target_deleted'' then ErrNotFound
      else if code = ''goal_version_conflict'' then ErrGoalVersionConflict
      else if code = ''lease_expired'' then ErrAIProviderUnavailable
      else ErrAIProviderUnavailable)"

definition actionAIFailureCode :: "workspace_error \<Rightarrow> string" where
  "actionAIFailureCode err =
     (if err = ErrAIInvalidResponse then ''invalid_response''
      else if err = ErrAIProviderTimeout then ''provider_timeout''
      else if err = ErrNotFound then ''target_deleted''
      else if err = ErrGoalVersionConflict then ''goal_version_conflict''
      else ''provider_unavailable'')"

subsection \<open>The retry loop\<close>

text \<open>Attempt \<open>i\<close> asks for a corrected answer when the one before it was answered with an invalid one.\<close>

fun retry_flag :: "(nat \<Rightarrow> bool \<Rightarrow> (string, 'c) answer) \<Rightarrow> nat \<Rightarrow> bool" where
  "retry_flag execute 0 = False"
| "retry_flag execute (Suc i) =
     (0 < i \<and> snd (snd (execute i (retry_flag execute i))) = Some ErrAIInvalidResponse)"

definition provider_call :: "(nat \<Rightarrow> bool \<Rightarrow> (string, 'c) answer) \<Rightarrow> nat \<Rightarrow> (string, 'c) answer" where
  "provider_call execute i = execute i (retry_flag execute i)"

definition call_error :: "(nat \<Rightarrow> bool \<Rightarrow> (string, 'c) answer) \<Rightarrow> nat \<Rightarrow> workspace_error option" where
  "call_error execute i = snd (snd (provider_call execute i))"

definition call_tokens :: "(nat \<Rightarrow> bool \<Rightarrow> (string, 'c) answer) \<Rightarrow> nat \<Rightarrow> i64" where
  "call_tokens execute i = au_InputTokens (fst (snd (provider_call execute i)))"

text \<open>How a loop that has reached attempt \<open>k\<close> may end, at attempt \<open>n\<close>.\<close>

definition ends_at ::
  "(nat \<Rightarrow> bool \<Rightarrow> (string, 'c) answer) \<Rightarrow> Cancellation \<Rightarrow> nat \<Rightarrow> nat \<Rightarrow> i64 \<Rightarrow>
   'c AIExecutionResult \<Rightarrow> workspace_error option \<Rightarrow> bool" where
  "ends_at execute ctx k n tokens result err \<longleftrightarrow>
     k \<le> n \<and> (\<forall>i\<in>{k..<n}. \<exists>e. call_error execute i = Some e \<and> retryable e) \<and>
     ae_Attempts result = of_nat n \<and> ae_Output result = fst (provider_call execute n) \<and>
     au_InputTokens (ae_Usage result) = tokens + sum_list (map (call_tokens execute) [k..<Suc n]) \<and>
     (err = call_error execute n \<or>
      call_error execute n \<noteq> None \<and> err \<noteq> None \<and>
        (can_after ctx n = err \<or> (\<exists>d. can_waiting ctx n d = err)))"

lemma ends_at_now:
  assumes "provider_call execute k = (out, usage, err)"
    "err' = err \<or> err \<noteq> None \<and> err' \<noteq> None \<and>
       (can_after ctx k = err' \<or> (\<exists>d. can_waiting ctx k d = err'))"
  shows "ends_at execute ctx k k (au_InputTokens (ae_Usage res)) (accumulate res k out usage) err'"
  using assms by (auto simp: ends_at_def accumulate_def call_error_def call_tokens_def)

lemma ends_at_later:
  assumes "ends_at execute ctx (Suc k) n (au_InputTokens (ae_Usage (accumulate res k out usage)))
      result err"
    "provider_call execute k = (out, usage, Some e)" "retryable e"
  shows "ends_at execute ctx k n (au_InputTokens (ae_Usage res)) result err"
proof -
  from assms(1) have n: "Suc k \<le> n" by (simp add: ends_at_def)
  have "[k..<Suc n] = k # [Suc k..<Suc n]" using n by (simp add: upt_conv_Cons)
  moreover have "call_tokens execute k = au_InputTokens usage" "call_error execute k = Some e"
    using assms(2) by (simp_all add: call_tokens_def call_error_def)
  moreover have "\<exists>e. call_error execute i = Some e \<and> retryable e" if "i \<in> {k..<n}" for i
  proof (cases "i = k")
    case True
    then show ?thesis using calculation assms(3) by simp
  next
    case False
    then have "i \<in> {Suc k..<n}" using that by simp
    then show ?thesis using assms(1) by (simp add: ends_at_def)
  qed
  ultimately show ?thesis using assms(1) n by (simp add: ends_at_def accumulate_def add.assoc)
qed

lemma attempts_from_ends:
  assumes "attempts_from execute ctx b (Suc remaining) k (retry_flag execute k) res = (result, err)"
    "0 < k"
  shows "\<exists>n \<le> k + remaining. ends_at execute ctx k n (au_InputTokens (ae_Usage res)) result err"
  using assms
proof (induction remaining arbitrary: k res)
  case 0
  obtain out usage e where c: "provider_call execute k = (out, usage, e)"
    by (metis prod.exhaust)
  then have "result = accumulate res k out usage \<and> err = e"
    using 0 by (cases e) (auto simp: provider_call_def Let_def split: if_splits)
  then show ?case using ends_at_now[OF c] by (intro exI[of _ k]) auto
next
  case (Suc remaining)
  obtain out usage e where c: "provider_call execute k = (out, usage, e)"
    by (metis prod.exhaust)
  note step = Suc(2)[unfolded attempts_from.simps(2)[of _ _ _ "Suc remaining"]]
  have ex: "execute k (retry_flag execute k) = (out, usage, e)"
    using c by (simp add: provider_call_def)
  define acc where "acc = accumulate res k out usage"
  show ?case
  proof (cases "\<exists>x. e = Some x \<and> retryable x \<and> can_after ctx k = None \<and>
      (if retry_delay b k > 0 then can_waiting ctx k (retry_delay b k) else None) = None")
    case False
    then have "result = acc \<and> (err = e \<or> e \<noteq> None \<and> err \<noteq> None \<and>
        (can_after ctx k = err \<or> (\<exists>d. can_waiting ctx k d = err)))"
      using step ex by (auto simp: acc_def Let_def split: option.splits if_splits)
        (metis+)
    then show ?thesis
      unfolding acc_def using ends_at_now[OF c] by (intro exI[of _ k]) auto
  next
    case True
    then obtain x where x: "e = Some x" "retryable x" by blast
    with True step ex have
      "attempts_from execute ctx b (Suc remaining) (k + 1) (x = ErrAIInvalidResponse) acc = (result, err)"
      by (simp add: acc_def Let_def split: if_splits)
    moreover have "retry_flag execute (k + 1) = (x = ErrAIInvalidResponse)"
      using ex x Suc(3) by simp
    ultimately obtain n where n: "n \<le> k + 1 + remaining"
      "ends_at execute ctx (k + 1) n (au_InputTokens (ae_Usage acc)) result err"
      using Suc(1)[of "k + 1" acc] by auto
    have "ends_at execute ctx k n (au_InputTokens (ae_Usage res)) result err"
      using ends_at_later n(2) c x unfolding acc_def by simp
    then show ?thesis using n(1) by (intro exI[of _ n]) simp
  qed
qed

text \<open>[C11] The retry loop of an AI operation: it calls the provider between once and the configured
  number of times, repeats a call only after an invalid answer or an unavailable provider, asks
  for a corrected answer exactly after an invalid one, reports the output and the number of the
  last call and the tokens of all of them, succeeds exactly when the last call did, and otherwise
  returns that call's error or the cancellation that ended the wait after it.\<close>

theorem executeAIAttempts_trace:
  assumes "executeAIAttempts settings execute ctx = (result, err)"
  shows "\<exists>n. 1 \<le> n \<and> int n \<le> max 1 (se_MaxProviderAttempts settings) \<and>
    (\<forall>i\<in>{1..<n}. \<exists>e. call_error execute i = Some e \<and> retryable e) \<and>
    ae_Attempts result = of_nat n \<and> ae_Output result = fst (provider_call execute n) \<and>
    au_InputTokens (ae_Usage result) = sum_list (map (call_tokens execute) [1..<Suc n]) \<and>
    (err = None \<longleftrightarrow> call_error execute n = None) \<and>
    (err \<noteq> None \<longrightarrow> err = call_error execute n \<or> can_after ctx n = err \<or>
       (\<exists>d. can_waiting ctx n d = err))"
proof -
  obtain r where r: "attempt_limit settings = Suc r"
    by (cases "attempt_limit settings") (auto simp: attempt_limit_def split: if_splits)
  have "attempts_from execute ctx (se_MaxRetryBackoff settings) (Suc r) 1 (retry_flag execute 1)
      zero_result = (result, err)"
    using assms by (simp add: executeAIAttempts_def r)
  from attempts_from_ends[OF this] obtain n where n: "n \<le> 1 + r" "ends_at execute ctx 1 n 0 result err"
    by (auto simp: zero_result_def)
  have "int n \<le> max 1 (se_MaxProviderAttempts settings)"
    using n(1) r by (auto simp: attempt_limit_def split: if_splits)
  then show ?thesis using n(2) by (intro exI[of _ n]) (auto simp: ends_at_def)
qed

text \<open>A provider that answers badly once, then well.\<close>

definition sample_execute :: "nat \<Rightarrow> bool \<Rightarrow> (string, nat) answer" where
  "sample_execute attempt validationRetry =
     (let usage = \<lparr>au_InputTokens = 5, au_OutputTokens = 1, au_ProviderRequestID = ''r'', au_CostUSD = 1\<rparr> in
      if validationRetry then (''go'', usage, None) else ([], usage, Some ErrAIInvalidResponse))"

definition never_canceled :: Cancellation where
  "never_canceled = \<lparr>can_after = (\<lambda>n. None), can_waiting = (\<lambda>n d. None)\<rparr>"

theorem executeAIAttempts_trace_witness:
  "\<exists>result n. executeAIAttempts sample_settings sample_execute never_canceled = (result, None) \<and>
     ae_Attempts result = of_nat n \<and> ae_Attempts result = 2 \<and> int n \<le> 2"
proof -
  obtain result where r: "executeAIAttempts sample_settings sample_execute never_canceled = (result, None)"
      "ae_Attempts result = 2"
    by (simp add: executeAIAttempts_def attempt_limit_def sample_settings_def numeral_2_eq_2
        sample_execute_def never_canceled_def Let_def retryable_def accumulate_def)
  from executeAIAttempts_trace[OF r(1)] obtain n where
    "int n \<le> max 1 (se_MaxProviderAttempts sample_settings)" "ae_Attempts result = of_nat n" by blast
  with r show ?thesis by (auto simp: sample_settings_def)
qed

subsection \<open>Outputs of executed operations\<close>

lemma validated_None:
  "validated answer validate = (out, usage, None) \<Longrightarrow> \<exists>raw. validate raw = Inr out"
  by (auto simp: validated_def split: prod.splits option.splits sum.splits)

lemma attempts_output:
  assumes "attempts_from execute ctx b n k f res = (result, None)" "0 < n"
  shows "\<exists>i fl usage. execute i fl = (ae_Output result, usage, None)"
  using assms
proof (induction n arbitrary: k f res)
  case (Suc n)
  obtain out usage e where c: "execute k f = (out, usage, e)" by (metis prod.exhaust)
  show ?case
  proof (cases e)
    case None
    then have "ae_Output result = out" using Suc(2) c by (auto simp: Let_def accumulate_def)
    then show ?thesis using c None by blast
  next
    case (Some x)
    with Suc(2) c obtain res' where
      "attempts_from execute ctx b n (k + 1) (x = ErrAIInvalidResponse) res' = (result, None)" "0 < n"
      by (auto simp: Let_def split: if_splits option.splits)
    then show ?thesis using Suc(1) by blast
  qed
qed simp

lemma executeAIAttempts_output:
  "executeAIAttempts settings execute ctx = (result, None) \<Longrightarrow>
     \<exists>i fl usage. execute i fl = (ae_Output result, usage, None)"
  unfolding executeAIAttempts_def
  by (rule attempts_output) (auto simp: attempt_limit_def)


definition sample_providers :: "nat Providers" where
  "sample_providers =
     \<lparr>pr_RefineGoal = Some (\<lambda>attempt input.
        (''go'', \<lparr>au_InputTokens = 5, au_OutputTokens = 1, au_ProviderRequestID = ''r'', au_CostUSD = 1\<rparr>,
         None)),
      pr_GenerateAction = None, pr_RefineAction = None\<rparr>"


end
