(* ===== verification/AIAccounting.thy ===== *)
theory AIAccounting
  imports Complex_Main AIExecution GoalUseCases ReviewTransitions
begin

section \<open>Amounts, quotas and rate windows of the AI operations\<close>

text \<open>
  What the use cases of AI operations share (\<open>workspace/goal_draft_ports.go\<close>,
  \<open>ai_usage_retention.go\<close> and the helpers at the end of \<open>goal_draft_use_cases.go\<close>): the records
  they exchange with the database, the exact arithmetic on amounts of money, the budget month and
  the rate windows, and the checks of a selected context.

  A \<open>float64\<close> amount is the rational it denotes (the settings and the costs are finite, and
  a negative zero does not occur); \<open>strconv.FormatFloat(value, 'f', 8, 64)\<close> rounds it to eight decimals,
  ties to even.  \<open>big.Rat.SetString\<close> is modelled on decimal numerals, which is what \<open>FormatFloat\<close>
  and the \<open>numeric\<close> columns of the database give; fractions, exponents and base prefixes are not
  read.
\<close>

subsection \<open>Records\<close>

record StartReplayState =
  srs_GoalID :: string
  srs_CycleID :: string
  srs_RequestHash :: string

record GoalTargetState =
  gts_Status :: goal_status
  gts_Revision :: i64
  gts_CurrentVersionID :: string
  gts_Body :: string

record GoalRefineReplayState =
  grr_GenerationID :: string
  grr_IdempotencyRequestHash :: string
  grr_Status :: string
  grr_TargetRevision :: i64
  grr_Output :: "string option"
  grr_FailureCode :: string
  grr_ContextChanged :: bool

record ExpiredGeneration =
  eg_ID :: string
  eg_BudgetMonthUtc :: gotime
  eg_ReservedCostUSD :: string

record AIRateBucket =
  rb_Scope :: string
  rb_KeyHash :: string
  rb_WindowStart :: gotime
  rb_ExpiresAt :: gotime

record AIBudgetState =
  ab_ReservedCostUSD :: string
  ab_ActualCostUSD :: string
  ab_UnattributedCostUSD :: string

record GoalRefineGenerationRecord =
  grg_ID :: string
  grg_UserID :: string
  grg_DraftID :: string
  grg_GoalID :: string
  grg_GoalVersionID :: string
  grg_TargetRevision :: i64
  grg_IdempotencyKey :: string
  grg_IdempotencyRequestHash :: string
  grg_CanonicalProviderInputHash :: string
  grg_SourceText :: string
  grg_Provider :: string
  grg_Model :: string
  grg_PromptVersion :: string
  grg_BudgetMonthUtc :: gotime
  grg_ReservedCostUSD :: string
  grg_LeaseExpiresAt :: gotime
  grg_StartedAt :: gotime
  grg_ContextCycleIDs :: "string list"

record AIUsageRecord =
  aur_OperationID :: string
  aur_UserID :: string
  aur_GoalID :: string
  aur_Operation :: operation_type
  aur_Provider :: string
  aur_Model :: string
  aur_PromptVersion :: string
  aur_AcceptedAt :: gotime
  aur_QuotaRetainUntil :: gotime
  aur_SettlementBudgetMonthUtc :: gotime
  aur_SettlementReservationCostUSD :: string

record AIGenerationLocator =
  agl_UserID :: string
  agl_Operation :: operation_type
  agl_Status :: string
  agl_DraftID :: string
  agl_GoalID :: string
  agl_CycleID :: string

record GoalRefineGenerationKey =
  ggk_GenerationID :: string
  ggk_UserID :: string
  ggk_DraftID :: string

record GoalRefineSettlementState =
  grs_BudgetMonthUtc :: gotime
  grs_ReservedCostUSD :: string
  grs_TargetRevision :: i64

record AIGenerationSettlement =
  ags_GenerationID :: string
  ags_ExpectedReservationUSD :: string
  ags_Status :: string
  ags_Output :: "string option"
  ags_InputTokens :: i64
  ags_OutputTokens :: i64
  ags_EstimatedCostUSD :: string
  ags_AttemptCount :: "16 word"
  ags_FailureCode :: string
  ags_ProviderRequestID :: string
  ags_ContextChanged :: bool
  ags_FinishedAt :: gotime

record AIUsageSettlement =
  aus_OperationID :: string
  aus_ExpectedBudgetMonthUtc :: gotime
  aus_ExpectedReservationCostUSD :: string
  aus_Status :: string
  aus_InputTokens :: i64
  aus_OutputTokens :: i64
  aus_EstimatedCostUSD :: string
  aus_FinalizedAt :: gotime

record AIUsageLocator =
  aul_UserID :: string
  aul_AcceptedAt :: gotime
  aul_FinalizedAt :: "gotime option"

record AIUsageState =
  ause_AcceptedAt :: gotime
  ause_FinalizedAt :: "gotime option"
  ause_SettlementBudgetMonthUtc :: gotime
  ause_SettlementReservationCostUSD :: string

record GoalSuggestionState =
  gss_TargetRevision :: i64
  gss_SourceText :: string
  gss_Output :: string
  gss_AdoptedAt :: "gotime option"
  gss_AdoptedDraftRevision :: "i64 option"

record AdoptDraftRecord =
  adr_DraftID :: string
  adr_UserID :: string
  adr_ExpectedRevision :: i64
  adr_Body :: string
  adr_NewRevision :: i64
  adr_UpdatedAt :: gotime

record AIResponse =
  ar_GenerationID :: string
  ar_SourceDraftRevision :: "i64 option"
  ar_SourceGoalRevision :: i64
  ar_Suggestion :: string
  ar_Action :: string
  ar_ContentRevision :: i64
  ar_ActionRevision :: i64
  ar_ContextChanged :: bool
  ar_Replayed :: bool
  ar_SettlementPath :: string
  ar_SettlementResult :: string

definition zero_AIResponse :: AIResponse where
  "zero_AIResponse =
     \<lparr>ar_GenerationID = [], ar_SourceDraftRevision = None, ar_SourceGoalRevision = 0,
      ar_Suggestion = [], ar_Action = [], ar_ContentRevision = 0, ar_ActionRevision = 0,
      ar_ContextChanged = False, ar_Replayed = False, ar_SettlementPath = [],
      ar_SettlementResult = []\<rparr>"

text \<open>The statuses of a generation.\<close>

abbreviation aiStatusRunning :: string where "aiStatusRunning \<equiv> ''running''"
abbreviation aiStatusSucceeded :: string where "aiStatusSucceeded \<equiv> ''succeeded''"
abbreviation aiStatusFailed :: string where "aiStatusFailed \<equiv> ''failed''"

subsection \<open>Times\<close>

definition AIRollingWindow :: int where
  "AIRollingWindow = 24 * 3600 * 1000000000"

definition AIUsageRetentionSafetyMargin :: int where
  "AIUsageRetentionSafetyMargin = 15 * 60 * 1000000000"

definition AIUsageRetentionDuration :: int where
  "AIUsageRetentionDuration = AIRollingWindow + AIUsageRetentionSafetyMargin"

definition aiRateBucketLifetime :: int where
  "aiRateBucketLifetime = 2 * 60 * 1000000000"

definition minute :: int where
  "minute = 60 * 1000000000"

definition time_add :: "gotime \<Rightarrow> int \<Rightarrow> gotime" where
  "time_add t d = t\<lparr>nanos := nanos t + d\<rparr>"

definition AIUsageQuotaRetainUntil :: "gotime \<Rightarrow> gotime" where
  "AIUsageQuotaRetainUntil acceptedAt = time_add acceptedAt AIUsageRetentionDuration"

text \<open>
  \<open>time.Date(now.Year(), now.Month(), 1, 0, 0, 0, 0, time.UTC)\<close> of a UTC time: the day of the
  month is found as \<open>time.Time\<close> does it, by cutting the days since 1 January of year 1 into
  400, 100, 4 and 1 years and then into months.
\<close>

definition day_length :: int where
  "day_length = 86400 * 1000000000"

definition year_and_day :: "int \<Rightarrow> int \<times> int" where
  "year_and_day days =
     (let n400 = days div 146097; d400 = days mod 146097;
          n100 = min 3 (d400 div 36524); d100 = d400 - 36524 * n100;
          n4 = d100 div 1461; d4 = d100 mod 1461;
          n1 = min 3 (d4 div 365)
      in (400 * n400 + 100 * n100 + 4 * n4 + n1 + 1, d4 - 365 * n1))"

fun day_in_month :: "nat \<Rightarrow> int list \<Rightarrow> int \<Rightarrow> nat \<times> int" where
  "day_in_month m [] d = (m, d)"
| "day_in_month m (n # ns) d = (if d < n then (m, d) else day_in_month (Suc m) ns (d - n))"

definition month_lengths :: "int \<Rightarrow> int list" where
  "month_lengths year =
     [31, if year mod 4 = 0 \<and> (year mod 100 \<noteq> 0 \<or> year mod 400 = 0) then 29 else 28,
      31, 30, 31, 30, 31, 31, 30, 31, 30]"

definition budget_month :: "gotime \<Rightarrow> gotime" where
  "budget_month now =
     (let days = nanos now div day_length; (year, yday) = year_and_day days;
          (month, mday) = day_in_month 1 (month_lengths year) yday
      in \<lparr>nanos = (days - mday) * day_length, loc = UTC\<rparr>)"

subsection \<open>Amounts\<close>

definition round_even :: "rat \<Rightarrow> int" where
  "round_even x =
     (let q = \<lfloor>x\<rfloor>; r = x - of_int q in if 2 * r > 1 \<or> (2 * r = 1 \<and> odd q) then q + 1 else q)"

definition pad_zeros :: "nat \<Rightarrow> string \<Rightarrow> string" where
  "pad_zeros n s = replicate (n - length s) (CHR ''0'') @ s"

definition decimalFromFloat :: "rat \<Rightarrow> string" where
  "decimalFromFloat value =
     (let n = nat (round_even (\<bar>value\<bar> * 10 ^ 8)) in
      (if value < 0 then ''-'' else []) @ decimal (n div 10 ^ 8) @ ''.'' @
        pad_zeros 8 (decimal (n mod 10 ^ 8)))"

definition is_digit_char :: "char \<Rightarrow> bool" where
  "is_digit_char c \<longleftrightarrow> 48 \<le> byte c \<and> byte c \<le> 57"

definition digits_value :: "string \<Rightarrow> nat" where
  "digits_value s = foldl (\<lambda>n c. 10 * n + (byte c - 48)) 0 s"

definition unsigned_decimal :: "string \<Rightarrow> rat option" where
  "unsigned_decimal s =
     (let whole = takeWhile is_digit_char s in
      case dropWhile is_digit_char s of
        [] \<Rightarrow> if whole = [] then None else Some (of_nat (digits_value whole))
      | c # fraction \<Rightarrow>
          if c = CHR ''.'' \<and> list_all is_digit_char fraction \<and> (whole \<noteq> [] \<or> fraction \<noteq> [])
          then Some (of_nat (digits_value (whole @ fraction)) / 10 ^ length fraction)
          else None)"

definition rat_SetString :: "string \<Rightarrow> rat option" where
  "rat_SetString s =
     (case s of
        c # rest \<Rightarrow>
          if c = CHR ''-'' then map_option uminus (unsigned_decimal rest)
          else if c = CHR ''+'' then unsigned_decimal rest
          else unsigned_decimal s
      | [] \<Rightarrow> None)"

definition invariantError :: "string \<Rightarrow> workspace_error" where
  "invariantError detail = ErrGoalDraftPersistenceInvariant detail"

fun sum_amounts :: "rat \<Rightarrow> string list \<Rightarrow> workspace_error + rat" where
  "sum_amounts accumulated [] = Inr accumulated"
| "sum_amounts accumulated (amount # amounts) =
     (case rat_SetString amount of
        None \<Rightarrow> Inl (invariantError ''invalid exact AI budget amount'')
      | Some parsed \<Rightarrow> sum_amounts (accumulated + parsed) amounts)"

definition exceedsBudget :: "AIBudgetState \<Rightarrow> string \<Rightarrow> string \<Rightarrow> workspace_error + bool" where
  "exceedsBudget budget reservation limit =
     rbind (sum_amounts 0 [ab_ReservedCostUSD budget, ab_ActualCostUSD budget,
              ab_UnattributedCostUSD budget, reservation]) (\<lambda>exposure.
       case rat_SetString limit of
         None \<Rightarrow> Inl (invariantError ''invalid exact AI budget limit'')
       | Some maximum \<Rightarrow> Inr (exposure > maximum))"

subsection \<open>Rows and order\<close>

definition requireRows :: "string \<Rightarrow> i64 \<Rightarrow> i64 \<Rightarrow> workspace_error option" where
  "requireRows operation actual expected =
     (if actual = expected then None
      else Some (ErrGoalDraftPersistenceInvariant (rows_message operation actual expected)))"

definition goalDraftRateHash :: "(string \<Rightarrow> string \<Rightarrow> string) \<Rightarrow> string \<Rightarrow> string \<Rightarrow> string \<Rightarrow> string" where
  "goalDraftRateHash hmac key scope value = hmac key (scope @ [CHR 0x00] @ value)"

subsection \<open>The transaction interface\<close>

text \<open>The operations \<open>GoalDraftTx\<close> and \<open>ActionAITx\<close> have in common.\<close>

record 's AITx =
  ai_LockUser :: "string \<Rightarrow> ('s, unit) tx"
  ai_LockGoalWithCurrentVersion :: "string \<Rightarrow> string \<Rightarrow> ('s, GoalTargetState) tx"
  ai_ListAIContextCycles :: "string \<Rightarrow> string \<Rightarrow> string \<Rightarrow> int \<Rightarrow> ('s, AIContextCycle list) tx"
  ai_LockExpiredGenerations :: "string \<Rightarrow> gotime \<Rightarrow> ('s, ExpiredGeneration list) tx"
  ai_SumLockedReservationsByMonth :: "string list \<Rightarrow> ('s, MonthlyReservation list) tx"
  ai_ReleaseBudgetReservationCAS :: "gotime \<Rightarrow> string \<Rightarrow> gotime \<Rightarrow> ('s, i64) tx"
  ai_ExpireGenerationCAS :: "string \<Rightarrow> string \<Rightarrow> gotime \<Rightarrow> ('s, i64) tx"
  ai_ExpireUsageCAS :: "string \<Rightarrow> gotime \<Rightarrow> string \<Rightarrow> ('s, i64) tx"
  ai_CountRollingUsage :: "string \<Rightarrow> gotime \<Rightarrow> ('s, int) tx"
  ai_IncrementRateBucket :: "AIRateBucket \<Rightarrow> ('s, int) tx"
  ai_EnsureBudgetMonth :: "gotime \<Rightarrow> gotime \<Rightarrow> ('s, unit) tx"
  ai_LockBudgetMonth :: "gotime \<Rightarrow> ('s, AIBudgetState) tx"
  ai_ReserveBudgetCAS :: "gotime \<Rightarrow> string \<Rightarrow> gotime \<Rightarrow> ('s, i64) tx"
  ai_InsertAcceptedUsage :: "AIUsageRecord \<Rightarrow> ('s, i64) tx"
  ai_FindGenerationLocator :: "string \<Rightarrow> ('s, AIGenerationLocator option) tx"
  ai_SettleBudgetCAS :: "gotime \<Rightarrow> string \<Rightarrow> string \<Rightarrow> gotime \<Rightarrow> ('s, i64) tx"
  ai_FinalizeUsageCAS :: "AIUsageSettlement \<Rightarrow> ('s, i64) tx"
  ai_FindUsageLocator :: "string \<Rightarrow> ('s, AIUsageLocator option) tx"
  ai_LockUsage :: "string \<Rightarrow> string \<Rightarrow> ('s, AIUsageState) tx"
  ai_AddLateActualCostCAS :: "gotime \<Rightarrow> string \<Rightarrow> gotime \<Rightarrow> ('s, i64) tx"
  ai_FinalizeLateUsageCAS :: "AIUsageSettlement \<Rightarrow> ('s, i64) tx"

text \<open>A write that must affect exactly the expected rows.\<close>

definition must_affect :: "string \<Rightarrow> i64 \<Rightarrow> ('s, i64) tx \<Rightarrow> ('s, unit) tx" where
  "must_affect operation expected write =
     tx_bind write (\<lambda>rows. tx_check (requireRows operation rows expected))"

text \<open>Trying an operation whose error may be handled: the state is the one before when it fails.\<close>

definition tx_try :: "('s, 'a) tx \<Rightarrow> ('s, workspace_error + 'a) tx" where
  "tx_try m s = (case m s of Inl e \<Rightarrow> Inr (Inl e, s) | Inr (x, t) \<Rightarrow> Inr (Inr x, t))"


subsection \<open>Recovery of expired generations\<close>

text \<open>
  The two use-case types differ only in the sentinel of their invariant errors, which is the
  parameter \<open>invariant\<close> here.
\<close>

definition must_write :: "(string \<Rightarrow> workspace_error) \<Rightarrow> string \<Rightarrow> ('s, i64) tx \<Rightarrow> ('s, unit) tx" where
  "must_write invariant operation write =
     tx_bind write (\<lambda>rows.
       tx_check (if rows = 1 then None else Some (invariant (rows_message operation rows 1))))"

definition expired_order :: "(string \<Rightarrow> workspace_error) \<Rightarrow> ExpiredGeneration list \<Rightarrow> workspace_error option" where
  "expired_order invariant items =
     (if \<not> sorted (map eg_ID items)
      then Some (invariant ''expired AI generations are not locked in UUID order'') else None)"

fun months_ascend :: "MonthlyReservation list \<Rightarrow> bool" where
  "months_ascend (a # b # rest) \<longleftrightarrow>
     \<not> time_before (mr_MonthUtc b) (mr_MonthUtc a) \<and> months_ascend (b # rest)"
| "months_ascend _ \<longleftrightarrow> True"

definition monthly_order :: "(string \<Rightarrow> workspace_error) \<Rightarrow> MonthlyReservation list \<Rightarrow> workspace_error option" where
  "monthly_order invariant items =
     (if months_ascend items then None
      else Some (invariant ''AI budget months are not locked in ascending order''))"

fun release_all ::
  "(string \<Rightarrow> workspace_error) \<Rightarrow> ('s, 'z) AITx_scheme \<Rightarrow> gotime \<Rightarrow> MonthlyReservation list \<Rightarrow> ('s, unit) tx"
where
  "release_all invariant tx now [] = tx_return ()"
| "release_all invariant tx now (reservation # reservations) =
     tx_bind (must_write invariant ''release expired AI reservation''
                (ai_ReleaseBudgetReservationCAS tx (mr_MonthUtc reservation) (mr_AmountUSD reservation) now))
       (\<lambda>_. release_all invariant tx now reservations)"

fun expire_all ::
  "(string \<Rightarrow> workspace_error) \<Rightarrow> ('s, 'z) AITx_scheme \<Rightarrow> gotime \<Rightarrow> ExpiredGeneration list \<Rightarrow> ('s, unit) tx"
where
  "expire_all invariant tx now [] = tx_return ()"
| "expire_all invariant tx now (item # items) =
     tx_bind (must_write invariant ''expire AI generation''
                (ai_ExpireGenerationCAS tx (eg_ID item) (eg_ReservedCostUSD item) now)) (\<lambda>_.
     tx_bind (must_write invariant ''expire AI usage''
                (ai_ExpireUsageCAS tx (eg_ID item) (eg_BudgetMonthUtc item) (eg_ReservedCostUSD item)))
       (\<lambda>_. expire_all invariant tx now items))"

definition recover_expired ::
  "(string \<Rightarrow> workspace_error) \<Rightarrow> ('s, 'z) AITx_scheme \<Rightarrow> string \<Rightarrow> gotime \<Rightarrow> ('s, unit) tx" where
  "recover_expired invariant tx userID now =
     tx_bind (ai_LockExpiredGenerations tx userID now) (\<lambda>items.
     tx_bind (tx_check (expired_order invariant items)) (\<lambda>_.
     tx_bind (ai_SumLockedReservationsByMonth tx (map eg_ID items)) (\<lambda>monthly.
     tx_bind (tx_check (monthly_order invariant monthly)) (\<lambda>_.
     tx_bind (release_all invariant tx now monthly) (\<lambda>_.
     expire_all invariant tx now items)))))"

subsection \<open>Rate limits\<close>

text \<open>The checks run in order; a limit of zero or less and an absent value switch a check off.\<close>

fun check_ai_buckets ::
  "('s, 'z) AITx_scheme \<Rightarrow> (string \<Rightarrow> string \<Rightarrow> string) \<Rightarrow> string \<Rightarrow> gotime \<Rightarrow>
   (string \<times> string \<times> int) list \<Rightarrow> ('s, unit) tx" where
  "check_ai_buckets tx hmac key window [] = tx_return ()"
| "check_ai_buckets tx hmac key window ((scope, value, limit) # checks) =
     (if value = [] \<or> limit \<le> 0 then check_ai_buckets tx hmac key window checks
      else tx_bind (ai_IncrementRateBucket tx
             \<lparr>rb_Scope = scope, rb_KeyHash = goalDraftRateHash hmac key scope value,
              rb_WindowStart = window, rb_ExpiresAt = time_add window aiRateBucketLifetime\<rparr>) (\<lambda>count.
           if count > limit then tx_fail ErrAIRateLimit
           else check_ai_buckets tx hmac key window checks))"

subsection \<open>Late settlement\<close>

text \<open>
  The cost of a provider call whose generation is gone or already terminal is added to the month
  it was reserved in, once.
\<close>

definition settle_late ::
  "(string \<Rightarrow> workspace_error) \<Rightarrow> ('s, 'z) AITx_scheme \<Rightarrow> string \<Rightarrow> string \<Rightarrow> bool \<Rightarrow> rat AIExecutionResult \<Rightarrow>
   workspace_error option \<Rightarrow> gotime \<Rightarrow> ('s, bool) tx" where
  "settle_late invariant tx generationID knownUserID userLocked result providerErr now =
     tx_bind (ai_FindUsageLocator tx generationID) (\<lambda>locator.
     case locator of
       None \<Rightarrow> tx_return False
     | Some l \<Rightarrow>
         if aul_FinalizedAt l \<noteq> None then tx_return False
         else if knownUserID \<noteq> [] \<and> aul_UserID l \<noteq> knownUserID
         then tx_fail (invariant ''late AI usage owner changed'')
         else
           tx_bind (if userLocked then tx_return (Inr ()) else tx_try (ai_LockUser tx (aul_UserID l)))
             (\<lambda>locked.
           case locked of
             Inl err \<Rightarrow> if err = ErrNotFound then tx_return False else tx_fail err
           | Inr _ \<Rightarrow>
               tx_bind (tx_try (ai_LockUsage tx generationID (aul_UserID l))) (\<lambda>found.
               case found of
                 Inl err \<Rightarrow> if err = ErrNotFound then tx_return False else tx_fail err
               | Inr usage \<Rightarrow>
                   if ause_FinalizedAt usage \<noteq> None then tx_return False
                   else if time_is_zero (ause_SettlementBudgetMonthUtc usage) \<or>
                      ause_SettlementReservationCostUSD usage = []
                   then tx_fail (invariant ''late AI usage settlement exposure is missing'')
                   else
                     let month = ause_SettlementBudgetMonthUtc usage;
                         cost = decimalFromFloat (au_CostUSD (ae_Usage result)) in
                     tx_bind (ai_EnsureBudgetMonth tx month now) (\<lambda>_.
                     tx_bind (must_write invariant ''add late AI actual cost''
                                (ai_AddLateActualCostCAS tx month cost now)) (\<lambda>_.
                     tx_bind (must_write invariant ''finalize late AI usage''
                                (ai_FinalizeLateUsageCAS tx
                                  \<lparr>aus_OperationID = generationID, aus_ExpectedBudgetMonthUtc = month,
                                   aus_ExpectedReservationCostUSD = ause_SettlementReservationCostUSD usage,
                                   aus_Status = (if providerErr = None then aiStatusSucceeded
                                                 else aiStatusFailed),
                                   aus_InputTokens = au_InputTokens (ae_Usage result),
                                   aus_OutputTokens = au_OutputTokens (ae_Usage result),
                                   aus_EstimatedCostUSD = cost, aus_FinalizedAt = now\<rparr>)) (\<lambda>_.
                     tx_return True))))))"

subsection \<open>Amounts are read back as they were written\<close>

lemma digits_value_append_digit:
  "is_digit_char c \<Longrightarrow> digits_value (s @ [c]) = 10 * digits_value s + (byte c - 48)"
  by (simp add: digits_value_def)

lemma digit_char_is_digit: "byte (digit_char n) = 48 + n mod 10"
  by (simp add: digit_char_def)

lemma digits_value_decimal: "digits_value (decimal n) = n"
proof (induction n rule: decimal.induct)
  case (1 n)
  have d: "is_digit_char (digit_char n)" by (simp add: is_digit_char_def digit_char_is_digit)
  show ?case
  proof (cases "n < 10")
    case True
    then show ?thesis by (simp add: decimal.simps[of n] digits_value_def digit_char_is_digit)
  next
    case False
    then show ?thesis
      using 1 by (simp add: decimal.simps[of n] digits_value_append_digit[OF d] digit_char_is_digit)
  qed
qed

lemma decimal_digits: "list_all is_digit_char (decimal n)"
  using decimal_bytes[of n] by (auto simp: list_all_iff is_digit_char_def)

lemma decimal_length: "n < 10 ^ k \<Longrightarrow> 0 < k \<Longrightarrow> length (decimal n) \<le> k"
proof (induction n arbitrary: k rule: decimal.induct)
  case (1 n)
  show ?case
  proof (cases "n < 10")
    case True
    then show ?thesis using 1 by (simp add: decimal.simps[of n])
  next
    case False
    then have "k \<noteq> 1" using 1(2) by auto
    then obtain j where j: "k = Suc j" "0 < j" using 1(3) by (cases k) auto
    have "n div 10 < 10 ^ j" using 1(2) j by (simp add: less_mult_imp_div_less mult.commute)
    from 1(1)[OF False this j(2)] show ?thesis using False j by (simp add: decimal.simps[of n])
  qed
qed

lemma digits_value_zeros: "digits_value (replicate k (CHR ''0'') @ s) = digits_value s"
  by (induction k) (simp_all add: digits_value_def)

lemma digits_value_append:
  "digits_value (a @ b) = digits_value a * 10 ^ length b + digits_value b"
proof (induction b rule: rev_induct)
  case Nil
  then show ?case by (simp add: digits_value_def)
next
  case (snoc c b)
  have "digits_value (a @ b @ [c]) = 10 * digits_value (a @ b) + (byte c - 48)"
    by (simp add: digits_value_def)
  then show ?case using snoc by (simp add: digits_value_def algebra_simps)
qed

lemma pad_zeros_simps:
  assumes "length s \<le> n" "list_all is_digit_char s"
  shows "length (pad_zeros n s) = n" "digits_value (pad_zeros n s) = digits_value s"
    "list_all is_digit_char (pad_zeros n s)"
  using assms by (auto simp: pad_zeros_def digits_value_zeros list_all_iff is_digit_char_def)

lemma takeWhile_digits:
  "list_all is_digit_char w \<Longrightarrow> \<not> is_digit_char c \<Longrightarrow>
     takeWhile is_digit_char (w @ c # f) = w \<and> dropWhile is_digit_char (w @ c # f) = c # f"
  by (induction w) auto

lemma unsigned_decimal_fixed:
  "unsigned_decimal (decimal w @ CHR ''.'' # pad_zeros 8 (decimal (f mod 10 ^ 8))) =
     Some (of_nat (w * 10 ^ 8 + f mod 10 ^ 8) / 10 ^ 8)"
proof -
  have f: "length (decimal (f mod 10 ^ 8)) \<le> 8" by (rule decimal_length) simp_all
  have dot: "\<not> is_digit_char (CHR ''.'')" by (simp add: is_digit_char_def)
  show ?thesis
    using takeWhile_digits[OF decimal_digits dot, of w] pad_zeros_simps[OF f decimal_digits]
    by (simp add: unsigned_decimal_def digits_value_append digits_value_decimal)
qed

definition money :: "rat \<Rightarrow> rat" where
  "money value = (if value < 0 then - 1 else 1) * of_int (round_even (\<bar>value\<bar> * 10 ^ 8)) / 10 ^ 8"

lemma round_even_bounds: "\<bar>of_int (round_even x) - x\<bar> \<le> 1 / 2"
proof -
  define q where "q = \<lfloor>x\<rfloor>"
  have q: "of_int q \<le> x" "x < of_int q + 1" unfolding q_def by linarith+
  have "round_even x = (if 2 * (x - of_int q) > 1 \<or> (2 * (x - of_int q) = 1 \<and> odd q) then q + 1 else q)"
    by (simp add: round_even_def Let_def q_def)
  then show ?thesis using q by (auto simp: abs_if split: if_splits)
qed

lemma round_even_nonneg: "0 \<le> x \<Longrightarrow> 0 \<le> round_even x"
  by (auto simp: round_even_def Let_def)

lemma decimalFromFloat_read:
  "rat_SetString (decimalFromFloat value) = Some (money value)"
  "\<bar>money value - value\<bar> \<le> 1 / (2 * 10 ^ 8)"
proof -
  define n where "n = nat (round_even (\<bar>value\<bar> * 10 ^ 8))"
  have n: "rat_of_nat n = of_int (round_even (\<bar>value\<bar> * 10 ^ 8))"
    unfolding n_def using round_even_nonneg[of "\<bar>value\<bar> * 10 ^ 8"] by simp
  have first: "decimal k \<noteq> [] \<and> hd (decimal k) \<noteq> CHR ''-'' \<and> hd (decimal k) \<noteq> CHR ''+''" for k
  proof -
    obtain c cs where c: "decimal k = c # cs" by (cases "decimal k") auto
    with decimal_digits[of k] have "is_digit_char c" by simp
    then show ?thesis using c by (auto simp: is_digit_char_def)
  qed
  have u: "unsigned_decimal (decimal (n div 10 ^ 8) @ CHR ''.'' # pad_zeros 8 (decimal (n mod 10 ^ 8))) =
      Some (of_nat n / 10 ^ 8)"
    using unsigned_decimal_fixed[of "n div 10 ^ 8" n] by simp
  have written: "decimalFromFloat value = (if value < 0 then ''-'' else []) @ decimal (n div 10 ^ 8) @ ''.'' @
      pad_zeros 8 (decimal (n mod 10 ^ 8))"
    unfolding decimalFromFloat_def Let_def n_def ..
  have amount: "money value = (if value < 0 then - 1 else 1) * rat_of_nat n / 10 ^ 8"
    by (simp only: money_def n)
  have "rat_SetString (decimalFromFloat value) = Some (money value)"
  proof (cases "value < 0")
    case True
    then show ?thesis using u by (simp add: written amount rat_SetString_def)
  next
    case False
    obtain c cs where "decimal (n div 10 ^ 8) = c # cs" "c \<noteq> CHR ''-''" "c \<noteq> CHR ''+''"
      using first[of "n div 10 ^ 8"] by (cases "decimal (n div 10 ^ 8)") auto
    with u False show ?thesis by (simp add: written amount rat_SetString_def)
  qed
  moreover have "\<bar>money value - value\<bar> \<le> 1 / (2 * 10 ^ 8)"
  proof -
    have "\<bar>of_int (round_even (\<bar>value\<bar> * 10 ^ 8)) - \<bar>value\<bar> * 10 ^ 8\<bar> \<le> 1 / 2" by (rule round_even_bounds)
    then have "\<bar>(of_int (round_even (\<bar>value\<bar> * 10 ^ 8)) - \<bar>value\<bar> * 10 ^ 8) / 10 ^ 8\<bar> \<le> 1 / (2 * 10 ^ 8)"
      unfolding abs_divide by (simp add: divide_simps)
    moreover have "\<bar>money value - value\<bar> = \<bar>(of_int (round_even (\<bar>value\<bar> * 10 ^ 8)) - \<bar>value\<bar> * 10 ^ 8) / 10 ^ 8\<bar>"
      by (cases "value < 0") (simp_all add: money_def divide_simps abs_if)
    ultimately show ?thesis by simp
  qed
  ultimately show "rat_SetString (decimalFromFloat value) = Some (money value)"
    "\<bar>money value - value\<bar> \<le> 1 / (2 * 10 ^ 8)" by simp_all
qed

text \<open>[C20] The AI budget check is exact: with readable amounts in the budget row, a reservation is refused if
  and only if the reserved, the actual and the unattributed costs and the reservation together exceed the
  monthly limit, as rational numbers.\<close>

theorem exceedsBudget_exact:
  assumes "rat_SetString (ab_ReservedCostUSD budget) = Some r" "rat_SetString (ab_ActualCostUSD budget) = Some a"
    "rat_SetString (ab_UnattributedCostUSD budget) = Some u"
  shows "exceedsBudget budget (decimalFromFloat reservation) (decimalFromFloat limit) =
    Inr (r + a + u + money reservation > money limit)"
  using assms by (simp add: exceedsBudget_def decimalFromFloat_read)

theorem exceedsBudget_exact_witness:
  "exceedsBudget \<lparr>ab_ReservedCostUSD = ''1.50'', ab_ActualCostUSD = ''2'', ab_UnattributedCostUSD = ''0.0''\<rparr>
     (decimalFromFloat (1 / 2)) (decimalFromFloat 4) = Inr False"
proof -
  let ?budget = "\<lparr>ab_ReservedCostUSD = ''1.50'', ab_ActualCostUSD = ''2'', ab_UnattributedCostUSD = ''0.0''\<rparr>"
  note parse = rat_SetString_def unsigned_decimal_def is_digit_char_def digits_value_def
  have "rat_SetString ''1.50'' = Some (3 / 2)" "rat_SetString ''2'' = Some 2" "rat_SetString ''0.0'' = Some 0"
    by (simp_all add: parse)
  with exceedsBudget_exact[of ?budget "3 / 2" 2 0 "1 / 2" 4] show ?thesis
    by (simp add: money_def round_even_def Let_def)
qed

end
