(* ===== verification/AIAdmission.thy ===== *)
theory AIAdmission
  imports AIAccounting "HOL-Library.Sublist"
begin

section \<open>Admission and settlement of AI operations\<close>

text \<open>
  The steps \<open>workspace/goal_draft_use_cases.go\<close> and \<open>workspace/action_ai_use_cases.go\<close> have in
  common: the check of the context a selector returned, the reservation of the monthly budget, and
  the settlement of a finished provider call.  The two files differ in the sentinel of their
  invariant errors, the parameter \<open>invariant\<close> here.
\<close>

subsection \<open>Texts of a selected context\<close>

text \<open>\<open>utf8.ValidString\<close>.\<close>

function utf8_valid :: "string \<Rightarrow> bool" where
  "utf8_valid [] \<longleftrightarrow> True"
| "utf8_valid (c # cs) \<longleftrightarrow>
     (let (r, n) = decode_rune (c # cs)
      in \<not> (r = rune_error \<and> n = 1) \<and> utf8_valid (drop n (c # cs)))"
  by pat_completeness auto
termination
proof (relation "measure length", goal_cases)
  case (2 c cs x r n)
  then have "1 \<le> n" using decode_rune_size[of "c # cs"] by (simp add: prod_eq_iff)
  then show ?case by simp
qed simp

declare utf8_valid.simps(2) [simp del]

definition has_prefix :: "string \<Rightarrow> string \<Rightarrow> bool" where
  "has_prefix s p \<longleftrightarrow> length p \<le> length s \<and> take (length p) s = p"

definition has_suffix :: "string \<Rightarrow> string \<Rightarrow> bool" where
  "has_suffix s x \<longleftrightarrow> length x \<le> length s \<and> drop (length s - length x) s = x"

definition trim_suffix :: "string \<Rightarrow> string \<Rightarrow> string" where
  "trim_suffix s x = (if has_suffix s x then take (length s - length x) s else s)"

definition validGoalRefineSelectedText :: "string \<Rightarrow> string \<Rightarrow> bool" where
  "validGoalRefineSelectedText original selected \<longleftrightarrow>
     (if \<not> utf8_valid selected then False
      else if selected = original then True
      else if selected = [] then True
      else if \<not> has_suffix selected truncationMarker then False
      else let prefix = trim_suffix selected truncationMarker in
        length prefix < length original \<and> has_prefix original prefix)"

definition validActionSelectedText :: "string \<Rightarrow> string \<Rightarrow> bool" where
  "validActionSelectedText original selected \<longleftrightarrow>
     (if \<not> utf8_valid selected then False
      else if selected = original \<or> selected = [] then True
      else if \<not> has_suffix selected truncationMarker then False
      else let prefix = trim_suffix selected truncationMarker in
        length prefix < length original \<and> has_prefix original prefix)"

definition validSelectedAction :: "operation_type \<Rightarrow> string \<Rightarrow> string \<Rightarrow> bool" where
  "validSelectedAction operation original selected \<longleftrightarrow>
     (if operation = OperationActionGenerate \<and> selected = [] then True
      else validActionSelectedText original selected)"

text \<open>The two indices over the past Cycles: each selected one is looked for behind the one before.\<close>

fun selected_in_order :: "'a list \<Rightarrow> 'a list \<Rightarrow> bool" where
  "selected_in_order candidates [] \<longleftrightarrow> True"
| "selected_in_order candidates (selected # rest) \<longleftrightarrow>
     (case dropWhile (\<lambda>c. c \<noteq> selected) candidates of
        [] \<Rightarrow> False
      | _ # behind \<Rightarrow> selected_in_order behind rest)"

subsection \<open>Checks of a selection\<close>

definition zero_AISnapshot :: AISnapshot where
  "zero_AISnapshot =
     \<lparr>as_GenerationID = [], as_Operation = [], as_TargetRevision = 0, as_SourceGoalRevision = 0,
      as_CanonicalProviderInputHash = [], as_MaxOutputTokens = 0, as_GoalID = [], as_GoalBody = [],
      as_SourceText = [], as_CurrentCycle = None, as_PastCycles = [], as_CurrentTruncated = False,
      as_ReplayedOutput = None, as_ReplayedContextChanged = False, as_ReplayedContentRevision = 0,
      as_ReplayedActionRevision = 0\<rparr>"

definition validateGoalRefineContextSelection :: "AISnapshot \<Rightarrow> AISnapshot \<Rightarrow> workspace_error option" where
  "validateGoalRefineContextSelection candidate selected =
     (let sourceChanged = as_SourceText selected \<noteq> as_SourceText candidate;
          goalChanged = as_GoalBody selected \<noteq> as_GoalBody candidate in
      if as_GenerationID selected \<noteq> as_GenerationID candidate \<or>
         as_Operation selected \<noteq> as_Operation candidate \<or>
         as_TargetRevision selected \<noteq> as_TargetRevision candidate \<or>
         as_SourceGoalRevision selected \<noteq> as_SourceGoalRevision candidate \<or>
         as_GoalID selected \<noteq> as_GoalID candidate \<or>
         as_CurrentCycle candidate \<noteq> None \<or> as_CurrentCycle selected \<noteq> None \<or>
         as_ReplayedOutput selected \<noteq> None \<or>
         as_ReplayedContextChanged selected \<or>
         as_ReplayedContentRevision selected \<noteq> 0 \<or>
         as_ReplayedActionRevision selected \<noteq> 0 \<or>
         \<not> validGoalRefineSelectedText (as_SourceText candidate) (as_SourceText selected) \<or>
         \<not> validGoalRefineSelectedText (as_GoalBody candidate) (as_GoalBody selected) \<or>
         as_CurrentTruncated selected \<noteq> (sourceChanged \<or> goalChanged)
      then Some ErrAIContextIsolation
      else if \<not> selected_in_order (as_PastCycles candidate) (as_PastCycles selected)
      then Some ErrAIContextIsolation
      else assertSameGoalContext selected)"

definition validateActionAIContextSelection :: "AISnapshot \<Rightarrow> AISnapshot \<Rightarrow> workspace_error option" where
  "validateActionAIContextSelection candidate selected =
     (case (as_CurrentCycle candidate, as_CurrentCycle selected) of
        (Some original, Some current) \<Rightarrow>
          if as_GenerationID selected \<noteq> as_GenerationID candidate \<or>
             as_Operation selected \<noteq> as_Operation candidate \<or>
             as_TargetRevision selected \<noteq> as_TargetRevision candidate \<or>
             as_SourceGoalRevision selected \<noteq> as_SourceGoalRevision candidate \<or>
             as_GoalID selected \<noteq> as_GoalID candidate \<or>
             as_SourceText selected \<noteq> as_SourceText candidate \<or>
             as_ReplayedOutput selected \<noteq> None \<or>
             as_ReplayedContextChanged selected \<or>
             as_ReplayedContentRevision selected \<noteq> 0 \<or>
             as_ReplayedActionRevision selected \<noteq> 0
          then Some ErrAIContextIsolation
          else if acc_ID current \<noteq> acc_ID original \<or> acc_GoalID current \<noteq> acc_GoalID original \<or>
             acc_SequenceNumber current \<noteq> acc_SequenceNumber original \<or>
             acc_Status current \<noteq> acc_Status original \<or>
             acc_GoalBody current \<noteq> acc_GoalBody original \<or>
             \<not> validActionSelectedText (as_GoalBody candidate) (as_GoalBody selected) \<or>
             \<not> validActionSelectedText (acc_Plan original) (acc_Plan current) \<or>
             \<not> validActionSelectedText (acc_Do original) (acc_Do current) \<or>
             \<not> validActionSelectedText (acc_Check original) (acc_Check current) \<or>
             \<not> validSelectedAction (as_Operation candidate) (acc_Action original) (acc_Action current)
          then Some ErrAIContextIsolation
          else if as_CurrentTruncated selected \<noteq>
             (as_GoalBody selected \<noteq> as_GoalBody candidate \<or> acc_Plan current \<noteq> acc_Plan original \<or>
              acc_Do current \<noteq> acc_Do original \<or> acc_Check current \<noteq> acc_Check original \<or>
              (as_Operation candidate = OperationActionRefine \<and> acc_Action current \<noteq> acc_Action original))
          then Some ErrAIContextIsolation
          else if \<not> selected_in_order (as_PastCycles candidate) (as_PastCycles selected)
          then Some ErrAIContextIsolation
          else assertSameGoalContext selected
      | _ \<Rightarrow> Some ErrAIContextIsolation)"

subsection \<open>Reservation\<close>

text \<open>
  From the limit of the User to the reservation in the budget of the month: what is accepted is
  counted, rate limited and within the budget.  The result is the month and the reserved amount.
\<close>

definition reserve_exposure ::
  "(string \<Rightarrow> workspace_error) \<Rightarrow> string \<Rightarrow> ('s, 'z) AITx_scheme \<Rightarrow> (string \<Rightarrow> workspace_error + Entitlements) \<Rightarrow>
   ('s, unit) tx \<Rightarrow> rat \<Rightarrow> rat \<Rightarrow> string \<Rightarrow> gotime \<Rightarrow> ('s, gotime \<times> string) tx" where
  "reserve_exposure invariant operation tx limitsOf rateLimits monthlyBudget reservationUSD userID now =
     tx_bind (tx_lift (limitsOf userID)) (\<lambda>limits.
     tx_bind (ai_CountRollingUsage tx userID (time_add now (- AIRollingWindow))) (\<lambda>usageCount.
     if usageCount \<ge> en_MaxAIOperationsPer24Hours limits then tx_fail ErrAIUserLimit
     else
       let month = budget_month now in
       tx_bind (ai_EnsureBudgetMonth tx month now) (\<lambda>_.
       tx_bind (ai_LockBudgetMonth tx month) (\<lambda>budget.
       tx_bind rateLimits (\<lambda>_.
       let reservation = decimalFromFloat reservationUSD in
       tx_bind (tx_lift (exceedsBudget budget reservation (decimalFromFloat monthlyBudget)))
         (\<lambda>overBudget.
       if overBudget then tx_fail ErrAIBudget
       else tx_bind (must_write invariant operation (ai_ReserveBudgetCAS tx month reservation now))
         (\<lambda>_. tx_return (month, reservation))))))))"

subsection \<open>Settlement\<close>

text \<open>A provider call whose generation is gone or terminal: its cost is settled late and the caller
  is told that the target does not exist.  The left side of the result is an error returned after
  the transaction was committed.\<close>

definition finish_late ::
  "(string \<Rightarrow> workspace_error) \<Rightarrow> ('s, 'z) AITx_scheme \<Rightarrow> string \<Rightarrow> string \<Rightarrow> bool \<Rightarrow> rat AIExecutionResult \<Rightarrow>
   workspace_error option \<Rightarrow> gotime \<Rightarrow> ('s, workspace_error + 'a) tx" where
  "finish_late invariant tx generationID knownUserID userLocked result providerErr now =
     tx_bind (settle_late invariant tx generationID knownUserID userLocked result providerErr now)
       (\<lambda>_. tx_return (Inl ErrNotFound))"

text \<open>A row that has to be there for the settlement; without it the settlement is late.\<close>

definition lock_or_late ::
  "('s, 'b) tx \<Rightarrow> ('s, workspace_error + 'a) tx \<Rightarrow> ('b \<Rightarrow> ('s, workspace_error + 'a) tx) \<Rightarrow>
   ('s, workspace_error + 'a) tx" where
  "lock_or_late lock late continue =
     tx_bind (tx_try lock) (\<lambda>found.
     case found of
       Inl err \<Rightarrow> if err = ErrNotFound then late else tx_fail err
     | Inr row \<Rightarrow> continue row)"

definition settle_budget ::
  "(string \<Rightarrow> workspace_error) \<Rightarrow> string \<Rightarrow> string \<Rightarrow> ('s, 'z) AITx_scheme \<Rightarrow> string \<Rightarrow> gotime \<Rightarrow> string \<Rightarrow>
   string \<Rightarrow> rat AIExecutionResult \<Rightarrow> gotime \<Rightarrow> ('s, unit) tx" where
  "settle_budget invariant settleOperation finalizeOperation tx generationID month reserved status result
     now =
     (let cost = decimalFromFloat (au_CostUSD (ae_Usage result)) in
      tx_bind (must_write invariant settleOperation (ai_SettleBudgetCAS tx month reserved cost now)) (\<lambda>_.
      must_write invariant finalizeOperation (ai_FinalizeUsageCAS tx
        \<lparr>aus_OperationID = generationID, aus_ExpectedBudgetMonthUtc = month,
         aus_ExpectedReservationCostUSD = reserved, aus_Status = status,
         aus_InputTokens = au_InputTokens (ae_Usage result),
         aus_OutputTokens = au_OutputTokens (ae_Usage result),
         aus_EstimatedCostUSD = cost, aus_FinalizedAt = now\<rparr>)))"

text \<open>The error of the operation itself, or the one that is returned after the commit.\<close>

definition outcome :: "workspace_error + (workspace_error + 'a) \<Rightarrow> workspace_error + 'a" where
  "outcome r = (case r of Inl e \<Rightarrow> Inl e | Inr inner \<Rightarrow> inner)"

end
