(* ===== verification/GoalDraftUseCases.thy ===== *)
theory GoalDraftUseCases
  imports AIAccounting
begin

section \<open>Use cases of Goal drafts\<close>

text \<open>
  Model of \<open>workspace/goal_draft_use_cases.go\<close> over the interface \<open>GoalDraftTx\<close> of
  \<open>goal_draft_ports.go\<close>: creation drafts, the review draft, starting a Goal, and the AI refinement
  of a draft with its reservation, settlement and adoption.  The answers of the clock and of the
  ID generator (for \<open>StartGoal\<close> by the number of the call) are arguments; HMAC and SHA-256 are parameters.  The response that \<open>FinishGoalRefine\<close>
  returns beside an error only feeds the metrics and is left out.
\<close>

subsection \<open>Inputs\<close>

record SuccessSignalPatch =
  ssp_Present :: bool
  ssp_Value :: "string option"

record SaveGoalDraftInput =
  sgi_Body :: string
  sgi_SuccessSignal :: SuccessSignalPatch
  sgi_ExpectedRevision :: i64

record StartGoalResult =
  sgr_Goal :: GoalView
  sgr_Cycle :: CycleView
  sgr_Replayed :: bool

record GoalRefineInput =
  gri_UserID :: string
  gri_DraftID :: string
  gri_GoalID :: string
  gri_ExpectedDraftRevision :: i64
  gri_ExpectedGoalRevision :: "i64 option"
  gri_IdempotencyKey :: string
  gri_GenerationID :: string
  gri_RemoteAddress :: string
  gri_SessionID :: string
  gri_Now :: gotime

record GoalDraftUseCaseSettings =
  gds_Provider :: string
  gds_Model :: string
  gds_GoalPromptVersion :: string
  gds_MonthlyBudgetUSD :: rat
  gds_ReservationUSD :: rat
  gds_LeaseDuration :: int
  gds_RateHashKey :: string
  gds_GoalStartPerUserMinute :: int
  gds_GoalStartPerSessionMinute :: int
  gds_AIPerUserMinute :: int
  gds_AIPerSessionMinute :: int
  gds_AIPerIPMinute :: int

text \<open>The operations of \<open>GoalDraftTx\<close> beside those of \<open>AITx\<close>.\<close>

record 's GoalDraftTx = "'s AITx" +
  gd_FindCreationDraft :: "string \<Rightarrow> ('s, Draft option) tx"
  gd_LockDraftByID :: "string \<Rightarrow> string \<Rightarrow> ('s, Draft) tx"
  gd_LockReviewDraftByGoal :: "string \<Rightarrow> string \<Rightarrow> ('s, Draft) tx"
  gd_InsertCreationDraft :: "Draft \<Rightarrow> ('s, i64) tx"
  gd_SaveDraftCAS :: "Draft \<Rightarrow> i64 \<Rightarrow> ('s, i64) tx"
  gd_DeleteCreationDraftCAS :: "string \<Rightarrow> string \<Rightarrow> i64 \<Rightarrow> ('s, i64) tx"
  gd_LockDraftGenerations :: "string \<Rightarrow> string \<Rightarrow> ('s, DraftGenerationState list) tx"
  gd_LockDraftUsages :: "string \<Rightarrow> string list \<Rightarrow> ('s, DraftUsageState list) tx"
  gd_RedactDraftUsagesCAS :: "string \<Rightarrow> string list \<Rightarrow> ('s, i64) tx"
  gd_DeleteExpiredFinalizedDraftUsagesCAS :: "string \<Rightarrow> string list \<Rightarrow> gotime \<Rightarrow> ('s, i64) tx"
  gd_DeleteDraftGenerationsCAS :: "string \<Rightarrow> string \<Rightarrow> string list \<Rightarrow> ('s, i64) tx"
  gd_FindStartReplay :: "string \<Rightarrow> string \<Rightarrow> ('s, StartReplayState option) tx"
  gd_CountProgressingGoals :: "string \<Rightarrow> ('s, int) tx"
  gd_InsertInitialGoal :: "Goal \<Rightarrow> ('s, i64) tx"
  gd_InsertInitialVersion :: "Version \<Rightarrow> ('s, i64) tx"
  gd_TryInsertInitialCycleClaim :: "PDCACycle \<Rightarrow> ('s, i64) tx"
  gd_AttachDraftGenerations :: "string \<Rightarrow> string \<Rightarrow> string list \<Rightarrow> string \<Rightarrow> string \<Rightarrow> ('s, i64) tx"
  gd_AttachUsageToGoal :: "string \<Rightarrow> string list \<Rightarrow> string \<Rightarrow> ('s, i64) tx"
  gd_LoadGoalView :: "string \<Rightarrow> string \<Rightarrow> ('s, GoalView) tx"
  gd_LoadCycleView :: "string \<Rightarrow> string \<Rightarrow> string \<Rightarrow> ('s, CycleView) tx"
  gd_FindGoalRefineReplay :: "string \<Rightarrow> string \<Rightarrow> ('s, GoalRefineReplayState option) tx"
  gd_HasRunningDraftGeneration :: "string \<Rightarrow> ('s, bool) tx"
  gd_InsertGoalRefineGeneration :: "GoalRefineGenerationRecord \<Rightarrow> ('s, i64) tx"
  gd_LockGoalRefineGeneration :: "GoalRefineGenerationKey \<Rightarrow> ('s, GoalRefineSettlementState) tx"
  gd_TerminalizeGenerationCAS :: "AIGenerationSettlement \<Rightarrow> ('s, i64) tx"
  gd_LockSucceededGoalRefineGeneration :: "string \<Rightarrow> string \<Rightarrow> string \<Rightarrow> ('s, GoalSuggestionState) tx"
  gd_AdoptDraftCAS :: "AdoptDraftRecord \<Rightarrow> ('s, i64) tx"
  gd_MarkSuggestionAdoptedCAS :: "string \<Rightarrow> i64 \<Rightarrow> gotime \<Rightarrow> ('s, i64) tx"

subsection \<open>Views and patches\<close>

definition draftView :: "Draft \<Rightarrow> DraftView" where
  "draftView draft =
     \<lparr>dv_ID = dr_ID draft, dv_DraftType = dr_Type draft, dv_GoalID = dr_GoalID draft,
      dv_BaseGoalVersionID = dr_BaseGoalVersionID draft, dv_ReviewCycleID = dr_ReviewCycleID draft,
      dv_Body = dr_Body draft, dv_SuccessSignal = dr_SuccessSignal draft,
      dv_Revision = dr_Revision draft, dv_UpdatedAt = dr_UpdatedAt draft, dv_Replayed = False\<rparr>"

definition resolveSuccessSignalPatch :: "string option \<Rightarrow> SuccessSignalPatch \<Rightarrow> string option" where
  "resolveSuccessSignalPatch current patch =
     (if \<not> ssp_Present patch then current else ssp_Value patch)"

subsection \<open>Saving drafts\<close>

definition uc_CreateDraft ::
  "'s GoalDraftTx \<Rightarrow> gotime \<Rightarrow> workspace_error + string \<Rightarrow> string \<Rightarrow> string \<Rightarrow> ('s, DraftView) tx" where
  "uc_CreateDraft tx now0 newID userID body =
     tx_bind (tx_lift newID) (\<lambda>draftID.
     tx_bind (tx_lift (err_map goal_failure (NewDraft draftID userID body (utc now0)))) (\<lambda>draft.
     tx_bind (ai_LockUser tx userID) (\<lambda>_.
     tx_bind (tx_try (gd_FindCreationDraft tx userID)) (\<lambda>found.
     case found of
       Inl findErr \<Rightarrow>
         if findErr \<noteq> ErrNotFound then tx_fail findErr
         else tx_bind (must_affect ''create Draft'' 1 (gd_InsertCreationDraft tx draft))
                (\<lambda>_. tx_return (draftView draft))
     | Inr (Some existing) \<Rightarrow> tx_fail (DraftAlreadyExistsError (dr_ID existing))
     | Inr None \<Rightarrow> tx_bind (must_affect ''create Draft'' 1 (gd_InsertCreationDraft tx draft))
                (\<lambda>_. tx_return (draftView draft))))))"

definition draft_failure :: "workspace_error \<Rightarrow> goal_error \<Rightarrow> workspace_error" where
  "draft_failure conflict err = (if err = ErrStateConflict then conflict else goal_failure err)"

definition save_locked_draft ::
  "'s GoalDraftTx \<Rightarrow> gotime \<Rightarrow> workspace_error \<Rightarrow> string \<Rightarrow> Draft \<Rightarrow> SaveGoalDraftInput \<Rightarrow>
   ('s, DraftView) tx" where
  "save_locked_draft tx now conflict operation current input =
     tx_bind (tx_lift (err_map (draft_failure conflict)
                (SaveDraft current (sgi_Body input)
                   (resolveSuccessSignalPatch (dr_SuccessSignal current) (sgi_SuccessSignal input))
                   (sgi_ExpectedRevision input) now))) (\<lambda>(saved, noOp).
     tx_bind (if noOp then tx_return ()
              else must_affect operation 1 (gd_SaveDraftCAS tx saved (dr_Revision current)))
       (\<lambda>_. tx_return (draftView saved)))"

definition uc_SaveDraft ::
  "'s GoalDraftTx \<Rightarrow> gotime \<Rightarrow> string \<Rightarrow> string \<Rightarrow> SaveGoalDraftInput \<Rightarrow> ('s, DraftView) tx" where
  "uc_SaveDraft tx now0 userID draftID input =
     tx_bind (gd_LockDraftByID tx userID draftID) (\<lambda>current.
     if dr_Type current \<noteq> DraftCreation then tx_fail ErrNotFound
     else save_locked_draft tx (utc now0) ErrDraftRevisionConflict ''save Draft'' current input)"

definition missing_review_draft :: "workspace_error \<Rightarrow> workspace_error" where
  "missing_review_draft err = (if err = ErrNotFound then ErrReviewRevisionConflict else err)"

definition uc_SaveReview ::
  "'s GoalDraftTx \<Rightarrow> gotime \<Rightarrow> string \<Rightarrow> string \<Rightarrow> string \<Rightarrow> SaveGoalDraftInput \<Rightarrow> ('s, DraftView) tx" where
  "uc_SaveReview tx now0 userID goalID expectedReviewDraftID input =
     tx_bind (ai_LockGoalWithCurrentVersion tx userID goalID) (\<lambda>target.
     if gts_Status target \<noteq> StatusGoalReview then tx_fail ErrGoalReviewNotActive
     else
       tx_bind (tx_map_error missing_review_draft (gd_LockDraftByID tx userID expectedReviewDraftID))
         (\<lambda>current.
       if dr_Type current \<noteq> DraftReview \<or> dr_GoalID current \<noteq> Some goalID
       then tx_fail ErrReviewRevisionConflict
       else save_locked_draft tx (utc now0) ErrReviewRevisionConflict ''save Review Draft'' current
              input))"

subsection \<open>Abandoning a draft\<close>

definition requireGenerationOrder :: "DraftGenerationState list \<Rightarrow> workspace_error option" where
  "requireGenerationOrder items =
     (if \<not> sorted (map dgs_ID items)
      then Some (invariantError ''Draft generations are not locked in UUID order'') else None)"

text \<open>The loops over the locked generations: none may be running.\<close>

definition idle_generation_ids :: "DraftGenerationState list \<Rightarrow> workspace_error + string list" where
  "idle_generation_ids generations =
     (if list_ex (\<lambda>g. dgs_Status g = aiStatusRunning) generations then Inl ErrAIInProgress
      else Inr (map dgs_ID generations))"

fun draft_usages_from ::
  "string list \<Rightarrow> string list \<Rightarrow> DraftUsageState list \<Rightarrow> workspace_error + string list" where
  "draft_usages_from known seen [] = Inr []"
| "draft_usages_from known seen (usage # usages) =
     (if dus_OperationID usage \<notin> set known
      then Inl (invariantError ''Draft usage does not belong to a locked generation'')
      else if dus_OperationID usage \<in> set seen
      then Inl (invariantError ''Draft usage lock returned a duplicate operation'')
      else if time_is_zero (dus_QuotaRetainUntil usage)
      then Inl (invariantError ''Draft usage retention deadline is missing'')
      else rbind (draft_usages_from known (dus_OperationID usage # seen) usages)
             (\<lambda>ids. Inr (dus_OperationID usage # ids)))"

definition draft_usage_retained :: "gotime \<Rightarrow> DraftUsageState \<Rightarrow> bool" where
  "draft_usage_retained now usage \<longleftrightarrow>
     time_before now (dus_QuotaRetainUntil usage) \<or> dus_ProviderUsageFinalizedAt usage = None"

definition partitionDraftUsages ::
  "string list \<Rightarrow> DraftUsageState list \<Rightarrow> gotime \<Rightarrow> workspace_error + string list \<times> string list" where
  "partitionDraftUsages generationIDs usages now =
     rbind (draft_usages_from generationIDs [] usages) (\<lambda>usageIDs.
       if \<not> sorted usageIDs
       then Inl (invariantError ''Draft usages are not locked in UUID order'')
       else Inr (map dus_OperationID (filter (draft_usage_retained now) usages),
                 map dus_OperationID (filter (\<lambda>u. \<not> draft_usage_retained now u) usages)))"

definition uc_AbandonDraft ::
  "'s GoalDraftTx \<Rightarrow> gotime \<Rightarrow> string \<Rightarrow> string \<Rightarrow> ('s, unit) tx" where
  "uc_AbandonDraft tx now0 userID draftID =
     (let now = utc now0 in
     tx_bind (ai_LockUser tx userID) (\<lambda>_.
     tx_bind (gd_LockDraftByID tx userID draftID) (\<lambda>draft.
     if dr_Type draft \<noteq> DraftCreation then tx_fail ErrNotFound
     else
       tx_bind (gd_LockDraftGenerations tx userID draftID) (\<lambda>generations.
       tx_bind (tx_check (requireGenerationOrder generations)) (\<lambda>_.
       tx_bind (tx_lift (idle_generation_ids generations)) (\<lambda>generationIDs.
       tx_bind (gd_LockDraftUsages tx userID generationIDs) (\<lambda>usages.
       tx_bind (tx_lift (partitionDraftUsages generationIDs usages now))
         (\<lambda>(retainedUsageIDs, expiredUsageIDs).
       tx_bind (if retainedUsageIDs = [] then tx_return ()
                else must_affect ''redact abandoned Draft usage'' (of_nat (length retainedUsageIDs))
                       (gd_RedactDraftUsagesCAS tx userID retainedUsageIDs)) (\<lambda>_.
       tx_bind (if expiredUsageIDs = [] then tx_return ()
                else must_affect ''delete expired abandoned Draft usage''
                       (of_nat (length expiredUsageIDs))
                       (gd_DeleteExpiredFinalizedDraftUsagesCAS tx userID expiredUsageIDs now)) (\<lambda>_.
       tx_bind (if generationIDs = [] then tx_return ()
                else must_affect ''delete abandoned Draft generations''
                       (of_nat (length generationIDs))
                       (gd_DeleteDraftGenerationsCAS tx userID draftID generationIDs)) (\<lambda>_.
       must_affect ''delete abandoned Draft'' 1
         (gd_DeleteCreationDraftCAS tx userID draftID (dr_Revision draft)))))))))))))"

subsection \<open>Starting a Goal\<close>

definition start_goal_hash :: "(string \<Rightarrow> string) \<Rightarrow> string \<Rightarrow> i64 \<Rightarrow> string" where
  "start_goal_hash sha256 draftID revision =
     hashRequest sha256 [(''draftId'', JString draftID), (''revision'', JInt (sint revision))]"

text \<open>Every bucket counts, also the one that refuses.\<close>

fun check_start_buckets ::
  "('s, 'z) AITx_scheme \<Rightarrow> (string \<Rightarrow> string \<Rightarrow> string) \<Rightarrow> string \<Rightarrow> gotime \<Rightarrow>
   (string \<times> string \<times> int) list \<Rightarrow> ('s, unit) tx" where
  "check_start_buckets tx hmac key window [] = tx_return ()"
| "check_start_buckets tx hmac key window ((scope, value, limit) # checks) =
     tx_bind (ai_IncrementRateBucket tx
       \<lparr>rb_Scope = scope, rb_KeyHash = goalDraftRateHash hmac key scope value,
        rb_WindowStart = window, rb_ExpiresAt = time_add window aiRateBucketLifetime\<rparr>) (\<lambda>count.
     if count > limit then tx_fail ErrRateLimitExceeded
     else check_start_buckets tx hmac key window checks)"

definition checkGoalStartRateLimits ::
  "('s, 'z) AITx_scheme \<Rightarrow> (string \<Rightarrow> string \<Rightarrow> string) \<Rightarrow> GoalDraftUseCaseSettings \<Rightarrow> string \<Rightarrow> string \<Rightarrow>
   gotime \<Rightarrow> ('s, unit) tx" where
  "checkGoalStartRateLimits tx hmac settings userID sessionID now =
     (if trim_space userID = [] \<or> trim_space sessionID = [] \<or> gds_RateHashKey settings = [] \<or>
         gds_GoalStartPerUserMinute settings \<le> 0 \<or> gds_GoalStartPerSessionMinute settings \<le> 0
      then tx_fail (Infrastructure ''Goal Start rate-limit configuration is invalid'')
      else check_start_buckets tx hmac (gds_RateHashKey settings) (truncate_time minute (utc now))
        [(''goal_start_user_minute'', userID, gds_GoalStartPerUserMinute settings),
         (''goal_start_session_minute'', sessionID, gds_GoalStartPerSessionMinute settings)])"

definition classifyLostInitialCycleClaim ::
  "'s GoalDraftTx \<Rightarrow> InitialAggregate \<Rightarrow> ('s, unit) tx" where
  "classifyLostInitialCycleClaim tx aggregate =
     (let started = ia_Cycle aggregate in
      tx_bind (gd_FindStartReplay tx (cy_UserID started) (cy_StartOperationID started)) (\<lambda>replay.
      case replay of
        None \<Rightarrow> tx_fail (invariantError
          ''initial Cycle claim affected no row without a competing receipt'')
      | Some r \<Rightarrow>
          if srs_GoalID r \<noteq> go_ID (ia_Goal aggregate) \<or> srs_CycleID r \<noteq> cy_ID started \<or>
             srs_RequestHash r \<noteq> cy_StartRequestHash started
          then tx_fail ErrIdempotencyKeyReused
          else tx_fail (invariantError
            ''matching Start Goal receipt appeared while its User lock was held'')))"

definition insertInitialAggregate ::
  "'s GoalDraftTx \<Rightarrow> InitialAggregate \<Rightarrow> ('s, unit) tx" where
  "insertInitialAggregate tx aggregate =
     tx_bind (must_affect ''insert initial Goal'' 1 (gd_InsertInitialGoal tx (ia_Goal aggregate))) (\<lambda>_.
     tx_bind (must_affect ''insert initial Goal Version'' 1
                (gd_InsertInitialVersion tx (ia_Version aggregate))) (\<lambda>_.
     tx_bind (gd_TryInsertInitialCycleClaim tx (ia_Cycle aggregate)) (\<lambda>rows.
     if rows = 0 then classifyLostInitialCycleClaim tx aggregate
     else tx_check (requireRows ''insert initial Cycle claim'' rows 1))))"

definition start_goal_limit :: "int \<Rightarrow> Entitlements \<Rightarrow> workspace_error option" where
  "start_goal_limit count limits =
     (if count > en_MaxProgressingGoals limits
      then Some (JoinErrors ErrGoalActiveLimit ErrProgressingGoalLimitInvariant)
      else if count = en_MaxProgressingGoals limits then Some ErrGoalActiveLimit else None)"

definition start_goal_views ::
  "'s GoalDraftTx \<Rightarrow> string \<Rightarrow> string \<Rightarrow> string \<Rightarrow> bool \<Rightarrow> ('s, StartGoalResult) tx" where
  "start_goal_views tx userID goalID cycleID replayed =
     tx_bind (gd_LoadGoalView tx userID goalID) (\<lambda>goal.
     tx_bind (gd_LoadCycleView tx userID goalID cycleID) (\<lambda>cycle.
     tx_return \<lparr>sgr_Goal = goal, sgr_Cycle = cycle, sgr_Replayed = replayed\<rparr>))"

text \<open>What is written once the draft may be started; \<open>aggregate\<close> holds the new rows.\<close>

definition start_goal_writes ::
  "'s GoalDraftTx \<Rightarrow> string \<Rightarrow> string \<Rightarrow> i64 \<Rightarrow> string list \<Rightarrow> InitialAggregate \<Rightarrow> ('s, unit) tx" where
  "start_goal_writes tx userID draftID revision generationIDs aggregate =
     (let goalID = go_ID (ia_Goal aggregate); versionID = ve_ID (ia_Version aggregate);
          n = of_nat (length generationIDs) in
      tx_bind (insertInitialAggregate tx aggregate) (\<lambda>_.
      tx_bind (if generationIDs = [] then tx_return ()
               else tx_bind (must_affect ''attach Draft generations'' n
                      (gd_AttachDraftGenerations tx userID draftID generationIDs goalID versionID)) (\<lambda>_.
                    must_affect ''attach Draft usage'' n
                      (gd_AttachUsageToGoal tx userID generationIDs goalID))) (\<lambda>_.
      must_affect ''delete started Draft'' 1
        (gd_DeleteCreationDraftCAS tx userID draftID revision))))"

definition start_goal_fresh ::
  "'s GoalDraftTx \<Rightarrow> (string \<Rightarrow> string \<Rightarrow> string) \<Rightarrow> (string \<Rightarrow> workspace_error + Entitlements) \<Rightarrow>
   GoalDraftUseCaseSettings \<Rightarrow> gotime \<Rightarrow> string \<times> string \<times> string \<Rightarrow> string \<Rightarrow> string \<Rightarrow> string \<Rightarrow>
   string \<Rightarrow> string \<Rightarrow> i64 \<Rightarrow> ('s, StartGoalResult) tx" where
  "start_goal_fresh tx hmac limitsOf settings now newIDs requestHash userID sessionID draftID operationID
     expectedDraftRevision =
     (let (goalID, versionID, cycleID) = newIDs in
      tx_bind (gd_LockDraftByID tx userID draftID) (\<lambda>draft.
      if dr_Type draft \<noteq> DraftCreation then tx_fail ErrNotFound
      else if dr_Revision draft \<noteq> expectedDraftRevision then tx_fail ErrDraftRevisionConflict
      else
        tx_bind (tx_lift (err_map goal_failure
                   (StartInitial draft goalID versionID cycleID operationID requestHash now)))
          (\<lambda>aggregate.
        tx_bind (gd_LockDraftGenerations tx userID draftID) (\<lambda>generations.
        tx_bind (tx_check (requireGenerationOrder generations)) (\<lambda>_.
        tx_bind (tx_lift (idle_generation_ids generations)) (\<lambda>generationIDs.
        tx_bind (tx_lift (limitsOf userID)) (\<lambda>limits.
        tx_bind (gd_CountProgressingGoals tx userID) (\<lambda>count.
        tx_bind (tx_check (start_goal_limit count limits)) (\<lambda>_.
        tx_bind (checkGoalStartRateLimits tx hmac settings userID sessionID now) (\<lambda>_.
        tx_bind (start_goal_writes tx userID draftID (dr_Revision draft) generationIDs aggregate) (\<lambda>_.
        start_goal_views tx userID goalID cycleID False)))))))))))"

definition threeIDs ::
  "(nat \<Rightarrow> workspace_error + string) \<Rightarrow> workspace_error + string \<times> string \<times> string" where
  "threeIDs newID =
     rbind (newID 0) (\<lambda>first. rbind (newID 1) (\<lambda>second. rbind (newID 2) (\<lambda>third.
       Inr (first, second, third))))"

definition StartGoal ::
  "'s GoalDraftTx \<Rightarrow> (string \<Rightarrow> string) \<Rightarrow> (string \<Rightarrow> string \<Rightarrow> string) \<Rightarrow>
   (string \<Rightarrow> workspace_error + Entitlements) \<Rightarrow> GoalDraftUseCaseSettings \<Rightarrow> gotime \<Rightarrow>
   (nat \<Rightarrow> workspace_error + string) \<Rightarrow> string \<Rightarrow> string \<Rightarrow> string \<Rightarrow> string \<Rightarrow> i64 \<Rightarrow>
   ('s, StartGoalResult) tx" where
  "StartGoal tx sha256 hmac limitsOf settings now0 newID userID sessionID draftID operationID
     expectedDraftRevision =
     (if trim_space sessionID = [] then tx_fail (Infrastructure ''Goal Start session ID is required'')
      else
        tx_bind (tx_lift (threeIDs newID)) (\<lambda>newIDs.
        let now = utc now0; requestHash = start_goal_hash sha256 draftID expectedDraftRevision in
        tx_bind (ai_LockUser tx userID) (\<lambda>_.
        tx_bind (gd_FindStartReplay tx userID operationID) (\<lambda>replay.
        case replay of
          Some r \<Rightarrow>
            if srs_RequestHash r \<noteq> requestHash then tx_fail ErrIdempotencyKeyReused
            else start_goal_views tx userID (srs_GoalID r) (srs_CycleID r) True
        | None \<Rightarrow>
            start_goal_fresh tx hmac limitsOf settings now newIDs requestHash userID sessionID draftID
              operationID expectedDraftRevision))))"

end
