(* ===== verification/GoalRefine.thy ===== *)
theory GoalRefine
  imports AIAdmission GoalDraftUseCases
begin

section \<open>AI refinement of a Goal draft\<close>

text \<open>
  Model of the second half of \<open>workspace/goal_draft_use_cases.go\<close>: accepting a refinement
  (\<open>BeginGoalRefine\<close>), settling it after the provider answered (\<open>FinishGoalRefine\<close>) and adopting
  its suggestion (\<open>AdoptGoalSuggestion\<close>).  The selector of the context is a function argument,
  absent when the caller passes none.  Some errors are returned after the transaction was committed:
  they are the left side of the inner sum of a result.
\<close>

subsection \<open>The draft of a refinement\<close>

definition lockGoalRefineDraft ::
  "'s GoalDraftTx \<Rightarrow> string \<Rightarrow> string \<Rightarrow> string \<Rightarrow> ('s, Draft) tx" where
  "lockGoalRefineDraft tx userID draftID goalID =
     (if draftID \<noteq> [] then gd_LockDraftByID tx userID draftID
      else if goalID \<noteq> [] then gd_LockReviewDraftByGoal tx userID goalID
      else tx_fail ErrNotFound)"

definition validateGoalRefineDraftTarget :: "Draft \<Rightarrow> string \<Rightarrow> workspace_error option" where
  "validateGoalRefineDraftTarget draft goalID =
     (if goalID = [] then
        if dr_Type draft \<noteq> DraftCreation \<or> dr_GoalID draft \<noteq> None then Some ErrDraftTypeMismatch
        else None
      else if dr_Type draft \<noteq> DraftReview \<or> dr_GoalID draft \<noteq> Some goalID
      then Some ErrDraftTypeMismatch else None)"

subsection \<open>Idempotency\<close>

definition goalRefineRequestHash :: "(string \<Rightarrow> string) \<Rightarrow> string \<Rightarrow> GoalRefineInput \<Rightarrow> string" where
  "goalRefineRequestHash sha256 draftID input =
     hashRequest sha256
       ([(''operation'', JString OperationGoalRefine), (''draftId'', JString draftID)] @
        (if gri_GoalID input = [] then [] else [(''goalId'', JString (gri_GoalID input))]) @
        [(''expectedDraftRevision'', JInt (sint (gri_ExpectedDraftRevision input)))] @
        (case gri_ExpectedGoalRevision input of
           None \<Rightarrow> []
         | Some r \<Rightarrow> [(''expectedGoalRevision'', JInt (sint r))]))"

definition goalRefineFailureError :: "string \<Rightarrow> workspace_error" where
  "goalRefineFailureError code =
     (if code = ''invalid_response'' then ErrAIInvalidResponse
      else if code = ''provider_timeout'' then ErrAIProviderTimeout
      else if code = ''target_deleted'' then ErrNotFound
      else if code = ''goal_version_conflict'' then ErrGoalVersionConflict
      else if code = ''lease_expired'' then ErrAIProviderUnavailable
      else ErrAIProviderUnavailable)"

definition goalRefineFailureCode :: "workspace_error \<Rightarrow> string" where
  "goalRefineFailureCode err =
     (if err = ErrAIInvalidResponse then ''invalid_response''
      else if err = ErrAIProviderTimeout then ''provider_timeout''
      else if err = ErrNotFound then ''target_deleted''
      else if err = ErrGoalVersionConflict then ''goal_version_conflict''
      else ''provider_unavailable'')"

definition replayGoalRefine :: "GoalRefineReplayState \<Rightarrow> string \<Rightarrow> workspace_error + AISnapshot" where
  "replayGoalRefine replay requestHash =
     (if grr_IdempotencyRequestHash replay \<noteq> requestHash then Inl ErrIdempotencyKeyReused
      else if grr_Status replay = aiStatusRunning
      then Inl (AIOperationInProgressError (grr_GenerationID replay))
      else if grr_Status replay = aiStatusFailed
      then Inl (goalRefineFailureError (grr_FailureCode replay))
      else if grr_Status replay = aiStatusSucceeded then
        (case grr_Output replay of
           None \<Rightarrow> Inl ErrAIInvalidResponse
         | Some output \<Rightarrow>
             Inr (zero_AISnapshot\<lparr>as_GenerationID := grr_GenerationID replay,
               as_Operation := OperationGoalRefine, as_TargetRevision := grr_TargetRevision replay,
               as_ReplayedOutput := Some output,
               as_ReplayedContextChanged := grr_ContextChanged replay\<rparr>))
      else Inl (invariantError ''unknown Goal Refine generation status''))"

definition is_draft_invariant :: "workspace_error \<Rightarrow> bool" where
  "is_draft_invariant err \<longleftrightarrow> (case err of ErrGoalDraftPersistenceInvariant _ \<Rightarrow> True | _ \<Rightarrow> False)"

definition refine_replay_outcome ::
  "GoalRefineReplayState \<Rightarrow> string \<Rightarrow> i64 option \<Rightarrow> ('s, workspace_error + AISnapshot) tx" where
  "refine_replay_outcome replay requestHash expectedGoalRevision =
     (case replayGoalRefine replay requestHash of
        Inl err \<Rightarrow> if is_draft_invariant err then tx_fail err else tx_return (Inl err)
      | Inr snapshot \<Rightarrow> tx_return (Inr
          (case expectedGoalRevision of
             None \<Rightarrow> snapshot
           | Some r \<Rightarrow> snapshot\<lparr>as_SourceGoalRevision := r\<rparr>)))"

subsection \<open>Accepting a refinement\<close>

definition goalRefineContextSize :: int where
  "goalRefineContextSize = 10"

definition refine_target ::
  "'s GoalDraftTx \<Rightarrow> string \<Rightarrow> string \<Rightarrow> ('s, GoalTargetState option) tx" where
  "refine_target tx userID goalID =
     (if goalID = [] then tx_return None
      else tx_bind (ai_LockGoalWithCurrentVersion tx userID goalID) (\<lambda>locked.
        if gts_Status locked \<noteq> StatusGoalReview then tx_fail ErrGoalReviewNotActive
        else tx_return (Some locked)))"

text \<open>Goal, version, body and revision of the Goal under review, and its past Cycles.\<close>

definition refine_scope ::
  "'s GoalDraftTx \<Rightarrow> GoalRefineInput \<Rightarrow> GoalTargetState option \<Rightarrow> Draft \<Rightarrow>
   ('s, string \<times> string \<times> string \<times> i64 \<times> AIContextCycle list) tx" where
  "refine_scope tx input target draft =
     (case target of
        None \<Rightarrow> tx_return ([], [], [], 0, [])
      | Some t \<Rightarrow>
          (case gri_ExpectedGoalRevision input of
             None \<Rightarrow> tx_fail ErrGoalStateConflict
           | Some expected \<Rightarrow>
               if dr_GoalID draft \<noteq> Some (gri_GoalID input) then tx_fail ErrGoalStateConflict
               else if gts_Revision t \<noteq> expected \<or>
                  dr_BaseGoalVersionID draft \<noteq> Some (gts_CurrentVersionID t)
               then tx_fail ErrGoalRevisionConflict
               else tx_bind (ai_ListAIContextCycles tx (gri_UserID input) (gri_GoalID input) []
                      goalRefineContextSize) (\<lambda>contextCycles.
                 tx_return (gri_GoalID input, gts_CurrentVersionID t, gts_Body t, gts_Revision t,
                   contextCycles))))"

definition refine_snapshot ::
  "GoalRefineInput \<Rightarrow> Draft \<Rightarrow> string \<times> string \<times> string \<times> i64 \<times> AIContextCycle list \<Rightarrow> AISnapshot" where
  "refine_snapshot input draft scope =
     (let (goalID, goalVersionID, goalBody, sourceGoalRevision, contextCycles) = scope in
      zero_AISnapshot\<lparr>as_GenerationID := gri_GenerationID input, as_Operation := OperationGoalRefine,
        as_TargetRevision := dr_Revision draft, as_SourceGoalRevision := sourceGoalRevision,
        as_GoalID := goalID, as_GoalBody := goalBody, as_SourceText := dr_Body draft,
        as_PastCycles := contextCycles\<rparr>)"

definition selected_refine_context ::
  "(AISnapshot \<Rightarrow> workspace_error + AISnapshot) option \<Rightarrow> AISnapshot \<Rightarrow> workspace_error + AISnapshot" where
  "selected_refine_context selectContext candidate =
     (case assertSameGoalContext candidate of
        Some err \<Rightarrow> Inl err
      | None \<Rightarrow>
          (case selectContext of
             None \<Rightarrow> Inl ErrAIInputBudget
           | Some select \<Rightarrow>
               rbind (select candidate) (\<lambda>snapshot.
                 case validateGoalRefineContextSelection candidate snapshot of
                   Some err \<Rightarrow> Inl err
                 | None \<Rightarrow>
                     if as_CanonicalProviderInputHash snapshot = []
                     then Inl (invariantError ''Goal Refine canonical provider input hash is missing'')
                     else Inr snapshot)))"

definition checkAIRateLimits ::
  "('s, 'z) AITx_scheme \<Rightarrow> (string \<Rightarrow> string \<Rightarrow> string) \<Rightarrow> GoalDraftUseCaseSettings \<Rightarrow> GoalRefineInput \<Rightarrow>
   gotime \<Rightarrow> ('s, unit) tx" where
  "checkAIRateLimits tx hmac settings input now =
     check_ai_buckets tx hmac (gds_RateHashKey settings) (truncate_time minute (utc now))
       [(''ai_user_minute'', gri_UserID input, gds_AIPerUserMinute settings),
        (''ai_session_minute'', gri_SessionID input, gds_AIPerSessionMinute settings),
        (''ai_ip_minute'', gri_RemoteAddress input, gds_AIPerIPMinute settings)]"

definition refine_generation ::
  "GoalDraftUseCaseSettings \<Rightarrow> GoalRefineInput \<Rightarrow> Draft \<Rightarrow> string \<Rightarrow> string \<Rightarrow> string \<Rightarrow> AISnapshot \<Rightarrow>
   gotime \<Rightarrow> string \<Rightarrow> GoalRefineGenerationRecord" where
  "refine_generation settings input draft goalID goalVersionID requestHash snapshot month reservation =
     \<lparr>grg_ID = gri_GenerationID input, grg_UserID = gri_UserID input, grg_DraftID = dr_ID draft,
      grg_GoalID = goalID, grg_GoalVersionID = goalVersionID, grg_TargetRevision = dr_Revision draft,
      grg_IdempotencyKey = gri_IdempotencyKey input, grg_IdempotencyRequestHash = requestHash,
      grg_CanonicalProviderInputHash = as_CanonicalProviderInputHash snapshot,
      grg_SourceText = dr_Body draft, grg_Provider = gds_Provider settings,
      grg_Model = gds_Model settings, grg_PromptVersion = gds_GoalPromptVersion settings,
      grg_BudgetMonthUtc = month, grg_ReservedCostUSD = reservation,
      grg_LeaseExpiresAt = time_add (gri_Now input) (gds_LeaseDuration settings),
      grg_StartedAt = gri_Now input, grg_ContextCycleIDs = aiContextCycleIDs (as_PastCycles snapshot)\<rparr>"

definition refine_usage ::
  "GoalDraftUseCaseSettings \<Rightarrow> GoalRefineInput \<Rightarrow> string \<Rightarrow> gotime \<Rightarrow> string \<Rightarrow> AIUsageRecord" where
  "refine_usage settings input goalID month reservation =
     \<lparr>aur_OperationID = gri_GenerationID input, aur_UserID = gri_UserID input, aur_GoalID = goalID,
      aur_Operation = OperationGoalRefine, aur_Provider = gds_Provider settings,
      aur_Model = gds_Model settings, aur_PromptVersion = gds_GoalPromptVersion settings,
      aur_AcceptedAt = gri_Now input, aur_QuotaRetainUntil = AIUsageQuotaRetainUntil (gri_Now input),
      aur_SettlementBudgetMonthUtc = month, aur_SettlementReservationCostUSD = reservation\<rparr>"

definition begin_refine_fresh ::
  "'s GoalDraftTx \<Rightarrow> (string \<Rightarrow> string \<Rightarrow> string) \<Rightarrow> (string \<Rightarrow> workspace_error + Entitlements) \<Rightarrow>
   GoalDraftUseCaseSettings \<Rightarrow> (AISnapshot \<Rightarrow> workspace_error + AISnapshot) option \<Rightarrow> GoalRefineInput \<Rightarrow>
   GoalTargetState option \<Rightarrow> Draft \<Rightarrow> string \<Rightarrow> ('s, AISnapshot) tx" where
  "begin_refine_fresh tx hmac limitsOf settings selectContext input target draft requestHash =
     (if dr_Revision draft \<noteq> gri_ExpectedDraftRevision input
      then tx_fail (if target \<noteq> None then ErrReviewRevisionConflict else ErrDraftRevisionConflict)
      else if trim_space (dr_Body draft) = [] then tx_fail ErrAIInputIncomplete
      else
        tx_bind (refine_scope tx input target draft) (\<lambda>scope.
        let goalID = fst scope; goalVersionID = fst (snd scope) in
        tx_bind (tx_lift (selected_refine_context selectContext (refine_snapshot input draft scope)))
          (\<lambda>snapshot.
        tx_bind (gd_HasRunningDraftGeneration tx (dr_ID draft)) (\<lambda>running.
        if running then tx_fail ErrAIInProgress
        else
          tx_bind (reserve_exposure ErrGoalDraftPersistenceInvariant ''reserve Goal Refine budget'' tx
                     limitsOf (checkAIRateLimits tx hmac settings input (gri_Now input))
                     (gds_MonthlyBudgetUSD settings) (gds_ReservationUSD settings) (gri_UserID input)
                     (gri_Now input)) (\<lambda>(month, reservation).
          tx_bind (must_affect ''insert Goal Refine generation'' 1
                     (gd_InsertGoalRefineGeneration tx
                       (refine_generation settings input draft goalID goalVersionID requestHash snapshot
                          month reservation))) (\<lambda>_.
          tx_bind (must_affect ''insert Goal Refine usage'' 1
                     (ai_InsertAcceptedUsage tx (refine_usage settings input goalID month reservation)))
            (\<lambda>_. tx_return snapshot)))))))"

text \<open>The first lookup of a replay only names the generation for the logs, but its error counts.\<close>

definition begin_refine_tx ::
  "'s GoalDraftTx \<Rightarrow> (string \<Rightarrow> string) \<Rightarrow> (string \<Rightarrow> string \<Rightarrow> string) \<Rightarrow>
   (string \<Rightarrow> workspace_error + Entitlements) \<Rightarrow> GoalDraftUseCaseSettings \<Rightarrow>
   (AISnapshot \<Rightarrow> workspace_error + AISnapshot) option \<Rightarrow> GoalRefineInput \<Rightarrow>
   ('s, workspace_error + AISnapshot) tx" where
  "begin_refine_tx tx sha256 hmac limitsOf settings selectContext input =
     tx_bind (ai_LockUser tx (gri_UserID input)) (\<lambda>_.
     tx_bind (gd_FindGoalRefineReplay tx (gri_UserID input) (gri_IdempotencyKey input)) (\<lambda>_.
     tx_bind (refine_target tx (gri_UserID input) (gri_GoalID input)) (\<lambda>target.
     tx_bind (lockGoalRefineDraft tx (gri_UserID input) (gri_DraftID input) (gri_GoalID input)) (\<lambda>draft.
     tx_bind (tx_check (validateGoalRefineDraftTarget draft (gri_GoalID input))) (\<lambda>_.
     let requestHash = goalRefineRequestHash sha256 (dr_ID draft) input in
     tx_bind (recover_expired ErrGoalDraftPersistenceInvariant tx (gri_UserID input) (gri_Now input)) (\<lambda>_.
     tx_bind (gd_FindGoalRefineReplay tx (gri_UserID input) (gri_IdempotencyKey input)) (\<lambda>replay.
     case replay of
       Some r \<Rightarrow> refine_replay_outcome r requestHash (gri_ExpectedGoalRevision input)
     | None \<Rightarrow>
         tx_bind (begin_refine_fresh tx hmac limitsOf settings selectContext input target draft requestHash)
           (\<lambda>snapshot. tx_return (Inr snapshot)))))))))"

definition refine_input ::
  "workspace_error + string \<Rightarrow> gotime \<Rightarrow> GoalRefineInput \<Rightarrow> workspace_error + GoalRefineInput" where
  "refine_input newID now0 input =
     rbind (if gri_GenerationID input = [] then newID else Inr (gri_GenerationID input)) (\<lambda>generationID.
       Inr (input\<lparr>gri_GenerationID := generationID,
         gri_Now := (if time_is_zero (gri_Now input) then utc now0 else utc (gri_Now input))\<rparr>))"

definition BeginGoalRefine ::
  "'s GoalDraftTx \<Rightarrow> (string \<Rightarrow> string) \<Rightarrow> (string \<Rightarrow> string \<Rightarrow> string) \<Rightarrow>
   (string \<Rightarrow> workspace_error + Entitlements) \<Rightarrow> GoalDraftUseCaseSettings \<Rightarrow>
   (AISnapshot \<Rightarrow> workspace_error + AISnapshot) option \<Rightarrow> workspace_error + string \<Rightarrow> gotime \<Rightarrow>
   GoalRefineInput \<Rightarrow> 's \<Rightarrow> (workspace_error + AISnapshot) \<times> 's" where
  "BeginGoalRefine tx sha256 hmac limitsOf settings selectContext newID now0 input0 s =
     (case refine_input newID now0 input0 of
        Inl err \<Rightarrow> (Inl err, s)
      | Inr input \<Rightarrow>
          (let (r, t) = commit_or_rollback
                 (begin_refine_tx tx sha256 hmac limitsOf settings selectContext input) s
           in (outcome r, t)))"

subsection \<open>Settling a refinement\<close>

definition finish_refine_locked ::
  "'s GoalDraftTx \<Rightarrow> AISnapshot \<Rightarrow> rat AIExecutionResult \<Rightarrow> workspace_error option \<Rightarrow> gotime \<Rightarrow> Draft \<Rightarrow>
   GoalRefineSettlementState \<Rightarrow> ('s, workspace_error + AIResponse) tx" where
  "finish_refine_locked tx snapshot result providerErr now draft generation =
     (if grs_TargetRevision generation \<noteq> as_TargetRevision snapshot
      then tx_fail (invariantError ''Goal Refine generation target revision changed'')
      else
        let contextChanged = dr_Revision draft \<noteq> grs_TargetRevision generation;
            status = (if providerErr = None then aiStatusSucceeded else aiStatusFailed) in
        tx_bind (must_affect ''terminalize Goal Refine generation'' 1 (gd_TerminalizeGenerationCAS tx
          \<lparr>ags_GenerationID = as_GenerationID snapshot,
           ags_ExpectedReservationUSD = grs_ReservedCostUSD generation, ags_Status = status,
           ags_Output = (if providerErr = None then Some (ae_Output result) else None),
           ags_InputTokens = au_InputTokens (ae_Usage result),
           ags_OutputTokens = au_OutputTokens (ae_Usage result),
           ags_EstimatedCostUSD = decimalFromFloat (au_CostUSD (ae_Usage result)),
           ags_AttemptCount = ae_Attempts result,
           ags_FailureCode = (case providerErr of None \<Rightarrow> [] | Some err \<Rightarrow> goalRefineFailureCode err),
           ags_ProviderRequestID = au_ProviderRequestID (ae_Usage result),
           ags_ContextChanged = contextChanged, ags_FinishedAt = now\<rparr>)) (\<lambda>_.
        tx_bind (settle_budget ErrGoalDraftPersistenceInvariant ''settle Goal Refine budget''
                   ''finalize Goal Refine usage'' tx (as_GenerationID snapshot)
                   (grs_BudgetMonthUtc generation) (grs_ReservedCostUSD generation) status result now)
          (\<lambda>_.
        tx_return (case providerErr of
            Some err \<Rightarrow> Inl err
          | None \<Rightarrow> Inr (zero_AIResponse
              \<lparr>ar_GenerationID := as_GenerationID snapshot,
               ar_SourceDraftRevision := Some (as_TargetRevision snapshot),
               ar_SourceGoalRevision := as_SourceGoalRevision snapshot,
               ar_Suggestion := ae_Output result, ar_ContextChanged := contextChanged,
               ar_SettlementPath := ''normal'', ar_SettlementResult := ''success''\<rparr>)))))"

text \<open>A Goal that left its review meanwhile turns the answer of the provider into a failure.\<close>

definition refine_provider_error ::
  "GoalTargetState option \<Rightarrow> workspace_error option \<Rightarrow> workspace_error option" where
  "refine_provider_error target providerErr =
     (case target of
        None \<Rightarrow> providerErr
      | Some t \<Rightarrow> if gts_Status t \<noteq> StatusGoalReview then Some ErrGoalReviewNotActive else providerErr)"

definition finish_refine_tx ::
  "'s GoalDraftTx \<Rightarrow> AISnapshot \<Rightarrow> rat AIExecutionResult \<Rightarrow> workspace_error option \<Rightarrow> gotime \<Rightarrow>
   ('s, workspace_error + AIResponse) tx" where
  "finish_refine_tx tx snapshot result providerErr now =
     (let generationID = as_GenerationID snapshot;
          late = (\<lambda>userID locked err.
            finish_late ErrGoalDraftPersistenceInvariant tx generationID userID locked result err now) in
      tx_bind (ai_FindGenerationLocator tx generationID) (\<lambda>locator.
      case locator of
        None \<Rightarrow> late [] False providerErr
      | Some l \<Rightarrow>
          if agl_Operation l \<noteq> OperationGoalRefine
          then tx_fail (invariantError ''Goal Refine generation operation changed'')
          else if agl_Status l \<noteq> aiStatusRunning then late [] False providerErr
          else
            tx_bind (ai_LockUser tx (agl_UserID l)) (\<lambda>_.
            lock_or_late (if agl_GoalID l = [] then tx_return None
                          else tx_bind (ai_LockGoalWithCurrentVersion tx (agl_UserID l) (agl_GoalID l))
                            (\<lambda>t. tx_return (Some t)))
              (late (agl_UserID l) True providerErr) (\<lambda>target.
            let err = refine_provider_error target providerErr in
            lock_or_late (lockGoalRefineDraft tx (agl_UserID l) (agl_DraftID l) (agl_GoalID l))
              (late (agl_UserID l) True err) (\<lambda>draft.
            if validateGoalRefineDraftTarget draft (agl_GoalID l) \<noteq> None
            then tx_fail (invariantError ''Goal Refine generation Draft target changed'')
            else
              lock_or_late (gd_LockGoalRefineGeneration tx
                  \<lparr>ggk_GenerationID = generationID, ggk_UserID = agl_UserID l, ggk_DraftID = dr_ID draft\<rparr>)
                (late (agl_UserID l) True err)
                (finish_refine_locked tx snapshot result err now draft))))))"

definition FinishGoalRefine ::
  "'s GoalDraftTx \<Rightarrow> AISnapshot \<Rightarrow> rat AIExecutionResult \<Rightarrow> workspace_error option \<Rightarrow> gotime \<Rightarrow> 's \<Rightarrow>
   (workspace_error + AIResponse) \<times> 's" where
  "FinishGoalRefine tx snapshot result providerErr now0 s =
     (let (r, t) = commit_or_rollback (finish_refine_tx tx snapshot result providerErr (utc now0)) s
      in (outcome r, t))"

subsection \<open>Adopting a suggestion\<close>

definition adopt_target ::
  "'s GoalDraftTx \<Rightarrow> string \<Rightarrow> string \<Rightarrow> i64 option \<Rightarrow> ('s, unit) tx" where
  "adopt_target tx userID goalID expectedGoalRevision =
     (if goalID = [] then tx_return ()
      else (case expectedGoalRevision of
          None \<Rightarrow> tx_fail ErrGoalRevisionConflict
        | Some expected \<Rightarrow>
            tx_bind (ai_LockGoalWithCurrentVersion tx userID goalID) (\<lambda>target.
            if gts_Status target \<noteq> StatusGoalReview then tx_fail ErrGoalReviewNotActive
            else if gts_Revision target \<noteq> expected then tx_fail ErrGoalRevisionConflict
            else tx_return ())))"

definition missing_suggestion :: "workspace_error \<Rightarrow> workspace_error" where
  "missing_suggestion err = (if err = ErrNotFound then ErrAISuggestionNotFound else err)"

definition adopt_suggestion ::
  "'s GoalDraftTx \<Rightarrow> gotime \<Rightarrow> string \<Rightarrow> string \<Rightarrow> i64 \<Rightarrow> Draft \<Rightarrow> GoalSuggestionState \<Rightarrow>
   ('s, DraftView) tx" where
  "adopt_suggestion tx now userID generationID expectedDraftRevision draft suggestion =
     (if gss_AdoptedAt suggestion \<noteq> None then
        if gss_AdoptedDraftRevision suggestion = Some (dr_Revision draft) \<and>
           dr_Body draft = gss_Output suggestion
        then tx_return ((draftView draft)\<lparr>dv_Replayed := True\<rparr>)
        else tx_fail ErrAIResultAlreadyAdopted
      else if dr_Revision draft \<noteq> expectedDraftRevision \<or>
         sint (gss_TargetRevision suggestion) > sint (dr_Revision draft) \<or>
         dr_Body draft \<noteq> gss_SourceText suggestion
      then tx_fail ErrAIContextStale
      else
        let adopted = draft\<lparr>dr_Body := gss_Output suggestion, dr_Revision := dr_Revision draft + 1,
              dr_UpdatedAt := now\<rparr> in
        tx_bind (must_affect ''adopt Goal suggestion into Draft'' 1 (gd_AdoptDraftCAS tx
          \<lparr>adr_DraftID = dr_ID draft, adr_UserID = userID, adr_ExpectedRevision = dr_Revision draft,
           adr_Body = dr_Body adopted, adr_NewRevision = dr_Revision adopted,
           adr_UpdatedAt = dr_UpdatedAt adopted\<rparr>)) (\<lambda>_.
        tx_bind (must_affect ''mark Goal suggestion adopted'' 1
                   (gd_MarkSuggestionAdoptedCAS tx generationID (dr_Revision adopted) now)) (\<lambda>_.
        tx_return (draftView adopted))))"

definition AdoptGoalSuggestion ::
  "'s GoalDraftTx \<Rightarrow> gotime \<Rightarrow> string \<Rightarrow> string \<Rightarrow> string \<Rightarrow> string \<Rightarrow> i64 \<Rightarrow> i64 option \<Rightarrow>
   ('s, DraftView) tx" where
  "AdoptGoalSuggestion tx now0 userID draftID goalID generationID expectedDraftRevision
     expectedGoalRevision =
     tx_bind (ai_LockUser tx userID) (\<lambda>_.
     tx_bind (adopt_target tx userID goalID expectedGoalRevision) (\<lambda>_.
     tx_bind (lockGoalRefineDraft tx userID draftID goalID) (\<lambda>draft.
     tx_bind (tx_check (validateGoalRefineDraftTarget draft goalID)) (\<lambda>_.
     tx_bind (tx_map_error missing_suggestion
                (gd_LockSucceededGoalRefineGeneration tx userID (dr_ID draft) generationID)) (\<lambda>suggestion.
     adopt_suggestion tx (utc now0) userID generationID expectedDraftRevision draft suggestion)))))"

end
