(* ===== verification/ActionAI.thy ===== *)
theory ActionAI
  imports AIAdmission
begin

section \<open>AI generation and refinement of the Action\<close>

text \<open>
  Model of \<open>workspace/action_ai_use_cases.go\<close> over the interface \<open>ActionAITx\<close> of
  \<open>action_ai_ports.go\<close>: accepting the generation or the refinement of an Action, and settling it
  after the provider answered, with the Action written into the Cycle in the same transaction.
  Errors returned after a commit are the left side of the inner sum of a result.
\<close>

subsection \<open>Records\<close>

record actionAIInput =
  aii_UserID :: string
  aii_GoalID :: string
  aii_CycleID :: string
  aii_Operation :: operation_type
  aii_ExpectedContentRevision :: i64
  aii_ConfirmReplace :: bool
  aii_IdempotencyKey :: string
  aii_GenerationID :: string
  aii_RemoteAddress :: string
  aii_SessionID :: string
  aii_Now :: gotime

record ActionGenerateInput =
  agi_UserID :: string
  agi_GoalID :: string
  agi_CycleID :: string
  agi_ExpectedContentRevision :: i64
  agi_ConfirmReplace :: bool
  agi_IdempotencyKey :: string
  agi_GenerationID :: string
  agi_RemoteAddress :: string
  agi_SessionID :: string
  agi_Now :: gotime

record ActionRefineInput =
  ari_UserID :: string
  ari_GoalID :: string
  ari_CycleID :: string
  ari_ExpectedContentRevision :: i64
  ari_IdempotencyKey :: string
  ari_GenerationID :: string
  ari_RemoteAddress :: string
  ari_SessionID :: string
  ari_Now :: gotime

record ActionAIUseCaseSettings =
  aas_Provider :: string
  aas_Model :: string
  aas_GeneratePromptVersion :: string
  aas_RefinePromptVersion :: string
  aas_MonthlyBudgetUSD :: rat
  aas_ReservationUSD :: rat
  aas_LeaseDuration :: int
  aas_RateHashKey :: string
  aas_AIPerUserMinute :: int
  aas_AIPerSessionMinute :: int
  aas_AIPerIPMinute :: int

record ActionAIReplayState =
  aar_GenerationID :: string
  aar_GoalID :: string
  aar_CycleID :: string
  aar_IdempotencyRequestHash :: string
  aar_Status :: string
  aar_TargetRevision :: i64
  aar_Output :: "string option"
  aar_FailureCode :: string
  aar_ContextChanged :: bool
  aar_LeaseExpiresAt :: "gotime option"

record ActionAIGenerationRecord =
  aag_ID :: string
  aag_UserID :: string
  aag_Operation :: operation_type
  aag_GoalID :: string
  aag_GoalVersionID :: string
  aag_CycleID :: string
  aag_TargetRevision :: i64
  aag_IdempotencyKey :: string
  aag_IdempotencyRequestHash :: string
  aag_CanonicalProviderInputHash :: string
  aag_SourceText :: "string option"
  aag_Provider :: string
  aag_Model :: string
  aag_PromptVersion :: string
  aag_BudgetMonthUtc :: gotime
  aag_ReservedCostUSD :: string
  aag_LeaseExpiresAt :: gotime
  aag_StartedAt :: gotime
  aag_ContextCycleIDs :: "string list"

record ActionAIGenerationKey =
  aak_GenerationID :: string
  aak_UserID :: string
  aak_GoalID :: string
  aak_CycleID :: string
  aak_Operation :: operation_type

record ActionAISettlementState =
  asst_GoalVersionID :: string
  asst_BudgetMonthUtc :: gotime
  asst_ReservedCostUSD :: string
  asst_TargetRevision :: i64

record ActionAIApplyRecord =
  aap_UserID :: string
  aap_GoalID :: string
  aap_CycleID :: string
  aap_GoalVersionID :: string
  aap_Action :: string
  aap_ExpectedContentRevision :: i64
  aap_ExpectedActionRevision :: i64
  aap_NewContentRevision :: i64
  aap_NewActionRevision :: i64
  aap_UpdatedAt :: gotime

record ActionAIGenerationSettlement =
  aast_GenerationID :: string
  aast_Operation :: operation_type
  aast_ExpectedReservationUSD :: string
  aast_Status :: string
  aast_Output :: "string option"
  aast_InputTokens :: i64
  aast_OutputTokens :: i64
  aast_EstimatedCostUSD :: string
  aast_AttemptCount :: "16 word"
  aast_FailureCode :: string
  aast_ProviderRequestID :: string
  aast_ContextChanged :: bool
  aast_AppliedAt :: "gotime option"
  aast_FinishedAt :: gotime

text \<open>The operations of \<open>ActionAITx\<close> beside those of \<open>AITx\<close>.\<close>

record 's ActionAITx = "'s AITx" +
  aat_LockActionCycle :: "string \<Rightarrow> string \<Rightarrow> string \<Rightarrow> ('s, PDCACycle) tx"
  aat_FindActionAIReplay :: "string \<Rightarrow> operation_type \<Rightarrow> string \<Rightarrow> ('s, ActionAIReplayState option) tx"
  aat_HasRunningCycleGeneration :: "string \<Rightarrow> string \<Rightarrow> string \<Rightarrow> ('s, bool) tx"
  aat_InsertActionAIGeneration :: "ActionAIGenerationRecord \<Rightarrow> ('s, i64) tx"
  aat_LockActionAIGeneration :: "ActionAIGenerationKey \<Rightarrow> ('s, ActionAISettlementState) tx"
  aat_ApplyActionAICAS :: "ActionAIApplyRecord \<Rightarrow> ('s, i64) tx"
  aat_TerminalizeActionAIGenerationCAS :: "ActionAIGenerationSettlement \<Rightarrow> ('s, i64) tx"

definition actionAIContextSize :: int where
  "actionAIContextSize = 10"

definition actionAIInvariantError :: "string \<Rightarrow> workspace_error" where
  "actionAIInvariantError detail = ErrActionAIPersistenceInvariant detail"

definition promptVersion :: "ActionAIUseCaseSettings \<Rightarrow> operation_type \<Rightarrow> string" where
  "promptVersion settings operation =
     (if operation = OperationActionGenerate then aas_GeneratePromptVersion settings
      else aas_RefinePromptVersion settings)"

definition actionAIRequestHash :: "(string \<Rightarrow> string) \<Rightarrow> actionAIInput \<Rightarrow> string" where
  "actionAIRequestHash sha256 input =
     hashRequest sha256
       ([(''operation'', JString (aii_Operation input)), (''goalId'', JString (aii_GoalID input)),
         (''cycleId'', JString (aii_CycleID input)),
         (''expectedContentRevision'', JInt (sint (aii_ExpectedContentRevision input)))] @
        (if aii_ConfirmReplace input then [(''confirmReplace'', JBool True)] else []))"

subsection \<open>Replays\<close>

definition replayActionAI ::
  "'s ActionAITx \<Rightarrow> actionAIInput \<Rightarrow> ActionAIReplayState \<Rightarrow> ('s, workspace_error + AISnapshot) tx" where
  "replayActionAI tx input replay =
     (if aar_Status replay = aiStatusRunning
      then tx_return (Inl (AIOperationInProgressError (aar_GenerationID replay)))
      else if aar_Status replay = aiStatusFailed
      then tx_return (Inl (actionAIFailureError (aar_FailureCode replay)))
      else if aar_Status replay = aiStatusSucceeded then
        (case aar_Output replay of
           None \<Rightarrow> tx_return (Inl ErrAIInvalidResponse)
         | Some output \<Rightarrow>
             tx_bind (tx_try (ai_LockGoalWithCurrentVersion tx (aii_UserID input) (aii_GoalID input)))
               (\<lambda>target.
             case target of
               Inl err \<Rightarrow> tx_return (Inl err)
             | Inr _ \<Rightarrow>
                 tx_bind (tx_try (aat_LockActionCycle tx (aii_UserID input) (aii_GoalID input)
                            (aii_CycleID input))) (\<lambda>locked.
                 case locked of
                   Inl err \<Rightarrow> tx_return (Inl err)
                 | Inr current \<Rightarrow>
                     tx_return (Inr (zero_AISnapshot\<lparr>as_GenerationID := aar_GenerationID replay,
                       as_Operation := aii_Operation input,
                       as_TargetRevision := aar_TargetRevision replay,
                       as_ReplayedOutput := Some output,
                       as_ReplayedContextChanged := aar_ContextChanged replay,
                       as_ReplayedContentRevision := rev_Content (cy_Revisions current),
                       as_ReplayedActionRevision := rev_Action (cy_Revisions current)\<rparr>)))))
      else tx_return (Inl (actionAIInvariantError ''unknown Action AI generation status'')))"

text \<open>A running generation whose lease is over is recovered before it is replayed.\<close>

definition lease_over :: "ActionAIReplayState \<Rightarrow> gotime \<Rightarrow> bool" where
  "lease_over replay now \<longleftrightarrow>
     aar_Status replay = aiStatusRunning \<and>
     (case aar_LeaseExpiresAt replay of None \<Rightarrow> False | Some t \<Rightarrow> \<not> time_before now t)"

definition recovered_replay ::
  "'s ActionAITx \<Rightarrow> actionAIInput \<Rightarrow> ('s, ActionAIReplayState) tx" where
  "recovered_replay tx input =
     tx_bind (ai_LockGoalWithCurrentVersion tx (aii_UserID input) (aii_GoalID input)) (\<lambda>_.
     tx_bind (aat_LockActionCycle tx (aii_UserID input) (aii_GoalID input) (aii_CycleID input)) (\<lambda>_.
     tx_bind (recover_expired ErrActionAIPersistenceInvariant tx (aii_UserID input) (aii_Now input)) (\<lambda>_.
     tx_bind (aat_FindActionAIReplay tx (aii_UserID input) (aii_Operation input) (aii_IdempotencyKey input))
       (\<lambda>replay.
     case replay of
       None \<Rightarrow> tx_fail (actionAIInvariantError
         ''expired Action AI replay was not terminal after recovery'')
     | Some r \<Rightarrow>
         if aar_Status r \<noteq> aiStatusFailed \<or> aar_FailureCode r \<noteq> ''lease_expired''
         then tx_fail (actionAIInvariantError
           ''expired Action AI replay was not terminal after recovery'')
         else tx_return r))))"

definition replayed_action ::
  "'s ActionAITx \<Rightarrow> actionAIInput \<Rightarrow> string \<Rightarrow> ActionAIReplayState \<Rightarrow>
   ('s, workspace_error + AISnapshot) tx" where
  "replayed_action tx input requestHash found =
     tx_bind (aat_FindActionAIReplay tx (aii_UserID input) (aii_Operation input) (aii_IdempotencyKey input))
       (\<lambda>confirmed.
     case confirmed of
       None \<Rightarrow> tx_fail (actionAIInvariantError ''Action AI replay changed while user locked'')
     | Some replay \<Rightarrow>
         if aar_GenerationID replay \<noteq> aar_GenerationID found
         then tx_fail (actionAIInvariantError ''Action AI replay changed while user locked'')
         else if aar_IdempotencyRequestHash replay \<noteq> requestHash \<or>
            aar_GoalID replay \<noteq> aii_GoalID input \<or> aar_CycleID replay \<noteq> aii_CycleID input \<or>
            aar_TargetRevision replay \<noteq> aii_ExpectedContentRevision input
         then tx_fail ErrIdempotencyKeyReused
         else
           tx_bind (if lease_over replay (aii_Now input) then recovered_replay tx input
                    else tx_return replay) (\<lambda>settled.
           replayActionAI tx input settled))"

subsection \<open>Accepting an operation\<close>

definition action_input_error ::
  "actionAIInput \<Rightarrow> GoalTargetState \<Rightarrow> PDCACycle \<Rightarrow> workspace_error option" where
  "action_input_error input target current =
     (if cy_GoalVersionID current \<noteq> gts_CurrentVersionID target then Some ErrGoalVersionConflict
      else if rev_Content (cy_Revisions current) \<noteq> aii_ExpectedContentRevision input
      then Some (CycleFailure ErrRevisionConflict)
      else if IsBlank (cy_Plan current) \<or> IsBlank (cy_Do current) \<or> IsBlank (cy_Check current)
      then Some ErrAIInputIncomplete
      else if aii_Operation input = OperationActionRefine \<and> IsBlank (cy_Action current)
      then Some ErrAIInputIncomplete
      else if aii_Operation input = OperationActionGenerate \<and> \<not> IsBlank (cy_Action current) \<and>
         \<not> aii_ConfirmReplace input
      then Some ErrAIReplacementRequired
      else None)"

definition action_snapshot ::
  "actionAIInput \<Rightarrow> GoalTargetState \<Rightarrow> PDCACycle \<Rightarrow> AIContextCycle list \<Rightarrow> AISnapshot" where
  "action_snapshot input target current past =
     zero_AISnapshot\<lparr>as_Operation := aii_Operation input,
       as_TargetRevision := rev_Content (cy_Revisions current),
       as_SourceGoalRevision := gts_Revision target, as_GoalID := aii_GoalID input,
       as_GoalBody := gts_Body target,
       as_CurrentCycle := Some \<lparr>acc_ID = cy_ID current, acc_GoalID = cy_GoalID current,
         acc_SequenceNumber = cy_SequenceNumber current, acc_Status = cy_Status current,
         acc_GoalBody = gts_Body target, acc_Plan = cy_Plan current, acc_Do = cy_Do current,
         acc_Check = cy_Check current, acc_Action = cy_Action current\<rparr>,
       as_PastCycles := past,
       as_SourceText := (if aii_Operation input = OperationActionRefine then cy_Action current else [])\<rparr>"

definition selected_action_context ::
  "(AISnapshot \<Rightarrow> workspace_error + AISnapshot) option \<Rightarrow> AISnapshot \<Rightarrow> workspace_error + AISnapshot" where
  "selected_action_context selectContext candidate =
     (case assertSameGoalContext candidate of
        Some err \<Rightarrow> Inl err
      | None \<Rightarrow>
          (case selectContext of
             None \<Rightarrow> Inl ErrAIInputBudget
           | Some select \<Rightarrow>
               rbind (select candidate) (\<lambda>snapshot.
                 case validateActionAIContextSelection candidate snapshot of
                   Some err \<Rightarrow> Inl err
                 | None \<Rightarrow>
                     if as_CanonicalProviderInputHash snapshot = []
                     then Inl (actionAIInvariantError
                       ''Action AI canonical provider input hash is missing'')
                     else Inr snapshot)))"

definition checkRateLimits ::
  "('s, 'z) AITx_scheme \<Rightarrow> (string \<Rightarrow> string \<Rightarrow> string) \<Rightarrow> ActionAIUseCaseSettings \<Rightarrow> actionAIInput \<Rightarrow>
   ('s, unit) tx" where
  "checkRateLimits tx hmac settings input =
     check_ai_buckets tx hmac (aas_RateHashKey settings) (truncate_time minute (utc (aii_Now input)))
       [(''ai_user_minute'', aii_UserID input, aas_AIPerUserMinute settings),
        (''ai_session_minute'', aii_SessionID input, aas_AIPerSessionMinute settings),
        (''ai_ip_minute'', aii_RemoteAddress input, aas_AIPerIPMinute settings)]"

definition action_generation ::
  "ActionAIUseCaseSettings \<Rightarrow> actionAIInput \<Rightarrow> string \<Rightarrow> GoalTargetState \<Rightarrow> PDCACycle \<Rightarrow> string \<Rightarrow>
   AISnapshot \<Rightarrow> gotime \<Rightarrow> string \<Rightarrow> ActionAIGenerationRecord" where
  "action_generation settings input generationID target current requestHash snapshot month reservation =
     \<lparr>aag_ID = generationID, aag_UserID = aii_UserID input, aag_Operation = aii_Operation input,
      aag_GoalID = aii_GoalID input, aag_GoalVersionID = gts_CurrentVersionID target,
      aag_CycleID = aii_CycleID input, aag_TargetRevision = rev_Content (cy_Revisions current),
      aag_IdempotencyKey = aii_IdempotencyKey input, aag_IdempotencyRequestHash = requestHash,
      aag_CanonicalProviderInputHash = as_CanonicalProviderInputHash snapshot,
      aag_SourceText = (if aii_Operation input = OperationActionRefine then Some (cy_Action current)
                        else None),
      aag_Provider = aas_Provider settings, aag_Model = aas_Model settings,
      aag_PromptVersion = promptVersion settings (aii_Operation input), aag_BudgetMonthUtc = month,
      aag_ReservedCostUSD = reservation,
      aag_LeaseExpiresAt = time_add (aii_Now input) (aas_LeaseDuration settings),
      aag_StartedAt = aii_Now input, aag_ContextCycleIDs = aiContextCycleIDs (as_PastCycles snapshot)\<rparr>"

definition action_usage ::
  "ActionAIUseCaseSettings \<Rightarrow> actionAIInput \<Rightarrow> string \<Rightarrow> gotime \<Rightarrow> string \<Rightarrow> AIUsageRecord" where
  "action_usage settings input generationID month reservation =
     \<lparr>aur_OperationID = generationID, aur_UserID = aii_UserID input, aur_GoalID = aii_GoalID input,
      aur_Operation = aii_Operation input, aur_Provider = aas_Provider settings,
      aur_Model = aas_Model settings, aur_PromptVersion = promptVersion settings (aii_Operation input),
      aur_AcceptedAt = aii_Now input, aur_QuotaRetainUntil = AIUsageQuotaRetainUntil (aii_Now input),
      aur_SettlementBudgetMonthUtc = month, aur_SettlementReservationCostUSD = reservation\<rparr>"

definition accept_action ::
  "'s ActionAITx \<Rightarrow> (string \<Rightarrow> string \<Rightarrow> string) \<Rightarrow> (string \<Rightarrow> workspace_error + Entitlements) \<Rightarrow>
   ActionAIUseCaseSettings \<Rightarrow> (AISnapshot \<Rightarrow> workspace_error + AISnapshot) option \<Rightarrow>
   workspace_error + string \<Rightarrow> actionAIInput \<Rightarrow> GoalTargetState \<Rightarrow> PDCACycle \<Rightarrow> string \<Rightarrow>
   ('s, AISnapshot) tx" where
  "accept_action tx hmac limitsOf settings selectContext newID input target current requestHash =
     tx_bind (ai_ListAIContextCycles tx (aii_UserID input) (aii_GoalID input) (aii_CycleID input)
                actionAIContextSize) (\<lambda>past.
     tx_bind (tx_lift (selected_action_context selectContext (action_snapshot input target current past)))
       (\<lambda>selected.
     tx_bind (aat_HasRunningCycleGeneration tx (aii_UserID input) (aii_GoalID input) (aii_CycleID input))
       (\<lambda>running.
     if running then tx_fail ErrAIInProgress
     else
       tx_bind (reserve_exposure ErrActionAIPersistenceInvariant ''reserve Action AI budget'' tx limitsOf
                  (checkRateLimits tx hmac settings input) (aas_MonthlyBudgetUSD settings)
                  (aas_ReservationUSD settings) (aii_UserID input) (aii_Now input))
         (\<lambda>(month, reservation).
       tx_bind (tx_lift (if aii_GenerationID input = [] then newID else Inr (aii_GenerationID input)))
         (\<lambda>generationID.
       let snapshot = selected\<lparr>as_GenerationID := generationID\<rparr> in
       tx_bind (must_write ErrActionAIPersistenceInvariant ''insert Action AI generation''
                  (aat_InsertActionAIGeneration tx
                    (action_generation settings input generationID target current requestHash snapshot
                       month reservation))) (\<lambda>_.
       tx_bind (must_write ErrActionAIPersistenceInvariant ''insert Action AI usage''
                  (ai_InsertAcceptedUsage tx
                    (action_usage settings input generationID month reservation))) (\<lambda>_.
       tx_return snapshot)))))))"

definition fresh_action ::
  "'s ActionAITx \<Rightarrow> (string \<Rightarrow> string \<Rightarrow> string) \<Rightarrow> (string \<Rightarrow> workspace_error + Entitlements) \<Rightarrow>
   ActionAIUseCaseSettings \<Rightarrow> (AISnapshot \<Rightarrow> workspace_error + AISnapshot) option \<Rightarrow>
   workspace_error + string \<Rightarrow> actionAIInput \<Rightarrow> string \<Rightarrow> ('s, AISnapshot) tx" where
  "fresh_action tx hmac limitsOf settings selectContext newID input requestHash =
     tx_bind (ai_LockGoalWithCurrentVersion tx (aii_UserID input) (aii_GoalID input)) (\<lambda>target.
     tx_bind (aat_LockActionCycle tx (aii_UserID input) (aii_GoalID input) (aii_CycleID input))
       (\<lambda>current.
     if gts_Status target \<noteq> StatusActiveCycle then tx_fail ErrGoalStateConflict
     else if cy_Status current \<noteq> StatusActive then tx_fail (CycleFailure ErrCycleNotActive)
     else
       tx_bind (recover_expired ErrActionAIPersistenceInvariant tx (aii_UserID input) (aii_Now input)) (\<lambda>_.
       tx_bind (tx_check (action_input_error input target current)) (\<lambda>_.
       accept_action tx hmac limitsOf settings selectContext newID input target current requestHash))))"

definition begin_action_tx ::
  "'s ActionAITx \<Rightarrow> (string \<Rightarrow> string) \<Rightarrow> (string \<Rightarrow> string \<Rightarrow> string) \<Rightarrow>
   (string \<Rightarrow> workspace_error + Entitlements) \<Rightarrow> ActionAIUseCaseSettings \<Rightarrow>
   (AISnapshot \<Rightarrow> workspace_error + AISnapshot) option \<Rightarrow> workspace_error + string \<Rightarrow> actionAIInput \<Rightarrow>
   ('s, workspace_error + AISnapshot) tx" where
  "begin_action_tx tx sha256 hmac limitsOf settings selectContext newID input =
     (let requestHash = actionAIRequestHash sha256 input in
      tx_bind (ai_LockUser tx (aii_UserID input)) (\<lambda>_.
      tx_bind (aat_FindActionAIReplay tx (aii_UserID input) (aii_Operation input) (aii_IdempotencyKey input))
        (\<lambda>replay.
      case replay of
        Some r \<Rightarrow> replayed_action tx input requestHash r
      | None \<Rightarrow>
          tx_bind (fresh_action tx hmac limitsOf settings selectContext newID input requestHash)
            (\<lambda>snapshot. tx_return (Inr snapshot)))))"

definition begin_action ::
  "'s ActionAITx \<Rightarrow> (string \<Rightarrow> string) \<Rightarrow> (string \<Rightarrow> string \<Rightarrow> string) \<Rightarrow>
   (string \<Rightarrow> workspace_error + Entitlements) \<Rightarrow> ActionAIUseCaseSettings \<Rightarrow>
   (AISnapshot \<Rightarrow> workspace_error + AISnapshot) option \<Rightarrow> workspace_error + string \<Rightarrow> gotime \<Rightarrow>
   actionAIInput \<Rightarrow> 's \<Rightarrow> (workspace_error + AISnapshot) \<times> 's" where
  "begin_action tx sha256 hmac limitsOf settings selectContext newID now0 input0 s =
     (if aii_Operation input0 \<noteq> OperationActionGenerate \<and> aii_Operation input0 \<noteq> OperationActionRefine
      then (Inl ErrAIInputIncomplete, s)
      else
        let input = input0\<lparr>aii_Now := (if time_is_zero (aii_Now input0) then utc now0
                                       else utc (aii_Now input0))\<rparr>;
            (r, t) = commit_or_rollback
              (begin_action_tx tx sha256 hmac limitsOf settings selectContext newID input) s
        in (outcome r, t))"

definition BeginGenerate ::
  "'s ActionAITx \<Rightarrow> (string \<Rightarrow> string) \<Rightarrow> (string \<Rightarrow> string \<Rightarrow> string) \<Rightarrow>
   (string \<Rightarrow> workspace_error + Entitlements) \<Rightarrow> ActionAIUseCaseSettings \<Rightarrow>
   (AISnapshot \<Rightarrow> workspace_error + AISnapshot) option \<Rightarrow> workspace_error + string \<Rightarrow> gotime \<Rightarrow>
   ActionGenerateInput \<Rightarrow> 's \<Rightarrow> (workspace_error + AISnapshot) \<times> 's" where
  "BeginGenerate tx sha256 hmac limitsOf settings selectContext newID now0 input =
     begin_action tx sha256 hmac limitsOf settings selectContext newID now0
       \<lparr>aii_UserID = agi_UserID input, aii_GoalID = agi_GoalID input, aii_CycleID = agi_CycleID input,
        aii_Operation = OperationActionGenerate,
        aii_ExpectedContentRevision = agi_ExpectedContentRevision input,
        aii_ConfirmReplace = agi_ConfirmReplace input, aii_IdempotencyKey = agi_IdempotencyKey input,
        aii_GenerationID = agi_GenerationID input, aii_RemoteAddress = agi_RemoteAddress input,
        aii_SessionID = agi_SessionID input, aii_Now = agi_Now input\<rparr>"

definition BeginRefine ::
  "'s ActionAITx \<Rightarrow> (string \<Rightarrow> string) \<Rightarrow> (string \<Rightarrow> string \<Rightarrow> string) \<Rightarrow>
   (string \<Rightarrow> workspace_error + Entitlements) \<Rightarrow> ActionAIUseCaseSettings \<Rightarrow>
   (AISnapshot \<Rightarrow> workspace_error + AISnapshot) option \<Rightarrow> workspace_error + string \<Rightarrow> gotime \<Rightarrow>
   ActionRefineInput \<Rightarrow> 's \<Rightarrow> (workspace_error + AISnapshot) \<times> 's" where
  "BeginRefine tx sha256 hmac limitsOf settings selectContext newID now0 input =
     begin_action tx sha256 hmac limitsOf settings selectContext newID now0
       \<lparr>aii_UserID = ari_UserID input, aii_GoalID = ari_GoalID input, aii_CycleID = ari_CycleID input,
        aii_Operation = OperationActionRefine,
        aii_ExpectedContentRevision = ari_ExpectedContentRevision input,
        aii_ConfirmReplace = False, aii_IdempotencyKey = ari_IdempotencyKey input,
        aii_GenerationID = ari_GenerationID input, aii_RemoteAddress = ari_RemoteAddress input,
        aii_SessionID = ari_SessionID input, aii_Now = ari_Now input\<rparr>"

subsection \<open>Settling an operation\<close>

definition action_provider_error ::
  "GoalTargetState \<Rightarrow> PDCACycle \<Rightarrow> ActionAISettlementState \<Rightarrow> workspace_error option \<Rightarrow>
   workspace_error option" where
  "action_provider_error target current generation providerErr =
     (if cy_GoalVersionID current \<noteq> asst_GoalVersionID generation \<or>
         gts_CurrentVersionID target \<noteq> asst_GoalVersionID generation
      then Some ErrGoalVersionConflict
      else if gts_Status target \<noteq> StatusActiveCycle \<or> cy_Status current \<noteq> StatusActive
      then Some ErrGoalStateConflict
      else providerErr)"

text \<open>The Action of the provider is written into the Cycle, unless the operation failed.\<close>

definition apply_action_output ::
  "'s ActionAITx \<Rightarrow> AIGenerationLocator \<Rightarrow> ActionAISettlementState \<Rightarrow> PDCACycle \<Rightarrow> string \<Rightarrow> gotime \<Rightarrow>
   ('s, PDCACycle) tx" where
  "apply_action_output tx locator generation current output now =
     (case ApplyAIAction current output now of
        Inl _ \<Rightarrow> tx_fail (actionAIInvariantError ''validated Action AI output could not be applied'')
      | Inr updated \<Rightarrow>
          tx_bind (must_write ErrActionAIPersistenceInvariant ''apply Action AI output''
            (aat_ApplyActionAICAS tx
              \<lparr>aap_UserID = agl_UserID locator, aap_GoalID = agl_GoalID locator,
               aap_CycleID = agl_CycleID locator, aap_GoalVersionID = asst_GoalVersionID generation,
               aap_Action = cy_Action updated,
               aap_ExpectedContentRevision = rev_Content (cy_Revisions current),
               aap_ExpectedActionRevision = rev_Action (cy_Revisions current),
               aap_NewContentRevision = rev_Content (cy_Revisions updated),
               aap_NewActionRevision = rev_Action (cy_Revisions updated),
               aap_UpdatedAt = cy_UpdatedAt updated\<rparr>)) (\<lambda>_. tx_return updated))"

definition finish_action_locked ::
  "'s ActionAITx \<Rightarrow> AISnapshot \<Rightarrow> rat AIExecutionResult \<Rightarrow> workspace_error option \<Rightarrow> gotime \<Rightarrow>
   AIGenerationLocator \<Rightarrow> GoalTargetState \<Rightarrow> PDCACycle \<Rightarrow> ActionAISettlementState \<Rightarrow>
   ('s, workspace_error + AIResponse) tx" where
  "finish_action_locked tx snapshot result providerErr0 now locator target current0 generation =
     (if asst_TargetRevision generation \<noteq> as_TargetRevision snapshot
      then tx_fail (actionAIInvariantError ''Action AI generation target revision changed'')
      else
        let providerErr = action_provider_error target current0 generation providerErr0;
            contextChanged = rev_Content (cy_Revisions current0) \<noteq> asst_TargetRevision generation;
            status = (if providerErr = None then aiStatusSucceeded else aiStatusFailed) in
        tx_bind (if providerErr = None
                 then apply_action_output tx locator generation current0 (ae_Output result) now
                 else tx_return current0) (\<lambda>current.
        tx_bind (must_write ErrActionAIPersistenceInvariant ''terminalize Action AI generation''
          (aat_TerminalizeActionAIGenerationCAS tx
            \<lparr>aast_GenerationID = as_GenerationID snapshot, aast_Operation = agl_Operation locator,
             aast_ExpectedReservationUSD = asst_ReservedCostUSD generation, aast_Status = status,
             aast_Output = (if providerErr = None then Some (ae_Output result) else None),
             aast_InputTokens = au_InputTokens (ae_Usage result),
             aast_OutputTokens = au_OutputTokens (ae_Usage result),
             aast_EstimatedCostUSD = decimalFromFloat (au_CostUSD (ae_Usage result)),
             aast_AttemptCount = ae_Attempts result,
             aast_FailureCode = (case providerErr of None \<Rightarrow> [] | Some err \<Rightarrow> actionAIFailureCode err),
             aast_ProviderRequestID = au_ProviderRequestID (ae_Usage result),
             aast_ContextChanged = contextChanged,
             aast_AppliedAt = (if providerErr = None then Some now else None),
             aast_FinishedAt = now\<rparr>)) (\<lambda>_.
        tx_bind (settle_budget ErrActionAIPersistenceInvariant ''settle Action AI budget''
                   ''finalize Action AI usage'' tx (as_GenerationID snapshot)
                   (asst_BudgetMonthUtc generation) (asst_ReservedCostUSD generation) status result now)
          (\<lambda>_.
        tx_return (case providerErr of
            Some err \<Rightarrow> Inl err
          | None \<Rightarrow> Inr (zero_AIResponse
              \<lparr>ar_GenerationID := as_GenerationID snapshot, ar_Action := ae_Output result,
               ar_ContentRevision := rev_Content (cy_Revisions current),
               ar_ActionRevision := rev_Action (cy_Revisions current),
               ar_ContextChanged := contextChanged,
               ar_SettlementPath := ''normal'', ar_SettlementResult := ''success''\<rparr>))))))"

definition finish_action_tx ::
  "'s ActionAITx \<Rightarrow> AISnapshot \<Rightarrow> rat AIExecutionResult \<Rightarrow> workspace_error option \<Rightarrow> gotime \<Rightarrow>
   ('s, workspace_error + AIResponse) tx" where
  "finish_action_tx tx snapshot result providerErr now =
     (let generationID = as_GenerationID snapshot;
          late = (\<lambda>userID locked. finish_late ErrActionAIPersistenceInvariant tx generationID userID locked
            result providerErr now) in
      tx_bind (ai_FindGenerationLocator tx generationID) (\<lambda>locator.
      case locator of
        None \<Rightarrow> late [] False
      | Some l \<Rightarrow>
          if (agl_Operation l \<noteq> OperationActionGenerate \<and> agl_Operation l \<noteq> OperationActionRefine) \<or>
             agl_Operation l \<noteq> as_Operation snapshot
          then tx_fail (actionAIInvariantError ''Action AI generation operation changed'')
          else if agl_Status l \<noteq> aiStatusRunning then late [] False
          else
            tx_bind (ai_LockUser tx (agl_UserID l)) (\<lambda>_.
            lock_or_late (ai_LockGoalWithCurrentVersion tx (agl_UserID l) (agl_GoalID l))
              (late (agl_UserID l) True) (\<lambda>target.
            lock_or_late (aat_LockActionCycle tx (agl_UserID l) (agl_GoalID l) (agl_CycleID l))
              (late (agl_UserID l) True) (\<lambda>current.
            lock_or_late (aat_LockActionAIGeneration tx
                \<lparr>aak_GenerationID = generationID, aak_UserID = agl_UserID l, aak_GoalID = agl_GoalID l,
                 aak_CycleID = agl_CycleID l, aak_Operation = agl_Operation l\<rparr>)
              (late (agl_UserID l) True)
              (finish_action_locked tx snapshot result providerErr now l target current))))))"

definition uc_FinishAction ::
  "'s ActionAITx \<Rightarrow> AISnapshot \<Rightarrow> rat AIExecutionResult \<Rightarrow> workspace_error option \<Rightarrow> gotime \<Rightarrow> 's \<Rightarrow>
   (workspace_error + AIResponse) \<times> 's" where
  "uc_FinishAction tx snapshot result providerErr now0 s =
     (let (r, t) = commit_or_rollback (finish_action_tx tx snapshot result providerErr (utc now0)) s
      in (outcome r, t))"

end
