(* ===== verification/AIStore.thy ===== *)
theory AIStore
  imports CycleStoreLaws GoalRefine ActionAI
begin

section \<open>The PostgreSQL adapter of the AI transactions\<close>

text \<open>
  Model of \<open>workspace_goal_draft_uow.go\<close> and \<open>workspace_action_ai_uow.go\<close> over the statements of
  \<open>queries/ai_generations.sql\<close>, \<open>ai_usage.sql\<close>, \<open>ai_budget.sql\<close>, \<open>goal_drafts.sql\<close> and
  \<open>rate_limits.sql\<close>, with the conventions of \<open>CycleStore\<close>: the durable content mode \<open>legacy\<close>,
  unique keys where the outcome of a statement depends on them, \<open>scan\<close> for the parser of UUIDs.
  The timestamps of these tables are finite, as every statement writes finite ones.  The amounts
  have the type \<open>numeric(14, 8)\<close>: assigning rounds to eight decimals, rendering prints all eight.
\<close>

subsection \<open>The transaction\<close>

text \<open>\<open>workspaceActionAITx\<close> embeds \<open>workspaceGoalDraftTx\<close>, whose operations it inherits.\<close>

record workspaceGoalDraftTx =
  gdt_db :: Database
  gdt_lockedGenerationUserID :: string
  gdt_lockedGenerationID :: string

record workspaceActionAITx = workspaceGoalDraftTx +
  gdt_lockedActionCycle :: "PDCACycle option"

type_synonym ('z, 'a) ai_tx = "('z workspaceGoalDraftTx_scheme, 'a) tx"

definition fetch :: "(Database \<Rightarrow> 'a) \<Rightarrow> ('z, 'a) ai_tx" where
  "fetch f s = Inr (f (gdt_db s), s)"

definition execute :: "(Database \<Rightarrow> workspace_error + 'a \<times> Database) \<Rightarrow> ('z, 'a) ai_tx" where
  "execute f s =
     (case f (gdt_db s) of
        Inl e \<Rightarrow> Inl e
      | Inr (rows, d) \<Rightarrow> Inr (rows, s\<lparr>gdt_db := d\<rparr>))"

text \<open>What the adapter shares with the one of the Cycle transactions.\<close>

definition shared :: "'a store_tx \<Rightarrow> ('z, 'a) ai_tx" where
  "shared m s =
     (case m \<lparr>wct_db = gdt_db s, wct_lockedCycleStorageFormat = Map.empty\<rparr> of
        Inl e \<Rightarrow> Inl e
      | Inr (x, t) \<Rightarrow> Inr (x, s\<lparr>gdt_db := wct_db t\<rparr>))"

definition nullableCycleUUID :: "(string \<Rightarrow> string option) \<Rightarrow> string \<Rightarrow> ('s, pgUUID) tx" where
  "nullableCycleUUID scan v = (if v = [] then tx_return None else mustUUID scan v)"

text \<open>The parameter \<open>text[]::uuid[]\<close> of a statement.\<close>

fun uuid_array :: "(string \<Rightarrow> string option) \<Rightarrow> string list \<Rightarrow> ('s, pgUUID list) tx" where
  "uuid_array scan [] = tx_return []"
| "uuid_array scan (v # vs) =
     tx_bind (mustUUID scan v) (\<lambda>u. tx_bind (uuid_array scan vs) (\<lambda>us. tx_return (u # us)))"

text \<open>The parameter \<open>text::numeric\<close> and the assignment to a column.\<close>

definition numeric_param :: "string \<Rightarrow> ('s, rat) tx" where
  "numeric_param v =
     (case rat_SetString v of
        None \<Rightarrow> tx_fail (Infrastructure ''22P02'')
      | Some r \<Rightarrow> tx_return r)"

definition numeric_8 :: "rat \<Rightarrow> rat" where
  "numeric_8 x = sgn x * of_int \<lfloor>\<bar>x\<bar> * 10 ^ 8 + 1 / 2\<rfloor> / 10 ^ 8"

definition numeric_text :: "rat \<Rightarrow> string" where
  "numeric_text x = decimalFromFloat x"

text \<open>A \<open>date\<close> is the day of a time, a timestamp keeps its microseconds.\<close>

definition goalDeleteDate :: "gotime \<Rightarrow> pgTimestamptz" where
  "goalDeleteDate value =
     \<lparr>tz_Time = truncate_time day_length (utc value), tz_InfinityModifier = Finite, tz_Valid = True\<rparr>"

definition finiteGoalDeleteTimestamptz :: "pgTimestamptz \<Rightarrow> gotime option" where
  "finiteGoalDeleteTimestamptz value =
     (if \<not> tz_Valid value \<or> tz_InfinityModifier value \<noteq> Finite then None else Some (utc (tz_Time value)))"

definition stored_at :: "gotime \<Rightarrow> pgTimestamptz" where
  "stored_at value = stored_time (timestamptz value)"

definition tz_le :: "pgTimestamptz \<Rightarrow> pgTimestamptz \<Rightarrow> bool" where
  "tz_le a b \<longleftrightarrow> tz_Valid a \<and> tz_Valid b \<and> nanos (tz_Time a) \<le> nanos (tz_Time b)"

definition tz_less :: "pgTimestamptz \<Rightarrow> pgTimestamptz \<Rightarrow> bool" where
  "tz_less a b \<longleftrightarrow> tz_Valid a \<and> tz_Valid b \<and> nanos (tz_Time a) < nanos (tz_Time b)"

definition tz_eq :: "pgTimestamptz \<Rightarrow> pgTimestamptz \<Rightarrow> bool" where
  "tz_eq a b \<longleftrightarrow> tz_Valid a \<and> tz_Valid b \<and> nanos (tz_Time a) = nanos (tz_Time b)"

definition aiAdapterPersistenceError :: "string \<Rightarrow> workspace_error" where
  "aiAdapterPersistenceError detail = ErrGoalPersistenceInvariant detail"

definition actionAIAdapterPersistenceError :: "string \<Rightarrow> workspace_error" where
  "actionAIAdapterPersistenceError detail = ErrActionAIPersistenceInvariant detail"

definition goalDraftPersistenceError :: "string \<Rightarrow> workspace_error" where
  "goalDraftPersistenceError detail = ErrGoalPersistenceInvariant detail"

text \<open>A mapping of rows stops at the first row it rejects.\<close>

fun map_rows :: "('r \<Rightarrow> workspace_error + 'a) \<Rightarrow> 'r list \<Rightarrow> workspace_error + 'a list" where
  "map_rows f [] = Inr []"
| "map_rows f (row # rows) = rbind (f row) (\<lambda>x. rbind (map_rows f rows) (\<lambda>xs. Inr (x # xs)))"

definition update_generations ::
  "(GenerationRow \<Rightarrow> bool) \<Rightarrow> (GenerationRow \<Rightarrow> GenerationRow) \<Rightarrow> Database \<Rightarrow> workspace_error + i64 \<times> Database" where
  "update_generations selected change d =
     (let (n, rows) = update_rows selected change (db_ai_generations d)
      in Inr (n, d\<lparr>db_ai_generations := rows\<rparr>))"

definition update_usages ::
  "(UsageRow \<Rightarrow> bool) \<Rightarrow> (UsageRow \<Rightarrow> UsageRow) \<Rightarrow> Database \<Rightarrow> workspace_error + i64 \<times> Database" where
  "update_usages selected change d =
     (let (n, rows) = update_rows selected change (db_ai_usage_events d)
      in Inr (n, d\<lparr>db_ai_usage_events := rows\<rparr>))"

definition update_budget ::
  "(BudgetRow \<Rightarrow> bool) \<Rightarrow> (BudgetRow \<Rightarrow> BudgetRow) \<Rightarrow> Database \<Rightarrow> workspace_error + i64 \<times> Database" where
  "update_budget selected change d =
     (let (n, rows) = update_rows selected change (db_ai_budget_monthly d)
      in Inr (n, d\<lparr>db_ai_budget_monthly := rows\<rparr>))"

definition update_drafts ::
  "(StoredDraftRow \<Rightarrow> bool) \<Rightarrow> (StoredDraftRow \<Rightarrow> StoredDraftRow) \<Rightarrow> Database \<Rightarrow>
   workspace_error + i64 \<times> Database" where
  "update_drafts selected change d =
     (let (n, rows) = update_rows selected change (db_goal_drafts d)
      in Inr (n, d\<lparr>db_goal_drafts := rows\<rparr>))"

subsection \<open>The budget of a month\<close>

definition gdt_ReleaseBudgetReservationCAS :: "gotime \<Rightarrow> string \<Rightarrow> gotime \<Rightarrow> ('z, i64) ai_tx" where
  "gdt_ReleaseBudgetReservationCAS month amountUSD now =
     tx_bind (numeric_param amountUSD) (\<lambda>amount.
     execute (update_budget
       (\<lambda>b. tz_eq (bu_MonthUtc b) (goalDeleteDate month) \<and> bu_ReservedCostUSD b \<ge> amount)
       (\<lambda>b. b\<lparr>bu_ReservedCostUSD := numeric_8 (bu_ReservedCostUSD b - amount),
             bu_UpdatedAt := stored_at now\<rparr>)))"

definition gdt_EnsureBudgetMonth :: "gotime \<Rightarrow> gotime \<Rightarrow> ('z, unit) ai_tx" where
  "gdt_EnsureBudgetMonth month now =
     execute (\<lambda>d. if list_ex (\<lambda>b. tz_eq (bu_MonthUtc b) (goalDeleteDate month)) (db_ai_budget_monthly d)
       then Inr ((), d)
       else Inr ((), d\<lparr>db_ai_budget_monthly := db_ai_budget_monthly d @
         [\<lparr>bu_MonthUtc = goalDeleteDate month, bu_ReservedCostUSD = 0, bu_ActualCostUSD = 0,
           bu_UnattributedCostUSD = 0, bu_UpdatedAt = stored_at now\<rparr>]\<rparr>))"

definition aiBudgetStateFromSQLC :: "BudgetRow \<Rightarrow> workspace_error + AIBudgetState" where
  "aiBudgetStateFromSQLC row =
     (let reserved = numeric_text (bu_ReservedCostUSD row); actual = numeric_text (bu_ActualCostUSD row);
          unattributed = numeric_text (bu_UnattributedCostUSD row) in
      if reserved = [] \<or> actual = [] \<or> unattributed = []
      then Inl (aiAdapterPersistenceError ''locked AI Budget state is invalid'')
      else Inr \<lparr>ab_ReservedCostUSD = reserved, ab_ActualCostUSD = actual, ab_UnattributedCostUSD = unattributed\<rparr>)"

definition gdt_LockBudgetMonth :: "gotime \<Rightarrow> ('z, AIBudgetState) ai_tx" where
  "gdt_LockBudgetMonth month =
     tx_bind (fetch (\<lambda>d. find (\<lambda>b. tz_eq (bu_MonthUtc b) (goalDeleteDate month)) (db_ai_budget_monthly d)))
       (\<lambda>row.
     case row of None \<Rightarrow> tx_fail ErrNotFound | Some b \<Rightarrow> tx_lift (aiBudgetStateFromSQLC b))"

definition gdt_ReserveBudgetCAS :: "gotime \<Rightarrow> string \<Rightarrow> gotime \<Rightarrow> ('z, i64) ai_tx" where
  "gdt_ReserveBudgetCAS month amountUSD now =
     tx_bind (numeric_param amountUSD) (\<lambda>amount.
     execute (update_budget (\<lambda>b. tz_eq (bu_MonthUtc b) (goalDeleteDate month))
       (\<lambda>b. b\<lparr>bu_ReservedCostUSD := numeric_8 (bu_ReservedCostUSD b + amount),
             bu_UpdatedAt := stored_at now\<rparr>)))"

definition gdt_SettleBudgetCAS :: "gotime \<Rightarrow> string \<Rightarrow> string \<Rightarrow> gotime \<Rightarrow> ('z, i64) ai_tx" where
  "gdt_SettleBudgetCAS month reservationUSD actualUSD now =
     tx_bind (numeric_param reservationUSD) (\<lambda>reservation.
     tx_bind (numeric_param actualUSD) (\<lambda>actual.
     execute (update_budget
       (\<lambda>b. tz_eq (bu_MonthUtc b) (goalDeleteDate month) \<and> bu_ReservedCostUSD b \<ge> reservation)
       (\<lambda>b. b\<lparr>bu_ReservedCostUSD := numeric_8 (bu_ReservedCostUSD b - reservation),
             bu_ActualCostUSD := numeric_8 (bu_ActualCostUSD b + actual),
             bu_UpdatedAt := stored_at now\<rparr>))))"

definition gdt_AddLateActualCostCAS :: "gotime \<Rightarrow> string \<Rightarrow> gotime \<Rightarrow> ('z, i64) ai_tx" where
  "gdt_AddLateActualCostCAS month actualUSD now =
     tx_bind (numeric_param actualUSD) (\<lambda>actual.
     execute (update_budget (\<lambda>b. tz_eq (bu_MonthUtc b) (goalDeleteDate month))
       (\<lambda>b. b\<lparr>bu_ActualCostUSD := numeric_8 (bu_ActualCostUSD b + actual),
             bu_UpdatedAt := stored_at now\<rparr>)))"

text \<open>The insert that counts on a conflict.\<close>

definition gdt_IncrementRateBucket :: "AIRateBucket \<Rightarrow> ('z, int) ai_tx" where
  "gdt_IncrementRateBucket bucket =
     execute (\<lambda>d.
       let window = stored_at (rb_WindowStart bucket); expires = stored_at (rb_ExpiresAt bucket);
           same = (\<lambda>r. ra_Scope r = rb_Scope bucket \<and> ra_KeyHash r = rb_KeyHash bucket \<and>
             tz_eq (ra_WindowStart r) window);
           buckets = db_abuse_rate_buckets d in
       case find same buckets of
         None \<Rightarrow> Inr (1, d\<lparr>db_abuse_rate_buckets := buckets @
           [\<lparr>ra_Scope = rb_Scope bucket, ra_KeyHash = rb_KeyHash bucket, ra_WindowStart = window,
             ra_RequestCount = 1, ra_ExpiresAt = expires\<rparr>]\<rparr>)
       | Some r \<Rightarrow>
           if sint (ra_RequestCount r) = 2 ^ 31 - 1 then Inl (Infrastructure ''22003'')
           else Inr (sint (ra_RequestCount r + 1), d\<lparr>db_abuse_rate_buckets :=
             map (\<lambda>r. if same r then r\<lparr>ra_RequestCount := ra_RequestCount r + 1, ra_ExpiresAt := expires\<rparr>
                      else r) buckets\<rparr>))"

subsection \<open>Usages\<close>

definition optionalAITimestamptz :: "pgTimestamptz \<Rightarrow> workspace_error + gotime option" where
  "optionalAITimestamptz value =
     (if \<not> tz_Valid value then Inr None
      else (case finiteGoalDeleteTimestamptz value of
          None \<Rightarrow> Inl (aiAdapterPersistenceError ''AI timestamp is invalid or non-finite'')
        | Some result \<Rightarrow>
            if time_is_zero result
            then Inl (aiAdapterPersistenceError ''AI timestamp is invalid or non-finite'')
            else Inr (Some result)))"

definition draftUsageFromSQLC :: "UsageRow \<Rightarrow> workspace_error + DraftUsageState" where
  "draftUsageFromSQLC row =
     (let operationID = uuidString (us_OperationID row) in
      case finiteGoalDeleteTimestamptz (us_QuotaRetainUntil row) of
        None \<Rightarrow> Inl (aiAdapterPersistenceError ''locked Draft Usage state is invalid'')
      | Some retainUntil \<Rightarrow>
          if operationID = [] \<or> time_is_zero retainUntil
          then Inl (aiAdapterPersistenceError ''locked Draft Usage state is invalid'')
          else rbind (optionalAITimestamptz (us_ProviderUsageFinalizedAt row)) (\<lambda>finalizedAt.
            Inr \<lparr>dus_OperationID = operationID, dus_QuotaRetainUntil = retainUntil,
                 dus_ProviderUsageFinalizedAt = finalizedAt\<rparr>))"

definition owned_usages :: "pgUUID \<Rightarrow> pgUUID list \<Rightarrow> UsageRow \<Rightarrow> bool" where
  "owned_usages user_id operation_ids u \<longleftrightarrow>
     sql_eq (us_UserID u) user_id \<and> list_ex (sql_eq (us_OperationID u)) operation_ids"

definition gdt_LockDraftUsages ::
  "(string \<Rightarrow> string option) \<Rightarrow> string \<Rightarrow> string list \<Rightarrow> ('z, DraftUsageState list) ai_tx" where
  "gdt_LockDraftUsages scan userID operationIDs =
     (if operationIDs = [] then tx_return []
      else
        tx_bind (mustUUID scan userID) (\<lambda>user_id.
        tx_bind (uuid_array scan operationIDs) (\<lambda>operation_ids.
        tx_bind (fetch (\<lambda>d. sort_key (\<lambda>u. uuidString (us_OperationID u))
                   (filter (owned_usages user_id operation_ids) (db_ai_usage_events d)))) (\<lambda>rows.
        tx_lift (map_rows draftUsageFromSQLC rows)))))"

definition gdt_RedactDraftUsagesCAS ::
  "(string \<Rightarrow> string option) \<Rightarrow> string \<Rightarrow> string list \<Rightarrow> ('z, i64) ai_tx" where
  "gdt_RedactDraftUsagesCAS scan userID operationIDs =
     (if operationIDs = [] then tx_return 0
      else
        tx_bind (mustUUID scan userID) (\<lambda>user_id.
        tx_bind (uuid_array scan operationIDs) (\<lambda>operation_ids.
        execute (update_usages (owned_usages user_id operation_ids)
          (\<lambda>u. u\<lparr>us_GoalID := None, us_ContentDeleted := True\<rparr>)))))"

definition gdt_DeleteExpiredFinalizedDraftUsagesCAS ::
  "(string \<Rightarrow> string option) \<Rightarrow> string \<Rightarrow> string list \<Rightarrow> gotime \<Rightarrow> ('z, i64) ai_tx" where
  "gdt_DeleteExpiredFinalizedDraftUsagesCAS scan userID operationIDs now =
     (if operationIDs = [] then tx_return 0
      else
        tx_bind (mustUUID scan userID) (\<lambda>user_id.
        tx_bind (uuid_array scan operationIDs) (\<lambda>operation_ids.
        execute (\<lambda>d.
          let selected = (\<lambda>u. owned_usages user_id operation_ids u \<and>
                tz_le (us_QuotaRetainUntil u) (stored_at now) \<and> tz_Valid (us_ProviderUsageFinalizedAt u)) in
          Inr (of_nat (length (filter selected (db_ai_usage_events d))),
               d\<lparr>db_ai_usage_events := filter (\<lambda>u. \<not> selected u) (db_ai_usage_events d)\<rparr>)))))"

definition gdt_AttachUsageToGoal ::
  "(string \<Rightarrow> string option) \<Rightarrow> string \<Rightarrow> string list \<Rightarrow> string \<Rightarrow> ('z, i64) ai_tx" where
  "gdt_AttachUsageToGoal scan userID generationIDs goalID =
     (if generationIDs = [] then tx_return 0
      else
        tx_bind (mustUUID scan goalID) (\<lambda>goal_id.
        tx_bind (mustUUID scan userID) (\<lambda>user_id.
        tx_bind (uuid_array scan generationIDs) (\<lambda>operation_ids.
        execute (update_usages (owned_usages user_id operation_ids) (\<lambda>u. u\<lparr>us_GoalID := goal_id\<rparr>))))))"

text \<open>An usage that is still open, with the exposure the statement expects.\<close>

definition open_usage :: "pgUUID \<Rightarrow> gotime \<Rightarrow> rat \<Rightarrow> UsageRow \<Rightarrow> bool" where
  "open_usage operation_id month reservation u \<longleftrightarrow>
     sql_eq (us_OperationID u) operation_id \<and> \<not> tz_Valid (us_ProviderUsageFinalizedAt u) \<and>
     tz_eq (us_SettlementBudgetMonthUtc u) (goalDeleteDate month) \<and>
     us_SettlementReservationCostUSD u = Some reservation"

definition gdt_ExpireUsageCAS ::
  "(string \<Rightarrow> string option) \<Rightarrow> string \<Rightarrow> gotime \<Rightarrow> string \<Rightarrow> ('z, i64) ai_tx" where
  "gdt_ExpireUsageCAS scan generationID budgetMonth reservationCostUSD =
     tx_bind (mustUUID scan generationID) (\<lambda>operation_id.
     tx_bind (numeric_param reservationCostUSD) (\<lambda>reservation.
     execute (update_usages
       (\<lambda>u. open_usage operation_id budgetMonth reservation u \<and> us_Status u = ''accepted'')
       (\<lambda>u. u\<lparr>us_Status := ''failed''\<rparr>))))"

definition gdt_CountRollingUsage ::
  "(string \<Rightarrow> string option) \<Rightarrow> string \<Rightarrow> gotime \<Rightarrow> ('z, int) ai_tx" where
  "gdt_CountRollingUsage scan userID acceptedAfter =
     tx_bind (mustUUID scan userID) (\<lambda>user_id.
     fetch (\<lambda>d. int (length (filter (\<lambda>u. sql_eq (us_UserID u) user_id \<and>
       tz_less (stored_at acceptedAfter) (us_AcceptedAt u)) (db_ai_usage_events d)))))"

definition gdt_InsertAcceptedUsage ::
  "(string \<Rightarrow> string option) \<Rightarrow> AIUsageRecord \<Rightarrow> ('z, i64) ai_tx" where
  "gdt_InsertAcceptedUsage scan record =
     tx_bind (mustUUID scan (aur_OperationID record)) (\<lambda>operation_id.
     tx_bind (mustUUID scan (aur_UserID record)) (\<lambda>user_id.
     tx_bind (nullableCycleUUID scan (aur_GoalID record)) (\<lambda>goal_id.
     tx_bind (numeric_param (aur_SettlementReservationCostUSD record)) (\<lambda>reservation.
     execute (\<lambda>d.
       if list_ex (\<lambda>u. sql_eq (us_OperationID u) operation_id) (db_ai_usage_events d)
       then Inl unique_violation
       else Inr (1, d\<lparr>db_ai_usage_events := db_ai_usage_events d @
         [\<lparr>us_OperationID = operation_id, us_UserID = user_id, us_GoalID = goal_id,
           us_OperationType = aur_Operation record, us_Status = ''accepted'',
           us_Provider = aur_Provider record, us_Model = aur_Model record,
           us_PromptVersion = aur_PromptVersion record,
           us_AcceptedAt = stored_at (aur_AcceptedAt record),
           us_InputTokens = None, us_OutputTokens = None, us_EstimatedCostUSD = None,
           us_ProviderUsageFinalizedAt = null_Timestamptz,
           us_QuotaRetainUntil = stored_at (aur_QuotaRetainUntil record), us_ContentDeleted = False,
           us_SettlementBudgetMonthUtc = goalDeleteDate (aur_SettlementBudgetMonthUtc record),
           us_SettlementReservationCostUSD = Some (numeric_8 reservation)\<rparr>]\<rparr>))))))"

text \<open>The assignments the two finalizing statements share.\<close>

definition finalized_usage :: "AIUsageSettlement \<Rightarrow> rat \<Rightarrow> UsageRow \<Rightarrow> UsageRow" where
  "finalized_usage settlement cost u =
     u\<lparr>us_Status := aus_Status settlement, us_InputTokens := Some (aus_InputTokens settlement),
       us_OutputTokens := Some (aus_OutputTokens settlement), us_EstimatedCostUSD := Some (numeric_8 cost),
       us_ProviderUsageFinalizedAt := stored_at (aus_FinalizedAt settlement),
       us_SettlementBudgetMonthUtc := null_Timestamptz, us_SettlementReservationCostUSD := None\<rparr>"

definition gdt_FinalizeUsageCAS ::
  "(string \<Rightarrow> string option) \<Rightarrow> AIUsageSettlement \<Rightarrow> ('z, i64) ai_tx" where
  "gdt_FinalizeUsageCAS scan settlement =
     tx_bind (mustUUID scan (aus_OperationID settlement)) (\<lambda>operation_id.
     tx_bind (numeric_param (aus_EstimatedCostUSD settlement)) (\<lambda>cost.
     tx_bind (numeric_param (aus_ExpectedReservationCostUSD settlement)) (\<lambda>reservation.
     execute (update_usages
       (\<lambda>u. open_usage operation_id (aus_ExpectedBudgetMonthUtc settlement) reservation u \<and>
            us_Status u = ''accepted'')
       (finalized_usage settlement cost)))))"

definition gdt_FinalizeLateUsageCAS ::
  "(string \<Rightarrow> string option) \<Rightarrow> AIUsageSettlement \<Rightarrow> ('z, i64) ai_tx" where
  "gdt_FinalizeLateUsageCAS scan settlement =
     tx_bind (mustUUID scan (aus_OperationID settlement)) (\<lambda>operation_id.
     tx_bind (numeric_param (aus_EstimatedCostUSD settlement)) (\<lambda>cost.
     tx_bind (numeric_param (aus_ExpectedReservationCostUSD settlement)) (\<lambda>reservation.
     execute (update_usages
       (open_usage operation_id (aus_ExpectedBudgetMonthUtc settlement) reservation)
       (finalized_usage settlement cost)))))"

definition aiUsageLocatorFromSQLC :: "UsageRow \<Rightarrow> workspace_error + AIUsageLocator" where
  "aiUsageLocatorFromSQLC row =
     (let userID = uuidString (us_UserID row) in
      rbind (optionalAITimestamptz (us_ProviderUsageFinalizedAt row)) (\<lambda>finalizedAt.
      case finiteGoalDeleteTimestamptz (us_AcceptedAt row) of
        None \<Rightarrow> Inl (aiAdapterPersistenceError ''AI Usage locator state is invalid'')
      | Some acceptedAt \<Rightarrow>
          if userID = [] \<or> time_is_zero acceptedAt
          then Inl (aiAdapterPersistenceError ''AI Usage locator state is invalid'')
          else Inr \<lparr>aul_UserID = userID, aul_AcceptedAt = acceptedAt, aul_FinalizedAt = finalizedAt\<rparr>))"

definition gdt_FindUsageLocator ::
  "(string \<Rightarrow> string option) \<Rightarrow> string \<Rightarrow> ('z, AIUsageLocator option) ai_tx" where
  "gdt_FindUsageLocator scan generationID =
     tx_bind (mustUUID scan generationID) (\<lambda>operation_id.
     tx_bind (fetch (\<lambda>d. find (\<lambda>u. sql_eq (us_OperationID u) operation_id) (db_ai_usage_events d))) (\<lambda>row.
     case row of
       None \<Rightarrow> tx_return None
     | Some u \<Rightarrow> tx_bind (tx_lift (aiUsageLocatorFromSQLC u)) (\<lambda>l. tx_return (Some l))))"

definition aiUsageStateFromSQLC :: "UsageRow \<Rightarrow> workspace_error + AIUsageState" where
  "aiUsageStateFromSQLC row =
     (let present = us_SettlementReservationCostUSD row \<noteq> None;
          reservation = (case us_SettlementReservationCostUSD row of None \<Rightarrow> [] | Some r \<Rightarrow> numeric_text r) in
      rbind (optionalAITimestamptz (us_ProviderUsageFinalizedAt row)) (\<lambda>finalizedAt.
      case finiteGoalDeleteTimestamptz (us_AcceptedAt row) of
        None \<Rightarrow> Inl (aiAdapterPersistenceError ''locked AI Usage acceptance timestamp is invalid'')
      | Some acceptedAt \<Rightarrow>
          if time_is_zero acceptedAt
          then Inl (aiAdapterPersistenceError ''locked AI Usage acceptance timestamp is invalid'')
          else if finalizedAt \<noteq> None then
            if tz_Valid (us_SettlementBudgetMonthUtc row) \<or> present \<or> reservation \<noteq> []
            then Inl (aiAdapterPersistenceError ''finalized AI Usage retains settlement exposure'')
            else Inr \<lparr>ause_AcceptedAt = acceptedAt, ause_FinalizedAt = finalizedAt,
                      ause_SettlementBudgetMonthUtc = zero_time, ause_SettlementReservationCostUSD = []\<rparr>
          else (case finiteGoalDeleteTimestamptz (us_SettlementBudgetMonthUtc row) of
              None \<Rightarrow> Inl (aiAdapterPersistenceError ''locked AI Usage settlement state is invalid'')
            | Some month \<Rightarrow>
                if time_is_zero month \<or> \<not> present \<or> reservation = []
                then Inl (aiAdapterPersistenceError ''locked AI Usage settlement state is invalid'')
                else Inr \<lparr>ause_AcceptedAt = acceptedAt, ause_FinalizedAt = None,
                          ause_SettlementBudgetMonthUtc = month,
                          ause_SettlementReservationCostUSD = reservation\<rparr>)))"

definition gdt_LockUsage ::
  "(string \<Rightarrow> string option) \<Rightarrow> string \<Rightarrow> string \<Rightarrow> ('z, AIUsageState) ai_tx" where
  "gdt_LockUsage scan generationID userID =
     tx_bind (mustUUID scan generationID) (\<lambda>operation_id.
     tx_bind (mustUUID scan userID) (\<lambda>user_id.
     tx_bind (fetch (\<lambda>d. find (\<lambda>u. sql_eq (us_OperationID u) operation_id \<and> sql_eq (us_UserID u) user_id)
                (db_ai_usage_events d))) (\<lambda>row.
     case row of None \<Rightarrow> tx_fail ErrNotFound | Some u \<Rightarrow> tx_lift (aiUsageStateFromSQLC u))))"

end
