(* ===== verification/QueryStore.thy ===== *)
theory QueryStore
  imports CycleStoreLaws CycleListing AIStore
begin

section \<open>The PostgreSQL adapter of the read models\<close>

text \<open>
  Model of \<open>workspace_cycle_query.go\<close>, \<open>workspace_goal_query.go\<close> and the queries of
  \<open>workspace_store.go\<close>, with the methods of \<open>Service\<close> that call them.  A query reads one state of the
  database (the transactions are repeatable reads, and read only); the conventions on statements and
  contents are those of \<open>CycleStore\<close>.
\<close>

definition read_from :: "'a store_tx \<Rightarrow> Database \<Rightarrow> workspace_error + 'a" where
  "read_from f d =
     (case f \<lparr>wct_db = d, wct_lockedCycleStorageFormat = (\<lambda>_. None)\<rparr> of
        Inl e \<Rightarrow> Inl e
      | Inr (x, _) \<Rightarrow> Inr x)"

definition is_progressing :: "GoalRow \<Rightarrow> bool" where
  "is_progressing g \<longleftrightarrow> gr_Status g = ''active_cycle'' \<or> gr_Status g = ''goal_review''"

subsection \<open>Cycles\<close>

text \<open>\<open>char_length\<close> and \<open>left\<close> count the characters of the text.\<close>

definition sql_left :: "string \<Rightarrow> nat \<Rightarrow> string" where
  "sql_left text n = string_of_runes (take n (runes text))"

definition sql_char_length :: "string \<Rightarrow> nat" where
  "sql_char_length text = length (runes text)"

definition cycle_summary_row :: "Database \<Rightarrow> PdcaCycleRow \<Rightarrow> ListCycleSummariesRow" where
  "cycle_summary_row d c =
     (let version = version_columns d (version_by_id d (pc_GoalVersionID c) (pc_GoalID c));
          terminal = pc_Status c = ''completed'' \<or> pc_Status c = ''canceled'';
          text_of = (\<lambda>t. case t of None \<Rightarrow> [] | Some v \<Rightarrow> v) in
      \<lparr>ls_CycleID = pc_ID c, ls_SequenceNumber = pc_SequenceNumber c, ls_Status = pc_Status c,
       ls_StartedAt = pc_StartedAt c, ls_CompletedAt = pc_CompletedAt c, ls_CanceledAt = pc_CanceledAt c,
       ls_CancellationReason = pc_CancellationReason c, ls_GoalVersionID = gvr_ID version,
       ls_GoalVersionNumber = gvr_VersionNumber version, ls_GoalVersionBody = gvr_Body version,
       ls_GoalVersionSuccessSignal = gvr_SuccessSignal version,
       ls_GoalVersionCreatedAt = gvr_CreatedAt version,
       ls_PlanPreview =
         (if sql_char_length (text_of (pc_Plan c)) > 120
          then sql_left (text_of (pc_Plan c)) 119 @ encode_rune 0x2026 else text_of (pc_Plan c)),
       ls_CheckPreview = (if terminal then sql_left (text_of (pc_CheckText c)) 120 else []),
       ls_CheckPreviewTruncated = (terminal \<and> sql_char_length (text_of (pc_CheckText c)) > 120),
       ls_ActionPreview = (if terminal then sql_left (text_of (pc_Action c)) 120 else []),
       ls_ActionPreviewTruncated = (terminal \<and> sql_char_length (text_of (pc_Action c)) > 120)\<rparr>)"

definition goal_cycle :: "pgUUID \<Rightarrow> pgUUID \<Rightarrow> PdcaCycleRow \<Rightarrow> bool" where
  "goal_cycle user_id goal_id c \<longleftrightarrow> sql_eq (pc_UserID c) user_id \<and> sql_eq (pc_GoalID c) goal_id"

text \<open>The row comparison with the key of the cursor, and \<open>ORDER BY sequence_number DESC, id DESC\<close>.\<close>

definition cycle_after :: "(i32 \<times> pgUUID) option \<Rightarrow> PdcaCycleRow \<Rightarrow> bool" where
  "cycle_after after c \<longleftrightarrow>
     (case after of
        None \<Rightarrow> True
      | Some (sequence, ident) \<Rightarrow>
          sint (pc_SequenceNumber c) < sint sequence \<or>
          pc_SequenceNumber c = sequence \<and> uuidString (pc_ID c) < uuidString ident)"

definition cycle_order :: "PdcaCycleRow list \<Rightarrow> PdcaCycleRow list" where
  "cycle_order rows =
     sort_key (\<lambda>c. - sint (pc_SequenceNumber c)) (rev (sort_key (\<lambda>c. uuidString (pc_ID c)) rows))"

definition sql_ListCycleSummaries ::
  "pgUUID \<Rightarrow> pgUUID \<Rightarrow> (i32 \<times> pgUUID) option \<Rightarrow> i32 \<Rightarrow> Database \<Rightarrow> ListCycleSummariesRow list" where
  "sql_ListCycleSummaries user_id goal_id after limit d =
     map (cycle_summary_row d)
       (take (nat (sint limit))
         (cycle_order (filter (\<lambda>c. goal_cycle user_id goal_id c \<and> cycle_after after c) (db_pdca_cycles d))))"

definition sql_OwnedGoalExists :: "pgUUID \<Rightarrow> pgUUID \<Rightarrow> Database \<Rightarrow> bool" where
  "sql_OwnedGoalExists goal_id user_id d = list_ex (owned_goal goal_id user_id) (db_goals d)"

definition store_QueryCycleRows :: "(string \<Rightarrow> string option) \<Rightarrow> CycleListQuery \<Rightarrow> CycleSummary list store_tx" where
  "store_QueryCycleRows scan q =
     tx_bind (mustUUID scan (clq_GoalID q)) (\<lambda>goal_id.
     tx_bind (mustUUID scan (clq_UserID q)) (\<lambda>user_id.
     tx_bind (query (sql_OwnedGoalExists goal_id user_id)) (\<lambda>goalExists.
     if \<not> goalExists then tx_fail ErrGoalNotFound
     else
       tx_bind (case clq_After q of
                  None \<Rightarrow> tx_return None
                | Some after \<Rightarrow> tx_bind (mustUUID scan (clk_CycleID after)) (\<lambda>afterCycleID.
                    tx_return (Some (clk_SequenceNumber after, afterCycleID)))) (\<lambda>after.
       tx_bind (query (sql_ListCycleSummaries user_id goal_id after (word_of_int (clq_FetchLimit q)))) (\<lambda>rows.
       tx_lift (map_rows cycleSummaryFromReadRow rows))))))"

definition store_QueryCycle :: "(string \<Rightarrow> string option) \<Rightarrow> string \<Rightarrow> string \<Rightarrow> string \<Rightarrow> CycleView store_tx" where
  "store_QueryCycle scan userID goalID cycleID =
     tx_bind (mustUUID scan goalID) (\<lambda>goal_id.
     tx_bind (mustUUID scan userID) (\<lambda>user_id.
     tx_bind (query (sql_OwnedGoalExists goal_id user_id)) (\<lambda>goalExists.
     if \<not> goalExists then tx_fail ErrGoalNotFound
     else queryCycleView scan userID goalID cycleID)))"

definition store_CycleQueries :: "(string \<Rightarrow> string option) \<Rightarrow> Database \<Rightarrow> CycleQueryRepository" where
  "store_CycleQueries scan d =
     \<lparr>QueryCycleRows = (\<lambda>q. read_from (store_QueryCycleRows scan q) d),
      QueryCycle = (\<lambda>userID goalID cycleID. read_from (store_QueryCycle scan userID goalID cycleID) d)\<rparr>"

subsection \<open>Goals\<close>

definition goal_category :: "GoalRow \<Rightarrow> 16 word" where
  "goal_category g = (if is_progressing g then 0 else 1)"

definition goal_sort_time :: "GoalRow \<Rightarrow> pgTimestamptz" where
  "goal_sort_time g = (if is_progressing g then gr_UpdatedAt g else gr_TerminalAt g)"

definition in_scope :: "goal_list_scope \<Rightarrow> GoalRow \<Rightarrow> bool" where
  "in_scope scope g \<longleftrightarrow> scope = ''all'' \<or> scope = ''progressing'' \<and> is_progressing g \<or>
     scope = ''history'' \<and> (gr_Status g = ''achieved'' \<or> gr_Status g = ''ended'')"

definition goal_after :: "(16 word \<times> pgTimestamptz \<times> pgUUID) option \<Rightarrow> GoalRow \<Rightarrow> bool" where
  "goal_after after g \<longleftrightarrow>
     (case after of
        None \<Rightarrow> True
      | Some (category, sort_time, ident) \<Rightarrow>
          sint (goal_category g) > sint category \<or>
          goal_category g = category \<and>
            (tz_less (goal_sort_time g) sort_time \<or>
             tz_eq (goal_sort_time g) sort_time \<and> uuidString (gr_ID g) < uuidString ident))"

definition goal_order :: "GoalRow list \<Rightarrow> GoalRow list" where
  "goal_order rows =
     sort_key (\<lambda>g. sint (goal_category g))
       (sort_key (\<lambda>g. - nanos (tz_Time (goal_sort_time g))) (rev (sort_key (\<lambda>g. uuidString (gr_ID g)) rows)))"

definition sql_ListGoalViews ::
  "pgUUID \<Rightarrow> goal_list_scope \<Rightarrow> (16 word \<times> pgTimestamptz \<times> pgUUID) option \<Rightarrow> i32 \<Rightarrow> Database \<Rightarrow> goalViewColumns list"
where
  "sql_ListGoalViews user_id scope after limit d =
     map (goal_view_columns d)
       (take (nat (sint limit))
         (goal_order (filter (\<lambda>g. sql_eq (gr_UserID g) user_id \<and> in_scope scope g \<and> goal_after after g) (db_goals d))))"

definition goal_query_row :: "goalViewColumns \<Rightarrow> workspace_error + GoalQueryRow" where
  "goal_query_row columns =
     rbind (mapGoalView columns) (\<lambda>item.
     Inr \<lparr>gqr_View = gvw_View item, gqr_Category = gvw_Category item, gqr_SortTime = gvw_SortTime item\<rparr>)"

definition store_QueryGoalRows :: "(string \<Rightarrow> string option) \<Rightarrow> GoalListQuery \<Rightarrow> GoalQueryRow list store_tx" where
  "store_QueryGoalRows scan q =
     tx_bind (mustUUID scan (glq_UserID q)) (\<lambda>user_id.
     tx_bind (case glq_After q of
                None \<Rightarrow> tx_return None
              | Some after \<Rightarrow> tx_bind (mustUUID scan (glk_GoalID after)) (\<lambda>afterGoalID.
                  tx_return (Some (glk_Category after, stored_at (glk_SortTime after), afterGoalID)))) (\<lambda>after.
     tx_bind (query (sql_ListGoalViews user_id (glq_Scope q) after (word_of_int (glq_FetchLimit q)))) (\<lambda>rows.
     tx_lift (map_rows goal_query_row rows))))"

definition store_GoalQueries :: "(string \<Rightarrow> string option) \<Rightarrow> Database \<Rightarrow> GoalQueryRepository" where
  "store_GoalQueries scan d =
     \<lparr>QueryGoalRows = (\<lambda>q. read_from (store_QueryGoalRows scan q) d),
      QueryGoal = (\<lambda>userID goalID. read_from (getGoalView scan userID goalID) d)\<rparr>"

subsection \<open>Home, drafts and reviews\<close>

record HomeView =
  hv_ProgressingGoals :: "GoalView list"
  hv_CreationDraft :: "DraftView option"
  hv_CanCreateGoalDraft :: bool
  hv_ProgressingGoalLimit :: int
  hv_CanStartProgressingGoal :: bool

definition draft_view_columns :: "Database \<Rightarrow> StoredDraftRow \<Rightarrow> draftViewColumns" where
  "draft_view_columns d r =
     \<lparr>dc_id = sd_ID r, dc_draftType = sd_DraftType r, dc_goalID = sd_GoalID r,
      dc_baseGoalVersionID = sd_BaseGoalVersionID r, dc_reviewCycleID = sd_ReviewCycleID r,
      dc_body = sd_Body r, dc_successSignal = signal_of (db_goal_draft_success_signals d) (sd_ID r),
      dc_revision = sd_Revision r, dc_updatedAt = sd_UpdatedAt r\<rparr>"

definition sql_ListHomeGoalViews :: "pgUUID \<Rightarrow> Database \<Rightarrow> goalViewColumns list" where
  "sql_ListHomeGoalViews user_id d =
     map (goal_view_columns d)
       (sort_key (\<lambda>g. nanos (tz_Time (gr_CreatedAt g))) (sort_key (\<lambda>g. uuidString (gr_ID g))
         (filter (\<lambda>g. sql_eq (gr_UserID g) user_id \<and> is_progressing g) (db_goals d))))"

definition store_Home :: "(string \<Rightarrow> string option) \<Rightarrow> string \<Rightarrow> int \<Rightarrow> HomeView store_tx" where
  "store_Home scan userID limit =
     tx_bind (mustUUID scan userID) (\<lambda>user_id.
     tx_bind (query (sql_ListHomeGoalViews user_id)) (\<lambda>rows.
     tx_bind (tx_lift (map_rows mapGoalView rows)) (\<lambda>items.
     tx_bind (query (\<lambda>d. map_option (draft_view_columns d)
                (find (\<lambda>r. sql_eq (sd_UserID r) user_id \<and> sd_DraftType r = ''creation'') (db_goal_drafts d))))
       (\<lambda>draftRow.
     tx_bind (case draftRow of
                None \<Rightarrow> tx_return None
              | Some columns \<Rightarrow> tx_bind (tx_lift (mapDraftView columns)) (\<lambda>draft. tx_return (Some draft)))
       (\<lambda>creationDraft.
     tx_return \<lparr>hv_ProgressingGoals = map gvw_View items, hv_CreationDraft = creationDraft,
                hv_CanCreateGoalDraft = (creationDraft = None), hv_ProgressingGoalLimit = limit,
                hv_CanStartProgressingGoal = (int (length items) < limit)\<rparr>)))))"

definition store_GetDraft :: "(string \<Rightarrow> string option) \<Rightarrow> string \<Rightarrow> string \<Rightarrow> DraftView store_tx" where
  "store_GetDraft scan userID draftID =
     tx_bind (mustUUID scan draftID) (\<lambda>draft_id.
     tx_bind (mustUUID scan userID) (\<lambda>user_id.
     tx_bind (query (\<lambda>d. map_option (draft_view_columns d)
                (find (\<lambda>r. sql_eq (sd_ID r) draft_id \<and> sql_eq (sd_UserID r) user_id) (db_goal_drafts d)))) (\<lambda>row.
     case row of
       None \<Rightarrow> tx_fail ErrNotFound
     | Some columns \<Rightarrow>
         tx_bind (tx_lift (mapDraftView columns)) (\<lambda>view.
         if dv_DraftType view \<noteq> DraftCreation then tx_fail ErrDraftTypeMismatch else tx_return view))))"

definition goalReviewMaterializationError :: "workspace_error \<Rightarrow> workspace_error" where
  "goalReviewMaterializationError err =
     (case err of
        ErrGoalPersistenceInvariant _ \<Rightarrow> JoinErrors ErrGoalReviewInvariant err
      | ErrCyclePersistenceInvariant _ \<Rightarrow> JoinErrors ErrGoalReviewInvariant err
      | _ \<Rightarrow> err)"

definition trigger_cycle_error :: "workspace_error \<Rightarrow> workspace_error" where
  "trigger_cycle_error err =
     (if err = ErrNotFound \<or> err = ErrCycleNotFound then ErrGoalReviewInvariant
      else goalReviewMaterializationError err)"

definition store_GetReview :: "(string \<Rightarrow> string option) \<Rightarrow> string \<Rightarrow> string \<Rightarrow> ReviewView store_tx" where
  "store_GetReview scan userID goalID =
     tx_bind (tx_map_error goalReviewMaterializationError (getGoalView scan userID goalID)) (\<lambda>view.
     if gv_Status view \<noteq> StatusGoalReview then tx_fail ErrGoalReviewNotActive
     else
       tx_bind (mustUUID scan goalID) (\<lambda>goal_id.
       tx_bind (mustUUID scan userID) (\<lambda>user_id.
       tx_bind (query (\<lambda>d. map_option (draft_view_columns d)
                  (find (\<lambda>r. sql_eq (sd_GoalID r) goal_id \<and> sql_eq (sd_UserID r) user_id \<and>
                     sd_DraftType r = ''review'') (db_goal_drafts d)))) (\<lambda>row.
       case row of
         None \<Rightarrow> tx_fail ErrGoalReviewInvariant
       | Some columns \<Rightarrow>
           tx_bind (tx_map_error goalReviewMaterializationError (tx_lift (mapDraftView columns))) (\<lambda>draft.
           case dv_ReviewCycleID draft of
             None \<Rightarrow> tx_fail ErrGoalReviewInvariant
           | Some reviewCycleID \<Rightarrow>
               tx_bind (tx_map_error trigger_cycle_error (queryCycleView scan userID goalID reviewCycleID))
                 (\<lambda>trigger.
               let result = \<lparr>rv_Goal = view, rv_ReviewDraft = draft, rv_TriggerCycle = trigger\<rparr> in
               case validateGoalReviewView goalID result of
                 Some e \<Rightarrow> tx_fail e
               | None \<Rightarrow> tx_return result))))))"

subsection \<open>The service\<close>

text \<open>The metrics of \<open>Home\<close> are left out; \<open>limits\<close> is what the entitlements answer.\<close>

definition service_Home :: "(string \<Rightarrow> string option) \<Rightarrow> workspace_error + Entitlements \<Rightarrow> string \<Rightarrow> Database \<Rightarrow> workspace_error + HomeView" where
  "service_Home scan limits userID d =
     rbind limits (\<lambda>l. read_from (store_Home scan userID (en_MaxProgressingGoals l)) d)"

definition or_not_found :: "workspace_error \<Rightarrow> workspace_error + 'a \<Rightarrow> workspace_error + 'a" where
  "or_not_found replacement r = (case r of Inl e \<Rightarrow> Inl (resourceNotFound e replacement) | Inr x \<Rightarrow> Inr x)"

definition service_GetDraft :: "(string \<Rightarrow> string option) \<Rightarrow> string \<Rightarrow> string \<Rightarrow> Database \<Rightarrow> workspace_error + DraftView" where
  "service_GetDraft scan userID draftID d =
     or_not_found ErrGoalDraftNotFound (read_from (store_GetDraft scan userID draftID) d)"

definition service_GetGoal :: "(string \<Rightarrow> string option) \<Rightarrow> string \<Rightarrow> string \<Rightarrow> Database \<Rightarrow> workspace_error + GoalView" where
  "service_GetGoal scan userID goalID d =
     or_not_found ErrGoalNotFound (GetGoal (store_GoalQueries scan d) userID goalID)"

definition service_GetCycle ::
  "(string \<Rightarrow> string option) \<Rightarrow> string \<Rightarrow> string \<Rightarrow> string \<Rightarrow> Database \<Rightarrow> workspace_error + CycleView" where
  "service_GetCycle scan userID goalID cycleID d =
     or_not_found ErrCycleNotFound (GetCycle (store_CycleQueries scan d) userID goalID cycleID)"

definition service_GetReview :: "(string \<Rightarrow> string option) \<Rightarrow> string \<Rightarrow> string \<Rightarrow> Database \<Rightarrow> workspace_error + ReviewView" where
  "service_GetReview scan userID goalID d =
     or_not_found ErrGoalNotFound (read_from (store_GetReview scan userID goalID) d)"

end
