(* ===== verification/CycleStoreRuns.thy ===== *)
theory CycleStoreRuns
  imports CycleStoreLaws
begin

section \<open>Runs of the Cycle commands on the database\<close>

text \<open>
  The four commands of \<open>CycleUseCases\<close>, each in a transaction of its own on the PostgreSQL adapter,
  and what the contract of \<open>CycleContract\<close> gives for any sequence of them.  The answers of the
  clock and of the ID generator are part of a command.
\<close>

datatype cycle_command =
    SaveFrameCommand SaveFrameInput gotime
  | ChangeReviewScheduleCommand ChangeReviewScheduleInput
  | CompleteCycleCommand CompleteCycleInput gotime "workspace_error + string"
  | ReplanCycleCommand ReplanCycleInput gotime "workspace_error + string"

fun command_user :: "cycle_command \<Rightarrow> string" where
  "command_user (SaveFrameCommand input _) = sfi_UserID input"
| "command_user (ChangeReviewScheduleCommand input) = csi_UserID input"
| "command_user (CompleteCycleCommand input _ _) = cci_UserID input"
| "command_user (ReplanCycleCommand input _ _) = rci_UserID input"

fun run_cycle_command ::
  "(string \<Rightarrow> string option) \<Rightarrow> (string \<Rightarrow> string) \<Rightarrow> cycle_command \<Rightarrow> Database \<Rightarrow> Database" where
  "run_cycle_command scan sha256 (SaveFrameCommand input now) d =
     snd (WithinCycleTransaction (SaveFrame (store_CycleTx scan) now input) d)"
| "run_cycle_command scan sha256 (ChangeReviewScheduleCommand input) d =
     snd (WithinCycleTransaction (uc_ChangeReviewSchedule (store_CycleTx scan) input) d)"
| "run_cycle_command scan sha256 (CompleteCycleCommand input now newID) d =
     snd (WithinCycleTransaction (CompleteCycle (store_CycleTx scan) sha256 now newID input) d)"
| "run_cycle_command scan sha256 (ReplanCycleCommand input now newID) d =
     snd (WithinCycleTransaction (ReplanCycle (store_CycleTx scan) sha256 now newID input) d)"

definition run_cycle_commands ::
  "(string \<Rightarrow> string option) \<Rightarrow> (string \<Rightarrow> string) \<Rightarrow> cycle_command list \<Rightarrow> Database \<Rightarrow> Database" where
  "run_cycle_commands scan sha256 = fold (run_cycle_command scan sha256)"

subsection \<open>Committed transactions\<close>

lemma committed_cases:
  assumes "\<And>x s. m \<lparr>wct_db = d, wct_lockedCycleStorageFormat = Map.empty\<rparr> = Inr (x, s) \<Longrightarrow> P (wct_db s)"
    and "P d"
  shows "P (snd (WithinCycleTransaction m d))"
  using assms by (auto simp: WithinCycleTransaction_def split: sum.splits)

lemma committed:
  "WithinCycleTransaction m d = (Inr x, d') \<longleftrightarrow>
     (\<exists>s. m \<lparr>wct_db = d, wct_lockedCycleStorageFormat = Map.empty\<rparr> = Inr (x, s) \<and> wct_db s = d')"
  by (auto simp: WithinCycleTransaction_def split: sum.splits)

lemma committed_preserves:
  assumes "preserves (\<lambda>s. P (wct_db s)) m" "P d"
  shows "P (snd (WithinCycleTransaction m d))"
  by (rule committed_cases) (use assms preservesD[OF assms(1)] in force)+

lemma committed_keeps:
  assumes "keeps (\<lambda>s. f (wct_db s)) m"
  shows "f (snd (WithinCycleTransaction m d)) = f d"
  by (rule committed_cases) (use keepsD[OF assms] in force)+

lemma run_cycle_command_unique:
  "store_unique_keys d \<Longrightarrow> store_unique_keys (run_cycle_command scan sha256 command d)"
  by (cases command)
    (simp_all add: committed_preserves store.SaveFrame_unique store.ChangeReviewSchedule_unique
      store.CompleteCycle_unique store.ReplanCycle_unique)

lemma run_cycle_command_foreign:
  assumes "store_unique_keys d"
  shows "foreign_rows (scan (command_user command)) (run_cycle_command scan sha256 command d) =
    foreign_rows (scan (command_user command)) d"
proof (cases command)
  case (ChangeReviewScheduleCommand input)
  show ?thesis unfolding ChangeReviewScheduleCommand run_cycle_command.simps command_user.simps
    by (rule committed_cases) (use store.ChangeReviewSchedule_foreign assms in force)+
qed (simp_all add: store.SaveFrame_foreign store.CompleteCycle_foreign store.ReplanCycle_foreign
    committed_keeps[of "foreign_rows u" for u])

text \<open>[C16] The commands of one User never touch another User's data: after any sequence of frame
  saves, schedule changes, completions and replans issued for User \<open>u\<close>, successful or failing, with
  whatever identifiers the requests name, every row that does not belong to \<open>u\<close> is as it was, and
  the unique keys of the schema still hold.\<close>

theorem cycle_commands_isolate_users:
  assumes "store_unique_keys d" and "\<forall>command\<in>set commands. command_user command = u"
  shows "foreign_rows (scan u) (run_cycle_commands scan sha256 commands d) = foreign_rows (scan u) d \<and>
    store_unique_keys (run_cycle_commands scan sha256 commands d)"
  using assms
proof (induction commands arbitrary: d)
  case Nil
  then show ?case by (simp add: run_cycle_commands_def)
next
  case (Cons command commands)
  let ?d = "run_cycle_command scan sha256 command d"
  have "store_unique_keys ?d" using Cons.prems(1) by (rule run_cycle_command_unique)
  moreover have "foreign_rows (scan u) ?d = foreign_rows (scan u) d"
    using run_cycle_command_foreign[OF Cons.prems(1), of scan command sha256] Cons.prems(2) by simp
  ultimately show ?case using Cons.IH[of ?d] Cons.prems(2) by (simp add: run_cycle_commands_def)
qed


text \<open>An operation key replans a Cycle once, in the same sense: a later replan under the same key either
  fails, or carries the same request, leaves the database as it is and is marked as a replay.\<close>

theorem ReplanCycle_applied_once:
  assumes first: "WithinCycleTransaction (ReplanCycle (store_CycleTx scan) sha256 now newID input) d = (Inr result, d')"
    and again: "WithinCycleTransaction (ReplanCycle (store_CycleTx scan) sha256 now' newID' input') d' = (Inr result', d'')"
    and "rci_UserID input' = rci_UserID input" "rci_OperationID input' = rci_OperationID input"
  shows "claim_hash scan d' (rci_UserID input) (rci_OperationID input) = Some (replanCycleRequestHash sha256 input) \<and>
    replanCycleRequestHash sha256 input' = replanCycleRequestHash sha256 input \<and>
    d'' = d' \<and> rcr_Replayed result'"
proof -
  from first obtain s where s: "ReplanCycle (store_CycleTx scan) sha256 now newID input
      \<lparr>wct_db = d, wct_lockedCycleStorageFormat = Map.empty\<rparr> = Inr (result, s)" "wct_db s = d'"
    by (auto simp: committed)
  from again obtain t where t: "ReplanCycle (store_CycleTx scan) sha256 now' newID' input'
      \<lparr>wct_db = d', wct_lockedCycleStorageFormat = Map.empty\<rparr> = Inr (result', t)" "wct_db t = d''"
    by (auto simp: committed)
  have key: "claim_hash scan d' (rci_UserID input) (rci_OperationID input) =
      Some (replanCycleRequestHash sha256 input)"
    using store.ReplanCycle_key(1)[OF s(1)] s(2) by simp
  show ?thesis
    using store.ReplanCycle_key(2)[OF t(1), of "replanCycleRequestHash sha256 input"] key t(2) assms(3,4)
    by simp
qed

subsection \<open>A concrete database\<close>

text \<open>
  One User with a Goal, its version and an active Cycle whose four frames are filled, and a second
  User with a Goal.  The parser of identifiers is \<open>Some\<close>: it accepts every text.
\<close>

definition sample_time :: gotime where
  "sample_time = \<lparr>nanos = 63000000000000000000, loc = UTC\<rparr>"

definition sample_stamp :: pgTimestamptz where
  "sample_stamp = \<lparr>tz_Time = sample_time, tz_InfinityModifier = Finite, tz_Valid = True\<rparr>"

definition sample_cycle_id :: string where
  "sample_cycle_id = ''0190a2b4-0000-7000-8000-0000000000c1''"

lemma sample_cycle_id_simps:
  "IsCanonicalUUIDv7 sample_cycle_id" "sample_cycle_id \<noteq> sample_uuid" "sample_uuid \<noteq> sample_cycle_id"
  "sample_cycle_id \<noteq> []"
  by (simp_all add: IsCanonicalUUIDv7_def sample_cycle_id_def sample_uuid_def range_from_ascii
      isUUIDVariant_def isLowerHex_def)

definition sample_user_row :: "string \<Rightarrow> UserRow" where
  "sample_user_row user_id =
     \<lparr>ur_ID = Some user_id, ur_LastActiveAt = sample_stamp, ur_CreatedAt = sample_stamp, ur_UpdatedAt = sample_stamp\<rparr>"

definition sample_goal_row :: "string \<Rightarrow> string \<Rightarrow> GoalRow" where
  "sample_goal_row goal_id user_id =
     \<lparr>gr_ID = Some goal_id, gr_UserID = Some user_id, gr_Status = ''active_cycle'',
      gr_CurrentVersionNumber = 1, gr_NextCycleSequenceNumber = 2, gr_Revision = 0,
      gr_TerminalAt = null_Timestamptz, gr_TerminalOperationID = None, gr_TerminalRequestHash = None,
      gr_CreatedAt = sample_stamp, gr_UpdatedAt = sample_stamp\<rparr>"

definition sample_cycle_row :: PdcaCycleRow where
  "sample_cycle_row =
     \<lparr>pc_ID = Some sample_cycle_id, pc_UserID = Some ''a'', pc_GoalID = Some ''b'',
      pc_GoalVersionID = Some sample_uuid, pc_SequenceNumber = 1, pc_Status = ''active'',
      pc_StartedAt = sample_stamp, pc_CompletedAt = null_Timestamptz, pc_CanceledAt = null_Timestamptz,
      pc_CancellationReason = None, pc_Plan = Some ''p'', pc_DoText = Some ''d'',
      pc_CheckText = Some ''c'', pc_Action = Some ''a'', pc_ContentRevision = 4, pc_PlanRevision = 1,
      pc_DoRevision = 1, pc_CheckRevision = 1, pc_ActionRevision = 1,
      pc_ActionLastAiAppliedContentRevision = None, pc_ActionUserModifiedAfterAi = False,
      pc_StartOperationID = Some ''e'', pc_StartRequestHash = ''h1'', pc_CompletionOperationID = None,
      pc_CompletionRequestHash = None, pc_CreatedAt = sample_stamp, pc_UpdatedAt = sample_stamp\<rparr>"

definition sample_database :: Database where
  "sample_database =
     \<lparr>db_users = [sample_user_row ''a'', sample_user_row ''z''], db_sessions = [],
      db_anonymous_bootstraps = [], db_auth_identities = [],
      db_goals = [sample_goal_row ''b'' ''a'', sample_goal_row ''y'' ''z''],
      db_goal_versions = [\<lparr>sv_ID = Some sample_uuid, sv_UserID = Some ''a'', sv_GoalID = Some ''b'',
        sv_VersionNumber = 1, sv_Body = ''goal'', sv_CreatedByOperationID = Some ''e'',
        sv_CreatedAt = sample_stamp\<rparr>],
      db_goal_version_success_signals = [], db_pdca_cycles = [sample_cycle_row],
      db_pdca_cycle_review_schedules = [], db_goal_drafts = [], db_goal_draft_success_signals = [],
      db_ai_generations = [], db_ai_usage_events = [], db_ai_budget_monthly = [],
      db_goal_delete_receipts = [], db_abuse_rate_buckets = [],
      db_anonymous_rate_limit_guards = []\<rparr>"

definition sample_complete :: CompleteCycleInput where
  "sample_complete =
     \<lparr>cci_UserID = ''a'', cci_GoalID = ''b'', cci_CycleID = sample_cycle_id, cci_OperationID = ''f'',
      cci_ExpectedGoalRevision = 0, cci_ExpectedContentRevision = 4\<rparr>"

definition sample_completed_database :: Database where
  "sample_completed_database = sample_database
     \<lparr>db_goals := [(sample_goal_row ''b'' ''a'')\<lparr>gr_Status := ''goal_review'', gr_Revision := 1\<rparr>,
                   sample_goal_row ''y'' ''z''],
      db_pdca_cycles := [sample_cycle_row\<lparr>pc_Status := ''completed'', pc_CompletedAt := sample_stamp,
        pc_CompletionOperationID := Some ''f'',
        pc_CompletionRequestHash := Some (completeCycleRequestHash (\<lambda>_. ''h'') sample_complete)\<rparr>],
      db_goal_drafts := [\<lparr>sd_ID = Some sample_uuid, sd_UserID = Some ''a'', sd_DraftType = ''review'',
        sd_GoalID = Some ''b'', sd_BaseGoalVersionID = Some sample_uuid, sd_ReviewCycleID = Some sample_cycle_id,
        sd_Body = ''goal'', sd_Revision = 0, sd_CreatedAt = sample_stamp, sd_UpdatedAt = sample_stamp\<rparr>]\<rparr>"

text \<open>Evaluating a transaction: step by step, without looking into the continuation of a step before its turn.\<close>

lemma tx_bind_weak: "m = m' \<Longrightarrow> s = s' \<Longrightarrow> tx_bind m f s = tx_bind m' f s'"
  by simp

lemma rbind_weak: "m = m' \<Longrightarrow> rbind m f = rbind m' f"
  by simp

lemma sample_uuid_nonempty: "sample_uuid \<noteq> []"
  by (simp add: sample_uuid_def)

lemma sample_signed: "\<not> (1 :: i32) <s 0" "\<not> (4 :: i64) <s 0" "\<not> (1 :: i64) <s 0" "\<not> (0 :: i64) <s 0"
  by (simp_all add: word_sless_alt)

lemma sample_time_simps:
  "utc sample_time = sample_time" "truncate_time microsecond sample_time = sample_time"
  "\<not> time_is_zero sample_time" "\<not> time_before sample_time sample_time"
  "time_equal sample_time sample_time" "truncate_time microsecond (utc sample_now) = sample_time"
  by (simp_all add: sample_time_def utc_def truncate_time_def microsecond_def time_is_zero_def
      time_before_def time_equal_def sample_now_def)

lemma sample_hash_nonempty: "completeCycleRequestHash (\<lambda>_. ''h'') input \<noteq> []"
  by (simp add: completeCycleRequestHash_def hashRequest_def hex_encode_def)

lemmas run_monad = mustUUID_def query_def exec_def tx_bind_def tx_return_def tx_fail_def tx_lift_def
  tx_check_def tx_map_error_def Let_def

lemmas run_reads = store_FindCompleteCycleReceipt_def store_FindReplanCycleReceipt_def store_LockUser_def
  store_LockGoal_def owned_goal_def store_LockCycle_def owned_cycle_def note_storage_format_def
  find_schedule_def store_LoadCurrentGoalVersion_def version_columns_def signal_of_def version_by_id_def
  store_HasRunningCycleGeneration_def queryCycleView_def cycle_view_row_def previous_of_def
  getGoalView_def goal_view_columns_def store_FindReviewDraftByCycle_def

lemmas run_rows = goalFromTransitionRow_def cycleFromSQLC_def goalVersionFromTransitionRow_def
  uuidString_def nullableUUIDString_def completeCycleReceiptFromSQLC_def replanCycleReceiptFromSQLC_def
  cycleLifecycleFromSQLC_def cycleCancellationReasonFromSQLC_def nullableFiniteCycleTimestamp_def
  finiteCycleTimestamp_def isFiniteGoalTimestamptz_def nullableGoalTimestamptz_def
  null_Timestamptz_def null_Date_def stored_time_def timestamptz_def cycleViewFromReadRow_def
  cycleGoalVersionViewFromSQLC_def optionalNonEmptyText_def previousCompletedCycleActionFromSQLC_def
  cycleReviewScheduleFromSQLC_def mapGoalView_def mapCurrentWork_def
  reviewDraftViewFromTransitionRow_def mapDraftView_def

lemmas run_writes = store_CompleteCycleCAS_def store_InsertReviewDraft_def store_EnterGoalReviewCAS_def
  store_CancelCycleCAS_def store_TryInsertCycleClaim_def store_ReplanGoalCAS_def insert_claim_def
  claim_row_def update_cycles_def update_goals_def update_rows_def requireCycleRows_def

lemmas run_checks = validateCompletedCycleResult_def validateCycleView_def goalVersionViewsEqual_def
  validateGoalCurrentWork_def optionalStringsEqual_def validateCycleGoalVersion_def
  validatePreviousCompletedCycleAction_def validateCycleStatusTimes_def canonical_id_def
  validReviewScheduleView_def

lemmas run_domain = cycle_Complete_def MissingRequiredFrames_def IsBlank_def allFrames_def FrameContent_def
  text_eval EnterReview_def NewReviewDraft_def

lemmas run_sample = sample_cycle_id_simps sample_uuid_canonical sample_uuid_nonempty sample_signed sample_time_simps
  sample_hash_nonempty sample_database_def sample_user_row_def sample_goal_row_def sample_cycle_row_def sample_stamp_def

lemma sample_CompleteCycle:
  "\<exists>result. WithinCycleTransaction (CompleteCycle (store_CycleTx Some) (\<lambda>_. ''h'') sample_now
      (Inr sample_uuid) sample_complete) sample_database = (Inr result, sample_completed_database)"
  by (simp add: WithinCycleTransaction_def CompleteCycle_def complete_locked_def store_CycleTx_def
      run_monad run_reads run_rows run_writes run_checks run_domain run_sample
      validateCompleteCycleReceipt_def sample_complete_def sample_completed_database_def
      cong: tx_bind_weak rbind_weak del: rbind_eq_Inr tx_bind_Inr)

lemma sample_CompleteCycle_again:
  "\<exists>result. WithinCycleTransaction (CompleteCycle (store_CycleTx Some) (\<lambda>_. ''h'') sample_now
      (Inl ErrNotFound) sample_complete) sample_completed_database = (Inr result, sample_completed_database)"
  by (simp add: WithinCycleTransaction_def CompleteCycle_def buildCompleteCycleReplay_def store_CycleTx_def
      run_monad run_reads run_rows run_writes run_checks run_domain run_sample
      validateCompleteCycleReceipt_def validateCompleteCycleReplay_def
      sample_complete_def sample_completed_database_def
      cong: tx_bind_weak rbind_weak del: rbind_eq_Inr tx_bind_Inr)

definition sample_replan :: ReplanCycleInput where
  "sample_replan =
     \<lparr>rci_UserID = ''a'', rci_GoalID = ''b'', rci_CycleID = sample_cycle_id, rci_OperationID = ''r'',
      rci_ExpectedGoalRevision = 0, rci_ExpectedContentRevision = 4,
      rci_ExpectedReviewScheduleRevision = 0, rci_Confirmed = True\<rparr>"

definition sample_successor_row :: PdcaCycleRow where
  "sample_successor_row =
     \<lparr>pc_ID = Some sample_uuid, pc_UserID = Some ''a'', pc_GoalID = Some ''b'',
      pc_GoalVersionID = Some sample_uuid, pc_SequenceNumber = 2, pc_Status = ''active'',
      pc_StartedAt = sample_stamp, pc_CompletedAt = null_Timestamptz, pc_CanceledAt = null_Timestamptz,
      pc_CancellationReason = None, pc_Plan = Some [], pc_DoText = Some [],
      pc_CheckText = Some [], pc_Action = Some [], pc_ContentRevision = 0, pc_PlanRevision = 0,
      pc_DoRevision = 0, pc_CheckRevision = 0, pc_ActionRevision = 0,
      pc_ActionLastAiAppliedContentRevision = None, pc_ActionUserModifiedAfterAi = False,
      pc_StartOperationID = Some ''r'',
      pc_StartRequestHash = replanCycleRequestHash (\<lambda>_. ''h'') sample_replan,
      pc_CompletionOperationID = None, pc_CompletionRequestHash = None,
      pc_CreatedAt = sample_stamp, pc_UpdatedAt = sample_stamp\<rparr>"

definition sample_replanned_database :: Database where
  "sample_replanned_database = sample_database
     \<lparr>db_goals := [(sample_goal_row ''b'' ''a'')\<lparr>gr_NextCycleSequenceNumber := 3, gr_Revision := 1\<rparr>,
                   sample_goal_row ''y'' ''z''],
      db_pdca_cycles := [sample_cycle_row\<lparr>pc_Status := ''canceled'', pc_CanceledAt := sample_stamp,
        pc_CancellationReason := Some ''replanned''\<rparr>, sample_successor_row]\<rparr>"

lemma sample_replan_hash: "replanCycleRequestHash (\<lambda>_. ''h'') input \<noteq> []"
  by (simp add: replanCycleRequestHash_def hashRequest_def hex_encode_def)

lemmas run_replan = sample_replan_hash sample_replan_def sample_successor_row_def
  sample_replanned_database_def validateReplanCycleReceipt_def validateReplanCyclePair_def

lemma sample_ReplanCycle:
  "\<exists>result. WithinCycleTransaction (ReplanCycle (store_CycleTx Some) (\<lambda>_. ''h'') sample_now
      (Inr sample_uuid) sample_replan) sample_database = (Inr result, sample_replanned_database)"
  by (simp add: WithinCycleTransaction_def ReplanCycle_def replan_locked_def store_CycleTx_def
      run_monad run_reads run_rows run_writes run_checks run_domain run_sample run_replan
      Replan_def cycle_Cancel_def IsValidCancellationReason_def cycle_New_def zero_Revisions_def
      validateFreshReplanCycleResult_def reviewDatesEqual_def zero_FrameRevisions_def
      cong: tx_bind_weak rbind_weak del: rbind_eq_Inr tx_bind_Inr)

lemma sample_ReplanCycle_again:
  "\<exists>result. WithinCycleTransaction (ReplanCycle (store_CycleTx Some) (\<lambda>_. ''h'') sample_now
      (Inl ErrNotFound) sample_replan) sample_replanned_database = (Inr result, sample_replanned_database)"
  by (simp add: WithinCycleTransaction_def ReplanCycle_def buildReplanCycleReplay_def store_CycleTx_def
      run_monad run_reads run_rows run_writes run_checks run_domain run_sample run_replan
      validateReplanCycleReplay_def IsValidCancellationReason_def
      cong: tx_bind_weak rbind_weak del: rbind_eq_Inr tx_bind_Inr)

subsection \<open>The properties on the concrete database\<close>

lemma sample_unique: "store_unique_keys sample_database"
  by (simp add: store_unique_keys_def no_clash_def goals_clash_def run_sample)

theorem cycle_commands_isolate_users_witness:
  "\<exists>commands. run_cycle_commands Some (\<lambda>_. ''h'') commands sample_database = sample_replanned_database \<and>
     foreign_rows (Some ''a'') sample_replanned_database = foreign_rows (Some ''a'') sample_database \<and>
     fr_goals (foreign_rows (Some ''a'') sample_database) = [sample_goal_row ''y'' ''z'']"
proof (intro exI conjI)
  let ?commands = "[ReplanCycleCommand sample_replan sample_now (Inr sample_uuid)]"
  have rci: "rci_UserID sample_replan = ''a''" by (simp add: sample_replan_def)
  from sample_ReplanCycle
  show run: "run_cycle_commands Some (\<lambda>_. ''h'') ?commands sample_database = sample_replanned_database"
    by (auto simp: run_cycle_commands_def)
  show "foreign_rows (Some ''a'') sample_replanned_database = foreign_rows (Some ''a'') sample_database"
    using cycle_commands_isolate_users[of sample_database ?commands "''a''" Some "\<lambda>_. ''h''"]
    unfolding run by (simp add: sample_unique rci)
  show "fr_goals (foreign_rows (Some ''a'') sample_database) = [sample_goal_row ''y'' ''z'']"
    by (simp add: foreign_rows_def run_sample)
qed


theorem ReplanCycle_applied_once_witness:
  "claim_hash Some sample_replanned_database ''a'' ''r'' =
     Some (replanCycleRequestHash (\<lambda>_. ''h'') sample_replan)"
proof -
  obtain r r' where
    "WithinCycleTransaction (ReplanCycle (store_CycleTx Some) (\<lambda>_. ''h'') sample_now
      (Inr sample_uuid) sample_replan) sample_database = (Inr r, sample_replanned_database)"
    "WithinCycleTransaction (ReplanCycle (store_CycleTx Some) (\<lambda>_. ''h'') sample_now
      (Inl ErrNotFound) sample_replan) sample_replanned_database = (Inr r', sample_replanned_database)"
    using sample_ReplanCycle sample_ReplanCycle_again by blast
  from ReplanCycle_applied_once[OF this] show ?thesis by (simp add: sample_replan_def)
qed

subsection \<open>A retry after the review draft was edited\<close>

text \<open>[C40] The retry of a completion is rejected once the success signal of the review draft has been
  edited: while the review is open its draft is the User's to change, but replaying the completion
  of the Cycle requires the draft's signal to be the one of the version the Cycle was started with,
  and fails with an internal error otherwise.\<close>

theorem CompleteCycle_replay_rejects_edited_signal:
  assumes "LoadGoalView tx (cci_UserID input) (crc_GoalID receipt) s = Inr (goal_view, s1)"
    and "LoadCycleView tx (cci_UserID input) (crc_GoalID receipt) (crc_CycleID receipt) s1 = Inr (cycle_view, s2)"
    and "FindReviewDraftByCycle tx (cci_UserID input) (crc_GoalID receipt) (crc_CycleID receipt) s2 =
      Inr (Some draft, s3)"
    and "dv_SuccessSignal draft \<noteq> gvv_SuccessSignal (cv_GoalVersion cycle_view)"
  shows "\<exists>message. buildCompleteCycleReplay tx input receipt s = Inl (cycleInvariantError message)"
  using assms
  by (auto simp: buildCompleteCycleReplay_def validateCompleteCycleReplay_def optionalStringsEqual_def
      tx_bind_def tx_map_error_def tx_check_def Let_def split: option.splits if_splits)

definition sample_edited :: workspaceCycleTx where
  "sample_edited =
     \<lparr>wct_db = sample_completed_database\<lparr>db_goal_draft_success_signals := [(Some sample_uuid, ''s'')]\<rparr>,
      wct_lockedCycleStorageFormat = Map.empty\<rparr>"

lemmas run_edited = sample_edited_def sample_completed_database_def run_monad run_reads run_rows run_sample

theorem CompleteCycle_replay_rejects_edited_signal_witness:
  "\<exists>message. buildCompleteCycleReplay (store_CycleTx Some) sample_complete
     \<lparr>crc_GoalID = ''b'', crc_CycleID = sample_cycle_id, crc_RequestHash = ''h''\<rparr> sample_edited =
     Inl (cycleInvariantError message)"
proof -
  have "\<exists>g. getGoalView Some ''a'' ''b'' sample_edited = Inr (g, sample_edited)"
    by (simp add: run_edited cong: tx_bind_weak rbind_weak del: rbind_eq_Inr tx_bind_Inr)
  moreover have "\<exists>v. queryCycleView Some ''a'' ''b'' sample_cycle_id sample_edited = Inr (v, sample_edited) \<and>
      gvv_SuccessSignal (cv_GoalVersion v) = None"
    by (simp add: run_edited cong: tx_bind_weak rbind_weak del: rbind_eq_Inr tx_bind_Inr)
  moreover have "\<exists>r. store_FindReviewDraftByCycle Some ''a'' ''b'' sample_cycle_id sample_edited =
      Inr (Some r, sample_edited) \<and> dv_SuccessSignal r = Some ''s''"
    by (simp add: run_edited cong: tx_bind_weak rbind_weak del: rbind_eq_Inr tx_bind_Inr)
  ultimately obtain g v r where
    "getGoalView Some ''a'' ''b'' sample_edited = Inr (g, sample_edited)"
    "queryCycleView Some ''a'' ''b'' sample_cycle_id sample_edited = Inr (v, sample_edited)"
    "store_FindReviewDraftByCycle Some ''a'' ''b'' sample_cycle_id sample_edited = Inr (Some r, sample_edited)"
    "dv_SuccessSignal r \<noteq> gvv_SuccessSignal (cv_GoalVersion v)"
    by auto
  then show ?thesis
    by (intro CompleteCycle_replay_rejects_edited_signal) (simp_all add: store_CycleTx_def sample_complete_def)
qed

end
