(* ===== verification/QueryRuns.thy ===== *)
theory QueryRuns
  imports QueryStore CycleStoreRuns "HOL-Library.Multiset"
begin

section \<open>Lists by pages: nothing is left out and nothing comes twice\<close>

text \<open>
  A client that follows the cursors of \<open>ListCycles\<close> or \<open>ListGoals\<close> on a database that does not change
  in the meantime is shown the rows of its query once, in their order.
\<close>

text \<open>The client: from a cursor to the last page, at most \<open>n\<close> pages.\<close>

fun follow_pages :: "nat \<Rightarrow> (string \<Rightarrow> 'e + 'a list \<times> string option) \<Rightarrow> string \<Rightarrow> ('e + 'a list) option" where
  "follow_pages 0 list cursor = None"
| "follow_pages (Suc n) list cursor =
     (case list cursor of
        Inl e \<Rightarrow> Some (Inl e)
      | Inr (items, None) \<Rightarrow> Some (Inr items)
      | Inr (items, Some cursor') \<Rightarrow>
          (case follow_pages n list cursor' of
             None \<Rightarrow> None
           | Some (Inl e) \<Rightarrow> Some (Inl e)
           | Some (Inr rest) \<Rightarrow> Some (Inr (items @ rest))))"

lemma follow_pages_all:
  assumes limit: "0 < limit"
    and pages: "\<And>i. i \<le> length all \<Longrightarrow> list (cur i) =
      Inr (take limit (drop i all), if limit < length all - i then Some (cur (i + limit)) else None)"
  shows "i \<le> length all \<Longrightarrow> length all - i < n \<Longrightarrow> follow_pages n list (cur i) = Some (Inr (drop i all))"
proof (induction n arbitrary: i)
  case (Suc n)
  show ?case
  proof (cases "limit < length all - i")
    case True
    then have "follow_pages n list (cur (i + limit)) = Some (Inr (drop (i + limit) all))"
      using Suc limit by simp
    moreover have "take limit (drop i all) @ drop (i + limit) all = drop i all"
      by (metis add.commute append_take_drop_id drop_drop)
    ultimately show ?thesis using True pages[OF Suc.prems(1)] by simp
  next
    case False
    then show ?thesis using pages[OF Suc.prems(1)] by simp
  qed
qed simp

lemma filter_after_nth:
  assumes "sorted_wrt R xs" "j < length xs"
    and "\<And>a b. R a b \<Longrightarrow> F a b \<and> \<not> F b a" "\<And>a. \<not> F a a"
  shows "filter (F (xs ! j)) xs = drop (Suc j) xs"
proof -
  have split: "xs = take j xs @ xs ! j # drop (Suc j) xs" using assms(2) by (rule id_take_nth_drop)
  have "sorted_wrt R (take j xs @ xs ! j # drop (Suc j) xs)" using assms(1) split by simp
  then have "\<forall>a\<in>set (take j xs). R a (xs ! j)" "\<forall>b\<in>set (drop (Suc j) xs). R (xs ! j) b"
    by (auto simp: sorted_wrt_append)
  then have "filter (F (xs ! j)) (take j xs) = []" "filter (F (xs ! j)) (drop (Suc j) xs) = drop (Suc j) xs"
    using assms(3) by (auto simp: filter_empty_conv filter_id_conv)
  then have "filter (F (xs ! j)) (take j xs @ xs ! j # drop (Suc j) xs) = drop (Suc j) xs"
    using assms(4) by simp
  then show ?thesis using split by simp
qed

lemma sint_of_small: "0 \<le> x \<Longrightarrow> x < 2 ^ 31 \<Longrightarrow> sint (word_of_int x :: i32) = x"
  by (simp add: sint_sbintrunc' signed_take_bit_int_eq_self)

subsection \<open>Cycles\<close>

text \<open>The Cycles of a Goal as the listing orders them, and the rows it makes of them.\<close>

definition listed_cycles :: "string \<Rightarrow> string \<Rightarrow> Database \<Rightarrow> PdcaCycleRow list" where
  "listed_cycles userID goalID d = cycle_order (filter (goal_cycle (Some userID) (Some goalID)) (db_pdca_cycles d))"

definition cycle_summary :: "Database \<Rightarrow> PdcaCycleRow \<Rightarrow> CycleSummary" where
  "cycle_summary d c = projr (cycleSummaryFromReadRow (cycle_summary_row d c))"

text \<open>A row the mapping and the validation of the service accept.\<close>

definition listable_cycle :: "Database \<Rightarrow> PdcaCycleRow \<Rightarrow> bool" where
  "listable_cycle d c \<longleftrightarrow> (case cycleSummaryFromReadRow (cycle_summary_row d c) of
     Inl _ \<Rightarrow> False | Inr row \<Rightarrow> validateCycleSummaries [row] = None)"

lemma cycle_order_mset [simp]: "mset (cycle_order rows) = mset rows"
  by (simp add: cycle_order_def)

lemma cycle_order_set [simp]: "set (cycle_order rows) = set rows"
  by (simp add: cycle_order_def)

lemma cycle_order_filter: "cycle_order (filter P rows) = filter P (cycle_order rows)"
  by (simp add: cycle_order_def filter_sort[symmetric] rev_filter)

lemma listable_summary:
  assumes "listable_cycle d c"
  shows "cycleSummaryFromReadRow (cycle_summary_row d c) = Inr (cycle_summary d c)"
    and "validateCycleSummaries [cycle_summary d c] = None"
    and "cs_ID (cycle_summary d c) = uuidString (pc_ID c)"
    and "cs_SequenceNumber (cycle_summary d c) = pc_SequenceNumber c"
proof -
  obtain s where s: "cycleSummaryFromReadRow (cycle_summary_row d c) = Inr s" "validateCycleSummaries [s] = None"
    using assms by (auto simp: listable_cycle_def split: sum.splits)
  then show "cycleSummaryFromReadRow (cycle_summary_row d c) = Inr (cycle_summary d c)"
    and "validateCycleSummaries [cycle_summary d c] = None" by (simp_all add: cycle_summary_def)
  have "cs_ID s = uuidString (ls_CycleID (cycle_summary_row d c)) \<and>
      cs_SequenceNumber s = ls_SequenceNumber (cycle_summary_row d c)"
    using s(1) unfolding cycleSummaryFromReadRow_def Let_def
    by (auto simp: rbind_eq_Inr split: option.splits if_splits prod.splits)
  then show "cs_ID (cycle_summary d c) = uuidString (pc_ID c)"
    and "cs_SequenceNumber (cycle_summary d c) = pc_SequenceNumber c"
    using s(1) by (simp_all add: cycle_summary_def cycle_summary_row_def Let_def)
qed

lemma validate_summaries_of_rows:
  assumes "\<forall>r\<in>set rows. validateCycleSummaries [r] = None" "sorted_wrt cycleSummaryFollows rows"
    and "\<forall>p. previous = Some p \<longrightarrow> (\<forall>r\<in>set rows. cycleSummaryFollows p r)"
  shows "validate_summaries_from previous rows = None"
  using assms
proof (induction rows arbitrary: previous)
  case (Cons r rows)
  have "validate_summaries_from None [r] = None" using Cons.prems(1) by (simp add: validateCycleSummaries_def)
  moreover have "validate_summaries_from (Some r) rows = None" using Cons by simp
  ultimately show ?case using Cons.prems(3) by (auto simp: or_else_def split: if_splits option.splits)
qed simp

lemma listed_cycles_sorted:
  assumes "store_unique_keys d"
  shows "sorted_wrt (\<lambda>a b. sint (pc_SequenceNumber b) < sint (pc_SequenceNumber a)) (listed_cycles userID goalID d)"
proof -
  define owned where "owned = filter (goal_cycle (Some userID) (Some goalID)) (db_pdca_cycles d)"
  have "sorted_wrt (\<lambda>a b. \<not> cycles_clash a b) owned"
    using assms by (auto simp: store_unique_keys_def no_clash_def owned_def intro: sorted_wrt_filter)
  then have "sorted_wrt (\<lambda>a b. pc_SequenceNumber a \<noteq> pc_SequenceNumber b) owned"
    by (rule sorted_wrt_mono_rel[rotated])
      (auto simp: owned_def goal_cycle_def cycles_clash_def sql_eq_def)
  then have "distinct (map pc_SequenceNumber owned)" by (induction owned) auto
  then have "distinct (map (\<lambda>c. - sint (pc_SequenceNumber c)) owned)"
    by (auto simp: distinct_map inj_on_def signed_word_eqI)
  moreover have "mset (map (\<lambda>c. - sint (pc_SequenceNumber c)) (listed_cycles userID goalID d)) =
      mset (map (\<lambda>c. - sint (pc_SequenceNumber c)) owned)"
    by (simp add: listed_cycles_def owned_def)
  ultimately have "distinct (map (\<lambda>c. - sint (pc_SequenceNumber c)) (listed_cycles userID goalID d))"
    using mset_eq_imp_distinct_iff by blast
  moreover have "sorted (map (\<lambda>c. - sint (pc_SequenceNumber c)) (listed_cycles userID goalID d))"
    by (simp add: listed_cycles_def cycle_order_def)
  ultimately have "sorted_wrt (<) (map (\<lambda>c. - sint (pc_SequenceNumber c)) (listed_cycles userID goalID d))"
    by (simp add: strict_sorted_iff)
  then show ?thesis by (simp add: sorted_wrt_map)
qed

text \<open>One page: the rows from position \<open>i\<close>, which the cursor of the row before it leads to.\<close>

definition cycle_keyset :: "PdcaCycleRow \<Rightarrow> CycleListKeyset" where
  "cycle_keyset c = \<lparr>clk_SequenceNumber = pc_SequenceNumber c, clk_CycleID = uuidString (pc_ID c)\<rparr>"

definition cycle_page :: "workspace_error + CyclePage \<Rightarrow> workspace_error + CycleSummary list \<times> string option" where
  "cycle_page r = (case r of Inl e \<Rightarrow> Inl e | Inr p \<Rightarrow> Inr (cp_Items p, cp_NextCursor p))"

definition cycle_position :: "(string \<Rightarrow> string \<Rightarrow> string) \<Rightarrow> string \<Rightarrow> string \<Rightarrow> PdcaCycleRow list \<Rightarrow> nat \<Rightarrow> string" where
  "cycle_position hmac key goalID rows i =
     (if i = 0 then [] else encodeCycleCursor hmac key goalID (cycle_keyset (rows ! (i - 1))))"

lemma listed_cycles_after:
  assumes "store_unique_keys d" "i \<le> length (listed_cycles userID goalID d)"
  shows "cycle_order (filter (\<lambda>c. goal_cycle (Some userID) (Some goalID) c \<and>
      cycle_after (if i = 0 then None
        else let c = listed_cycles userID goalID d ! (i - 1)
             in Some (pc_SequenceNumber c, Some (uuidString (pc_ID c)))) c) (db_pdca_cycles d)) =
    drop i (listed_cycles userID goalID d)"
proof -
  define rows where "rows = listed_cycles userID goalID d"
  define F where "F = (\<lambda>(a :: PdcaCycleRow) c. cycle_after (Some (pc_SequenceNumber a, Some (uuidString (pc_ID a)))) c)"
  have sorted: "sorted_wrt (\<lambda>a b. sint (pc_SequenceNumber b) < sint (pc_SequenceNumber a)) rows"
    using listed_cycles_sorted[OF assms(1)] by (simp add: rows_def)
  have commute: "cycle_order (filter (\<lambda>c. goal_cycle (Some userID) (Some goalID) c \<and> P c) (db_pdca_cycles d)) =
      filter P rows" for P
  proof -
    have "filter (\<lambda>c. goal_cycle (Some userID) (Some goalID) c \<and> P c) (db_pdca_cycles d) =
        filter P (filter (goal_cycle (Some userID) (Some goalID)) (db_pdca_cycles d))"
      by (simp add: conj_commute)
    then show ?thesis by (simp only: rows_def listed_cycles_def cycle_order_filter)
  qed
  show ?thesis
  proof (cases i)
    case 0
    have "filter (cycle_after None) rows = rows" by (simp add: cycle_after_def[abs_def])
    then show ?thesis using 0 commute[of "cycle_after None"] by (simp add: rows_def)
  next
    case (Suc j)
    have "filter (F (rows ! j)) rows = drop (Suc j) rows"
      by (rule filter_after_nth[OF sorted]) (use assms(2) Suc in \<open>auto simp: F_def cycle_after_def rows_def uuidString_def\<close>)
    then show ?thesis using Suc commute[of "F (rows ! j)"] by (simp add: F_def rows_def Let_def)
  qed
qed

lemma ListCycles_position:
  fixes limit :: int
  assumes scan: "\<forall>ident. IsCanonicalUUIDv7 ident \<longrightarrow> scan ident = Some ident" "scan userID = Some userID"
      "scan goalID = Some goalID"
    and cursors: "\<forall>c\<in>set (listed_cycles userID goalID d).
        length (hmac key (cycle_cursor_body goalID (cycle_keyset c))) = sha256_Size \<and>
        unmarshal (cycle_cursor_body goalID (cycle_keyset c)) = Some (cursor_payload goalID (cycle_keyset c))"
    and owner: "list_ex (owned_goal (Some goalID) (Some userID)) (db_goals d)"
    and keys: "store_unique_keys d" and listable: "\<forall>c\<in>set (listed_cycles userID goalID d). listable_cycle d c"
    and i: "i \<le> length (listed_cycles userID goalID d)"
  defines "rows \<equiv> listed_cycles userID goalID d" and "limit' \<equiv> nat (clamp_limit limit)"
  shows "cycle_page (ListCycles (store_CycleQueries scan d) hmac unmarshal key userID goalID
      (cycle_position hmac key goalID rows i) limit) =
    Inr (take limit' (drop i (map (cycle_summary d) rows)),
      if limit' < length rows - i then Some (cycle_position hmac key goalID rows (i + limit')) else None)"
proof -
  have range: "1 \<le> clamp_limit limit" "clamp_limit limit \<le> 50" using clamp_limit_range by auto
  have row: "listable_cycle d c" if "c \<in> set rows" for c using listable that by (simp add: rows_def)
  have canonical: "IsCanonicalUUIDv7 (uuidString (pc_ID c))" "0 < sint (pc_SequenceNumber c)" if "c \<in> set rows" for c
    using listable_summary(2-4)[OF row[OF that]]
    by (auto simp: validateCycleSummaries_def split: if_splits)
  define after where "after = (if i = 0 then None else Some (cycle_keyset (rows ! (i - 1))))"
  have member: "rows ! (i - 1) \<in> set rows" if "i \<noteq> 0" using that i by (simp add: rows_def)
  have decoded: "decodeCycleCursor hmac unmarshal key (cycle_position hmac key goalID rows i) goalID = Inr after"
  proof (cases "i = 0")
    case True
    then show ?thesis by (simp add: cycle_position_def after_def decodeCycleCursor_def)
  next
    case False
    have "decodeCycleCursor hmac unmarshal key (encodeCycleCursor hmac key goalID (cycle_keyset (rows ! (i - 1)))) goalID =
        Inr (Some (cycle_keyset (rows ! (i - 1))))"
      using cursors member[OF False] canonical[OF member[OF False]]
      by (intro decode_encode_cycle_cursor) (simp_all add: rows_def cycle_keyset_def)
    then show ?thesis using False by (simp add: cycle_position_def after_def)
  qed
  have fetched: "QueryCycleRows (store_CycleQueries scan d) \<lparr>clq_UserID = userID, clq_GoalID = goalID, clq_After = after,
      clq_FetchLimit = clamp_limit limit + 1\<rparr> = Inr (map (cycle_summary d) (take (Suc limit') (drop i rows)))"
  proof -
    have "sint (word_of_int (clamp_limit limit + 1) :: i32) = clamp_limit limit + 1"
      using range by (intro sint_of_small) simp_all
    then have "nat (sint (word_of_int (clamp_limit limit + 1) :: i32)) = Suc limit'"
      using range by (simp add: limit'_def)
    moreover have "map_rows cycleSummaryFromReadRow (map (cycle_summary_row d) xs) = Inr (map (cycle_summary d) xs)"
      if "set xs \<subseteq> set rows" for xs
      using that listable_summary(1)[OF row] by (induction xs) auto
    moreover have "set (take (Suc limit') (drop i rows)) \<subseteq> set rows"
      by (meson in_set_dropD in_set_takeD subsetI)
    ultimately show ?thesis
      using scan owner canonical(1)[OF member] listed_cycles_after[OF keys i]
      by (simp add: store_CycleQueries_def read_from_def store_QueryCycleRows_def mustUUID_def query_def tx_bind_def
          tx_return_def tx_lift_def sql_OwnedGoalExists_def sql_ListCycleSummaries_def after_def cycle_keyset_def
          rows_def Let_def split: if_splits)
  qed
  have n: "length (take (Suc limit') (drop i rows)) = min (Suc limit') (length rows - i)" by simp
  have valid: "validateCycleSummaries (map (cycle_summary d) (take (Suc limit') (drop i rows))) = None"
  proof -
    have "set (take (Suc limit') (drop i rows)) \<subseteq> set rows"
      by (meson in_set_dropD in_set_takeD subsetI)
    then have singles: "\<forall>r\<in>set (map (cycle_summary d) (take (Suc limit') (drop i rows))). validateCycleSummaries [r] = None"
      using listable_summary(2)[OF row] by auto
    have "sorted_wrt (\<lambda>a b. sint (pc_SequenceNumber b) < sint (pc_SequenceNumber a)) (take (Suc limit') (drop i rows))"
      using listed_cycles_sorted[OF keys] by (simp add: rows_def sorted_wrt_take sorted_wrt_drop)
    moreover have "cycleSummaryFollows (cycle_summary d x) (cycle_summary d y)"
      if "x \<in> set (take (Suc limit') (drop i rows))" "y \<in> set (take (Suc limit') (drop i rows))"
        "sint (pc_SequenceNumber y) < sint (pc_SequenceNumber x)" for x y
    proof -
      have "x \<in> set rows" "y \<in> set rows"
        using that(1,2) \<open>set (take (Suc limit') (drop i rows)) \<subseteq> set rows\<close> by blast+
      then show ?thesis
        using that(3) listable_summary(4)[OF row, of x] listable_summary(4)[OF row, of y]
        by (auto simp: cycleSummaryFollows_def)
    qed
    ultimately have "sorted_wrt cycleSummaryFollows (map (cycle_summary d) (take (Suc limit') (drop i rows)))"
      unfolding sorted_wrt_map by (rule sorted_wrt_mono_rel[rotated]) blast
    then show ?thesis using validate_summaries_of_rows[OF singles, of None] by (simp add: validateCycleSummaries_def)
  qed
  have final: "map (cycle_summary d) (take (Suc limit') (drop i rows)) ! (limit' - 1) =
      cycle_summary d (rows ! (i + limit' - 1))" "rows ! (i + limit' - 1) \<in> set rows"
    if "limit' < length rows - i"
    using that range by (simp_all add: limit'_def)
  have "int (length (take (Suc limit') (drop i rows))) > clamp_limit limit \<longleftrightarrow> limit' < length rows - i"
    using range by (auto simp: limit'_def)
  moreover have "\<not> int (length (take (Suc limit') (drop i rows))) > clamp_limit limit + 1"
    using range by (simp add: limit'_def)
  moreover have "0 < limit'" using range by (simp add: limit'_def)
  ultimately show ?thesis
    using decoded fetched valid final listable_summary(3,4)[OF row[OF final(2)]] range
    by (simp add: cycle_page_def ListCycles_def Let_def cycle_position_def cycle_keyset_def take_map drop_map
        min_def flip: limit'_def)
qed

text \<open>[C13] Paging through the Cycles of a Goal leaves nothing out and shows nothing twice: on a database
  that satisfies its keys and whose rows of the Goal are well formed, a client that follows the next
  cursors from the first page reaches the last page, and the pages together hold every Cycle of the
  Goal once, from the last to the first, whatever the page limit.  The scanner accepts the identifiers
  and the JSON decoder and the HMAC behave on the cursors of these rows.\<close>

theorem listing_shows_every_cycle_once:
  assumes "\<forall>ident. IsCanonicalUUIDv7 ident \<longrightarrow> scan ident = Some ident" "scan userID = Some userID"
      "scan goalID = Some goalID"
    and "\<forall>c\<in>set (listed_cycles userID goalID d).
        length (hmac key (cycle_cursor_body goalID (cycle_keyset c))) = sha256_Size \<and>
        unmarshal (cycle_cursor_body goalID (cycle_keyset c)) = Some (cursor_payload goalID (cycle_keyset c))"
    and "list_ex (owned_goal (Some goalID) (Some userID)) (db_goals d)"
    and "store_unique_keys d" and "\<forall>c\<in>set (listed_cycles userID goalID d). listable_cycle d c"
  shows "\<exists>items. follow_pages (Suc (length (db_pdca_cycles d)))
      (\<lambda>cursor. cycle_page (ListCycles (store_CycleQueries scan d) hmac unmarshal key userID goalID cursor limit)) [] =
      Some (Inr items) \<and>
    mset (map cs_ID items) = mset (map (\<lambda>c. uuidString (pc_ID c))
      (filter (goal_cycle (Some userID) (Some goalID)) (db_pdca_cycles d))) \<and>
    sorted_wrt (\<lambda>a b. sint (cs_SequenceNumber b) < sint (cs_SequenceNumber a)) items"
proof -
  define rows where "rows = listed_cycles userID goalID d"
  define items where "items = map (cycle_summary d) rows"
  have "0 < nat (clamp_limit limit)" using clamp_limit_range[of limit] by simp
  moreover have "length items - 0 < Suc (length (db_pdca_cycles d))"
    using length_filter_le[of "goal_cycle (Some userID) (Some goalID)" "db_pdca_cycles d"]
    by (simp add: items_def rows_def listed_cycles_def cycle_order_def less_Suc_eq_le)
  ultimately have "follow_pages (Suc (length (db_pdca_cycles d)))
      (\<lambda>cursor. cycle_page (ListCycles (store_CycleQueries scan d) hmac unmarshal key userID goalID cursor limit))
      (cycle_position hmac key goalID rows 0) = Some (Inr (drop 0 items))"
    using ListCycles_position[where scan = scan and userID = userID and goalID = goalID and hmac = hmac and key = key
        and unmarshal = unmarshal and d = d and limit = limit, OF assms]
    by (intro follow_pages_all[where limit = "nat (clamp_limit limit)"]) (simp_all add: items_def rows_def)
  moreover have "map cs_ID items = map (\<lambda>c. uuidString (pc_ID c)) rows"
    using assms(7) by (simp add: items_def rows_def listable_summary(3))
  then have "mset (map cs_ID items) = mset (map (\<lambda>c. uuidString (pc_ID c))
      (filter (goal_cycle (Some userID) (Some goalID)) (db_pdca_cycles d)))"
    by (simp add: rows_def listed_cycles_def)
  moreover have "sorted_wrt (\<lambda>a b. sint (cs_SequenceNumber b) < sint (cs_SequenceNumber a)) items"
    unfolding items_def sorted_wrt_map
    by (rule sorted_wrt_mono_rel[OF _ listed_cycles_sorted[OF assms(6), of userID goalID, folded rows_def]])
      (use assms(7) in \<open>simp add: rows_def listable_summary(4)\<close>)
  ultimately show ?thesis by (simp add: cycle_position_def)
qed

text \<open>Two Cycles, one canceled and its successor, in pages of one.\<close>

definition sample_mac :: "string \<Rightarrow> string \<Rightarrow> string" where
  "sample_mac k m = replicate 32 (CHR ''m'')"

definition sample_canceled_row :: PdcaCycleRow where
  "sample_canceled_row = sample_cycle_row\<lparr>pc_Status := ''canceled'', pc_CanceledAt := sample_stamp,
     pc_CancellationReason := Some ''replanned''\<rparr>"

definition sample_unmarshal :: "string \<Rightarrow> cycleCursorPayload option" where
  "sample_unmarshal body =
     (if body = cycle_cursor_body ''b'' (cycle_keyset sample_canceled_row)
      then Some (cursor_payload ''b'' (cycle_keyset sample_canceled_row))
      else Some (cursor_payload ''b'' (cycle_keyset sample_successor_row)))"

lemma sample_listed_cycles:
  "listed_cycles ''a'' ''b'' sample_replanned_database = [sample_successor_row, sample_canceled_row]"
  by (simp add: listed_cycles_def goal_cycle_def sql_eq_def cycle_order_def sample_replanned_database_def
      sample_successor_row_def sample_canceled_row_def sample_cycle_row_def sample_cycle_id_def sample_uuid_def
      uuidString_def)

lemma sample_decimals: "decimal_int 2 = ''2''" "decimal_int 1 = ''1''"
  by code_simp+

lemma sample_keysets:
  "cycle_cursor_body ''b'' (cycle_keyset sample_successor_row) \<noteq> cycle_cursor_body ''b'' (cycle_keyset sample_canceled_row)"
  by (simp add: cycle_cursor_body_def cycle_keyset_def sample_successor_row_def sample_canceled_row_def
      sample_cycle_row_def uuidString_def sample_uuid_nonempty sample_cycle_id_simps json_marshal_def sample_decimals)

lemma sample_previews:
  "sql_char_length ''p'' = 1" "sql_char_length ''c'' = 1" "sql_char_length ''a'' = 1" "sql_char_length [] = 0"
  "sql_left ''c'' 120 = ''c''" "sql_left ''a'' 120 = ''a''"
  by code_simp+

definition sample_successor_columns :: ListCycleSummariesRow where
  "sample_successor_columns =
     \<lparr>ls_CycleID = Some sample_uuid, ls_SequenceNumber = 2, ls_Status = StatusActive, ls_StartedAt = sample_stamp,
      ls_CompletedAt = null_Timestamptz, ls_CanceledAt = null_Timestamptz, ls_CancellationReason = None,
      ls_GoalVersionID = Some sample_uuid, ls_GoalVersionNumber = Some 1, ls_GoalVersionBody = ''goal'',
      ls_GoalVersionSuccessSignal = [], ls_GoalVersionCreatedAt = sample_stamp, ls_PlanPreview = [],
      ls_CheckPreview = [], ls_CheckPreviewTruncated = False, ls_ActionPreview = [],
      ls_ActionPreviewTruncated = False\<rparr>"

definition sample_canceled_columns :: ListCycleSummariesRow where
  "sample_canceled_columns = sample_successor_columns
     \<lparr>ls_CycleID := Some sample_cycle_id, ls_SequenceNumber := 1, ls_Status := StatusCanceled,
      ls_CanceledAt := sample_stamp, ls_CancellationReason := Some CancellationReplanned, ls_PlanPreview := ''p'',
      ls_CheckPreview := ''c'', ls_ActionPreview := ''a''\<rparr>"

lemma sample_columns:
  "cycle_summary_row sample_replanned_database sample_successor_row = sample_successor_columns"
  "cycle_summary_row sample_replanned_database sample_canceled_row = sample_canceled_columns"
  by (simp_all add: cycle_summary_row_def sample_replanned_database_def sample_successor_columns_def
      sample_canceled_columns_def sample_successor_row_def sample_canceled_row_def sample_cycle_row_def
      version_columns_def version_by_id_def sample_database_def sql_eq_def signal_of_def sample_previews Let_def)

lemmas run_summary = cycleSummaryFromReadRow_def validateCycleSummaries_def validateCycleSummaryStatusTimes_def
  validateCycleSummaryPreviews_def validateCycleGoalVersion_def cycleLearningPreviewFromSQLC_def
  validCycleFramePreview_def rune_count_def IsValidCancellationReason_def CycleSummaryPreviewMaxCodePoints_def

lemma sample_listable:
  "listable_cycle sample_replanned_database sample_successor_row"
  "listable_cycle sample_replanned_database sample_canceled_row"
  unfolding listable_cycle_def sample_columns
  by (simp_all add: sample_successor_columns_def sample_canceled_columns_def run_summary run_rows run_checks run_sample
      cong: rbind_weak del: rbind_eq_Inr)

theorem listing_shows_every_cycle_once_witness:
  "\<exists>items. follow_pages 3 (\<lambda>cursor. cycle_page (ListCycles (store_CycleQueries Some sample_replanned_database)
      sample_mac sample_unmarshal ''k'' ''a'' ''b'' cursor 1)) [] = Some (Inr items) \<and>
    mset (map cs_ID items) = {#sample_uuid, sample_cycle_id#}"
proof -
  have "\<forall>c\<in>set (listed_cycles ''a'' ''b'' sample_replanned_database).
      length (sample_mac ''k'' (cycle_cursor_body ''b'' (cycle_keyset c))) = sha256_Size \<and>
      sample_unmarshal (cycle_cursor_body ''b'' (cycle_keyset c)) = Some (cursor_payload ''b'' (cycle_keyset c))"
    using sample_keysets by (simp add: sample_listed_cycles sample_mac_def sha256_Size_def sample_unmarshal_def)
  moreover have "list_ex (owned_goal (Some ''b'') (Some ''a'')) (db_goals sample_replanned_database)"
    by (simp add: sample_replanned_database_def sample_goal_row_def owned_goal_def sql_eq_def)
  moreover have "store_unique_keys sample_replanned_database"
    by (simp add: store_unique_keys_def no_clash_def goals_clash_def cycles_clash_def sample_replanned_database_def
        sample_successor_row_def run_sample)
  moreover have "\<forall>c\<in>set (listed_cycles ''a'' ''b'' sample_replanned_database). listable_cycle sample_replanned_database c"
    by (simp add: sample_listed_cycles sample_listable)
  moreover have "length (db_pdca_cycles sample_replanned_database) = 2"
    "filter (goal_cycle (Some ''a'') (Some ''b'')) (db_pdca_cycles sample_replanned_database) =
       [sample_canceled_row, sample_successor_row]"
    by (simp_all add: sample_replanned_database_def sample_canceled_row_def sample_successor_row_def sample_cycle_row_def
        goal_cycle_def sql_eq_def)
  ultimately show ?thesis
    using listing_shows_every_cycle_once[of Some "''a''" "''b''" sample_replanned_database sample_mac "''k''"
        sample_unmarshal 1]
    by (simp add: sample_canceled_row_def sample_successor_row_def sample_cycle_row_def uuidString_def
        numeral_3_eq_3 add_mset_commute) blast
qed

end
