(* ===== verification/ReviewContract.thy ===== *)
theory ReviewContract
  imports CycleContract ReviewTransitions
begin

section \<open>The contract of the review transitions\<close>

text \<open>
  What continuing a review and terminating a Goal rely on: which operations of the transaction only
  read, that a receipt is found under the key it was recorded for, and that the write that records
  the key of a request is not undone by the writes after it.  \<open>ReviewRuns\<close> interprets the locale on the
  PostgreSQL adapter.
\<close>

lemma keeps_case_prod: "(\<And>a b. keeps f (g a b)) \<Longrightarrow> keeps f (case p of (a, b) \<Rightarrow> g a b)"
  by (cases p) simp

lemma ensures_prod: "(\<And>a b. p = (a, b) \<Longrightarrow> ensures P (g a b)) \<Longrightarrow> ensures P (case p of (a, b) \<Rightarrow> g a b)"
  by (cases p) simp

text \<open>As \<open>ensures_cas\<close> and \<open>ensures_claim\<close>, with the error of the review transitions.\<close>

lemma review_rows_ok: "requireReviewTransitionRows message rows expected = None \<longleftrightarrow> rows = expected"
  by (simp add: requireReviewTransitionRows_def)

lemma ensures_review_cas:
  assumes "\<And>s t. m s = Inr (1, t) \<Longrightarrow> P t" "\<And>r. keeps P (g r)"
  shows "ensures P (tx_bind m (\<lambda>rows. tx_bind (tx_check (requireReviewTransitionRows message rows 1)) g))"
proof (unfold ensures_def, intro allI impI)
  fix s x t
  assume "tx_bind m (\<lambda>rows. tx_bind (tx_check (requireReviewTransitionRows message rows 1)) g) s = Inr (x, t)"
  then obtain s' where m: "m s = Inr (1, s')" and g: "g () s' = Inr (x, t)"
    by (auto simp: review_rows_ok)
  show "P t" using assms(1)[OF m] keepsD[OF assms(2) g] by simp
qed

lemma ensures_review_claim:
  assumes "\<And>s t. m s = Inr (1, t) \<Longrightarrow> P t" "\<And>r. keeps P (g r)" "ensures P lost"
  shows "ensures P (tx_bind m (\<lambda>rows. if rows = 0 then lost
           else tx_bind (tx_check (requireReviewTransitionRows message rows 1)) g))"
proof (unfold ensures_def, intro allI impI)
  fix s x t
  assume "tx_bind m (\<lambda>rows. if rows = 0 then lost
            else tx_bind (tx_check (requireReviewTransitionRows message rows 1)) g) s = Inr (x, t)"
  then obtain rows s' where "m s = Inr (rows, s')"
      "rows = 0 \<and> lost s' = Inr (x, t) \<or> rows = 1 \<and> g () s' = Inr (x, t)"
    by (auto simp: review_rows_ok split: if_splits)
  then show "P t" using assms(1) keepsD[OF assms(2)] ensuresD[OF assms(3)] by metis
qed

subsection \<open>The domain keeps the operation\<close>

lemma ContinueReview_claims:
  "ContinueReview current version draft versionID cycleID op h now = Inr continued \<Longrightarrow>
     cy_UserID (co_Cycle continued) = go_UserID current \<and> cy_StartOperationID (co_Cycle continued) = op \<and>
     cy_StartRequestHash (co_Cycle continued) = h"
  by (auto simp: ContinueReview_def Let_def cycle_New_def split: if_splits)

lemma Terminate_claims:
  "Terminate current result op h now = Inr terminated \<Longrightarrow>
     go_UserID terminated = go_UserID current \<and> go_TerminalOperationID terminated = Some op \<and>
     go_TerminalRequestHash terminated = Some h"
  by (auto simp: Terminate_def Let_def split: if_splits)

subsection \<open>The laws\<close>

locale review_tx_laws =
  fixes tx :: "'s ReviewTransitionTx"
    and contents :: "'s \<Rightarrow> 'd"
    and claim :: "'d \<Rightarrow> string \<Rightarrow> string \<Rightarrow> string option"
    and termination_key :: "'d \<Rightarrow> string \<Rightarrow> string \<Rightarrow> string option"
  assumes reads:
      "keeps contents (rt_FindContinueReviewReceipt tx u op)"
      "keeps contents (rt_FindGoalTerminationReceipt tx u op)"
      "keeps contents (rt_LockUser tx u)"
      "keeps contents (rt_LockGoal tx u g)"
      "keeps contents (rt_LockCycle tx u g c)"
      "keeps contents (rt_LockReviewDraft tx u g)"
      "keeps contents (rt_LoadCurrentGoalVersion tx u g n)"
      "keeps contents (rt_HasRunningGoalGeneration tx u g)"
      "keeps contents (rt_LockDraftGenerations tx u draftID)"
      "keeps contents (rt_LockDraftUsages tx u ids)"
      "keeps contents (rt_LoadGoalView tx u g)"
      "keeps contents (rt_LoadCycleView tx u g c)"
    and claim_found:
      "rt_FindContinueReviewReceipt tx u op s = Inr (receipt, t) \<Longrightarrow>
       map_option crv_RequestHash receipt = claim (contents s) u op"
    and claim_recorded:
      "rt_TryInsertReviewCycleClaim tx cycle s = Inr (1, t) \<Longrightarrow>
       claim (contents t) (cy_UserID cycle) (cy_StartOperationID cycle) = Some (cy_StartRequestHash cycle)"
    and claim_kept:
      "keeps (\<lambda>s. claim (contents s)) (rt_ContinueGoalCAS tx goal e)"
      "keeps (\<lambda>s. claim (contents s)) (rt_AttachDraftGenerations tx u draftID ids g v)"
      "keeps (\<lambda>s. claim (contents s)) (rt_AttachUsageToGoal tx u ids g)"
      "keeps (\<lambda>s. claim (contents s)) (rt_DeleteReviewDraftCAS tx u draftID e)"
    and termination_found:
      "rt_FindGoalTerminationReceipt tx u op s = Inr (receipt', t) \<Longrightarrow>
       map_option gtr_RequestHash receipt' = termination_key (contents s) u op"
    and termination_recorded:
      "rt_TerminateGoalCAS tx goal e s = Inr (1, t) \<Longrightarrow> go_TerminalOperationID goal = Some op \<Longrightarrow>
       termination_key (contents t) (go_UserID goal) op = go_TerminalRequestHash goal"
begin

lemma reads_of: "keeps contents m \<Longrightarrow> keeps (\<lambda>s. f (contents s)) m"
  by (rule keeps_of)

lemmas reads_keep [keeps_intros] = reads reads[THEN reads_of]

lemma continue_locked_records:
  assumes "go_UserID lockedGoal = cri_UserID input"
  shows "ensures (\<lambda>t. claim (contents t) (cri_UserID input) (cri_OperationID input) = Some requestHash)
    (continue_locked tx now newVersionID newCycleID requestHash input lockedGoal)"
proof -
  let ?P = "\<lambda>t. claim (contents t) (cri_UserID input) (cri_OperationID input) = Some requestHash"
  have kept: "keeps ?P (rt_ContinueGoalCAS tx goal e)" "keeps ?P (rt_AttachDraftGenerations tx u draftID ids g v)"
    "keeps ?P (rt_AttachUsageToGoal tx u ids g)" "keeps ?P (rt_DeleteReviewDraftCAS tx u draftID e)"
    for goal e u draftID ids g v
    by (rule claim_kept[THEN keeps_of])+
  have lost: "ensures ?P (classifyLostContinueReviewClaim tx input requestHash)"
    unfolding classifyLostContinueReviewClaim_def by (intro ensures_intros ensures_bind)
  show ?thesis unfolding continue_locked_def continue_writes_def
    by (intro ensures_intros ensures_bind ensures_prod ensures_review_claim keeps_intros kept lost)
      (auto dest!: ContinueReview_claims claim_recorded simp: assms)
qed

lemma continue_replay:
  assumes "buildContinueReviewReplay tx input receipt s = Inr (result, t)"
  shows "contents t = contents s \<and> crr_Replayed result"
proof
  have "keeps contents (buildContinueReviewReplay tx input receipt)"
    unfolding buildContinueReviewReplay_def by (intro keeps_intros)
  from keepsD[OF this assms] show "contents t = contents s" .
  show "crr_Replayed result" using assms by (auto simp: buildContinueReviewReplay_def split: if_splits)
qed

lemma termination_replay:
  assumes "buildGoalTerminationReplay tx input receipt s = Inr (result, t)"
  shows "contents t = contents s \<and> tr_Replayed result"
proof
  have "keeps contents (buildGoalTerminationReplay tx input receipt)"
    unfolding buildGoalTerminationReplay_def by (intro keeps_intros)
  from keepsD[OF this assms] show "contents t = contents s" .
  show "tr_Replayed result" using assms by (auto simp: buildGoalTerminationReplay_def Let_def split: if_splits)
qed

lemma ContinueReview_key:
  assumes run: "uc_ContinueReview tx sha256 now newVersionID newCycleID input s = Inr (result, t)"
  shows "claim (contents t) (cri_UserID input) (cri_OperationID input) =
      Some (continueReviewRequestHash sha256 input)"
    and "claim (contents s) (cri_UserID input) (cri_OperationID input) = Some h \<Longrightarrow>
      contents t = contents s \<and> h = continueReviewRequestHash sha256 input \<and> crr_Replayed result"
proof -
  let ?u = "cri_UserID input" and ?op = "cri_OperationID input"
  let ?h = "continueReviewRequestHash sha256 input"
  from run obtain r0 s1 g s2 where
    r0: "rt_FindContinueReviewReceipt tx ?u ?op s = Inr (r0, s1)" and
    ok0: "validateContinueReviewReceipt r0 input ?h = None" and
    g: "rt_LockGoal tx ?u (cri_GoalID input) s1 = Inr (g, s2)" and
    gu: "go_UserID g = ?u" and
    rest0: "(case r0 of Some r \<Rightarrow> buildContinueReviewReplay tx input r
      | None \<Rightarrow> tx_bind (rt_FindContinueReviewReceipt tx ?u ?op) (\<lambda>receipt.
          tx_bind (tx_check (validateContinueReviewReceipt receipt input ?h)) (\<lambda>_.
          case receipt of Some r \<Rightarrow> buildContinueReviewReplay tx input r
          | None \<Rightarrow> continue_locked tx now newVersionID newCycleID ?h input g))) s2 = Inr (result, t)"
    by (auto simp: uc_ContinueReview_def Let_def split: if_splits)
  have same: "contents s1 = contents s" "contents s2 = contents s"
    using keepsD[OF reads(1) r0] keepsD[OF reads(4) g] by simp_all
  have found: "map_option crv_RequestHash r0 = claim (contents s) ?u ?op" by (rule claim_found[OF r0])
  have "claim (contents t) ?u ?op = Some ?h \<and>
    (claim (contents s) ?u ?op \<noteq> None \<longrightarrow>
       contents t = contents s \<and> claim (contents s) ?u ?op = Some ?h \<and> crr_Replayed result)"
  proof (cases r0)
    case None
    with rest0 obtain receipt s3 where
      r: "rt_FindContinueReviewReceipt tx ?u ?op s2 = Inr (receipt, s3)" and
      rest: "(case receipt of Some r \<Rightarrow> buildContinueReviewReplay tx input r
            | None \<Rightarrow> continue_locked tx now newVersionID newCycleID ?h input g) s3 = Inr (result, t)"
      by auto
    have "receipt = None" using claim_found[OF r] found None same by simp
    then show ?thesis using rest ensuresD[OF continue_locked_records[OF gu]] found None by auto
  next
    case (Some rec)
    with rest0 have replay: "buildContinueReviewReplay tx input rec s2 = Inr (result, t)" by simp
    have "crv_RequestHash rec = ?h"
      using ok0 Some by (auto simp: validateContinueReviewReceipt_def split: if_splits)
    then show ?thesis using continue_replay[OF replay] found Some same by auto
  qed
  then show "claim (contents t) ?u ?op = Some ?h"
    and "claim (contents s) ?u ?op = Some h \<Longrightarrow> contents t = contents s \<and> h = ?h \<and> crr_Replayed result" by auto
qed

lemma terminate_active_records:
  assumes "go_UserID lockedGoal = ti_UserID input"
  shows "ensures (\<lambda>t. termination_key (contents t) (ti_UserID input) (ti_OperationID input) = Some requestHash)
    (terminateActiveCycle tx now input requestHash lockedGoal)"
  unfolding terminateActiveCycle_def Let_def
  by (intro ensures_intros ensures_bind ensures_review_cas keeps_intros)
    (auto dest!: Terminate_claims termination_recorded simp: assms)

lemma terminate_review_records:
  assumes "go_UserID lockedGoal = ti_UserID input"
  shows "ensures (\<lambda>t. termination_key (contents t) (ti_UserID input) (ti_OperationID input) = Some requestHash)
    (terminateGoalReview tx now input requestHash lockedGoal)"
  unfolding terminateGoalReview_def terminate_review_writes_def Let_def
  by (intro ensures_intros ensures_bind ensures_prod ensures_review_cas keeps_intros)
    (auto dest!: Terminate_claims termination_recorded simp: assms)

lemma Terminate_key:
  assumes run: "uc_Terminate tx sha256 now input s = Inr (result, t)"
  shows "termination_key (contents t) (ti_UserID input) (ti_OperationID input) =
      Some (terminateRequestHash sha256 input)"
    and "termination_key (contents s) (ti_UserID input) (ti_OperationID input) = Some h \<Longrightarrow>
      contents t = contents s \<and> h = terminateRequestHash sha256 input \<and> tr_Replayed result"
proof -
  let ?u = "ti_UserID input" and ?op = "ti_OperationID input"
  let ?h = "terminateRequestHash sha256 input"
  from run obtain s1 receipt s2 g s3 where
    l: "rt_LockUser tx ?u s = Inr ((), s1)" and
    r: "rt_FindGoalTerminationReceipt tx ?u ?op s1 = Inr (receipt, s2)" and
    ok: "validateGoalTerminationReceipt receipt input ?h = None" and
    g: "rt_LockGoal tx ?u (ti_GoalID input) s2 = Inr (g, s3)" and
    gu: "go_UserID g = ?u" and
    rest: "(case receipt of Some r \<Rightarrow> buildGoalTerminationReplay tx input r
      | None \<Rightarrow>
          if go_Status g = StatusAchieved \<or> go_Status g = StatusEnded then tx_fail ErrGoalAlreadyTerminal
          else if go_Status g \<noteq> ti_ExpectedState input then tx_fail ErrGoalStateConflict
          else if go_Status g = StatusActiveCycle then terminateActiveCycle tx now input ?h g
          else if go_Status g = StatusGoalReview then terminateGoalReview tx now input ?h g
          else tx_fail ErrGoalStateConflict) s3 = Inr (result, t)"
    by (auto simp: uc_Terminate_def Let_def split: option.splits if_splits)
  have same: "contents s1 = contents s" "contents s3 = contents s"
    using keepsD[OF reads(3) l] keepsD[OF reads(2) r] keepsD[OF reads(4) g] by simp_all
  have found: "map_option gtr_RequestHash receipt = termination_key (contents s) ?u ?op"
    using termination_found[OF r] same by simp
  have "termination_key (contents t) ?u ?op = Some ?h \<and>
    (termination_key (contents s) ?u ?op \<noteq> None \<longrightarrow>
       contents t = contents s \<and> termination_key (contents s) ?u ?op = Some ?h \<and> tr_Replayed result)"
  proof (cases receipt)
    case None
    then show ?thesis
      using rest found ensuresD[OF terminate_active_records[OF gu]] ensuresD[OF terminate_review_records[OF gu]]
      by (auto split: if_splits)
  next
    case (Some rec)
    with rest have replay: "buildGoalTerminationReplay tx input rec s3 = Inr (result, t)" by simp
    have "gtr_RequestHash rec = ?h"
      using ok Some by (auto simp: validateGoalTerminationReceipt_def split: if_splits)
    then show ?thesis using termination_replay[OF replay] found Some same by auto
  qed
  then show "termination_key (contents t) ?u ?op = Some ?h"
    and "termination_key (contents s) ?u ?op = Some h \<Longrightarrow>
      contents t = contents s \<and> h = ?h \<and> tr_Replayed result" by auto
qed

end

end
