(* ===== verification/AIGenerationStore.thy ===== *)
theory AIGenerationStore
  imports AIStore
begin

section \<open>Generations in the PostgreSQL adapter\<close>

text \<open>
  The statements on \<open>ai_generations\<close> of \<open>workspace_goal_draft_uow.go\<close> and
  \<open>workspace_action_ai_uow.go\<close>, with the mappings of their rows.  The unique keys of the table are
  its id, the idempotency key of an operation of a User, and one running generation per Goal draft
  and per Cycle; \<open>isUniqueViolation\<close> turns their violation into \<open>ErrAIInProgress\<close>.  The adapter notes
  which generation it locked; in the content mode modelled nothing reads the note.
\<close>

subsection \<open>Validation of rows\<close>

definition validAIGenerationStatus :: "string \<Rightarrow> bool" where
  "validAIGenerationStatus status \<longleftrightarrow> status = ''running'' \<or> status = ''succeeded'' \<or> status = ''failed''"

definition validAIOperation :: "operation_type \<Rightarrow> bool" where
  "validAIOperation operation \<longleftrightarrow>
     operation = OperationGoalRefine \<or> operation = OperationActionGenerate \<or>
     operation = OperationActionRefine"

definition requireActionOperation :: "operation_type \<Rightarrow> workspace_error option" where
  "requireActionOperation operation =
     (if operation = OperationActionGenerate \<or> operation = OperationActionRefine then None
      else Some (ErrActionAIPersistenceInvariant (''unsupported Action AI operation '' @ operation)))"

definition optionalAIUUID :: "pgUUID \<Rightarrow> string option" where
  "optionalAIUUID value =
     (case value of
        None \<Rightarrow> Some []
      | Some _ \<Rightarrow> let result = uuidString value in if result = [] then None else Some result)"

definition nullableAITimestamptz :: "gotime option \<Rightarrow> pgTimestamptz" where
  "nullableAITimestamptz value =
     (case value of None \<Rightarrow> null_Timestamptz | Some t \<Rightarrow> timestamptz t)"

text \<open>\<open>COALESCE(text, '')\<close> and \<open>NULLIF(text, '')\<close>.\<close>

definition coalesced :: "string option \<Rightarrow> string" where
  "coalesced value = (case value of None \<Rightarrow> [] | Some v \<Rightarrow> v)"

subsection \<open>The generations of a draft\<close>

definition draft_generation :: "pgUUID \<Rightarrow> pgUUID \<Rightarrow> GenerationRow \<Rightarrow> bool" where
  "draft_generation user_id draft_id g \<longleftrightarrow>
     sql_eq (ge_UserID g) user_id \<and> sql_eq (ge_SourceGoalDraftID g) draft_id"

definition draftGenerationFromSQLC :: "GenerationRow \<Rightarrow> workspace_error + DraftGenerationState" where
  "draftGenerationFromSQLC row =
     (let ident = uuidString (ge_ID row) in
      if ident = [] \<or> \<not> validAIGenerationStatus (ge_Status row)
      then Inl (aiAdapterPersistenceError ''locked Draft Generation state is invalid'')
      else Inr \<lparr>dgs_ID = ident, dgs_Status = ge_Status row\<rparr>)"

definition gdt_LockDraftGenerations ::
  "(string \<Rightarrow> string option) \<Rightarrow> string \<Rightarrow> string \<Rightarrow> ('z, DraftGenerationState list) ai_tx" where
  "gdt_LockDraftGenerations scan userID draftID =
     tx_bind (mustUUID scan userID) (\<lambda>user_id.
     tx_bind (mustUUID scan draftID) (\<lambda>draft_id.
     tx_bind (fetch (\<lambda>d. sort_key (\<lambda>g. uuidString (ge_ID g))
                (filter (draft_generation user_id draft_id) (db_ai_generations d)))) (\<lambda>rows.
     tx_lift (map_rows draftGenerationFromSQLC rows))))"

definition gdt_DeleteDraftGenerationsCAS ::
  "(string \<Rightarrow> string option) \<Rightarrow> string \<Rightarrow> string \<Rightarrow> string list \<Rightarrow> ('z, i64) ai_tx" where
  "gdt_DeleteDraftGenerationsCAS scan userID draftID generationIDs =
     (if generationIDs = [] then tx_return 0
      else
        tx_bind (mustUUID scan userID) (\<lambda>user_id.
        tx_bind (mustUUID scan draftID) (\<lambda>draft_id.
        tx_bind (uuid_array scan generationIDs) (\<lambda>generation_ids.
        execute (\<lambda>d.
          let selected = (\<lambda>g. draft_generation user_id draft_id g \<and>
                list_ex (sql_eq (ge_ID g)) generation_ids \<and> ge_Status g \<noteq> ''running'') in
          Inr (of_nat (length (filter selected (db_ai_generations d))),
               d\<lparr>db_ai_generations := filter (\<lambda>g. \<not> selected g) (db_ai_generations d)\<rparr>))))))"

definition gdt_AttachDraftGenerations ::
  "(string \<Rightarrow> string option) \<Rightarrow> string \<Rightarrow> string \<Rightarrow> string list \<Rightarrow> string \<Rightarrow> string \<Rightarrow> ('z, i64) ai_tx" where
  "gdt_AttachDraftGenerations scan userID draftID generationIDs goalID versionID =
     (if generationIDs = [] then tx_return 0
      else
        tx_bind (mustUUID scan goalID) (\<lambda>goal_id.
        tx_bind (mustUUID scan versionID) (\<lambda>version_id.
        tx_bind (mustUUID scan userID) (\<lambda>user_id.
        tx_bind (mustUUID scan draftID) (\<lambda>draft_id.
        tx_bind (uuid_array scan generationIDs) (\<lambda>generation_ids.
        execute (update_generations
          (\<lambda>g. draft_generation user_id draft_id g \<and> list_ex (sql_eq (ge_ID g)) generation_ids)
          (\<lambda>g. g\<lparr>ge_SourceGoalDraftID := None, ge_GoalID := goal_id,
                ge_GoalVersionID := version_id\<rparr>))))))))"

definition gdt_HasRunningDraftGeneration ::
  "(string \<Rightarrow> string option) \<Rightarrow> string \<Rightarrow> ('z, bool) ai_tx" where
  "gdt_HasRunningDraftGeneration scan draftID =
     tx_bind (mustUUID scan draftID) (\<lambda>draft_id.
     fetch (\<lambda>d. list_ex (\<lambda>g. sql_eq (ge_SourceGoalDraftID g) draft_id \<and> ge_Status g = ''running'')
       (db_ai_generations d)))"

subsection \<open>Expired generations\<close>

definition expiredGenerationFromSQLC :: "GenerationRow \<Rightarrow> workspace_error + ExpiredGeneration" where
  "expiredGenerationFromSQLC row =
     (let ident = uuidString (ge_ID row); reserved = numeric_text (ge_BudgetReservedCostUSD row) in
      case finiteGoalDeleteTimestamptz (ge_BudgetMonthUtc row) of
        None \<Rightarrow> Inl (aiAdapterPersistenceError ''expired Generation state is invalid'')
      | Some month \<Rightarrow>
          if ident = [] \<or> time_is_zero month \<or> reserved = []
          then Inl (aiAdapterPersistenceError ''expired Generation state is invalid'')
          else Inr \<lparr>eg_ID = ident, eg_BudgetMonthUtc = month, eg_ReservedCostUSD = reserved\<rparr>)"

definition gdt_LockExpiredGenerations ::
  "(string \<Rightarrow> string option) \<Rightarrow> string \<Rightarrow> gotime \<Rightarrow> ('z, ExpiredGeneration list) ai_tx" where
  "gdt_LockExpiredGenerations scan userID now =
     tx_bind (mustUUID scan userID) (\<lambda>user_id.
     tx_bind (fetch (\<lambda>d. sort_key (\<lambda>g. uuidString (ge_ID g))
                (filter (\<lambda>g. sql_eq (ge_UserID g) user_id \<and> ge_Status g = ''running'' \<and>
                   tz_le (ge_LeaseExpiresAt g) (stored_at now)) (db_ai_generations d)))) (\<lambda>rows.
     tx_lift (map_rows expiredGenerationFromSQLC rows)))"

text \<open>\<open>GROUP BY\<close> the month, in its order, without the sums that are not positive.\<close>

definition reservations_by_month :: "GenerationRow list \<Rightarrow> (pgTimestamptz \<times> rat) list" where
  "reservations_by_month rows =
     filter (\<lambda>(_, amount). amount > 0)
       (map (\<lambda>month. (month, sum_list (map ge_BudgetReservedCostUSD
                                        (filter (\<lambda>g. ge_BudgetMonthUtc g = month) rows))))
         (remdups (sort_key (\<lambda>month. nanos (tz_Time month)) (map ge_BudgetMonthUtc rows))))"

definition monthlyReservationFromSQLC :: "pgTimestamptz \<times> rat \<Rightarrow> workspace_error + MonthlyReservation" where
  "monthlyReservationFromSQLC row =
     (let amount = numeric_text (snd row) in
      case finiteGoalDeleteTimestamptz (fst row) of
        None \<Rightarrow> Inl (aiAdapterPersistenceError ''monthly AI reservation state is invalid'')
      | Some month \<Rightarrow>
          if time_is_zero month \<or> amount = []
          then Inl (aiAdapterPersistenceError ''monthly AI reservation state is invalid'')
          else Inr \<lparr>mr_MonthUtc = month, mr_AmountUSD = amount\<rparr>)"

definition gdt_SumLockedReservationsByMonth ::
  "(string \<Rightarrow> string option) \<Rightarrow> string list \<Rightarrow> ('z, MonthlyReservation list) ai_tx" where
  "gdt_SumLockedReservationsByMonth scan generationIDs =
     (if generationIDs = [] then tx_return []
      else
        tx_bind (uuid_array scan generationIDs) (\<lambda>generation_ids.
        tx_bind (fetch (\<lambda>d. reservations_by_month
                   (filter (\<lambda>g. list_ex (sql_eq (ge_ID g)) generation_ids \<and> ge_Status g = ''running'')
                     (db_ai_generations d)))) (\<lambda>rows.
        tx_lift (map_rows monthlyReservationFromSQLC rows))))"

text \<open>The generation a statement settles: running, with the reservation it expects.\<close>

definition open_generation :: "pgUUID \<Rightarrow> rat \<Rightarrow> GenerationRow \<Rightarrow> bool" where
  "open_generation generation_id reservation g \<longleftrightarrow>
     sql_eq (ge_ID g) generation_id \<and> ge_Status g = ''running'' \<and>
     ge_BudgetReservedCostUSD g = reservation"

definition gdt_ExpireGenerationCAS ::
  "(string \<Rightarrow> string option) \<Rightarrow> string \<Rightarrow> string \<Rightarrow> gotime \<Rightarrow> ('z, i64) ai_tx" where
  "gdt_ExpireGenerationCAS scan generationID reservedCostUSD now =
     tx_bind (mustUUID scan generationID) (\<lambda>generation_id.
     tx_bind (numeric_param reservedCostUSD) (\<lambda>reservation.
     execute (update_generations (open_generation generation_id reservation)
       (\<lambda>g. g\<lparr>ge_Status := ''failed'', ge_FailureCode := Some ''lease_expired'',
             ge_BudgetReservedCostUSD := 0, ge_LeaseExpiresAt := null_Timestamptz,
             ge_FinishedAt := stored_at now\<rparr>))))"

subsection \<open>Locating and locking a generation\<close>

definition aiGenerationLocatorFromSQLC :: "GenerationRow \<Rightarrow> workspace_error + AIGenerationLocator" where
  "aiGenerationLocatorFromSQLC row =
     (let userID = uuidString (ge_UserID row); operation = ge_OperationType row in
      case (optionalAIUUID (ge_SourceGoalDraftID row), optionalAIUUID (ge_GoalID row),
            optionalAIUUID (ge_CycleID row)) of
        (Some draftID, Some goalID, Some cycleID) \<Rightarrow>
          if userID = [] \<or> \<not> validAIOperation operation \<or> \<not> validAIGenerationStatus (ge_Status row)
          then Inl (aiAdapterPersistenceError ''AI Generation locator state is invalid'')
          else Inr \<lparr>agl_UserID = userID, agl_Operation = operation, agl_Status = ge_Status row,
                    agl_DraftID = draftID, agl_GoalID = goalID, agl_CycleID = cycleID\<rparr>
      | _ \<Rightarrow> Inl (aiAdapterPersistenceError ''AI Generation locator state is invalid''))"

definition gdt_FindGenerationLocator ::
  "(string \<Rightarrow> string option) \<Rightarrow> string \<Rightarrow> ('z, AIGenerationLocator option) ai_tx" where
  "gdt_FindGenerationLocator scan generationID =
     tx_bind (mustUUID scan generationID) (\<lambda>generation_id.
     tx_bind (fetch (\<lambda>d. find (\<lambda>g. sql_eq (ge_ID g) generation_id) (db_ai_generations d))) (\<lambda>row.
     case row of
       None \<Rightarrow> tx_return None
     | Some g \<Rightarrow> tx_bind (tx_lift (aiGenerationLocatorFromSQLC g)) (\<lambda>l. tx_return (Some l))))"

definition note_locked_generation :: "string \<Rightarrow> string \<Rightarrow> ('z, unit) ai_tx" where
  "note_locked_generation userID generationID s =
     Inr ((), s\<lparr>gdt_lockedGenerationUserID := userID, gdt_lockedGenerationID := generationID\<rparr>)"

definition goalRefineSettlementFromSQLC :: "GenerationRow \<Rightarrow> workspace_error + GoalRefineSettlementState" where
  "goalRefineSettlementFromSQLC row =
     (let reserved = numeric_text (ge_BudgetReservedCostUSD row) in
      case finiteGoalDeleteTimestamptz (ge_BudgetMonthUtc row) of
        None \<Rightarrow> Inl (aiAdapterPersistenceError ''Goal Refine settlement state is invalid'')
      | Some month \<Rightarrow>
          if time_is_zero month \<or> reserved = [] \<or> ge_TargetRevision row <s 0
          then Inl (aiAdapterPersistenceError ''Goal Refine settlement state is invalid'')
          else Inr \<lparr>grs_BudgetMonthUtc = month, grs_ReservedCostUSD = reserved,
                    grs_TargetRevision = ge_TargetRevision row\<rparr>)"

definition gdt_LockGoalRefineGeneration ::
  "(string \<Rightarrow> string option) \<Rightarrow> GoalRefineGenerationKey \<Rightarrow> ('z, GoalRefineSettlementState) ai_tx" where
  "gdt_LockGoalRefineGeneration scan key =
     tx_bind (mustUUID scan (ggk_GenerationID key)) (\<lambda>generation_id.
     tx_bind (mustUUID scan (ggk_UserID key)) (\<lambda>user_id.
     tx_bind (mustUUID scan (ggk_DraftID key)) (\<lambda>draft_id.
     tx_bind (fetch (\<lambda>d. find (\<lambda>g. sql_eq (ge_ID g) generation_id \<and> draft_generation user_id draft_id g \<and>
                ge_OperationType g = ''goal_refine'' \<and> ge_Status g = ''running'')
                (db_ai_generations d))) (\<lambda>row.
     case row of
       None \<Rightarrow> tx_fail ErrNotFound
     | Some g \<Rightarrow> tx_bind (note_locked_generation (ggk_UserID key) (ggk_GenerationID key))
                  (\<lambda>_. tx_lift (goalRefineSettlementFromSQLC g))))))"

definition actionAISettlementFromSQLC :: "GenerationRow \<Rightarrow> workspace_error + ActionAISettlementState" where
  "actionAISettlementFromSQLC row =
     (let goalVersionID = uuidString (ge_GoalVersionID row);
          reserved = numeric_text (ge_BudgetReservedCostUSD row) in
      case finiteGoalDeleteTimestamptz (ge_BudgetMonthUtc row) of
        None \<Rightarrow> Inl (actionAIAdapterPersistenceError ''Action AI settlement state is invalid'')
      | Some month \<Rightarrow>
          if goalVersionID = [] \<or> time_is_zero month \<or> reserved = [] \<or> ge_TargetRevision row <s 0
          then Inl (actionAIAdapterPersistenceError ''Action AI settlement state is invalid'')
          else Inr \<lparr>asst_GoalVersionID = goalVersionID, asst_BudgetMonthUtc = month,
                    asst_ReservedCostUSD = reserved, asst_TargetRevision = ge_TargetRevision row\<rparr>)"

definition running_cycle_generation :: "pgUUID \<Rightarrow> pgUUID \<Rightarrow> pgUUID \<Rightarrow> GenerationRow \<Rightarrow> bool" where
  "running_cycle_generation user_id goal_id cycle_id g \<longleftrightarrow>
     sql_eq (ge_UserID g) user_id \<and> sql_eq (ge_GoalID g) goal_id \<and> sql_eq (ge_CycleID g) cycle_id \<and>
     ge_Status g = ''running''"

definition gdt_LockActionAIGeneration ::
  "(string \<Rightarrow> string option) \<Rightarrow> ActionAIGenerationKey \<Rightarrow> ('z, ActionAISettlementState) ai_tx" where
  "gdt_LockActionAIGeneration scan key =
     tx_bind (tx_check (requireActionOperation (aak_Operation key))) (\<lambda>_.
     tx_bind (mustUUID scan (aak_GenerationID key)) (\<lambda>generation_id.
     tx_bind (mustUUID scan (aak_UserID key)) (\<lambda>user_id.
     tx_bind (mustUUID scan (aak_GoalID key)) (\<lambda>goal_id.
     tx_bind (mustUUID scan (aak_CycleID key)) (\<lambda>cycle_id.
     tx_bind (fetch (\<lambda>d. find (\<lambda>g. sql_eq (ge_ID g) generation_id \<and> running_cycle_generation user_id goal_id cycle_id g \<and>
                ge_OperationType g = aak_Operation key) (db_ai_generations d))) (\<lambda>row.
     case row of
       None \<Rightarrow> tx_fail ErrNotFound
     | Some g \<Rightarrow> tx_bind (note_locked_generation (aak_UserID key) (aak_GenerationID key))
                  (\<lambda>_. tx_lift (actionAISettlementFromSQLC g))))))))"

definition gdt_HasRunningCycleGeneration ::
  "(string \<Rightarrow> string option) \<Rightarrow> string \<Rightarrow> string \<Rightarrow> string \<Rightarrow> ('z, bool) ai_tx" where
  "gdt_HasRunningCycleGeneration scan userID goalID cycleID =
     tx_bind (mustUUID scan userID) (\<lambda>user_id.
     tx_bind (mustUUID scan goalID) (\<lambda>goal_id.
     tx_bind (mustUUID scan cycleID) (\<lambda>cycle_id.
     fetch (\<lambda>d. list_ex (running_cycle_generation user_id goal_id cycle_id) (db_ai_generations d)))))"

subsection \<open>Settling a generation\<close>

text \<open>The assignments the two terminalizing statements share, and the CHECK on the number of attempts.\<close>

definition check_attempts ::
  "16 word \<Rightarrow> (GenerationRow \<Rightarrow> bool) \<Rightarrow> (Database \<Rightarrow> workspace_error + i64 \<times> Database) \<Rightarrow>
   Database \<Rightarrow> workspace_error + i64 \<times> Database" where
  "check_attempts attempts selected update d =
     (if attempts <s 1 \<and> list_ex selected (db_ai_generations d) then Inl (Infrastructure ''23514'')
      else update d)"

definition terminal_generation ::
  "string \<Rightarrow> string option \<Rightarrow> i64 \<Rightarrow> i64 \<Rightarrow> rat \<Rightarrow> 16 word \<Rightarrow> string \<Rightarrow> string \<Rightarrow> bool \<Rightarrow> gotime \<Rightarrow>
   GenerationRow \<Rightarrow> GenerationRow" where
  "terminal_generation status output_text inputTokens outputTokens cost attempts failureCode requestID
     contextChanged finishedAt g =
     g\<lparr>ge_Status := status, ge_Output := output_text, ge_InputTokens := Some inputTokens,
       ge_OutputTokens := Some outputTokens, ge_EstimatedCostUSD := Some (numeric_8 cost),
       ge_BudgetReservedCostUSD := 0, ge_AttemptCount := attempts,
       ge_FailureCode := (if failureCode = [] then None else Some failureCode),
       ge_ProviderRequestID := (if requestID = [] then None else Some requestID),
       ge_LeaseExpiresAt := null_Timestamptz, ge_ContextChanged := contextChanged,
       ge_FinishedAt := stored_at finishedAt\<rparr>"

definition gdt_TerminalizeGenerationCAS ::
  "(string \<Rightarrow> string option) \<Rightarrow> AIGenerationSettlement \<Rightarrow> ('z, i64) ai_tx" where
  "gdt_TerminalizeGenerationCAS scan settlement =
     tx_bind (mustUUID scan (ags_GenerationID settlement)) (\<lambda>generation_id.
     tx_bind (numeric_param (ags_EstimatedCostUSD settlement)) (\<lambda>cost.
     tx_bind (numeric_param (ags_ExpectedReservationUSD settlement)) (\<lambda>reservation.
     let selected = (\<lambda>g. open_generation generation_id reservation g \<and>
           ge_OperationType g = ''goal_refine'') in
     execute (check_attempts (ags_AttemptCount settlement) selected (update_generations selected
       (terminal_generation (ags_Status settlement) (ags_Output settlement) (ags_InputTokens settlement)
          (ags_OutputTokens settlement) cost (ags_AttemptCount settlement) (ags_FailureCode settlement)
          (ags_ProviderRequestID settlement) (ags_ContextChanged settlement)
          (ags_FinishedAt settlement)))))))"

definition gdt_TerminalizeActionAIGenerationCAS ::
  "(string \<Rightarrow> string option) \<Rightarrow> ActionAIGenerationSettlement \<Rightarrow> ('z, i64) ai_tx" where
  "gdt_TerminalizeActionAIGenerationCAS scan settlement =
     tx_bind (tx_check (requireActionOperation (aast_Operation settlement))) (\<lambda>_.
     tx_bind (mustUUID scan (aast_GenerationID settlement)) (\<lambda>generation_id.
     tx_bind (numeric_param (aast_EstimatedCostUSD settlement)) (\<lambda>cost.
     tx_bind (numeric_param (aast_ExpectedReservationUSD settlement)) (\<lambda>reservation.
     let selected = (\<lambda>g. open_generation generation_id reservation g \<and>
           ge_OperationType g = aast_Operation settlement) in
     execute (check_attempts (aast_AttemptCount settlement) selected (update_generations selected
       (\<lambda>g. (terminal_generation (aast_Status settlement) (aast_Output settlement)
            (aast_InputTokens settlement) (aast_OutputTokens settlement) cost (aast_AttemptCount settlement)
            (aast_FailureCode settlement) (aast_ProviderRequestID settlement)
            (aast_ContextChanged settlement) (aast_FinishedAt settlement) g)
          \<lparr>ge_AppliedAt := stored_time (nullableAITimestamptz (aast_AppliedAt settlement))\<rparr>)))))))"

subsection \<open>Suggestions\<close>

definition goalSuggestionStateFromSQLC :: "GenerationRow \<Rightarrow> workspace_error + GoalSuggestionState" where
  "goalSuggestionStateFromSQLC row =
     (let sourceText = coalesced (ge_SourceText row); outputText = coalesced (ge_Output row) in
      if ge_TargetRevision row <s 0 \<or> sourceText = [] \<or> outputText = []
      then Inl (aiAdapterPersistenceError ''Goal suggestion state is invalid'')
      else rbind (optionalAITimestamptz (ge_AdoptedAt row)) (\<lambda>adoptedAt.
        if (adoptedAt = None) \<noteq> (ge_AdoptedDraftRevision row = None) \<or>
           (case ge_AdoptedDraftRevision row of None \<Rightarrow> False | Some r \<Rightarrow> r <s 0)
        then Inl (aiAdapterPersistenceError ''Goal suggestion adoption state is invalid'')
        else Inr \<lparr>gss_TargetRevision = ge_TargetRevision row, gss_SourceText = sourceText,
                  gss_Output = outputText, gss_AdoptedAt = adoptedAt,
                  gss_AdoptedDraftRevision = ge_AdoptedDraftRevision row\<rparr>))"

definition gdt_LockSucceededGoalRefineGeneration ::
  "(string \<Rightarrow> string option) \<Rightarrow> string \<Rightarrow> string \<Rightarrow> string \<Rightarrow> ('z, GoalSuggestionState) ai_tx" where
  "gdt_LockSucceededGoalRefineGeneration scan userID draftID generationID =
     tx_bind (mustUUID scan generationID) (\<lambda>generation_id.
     tx_bind (mustUUID scan userID) (\<lambda>user_id.
     tx_bind (mustUUID scan draftID) (\<lambda>draft_id.
     tx_bind (fetch (\<lambda>d. find (\<lambda>g. sql_eq (ge_ID g) generation_id \<and> draft_generation user_id draft_id g \<and>
                ge_OperationType g = ''goal_refine'' \<and> ge_Status g = ''succeeded'')
                (db_ai_generations d))) (\<lambda>row.
     case row of None \<Rightarrow> tx_fail ErrNotFound | Some g \<Rightarrow> tx_lift (goalSuggestionStateFromSQLC g)))))"

definition gdt_MarkSuggestionAdoptedCAS ::
  "(string \<Rightarrow> string option) \<Rightarrow> string \<Rightarrow> i64 \<Rightarrow> gotime \<Rightarrow> ('z, i64) ai_tx" where
  "gdt_MarkSuggestionAdoptedCAS scan generationID draftRevision now =
     tx_bind (mustUUID scan generationID) (\<lambda>generation_id.
     execute (update_generations
       (\<lambda>g. sql_eq (ge_ID g) generation_id \<and> ge_OperationType g = ''goal_refine'' \<and>
            ge_Status g = ''succeeded'' \<and> \<not> tz_Valid (ge_AdoptedAt g))
       (\<lambda>g. g\<lparr>ge_AdoptedAt := stored_at now, ge_AdoptedDraftRevision := Some draftRevision\<rparr>)))"

subsection \<open>Replays\<close>

definition operation_key :: "pgUUID \<Rightarrow> operation_type \<Rightarrow> pgUUID \<Rightarrow> GenerationRow \<Rightarrow> bool" where
  "operation_key user_id operation idempotency_key g \<longleftrightarrow>
     sql_eq (ge_UserID g) user_id \<and> ge_OperationType g = operation \<and>
     sql_eq (ge_IdempotencyKey g) idempotency_key"

definition goalRefineReplayFromSQLC :: "GenerationRow \<Rightarrow> workspace_error + GoalRefineReplayState" where
  "goalRefineReplayFromSQLC row =
     (let generationID = uuidString (ge_ID row) in
      if generationID = [] \<or> ge_IdempotencyRequestHash row = [] \<or>
         \<not> validAIGenerationStatus (ge_Status row) \<or> ge_TargetRevision row <s 0
      then Inl (aiAdapterPersistenceError ''Goal Refine replay state is invalid'')
      else Inr \<lparr>grr_GenerationID = generationID,
                grr_IdempotencyRequestHash = ge_IdempotencyRequestHash row, grr_Status = ge_Status row,
                grr_TargetRevision = ge_TargetRevision row,
                grr_Output = optionalNonEmptyText (coalesced (ge_Output row)),
                grr_FailureCode = coalesced (ge_FailureCode row),
                grr_ContextChanged = ge_ContextChanged row\<rparr>)"

definition gdt_FindGoalRefineReplay ::
  "(string \<Rightarrow> string option) \<Rightarrow> string \<Rightarrow> string \<Rightarrow> ('z, GoalRefineReplayState option) ai_tx" where
  "gdt_FindGoalRefineReplay scan userID idempotencyKey =
     tx_bind (mustUUID scan userID) (\<lambda>user_id.
     tx_bind (mustUUID scan idempotencyKey) (\<lambda>idempotency_key.
     tx_bind (fetch (\<lambda>d. find (operation_key user_id ''goal_refine'' idempotency_key) (db_ai_generations d)))
       (\<lambda>row.
     case row of
       None \<Rightarrow> tx_return None
     | Some g \<Rightarrow> tx_bind (tx_lift (goalRefineReplayFromSQLC g)) (\<lambda>r. tx_return (Some r)))))"

definition actionAIOptionalTimestamptz :: "pgTimestamptz \<Rightarrow> workspace_error + gotime option" where
  "actionAIOptionalTimestamptz value =
     (if \<not> tz_Valid value then Inr None
      else (case finiteGoalDeleteTimestamptz value of
          None \<Rightarrow> Inl (actionAIAdapterPersistenceError ''Action AI timestamp is invalid or non-finite'')
        | Some result \<Rightarrow>
            if time_is_zero result
            then Inl (actionAIAdapterPersistenceError ''Action AI timestamp is invalid or non-finite'')
            else Inr (Some result)))"

definition actionAIReplayFromSQLC :: "GenerationRow \<Rightarrow> workspace_error + ActionAIReplayState" where
  "actionAIReplayFromSQLC row =
     (let generationID = uuidString (ge_ID row); goalID = uuidString (ge_GoalID row);
          cycleID = uuidString (ge_CycleID row) in
      if generationID = [] \<or> goalID = [] \<or> cycleID = [] \<or> ge_IdempotencyRequestHash row = [] \<or>
         \<not> validAIGenerationStatus (ge_Status row) \<or> ge_TargetRevision row <s 0
      then Inl (actionAIAdapterPersistenceError ''Action AI replay state is invalid'')
      else rbind (actionAIOptionalTimestamptz (ge_LeaseExpiresAt row)) (\<lambda>leaseExpiresAt.
        Inr \<lparr>aar_GenerationID = generationID, aar_GoalID = goalID, aar_CycleID = cycleID,
             aar_IdempotencyRequestHash = ge_IdempotencyRequestHash row, aar_Status = ge_Status row,
             aar_TargetRevision = ge_TargetRevision row,
             aar_Output = optionalNonEmptyText (coalesced (ge_Output row)),
             aar_FailureCode = coalesced (ge_FailureCode row),
             aar_ContextChanged = ge_ContextChanged row, aar_LeaseExpiresAt = leaseExpiresAt\<rparr>))"

definition gdt_FindActionAIReplay ::
  "(string \<Rightarrow> string option) \<Rightarrow> string \<Rightarrow> operation_type \<Rightarrow> string \<Rightarrow>
   ('z, ActionAIReplayState option) ai_tx" where
  "gdt_FindActionAIReplay scan userID operation idempotencyKey =
     tx_bind (tx_check (requireActionOperation operation)) (\<lambda>_.
     tx_bind (mustUUID scan userID) (\<lambda>user_id.
     tx_bind (mustUUID scan idempotencyKey) (\<lambda>idempotency_key.
     tx_bind (fetch (\<lambda>d. find (operation_key user_id operation idempotency_key) (db_ai_generations d)))
       (\<lambda>row.
     case row of
       None \<Rightarrow> tx_return None
     | Some g \<Rightarrow> tx_bind (tx_lift (actionAIReplayFromSQLC g)) (\<lambda>r. tx_return (Some r))))))"

subsection \<open>Inserting a generation\<close>

text \<open>The unique keys of the table; a row inserted here is running.\<close>

definition generations_clash :: "GenerationRow \<Rightarrow> GenerationRow \<Rightarrow> bool" where
  "generations_clash a b \<longleftrightarrow>
     sql_eq (ge_ID a) (ge_ID b) \<or> operation_key (ge_UserID b) (ge_OperationType b) (ge_IdempotencyKey b) a \<or>
     (ge_Status a = ''running'' \<and> ge_Status b = ''running'' \<and>
      (sql_eq (ge_CycleID a) (ge_CycleID b) \<or> sql_eq (ge_SourceGoalDraftID a) (ge_SourceGoalDraftID b)))"

definition insert_generation :: "GenerationRow \<Rightarrow> Database \<Rightarrow> workspace_error + i64 \<times> Database" where
  "insert_generation row d =
     (if list_ex (generations_clash row) (db_ai_generations d) then Inl ErrAIInProgress
      else Inr (1, d\<lparr>db_ai_generations := db_ai_generations d @ [row]\<rparr>))"

text \<open>The columns both statements leave to their defaults, and the month and reservation both write.\<close>

definition running_generation ::
  "pgUUID \<Rightarrow> pgUUID \<Rightarrow> operation_type \<Rightarrow> gotime \<Rightarrow> rat \<Rightarrow> gotime \<Rightarrow> gotime \<Rightarrow> GenerationRow" where
  "running_generation generation_id user_id operation month reservation leaseExpiresAt startedAt =
     \<lparr>ge_ID = generation_id, ge_UserID = user_id, ge_OperationType = operation, ge_Status = ''running'',
      ge_SourceGoalDraftID = None, ge_GoalID = None, ge_GoalVersionID = None, ge_CycleID = None,
      ge_TargetRevision = 0, ge_IdempotencyKey = None, ge_IdempotencyRequestHash = [],
      ge_CanonicalProviderInputHash = [], ge_SourceText = None, ge_Output = None,
      ge_ContextCycleIDs = [], ge_Provider = [], ge_Model = [], ge_PromptVersion = [],
      ge_InputTokens = None, ge_OutputTokens = None, ge_EstimatedCostUSD = None,
      ge_BudgetMonthUtc = goalDeleteDate month, ge_BudgetReservedCostUSD = numeric_8 reservation,
      ge_AttemptCount = 1, ge_FailureCode = None, ge_ProviderRequestID = None,
      ge_LeaseExpiresAt = stored_at leaseExpiresAt, ge_ContextChanged = False,
      ge_AdoptedAt = null_Timestamptz, ge_AdoptedDraftRevision = None, ge_AppliedAt = null_Timestamptz,
      ge_StartedAt = stored_at startedAt, ge_FinishedAt = null_Timestamptz\<rparr>"

definition gdt_InsertGoalRefineGeneration ::
  "(string \<Rightarrow> string option) \<Rightarrow> GoalRefineGenerationRecord \<Rightarrow> ('z, i64) ai_tx" where
  "gdt_InsertGoalRefineGeneration scan record =
     tx_bind (mustUUID scan (grg_ID record)) (\<lambda>generation_id.
     tx_bind (mustUUID scan (grg_UserID record)) (\<lambda>user_id.
     tx_bind (mustUUID scan (grg_DraftID record)) (\<lambda>draft_id.
     tx_bind (nullableCycleUUID scan (grg_GoalID record)) (\<lambda>goal_id.
     tx_bind (nullableCycleUUID scan (grg_GoalVersionID record)) (\<lambda>version_id.
     tx_bind (mustUUID scan (grg_IdempotencyKey record)) (\<lambda>idempotency_key.
     tx_bind (numeric_param (grg_ReservedCostUSD record)) (\<lambda>reservation.
     tx_bind (uuid_array scan (grg_ContextCycleIDs record)) (\<lambda>cycle_ids.
     execute (insert_generation
       ((running_generation generation_id user_id ''goal_refine'' (grg_BudgetMonthUtc record) reservation
           (grg_LeaseExpiresAt record) (grg_StartedAt record))
         \<lparr>ge_SourceGoalDraftID := draft_id, ge_GoalID := goal_id, ge_GoalVersionID := version_id,
          ge_TargetRevision := grg_TargetRevision record, ge_IdempotencyKey := idempotency_key,
          ge_IdempotencyRequestHash := grg_IdempotencyRequestHash record,
          ge_CanonicalProviderInputHash := grg_CanonicalProviderInputHash record,
          ge_SourceText := Some (grg_SourceText record), ge_ContextCycleIDs := map uuidString cycle_ids,
          ge_Provider := grg_Provider record, ge_Model := grg_Model record,
          ge_PromptVersion := grg_PromptVersion record\<rparr>))))))))))"

definition gdt_InsertActionAIGeneration ::
  "(string \<Rightarrow> string option) \<Rightarrow> ActionAIGenerationRecord \<Rightarrow> ('z, i64) ai_tx" where
  "gdt_InsertActionAIGeneration scan record =
     tx_bind (tx_check (requireActionOperation (aag_Operation record))) (\<lambda>_.
     tx_bind (mustUUID scan (aag_ID record)) (\<lambda>generation_id.
     tx_bind (mustUUID scan (aag_UserID record)) (\<lambda>user_id.
     tx_bind (mustUUID scan (aag_GoalID record)) (\<lambda>goal_id.
     tx_bind (mustUUID scan (aag_GoalVersionID record)) (\<lambda>version_id.
     tx_bind (mustUUID scan (aag_CycleID record)) (\<lambda>cycle_id.
     tx_bind (mustUUID scan (aag_IdempotencyKey record)) (\<lambda>idempotency_key.
     tx_bind (numeric_param (aag_ReservedCostUSD record)) (\<lambda>reservation.
     tx_bind (uuid_array scan (aag_ContextCycleIDs record)) (\<lambda>cycle_ids.
     execute (insert_generation
       ((running_generation generation_id user_id (aag_Operation record) (aag_BudgetMonthUtc record)
           reservation (aag_LeaseExpiresAt record) (aag_StartedAt record))
         \<lparr>ge_GoalID := goal_id, ge_GoalVersionID := version_id, ge_CycleID := cycle_id,
          ge_TargetRevision := aag_TargetRevision record, ge_IdempotencyKey := idempotency_key,
          ge_IdempotencyRequestHash := aag_IdempotencyRequestHash record,
          ge_CanonicalProviderInputHash := aag_CanonicalProviderInputHash record,
          ge_SourceText := aag_SourceText record, ge_ContextCycleIDs := map uuidString cycle_ids,
          ge_Provider := aag_Provider record, ge_Model := aag_Model record,
          ge_PromptVersion := aag_PromptVersion record\<rparr>)))))))))))"

end
