(* ===== verification/GoalDraftStore.thy ===== *)
theory GoalDraftStore
  imports AIGenerationStore
begin

section \<open>Drafts and Goal starts in the PostgreSQL adapter\<close>

text \<open>
  The statements of \<open>workspace_goal_draft_uow.go\<close> and \<open>workspace_action_ai_uow.go\<close> on drafts,
  Goals, versions and Cycles, and the two transactions themselves.  The unique keys of \<open>goal_drafts\<close>
  are its id, one creation draft per User and one review draft per Goal; deleting a draft deletes
  its success signal.
\<close>

subsection \<open>Drafts\<close>

text \<open>A draft joined with its success signal.\<close>

record goalDraftColumns =
  gdc_row :: StoredDraftRow
  gdc_successSignal :: string

definition draft_columns :: "Database \<Rightarrow> StoredDraftRow \<Rightarrow> goalDraftColumns" where
  "draft_columns d r =
     \<lparr>gdc_row = r, gdc_successSignal = signal_of (db_goal_draft_success_signals d) (sd_ID r)\<rparr>"

definition goalDraftNullableUUID :: "pgUUID \<Rightarrow> string option option" where
  "goalDraftNullableUUID value =
     (case value of
        None \<Rightarrow> Some None
      | Some _ \<Rightarrow> let result = uuidString value in if result = [] then None else Some (Some result))"

definition goalDraftFromColumns :: "goalDraftColumns \<Rightarrow> workspace_error + Draft" where
  "goalDraftFromColumns columns =
     (let row = gdc_row columns; ident = uuidString (sd_ID row); userID = uuidString (sd_UserID row) in
      if sd_ID row = None \<or> sd_UserID row = None \<or> \<not> isFiniteGoalTimestamptz (sd_CreatedAt row) \<or>
         \<not> isFiniteGoalTimestamptz (sd_UpdatedAt row)
      then Inl (goalDraftPersistenceError ''required identity or timestamp is missing'')
      else if ident = [] \<or> userID = []
      then Inl (goalDraftPersistenceError ''required identity is invalid'')
      else (case (goalDraftNullableUUID (sd_GoalID row), goalDraftNullableUUID (sd_BaseGoalVersionID row),
                  goalDraftNullableUUID (sd_ReviewCycleID row)) of
          (Some goalID, Some baseVersionID, Some reviewCycleID) \<Rightarrow>
            let draft = \<lparr>dr_ID = ident, dr_UserID = userID, dr_Type = sd_DraftType row,
                  dr_GoalID = goalID, dr_BaseGoalVersionID = baseVersionID,
                  dr_ReviewCycleID = reviewCycleID, dr_Body = sd_Body row,
                  dr_SuccessSignal = optionalNonEmptyText (gdc_successSignal columns),
                  dr_Revision = sd_Revision row, dr_CreatedAt = utc (tz_Time (sd_CreatedAt row)),
                  dr_UpdatedAt = utc (tz_Time (sd_UpdatedAt row))\<rparr> in
            if sd_DraftType row = DraftCreation then
              if goalID \<noteq> None \<or> baseVersionID \<noteq> None \<or> reviewCycleID \<noteq> None
              then Inl (goalDraftPersistenceError ''Creation Draft references current work'')
              else Inr draft
            else if sd_DraftType row = DraftReview then
              if goalID = None \<or> baseVersionID = None \<or> reviewCycleID = None
              then Inl (goalDraftPersistenceError ''Review Draft references are incomplete'')
              else Inr draft
            else Inl (goalDraftPersistenceError ''Draft type is invalid'')
        | _ \<Rightarrow> Inl (goalDraftPersistenceError ''reference identity is invalid'')))"

definition find_draft :: "(StoredDraftRow \<Rightarrow> bool) \<Rightarrow> Database \<Rightarrow> goalDraftColumns option" where
  "find_draft selected d = map_option (draft_columns d) (find selected (db_goal_drafts d))"

definition gdt_FindCreationDraft ::
  "(string \<Rightarrow> string option) \<Rightarrow> string \<Rightarrow> ('z, Draft option) ai_tx" where
  "gdt_FindCreationDraft scan userID =
     tx_bind (mustUUID scan userID) (\<lambda>user_id.
     tx_bind (fetch (find_draft (\<lambda>r. sql_eq (sd_UserID r) user_id \<and> sd_DraftType r = ''creation'')))
       (\<lambda>row.
     case row of
       None \<Rightarrow> tx_return None
     | Some r \<Rightarrow> tx_bind (tx_lift (goalDraftFromColumns r)) (\<lambda>draft. tx_return (Some draft))))"

definition gdt_LockDraftByID ::
  "(string \<Rightarrow> string option) \<Rightarrow> string \<Rightarrow> string \<Rightarrow> ('z, Draft) ai_tx" where
  "gdt_LockDraftByID scan userID draftID =
     tx_bind (mustUUID scan draftID) (\<lambda>draft_id.
     tx_bind (mustUUID scan userID) (\<lambda>user_id.
     tx_bind (fetch (find_draft (\<lambda>r. sql_eq (sd_ID r) draft_id \<and> sql_eq (sd_UserID r) user_id))) (\<lambda>row.
     case row of None \<Rightarrow> tx_fail ErrNotFound | Some r \<Rightarrow> tx_lift (goalDraftFromColumns r))))"

definition gdt_LockReviewDraftByGoal ::
  "(string \<Rightarrow> string option) \<Rightarrow> string \<Rightarrow> string \<Rightarrow> ('z, Draft) ai_tx" where
  "gdt_LockReviewDraftByGoal scan userID goalID =
     tx_bind (mustUUID scan goalID) (\<lambda>goal_id.
     tx_bind (mustUUID scan userID) (\<lambda>user_id.
     tx_bind (fetch (find_draft (\<lambda>r. sql_eq (sd_GoalID r) goal_id \<and> sql_eq (sd_UserID r) user_id \<and>
                sd_DraftType r = ''review''))) (\<lambda>row.
     case row of None \<Rightarrow> tx_fail ErrNotFound | Some r \<Rightarrow> tx_lift (goalDraftFromColumns r))))"

definition gdt_InsertCreationDraft :: "(string \<Rightarrow> string option) \<Rightarrow> Draft \<Rightarrow> ('z, i64) ai_tx" where
  "gdt_InsertCreationDraft scan draft =
     tx_bind (mustUUID scan (dr_ID draft)) (\<lambda>draft_id.
     tx_bind (mustUUID scan (dr_UserID draft)) (\<lambda>user_id.
     execute (\<lambda>d.
       if list_ex (\<lambda>r. sql_eq (sd_ID r) draft_id \<or>
            sd_DraftType r = ''creation'' \<and> sql_eq (sd_UserID r) user_id) (db_goal_drafts d)
       then Inl ErrDraftAlreadyExists
       else Inr (1, d\<lparr>db_goal_drafts := db_goal_drafts d @
         [\<lparr>sd_ID = draft_id, sd_UserID = user_id, sd_DraftType = ''creation'', sd_GoalID = None,
           sd_BaseGoalVersionID = None, sd_ReviewCycleID = None, sd_Body = dr_Body draft,
           sd_Revision = dr_Revision draft, sd_CreatedAt = stored_at (dr_CreatedAt draft),
           sd_UpdatedAt = stored_at (dr_UpdatedAt draft)\<rparr>]\<rparr>))))"

text \<open>The statements on the success signals, by the key of the draft or of the version.\<close>

definition delete_signal :: "pgUUID \<Rightarrow> (pgUUID \<times> string) list \<Rightarrow> (pgUUID \<times> string) list" where
  "delete_signal ident signals = filter (\<lambda>(i, _). \<not> sql_eq i ident) signals"

definition upsert_signal :: "pgUUID \<Rightarrow> string \<Rightarrow> (pgUUID \<times> string) list \<Rightarrow> (pgUUID \<times> string) list" where
  "upsert_signal ident text signals =
     (if list_ex (\<lambda>(i, _). sql_eq i ident) signals
      then map (\<lambda>(i, t). if sql_eq i ident then (i, text) else (i, t)) signals
      else signals @ [(ident, text)])"

definition gdt_SaveDraftCAS :: "(string \<Rightarrow> string option) \<Rightarrow> Draft \<Rightarrow> i64 \<Rightarrow> ('z, i64) ai_tx" where
  "gdt_SaveDraftCAS scan draft expectedRevision =
     tx_bind (mustUUID scan (dr_ID draft)) (\<lambda>draft_id.
     tx_bind (mustUUID scan (dr_UserID draft)) (\<lambda>user_id.
     tx_bind (execute (update_drafts
         (\<lambda>r. sql_eq (sd_ID r) draft_id \<and> sql_eq (sd_UserID r) user_id \<and>
              sd_DraftType r = dr_Type draft \<and> sd_Revision r = expectedRevision)
         (\<lambda>r. r\<lparr>sd_Body := dr_Body draft, sd_Revision := dr_Revision draft,
               sd_UpdatedAt := stored_at (dr_UpdatedAt draft)\<rparr>))) (\<lambda>rows.
     if rows \<noteq> 1 then tx_return rows
     else
       tx_bind (execute (\<lambda>d. Inr ((), d\<lparr>db_goal_draft_success_signals :=
           (case dr_SuccessSignal draft of
              None \<Rightarrow> delete_signal draft_id (db_goal_draft_success_signals d)
            | Some signal \<Rightarrow> upsert_signal draft_id signal (db_goal_draft_success_signals d))\<rparr>)))
         (\<lambda>_. tx_return rows))))"

definition gdt_DeleteCreationDraftCAS ::
  "(string \<Rightarrow> string option) \<Rightarrow> string \<Rightarrow> string \<Rightarrow> i64 \<Rightarrow> ('z, i64) ai_tx" where
  "gdt_DeleteCreationDraftCAS scan userID draftID expectedRevision =
     tx_bind (mustUUID scan draftID) (\<lambda>draft_id.
     tx_bind (mustUUID scan userID) (\<lambda>user_id.
     execute (\<lambda>d.
       let selected = (\<lambda>r. sql_eq (sd_ID r) draft_id \<and> sql_eq (sd_UserID r) user_id \<and>
             sd_DraftType r = ''creation'' \<and> sd_Revision r = expectedRevision);
           deleted = filter selected (db_goal_drafts d) in
       Inr (of_nat (length deleted),
            d\<lparr>db_goal_drafts := filter (\<lambda>r. \<not> selected r) (db_goal_drafts d),
              db_goal_draft_success_signals :=
                (if deleted = [] then db_goal_draft_success_signals d
                 else delete_signal draft_id (db_goal_draft_success_signals d))\<rparr>))))"

definition gdt_AdoptDraftCAS :: "(string \<Rightarrow> string option) \<Rightarrow> AdoptDraftRecord \<Rightarrow> ('z, i64) ai_tx" where
  "gdt_AdoptDraftCAS scan record =
     tx_bind (mustUUID scan (adr_DraftID record)) (\<lambda>draft_id.
     tx_bind (mustUUID scan (adr_UserID record)) (\<lambda>user_id.
     execute (update_drafts
       (\<lambda>r. sql_eq (sd_ID r) draft_id \<and> sql_eq (sd_UserID r) user_id \<and>
            sd_Revision r = adr_ExpectedRevision record)
       (\<lambda>r. r\<lparr>sd_Body := adr_Body record, sd_Revision := adr_NewRevision record,
             sd_UpdatedAt := stored_at (adr_UpdatedAt record)\<rparr>))))"

subsection \<open>Starting a Goal\<close>

definition startReplayFromSQLC :: "PdcaCycleRow \<Rightarrow> workspace_error + StartReplayState" where
  "startReplayFromSQLC row =
     (let goalID = uuidString (pc_GoalID row); cycleID = uuidString (pc_ID row) in
      if goalID = [] \<or> cycleID = [] \<or> pc_StartRequestHash row = []
      then Inl (cyclePersistenceError ''Start replay is incomplete'')
      else Inr \<lparr>srs_GoalID = goalID, srs_CycleID = cycleID, srs_RequestHash = pc_StartRequestHash row\<rparr>)"

definition gdt_FindStartReplay ::
  "(string \<Rightarrow> string option) \<Rightarrow> string \<Rightarrow> string \<Rightarrow> ('z, StartReplayState option) ai_tx" where
  "gdt_FindStartReplay scan userID operationID =
     tx_bind (mustUUID scan userID) (\<lambda>user_id.
     tx_bind (mustUUID scan operationID) (\<lambda>operation_id.
     tx_bind (fetch (\<lambda>d. find (\<lambda>c. sql_eq (pc_UserID c) user_id \<and>
                sql_eq (pc_StartOperationID c) operation_id) (db_pdca_cycles d))) (\<lambda>row.
     case row of
       None \<Rightarrow> tx_return None
     | Some c \<Rightarrow> tx_bind (tx_lift (startReplayFromSQLC c)) (\<lambda>r. tx_return (Some r)))))"

definition gdt_CountProgressingGoals :: "(string \<Rightarrow> string option) \<Rightarrow> string \<Rightarrow> ('z, int) ai_tx" where
  "gdt_CountProgressingGoals scan userID =
     tx_bind (mustUUID scan userID) (\<lambda>user_id.
     fetch (\<lambda>d. int (length (filter (\<lambda>g. sql_eq (gr_UserID g) user_id \<and>
       (gr_Status g = ''active_cycle'' \<or> gr_Status g = ''goal_review'')) (db_goals d)))))"

definition gdt_InsertInitialGoal :: "(string \<Rightarrow> string option) \<Rightarrow> Goal \<Rightarrow> ('z, i64) ai_tx" where
  "gdt_InsertInitialGoal scan current =
     tx_bind (mustUUID scan (go_ID current)) (\<lambda>goal_id.
     tx_bind (mustUUID scan (go_UserID current)) (\<lambda>user_id.
     execute (\<lambda>d.
       if list_ex (\<lambda>g. sql_eq (gr_ID g) goal_id) (db_goals d) then Inl unique_violation
       else Inr (1, d\<lparr>db_goals := db_goals d @
         [\<lparr>gr_ID = goal_id, gr_UserID = user_id, gr_Status = go_Status current,
           gr_CurrentVersionNumber = go_CurrentVersionNumber current,
           gr_NextCycleSequenceNumber = go_NextCycleSequenceNumber current,
           gr_Revision = go_Revision current, gr_TerminalAt = null_Timestamptz,
           gr_TerminalOperationID = None, gr_TerminalRequestHash = None,
           gr_CreatedAt = stored_at (go_CreatedAt current),
           gr_UpdatedAt = stored_at (go_UpdatedAt current)\<rparr>]\<rparr>))))"

definition gdt_InsertInitialVersion :: "(string \<Rightarrow> string option) \<Rightarrow> Version \<Rightarrow> ('z, i64) ai_tx" where
  "gdt_InsertInitialVersion scan version =
     tx_bind (mustUUID scan (ve_ID version)) (\<lambda>version_id.
     tx_bind (mustUUID scan (ve_UserID version)) (\<lambda>user_id.
     tx_bind (mustUUID scan (ve_GoalID version)) (\<lambda>goal_id.
     tx_bind (mustUUID scan (ve_CreatedByOperationID version)) (\<lambda>operation_id.
     tx_bind (execute (\<lambda>d.
       if list_ex (\<lambda>v. sql_eq (sv_ID v) version_id \<or> sql_eq (sv_GoalID v) goal_id \<and>
            (sv_VersionNumber v = ve_VersionNumber version \<or>
             sql_eq (sv_CreatedByOperationID v) operation_id)) (db_goal_versions d)
       then Inl unique_violation
       else Inr (1, d\<lparr>db_goal_versions := db_goal_versions d @
         [\<lparr>sv_ID = version_id, sv_UserID = user_id, sv_GoalID = goal_id,
           sv_VersionNumber = ve_VersionNumber version, sv_Body = ve_Body version,
           sv_CreatedByOperationID = operation_id, sv_CreatedAt = stored_at (ve_CreatedAt version)\<rparr>]\<rparr>)))
       (\<lambda>rows.
     case ve_SuccessSignal version of
       None \<Rightarrow> tx_return rows
     | Some signal \<Rightarrow>
         if rows \<noteq> 1 then tx_return rows
         else
           tx_bind (execute (\<lambda>d.
             if list_ex (\<lambda>(i, _). sql_eq i version_id) (db_goal_version_success_signals d)
             then Inl unique_violation
             else Inr ((), d\<lparr>db_goal_version_success_signals :=
                    db_goal_version_success_signals d @ [(version_id, signal)]\<rparr>)))
             (\<lambda>_. tx_return rows))))))"

subsection \<open>Targets and context of the AI operations\<close>

definition gdt_LockGoalWithCurrentVersion ::
  "(string \<Rightarrow> string option) \<Rightarrow> string \<Rightarrow> string \<Rightarrow> ('z, GoalTargetState) ai_tx" where
  "gdt_LockGoalWithCurrentVersion scan userID goalID =
     tx_bind (mustUUID scan goalID) (\<lambda>goal_id.
     tx_bind (mustUUID scan userID) (\<lambda>user_id.
     tx_bind (fetch (\<lambda>d.
       case find (owned_goal goal_id user_id) (db_goals d) of
         None \<Rightarrow> None
       | Some g \<Rightarrow> map_option (\<lambda>v. (g, v))
           (find (\<lambda>v. sql_eq (sv_UserID v) (gr_UserID g) \<and> sql_eq (sv_GoalID v) (gr_ID g) \<and>
              sv_VersionNumber v = gr_CurrentVersionNumber g) (db_goal_versions d)))) (\<lambda>row.
     case row of
       None \<Rightarrow> tx_fail ErrNotFound
     | Some (g, v) \<Rightarrow>
         let currentVersionID = uuidString (sv_ID v) in
         if currentVersionID = []
         then tx_fail (ErrGoalPersistenceInvariant ''locked Goal current Version identity is missing'')
         else tx_return \<lparr>gts_Status = gr_Status g, gts_Revision = gr_Revision g,
                gts_CurrentVersionID = currentVersionID, gts_Body = sv_Body v\<rparr>)))"

definition context_row :: "PdcaCycleRow \<Rightarrow> StoredVersionRow \<Rightarrow> ListAIContextCyclesRow" where
  "context_row c v =
     \<lparr>lac_CycleID = pc_ID c, lac_GoalID = pc_GoalID c, lac_SequenceNumber = pc_SequenceNumber c,
      lac_Status = pc_Status c, lac_GoalBody = sv_Body v, lac_Plan = coalesced (pc_Plan c),
      lac_DoText = coalesced (pc_DoText c), lac_CheckText = coalesced (pc_CheckText c),
      lac_Action = coalesced (pc_Action c)\<rparr>"

text \<open>The terminal Cycles of a Goal with their versions, the latest first.\<close>

definition context_rows ::
  "pgUUID \<Rightarrow> pgUUID \<Rightarrow> pgUUID \<Rightarrow> Database \<Rightarrow> ListAIContextCyclesRow list" where
  "context_rows user_id goal_id excluded d =
     List.map_filter (\<lambda>c. map_option (context_row c)
         (find (\<lambda>v. sql_eq (sv_GoalID v) (pc_GoalID c) \<and> sql_eq (sv_ID v) (pc_GoalVersionID c))
           (db_goal_versions d)))
       (sort_key (\<lambda>c. - sint (pc_SequenceNumber c))
         (filter (\<lambda>c. sql_eq (pc_UserID c) user_id \<and> sql_eq (pc_GoalID c) goal_id \<and>
            (pc_Status c = ''completed'' \<or> pc_Status c = ''canceled'') \<and>
            (excluded = None \<or> (pc_ID c \<noteq> None \<and> pc_ID c \<noteq> excluded))) (db_pdca_cycles d)))"

definition gdt_ListAIContextCycles ::
  "(string \<Rightarrow> string option) \<Rightarrow> string \<Rightarrow> string \<Rightarrow> string \<Rightarrow> int \<Rightarrow> ('z, AIContextCycle list) ai_tx" where
  "gdt_ListAIContextCycles scan userID goalID excludeCycleID limit =
     tx_bind (mustUUID scan userID) (\<lambda>user_id.
     tx_bind (mustUUID scan goalID) (\<lambda>goal_id.
     tx_bind (nullableCycleUUID scan excludeCycleID) (\<lambda>excluded.
     tx_bind (fetch (\<lambda>d. take (nat limit) (context_rows user_id goal_id excluded d))) (\<lambda>rows.
     tx_lift (map_rows aiContextCycleFromSQLC rows)))))"

subsection \<open>The Cycle of an Action\<close>

definition note_action_cycle :: "PDCACycle \<Rightarrow> (workspaceActionAITx, unit) tx" where
  "note_action_cycle current s = Inr ((), s\<lparr>gdt_lockedActionCycle := Some current\<rparr>)"

definition gdt_LockActionCycle ::
  "(string \<Rightarrow> string option) \<Rightarrow> string \<Rightarrow> string \<Rightarrow> string \<Rightarrow> (workspaceActionAITx, PDCACycle) tx" where
  "gdt_LockActionCycle scan userID goalID cycleID =
     tx_bind (mustUUID scan cycleID) (\<lambda>cycle_id.
     tx_bind (mustUUID scan goalID) (\<lambda>goal_id.
     tx_bind (mustUUID scan userID) (\<lambda>user_id.
     tx_bind (fetch (\<lambda>d. find (owned_cycle cycle_id user_id goal_id) (db_pdca_cycles d))) (\<lambda>row.
     case row of
       None \<Rightarrow> tx_fail ErrNotFound
     | Some c \<Rightarrow>
         tx_bind (tx_lift (cycleFromSQLC c)) (\<lambda>current.
         tx_bind (note_action_cycle current) (\<lambda>_. tx_return current))))))"

definition gdt_ApplyActionAICAS ::
  "(string \<Rightarrow> string option) \<Rightarrow> ActionAIApplyRecord \<Rightarrow> (workspaceActionAITx, i64) tx" where
  "gdt_ApplyActionAICAS scan record =
     (if aap_ExpectedContentRevision record <s 0 \<or> aap_ExpectedActionRevision record <s 0 \<or>
         aap_NewContentRevision record \<le>s aap_ExpectedContentRevision record \<or>
         aap_NewContentRevision record \<noteq> aap_ExpectedContentRevision record + 1 \<or>
         aap_NewActionRevision record \<le>s aap_ExpectedActionRevision record \<or>
         aap_NewActionRevision record \<noteq> aap_ExpectedActionRevision record + 1
      then tx_fail (ErrActionAIPersistenceInvariant ''invalid Action AI revision transition'')
      else (\<lambda>s.
        if map_option cy_ID (gdt_lockedActionCycle s) \<noteq> Some (aap_CycleID record)
        then Inl (ErrActionAIPersistenceInvariant ''Action Cycle was not locked before apply'')
        else tx_bind (mustUUID scan (aap_CycleID record)) (\<lambda>cycle_id.
          tx_bind (mustUUID scan (aap_UserID record)) (\<lambda>user_id.
          tx_bind (mustUUID scan (aap_GoalID record)) (\<lambda>goal_id.
          tx_bind (mustUUID scan (aap_GoalVersionID record)) (\<lambda>version_id.
          execute (update_cycles
            (\<lambda>c. owned_cycle cycle_id user_id goal_id c \<and> sql_eq (pc_GoalVersionID c) version_id \<and>
                 pc_Status c = ''active'' \<and> pc_ContentRevision c = aap_ExpectedContentRevision record \<and>
                 pc_ActionRevision c = aap_ExpectedActionRevision record)
            (\<lambda>c. c\<lparr>pc_Action := Some (aap_Action record),
                  pc_ContentRevision := aap_NewContentRevision record,
                  pc_ActionRevision := aap_NewActionRevision record,
                  pc_ActionLastAiAppliedContentRevision := Some (aap_NewContentRevision record),
                  pc_ActionUserModifiedAfterAi := False,
                  pc_UpdatedAt := stored_at (aap_UpdatedAt record)\<rparr>)))))) s))"

subsection \<open>The transactions\<close>

definition store_GoalDraftTx :: "(string \<Rightarrow> string option) \<Rightarrow> workspaceGoalDraftTx GoalDraftTx" where
  "store_GoalDraftTx scan =
     \<lparr>ai_LockUser = (\<lambda>userID. shared (store_LockUser scan userID)),
      ai_LockGoalWithCurrentVersion = gdt_LockGoalWithCurrentVersion scan,
      ai_ListAIContextCycles = gdt_ListAIContextCycles scan,
      ai_LockExpiredGenerations = gdt_LockExpiredGenerations scan,
      ai_SumLockedReservationsByMonth = gdt_SumLockedReservationsByMonth scan,
      ai_ReleaseBudgetReservationCAS = gdt_ReleaseBudgetReservationCAS,
      ai_ExpireGenerationCAS = gdt_ExpireGenerationCAS scan,
      ai_ExpireUsageCAS = gdt_ExpireUsageCAS scan,
      ai_CountRollingUsage = gdt_CountRollingUsage scan,
      ai_IncrementRateBucket = gdt_IncrementRateBucket,
      ai_EnsureBudgetMonth = gdt_EnsureBudgetMonth,
      ai_LockBudgetMonth = gdt_LockBudgetMonth,
      ai_ReserveBudgetCAS = gdt_ReserveBudgetCAS,
      ai_InsertAcceptedUsage = gdt_InsertAcceptedUsage scan,
      ai_FindGenerationLocator = gdt_FindGenerationLocator scan,
      ai_SettleBudgetCAS = gdt_SettleBudgetCAS,
      ai_FinalizeUsageCAS = gdt_FinalizeUsageCAS scan,
      ai_FindUsageLocator = gdt_FindUsageLocator scan,
      ai_LockUsage = gdt_LockUsage scan,
      ai_AddLateActualCostCAS = gdt_AddLateActualCostCAS,
      ai_FinalizeLateUsageCAS = gdt_FinalizeLateUsageCAS scan,
      gd_FindCreationDraft = gdt_FindCreationDraft scan,
      gd_LockDraftByID = gdt_LockDraftByID scan,
      gd_LockReviewDraftByGoal = gdt_LockReviewDraftByGoal scan,
      gd_InsertCreationDraft = gdt_InsertCreationDraft scan,
      gd_SaveDraftCAS = gdt_SaveDraftCAS scan,
      gd_DeleteCreationDraftCAS = gdt_DeleteCreationDraftCAS scan,
      gd_LockDraftGenerations = gdt_LockDraftGenerations scan,
      gd_LockDraftUsages = gdt_LockDraftUsages scan,
      gd_RedactDraftUsagesCAS = gdt_RedactDraftUsagesCAS scan,
      gd_DeleteExpiredFinalizedDraftUsagesCAS = gdt_DeleteExpiredFinalizedDraftUsagesCAS scan,
      gd_DeleteDraftGenerationsCAS = gdt_DeleteDraftGenerationsCAS scan,
      gd_FindStartReplay = gdt_FindStartReplay scan,
      gd_CountProgressingGoals = gdt_CountProgressingGoals scan,
      gd_InsertInitialGoal = gdt_InsertInitialGoal scan,
      gd_InsertInitialVersion = gdt_InsertInitialVersion scan,
      gd_TryInsertInitialCycleClaim = (\<lambda>current. shared (store_TryInsertCycleClaim scan current)),
      gd_AttachDraftGenerations = gdt_AttachDraftGenerations scan,
      gd_AttachUsageToGoal = gdt_AttachUsageToGoal scan,
      gd_LoadGoalView = (\<lambda>userID goalID. shared (getGoalView scan userID goalID)),
      gd_LoadCycleView = (\<lambda>userID goalID cycleID. shared (queryCycleView scan userID goalID cycleID)),
      gd_FindGoalRefineReplay = gdt_FindGoalRefineReplay scan,
      gd_HasRunningDraftGeneration = gdt_HasRunningDraftGeneration scan,
      gd_InsertGoalRefineGeneration = gdt_InsertGoalRefineGeneration scan,
      gd_LockGoalRefineGeneration = gdt_LockGoalRefineGeneration scan,
      gd_TerminalizeGenerationCAS = gdt_TerminalizeGenerationCAS scan,
      gd_LockSucceededGoalRefineGeneration = gdt_LockSucceededGoalRefineGeneration scan,
      gd_AdoptDraftCAS = gdt_AdoptDraftCAS scan,
      gd_MarkSuggestionAdoptedCAS = gdt_MarkSuggestionAdoptedCAS scan\<rparr>"

definition store_ActionAITx :: "(string \<Rightarrow> string option) \<Rightarrow> workspaceActionAITx ActionAITx" where
  "store_ActionAITx scan =
     \<lparr>ai_LockUser = (\<lambda>userID. shared (store_LockUser scan userID)),
      ai_LockGoalWithCurrentVersion = gdt_LockGoalWithCurrentVersion scan,
      ai_ListAIContextCycles = gdt_ListAIContextCycles scan,
      ai_LockExpiredGenerations = gdt_LockExpiredGenerations scan,
      ai_SumLockedReservationsByMonth = gdt_SumLockedReservationsByMonth scan,
      ai_ReleaseBudgetReservationCAS = gdt_ReleaseBudgetReservationCAS,
      ai_ExpireGenerationCAS = gdt_ExpireGenerationCAS scan,
      ai_ExpireUsageCAS = gdt_ExpireUsageCAS scan,
      ai_CountRollingUsage = gdt_CountRollingUsage scan,
      ai_IncrementRateBucket = gdt_IncrementRateBucket,
      ai_EnsureBudgetMonth = gdt_EnsureBudgetMonth,
      ai_LockBudgetMonth = gdt_LockBudgetMonth,
      ai_ReserveBudgetCAS = gdt_ReserveBudgetCAS,
      ai_InsertAcceptedUsage = gdt_InsertAcceptedUsage scan,
      ai_FindGenerationLocator = gdt_FindGenerationLocator scan,
      ai_SettleBudgetCAS = gdt_SettleBudgetCAS,
      ai_FinalizeUsageCAS = gdt_FinalizeUsageCAS scan,
      ai_FindUsageLocator = gdt_FindUsageLocator scan,
      ai_LockUsage = gdt_LockUsage scan,
      ai_AddLateActualCostCAS = gdt_AddLateActualCostCAS,
      ai_FinalizeLateUsageCAS = gdt_FinalizeLateUsageCAS scan,
      aat_LockActionCycle = gdt_LockActionCycle scan,
      aat_FindActionAIReplay = gdt_FindActionAIReplay scan,
      aat_HasRunningCycleGeneration = gdt_HasRunningCycleGeneration scan,
      aat_InsertActionAIGeneration = gdt_InsertActionAIGeneration scan,
      aat_LockActionAIGeneration = gdt_LockActionAIGeneration scan,
      aat_ApplyActionAICAS = gdt_ApplyActionAICAS scan,
      aat_TerminalizeActionAIGenerationCAS = gdt_TerminalizeActionAIGenerationCAS scan\<rparr>"

text \<open>A transaction starts on the database and leaves it as it was when its callback fails.\<close>

definition goal_draft_tx :: "Database \<Rightarrow> workspaceGoalDraftTx" where
  "goal_draft_tx d = \<lparr>gdt_db = d, gdt_lockedGenerationUserID = [], gdt_lockedGenerationID = []\<rparr>"

definition action_ai_tx :: "Database \<Rightarrow> workspaceActionAITx" where
  "action_ai_tx d =
     \<lparr>gdt_db = d, gdt_lockedGenerationUserID = [], gdt_lockedGenerationID = [],
      gdt_lockedActionCycle = None\<rparr>"

definition WithinGoalDraftTransaction ::
  "(workspaceGoalDraftTx, 'a) tx \<Rightarrow> Database \<Rightarrow> (workspace_error + 'a) \<times> Database" where
  "WithinGoalDraftTransaction callback d =
     (case callback (goal_draft_tx d) of Inl e \<Rightarrow> (Inl e, d) | Inr (x, s) \<Rightarrow> (Inr x, gdt_db s))"

definition WithinActionAITransaction ::
  "(workspaceActionAITx, 'a) tx \<Rightarrow> Database \<Rightarrow> (workspace_error + 'a) \<times> Database" where
  "WithinActionAITransaction callback d =
     (case callback (action_ai_tx d) of Inl e \<Rightarrow> (Inl e, d) | Inr (x, s) \<Rightarrow> (Inr x, gdt_db s))"

end
