(* ===== verification/ReviewStore.thy ===== *)
theory ReviewStore
  imports GoalDraftStore
begin

section \<open>The PostgreSQL adapter of the review transitions\<close>

text \<open>
  Model of \<open>workspace_review_transition_uow.go\<close> over the statements of \<open>queries/goal_transitions.sql\<close> and
  \<open>cycle_transitions.sql\<close>.  The transaction embeds those of the Cycles and of the Goal drafts on one
  connection: its state is that of the Cycle transaction, and the statements of the drafts run on
  the same database.
\<close>

definition on_drafts :: "(workspaceGoalDraftTx, 'a) tx \<Rightarrow> 'a store_tx" where
  "on_drafts m s =
     (case m (goal_draft_tx (wct_db s)) of
        Inl e \<Rightarrow> Inl e
      | Inr (x, t) \<Rightarrow> Inr (x, s\<lparr>wct_db := gdt_db t\<rparr>))"

subsection \<open>Receipts\<close>

definition rts_FindContinueReviewReceipt ::
  "(string \<Rightarrow> string option) \<Rightarrow> string \<Rightarrow> string \<Rightarrow> ContinueReviewReceipt option store_tx" where
  "rts_FindContinueReviewReceipt scan userID operationID =
     tx_bind (mustUUID scan userID) (\<lambda>user_id.
     tx_bind (mustUUID scan operationID) (\<lambda>operation_id.
     tx_bind (query (\<lambda>d. map_option (\<lambda>c. (c, list_ex (\<lambda>v. sql_eq (sv_UserID v) (pc_UserID c) \<and>
                  sql_eq (sv_GoalID v) (pc_GoalID c) \<and>
                  sql_eq (sv_CreatedByOperationID v) (pc_StartOperationID c)) (db_goal_versions d)))
                (find (\<lambda>c. sql_eq (pc_UserID c) user_id \<and>
                           sql_eq (pc_StartOperationID c) operation_id) (db_pdca_cycles d)))) (\<lambda>row.
     case row of
       None \<Rightarrow> tx_return None
     | Some (c, version_created) \<Rightarrow>
         tx_bind (tx_lift (continueReviewReceiptFromSQLC (pc_GoalID c) (pc_ID c) (pc_StartRequestHash c)
                    version_created)) (\<lambda>r. tx_return (Some r)))))"

definition goalTerminationReceiptFromTransitionRow ::
  "pgUUID \<Rightarrow> string option \<Rightarrow> workspace_error + GoalTerminationReceipt" where
  "goalTerminationReceiptFromTransitionRow goal_id request_hash =
     (if goal_id = None \<or> request_hash = None \<or> request_hash = Some []
      then Inl (ErrReviewTransitionInvariant ''Goal termination receipt is incomplete'')
      else let goalID = uuidString goal_id in
        if goalID = [] then Inl (ErrReviewTransitionInvariant ''Goal termination receipt identity is invalid'')
        else Inr \<lparr>gtr_GoalID = goalID, gtr_RequestHash = the request_hash\<rparr>)"

definition rts_FindGoalTerminationReceipt ::
  "(string \<Rightarrow> string option) \<Rightarrow> string \<Rightarrow> string \<Rightarrow> GoalTerminationReceipt option store_tx" where
  "rts_FindGoalTerminationReceipt scan userID operationID =
     tx_bind (mustUUID scan userID) (\<lambda>user_id.
     tx_bind (mustUUID scan operationID) (\<lambda>operation_id.
     tx_bind (query (\<lambda>d. find (\<lambda>g. sql_eq (gr_UserID g) user_id \<and>
                sql_eq (gr_TerminalOperationID g) operation_id) (db_goals d))) (\<lambda>row.
     case row of
       None \<Rightarrow> tx_return None
     | Some g \<Rightarrow>
         tx_bind (tx_lift (goalTerminationReceiptFromTransitionRow (gr_ID g) (gr_TerminalRequestHash g)))
           (\<lambda>r. tx_return (Some r)))))"

subsection \<open>Locks and writes of its own\<close>

definition rts_HasRunningGoalGeneration ::
  "(string \<Rightarrow> string option) \<Rightarrow> string \<Rightarrow> string \<Rightarrow> bool store_tx" where
  "rts_HasRunningGoalGeneration scan userID goalID =
     tx_bind (mustUUID scan userID) (\<lambda>user_id.
     tx_bind (mustUUID scan goalID) (\<lambda>goal_id.
     query (\<lambda>d. list_ex (\<lambda>g. sql_eq (ge_UserID g) user_id \<and> sql_eq (ge_GoalID g) goal_id \<and>
       ge_Status g = ''running'') (db_ai_generations d))))"

definition rts_ContinueGoalCAS :: "(string \<Rightarrow> string option) \<Rightarrow> Goal \<Rightarrow> i64 \<Rightarrow> i64 store_tx" where
  "rts_ContinueGoalCAS scan continued expectedRevision =
     tx_bind (mustUUID scan (go_ID continued)) (\<lambda>goal_id.
     tx_bind (mustUUID scan (go_UserID continued)) (\<lambda>user_id.
     exec (update_goals
       (\<lambda>g. owned_goal goal_id user_id g \<and> gr_Status g = ''goal_review'' \<and> gr_Revision g = expectedRevision)
       (\<lambda>g. g\<lparr>gr_Status := go_Status continued,
             gr_CurrentVersionNumber := go_CurrentVersionNumber continued,
             gr_NextCycleSequenceNumber := go_NextCycleSequenceNumber continued,
             gr_Revision := go_Revision continued,
             gr_UpdatedAt := stored_at (go_UpdatedAt continued)\<rparr>))))"

definition rts_CancelCycleCAS :: "(string \<Rightarrow> string option) \<Rightarrow> PDCACycle \<Rightarrow> i64 \<Rightarrow> i64 store_tx" where
  "rts_CancelCycleCAS scan canceled expectedContentRevision =
     (case (cy_CanceledAt canceled, cy_CancellationReason canceled) of
        (Some canceledAt, Some reason) \<Rightarrow>
          if cy_Status canceled \<noteq> StatusCanceled
          then tx_fail (ErrReviewTransitionInvariant ''canceled Cycle state is incomplete'')
          else
            tx_bind (mustUUID scan (cy_ID canceled)) (\<lambda>cycle_id.
            tx_bind (mustUUID scan (cy_UserID canceled)) (\<lambda>user_id.
            tx_bind (mustUUID scan (cy_GoalID canceled)) (\<lambda>goal_id.
            exec (update_cycles
              (\<lambda>r. owned_cycle cycle_id user_id goal_id r \<and> pc_Status r = ''active'' \<and>
                   pc_ContentRevision r = expectedContentRevision)
              (\<lambda>r. r\<lparr>pc_Status := cy_Status canceled, pc_CanceledAt := stored_at canceledAt,
                    pc_CancellationReason := Some reason,
                    pc_UpdatedAt := stored_at (cy_UpdatedAt canceled)\<rparr>)))))
      | _ \<Rightarrow> tx_fail (ErrReviewTransitionInvariant ''canceled Cycle state is incomplete''))"

text \<open>The success signal of a draft goes with it.\<close>

definition rts_DeleteReviewDraftCAS ::
  "(string \<Rightarrow> string option) \<Rightarrow> string \<Rightarrow> string \<Rightarrow> i64 \<Rightarrow> i64 store_tx" where
  "rts_DeleteReviewDraftCAS scan userID draftID expectedRevision =
     tx_bind (mustUUID scan draftID) (\<lambda>draft_id.
     tx_bind (mustUUID scan userID) (\<lambda>user_id.
     exec (\<lambda>d.
       let selected = (\<lambda>r. sql_eq (sd_ID r) draft_id \<and> sql_eq (sd_UserID r) user_id \<and>
             sd_DraftType r = ''review'' \<and> sd_Revision r = expectedRevision) in
       Inr (of_nat (length (filter selected (db_goal_drafts d))),
            d\<lparr>db_goal_drafts := filter (\<lambda>r. \<not> selected r) (db_goal_drafts d),
              db_goal_draft_success_signals := filter (\<lambda>(ident, _).
                \<not> list_ex (\<lambda>r. selected r \<and> sql_eq (sd_ID r) ident) (db_goal_drafts d))
                (db_goal_draft_success_signals d)\<rparr>))))"

text \<open>An operation terminates one Goal of a User: the schema has a unique key for it.\<close>

definition rts_TerminateGoalCAS :: "(string \<Rightarrow> string option) \<Rightarrow> Goal \<Rightarrow> i64 \<Rightarrow> i64 store_tx" where
  "rts_TerminateGoalCAS scan terminated expectedRevision =
     (case (go_TerminalAt terminated, go_TerminalOperationID terminated, go_TerminalRequestHash terminated) of
        (Some terminalAt, Some operationID, Some requestHash) \<Rightarrow>
          tx_bind (mustUUID scan operationID) (\<lambda>operation_id.
          tx_bind (mustUUID scan (go_ID terminated)) (\<lambda>goal_id.
          tx_bind (mustUUID scan (go_UserID terminated)) (\<lambda>user_id.
          exec (\<lambda>d.
            let selected = (\<lambda>g. owned_goal goal_id user_id g \<and>
                  (gr_Status g = ''active_cycle'' \<or> gr_Status g = ''goal_review'') \<and>
                  gr_Revision g = expectedRevision) in
            if list_ex selected (db_goals d) \<and>
               list_ex (\<lambda>g. \<not> selected g \<and> sql_eq (gr_UserID g) user_id \<and>
                  sql_eq (gr_TerminalOperationID g) operation_id) (db_goals d)
            then Inl unique_violation
            else update_goals selected
              (\<lambda>g. g\<lparr>gr_Status := go_Status terminated, gr_Revision := go_Revision terminated,
                    gr_TerminalAt := stored_at terminalAt, gr_TerminalOperationID := operation_id,
                    gr_TerminalRequestHash := Some requestHash,
                    gr_UpdatedAt := stored_at (go_UpdatedAt terminated)\<rparr>) d))))
      | _ \<Rightarrow> tx_fail (ErrReviewTransitionInvariant ''terminated Goal state is incomplete''))"

subsection \<open>The transaction\<close>

definition store_ReviewTransitionTx :: "(string \<Rightarrow> string option) \<Rightarrow> workspaceCycleTx ReviewTransitionTx" where
  "store_ReviewTransitionTx scan =
     \<lparr>rt_FindContinueReviewReceipt = rts_FindContinueReviewReceipt scan,
      rt_FindGoalTerminationReceipt = rts_FindGoalTerminationReceipt scan,
      rt_LockUser = store_LockUser scan, rt_LockGoal = store_LockGoal scan, rt_LockCycle = store_LockCycle scan,
      rt_LockReviewDraft = (\<lambda>userID goalID. on_drafts (gdt_LockReviewDraftByGoal scan userID goalID)),
      rt_LoadCurrentGoalVersion = store_LoadCurrentGoalVersion scan,
      rt_HasRunningGoalGeneration = rts_HasRunningGoalGeneration scan,
      rt_LockDraftGenerations = (\<lambda>userID draftID. on_drafts (gdt_LockDraftGenerations scan userID draftID)),
      rt_LockDraftUsages = (\<lambda>userID ids. on_drafts (gdt_LockDraftUsages scan userID ids)),
      rt_InsertGoalVersion = (\<lambda>version. on_drafts (gdt_InsertInitialVersion scan version)),
      rt_TryInsertReviewCycleClaim = store_TryInsertCycleClaim scan,
      rt_ContinueGoalCAS = rts_ContinueGoalCAS scan,
      rt_AttachDraftGenerations = (\<lambda>userID draftID ids goalID versionID.
        on_drafts (gdt_AttachDraftGenerations scan userID draftID ids goalID versionID)),
      rt_AttachUsageToGoal = (\<lambda>userID ids goalID. on_drafts (gdt_AttachUsageToGoal scan userID ids goalID)),
      rt_CancelCycleCAS = rts_CancelCycleCAS scan,
      rt_RedactDraftUsagesCAS = (\<lambda>userID ids. on_drafts (gdt_RedactDraftUsagesCAS scan userID ids)),
      rt_DeleteExpiredFinalizedDraftUsagesCAS = (\<lambda>userID ids now.
        on_drafts (gdt_DeleteExpiredFinalizedDraftUsagesCAS scan userID ids now)),
      rt_DeleteDraftGenerationsCAS = (\<lambda>userID draftID ids.
        on_drafts (gdt_DeleteDraftGenerationsCAS scan userID draftID ids)),
      rt_DeleteReviewDraftCAS = rts_DeleteReviewDraftCAS scan,
      rt_TerminateGoalCAS = rts_TerminateGoalCAS scan,
      rt_LoadGoalView = getGoalView scan, rt_LoadCycleView = queryCycleView scan\<rparr>"

definition WithinReviewTransitionTransaction ::
  "'a store_tx \<Rightarrow> Database \<Rightarrow> (workspace_error + 'a) \<times> Database" where
  "WithinReviewTransitionTransaction = WithinCycleTransaction"

end
