(* ===== verification/AILedger.thy ===== *)
theory AILedger
  imports CycleContract GoalRefine ActionAI
begin

section \<open>The contract of the AI ledger and what the use cases make of it\<close>

text \<open>
  The AI operations account for money in two tables: a usage that waits for its settlement, and the
  budget of a month.  \<open>ai_ledger\<close> states what the use cases rely on when they settle an operation:
  which operations of the interface only read, that a write of the actual cost adds exactly that
  cost, and that a usage is finalized at most once.  \<open>refine_ledger\<close> and \<open>action_ledger\<close> add the
  operations the two kinds of use cases have for themselves.  \<open>AILedgerStore\<close> interprets them on the
  PostgreSQL adapter; \<open>AIBudget\<close> extends the contract by what accepting an operation relies on.
\<close>

subsection \<open>Following a settlement\<close>

text \<open>
  A settlement of an operation either leaves the ledger alone, or it finds the usage of the
  operation unsettled, leaves it settled and adds the cost to the actual costs.
\<close>

definition settles ::
  "('l \<Rightarrow> bool) \<Rightarrow> ('l \<Rightarrow> rat) \<Rightarrow> ('l \<Rightarrow> string \<Rightarrow> bool) \<Rightarrow> string \<Rightarrow> rat \<Rightarrow> 'l \<Rightarrow> 'l \<Rightarrow> bool" where
  "settles keyed charged unsettled generationID cost l l' \<longleftrightarrow>
     l' = l \<or> (unsettled l generationID \<and> \<not> unsettled l' generationID \<and> keyed l' \<and>
               charged l' = charged l + money cost)"

text \<open>Two settlements of one operation in a row: the second one finds nothing to do.\<close>

lemma settles_once:
  "settles keyed charged unsettled generationID cost l l' \<Longrightarrow> l' \<noteq> l \<Longrightarrow>
   settles keyed charged unsettled generationID cost' l' l'' \<Longrightarrow> l'' = l'"
  by (auto simp: settles_def)

locale ai_ledger =
  fixes tx :: "('s, 'z) AITx_scheme"
    and ledger :: "'s \<Rightarrow> 'l"
    and keyed :: "'l \<Rightarrow> bool"
    and charged :: "'l \<Rightarrow> rat"
    and unsettled :: "'l \<Rightarrow> string \<Rightarrow> bool"
  assumes LockUser_reads: "keeps ledger (ai_LockUser tx userID)"
    and LockGoal_reads: "keeps ledger (ai_LockGoalWithCurrentVersion tx userID goalID)"
    and FindGenerationLocator_reads: "keeps ledger (ai_FindGenerationLocator tx generationID)"
    and FindUsageLocator_reads: "keeps ledger (ai_FindUsageLocator tx generationID)"
    and LockUsage_reads: "keeps ledger (ai_LockUsage tx generationID userID)"
    and EnsureBudgetMonth_law:
      "ai_EnsureBudgetMonth tx month now s = Inr (u, t) \<Longrightarrow> keyed (ledger s) \<Longrightarrow>
       keyed (ledger t) \<and> charged (ledger t) = charged (ledger s) \<and>
       unsettled (ledger t) generationID = unsettled (ledger s) generationID"
    and AddLateActualCost_law:
      "ai_AddLateActualCostCAS tx month (decimalFromFloat cost) now s = Inr (1, t) \<Longrightarrow> keyed (ledger s) \<Longrightarrow>
       keyed (ledger t) \<and> charged (ledger t) = charged (ledger s) + money cost \<and>
       unsettled (ledger t) generationID = unsettled (ledger s) generationID"
    and SettleBudget_law:
      "ai_SettleBudgetCAS tx month reserved (decimalFromFloat cost) now s = Inr (1, t) \<Longrightarrow> keyed (ledger s) \<Longrightarrow>
       keyed (ledger t) \<and> charged (ledger t) = charged (ledger s) + money cost \<and>
       unsettled (ledger t) generationID = unsettled (ledger s) generationID"
    and FinalizeUsage_law:
      "ai_FinalizeUsageCAS tx settlement s = Inr (1, t) \<Longrightarrow> keyed (ledger s) \<Longrightarrow>
       keyed (ledger t) \<and> charged (ledger t) = charged (ledger s) \<and>
       unsettled (ledger s) (aus_OperationID settlement) \<and>
       \<not> unsettled (ledger t) (aus_OperationID settlement)"
    and FinalizeLateUsage_law:
      "ai_FinalizeLateUsageCAS tx settlement s = Inr (1, t) \<Longrightarrow> keyed (ledger s) \<Longrightarrow>
       keyed (ledger t) \<and> charged (ledger t) = charged (ledger s) \<and>
       unsettled (ledger s) (aus_OperationID settlement) \<and>
       \<not> unsettled (ledger t) (aus_OperationID settlement)"
begin

text \<open>\<open>settling\<close>: from a ledger with its keys, a run that commits is a settlement.\<close>

definition settling :: "string \<Rightarrow> rat \<Rightarrow> ('s, 'a) tx \<Rightarrow> bool" where
  "settling generationID cost m \<longleftrightarrow>
     (\<forall>s x t. keyed (ledger s) \<longrightarrow> m s = Inr (x, t) \<longrightarrow>
        settles keyed charged unsettled generationID cost (ledger s) (ledger t))"

lemma settlingD:
  "settling generationID cost m \<Longrightarrow> keyed (ledger s) \<Longrightarrow> m s = Inr (x, t) \<Longrightarrow>
   settles keyed charged unsettled generationID cost (ledger s) (ledger t)"
  by (auto simp: settling_def)

lemma settling_keeps: "keeps ledger m \<Longrightarrow> settling generationID cost m"
  by (auto simp: settling_def settles_def keeps_def)

lemma settling_pure:
  "settling generationID cost (tx_return x)" "settling generationID cost (tx_fail e)"
  by (auto intro!: settling_keeps keeps_intros)

lemma settling_bind:
  "keeps ledger m \<Longrightarrow> (\<And>x. settling generationID cost (f x)) \<Longrightarrow> settling generationID cost (tx_bind m f)"
  unfolding settling_def keeps_def by simp metis

lemma settling_then_return:
  "settling generationID cost m \<Longrightarrow> settling generationID cost (tx_bind m (\<lambda>x. tx_return (f x)))"
  unfolding settling_def by auto

lemma settling_if:
  "(b \<Longrightarrow> settling generationID cost m) \<Longrightarrow> (\<not> b \<Longrightarrow> settling generationID cost n) \<Longrightarrow>
   settling generationID cost (if b then m else n)"
  by simp

lemma settling_option:
  "(r = None \<Longrightarrow> settling generationID cost m) \<Longrightarrow> (\<And>x. r = Some x \<Longrightarrow> settling generationID cost (f x)) \<Longrightarrow>
   settling generationID cost (case r of None \<Rightarrow> m | Some x \<Rightarrow> f x)"
  by (cases r) auto

lemma settling_sum:
  "(\<And>e. settling generationID cost (f e)) \<Longrightarrow> (\<And>x. settling generationID cost (g x)) \<Longrightarrow>
   settling generationID cost (case r of Inl e \<Rightarrow> f e | Inr x \<Rightarrow> g x)"
  by (cases r) auto

lemma settling_let: "settling generationID cost (m v) \<Longrightarrow> settling generationID cost (let x = v in m x)"
  by simp

lemma keeps_try: "keeps ledger m \<Longrightarrow> keeps ledger (tx_try m)"
  by (auto simp: keeps_def tx_try_def split: sum.splits)

lemma settling_lock_or_late:
  "keeps ledger lock \<Longrightarrow> settling generationID cost late \<Longrightarrow> (\<And>x. settling generationID cost (f x)) \<Longrightarrow>
   settling generationID cost (lock_or_late lock late f)"
  unfolding lock_or_late_def by (intro settling_bind keeps_try settling_sum settling_if settling_pure)

lemmas settling_intros =
  settling_pure settling_lock_or_late settling_bind settling_if settling_option settling_sum settling_let
  keeps_try keeps_intros

subsection \<open>The two settlements\<close>

lemma must_write_Inr [simp]: "must_write invariant operation m s = Inr (u, t) \<longleftrightarrow> m s = Inr (1, t)"
  by (auto simp: must_write_def split: if_splits)

lemma must_affect_Inr [simp]:
  "must_affect operation 1 m s = Inr (u, t) \<longleftrightarrow> m s = Inr (1, t)"
  by (auto simp: must_affect_def requireRows_def split: if_splits)

lemma settle_budget_charges:
  assumes "settle_budget invariant o1 o2 tx generationID month reserved status result now s = Inr (u, t)"
    "keyed (ledger s)"
  shows "unsettled (ledger s) generationID \<and> \<not> unsettled (ledger t) generationID \<and> keyed (ledger t) \<and>
    charged (ledger t) = charged (ledger s) + money (au_CostUSD (ae_Usage result))"
proof -
  from assms(1) obtain s' where
    settle: "ai_SettleBudgetCAS tx month reserved (decimalFromFloat (au_CostUSD (ae_Usage result))) now s = Inr (1, s')" and
    final: "ai_FinalizeUsageCAS tx
        \<lparr>aus_OperationID = generationID, aus_ExpectedBudgetMonthUtc = month,
         aus_ExpectedReservationCostUSD = reserved, aus_Status = status,
         aus_InputTokens = au_InputTokens (ae_Usage result), aus_OutputTokens = au_OutputTokens (ae_Usage result),
         aus_EstimatedCostUSD = decimalFromFloat (au_CostUSD (ae_Usage result)), aus_FinalizedAt = now\<rparr> s' = Inr (1, t)"
    by (auto simp: settle_budget_def Let_def)
  note step = SettleBudget_law[OF settle assms(2), of generationID]
  from FinalizeUsage_law[OF final] step show ?thesis by simp
qed

lemma settle_late_settles:
  "settling generationID (au_CostUSD (ae_Usage result))
     (settle_late invariant tx generationID knownUserID userLocked result providerErr now)"
proof -
  have writes: "settling generationID (au_CostUSD (ae_Usage result))
      (tx_bind (ai_EnsureBudgetMonth tx month now) (\<lambda>_.
       tx_bind (must_write i1 o1 (ai_AddLateActualCostCAS tx month
                  (decimalFromFloat (au_CostUSD (ae_Usage result))) now)) (\<lambda>_.
       tx_bind (must_write i2 o2 (ai_FinalizeLateUsageCAS tx settlement)) (\<lambda>_. tx_return True))))"
    if "aus_OperationID settlement = generationID" for month i1 i2 o1 o2 settlement
  proof (unfold settling_def, intro allI impI)
    fix s x t
    assume k: "keyed (ledger s)" and "tx_bind (ai_EnsureBudgetMonth tx month now) (\<lambda>_.
       tx_bind (must_write i1 o1 (ai_AddLateActualCostCAS tx month
                  (decimalFromFloat (au_CostUSD (ae_Usage result))) now)) (\<lambda>_.
       tx_bind (must_write i2 o2 (ai_FinalizeLateUsageCAS tx settlement)) (\<lambda>_. tx_return True))) s = Inr (x, t)"
    then obtain u a b where steps: "ai_EnsureBudgetMonth tx month now s = Inr (u, a)"
      "ai_AddLateActualCostCAS tx month (decimalFromFloat (au_CostUSD (ae_Usage result))) now a = Inr (1, b)"
      "ai_FinalizeLateUsageCAS tx settlement b = Inr (1, t)" by auto
    note e = EnsureBudgetMonth_law[OF steps(1) k, of generationID]
    then have k2: "keyed (ledger a)" by blast
    note l = AddLateActualCost_law[OF steps(2) k2, of generationID]
    then have k3: "keyed (ledger b)" by blast
    from FinalizeLateUsage_law[OF steps(3) k3] e l that
    show "settles keyed charged unsettled generationID (au_CostUSD (ae_Usage result)) (ledger s) (ledger t)"
      by (simp add: settles_def)
  qed
  show ?thesis unfolding settle_late_def Let_def
    by (intro settling_intros writes FindUsageLocator_reads LockUsage_reads LockUser_reads) simp_all
qed

lemma finish_late_settles:
  "settling generationID (au_CostUSD (ae_Usage result))
     (finish_late invariant tx generationID knownUserID userLocked result providerErr now)"
  unfolding finish_late_def by (rule settling_then_return[OF settle_late_settles])

text \<open>
  The main settlement: \<open>neutral\<close> writes leave the ledger's figures alone, a \<open>charging\<close> run always
  settles the operation.
\<close>

definition neutral :: "string \<Rightarrow> ('s, 'a) tx \<Rightarrow> bool" where
  "neutral generationID m \<longleftrightarrow>
     (\<forall>s x t. keyed (ledger s) \<longrightarrow> m s = Inr (x, t) \<longrightarrow>
        keyed (ledger t) \<and> charged (ledger t) = charged (ledger s) \<and>
        unsettled (ledger t) generationID = unsettled (ledger s) generationID)"

definition charging :: "string \<Rightarrow> rat \<Rightarrow> ('s, 'a) tx \<Rightarrow> bool" where
  "charging generationID cost m \<longleftrightarrow>
     (\<forall>s x t. keyed (ledger s) \<longrightarrow> m s = Inr (x, t) \<longrightarrow>
        unsettled (ledger s) generationID \<and> \<not> unsettled (ledger t) generationID \<and> keyed (ledger t) \<and>
        charged (ledger t) = charged (ledger s) + money cost)"

lemma neutral_pure: "neutral generationID (tx_return x)" "neutral generationID (tx_fail e)"
  by (simp_all add: neutral_def)

lemma neutral_if: "neutral generationID m \<Longrightarrow> neutral generationID n \<Longrightarrow> neutral generationID (if b then m else n)"
  by simp

lemma neutral_sum:
  "(\<And>e. neutral generationID (f e)) \<Longrightarrow> (\<And>x. neutral generationID (g x)) \<Longrightarrow>
   neutral generationID (case r of Inl e \<Rightarrow> f e | Inr x \<Rightarrow> g x)"
  by (cases r) auto

lemma neutral_then_return: "neutral generationID m \<Longrightarrow> neutral generationID (tx_bind m (\<lambda>_. tx_return x))"
  by (auto simp: neutral_def)

lemma neutral_must_write:
  "(\<And>s t. m s = Inr (1, t) \<Longrightarrow> keyed (ledger s) \<Longrightarrow> keyed (ledger t) \<and> charged (ledger t) = charged (ledger s) \<and>
      unsettled (ledger t) generationID = unsettled (ledger s) generationID) \<Longrightarrow>
   neutral generationID (must_write invariant operation m)"
  by (simp add: neutral_def)

lemma neutral_must_affect:
  "(\<And>s t. m s = Inr (1, t) \<Longrightarrow> keyed (ledger s) \<Longrightarrow> keyed (ledger t) \<and> charged (ledger t) = charged (ledger s) \<and>
      unsettled (ledger t) generationID = unsettled (ledger s) generationID) \<Longrightarrow>
   neutral generationID (must_affect operation 1 m)"
  by (simp add: neutral_def)

lemmas neutral_intros =
  neutral_pure neutral_if neutral_sum neutral_then_return neutral_must_write neutral_must_affect

lemma charging_after:
  assumes m: "neutral generationID m" and f: "\<And>x. charging generationID cost (f x)"
  shows "charging generationID cost (tx_bind m f)"
  unfolding charging_def
proof (intro allI impI)
  fix s y t
  assume k: "keyed (ledger s)" and "tx_bind m f s = Inr (y, t)"
  then obtain x a where run: "m s = Inr (x, a)" "f x a = Inr (y, t)" by auto
  from m[unfolded neutral_def, rule_format, OF k run(1)] have a: "keyed (ledger a)"
    "charged (ledger a) = charged (ledger s)" "unsettled (ledger a) generationID = unsettled (ledger s) generationID"
    by auto
  from f[unfolded charging_def, rule_format, OF a(1) run(2)] a(2,3)
  show "unsettled (ledger s) generationID \<and> \<not> unsettled (ledger t) generationID \<and> keyed (ledger t) \<and>
      charged (ledger t) = charged (ledger s) + money cost" by simp
qed

lemma charging_settle_budget:
  "charging generationID (au_CostUSD (ae_Usage result))
     (tx_bind (settle_budget invariant o1 o2 tx generationID month reserved status result now)
        (\<lambda>x. tx_return (f x)))"
  unfolding charging_def by (auto dest!: settle_budget_charges)

lemma settling_charging: "charging generationID cost m \<Longrightarrow> settling generationID cost m"
  by (auto simp: charging_def settling_def settles_def)

text \<open>\<open>paid\<close>: a run that commits an answer has settled the operation; committed errors are free to differ.\<close>

definition paid :: "string \<Rightarrow> rat \<Rightarrow> ('s, 'e + 'a) tx \<Rightarrow> bool" where
  "paid generationID cost m \<longleftrightarrow>
     (\<forall>s x t. keyed (ledger s) \<longrightarrow> m s = Inr (Inr x, t) \<longrightarrow>
        unsettled (ledger s) generationID \<and> \<not> unsettled (ledger t) generationID \<and> keyed (ledger t) \<and>
        charged (ledger t) = charged (ledger s) + money cost)"

lemma paid_fail: "paid generationID cost (tx_fail e)"
  by (simp add: paid_def)

lemma paid_late:
  "paid generationID cost (finish_late invariant tx generationID' knownUserID userLocked result providerErr now)"
  by (simp add: paid_def finish_late_def)

lemma paid_charging: "charging generationID cost m \<Longrightarrow> paid generationID cost m"
  by (auto simp: charging_def paid_def)

lemma paid_bind: "keeps ledger m \<Longrightarrow> (\<And>x. paid generationID cost (f x)) \<Longrightarrow> paid generationID cost (tx_bind m f)"
  unfolding paid_def keeps_def by simp metis

lemma paid_if:
  "(b \<Longrightarrow> paid generationID cost m) \<Longrightarrow> (\<not> b \<Longrightarrow> paid generationID cost n) \<Longrightarrow>
   paid generationID cost (if b then m else n)"
  by simp

lemma paid_option:
  "(r = None \<Longrightarrow> paid generationID cost m) \<Longrightarrow> (\<And>x. r = Some x \<Longrightarrow> paid generationID cost (f x)) \<Longrightarrow>
   paid generationID cost (case r of None \<Rightarrow> m | Some x \<Rightarrow> f x)"
  by (cases r) auto

lemma paid_lock_or_late:
  assumes "keeps ledger lock" "paid generationID cost late" "\<And>x. paid generationID cost (f x)"
  shows "paid generationID cost (lock_or_late lock late f)"
proof -
  have "paid generationID cost (case found of Inl err \<Rightarrow> if err = ErrNotFound then late else tx_fail err | Inr row \<Rightarrow> f row)"
    for found using assms(2,3) by (cases found) (simp_all add: paid_fail)
  then show ?thesis unfolding lock_or_late_def by (intro paid_bind keeps_try assms(1))
qed

lemmas paid_intros = paid_fail paid_late paid_lock_or_late paid_bind paid_if paid_option keeps_try keeps_intros

end

subsection \<open>Goal refinements\<close>

locale refine_ledger = ai_ledger tx ledger keyed charged unsettled
  for tx :: "'s GoalDraftTx" and ledger :: "'s \<Rightarrow> 'l" and keyed charged unsettled +
  assumes LockDraftByID_reads: "keeps ledger (gd_LockDraftByID tx userID draftID)"
    and LockReviewDraft_reads: "keeps ledger (gd_LockReviewDraftByGoal tx userID goalID)"
    and LockGoalRefineGeneration_reads: "keeps ledger (gd_LockGoalRefineGeneration tx key)"
    and TerminalizeGeneration_law:
      "gd_TerminalizeGenerationCAS tx terminal s = Inr (1, t) \<Longrightarrow> keyed (ledger s) \<Longrightarrow>
       keyed (ledger t) \<and> charged (ledger t) = charged (ledger s) \<and>
       unsettled (ledger t) generationID = unsettled (ledger s) generationID"
begin

lemma finish_refine_locked_settles:
  "settling (as_GenerationID snapshot) (au_CostUSD (ae_Usage result))
     (finish_refine_locked tx snapshot result providerErr now draft generation)"
  unfolding finish_refine_locked_def Let_def
  by (intro settling_if settling_pure settling_charging charging_settle_budget charging_after
      neutral_must_affect TerminalizeGeneration_law)

lemma finish_refine_locked_paid:
  "paid (as_GenerationID snapshot) (au_CostUSD (ae_Usage result))
     (finish_refine_locked tx snapshot result providerErr now draft generation)"
  unfolding finish_refine_locked_def Let_def
  by (intro paid_if paid_fail paid_charging charging_settle_budget charging_after
      neutral_must_affect TerminalizeGeneration_law)

lemma lockGoalRefineDraft_reads: "keeps ledger (lockGoalRefineDraft tx userID draftID goalID)"
  unfolding lockGoalRefineDraft_def by (intro keeps_intros LockDraftByID_reads LockReviewDraft_reads)

lemma finish_refine_settles:
  "settling (as_GenerationID snapshot) (au_CostUSD (ae_Usage result))
     (finish_refine_tx tx snapshot result providerErr now)"
  unfolding finish_refine_tx_def Let_def
  by (intro settling_intros finish_late_settles finish_refine_locked_settles FindGenerationLocator_reads
      LockUser_reads LockGoal_reads lockGoalRefineDraft_reads LockGoalRefineGeneration_reads)

lemma finish_refine_paid:
  "paid (as_GenerationID snapshot) (au_CostUSD (ae_Usage result))
     (finish_refine_tx tx snapshot result providerErr now)"
  unfolding finish_refine_tx_def Let_def
  by (intro paid_intros finish_refine_locked_paid FindGenerationLocator_reads
      LockUser_reads LockGoal_reads lockGoalRefineDraft_reads LockGoalRefineGeneration_reads)

lemma FinishGoalRefine_paid:
  assumes "keyed (ledger s)" "FinishGoalRefine tx snapshot result providerErr now s = (Inr response, t)"
  shows "ledger t \<noteq> ledger s \<and>
    settles keyed charged unsettled (as_GenerationID snapshot) (au_CostUSD (ae_Usage result)) (ledger s) (ledger t)"
proof -
  from assms(2) have "finish_refine_tx tx snapshot result providerErr (utc now) s = Inr (Inr response, t)"
    by (auto simp: FinishGoalRefine_def outcome_def commit_or_rollback_def split: sum.splits)
  with finish_refine_paid[of snapshot result providerErr "utc now"] assms(1)
  show ?thesis unfolding paid_def settles_def by metis
qed

lemma FinishGoalRefine_settles:
  "keyed (ledger s) \<Longrightarrow>
   settles keyed charged unsettled (as_GenerationID snapshot) (au_CostUSD (ae_Usage result)) (ledger s)
     (ledger (snd (FinishGoalRefine tx snapshot result providerErr now s)))"
  using settlingD[OF finish_refine_settles]
  by (auto simp: FinishGoalRefine_def commit_or_rollback_def settles_def split: sum.splits)

end

subsection \<open>Actions\<close>

locale action_ledger = ai_ledger tx ledger keyed charged unsettled
  for tx :: "'s ActionAITx" and ledger :: "'s \<Rightarrow> 'l" and keyed charged unsettled +
  assumes LockActionCycle_reads: "keeps ledger (aat_LockActionCycle tx userID goalID cycleID)"
    and LockActionAIGeneration_reads: "keeps ledger (aat_LockActionAIGeneration tx key)"
    and ApplyActionAI_law:
      "aat_ApplyActionAICAS tx apply s = Inr (1, t) \<Longrightarrow> keyed (ledger s) \<Longrightarrow>
       keyed (ledger t) \<and> charged (ledger t) = charged (ledger s) \<and>
       unsettled (ledger t) generationID = unsettled (ledger s) generationID"
    and TerminalizeActionAIGeneration_law:
      "aat_TerminalizeActionAIGenerationCAS tx terminal s = Inr (1, t) \<Longrightarrow> keyed (ledger s) \<Longrightarrow>
       keyed (ledger t) \<and> charged (ledger t) = charged (ledger s) \<and>
       unsettled (ledger t) generationID = unsettled (ledger s) generationID"
begin

lemma apply_action_output_neutral:
  "neutral generationID (apply_action_output tx locator generation current action now)"
  unfolding apply_action_output_def by (intro neutral_intros ApplyActionAI_law)

lemma finish_action_locked_settles:
  "settling (as_GenerationID snapshot) (au_CostUSD (ae_Usage result))
     (finish_action_locked tx snapshot result providerErr now locator target current generation)"
  unfolding finish_action_locked_def Let_def
  by (intro settling_if settling_pure settling_charging charging_settle_budget charging_after
      neutral_if neutral_pure apply_action_output_neutral neutral_must_write TerminalizeActionAIGeneration_law)

lemma finish_action_locked_paid:
  "paid (as_GenerationID snapshot) (au_CostUSD (ae_Usage result))
     (finish_action_locked tx snapshot result providerErr now locator target current generation)"
  unfolding finish_action_locked_def Let_def
  by (intro paid_if paid_fail paid_charging charging_settle_budget charging_after
      neutral_if neutral_pure apply_action_output_neutral neutral_must_write TerminalizeActionAIGeneration_law)

lemma finish_action_settles:
  "settling (as_GenerationID snapshot) (au_CostUSD (ae_Usage result))
     (finish_action_tx tx snapshot result providerErr now)"
  unfolding finish_action_tx_def Let_def
  by (intro settling_intros finish_late_settles finish_action_locked_settles FindGenerationLocator_reads
      LockUser_reads LockGoal_reads LockActionCycle_reads LockActionAIGeneration_reads)

lemma finish_action_paid:
  "paid (as_GenerationID snapshot) (au_CostUSD (ae_Usage result))
     (finish_action_tx tx snapshot result providerErr now)"
  unfolding finish_action_tx_def Let_def
  by (intro paid_intros finish_action_locked_paid FindGenerationLocator_reads
      LockUser_reads LockGoal_reads LockActionCycle_reads LockActionAIGeneration_reads)

lemma FinishAction_paid:
  assumes "keyed (ledger s)" "uc_FinishAction tx snapshot result providerErr now s = (Inr response, t)"
  shows "ledger t \<noteq> ledger s \<and>
    settles keyed charged unsettled (as_GenerationID snapshot) (au_CostUSD (ae_Usage result)) (ledger s) (ledger t)"
proof -
  from assms(2) have "finish_action_tx tx snapshot result providerErr (utc now) s = Inr (Inr response, t)"
    by (auto simp: uc_FinishAction_def outcome_def commit_or_rollback_def split: sum.splits)
  with finish_action_paid[of snapshot result providerErr "utc now"] assms(1)
  show ?thesis unfolding paid_def settles_def by metis
qed

lemma FinishAction_settles:
  "keyed (ledger s) \<Longrightarrow>
   settles keyed charged unsettled (as_GenerationID snapshot) (au_CostUSD (ae_Usage result)) (ledger s)
     (ledger (snd (uc_FinishAction tx snapshot result providerErr now s)))"
  using settlingD[OF finish_action_settles]
  by (auto simp: uc_FinishAction_def commit_or_rollback_def settles_def split: sum.splits)

end

end
