(* ===== verification/AILedgerStore.thy ===== *)
theory AILedgerStore
  imports AILedger GoalDraftStore
begin

section \<open>The PostgreSQL adapter keeps the AI ledger\<close>

text \<open>
  The interpretations of \<open>AILedger\<close> on the two transactions of \<open>GoalDraftStore\<close>.  The keys of the
  ledger are the primary keys of \<open>ai_usage_events\<close> and \<open>ai_budget_monthly\<close> and the eight decimals of
  the amounts; the figures are the actual costs over all months, and the usages without a time of
  finalization.
\<close>

subsection \<open>The figures\<close>

definition eight_decimals :: "rat \<Rightarrow> bool" where
  "eight_decimals x \<longleftrightarrow> x * 10 ^ 8 = of_int \<lfloor>x * 10 ^ 8\<rfloor>"

definition budget_key :: "BudgetRow \<Rightarrow> int" where
  "budget_key b = nanos (tz_Time (bu_MonthUtc b))"

definition ledger_keys :: "Database \<Rightarrow> bool" where
  "ledger_keys d \<longleftrightarrow>
     distinct (map us_OperationID (db_ai_usage_events d)) \<and>
     distinct (map budget_key (db_ai_budget_monthly d)) \<and>
     (\<forall>b\<in>set (db_ai_budget_monthly d). tz_Valid (bu_MonthUtc b) \<and> eight_decimals (bu_ReservedCostUSD b) \<and>
        eight_decimals (bu_ActualCostUSD b) \<and> eight_decimals (bu_UnattributedCostUSD b))"

definition actual_total :: "Database \<Rightarrow> rat" where
  "actual_total d = sum_list (map bu_ActualCostUSD (db_ai_budget_monthly d))"

definition unsettled_usage :: "(string \<Rightarrow> string option) \<Rightarrow> Database \<Rightarrow> string \<Rightarrow> bool" where
  "unsettled_usage scan d generationID \<longleftrightarrow>
     list_ex (\<lambda>u. sql_eq (us_OperationID u) (scan generationID) \<and> \<not> tz_Valid (us_ProviderUsageFinalizedAt u))
       (db_ai_usage_events d)"

subsection \<open>Amounts with eight decimals\<close>

lemma eight_decimals_iff: "eight_decimals x \<longleftrightarrow> (\<exists>k. x = of_int k / 10 ^ 8)"
proof
  assume "eight_decimals x"
  then have "x = of_int \<lfloor>x * 10 ^ 8\<rfloor> / 10 ^ 8" by (simp add: eight_decimals_def field_simps)
  then show "\<exists>k. x = of_int k / 10 ^ 8" by blast
qed (auto simp: eight_decimals_def)

lemma eight_decimals_arith:
  assumes "eight_decimals x" "eight_decimals y"
  shows "eight_decimals (x + y)" "eight_decimals (x - y)"
proof -
  from assms obtain k l where xy: "x = of_int k / 10 ^ 8" "y = of_int l / 10 ^ 8"
    by (auto simp: eight_decimals_iff)
  have "x + y = of_int (k + l) / 10 ^ 8" "x - y = of_int (k - l) / 10 ^ 8"
    by (simp_all add: xy add_divide_distrib diff_divide_distrib)
  then show "eight_decimals (x + y)" "eight_decimals (x - y)" unfolding eight_decimals_iff by blast+
qed

lemma eight_decimals_money [simp]: "eight_decimals (money cost)"
proof -
  have "money cost = of_int ((if cost < 0 then - 1 else 1) * round_even (\<bar>cost\<bar> * 10 ^ 8)) / 10 ^ 8"
    by (simp add: money_def)
  then show ?thesis unfolding eight_decimals_iff by blast
qed

lemma numeric_8_eight:
  assumes "eight_decimals x"
  shows "numeric_8 x = x"
proof -
  from assms obtain k where x: "x = of_int k / 10 ^ 8" by (auto simp: eight_decimals_iff)
  have "\<bar>x\<bar> * 10 ^ 8 = of_int \<bar>k\<bar>" by (simp add: x abs_if)
  moreover have "\<lfloor>(of_int \<bar>k\<bar> :: rat) + 1 / 2\<rfloor> = \<bar>k\<bar>" by (rule floor_unique) simp_all
  ultimately have "numeric_8 x = sgn x * of_int \<bar>k\<bar> / 10 ^ 8" by (simp only: numeric_8_def)
  then show ?thesis by (simp add: x sgn_if abs_if)
qed

lemma eight_decimals_numeric_8: "eight_decimals (numeric_8 x)"
proof -
  have "numeric_8 x = of_int (of_bool (x > 0) * \<lfloor>\<bar>x\<bar> * 10 ^ 8 + 1 / 2\<rfloor> - of_bool (x < 0) * \<lfloor>\<bar>x\<bar> * 10 ^ 8 + 1 / 2\<rfloor>) / 10 ^ 8"
    by (simp add: numeric_8_def sgn_if)
  then show ?thesis unfolding eight_decimals_iff by blast
qed

lemma numeric_param_decimal [simp]:
  "numeric_param (decimalFromFloat cost) = tx_return (money cost)"
  by (simp add: numeric_param_def decimalFromFloat_read)

subsection \<open>Updates of a keyed table\<close>

lemma keyed_filter:
  "distinct (map key rows) \<Longrightarrow> (\<And>r. selected r \<Longrightarrow> key r = k) \<Longrightarrow> length (filter selected rows) \<le> 1"
proof (induction rows)
  case (Cons r rows)
  have "filter selected rows = []" if "selected r"
    using Cons.prems(1) Cons.prems(2)[OF that] Cons.prems(2) by (auto simp: filter_empty_conv rev_image_eqI)
  then show ?case using Cons by auto
qed simp

lemma one_row:
  assumes "distinct (map key rows)" "\<And>r. selected r \<Longrightarrow> key r = k"
    "of_nat (length (filter selected rows)) = (1 :: i64)"
  shows "length (filter selected rows) = 1"
proof -
  have "length (filter selected rows) \<noteq> 0" using assms(3) by (auto simp del: length_0_conv)
  then show ?thesis using keyed_filter[OF assms(1,2)] by (metis le_antisym less_one not_le)
qed

lemma sum_update:
  "(\<And>r. r \<in> set rows \<Longrightarrow> selected r \<Longrightarrow> f (change r) = f r + c) \<Longrightarrow>
   sum_list (map f (map (\<lambda>r. if selected r then change r else r) rows)) =
     sum_list (map f rows) + of_nat (length (filter selected rows)) * (c :: rat)"
  by (induction rows) (simp_all add: algebra_simps)

lemma map_update_key: "(\<And>r. key (change r) = key r) \<Longrightarrow>
  map key (map (\<lambda>r. if selected r then change r else r) rows) = map key rows"
  by (induction rows) simp_all

subsection \<open>What the operations do with the ledger\<close>

lemma execute_Inr [simp]: "execute f s = Inr (x, t) \<longleftrightarrow> (\<exists>d. f (gdt_db s) = Inr (x, d) \<and> t = s\<lparr>gdt_db := d\<rparr>)"
  by (auto simp: execute_def split: sum.splits)

lemma fetch_Inr [simp]: "fetch f s = Inr (x, t) \<longleftrightarrow> x = f (gdt_db s) \<and> t = s"
  by (auto simp: fetch_def)

lemma keeps_fetch [keeps_intros]: "keeps f (fetch q)"
  by (auto simp: keeps_def)

lemma keeps_shared [keeps_intros]: "keeps wct_db m \<Longrightarrow> keeps gdt_db (shared m)"
  by (fastforce simp: keeps_def shared_def split: sum.splits)

lemma keeps_uuid_array [keeps_intros]: "keeps f (uuid_array scan vs)"
  by (induction vs) (auto intro!: keeps_intros)

lemma keeps_nullable [keeps_intros]: "keeps f (nullableCycleUUID scan v)"
  unfolding nullableCycleUUID_def by (intro keeps_intros)

lemma keeps_numeric_param [keeps_intros]: "keeps f (numeric_param v)"
  unfolding numeric_param_def by (intro keeps_intros)

lemma keeps_notes [keeps_intros]:
  "keeps gdt_db (note_locked_generation userID generationID)" "keeps gdt_db (note_action_cycle c)"
  by (auto simp: keeps_def note_locked_generation_def note_action_cycle_def)

lemma keeps_execute:
  "(\<And>d n d'. f d = Inr (n, d') \<Longrightarrow> g d' = g d) \<Longrightarrow> keeps (\<lambda>s. g (gdt_db s)) (execute f)"
  by (auto simp: keeps_def)

lemma reads:
  "keeps gdt_db (shared (store_LockUser scan userID))"
  "keeps gdt_db (gdt_LockGoalWithCurrentVersion scan userID goalID)"
  "keeps gdt_db (gdt_ListAIContextCycles scan userID goalID exclude limit)"
  "keeps gdt_db (gdt_LockExpiredGenerations scan userID now)"
  "keeps gdt_db (gdt_SumLockedReservationsByMonth scan generationIDs)"
  "keeps gdt_db (gdt_CountRollingUsage scan userID now)"
  "keeps gdt_db (gdt_FindGenerationLocator scan generationID)"
  "keeps gdt_db (gdt_FindUsageLocator scan generationID)"
  "keeps gdt_db (gdt_LockUsage scan generationID userID)"
  unfolding gdt_LockGoalWithCurrentVersion_def gdt_ListAIContextCycles_def gdt_LockExpiredGenerations_def
      gdt_SumLockedReservationsByMonth_def gdt_CountRollingUsage_def gdt_FindGenerationLocator_def
      gdt_FindUsageLocator_def gdt_LockUsage_def Let_def
  by (intro keeps_intros store_reads)+

lemma draft_reads:
  "keeps gdt_db (gdt_LockDraftByID scan userID draftID)"
  "keeps gdt_db (gdt_LockReviewDraftByGoal scan userID goalID)"
  "keeps gdt_db (gdt_FindGoalRefineReplay scan userID key)"
  "keeps gdt_db (gdt_HasRunningDraftGeneration scan draftID)"
  "keeps gdt_db (gdt_LockGoalRefineGeneration scan k)"
  unfolding gdt_LockDraftByID_def gdt_LockReviewDraftByGoal_def gdt_FindGoalRefineReplay_def
      gdt_HasRunningDraftGeneration_def gdt_LockGoalRefineGeneration_def
  by (intro keeps_intros)+

lemma action_reads:
  "keeps gdt_db (gdt_LockActionCycle scan userID goalID cycleID)"
  "keeps gdt_db (gdt_FindActionAIReplay scan userID operation key)"
  "keeps gdt_db (gdt_HasRunningCycleGeneration scan userID goalID cycleID)"
  "keeps gdt_db (gdt_LockActionAIGeneration scan k)"
  unfolding gdt_LockActionCycle_def gdt_FindActionAIReplay_def gdt_HasRunningCycleGeneration_def
      gdt_LockActionAIGeneration_def
  by (intro keeps_intros)+

text \<open>Statements on the other tables.\<close>

definition ledger_tables :: "Database \<Rightarrow> UsageRow list \<times> BudgetRow list" where
  "ledger_tables d = (db_ai_usage_events d, db_ai_budget_monthly d)"

lemma keeps_tables_update:
  "keeps (\<lambda>s. ledger_tables (gdt_db s)) (execute (update_generations selected change))"
  "keeps (\<lambda>s. ledger_tables (gdt_db s)) (execute (check_attempts attempts selected (update_generations selected change)))"
  "keeps (\<lambda>s. ledger_tables (gdt_db s)) (execute (update_cycles cycles change_cycle))"
  "keeps (\<lambda>s. ledger_tables (gdt_db s)) (execute (insert_generation row))"
  by (auto intro!: keeps_execute simp: ledger_tables_def update_generations_def check_attempts_def Let_def
      update_cycles_def insert_generation_def update_rows_def split: if_splits)

lemma other_tables:
  "keeps (\<lambda>s. ledger_tables (gdt_db s)) (gdt_ExpireGenerationCAS scan generationID reserved now)"
  "keeps (\<lambda>s. ledger_tables (gdt_db s)) (gdt_TerminalizeGenerationCAS scan settlement)"
  "keeps (\<lambda>s. ledger_tables (gdt_db s)) (gdt_TerminalizeActionAIGenerationCAS scan terminal)"
  "keeps (\<lambda>s. ledger_tables (gdt_db s)) (gdt_ApplyActionAICAS scan record)"
  "keeps (\<lambda>s. ledger_tables (gdt_db s)) (gdt_InsertGoalRefineGeneration scan goal_refine)"
  "keeps (\<lambda>s. ledger_tables (gdt_db s)) (gdt_InsertActionAIGeneration scan action)"
  unfolding gdt_ExpireGenerationCAS_def gdt_TerminalizeGenerationCAS_def gdt_TerminalizeActionAIGenerationCAS_def
      gdt_ApplyActionAICAS_def gdt_InsertGoalRefineGeneration_def gdt_InsertActionAIGeneration_def Let_def
  by (intro keeps_intros keeps_fun_if keeps_fun_fail keeps_tables_update)+

lemma figures_of_tables:
  assumes "ledger_tables d' = ledger_tables d"
  shows "ledger_keys d' = ledger_keys d" "actual_total d' = actual_total d" "unsettled_usage scan d' = unsettled_usage scan d"
  using assms by (simp_all add: ledger_tables_def ledger_keys_def actual_total_def unsettled_usage_def fun_eq_iff)

lemma neutral_of_tables:
  assumes "keeps (\<lambda>s. ledger_tables (gdt_db s)) m" "m s = Inr (x, t)" "ledger_keys (gdt_db s)"
  shows "ledger_keys (gdt_db t) \<and> actual_total (gdt_db t) = actual_total (gdt_db s) \<and>
    unsettled_usage scan (gdt_db t) generationID = unsettled_usage scan (gdt_db s) generationID"
  using figures_of_tables[OF keepsD[OF assms(1,2)]] assms(3) by simp

subsection \<open>Statements on the budget of a month\<close>

lemma month_key: "tz_eq (bu_MonthUtc b) month \<Longrightarrow> budget_key b = nanos (tz_Time month)"
  by (simp add: tz_eq_def budget_key_def)

lemma update_budget_law:
  assumes run: "execute (update_budget selected change) s = Inr (1, t)" and keys: "ledger_keys (gdt_db s)"
    and selected: "\<And>b. selected b \<Longrightarrow> tz_eq (bu_MonthUtc b) month"
    and month: "\<And>b. bu_MonthUtc (change b) = bu_MonthUtc b"
    and amounts: "\<And>b. tz_Valid (bu_MonthUtc b) \<Longrightarrow> eight_decimals (bu_ReservedCostUSD b) \<Longrightarrow>
      eight_decimals (bu_ActualCostUSD b) \<Longrightarrow> eight_decimals (bu_UnattributedCostUSD b) \<Longrightarrow>
      eight_decimals (bu_ReservedCostUSD (change b)) \<and> bu_ActualCostUSD (change b) = bu_ActualCostUSD b + c \<and>
      bu_UnattributedCostUSD (change b) = bu_UnattributedCostUSD b" and c: "eight_decimals c"
  shows "ledger_keys (gdt_db t) \<and> actual_total (gdt_db t) = actual_total (gdt_db s) + c \<and>
    unsettled_usage scan (gdt_db t) generationID = unsettled_usage scan (gdt_db s) generationID"
proof -
  let ?rows = "db_ai_budget_monthly (gdt_db s)"
  let ?new = "map (\<lambda>b. if selected b then change b else b) ?rows"
  from run have t: "t = s\<lparr>gdt_db := (gdt_db s)\<lparr>db_ai_budget_monthly := ?new\<rparr>\<rparr>"
    and n: "of_nat (length (filter selected ?rows)) = (1 :: i64)"
    by (auto simp: update_budget_def update_rows_def)
  have "length (filter selected ?rows) = 1"
    by (rule one_row[where key = budget_key, OF _ _ n]) (use keys selected month_key in \<open>auto simp: ledger_keys_def\<close>)
  moreover have "bu_ActualCostUSD (change b) = bu_ActualCostUSD b + c" if "b \<in> set ?rows" for b
    using amounts that keys by (simp add: ledger_keys_def)
  ultimately have "sum_list (map bu_ActualCostUSD ?new) = sum_list (map bu_ActualCostUSD ?rows) + c"
    using sum_update[where f = bu_ActualCostUSD and rows = ?rows and selected = selected and change = change and c = c]
    by simp
  moreover have "map budget_key ?new = map budget_key ?rows"
    by (rule map_update_key) (simp add: budget_key_def month)
  moreover have "\<forall>b\<in>set ?new. tz_Valid (bu_MonthUtc b) \<and> eight_decimals (bu_ReservedCostUSD b) \<and>
      eight_decimals (bu_ActualCostUSD b) \<and> eight_decimals (bu_UnattributedCostUSD b)"
    using keys amounts c month by (auto simp: ledger_keys_def eight_decimals_arith)
  ultimately show ?thesis using keys
    by (simp add: t ledger_keys_def actual_total_def unsettled_usage_def del: map_map set_map)
qed

lemma EnsureBudgetMonth_store:
  assumes "gdt_EnsureBudgetMonth month now s = Inr (u, t)" "ledger_keys (gdt_db s)"
  shows "ledger_keys (gdt_db t) \<and> actual_total (gdt_db t) = actual_total (gdt_db s) \<and>
    unsettled_usage scan (gdt_db t) generationID = unsettled_usage scan (gdt_db s) generationID"
  using assms
  by (auto simp: gdt_EnsureBudgetMonth_def ledger_keys_def actual_total_def unsettled_usage_def list_ex_iff
      tz_eq_def budget_key_def goalDeleteDate_def eight_decimals_def split: if_splits)

lemma SettleBudget_store:
  assumes "gdt_SettleBudgetCAS month reserved (decimalFromFloat cost) now s = Inr (1, t)" "ledger_keys (gdt_db s)"
  shows "ledger_keys (gdt_db t) \<and> actual_total (gdt_db t) = actual_total (gdt_db s) + money cost \<and>
    unsettled_usage scan (gdt_db t) generationID = unsettled_usage scan (gdt_db s) generationID"
proof -
  from assms(1) obtain r where r: "execute (update_budget
       (\<lambda>b. tz_eq (bu_MonthUtc b) (goalDeleteDate month) \<and> bu_ReservedCostUSD b \<ge> r)
       (\<lambda>b. b\<lparr>bu_ReservedCostUSD := numeric_8 (bu_ReservedCostUSD b - r),
             bu_ActualCostUSD := numeric_8 (bu_ActualCostUSD b + money cost),
             bu_UpdatedAt := stored_at now\<rparr>)) s = Inr (1, t)"
    by (auto simp: gdt_SettleBudgetCAS_def numeric_param_def[of reserved] simp del: execute_Inr split: option.splits)
  show ?thesis
    by (rule update_budget_law[OF r assms(2), of "goalDeleteDate month"])
      (simp_all add: eight_decimals_numeric_8 numeric_8_eight eight_decimals_arith)
qed

lemma AddLateActualCost_store:
  assumes "gdt_AddLateActualCostCAS month (decimalFromFloat cost) now s = Inr (1, t)" "ledger_keys (gdt_db s)"
  shows "ledger_keys (gdt_db t) \<and> actual_total (gdt_db t) = actual_total (gdt_db s) + money cost \<and>
    unsettled_usage scan (gdt_db t) generationID = unsettled_usage scan (gdt_db s) generationID"
proof -
  from assms(1) have r: "execute (update_budget
       (\<lambda>b. tz_eq (bu_MonthUtc b) (goalDeleteDate month))
       (\<lambda>b. b\<lparr>bu_ActualCostUSD := numeric_8 (bu_ActualCostUSD b + money cost),
             bu_UpdatedAt := stored_at now\<rparr>)) s = Inr (1, t)"
    by (simp add: gdt_AddLateActualCostCAS_def del: execute_Inr)
  show ?thesis
    by (rule update_budget_law[OF r assms(2), of "goalDeleteDate month"])
      (simp_all add: numeric_8_eight eight_decimals_arith)
qed

subsection \<open>Statements on usages\<close>

lemma finalize_law:
  assumes run: "execute (update_usages selected (finalized_usage settlement cost)) s = Inr (1, t)"
    and keys: "ledger_keys (gdt_db s)" and scan: "scan (aus_OperationID settlement) = operation_id" "operation_id \<noteq> None"
    and selected: "\<And>u. selected u \<Longrightarrow> open_usage operation_id month reservation u"
  shows "ledger_keys (gdt_db t) \<and> actual_total (gdt_db t) = actual_total (gdt_db s) \<and>
    unsettled_usage scan (gdt_db s) (aus_OperationID settlement) \<and>
    \<not> unsettled_usage scan (gdt_db t) (aus_OperationID settlement)"
proof -
  let ?rows = "db_ai_usage_events (gdt_db s)"
  let ?new = "map (\<lambda>u. if selected u then finalized_usage settlement cost u else u) ?rows"
  from run have t: "t = s\<lparr>gdt_db := (gdt_db s)\<lparr>db_ai_usage_events := ?new\<rparr>\<rparr>"
    and n: "of_nat (length (filter selected ?rows)) = (1 :: i64)"
    by (auto simp: update_usages_def update_rows_def)
  have "filter selected ?rows \<noteq> []"
  proof
    assume "filter selected ?rows = []"
    with n show False by simp
  qed
  then obtain u where u: "u \<in> set ?rows" "selected u" by (auto simp: filter_empty_conv)
  note o = selected[OF u(2)]
  have only: "v = u" if "v \<in> set ?rows" "us_OperationID v = operation_id" for v
  proof (rule inj_onD[of us_OperationID "set ?rows"])
    show "inj_on us_OperationID (set ?rows)" using keys by (simp add: ledger_keys_def distinct_map)
    show "us_OperationID v = us_OperationID u" using that(2) o by (simp add: open_usage_def sql_eq_def)
  qed (use that u in simp_all)
  have ids: "map us_OperationID ?new = map us_OperationID ?rows"
    by (rule map_update_key) (simp add: finalized_usage_def)
  have before: "unsettled_usage scan (gdt_db s) (aus_OperationID settlement)"
    using u o scan by (auto simp: unsettled_usage_def open_usage_def list_ex_iff)
  have settled: "tz_Valid (us_ProviderUsageFinalizedAt (finalized_usage settlement cost u))"
    by (simp add: finalized_usage_def stored_at_def stored_time_def timestamptz_def)
  have "tz_Valid (us_ProviderUsageFinalizedAt w)" if "w \<in> set ?new" "us_OperationID w = operation_id" for w
  proof -
    from that(1) obtain v where v: "v \<in> set ?rows" "w = (if selected v then finalized_usage settlement cost v else v)"
      by auto
    from v(2) that(2) have "us_OperationID v = operation_id" by (auto simp: finalized_usage_def split: if_splits)
    from only[OF v(1) this] v(2) u(2) settled show ?thesis by simp
  qed
  then have "\<not> unsettled_usage scan (gdt_db t) (aus_OperationID settlement)"
    using scan by (auto simp: t unsettled_usage_def list_ex_iff sql_eq_def)
  with before keys ids show ?thesis by (simp add: t ledger_keys_def actual_total_def del: map_map)
qed

lemma FinalizeUsage_store:
  assumes "gdt_FinalizeUsageCAS scan settlement s = Inr (1, t)" "ledger_keys (gdt_db s)"
  shows "ledger_keys (gdt_db t) \<and> actual_total (gdt_db t) = actual_total (gdt_db s) \<and>
    unsettled_usage scan (gdt_db s) (aus_OperationID settlement) \<and>
    \<not> unsettled_usage scan (gdt_db t) (aus_OperationID settlement)"
proof -
  from assms(1) obtain cost reservation where "scan (aus_OperationID settlement) \<noteq> None"
    "execute (update_usages
       (\<lambda>u. open_usage (scan (aus_OperationID settlement)) (aus_ExpectedBudgetMonthUtc settlement) reservation u \<and>
            us_Status u = ''accepted'') (finalized_usage settlement cost)) s = Inr (1, t)"
    by (auto simp: gdt_FinalizeUsageCAS_def numeric_param_def simp del: execute_Inr split: option.splits)
  note run = this
  show ?thesis
    by (rule finalize_law[where scan = scan and operation_id = "scan (aus_OperationID settlement)", OF run(2) assms(2) refl run(1)]) auto
qed

lemma FinalizeLateUsage_store:
  assumes "gdt_FinalizeLateUsageCAS scan settlement s = Inr (1, t)" "ledger_keys (gdt_db s)"
  shows "ledger_keys (gdt_db t) \<and> actual_total (gdt_db t) = actual_total (gdt_db s) \<and>
    unsettled_usage scan (gdt_db s) (aus_OperationID settlement) \<and>
    \<not> unsettled_usage scan (gdt_db t) (aus_OperationID settlement)"
proof -
  from assms(1) obtain cost reservation where "scan (aus_OperationID settlement) \<noteq> None"
    "execute (update_usages
       (open_usage (scan (aus_OperationID settlement)) (aus_ExpectedBudgetMonthUtc settlement) reservation)
       (finalized_usage settlement cost)) s = Inr (1, t)"
    by (auto simp: gdt_FinalizeLateUsageCAS_def numeric_param_def simp del: execute_Inr split: option.splits)
  note run = this
  show ?thesis
    by (rule finalize_law[where scan = scan and operation_id = "scan (aus_OperationID settlement)", OF run(2) assms(2) refl run(1)]) auto
qed

subsection \<open>The interpretations\<close>

interpretation refine_store: refine_ledger "store_GoalDraftTx scan" gdt_db ledger_keys actual_total
  "unsettled_usage scan" for scan
  by unfold_locales
    (simp_all add: store_GoalDraftTx_def reads draft_reads EnsureBudgetMonth_store SettleBudget_store
      AddLateActualCost_store FinalizeUsage_store FinalizeLateUsage_store neutral_of_tables[OF other_tables(2)])

interpretation action_store: action_ledger "store_ActionAITx scan" gdt_db ledger_keys actual_total
  "unsettled_usage scan" for scan
  by unfold_locales
    (simp_all add: store_ActionAITx_def reads action_reads EnsureBudgetMonth_store SettleBudget_store
      AddLateActualCost_store FinalizeUsage_store FinalizeLateUsage_store
      neutral_of_tables[OF other_tables(3)] neutral_of_tables[OF other_tables(4)])

end
