(* ===== verification/ReviewRuns.thy ===== *)
theory ReviewRuns
  imports ReviewContract ReviewStore CycleStoreRuns AILedgerStore
begin

section \<open>The review transitions on the PostgreSQL adapter\<close>

text \<open>
  The laws of \<open>ReviewContract\<close> for the adapter, and the use cases run on it: an operation key
  continues a review, or terminates a Goal, once.
\<close>

subsection \<open>The statements\<close>

lemma on_drafts_keeps: "keeps (\<lambda>s. f (gdt_db s)) m \<Longrightarrow> keeps (\<lambda>s. f (wct_db s)) (on_drafts m)"
  unfolding keeps_def on_drafts_def goal_draft_tx_def by (auto split: sum.splits prod.splits)

lemma on_drafts_reads: "keeps gdt_db m \<Longrightarrow> keeps wct_db (on_drafts m)"
  using on_drafts_keeps[of "\<lambda>d. d" m] by simp

lemma review_reads:
  "keeps wct_db (rts_FindContinueReviewReceipt scan u op)"
  "keeps wct_db (rts_FindGoalTerminationReceipt scan u op)"
  "keeps wct_db (on_drafts (gdt_LockReviewDraftByGoal scan u g))"
  "keeps wct_db (rts_HasRunningGoalGeneration scan u g)"
  "keeps wct_db (on_drafts (gdt_LockDraftGenerations scan u draftID))"
  "keeps wct_db (on_drafts (gdt_LockDraftUsages scan u ids))"
  unfolding rts_FindContinueReviewReceipt_def rts_FindGoalTerminationReceipt_def gdt_LockReviewDraftByGoal_def
    rts_HasRunningGoalGeneration_def gdt_LockDraftGenerations_def gdt_LockDraftUsages_def
  by (intro on_drafts_reads keeps_intros keeps_uuid_array)+

definition termination_hash :: "(string \<Rightarrow> string option) \<Rightarrow> Database \<Rightarrow> string \<Rightarrow> string \<Rightarrow> string option" where
  "termination_hash scan d userID operationID =
     (case find (\<lambda>g. sql_eq (gr_UserID g) (scan userID) \<and>
                     sql_eq (gr_TerminalOperationID g) (scan operationID)) (db_goals d) of
        None \<Rightarrow> None | Some g \<Rightarrow> gr_TerminalRequestHash g)"

lemma FindContinueReviewReceipt_hash:
  "rts_FindContinueReviewReceipt scan u op s = Inr (receipt, t) \<Longrightarrow>
     map_option crv_RequestHash receipt = claim_hash scan (wct_db s) u op"
  by (auto simp: rts_FindContinueReviewReceipt_def claim_hash_def continueReviewReceiptFromSQLC_def
      Let_def split: option.splits if_splits)

lemma FindGoalTerminationReceipt_hash:
  "rts_FindGoalTerminationReceipt scan u op s = Inr (receipt, t) \<Longrightarrow>
     map_option gtr_RequestHash receipt = termination_hash scan (wct_db s) u op"
  by (auto simp: rts_FindGoalTerminationReceipt_def termination_hash_def goalTerminationReceiptFromTransitionRow_def
      Let_def split: option.splits if_splits)

lemma claim_kept_by_review:
  "keeps (\<lambda>s. claim_hash scan (wct_db s)) (rts_ContinueGoalCAS scan goal e)"
  "keeps (\<lambda>s. claim_hash scan (wct_db s)) (rts_DeleteReviewDraftCAS scan u draftID e)"
  "keeps (\<lambda>s. claim_hash scan (wct_db s)) (on_drafts (gdt_AttachDraftGenerations scan u draftID ids g v))"
  "keeps (\<lambda>s. claim_hash scan (wct_db s)) (on_drafts (gdt_AttachUsageToGoal scan u ids g))"
  unfolding rts_ContinueGoalCAS_def rts_DeleteReviewDraftCAS_def gdt_AttachDraftGenerations_def
    gdt_AttachUsageToGoal_def
  by (intro on_drafts_keeps keeps_intros keeps_uuid_array keeps_exec keeps_execute;
      auto simp: claim_hash_def update_goals_Inr update_generations_def update_usages_def Let_def
        split: prod.splits)+

lemma TerminateGoalCAS_records:
  assumes run: "rts_TerminateGoalCAS scan goal e s = Inr (1, t)" and op: "go_TerminalOperationID goal = Some op"
  shows "termination_hash scan (wct_db t) (go_UserID goal) op = go_TerminalRequestHash goal"
proof -
  let ?user = "scan (go_UserID goal)" and ?op = "scan op" and ?rows = "db_goals (wct_db s)"
  let ?key = "\<lambda>g. sql_eq (gr_UserID g) ?user \<and> sql_eq (gr_TerminalOperationID g) ?op"
  from run op obtain hash ended where
    hash: "go_TerminalRequestHash goal = Some hash" and ended: "go_TerminalAt goal = Some ended"
    by (auto simp: rts_TerminateGoalCAS_def split: option.splits)
  let ?sel = "\<lambda>g. owned_goal (scan (go_ID goal)) ?user g \<and>
    (gr_Status g = ''active_cycle'' \<or> gr_Status g = ''goal_review'') \<and> gr_Revision g = e"
  let ?change = "\<lambda>g. g\<lparr>gr_Status := go_Status goal, gr_Revision := go_Revision goal,
    gr_TerminalAt := stored_at ended, gr_TerminalOperationID := ?op, gr_TerminalRequestHash := Some hash,
    gr_UpdatedAt := stored_at (go_UpdatedAt goal)\<rparr>"
  have scanned: "?op \<noteq> None" and u: "update_goals ?sel ?change (wct_db s) = Inr (1, wct_db t)" and
    free: "\<not> (list_ex ?sel ?rows \<and> list_ex (\<lambda>g. \<not> ?sel g \<and> ?key g) ?rows)"
    using run by (auto simp: rts_TerminateGoalCAS_def op hash ended Let_def split: if_splits)
  have "filter ?sel ?rows \<noteq> []" using u by (auto simp: update_goals_Inr)
  then obtain r where r: "r \<in> set ?rows" "?sel r" by (auto simp: filter_empty_conv)
  have t: "db_goals (wct_db t) = map (\<lambda>g. if ?sel g then ?change g else g) ?rows"
    using u by (simp add: update_goals_Inr)
  have "\<exists>x. find ?key (db_goals (wct_db t)) = Some x \<and> gr_TerminalRequestHash x = Some hash"
  proof (rule find_all)
    fix x assume "x \<in> set (db_goals (wct_db t))" "?key x"
    then obtain g where g: "g \<in> set ?rows" "x = (if ?sel g then ?change g else g)" unfolding t by auto
    show "gr_TerminalRequestHash x = Some hash"
    proof (cases "?sel g")
      case True
      then show ?thesis using g(2) by simp
    next
      case False
      have "x = g" unfolding g(2) if_not_P[OF False] ..
      then have "\<not> ?sel g \<and> ?key g" using False \<open>?key x\<close> by blast
      then have "list_ex (\<lambda>g. \<not> ?sel g \<and> ?key g) ?rows" using g(1) unfolding list_ex_iff by blast
      moreover have "list_ex ?sel ?rows" using r unfolding list_ex_iff by blast
      ultimately show ?thesis using free by blast
    qed
  next
    show "\<exists>x\<in>set (db_goals (wct_db t)). ?key x"
    proof (rule bexI)
      show "?change r \<in> set (db_goals (wct_db t))" using r by (force simp: t)
      show "?key (?change r)" using r(2) scanned by (auto simp: owned_goal_def sql_eq_def)
    qed
  qed
  then show ?thesis by (auto simp: termination_hash_def hash)
qed

interpretation review_store: review_tx_laws
  "store_ReviewTransitionTx scan" wct_db "claim_hash scan" "termination_hash scan" for scan
  by unfold_locales
    (simp_all add: store_ReviewTransitionTx_def store_reads review_reads claim_kept_by_review
      FindContinueReviewReceipt_hash FindGoalTerminationReceipt_hash TryInsertCycleClaim_records
      TerminateGoalCAS_records)

subsection \<open>The properties\<close>



subsection \<open>The properties on a concrete database\<close>

definition sample_continue :: ContinueReviewInput where
  "sample_continue =
     \<lparr>cri_UserID = ''a'', cri_GoalID = ''b'', cri_OperationID = ''g'', cri_ExpectedGoalRevision = 1,
      cri_ExpectedDraftRevision = 0\<rparr>"

definition sample_continued_database :: Database where
  "sample_continued_database = sample_completed_database
     \<lparr>db_goals := [(sample_goal_row ''b'' ''a'')\<lparr>gr_NextCycleSequenceNumber := 3, gr_Revision := 2\<rparr>,
                   sample_goal_row ''y'' ''z''],
      db_pdca_cycles := db_pdca_cycles sample_completed_database @
        [sample_successor_row\<lparr>pc_StartOperationID := Some ''g'',
           pc_StartRequestHash := continueReviewRequestHash (\<lambda>_. ''h'') sample_continue\<rparr>],
      db_goal_drafts := []\<rparr>"

lemma sample_continue_hash: "continueReviewRequestHash (\<lambda>_. ''h'') input \<noteq> []"
  by (simp add: continueReviewRequestHash_def hashRequest_def hex_encode_def)

lemmas run_review = sample_continue_hash sample_continue_def sample_continued_database_def sample_completed_database_def
  sample_successor_row_def store_ReviewTransitionTx_def on_drafts_def goal_draft_tx_def fetch_def execute_def
  rts_FindContinueReviewReceipt_def rts_FindGoalTerminationReceipt_def rts_HasRunningGoalGeneration_def
  rts_ContinueGoalCAS_def rts_CancelCycleCAS_def rts_DeleteReviewDraftCAS_def rts_TerminateGoalCAS_def
  gdt_LockReviewDraftByGoal_def gdt_LockDraftGenerations_def gdt_LockDraftUsages_def gdt_AttachDraftGenerations_def
  gdt_AttachUsageToGoal_def find_draft_def draft_columns_def goalDraftFromColumns_def continueReviewReceiptFromSQLC_def
  goalTerminationReceiptFromTransitionRow_def requireReviewTransitionRows_def stored_at_def goalDraftNullableUUID_def
  validateContinueReviewReceipt_def

lemma sample_ContinueReview:
  "\<exists>result. WithinReviewTransitionTransaction (uc_ContinueReview (store_ReviewTransitionTx Some) (\<lambda>_. ''h'') sample_now
      (Inl ErrNotFound) (Inr sample_uuid) sample_continue) sample_completed_database = (Inr result, sample_continued_database)"
  by (simp add: WithinReviewTransitionTransaction_def WithinCycleTransaction_def uc_ContinueReview_def
      continue_locked_def continue_writes_def
      run_review run_monad run_reads run_rows run_writes run_checks run_domain run_sample
      validateLockedReviewDraft_def validateReviewCurrentVersion_def ReviewContentChanged_def ContinueReview_def
      cycle_New_def zero_Revisions_def validateReviewGenerations_def reviewUsageIDs_def validateReviewUsages_def
      validateFreshContinueReviewResult_def goalVersionViewMatchesDomain_def zero_FrameRevisions_def
      validateReviewReferences_def NormalizeText_def NormalizeSuccessSignal_def normalizeLineEndings_def
      optionalTextEqual_def MaxGoalCodePoints_def MaxFrameCodePoints_def
      cong: tx_bind_weak rbind_weak del: rbind_eq_Inr tx_bind_Inr)

lemma sample_ContinueReview_again:
  "\<exists>result. WithinReviewTransitionTransaction (uc_ContinueReview (store_ReviewTransitionTx Some) (\<lambda>_. ''h'') sample_now
      (Inl ErrNotFound) (Inl ErrNotFound) sample_continue) sample_continued_database = (Inr result, sample_continued_database)"
  by (simp add: WithinReviewTransitionTransaction_def WithinCycleTransaction_def uc_ContinueReview_def
      buildContinueReviewReplay_def
      run_review run_monad run_reads run_rows run_writes run_checks run_domain run_sample
      MaxFrameCodePoints_def
      cong: tx_bind_weak rbind_weak del: rbind_eq_Inr tx_bind_Inr)

definition sample_terminate :: TerminateInput where
  "sample_terminate =
     \<lparr>ti_UserID = ''a'', ti_GoalID = ''b'', ti_OperationID = ''t'', ti_Outcome = StatusAchieved,
      ti_ExpectedGoalRevision = 0, ti_ExpectedState = StatusActiveCycle, ti_ActiveCycleID = sample_cycle_id,
      ti_ExpectedCycleContentRevision = Some 4, ti_ConfirmDiscardReviewDraft = False\<rparr>"

definition sample_achieved_database :: Database where
  "sample_achieved_database = sample_database
     \<lparr>db_goals := [(sample_goal_row ''b'' ''a'')\<lparr>gr_Status := ''achieved'', gr_Revision := 1,
                     gr_TerminalAt := sample_stamp, gr_TerminalOperationID := Some ''t'',
                     gr_TerminalRequestHash := Some (terminateRequestHash (\<lambda>_. ''h'') sample_terminate)\<rparr>,
                   sample_goal_row ''y'' ''z''],
      db_pdca_cycles := [sample_cycle_row\<lparr>pc_Status := ''canceled'', pc_CanceledAt := sample_stamp,
        pc_CancellationReason := Some ''goal_achieved''\<rparr>]\<rparr>"

lemma sample_terminate_hash: "terminateRequestHash (\<lambda>_. ''h'') input \<noteq> []"
  by (simp add: terminateRequestHash_def hashRequest_def hex_encode_def)

lemmas run_terminate = validateTerminationInput_def validateGoalTerminationReceipt_def Terminate_def cycle_Cancel_def
  IsValidCancellationReason_def validateFreshTerminationResult_def validateTerminationResult_def canceledCycleViewMatchesDomain_def
  reviewDatesEqual_def sample_terminate_hash sample_terminate_def sample_achieved_database_def

lemma sample_Terminate:
  "\<exists>result. WithinReviewTransitionTransaction (uc_Terminate (store_ReviewTransitionTx Some) (\<lambda>_. ''h'') sample_now
      sample_terminate) sample_database = (Inr result, sample_achieved_database)"
  by (simp add: WithinReviewTransitionTransaction_def WithinCycleTransaction_def uc_Terminate_def
      terminateActiveCycle_def
      run_terminate run_review run_monad run_reads run_rows run_writes run_checks run_domain run_sample
      cong: tx_bind_weak rbind_weak del: rbind_eq_Inr tx_bind_Inr)

lemma sample_Terminate_again:
  "\<exists>result. WithinReviewTransitionTransaction (uc_Terminate (store_ReviewTransitionTx Some) (\<lambda>_. ''h'') sample_now
      sample_terminate) sample_achieved_database = (Inr result, sample_achieved_database)"
  by (simp add: WithinReviewTransitionTransaction_def WithinCycleTransaction_def uc_Terminate_def
      buildGoalTerminationReplay_def
      run_terminate run_review run_monad run_reads run_rows run_writes run_checks run_domain run_sample
      cong: tx_bind_weak rbind_weak del: rbind_eq_Inr tx_bind_Inr)



end
