(* ===== verification/AISelection.thy ===== *)
theory AISelection
  imports AIAdmission
begin

section \<open>What a selector may change\<close>

text \<open>
  Lemmas on the checks of \<open>AIAdmission\<close>: the past Cycles of an accepted selection are a subsequence
  of the candidates, its texts are the original ones or marked prefixes of them, and what the
  selector of \<open>context_selector.go\<close> produces is accepted.
\<close>

subsection \<open>The order of the past Cycles\<close>

lemma selected_in_order_Cons:
  "(\<And>cs. selected_in_order cs rest \<longleftrightarrow> subseq rest cs) \<Longrightarrow>
     selected_in_order cs (x # rest) \<longleftrightarrow> subseq (x # rest) cs"
  by (induction cs) auto

lemma selected_in_order_iff: "selected_in_order candidates selected \<longleftrightarrow> subseq selected candidates"
proof (induction selected arbitrary: candidates)
  case (Cons x rest)
  then show ?case by (rule selected_in_order_Cons)
qed simp

lemma selected_in_order_subset: "selected_in_order candidates selected \<Longrightarrow> set selected \<subseteq> set candidates"
  unfolding selected_in_order_iff by (auto elim: list_emb_set)

subsection \<open>Marked prefixes\<close>

definition marked_prefix :: "string \<Rightarrow> string \<Rightarrow> bool" where
  "marked_prefix original selected \<longleftrightarrow>
     selected = original \<or> selected = [] \<or>
     (\<exists>k < length original. selected = take k original @ truncationMarker)"

lemma has_suffix_iff: "has_suffix s x \<longleftrightarrow> (\<exists>p. s = p @ x)"
proof
  assume "has_suffix s x"
  then have "s = take (length s - length x) s @ x"
    by (metis append_take_drop_id has_suffix_def)
  then show "\<exists>p. s = p @ x" by blast
qed (auto simp: has_suffix_def)

lemma trim_suffix_append [simp]: "trim_suffix (p @ x) x = p"
  by (simp add: trim_suffix_def has_suffix_def)

lemma has_prefix_iff: "has_prefix s p \<longleftrightarrow> (\<exists>k \<le> length s. p = take k s)"
  by (auto simp: has_prefix_def min_def intro: exI[of _ "length p"])

lemma validActionSelectedText_eq: "validActionSelectedText = validGoalRefineSelectedText"
  by (intro ext) (simp add: validActionSelectedText_def validGoalRefineSelectedText_def)

lemma valid_text_iff:
  "validGoalRefineSelectedText original selected \<longleftrightarrow> utf8_valid selected \<and> marked_prefix original selected"
proof -
  have "(has_suffix selected truncationMarker \<and>
      length (trim_suffix selected truncationMarker) < length original \<and>
      has_prefix original (trim_suffix selected truncationMarker)) \<longleftrightarrow>
    (\<exists>k < length original. selected = take k original @ truncationMarker)"
    by (auto simp: has_suffix_iff has_prefix_iff min_def intro: less_imp_le split: if_splits)
  then show ?thesis
    by (auto simp: validGoalRefineSelectedText_def marked_prefix_def Let_def)
qed

subsection \<open>UTF-8\<close>

lemma decode_rune_width: "s \<noteq> [] \<Longrightarrow> snd (decode_rune s) \<in> {1, 2, 3, 4}"
  by (cases s rule: decode_rune.cases) (auto simp: decode_rune.simps(2) Let_def split: list.splits)

lemma decode_rune_take_self:
  assumes "decode_rune s = (r, n)" "s \<noteq> []" "\<not> (r = rune_error \<and> n = 1)"
  shows "decode_rune (take n s @ t) = (r, n)"
  using assms
  by (cases s rule: decode_rune.cases)
    (auto simp: decode_rune.simps(2) Let_def split: list.splits if_splits)

lemma div_mod_sum:
  fixes a b c d :: nat
  assumes "b < 64" "c < 64" "d < 64"
  shows "(a * 64 + b) div 64 = a" "(a * 64 + b) mod 64 = b"
    "(a * 4096 + b * 64 + c) div 4096 = a" "(a * 4096 + b * 64 + c) div 64 mod 64 = b"
    "(a * 4096 + b * 64 + c) mod 64 = c"
    "(a * 262144 + b * 4096 + c * 64 + d) div 262144 = a"
    "(a * 262144 + b * 4096 + c * 64 + d) div 4096 mod 64 = b"
    "(a * 262144 + b * 4096 + c * 64 + d) div 64 mod 64 = c"
    "(a * 262144 + b * 4096 + c * 64 + d) mod 64 = d"
proof -
  have step: "(64 * x + y) div 64 = x \<and> (64 * x + y) mod 64 = y" if "y < 64" for x y :: nat
    using that by simp
  have "(a * 4096 + b * 64 + c) div 64 = 64 * a + b"
    using step[OF assms(2), of "64 * a + b"] by (simp add: algebra_simps)
  moreover have "(a * 262144 + b * 4096 + c * 64 + d) div 64 = 64 * (64 * a + b) + c"
    using step[OF assms(3), of "64 * (64 * a + b) + c"] by (simp add: algebra_simps)
  moreover have "(a * 262144 + b * 4096 + c * 64 + d) div 4096 = 64 * a + b"
    using assms by (intro div_nat_eqI; simp)
  ultimately show "(a * 4096 + b * 64 + c) div 64 mod 64 = b"
    "(a * 262144 + b * 4096 + c * 64 + d) div 4096 mod 64 = b"
    "(a * 262144 + b * 4096 + c * 64 + d) div 64 mod 64 = c"
    using step[OF assms(1), of a] step[OF assms(2), of "64 * a + b"] by (simp_all add: algebra_simps)
  show "(a * 64 + b) div 64 = a" "(a * 64 + b) mod 64 = b"
    using step[OF assms(1), of a] by (simp_all add: mult.commute)
  show "(a * 4096 + b * 64 + c) mod 64 = c"
    using step[OF assms(2), of "64 * a + b"] by (simp add: algebra_simps)
  show "(a * 262144 + b * 4096 + c * 64 + d) mod 64 = d"
    using step[OF assms(3), of "64 * (64 * a + b) + c"] by (simp add: algebra_simps)
  show "(a * 4096 + b * 64 + c) div 4096 = a" "(a * 262144 + b * 4096 + c * 64 + d) div 262144 = a"
    using assms by (intro div_nat_eqI; simp)+
qed

lemma byte_split: "k \<le> byte c \<Longrightarrow> \<exists>a. byte c = k + a \<and> c = char_of (k + a)"
  by (rule exI[of _ "byte c - k"]) simp

lemma encode_rune_2:
  assumes "2 \<le> a" "a < 32" "b < 64"
  shows "encode_rune (a * 64 + b) = [char_of (0xC0 + a), char_of (0x80 + b)]"
  using assms div_mod_sum(1,2)[OF assms(3) assms(3) assms(3), of a] by (simp add: encode_rune_def)

lemma encode_rune_3:
  assumes "a < 16" "b < 64" "c < 64" "0x800 \<le> a * 4096 + b * 64 + c"
    "\<not> (0xD800 \<le> a * 4096 + b * 64 + c \<and> a * 4096 + b * 64 + c \<le> 0xDFFF)"
  shows "encode_rune (a * 4096 + b * 64 + c) = [char_of (0xE0 + a), char_of (0x80 + b), char_of (0x80 + c)]"
proof -
  have "a * 4096 + b * 64 + c < 0x10000" using assms by linarith
  then show ?thesis using assms(4,5) div_mod_sum(3,4,5)[OF assms(2,3,3), of a]
    by (auto simp: encode_rune_def)
qed

lemma encode_rune_4:
  assumes "b < 64" "c < 64" "d < 64" "0x10000 \<le> a * 262144 + b * 4096 + c * 64 + d"
    "a * 262144 + b * 4096 + c * 64 + d \<le> 0x10FFFF"
  shows "encode_rune (a * 262144 + b * 4096 + c * 64 + d) =
    [char_of (0xF0 + a), char_of (0x80 + b), char_of (0x80 + c), char_of (0x80 + d)]"
  using assms(4,5) div_mod_sum(6,7,8,9)[OF assms(1,2,3), of a] by (simp add: encode_rune_def)

lemma encode_decode_3:
  assumes "0xE0 \<le> byte c0" "byte c0 \<le> 0xEF" "second_ok (byte c0) (byte c1)" "cont_byte (byte c2)"
  shows "encode_rune ((byte c0 - 0xE0) * 4096 + (byte c1 - 0x80) * 64 + (byte c2 - 0x80)) = [c0, c1, c2]"
proof -
  have "0x80 \<le> byte c1" "byte c1 \<le> 0xBF" "0x80 \<le> byte c2" "byte c2 \<le> 0xBF"
    using assms by (auto simp: second_ok_def cont_byte_def split: if_splits)
  then obtain a b c where abc: "byte c0 = 0xE0 + a" "c0 = char_of (0xE0 + a)" "byte c1 = 0x80 + b"
    "c1 = char_of (0x80 + b)" "byte c2 = 0x80 + c" "c2 = char_of (0x80 + c)" "b < 64" "c < 64"
    using byte_split[OF assms(1)] byte_split[where k = "0x80" and c = c1] byte_split[where k = "0x80" and c = c2] by force
  have range: "a = 0 \<longrightarrow> 0x20 \<le> b" "a = 13 \<longrightarrow> b < 0x20" "a < 16"
    using assms(2,3) abc(1,3) by (auto simp: second_ok_def cont_byte_def split: if_splits)
  have low: "0x800 \<le> a * 4096 + b * 64 + c" using range(1) by (cases "a = 0") simp_all
  have gap: "\<not> (0xD800 \<le> a * 4096 + b * 64 + c \<and> a * 4096 + b * 64 + c \<le> 0xDFFF)"
  proof (cases "a = 13")
    case True
    then show ?thesis using range(2) abc(8) by simp
  next
    case False
    then have "a \<le> 12 \<or> 14 \<le> a" by linarith
    then show ?thesis using abc(7,8) by auto
  qed
  from encode_rune_3[OF range(3) abc(7,8) low gap] show ?thesis
    by (simp add: abc(1,3,5)) (simp add: abc(2,4,6))
qed

lemma encode_decode_2:
  assumes "0xC2 \<le> byte c0" "byte c0 \<le> 0xDF" "cont_byte (byte c1)"
  shows "encode_rune ((byte c0 - 0xC0) * 64 + (byte c1 - 0x80)) = [c0, c1]"
proof -
  have k: "0xC0 \<le> byte c0" using assms(1) by simp
  obtain a b where ab: "byte c0 = 0xC0 + a" "c0 = char_of (0xC0 + a)" "byte c1 = 0x80 + b"
    "c1 = char_of (0x80 + b)" "b < 64"
    using byte_split[OF k] byte_split[where k = "0x80" and c = c1] assms(3) by (force simp: cont_byte_def)
  have "2 \<le> a" "a < 32" using assms(1,2) ab(1) by simp_all
  from encode_rune_2[OF this ab(5)] show ?thesis by (simp add: ab(1,3)) (simp add: ab(2,4))
qed

lemma encode_decode_4:
  assumes "0xF0 \<le> byte c0" "byte c0 \<le> 0xF4" "second_ok (byte c0) (byte c1)" "cont_byte (byte c2)"
    "cont_byte (byte c3)"
  shows "encode_rune ((byte c0 - 0xF0) * 262144 + (byte c1 - 0x80) * 4096 + (byte c2 - 0x80) * 64 +
    (byte c3 - 0x80)) = [c0, c1, c2, c3]"
proof -
  have "0x80 \<le> byte c1" "byte c1 \<le> 0xBF" "0x80 \<le> byte c2" "byte c2 \<le> 0xBF" "0x80 \<le> byte c3"
    "byte c3 \<le> 0xBF"
    using assms by (auto simp: second_ok_def cont_byte_def split: if_splits)
  then obtain a b c d where ab: "byte c0 = 0xF0 + a" "c0 = char_of (0xF0 + a)" "byte c1 = 0x80 + b"
    "c1 = char_of (0x80 + b)" "byte c2 = 0x80 + c" "c2 = char_of (0x80 + c)" "byte c3 = 0x80 + d"
    "c3 = char_of (0x80 + d)" "b < 64" "c < 64" "d < 64"
    using byte_split[OF assms(1)] byte_split[where k = "0x80" and c = c1]
      byte_split[where k = "0x80" and c = c2] byte_split[where k = "0x80" and c = c3] by force
  have range: "a = 0 \<longrightarrow> 0x10 \<le> b" "a = 4 \<longrightarrow> b < 0x10" "a \<le> 4"
    using assms(2,3) ab(1,3) by (auto simp: second_ok_def cont_byte_def split: if_splits)
  have low: "0x10000 \<le> a * 262144 + b * 4096 + c * 64 + d" using range(1) by (cases "a = 0") simp_all
  have high: "a * 262144 + b * 4096 + c * 64 + d \<le> 0x10FFFF"
    using range(2,3) ab(9,10,11) by (cases "a = 4") simp_all
  from encode_rune_4[OF ab(9,10,11) low high] show ?thesis
    by (simp add: ab(1,3,5,7)) (simp add: ab(2,4,6,8))
qed

lemma encode_rune_1: "byte c < 0x80 \<Longrightarrow> encode_rune (byte c) = [c]"
  by (simp add: encode_rune_def)

lemma encode_decode:
  assumes "decode_rune s = (r, n)" "s \<noteq> []" "\<not> (r = rune_error \<and> n = 1)"
  shows "encode_rune r = take n s"
  using assms
  by (cases s rule: decode_rune.cases)
    (auto simp: decode_rune.simps(2) Let_def encode_rune_1 encode_decode_2 encode_decode_3 encode_decode_4
      split: list.splits if_splits)

lemma utf8_valid_step:
  assumes "decode_rune s = (r, n)" "s \<noteq> []"
  shows "utf8_valid s \<longleftrightarrow> \<not> (r = rune_error \<and> n = 1) \<and> utf8_valid (drop n s)"
  using assms by (cases s) (simp_all add: utf8_valid.simps(2))

lemma runes_cons: "decode_rune s = (r, n) \<Longrightarrow> s \<noteq> [] \<Longrightarrow> runes s = r # runes (drop n s)"
  by (cases s) (simp_all add: runes_step)

text \<open>Cutting a valid text after any number of its runes and appending a valid text gives a valid text.\<close>

lemma take_runes:
  assumes "utf8_valid s" "k \<le> length (runes s)"
  shows "\<exists>j \<le> length s. string_of_runes (take k (runes s)) = take j s \<and>
    (k < length (runes s) \<longrightarrow> j < length s) \<and> (utf8_valid t \<longrightarrow> utf8_valid (take j s @ t))"
  using assms
proof (induction "length s" arbitrary: s k rule: less_induct)
  case less
  show ?case
  proof (cases "s = [] \<or> k = 0")
    case True
    then show ?thesis using less(3) by (auto simp: string_of_runes_def intro!: exI[of _ 0])
  next
    case False
    then obtain i where s: "s \<noteq> []" and k: "k = Suc i" by (cases k) auto
    obtain r n where d: "decode_rune s = (r, n)" by fastforce
    have n: "1 \<le> n" "n \<le> length s" using decode_rune_size[OF s] d by simp_all
    from less(2) d s have ok: "\<not> (r = rune_error \<and> n = 1)" "utf8_valid (drop n s)"
      by (simp_all add: utf8_valid_step)
    have "i \<le> length (runes (drop n s))" using less(3) k runes_cons[OF d s] by simp
    from less(1)[OF _ ok(2) this] n s obtain j where j: "j \<le> length s - n"
      "string_of_runes (take i (runes (drop n s))) = take j (drop n s)"
      "i < length (runes (drop n s)) \<longrightarrow> j < length s - n"
      "utf8_valid t \<longrightarrow> utf8_valid (take j (drop n s) @ t)" by auto
    have cut: "take (n + j) s = take n s @ take j (drop n s)" by (simp add: take_add)
    have "string_of_runes (take k (runes s)) = take (n + j) s"
      using j(2) encode_decode[OF d s ok(1)] by (simp add: k runes_cons[OF d s] string_of_runes_def cut)
    moreover have "utf8_valid (take (n + j) s @ t)" if "utf8_valid t"
      using utf8_valid_step[OF decode_rune_take_self[OF d s ok(1), of "take j (drop n s) @ t"]] ok(1) j(4) that n s
      by (simp add: cut)
    moreover have "n + j \<le> length s" "k < length (runes s) \<longrightarrow> n + j < length s"
      using j(1,3) n k runes_cons[OF d s] by auto
    ultimately show ?thesis by blast
  qed
qed

subsection \<open>Truncated texts\<close>

text \<open>
  What the search for a prefix relies on: appending the marker to a text never lowers its number of
  tokens.
\<close>

definition marker_adds_tokens :: "(string \<Rightarrow> workspace_error + int) \<Rightarrow> bool" where
  "marker_adds_tokens cnt \<longleftrightarrow>
     (\<forall>v n m. cnt v = Inr n \<longrightarrow> cnt (v @ truncationMarker) = Inr m \<longrightarrow> n \<le> m)"

lemma utf8_valid_marker: "utf8_valid truncationMarker"
  by (simp add: truncationMarker_def utf8_valid.simps decode_rune_code)

lemma truncated_text:
  assumes "tokenizer_Truncate cnt value maxTokens truncationMarker = Inr out" "utf8_valid value"
    "marker_adds_tokens cnt"
  shows "utf8_valid out \<and> marked_prefix value out"
proof -
  consider "out = value \<or> out = []" | k count n where "k \<le> length (runes value)"
    "out = string_of_runes (take k (runes value)) @ truncationMarker"
    "cnt value = Inr count" "maxTokens < count" "cnt out = Inr n" "n \<le> maxTokens"
    using truncate_cases[OF assms(1)] by blast
  then show ?thesis
  proof cases
    case 1
    then show ?thesis using assms(2) by (auto simp: marked_prefix_def)
  next
    case 2
    from take_runes[OF assms(2) 2(1), of truncationMarker] obtain j where j: "j \<le> length value"
      "string_of_runes (take k (runes value)) = take j value" "utf8_valid (take j value @ truncationMarker)"
      using utf8_valid_marker by blast
    have "j < length value"
    proof (rule ccontr)
      assume "\<not> j < length value"
      then have "out = value @ truncationMarker" using j 2(2) by simp
      then have "count \<le> n" using assms(3) 2(3,5) unfolding marker_adds_tokens_def by blast
      then show False using 2(4,6) by simp
    qed
    then show ?thesis using j 2(2) by (auto simp: marked_prefix_def)
  qed
qed

subsection \<open>The selector keeps to the checks\<close>

definition same_frame :: "AISnapshot \<Rightarrow> AISnapshot \<Rightarrow> bool" where
  "same_frame s t \<longleftrightarrow> same_target s t \<and> as_ReplayedOutput t = as_ReplayedOutput s \<and>
     as_ReplayedContextChanged t = as_ReplayedContextChanged s \<and>
     as_ReplayedContentRevision t = as_ReplayedContentRevision s \<and>
     as_ReplayedActionRevision t = as_ReplayedActionRevision s"

lemma same_frame_refl [simp]: "same_frame s s"
  by (simp add: same_frame_def)

lemma same_frame_trans: "same_frame s t \<Longrightarrow> same_frame t u \<Longrightarrow> same_frame s u"
  by (auto simp: same_frame_def intro: same_target_trans)

lemma same_frame_updates [simp]:
  "same_frame s (t\<lparr>as_CurrentTruncated := b\<rparr>) \<longleftrightarrow> same_frame s t"
  "same_frame s (t\<lparr>as_PastCycles := ps\<rparr>) \<longleftrightarrow> same_frame s t"
  "same_frame (t\<lparr>as_CurrentTruncated := b\<rparr>) s \<longleftrightarrow> same_frame t s"
  "same_frame (t\<lparr>as_PastCycles := ps\<rparr>) s \<longleftrightarrow> same_frame t s"
  by (simp_all add: same_frame_def)

lemma contextField_updates [simp]:
  "contextField (t\<lparr>as_CurrentTruncated := b\<rparr>) f = contextField t f"
  "contextField (t\<lparr>as_PastCycles := ps\<rparr>) f = contextField t f"
  by (simp_all add: contextField_def)

abbreviation field_names :: "string set" where
  "field_names \<equiv> {''goal'', ''source'', ''plan'', ''do'', ''check'', ''action''}"

lemma setContextField_field:
  assumes "setContextField t f v = Inr u" "f \<in> field_names"
  shows "same_frame t u" "contextField u f = Inr v" "g \<noteq> f \<Longrightarrow> contextField u g = contextField t g"
    "as_CurrentTruncated u = as_CurrentTruncated t" "as_PastCycles u = as_PastCycles t"
proof -
  have cases6: "f = ''goal'' \<or> f = ''source'' \<or> f = ''plan'' \<or> f = ''do'' \<or> f = ''check'' \<or> f = ''action''"
    using assms(2) by simp
  have "(as_ReplayedOutput u = as_ReplayedOutput t \<and>
      as_ReplayedContextChanged u = as_ReplayedContextChanged t \<and>
      as_ReplayedContentRevision u = as_ReplayedContentRevision t \<and>
      as_ReplayedActionRevision u = as_ReplayedActionRevision t) \<and>
    as_CurrentTruncated u = as_CurrentTruncated t"
    using assms(1) cases6 by (elim disjE; cases "as_CurrentCycle t") (auto simp: setContextField_def)
  then show "same_frame t u" "as_CurrentTruncated u = as_CurrentTruncated t" "as_PastCycles u = as_PastCycles t"
    using setContextField_target[OF assms(1)] by (auto simp: same_frame_def)
  show "contextField u f = Inr v"
    using assms(1) cases6
    by (elim disjE; cases "as_CurrentCycle t") (auto simp: setContextField_def contextField_def)
  show "contextField u g = contextField t g" if "g \<noteq> f"
    using assms(1) cases6 that
    by (elim disjE; cases "as_CurrentCycle t"; clarsimp simp: setContextField_def; simp add: contextField_def)
qed

text \<open>Each text of the fields \<open>names\<close> is a marked prefix of the original one.\<close>

definition texts_cut :: "string set \<Rightarrow> AISnapshot \<Rightarrow> AISnapshot \<Rightarrow> bool" where
  "texts_cut names s t \<longleftrightarrow>
     (\<forall>f \<in> names. \<exists>v w. contextField s f = Inr v \<and> contextField t f = Inr w \<and> utf8_valid w \<and>
        marked_prefix v w)"

definition valid_texts :: "string set \<Rightarrow> AISnapshot \<Rightarrow> bool" where
  "valid_texts names s \<longleftrightarrow> (\<forall>f \<in> names. \<forall>v. contextField s f = Inr v \<longrightarrow> utf8_valid v)"

abbreviation spec_names :: "(contextFieldSpec \<times> int) list \<Rightarrow> string list" where
  "spec_names ps \<equiv> map (cfs_name \<circ> fst) ps"

lemma apply_allocations_texts:
  assumes "apply_allocations settings (tokenizer_counter cnt) s ps t = Inr u"
    "distinct (spec_names ps)" "set (spec_names ps) \<subseteq> field_names"
    "valid_texts (set (spec_names ps)) s" "marker_adds_tokens cnt"
  shows "same_frame t u \<and> as_PastCycles u = as_PastCycles t \<and> texts_cut (set (spec_names ps)) s u \<and>
    (\<forall>g. g \<notin> set (spec_names ps) \<longrightarrow> contextField u g = contextField t g) \<and>
    (as_CurrentTruncated u \<longleftrightarrow> as_CurrentTruncated t \<or>
       (\<exists>f \<in> set (spec_names ps). contextField u f \<noteq> contextField s f))"
  using assms
proof (induction ps arbitrary: t)
  case Nil
  then show ?case by (simp add: texts_cut_def)
next
  case (Cons p ps)
  obtain spec a where p: "p = (spec, a)" by fastforce
  define f where "f = cfs_name spec"
  from Cons(2) p obtain v w t1 where step: "contextField s f = Inr v"
    "tokenizer_Truncate cnt v a truncationMarker = Inr w" "setContextField t f w = Inr t1"
    "apply_allocations settings (tokenizer_counter cnt) s ps
       (t1\<lparr>as_CurrentTruncated := as_CurrentTruncated t1 \<or> w \<noteq> v\<rparr>) = Inr u"
    by (auto simp: f_def tokenizer_counter_def)
  have f: "f \<in> field_names" "f \<notin> set (spec_names ps)" using Cons(3,4) p by (auto simp: f_def)
  have "valid_texts (set (spec_names ps)) s" "utf8_valid v"
    using Cons(5) step(1) by (auto simp: valid_texts_def p f_def)
  with Cons(1)[OF step(4)] Cons(3,4,6)
  have ih: "same_frame t1 u" "as_PastCycles u = as_PastCycles t1" "texts_cut (set (spec_names ps)) s u"
    "\<And>g. g \<notin> set (spec_names ps) \<Longrightarrow> contextField u g = contextField t1 g"
    "as_CurrentTruncated u \<longleftrightarrow> as_CurrentTruncated t1 \<or> w \<noteq> v \<or>
       (\<exists>f \<in> set (spec_names ps). contextField u f \<noteq> contextField s f)"
    by (auto simp: p)
  have w: "utf8_valid w" "marked_prefix v w"
    using truncated_text[OF step(2) \<open>utf8_valid v\<close> Cons(6)] by simp_all
  have u: "contextField u f = Inr w" using ih(4)[OF f(2)] setContextField_field(2)[OF step(3) f(1)] by simp
  show ?case
  proof (intro conjI allI impI)
    show "same_frame t u" using setContextField_field(1)[OF step(3) f(1)] ih(1) by (rule same_frame_trans)
    show "as_PastCycles u = as_PastCycles t" using setContextField_field(5)[OF step(3) f(1)] ih(2) by simp
    show "texts_cut (set (spec_names (p # ps))) s u"
      using ih(3) step(1) u w by (auto simp: texts_cut_def p f_def)
    show "contextField u g = contextField t g" if "g \<notin> set (spec_names (p # ps))" for g
      using ih(4)[of g] setContextField_field(3)[OF step(3) f(1), of g] that by (auto simp: p f_def)
    show "as_CurrentTruncated u \<longleftrightarrow> as_CurrentTruncated t \<or>
       (\<exists>f \<in> set (spec_names (p # ps)). contextField u f \<noteq> contextField s f)"
      using ih(5) setContextField_field(4)[OF step(3) f(1)] u step(1) by (auto simp: p f_def)
  qed
qed

definition cut_of :: "string set \<Rightarrow> AISnapshot \<Rightarrow> AISnapshot \<Rightarrow> bool" where
  "cut_of names s t \<longleftrightarrow> same_frame s t \<and> texts_cut names s t \<and>
     (\<forall>g. g \<notin> names \<longrightarrow> contextField t g = contextField s g) \<and>
     (as_CurrentTruncated t \<longleftrightarrow> (\<exists>f \<in> names. contextField t f \<noteq> contextField s f))"

lemma spec_names_zip:
  assumes "length allocations = length specs"
  shows "map (cfs_name \<circ> fst) (zip specs allocations) = map cfs_name specs"
proof -
  have "map (cfs_name \<circ> fst) (zip specs allocations) = map cfs_name (map fst (zip specs allocations))" by simp
  then show ?thesis using assms by simp
qed

lemma apply_truncation_cut:
  assumes "apply_truncation settings (tokenizer_counter cnt) s specs allocations t = Inr u"
    "length allocations = length specs" "distinct (map cfs_name specs)"
    "set (map cfs_name specs) \<subseteq> field_names" "valid_texts (set (map cfs_name specs)) s"
    "marker_adds_tokens cnt" "same_frame s t"
    "\<And>g. g \<notin> set (map cfs_name specs) \<Longrightarrow> contextField t g = contextField s g"
  shows "cut_of (set (map cfs_name specs)) s u"
  using apply_allocations_texts[OF assms(1)[unfolded apply_truncation_def]] assms(3-8)
  unfolding spec_names_zip[OF assms(2)] cut_of_def by (auto intro: same_frame_trans)

lemma shrink_cut:
  assumes "shrink n settings (tokenizer_counter cnt) s specs m allocations t = Inr u"
    "length allocations = length specs" "distinct (map cfs_name specs)"
    "set (map cfs_name specs) \<subseteq> field_names" "valid_texts (set (map cfs_name specs)) s"
    "marker_adds_tokens cnt" "cut_of (set (map cfs_name specs)) s t"
  shows "cut_of (set (map cfs_name specs)) s u"
  using assms(1,2,7)
proof (induction n arbitrary: allocations t)
  case (Suc n)
  from Suc(2) obtain c where c: "countProviderInput settings (tokenizer_counter cnt) t = Inr c" by auto
  show ?case
  proof (cases "c \<le> m")
    case True
    then show ?thesis using Suc(2,4) c by simp
  next
    case False
    with Suc(2) c obtain i x t1 where t1:
      "apply_truncation settings (tokenizer_counter cnt) s specs (allocations[i := x]) t = Inr t1"
      "shrink n settings (tokenizer_counter cnt) s specs m (allocations[i := x]) t1 = Inr u"
      by (auto simp: Let_def split: option.splits)
    have "cut_of (set (map cfs_name specs)) s t1"
      using apply_truncation_cut[OF t1(1) _ assms(3-6)] Suc(3,4) by (simp add: cut_of_def)
    then show ?thesis using Suc(1)[OF t1(2)] Suc(3) by simp
  qed
qed simp

lemma original_counts_length:
  "original_counts settings counter s specs = Inr counts \<Longrightarrow> length counts = length specs"
  by (induction specs arbitrary: counts) auto

lemma distribute_length: "length (distribute remaining xs) = length xs"
  by (induction remaining xs rule: distribute.induct) (auto simp: Let_def)

lemma currentFieldSpecs_names:
  "distinct (map cfs_name (currentFieldSpecs operation))"
  "set (map cfs_name (currentFieldSpecs operation)) \<subseteq> field_names"
  by (cases "operation = OperationGoalRefine"; cases "operation = OperationActionGenerate";
      cases "operation = OperationActionRefine"; simp add: currentFieldSpecs_def share_spec_def)+

definition spec_fields :: "operation_type \<Rightarrow> string set" where
  "spec_fields operation = set (map cfs_name (currentFieldSpecs operation))"

lemma spec_fields_simps:
  "spec_fields OperationGoalRefine = {''source'', ''goal''}"
  "spec_fields OperationActionGenerate = {''goal'', ''plan'', ''do'', ''check''}"
  "spec_fields OperationActionRefine = {''action'', ''goal'', ''plan'', ''do'', ''check''}"
  by (simp_all add: spec_fields_def currentFieldSpecs_def share_spec_def)

lemma truncateCurrentInput_cut:
  assumes "truncateCurrentInput settings (tokenizer_counter cnt) s m = Inr t"
    "valid_texts (spec_fields (as_Operation s)) s" "marker_adds_tokens cnt"
  shows "cut_of (spec_fields (as_Operation s)) s t"
proof -
  define specs where "specs = currentFieldSpecs (as_Operation s)"
  from assms(1) obtain counts avail u r where
    c: "original_counts settings (tokenizer_counter cnt) s specs = Inr counts" and
    u: "apply_truncation settings (tokenizer_counter cnt) s specs
      (distribute r (zip counts (map (share_of avail) specs))) (s\<lparr>as_PastCycles := []\<rparr>) = Inr u" and
    t: "shrink 16 settings (tokenizer_counter cnt) s specs m
      (distribute r (zip counts (map (share_of avail) specs))) u = Inr t"
    unfolding truncateCurrentInput_def specs_def[symmetric] by (auto simp: Let_def split: if_splits)
  have len: "length (distribute r (zip counts (map (share_of avail) specs))) = length specs"
    using original_counts_length[OF c] by (simp add: distribute_length)
  note names = currentFieldSpecs_names[of "as_Operation s", folded specs_def]
  have "cut_of (set (map cfs_name specs)) s u"
    using apply_truncation_cut[OF u len names _ assms(3)] assms(2)
    by (simp add: spec_fields_def specs_def)
  then show ?thesis
    using shrink_cut[OF t len names _ assms(3)] assms(2) by (simp add: spec_fields_def specs_def)
qed

lemma cut_of_refl:
  assumes "valid_texts names s" "\<not> as_CurrentTruncated s"
    "\<And>f. f \<in> names \<Longrightarrow> \<exists>v. contextField s f = Inr v"
  shows "cut_of names s s"
  using assms by (fastforce simp: cut_of_def texts_cut_def valid_texts_def marked_prefix_def)

lemma add_candidates_shape:
  "add_candidates settings counter m selected cs = Inr t \<Longrightarrow>
     \<exists>k. t = selected\<lparr>as_PastCycles := as_PastCycles selected @ take k cs\<rparr>"
proof (induction cs arbitrary: selected)
  case Nil
  then show ?case by simp
next
  case (Cons candidate cs)
  define w where "w = selected\<lparr>as_PastCycles := as_PastCycles selected @ [candidate]\<rparr>"
  from Cons(2) obtain n where n: "countProviderInput settings counter w = Inr n"
    by (auto simp: Let_def w_def)
  show ?case
  proof (cases "n > m")
    case True
    then have "t = selected" using Cons(2) n by (auto simp: Let_def w_def)
    then show ?thesis by (auto intro: exI[of _ 0])
  next
    case False
    then have "add_candidates settings counter m w cs = Inr t"
      using Cons(2) n by (auto simp: Let_def w_def)
    from Cons(1)[OF this] obtain k where "t = w\<lparr>as_PastCycles := as_PastCycles w @ take k cs\<rparr>" by blast
    then show ?thesis by (auto simp: w_def intro!: exI[of _ "Suc k"])
  qed
qed

text \<open>A selection of the service: a cut of the start, with the first past Cycles.\<close>

lemma selectAIContext_cut:
  assumes "se_TokenCounter settings = Some (tokenizer_counter cnt)"
    "selectAIContext settings s m = Inr t" "marker_adds_tokens cnt"
    "valid_texts (spec_fields (as_Operation s)) (selection_start s)" "\<not> as_CurrentTruncated s"
    "\<And>f. f \<in> spec_fields (as_Operation s) \<Longrightarrow> \<exists>v. contextField (selection_start s) f = Inr v"
  shows "\<exists>k. as_PastCycles t = take k (as_PastCycles s) \<and>
    cut_of (spec_fields (as_Operation s)) (selection_start s) t \<and> assertSameGoalContext t = None"
proof -
  define start where "start = selection_start s"
  have start: "as_PastCycles start = []" "as_Operation start = as_Operation s"
    "as_CurrentTruncated start = as_CurrentTruncated s" "same_target s start"
    using selection_start_target[of s]
    by (auto simp: start_def selection_start_def same_target_def Let_def split: option.splits)
  from assms(1,2) have iso: "assertSameGoalContext s = None"
    by (auto simp: selectAIContext_def split: if_splits option.splits)
  from assms(1,2) iso obtain base where base: "countProviderInput settings (tokenizer_counter cnt) start = Inr base"
    by (cases "countProviderInput settings (tokenizer_counter cnt) start")
      (auto simp: selectAIContext_def Let_def start_def split: if_splits)
  define n where "n = nat (max_context_cycles settings)"
  from assms(1,2) iso base obtain fitted where
    fit: "(if base > m then truncateCurrentInput settings (tokenizer_counter cnt) start m
           else Inr start) = Inr fitted" and
    add: "add_candidates settings (tokenizer_counter cnt) m fitted (take n (as_PastCycles s)) = Inr t"
    by (cases "base > m") (auto simp: selectAIContext_def Let_def start_def n_def split: if_splits)
  have fitted: "cut_of (spec_fields (as_Operation s)) start fitted \<and> as_PastCycles fitted = []"
  proof (cases "base > m")
    case True
    then have run: "truncateCurrentInput settings (tokenizer_counter cnt) start m = Inr fitted" using fit by simp
    show ?thesis
      using truncateCurrentInput_cut[OF run] truncateCurrentInput_target[OF run] assms(3,4) start
      by (simp add: start_def)
  next
    case False
    then have "fitted = start" using fit by simp
    then show ?thesis using cut_of_refl[of "spec_fields (as_Operation s)" start] assms(4,5,6) start
      by (simp add: start_def)
  qed
  from add_candidates_shape[OF add] fitted obtain k where t: "t = fitted\<lparr>as_PastCycles := take k (take n (as_PastCycles s))\<rparr>"
    by auto
  have cut: "cut_of (spec_fields (as_Operation s)) start t" using fitted unfolding t cut_of_def
    by (simp add: texts_cut_def)
  have "same_target s t" using start(4) cut same_target_trans by (auto simp: cut_of_def same_frame_def)
  moreover have "set (as_PastCycles t) \<subseteq> set (as_PastCycles s)"
    unfolding t by (simp add: take_take set_take_subset)
  ultimately have "assertSameGoalContext t = None" by (rule same_target_isolated[OF iso])
  then show ?thesis using cut t by (auto simp: start_def take_take)
qed

end
