(* ===== verification/AISelectionChecks.thy ===== *)
theory AISelectionChecks
  imports AISelection GoalRefine ActionAI
begin

section \<open>Accepted contexts\<close>

text \<open>
  The properties of the contexts \<open>GoalRefine\<close> and \<open>ActionAI\<close> accept from a selector, and of the
  selector of the service as the use cases see it.
\<close>

text \<open>Only an isolated context is sent for the refinement of a Goal, whatever the selector does: an
  accepted context is for the same generation, target and Goal as the one it was asked for, carries the hash
  of what is sent, contains no text but the draft and the Goal or marked prefixes of them, and takes a
  subsequence of the given past Cycles, all of them of that Goal.\<close>

theorem accepted_refine_context_is_isolated:
  assumes "selected_refine_context selectContext candidate = Inr snapshot"
  shows "as_GenerationID snapshot = as_GenerationID candidate \<and> as_Operation snapshot = as_Operation candidate \<and>
    as_TargetRevision snapshot = as_TargetRevision candidate \<and> as_GoalID snapshot = as_GoalID candidate \<and>
    as_CanonicalProviderInputHash snapshot \<noteq> [] \<and> as_CurrentCycle snapshot = None \<and>
    marked_prefix (as_SourceText candidate) (as_SourceText snapshot) \<and>
    marked_prefix (as_GoalBody candidate) (as_GoalBody snapshot) \<and>
    (as_CurrentTruncated snapshot \<longleftrightarrow> as_SourceText snapshot \<noteq> as_SourceText candidate \<or>
       as_GoalBody snapshot \<noteq> as_GoalBody candidate) \<and>
    subseq (as_PastCycles snapshot) (as_PastCycles candidate) \<and>
    (\<forall>c \<in> set (as_PastCycles snapshot). acc_GoalID c = as_GoalID candidate)"
  using assms
  by (auto simp: selected_refine_context_def validateGoalRefineContextSelection_def Let_def valid_text_iff
      selected_in_order_iff assertSameGoalContext_def list_ex_iff split: option.splits if_splits)

theorem accepted_refine_context_is_isolated_witness:
  "marked_prefix (as_SourceText sample_snapshot)
     (as_SourceText (sample_snapshot\<lparr>as_SourceText := [], as_CurrentTruncated := True,
        as_CanonicalProviderInputHash := ''h''\<rparr>))"
proof -
  let ?cut = "\<lambda>s. s\<lparr>as_SourceText := [], as_CurrentTruncated := True, as_CanonicalProviderInputHash := ''h''\<rparr>"
  have "selected_refine_context (Some (\<lambda>s. Inr (?cut s))) sample_snapshot = Inr (?cut sample_snapshot)"
    by (simp add: selected_refine_context_def sample_snapshot_def assertSameGoalContext_def utf8_valid.simps
        validateGoalRefineContextSelection_def validGoalRefineSelectedText_def Let_def decode_rune_ascii rune_error_def)
  from accepted_refine_context_is_isolated[OF this] show ?thesis by blast
qed


definition sample_entitlements :: Entitlements where
  "sample_entitlements =
     \<lparr>en_MaxProgressingGoals = 3, en_MaxAIOperationsPer24Hours = 10, en_MaxAIInputTokens = 1000,
      en_GoalRefineOutputTokens = 10, en_ActionOutputTokens = 10\<rparr>"

lemma sample_marker_adds_tokens: "marker_adds_tokens (\<lambda>s. Inr (int (length s)))"
  by (simp add: marker_adds_tokens_def)

lemmas run_selection = selectAIContext_def sample_settings_def sample_snapshot_def Let_def
  assertSameGoalContext_def selection_start_def countProviderInput_def providerLogicalInputJSON_def
  aiOperationSettings_def sample_counter_def tokenizer_counter_def refineGoalAIInput_def json_marshal_def
  aiInputCycles_def json_escape.simps(2) decode_rune_ascii json_ascii_def invalidResponseRetryInstruction_def
  providerInputTokenOverhead_def selectAIContextForUser_def sample_entitlements_def
  setCanonicalProviderInputHash_def canonicalProviderInputHash_def


definition sample_cycle_context :: AIContextCycle where
  "sample_cycle_context =
     \<lparr>acc_ID = ''c'', acc_GoalID = ''g'', acc_SequenceNumber = 1, acc_Status = StatusActive, acc_GoalBody = ''b'',
      acc_Plan = ''p'', acc_Do = ''d'', acc_Check = ''k'', acc_Action = ''a''\<rparr>"

definition sample_action_snapshot :: AISnapshot where
  "sample_action_snapshot = sample_snapshot\<lparr>as_Operation := OperationActionGenerate,
     as_CurrentCycle := Some sample_cycle_context\<rparr>"

text \<open>Only an isolated context is sent for the generation or refinement of an Action, whatever the
  selector does: an accepted context is for the same operation, target, Goal and Cycle, carries the hash of what
  is sent, contains no text but those of the Cycle and the Goal or marked prefixes of them (the Action that is
  to be generated may be left out), and takes a subsequence of the given past Cycles, all of that Goal.\<close>

theorem accepted_action_context_is_isolated:
  assumes "selected_action_context selectContext candidate = Inr snapshot"
  shows "as_Operation snapshot = as_Operation candidate \<and> as_TargetRevision snapshot = as_TargetRevision candidate \<and>
    as_GoalID snapshot = as_GoalID candidate \<and> as_SourceText snapshot = as_SourceText candidate \<and>
    as_CanonicalProviderInputHash snapshot \<noteq> [] \<and>
    marked_prefix (as_GoalBody candidate) (as_GoalBody snapshot) \<and>
    (\<exists>original current. as_CurrentCycle candidate = Some original \<and> as_CurrentCycle snapshot = Some current \<and>
       cycle_target current = cycle_target original \<and> acc_GoalID current = as_GoalID candidate \<and>
       marked_prefix (acc_Plan original) (acc_Plan current) \<and> marked_prefix (acc_Do original) (acc_Do current) \<and>
       marked_prefix (acc_Check original) (acc_Check current) \<and>
       marked_prefix (acc_Action original) (acc_Action current)) \<and>
    subseq (as_PastCycles snapshot) (as_PastCycles candidate) \<and>
    (\<forall>c \<in> set (as_PastCycles snapshot). acc_GoalID c = as_GoalID candidate)"
proof -
  have v: "validateActionAIContextSelection candidate snapshot = None" "as_CanonicalProviderInputHash snapshot \<noteq> []"
    using assms by (auto simp: selected_action_context_def split: option.splits if_splits)
  then obtain original current where oc: "as_CurrentCycle candidate = Some original"
    "as_CurrentCycle snapshot = Some current"
    by (auto simp: validateActionAIContextSelection_def split: option.splits)
  have action: "marked_prefix (acc_Action original) (acc_Action current)"
    using v(1) oc by (auto simp: validateActionAIContextSelection_def validSelectedAction_def
        validActionSelectedText_eq valid_text_iff marked_prefix_def split: if_splits)
  show ?thesis
    using v oc action
    by (auto simp: validateActionAIContextSelection_def validActionSelectedText_eq valid_text_iff cycle_target_def
        selected_in_order_iff assertSameGoalContext_def list_ex_iff split: if_splits)
qed

theorem accepted_action_context_is_isolated_witness:
  "marked_prefix (as_GoalBody sample_action_snapshot)
     (as_GoalBody (sample_action_snapshot\<lparr>as_GoalBody := [], as_CurrentTruncated := True,
        as_CanonicalProviderInputHash := ''h''\<rparr>))"
proof -
  let ?cut = "\<lambda>s. s\<lparr>as_GoalBody := [], as_CurrentTruncated := True, as_CanonicalProviderInputHash := ''h''\<rparr>"
  have "selected_action_context (Some (\<lambda>s. Inr (?cut s))) sample_action_snapshot = Inr (?cut sample_action_snapshot)"
    by (simp add: selected_action_context_def sample_action_snapshot_def sample_snapshot_def sample_cycle_context_def
        assertSameGoalContext_def utf8_valid.simps validateActionAIContextSelection_def validActionSelectedText_def
        validSelectedAction_def Let_def decode_rune_ascii rune_error_def)
  from accepted_action_context_is_isolated[OF this] show ?thesis by blast
qed

text \<open>What a cut of an Action operation leaves of the texts, field by field.\<close>

lemma action_cut_fields:
  assumes operation: "operation = OperationActionGenerate \<or> operation = OperationActionRefine"
    and cut: "cut_of (spec_fields operation) (s\<lparr>as_PastCycles := [], as_CurrentCycle := Some (original
      \<lparr>acc_Action := if operation = OperationActionGenerate then [] else acc_Action original\<rparr>)\<rparr>) t"
    and current: "as_CurrentCycle t = Some current"
  shows "as_SourceText t = as_SourceText s"
    "utf8_valid (as_GoalBody t) \<and> marked_prefix (as_GoalBody s) (as_GoalBody t)"
    "utf8_valid (acc_Plan current) \<and> marked_prefix (acc_Plan original) (acc_Plan current)"
    "utf8_valid (acc_Do current) \<and> marked_prefix (acc_Do original) (acc_Do current)"
    "utf8_valid (acc_Check current) \<and> marked_prefix (acc_Check original) (acc_Check current)"
    "if operation = OperationActionGenerate then acc_Action current = []
     else utf8_valid (acc_Action current) \<and> marked_prefix (acc_Action original) (acc_Action current)"
    "as_CurrentTruncated t \<longleftrightarrow> as_GoalBody t \<noteq> as_GoalBody s \<or> acc_Plan current \<noteq> acc_Plan original \<or>
       acc_Do current \<noteq> acc_Do original \<or> acc_Check current \<noteq> acc_Check original \<or>
       (operation = OperationActionRefine \<and> acc_Action current \<noteq> acc_Action original)"
proof -
  let ?start = "s\<lparr>as_PastCycles := [], as_CurrentCycle := Some (original
    \<lparr>acc_Action := if operation = OperationActionGenerate then [] else acc_Action original\<rparr>)\<rparr>"
  let ?names = "spec_fields operation"
  have t: "texts_cut ?names ?start t" "as_CurrentTruncated t \<longleftrightarrow> (\<exists>f \<in> ?names. contextField t f \<noteq> contextField ?start f)"
    and same: "\<And>g. g \<notin> ?names \<Longrightarrow> contextField t g = contextField ?start g"
    using cut by (simp_all add: cut_of_def)
  have "''source'' \<notin> ?names" using operation by (elim disjE) (simp_all add: spec_fields_simps)
  from same[OF this] show "as_SourceText t = as_SourceText s" by (simp add: contextField_def)
  have gen: "''action'' \<notin> ?names" if "operation = OperationActionGenerate" using that by (simp add: spec_fields_simps)
  show "if operation = OperationActionGenerate then acc_Action current = []
      else utf8_valid (acc_Action current) \<and> marked_prefix (acc_Action original) (acc_Action current)"
    using operation same[OF gen] t(1)
    by (elim disjE) (simp_all add: spec_fields_simps texts_cut_def contextField_def current)
  show "utf8_valid (as_GoalBody t) \<and> marked_prefix (as_GoalBody s) (as_GoalBody t)"
    "utf8_valid (acc_Plan current) \<and> marked_prefix (acc_Plan original) (acc_Plan current)"
    "utf8_valid (acc_Do current) \<and> marked_prefix (acc_Do original) (acc_Do current)"
    "utf8_valid (acc_Check current) \<and> marked_prefix (acc_Check original) (acc_Check current)"
    using operation t(1)
    by (elim disjE; simp add: spec_fields_simps texts_cut_def contextField_def current)+
  show "as_CurrentTruncated t \<longleftrightarrow> as_GoalBody t \<noteq> as_GoalBody s \<or> acc_Plan current \<noteq> acc_Plan original \<or>
       acc_Do current \<noteq> acc_Do original \<or> acc_Check current \<noteq> acc_Check original \<or>
       (operation = OperationActionRefine \<and> acc_Action current \<noteq> acc_Action original)"
    using operation t(2)
    by (elim disjE) (auto simp: spec_fields_simps contextField_def current)
qed

text \<open>The context selection of the service is accepted by the use case for Actions: for texts of the
  Cycle and the Goal in valid UTF-8, and a token counter for which appending the truncation marker never lowers
  the count, whatever selection the service makes, cut or not, passes the isolation check.\<close>

theorem selection_passes_action_check:
  assumes "se_TokenCounter settings = Some (tokenizer_counter cnt)" "marker_adds_tokens cnt"
    "selectAIContextForUser sha256 settings entitlements candidate = Inr selected"
    "as_Operation candidate = OperationActionGenerate \<or> as_Operation candidate = OperationActionRefine"
    "as_CurrentCycle candidate = Some original"
    "as_ReplayedOutput candidate = None" "\<not> as_ReplayedContextChanged candidate"
    "as_ReplayedContentRevision candidate = 0" "as_ReplayedActionRevision candidate = 0"
    "\<not> as_CurrentTruncated candidate" "utf8_valid (as_GoalBody candidate)" "utf8_valid (acc_Plan original)"
    "utf8_valid (acc_Do original)" "utf8_valid (acc_Check original)" "utf8_valid (acc_Action original)"
  shows "validateActionAIContextSelection candidate selected = None"
proof -
  from assms(3,4) obtain s t hash n where
    s: "s = candidate\<lparr>as_MaxOutputTokens := n\<rparr>" and
    t: "selectAIContext settings s (en_MaxAIInputTokens (projr entitlements)) = Inr t" and
    r: "selected = t\<lparr>as_CanonicalProviderInputHash := hash\<rparr>"
    by (cases entitlements) (auto simp: selectAIContextForUser_def setCanonicalProviderInputHash_def split: if_splits)
  define act where "act = (if as_Operation candidate = OperationActionGenerate then [] else acc_Action original)"
  have start: "selection_start s = s\<lparr>as_PastCycles := [], as_CurrentCycle := Some (original\<lparr>acc_Action := act\<rparr>)\<rparr>"
    using assms(4,5) by (auto simp: selection_start_def s Let_def act_def)
  have op: "as_Operation s = as_Operation candidate" by (simp add: s)
  have texts: "utf8_valid act" "utf8_valid (acc_Action original)" using assms(15) by (auto simp: act_def)
  have "valid_texts (spec_fields (as_Operation candidate)) (selection_start s) \<and>
    (\<forall>f \<in> spec_fields (as_Operation candidate). \<exists>v. contextField (selection_start s) f = Inr v)"
    using assms(4,11-14) texts unfolding start
    by (elim disjE) (simp_all add: spec_fields_simps valid_texts_def contextField_def s)
  then have "valid_texts (spec_fields (as_Operation s)) (selection_start s)"
    "\<And>f. f \<in> spec_fields (as_Operation s) \<Longrightarrow> \<exists>v. contextField (selection_start s) f = Inr v"
    by (simp_all add: op)
  from selectAIContext_cut[OF assms(1) t assms(2) this(1) _ this(2)] assms(10)
  obtain k where past: "as_PastCycles t = take k (as_PastCycles candidate)" and
    cut: "cut_of (spec_fields (as_Operation candidate)) (selection_start s) t" and
    iso: "assertSameGoalContext t = None"
    by (auto simp: s)
  note cut = cut[unfolded start]
  from cut obtain current where current: "as_CurrentCycle t = Some current"
    "cycle_target current = cycle_target original"
    by (auto simp: cut_of_def same_frame_def same_target_def cycle_target_def)
  have frame: "as_GenerationID t = as_GenerationID candidate" "as_Operation t = as_Operation candidate"
    "as_TargetRevision t = as_TargetRevision candidate" "as_SourceGoalRevision t = as_SourceGoalRevision candidate"
    "as_GoalID t = as_GoalID candidate" "as_ReplayedOutput t = None" "\<not> as_ReplayedContextChanged t"
    "as_ReplayedContentRevision t = 0" "as_ReplayedActionRevision t = 0"
    using cut assms(6-9) by (simp_all add: cut_of_def same_frame_def same_target_def s)
  have order: "selected_in_order (as_PastCycles candidate) (as_PastCycles t)"
    by (simp add: selected_in_order_iff past prefix_imp_subseq take_is_prefix)
  have "as_SourceText s = as_SourceText candidate" "as_GoalBody s = as_GoalBody candidate" by (simp_all add: s)
  note fields = action_cut_fields[OF assms(4) cut[unfolded act_def] current(1), unfolded this]
  have "assertSameGoalContext (t\<lparr>as_CanonicalProviderInputHash := hash\<rparr>) = None"
    using iso by (simp add: assertSameGoalContext_def current(1) split: if_splits)
  then show ?thesis
    using frame order fields current(2) assms(4)
    unfolding r validateActionAIContextSelection_def
    by (elim disjE) (simp_all add: current(1) assms(5) validActionSelectedText_eq valid_text_iff validSelectedAction_def
        cycle_target_def)
qed

theorem selection_passes_action_check_witness:
  "\<exists>selected. selectAIContextForUser (\<lambda>s. s) sample_settings (Inr sample_entitlements) sample_action_snapshot =
       Inr selected \<and>
     validateActionAIContextSelection sample_action_snapshot selected = None"
proof -
  have one: "decimal_int 1 = [digit_char 1]" by (simp add: decimal_int_def decimal.simps[of "Suc 0"])
  obtain selected where
    s: "selectAIContextForUser (\<lambda>s. s) sample_settings (Inr sample_entitlements) sample_action_snapshot = Inr selected"
    by (simp add: run_selection one sample_action_snapshot_def sample_cycle_context_def generateActionAIInput_def
        json_action_input_def json_cycle_def aiInputCycle_def aiInputCurrentCycle_def)
  have "se_TokenCounter sample_settings = Some (tokenizer_counter (\<lambda>s. Inr (int (length s))))"
    by (simp add: sample_settings_def sample_counter_def)
  from selection_passes_action_check[OF this sample_marker_adds_tokens s, of sample_cycle_context] s show ?thesis
    by (simp add: sample_action_snapshot_def sample_snapshot_def sample_cycle_context_def utf8_valid.simps
        decode_rune_ascii rune_error_def)
qed

end
