(* ===== verification/AIBudget.thy ===== *)
theory AIBudget
  imports AILedger
begin

section \<open>What accepting an AI operation relies on\<close>

text \<open>
  \<open>ai_admission\<close> extends the contract of the ledger by the operations that accept an operation: the
  \<open>exposure\<close> of a month (its reserved, actual and unattributed costs), which the reservation raises by
  its amount, and the \<open>recent\<close> operations of a User, which the usage raises by one.
  \<open>refine_admission\<close> and \<open>action_admission\<close> carry the two acceptances of the use cases through it:
  the monthly budget and the User's limit hold when a new operation has been accepted.
\<close>

lemma preserves_sum:
  "(\<And>e. preserves P (f e)) \<Longrightarrow> (\<And>x. preserves P (g x)) \<Longrightarrow> preserves P (case r of Inl e \<Rightarrow> f e | Inr x \<Rightarrow> g x)"
  by (cases r) auto

lemma preserves_try: "preserves P m \<Longrightarrow> preserves P (tx_try m)"
  by (auto simp: preserves_def tx_try_def split: sum.splits)

lemma preserves_must_write: "preserves P m \<Longrightarrow> preserves P (must_write invariant operation m)"
  by (auto simp: preserves_def must_write_def split: if_splits)

lemma preserves_must_affect: "preserves P m \<Longrightarrow> preserves P (must_affect operation n m)"
  by (auto simp: preserves_def must_affect_def requireRows_def split: if_splits)

text \<open>\<open>yields P m\<close>: what holds of the answer of every run that commits.\<close>

definition yields :: "('a \<Rightarrow> bool) \<Rightarrow> ('s, 'a) tx \<Rightarrow> bool" where
  "yields P m \<longleftrightarrow> (\<forall>s x t. m s = Inr (x, t) \<longrightarrow> P x)"

lemma yieldsD: "yields P m \<Longrightarrow> m s = Inr (x, t) \<Longrightarrow> P x"
  by (auto simp: yields_def)

lemma yields_pure: "P x \<Longrightarrow> yields P (tx_return x)" "yields P (tx_fail e)"
  by (auto simp: yields_def)

lemma yields_bind: "(\<And>x. yields P (f x)) \<Longrightarrow> yields P (tx_bind m f)"
  by (auto simp: yields_def)

lemma yields_if: "yields P m \<Longrightarrow> yields P n \<Longrightarrow> yields P (if b then m else n)"
  by simp

lemma yields_option: "yields P m \<Longrightarrow> (\<And>x. yields P (g x)) \<Longrightarrow> yields P (case r of None \<Rightarrow> m | Some x \<Rightarrow> g x)"
  by (cases r) auto

lemma yields_sum:
  "(\<And>e. yields P (h e)) \<Longrightarrow> (\<And>x. yields P (g x)) \<Longrightarrow> yields P (case r of Inl e \<Rightarrow> h e | Inr x \<Rightarrow> g x)"
  by (cases r) auto

lemmas yields_intros = yields_pure yields_bind yields_if yields_option yields_sum

definition replayed :: "workspace_error + AISnapshot \<Rightarrow> bool" where
  "replayed r \<longleftrightarrow> (case r of Inl _ \<Rightarrow> True | Inr snapshot \<Rightarrow> as_ReplayedOutput snapshot \<noteq> None)"

lemma keeps_must_affect: "keeps f m \<Longrightarrow> keeps f (must_affect operation n m)"
  by (auto simp: keeps_def must_affect_def requireRows_def split: if_splits)

lemma keeps_must_write: "keeps f m \<Longrightarrow> keeps f (must_write invariant operation m)"
  by (auto simp: keeps_def must_write_def split: if_splits)

subsection \<open>The contract\<close>

locale ai_admission = ai_ledger tx ledger keyed charged unsettled
  for tx :: "('s, 'z) AITx_scheme" and ledger :: "'s \<Rightarrow> 'l" and keyed charged unsettled +
  fixes exposure :: "'l \<Rightarrow> gotime \<Rightarrow> rat"
    and recent :: "'l \<Rightarrow> string \<Rightarrow> gotime \<Rightarrow> int"
  assumes ListAIContextCycles_reads: "keeps ledger (ai_ListAIContextCycles tx userID goalID exclude limit)"
    and LockExpiredGenerations_reads: "keeps ledger (ai_LockExpiredGenerations tx userID now)"
    and SumLockedReservations_reads: "keeps ledger (ai_SumLockedReservationsByMonth tx generationIDs)"
    and ReleaseBudget_keyed: "preserves (\<lambda>s. keyed (ledger s)) (ai_ReleaseBudgetReservationCAS tx month amount now)"
    and ExpireGeneration_keyed: "preserves (\<lambda>s. keyed (ledger s)) (ai_ExpireGenerationCAS tx generationID reserved now)"
    and ExpireUsage_keyed: "preserves (\<lambda>s. keyed (ledger s)) (ai_ExpireUsageCAS tx generationID month reserved)"
    and CountRollingUsage_law:
      "ai_CountRollingUsage tx userID after s = Inr (n, t) \<Longrightarrow> ledger t = ledger s \<and> n = recent (ledger s) userID after"
    and EnsureBudgetMonth_recent: "keeps (\<lambda>s. recent (ledger s)) (ai_EnsureBudgetMonth tx month now)"
    and LockBudgetMonth_law:
      "ai_LockBudgetMonth tx month s = Inr (budget, t) \<Longrightarrow> keyed (ledger s) \<Longrightarrow>
       ledger t = ledger s \<and>
       (\<exists>r a u. rat_SetString (ab_ReservedCostUSD budget) = Some r \<and> rat_SetString (ab_ActualCostUSD budget) = Some a \<and>
          rat_SetString (ab_UnattributedCostUSD budget) = Some u \<and> r + a + u = exposure (ledger s) month)"
    and IncrementRateBucket_law:
      "keeps (\<lambda>s. (keyed (ledger s), exposure (ledger s), recent (ledger s))) (ai_IncrementRateBucket tx bucket)"
    and ReserveBudget_law:
      "ai_ReserveBudgetCAS tx month (decimalFromFloat cost) now s = Inr (1, t) \<Longrightarrow> keyed (ledger s) \<Longrightarrow>
       keyed (ledger t) \<and> exposure (ledger t) month = exposure (ledger s) month + money cost \<and>
       recent (ledger t) = recent (ledger s)"
    and InsertAcceptedUsage_law:
      "ai_InsertAcceptedUsage tx record s = Inr (1, t) \<Longrightarrow> keyed (ledger s) \<Longrightarrow>
       keyed (ledger t) \<and> exposure (ledger t) = exposure (ledger s) \<and>
       recent (ledger t) userID after \<le> recent (ledger s) userID after + 1"
begin

abbreviation safe :: "('s, 'a) tx \<Rightarrow> bool" where
  "safe m \<equiv> preserves (\<lambda>s. keyed (ledger s)) m"

lemmas safe_intros =
  preserves_pure preserves_prod preserves_sum preserves_try preserves_must_write preserves_must_affect
  preserves_bind preserves_map_error preserves_if preserves_option preserves_let

lemma safe_reads: "keeps ledger m \<Longrightarrow> safe m"
  by (rule preserves_keeps)

lemma recover_expired_safe: "safe (recover_expired invariant tx userID now)"
proof -
  have release: "safe (release_all invariant tx now reservations)" for reservations
    by (induction reservations) (auto intro!: safe_intros ReleaseBudget_keyed)
  have expire: "safe (expire_all invariant tx now items)" for items
    by (induction items) (auto intro!: safe_intros ExpireGeneration_keyed ExpireUsage_keyed)
  show ?thesis unfolding recover_expired_def
    by (intro safe_intros release expire safe_reads LockExpiredGenerations_reads SumLockedReservations_reads)
qed

text \<open>What an acceptance has established: the budget of the month and the limit of the User hold.\<close>

definition admitted :: "(string \<Rightarrow> workspace_error + Entitlements) \<Rightarrow> rat \<Rightarrow> string \<Rightarrow> gotime \<Rightarrow> 's \<Rightarrow> bool" where
  "admitted limitsOf monthlyBudget userID now s \<longleftrightarrow>
     keyed (ledger s) \<and> exposure (ledger s) (budget_month now) \<le> money monthlyBudget \<and>
     (\<exists>limits. limitsOf userID = Inr limits \<and>
        recent (ledger s) userID (time_add now (- AIRollingWindow)) \<le> en_MaxAIOperationsPer24Hours limits)"

text \<open>The same with one operation still to be recorded.\<close>

definition reserved :: "(string \<Rightarrow> workspace_error + Entitlements) \<Rightarrow> rat \<Rightarrow> string \<Rightarrow> gotime \<Rightarrow> 's \<Rightarrow> bool" where
  "reserved limitsOf monthlyBudget userID now s \<longleftrightarrow>
     keyed (ledger s) \<and> exposure (ledger s) (budget_month now) \<le> money monthlyBudget \<and>
     (\<exists>limits. limitsOf userID = Inr limits \<and>
        recent (ledger s) userID (time_add now (- AIRollingWindow)) < en_MaxAIOperationsPer24Hours limits)"

lemma reserved_then_recorded:
  assumes "reserved limitsOf monthlyBudget userID now s"
    and run: "ai_InsertAcceptedUsage tx record s = Inr (1, t)"
  shows "admitted limitsOf monthlyBudget userID now t"
proof -
  from assms(1) obtain limits where s: "keyed (ledger s)" "exposure (ledger s) (budget_month now) \<le> money monthlyBudget"
    "limitsOf userID = Inr limits"
    "recent (ledger s) userID (time_add now (- AIRollingWindow)) < en_MaxAIOperationsPer24Hours limits"
    by (auto simp: reserved_def)
  note law = InsertAcceptedUsage_law[OF run s(1), of userID "time_add now (- AIRollingWindow)"]
  from law s(4) have "recent (ledger t) userID (time_add now (- AIRollingWindow)) \<le> en_MaxAIOperationsPer24Hours limits"
    by linarith
  with law s(2,3) show ?thesis by (simp add: admitted_def)
qed

lemma reserved_figures:
  "keeps (\<lambda>s. (keyed (ledger s), exposure (ledger s), recent (ledger s))) m \<Longrightarrow> m s = Inr (x, t) \<Longrightarrow>
   reserved limitsOf monthlyBudget userID now s \<Longrightarrow> reserved limitsOf monthlyBudget userID now t"
  by (drule (1) keepsD) (simp add: reserved_def)

lemma check_ai_buckets_figures:
  "keeps (\<lambda>s. (keyed (ledger s), exposure (ledger s), recent (ledger s))) (check_ai_buckets tx hmac key window checks)"
proof (induction checks)
  case (Cons check checks)
  then show ?case by (cases check) (auto intro!: keeps_intros IncrementRateBucket_law)
qed (simp add: keeps_intros)

lemma reserve_exposure_reserved:
  assumes rates: "keeps (\<lambda>s. (keyed (ledger s), exposure (ledger s), recent (ledger s))) rateLimits"
    and run: "reserve_exposure invariant operation tx limitsOf rateLimits monthlyBudget reservationUSD userID now s = Inr (x, t)"
    and keys: "keyed (ledger s)"
  shows "reserved limitsOf monthlyBudget userID now t"
proof -
  from run obtain limits n a u b budget c d where steps:
    "limitsOf userID = Inr limits"
    "ai_CountRollingUsage tx userID (time_add now (- AIRollingWindow)) s = Inr (n, a)"
    "n < en_MaxAIOperationsPer24Hours limits"
    "ai_EnsureBudgetMonth tx (budget_month now) now a = Inr (u, b)"
    "ai_LockBudgetMonth tx (budget_month now) b = Inr (budget, c)"
    "rateLimits c = Inr ((), d)"
    "exceedsBudget budget (decimalFromFloat reservationUSD) (decimalFromFloat monthlyBudget) = Inr False"
    "ai_ReserveBudgetCAS tx (budget_month now) (decimalFromFloat reservationUSD) now d = Inr (1, t)"
    by (auto simp: reserve_exposure_def Let_def split: if_splits)
  note counted = CountRollingUsage_law[OF steps(2)]
  from EnsureBudgetMonth_law[OF steps(4)] counted keys have keyed_b: "keyed (ledger b)" by simp
  from keepsD[OF EnsureBudgetMonth_recent steps(4)] counted
  have recent_b: "recent (ledger b) userID (time_add now (- AIRollingWindow)) = n" by simp
  from LockBudgetMonth_law[OF steps(5) keyed_b] obtain r a' u' where locked: "ledger c = ledger b"
    "rat_SetString (ab_ReservedCostUSD budget) = Some r" "rat_SetString (ab_ActualCostUSD budget) = Some a'"
    "rat_SetString (ab_UnattributedCostUSD budget) = Some u'" "r + a' + u' = exposure (ledger b) (budget_month now)"
    by blast
  from keepsD[OF rates steps(6)] locked(1) keyed_b have d: "keyed (ledger d)"
    "exposure (ledger d) = exposure (ledger b)" "recent (ledger d) = recent (ledger b)" by auto
  from steps(7) locked(2-5) have "exposure (ledger b) (budget_month now) + money reservationUSD \<le> money monthlyBudget"
    by (simp add: exceedsBudget_def decimalFromFloat_read)
  with ReserveBudget_law[OF steps(8) d(1)] d(2,3) recent_b steps(1,3) show ?thesis
    by (simp add: reserved_def)
qed

end

subsection \<open>Goal refinements\<close>

locale refine_admission =
  refine_ledger tx ledger keyed charged unsettled + ai_admission tx ledger keyed charged unsettled exposure recent
  for tx :: "'s GoalDraftTx" and ledger :: "'s \<Rightarrow> 'l" and keyed charged unsettled exposure recent +
  assumes FindGoalRefineReplay_reads: "keeps ledger (gd_FindGoalRefineReplay tx userID key)"
    and HasRunningDraftGeneration_reads: "keeps ledger (gd_HasRunningDraftGeneration tx draftID)"
    and InsertGoalRefineGeneration_law:
      "keeps (\<lambda>s. (keyed (ledger s), exposure (ledger s), recent (ledger s))) (gd_InsertGoalRefineGeneration tx record)"
begin

lemma begin_refine_fresh_admitted:
  assumes run: "begin_refine_fresh tx hmac limitsOf settings selectContext input target draft requestHash s = Inr (x, t)"
    and keys: "keyed (ledger s)"
  shows "admitted limitsOf (gds_MonthlyBudgetUSD settings) (gri_UserID input) (gri_Now input) t"
proof -
  from run obtain scope a running b m c u d snapshot where steps:
    "refine_scope tx input target draft s = Inr (scope, a)"
    "gd_HasRunningDraftGeneration tx (dr_ID draft) a = Inr (running, b)"
    "reserve_exposure ErrGoalDraftPersistenceInvariant ''reserve Goal Refine budget'' tx limitsOf
       (checkAIRateLimits tx hmac settings input (gri_Now input)) (gds_MonthlyBudgetUSD settings)
       (gds_ReservationUSD settings) (gri_UserID input) (gri_Now input) b = Inr (m, c)"
    "gd_InsertGoalRefineGeneration tx (refine_generation settings input draft (fst scope) (fst (snd scope))
       requestHash snapshot (fst m) (snd m)) c = Inr (1, d)"
    "ai_InsertAcceptedUsage tx (refine_usage settings input (fst scope) (fst m) (snd m)) d = Inr (1, t)"
    by (auto simp: begin_refine_fresh_def Let_def split: if_splits prod.splits)
  have scope: "keeps ledger (refine_scope tx input target draft)"
    unfolding refine_scope_def by (intro keeps_intros ListAIContextCycles_reads)
  have "reserved limitsOf (gds_MonthlyBudgetUSD settings) (gri_UserID input) (gri_Now input) c"
    by (rule reserve_exposure_reserved[OF check_ai_buckets_figures steps(3)[unfolded checkAIRateLimits_def]])
      (use keepsD[OF scope steps(1)] keepsD[OF HasRunningDraftGeneration_reads steps(2)] keys in simp)
  from reserved_then_recorded[OF reserved_figures[OF InsertGoalRefineGeneration_law steps(4) this] steps(5)]
  show ?thesis .
qed

lemma lockGoalRefineDraft_safe: "safe (lockGoalRefineDraft tx userID draftID goalID)"
  by (rule safe_reads[OF lockGoalRefineDraft_reads])

lemma refine_target_safe: "safe (refine_target tx userID goalID)"
  unfolding refine_target_def by (intro safe_intros safe_reads LockGoal_reads)

text \<open>A snapshot that is not the one of a replay was admitted.\<close>

lemma replay_outcome_replayed:
  "refine_replay_outcome replay requestHash expected s = Inr (Inr snapshot, t) \<Longrightarrow> as_ReplayedOutput snapshot \<noteq> None"
  by (auto simp: refine_replay_outcome_def replayGoalRefine_def split: sum.splits if_splits option.splits)

lemma begin_refine_admitted:
  assumes run: "begin_refine_tx tx sha256 hmac limitsOf settings selectContext input s = Inr (Inr snapshot, t)"
    and keys: "keyed (ledger s)" and new: "as_ReplayedOutput snapshot = None"
  shows "admitted limitsOf (gds_MonthlyBudgetUSD settings) (gri_UserID input) (gri_Now input) t"
proof -
  from run obtain u a r0 b target c draft d e v f r g where steps:
    "ai_LockUser tx (gri_UserID input) s = Inr (u, a)"
    "gd_FindGoalRefineReplay tx (gri_UserID input) (gri_IdempotencyKey input) a = Inr (r0, b)"
    "refine_target tx (gri_UserID input) (gri_GoalID input) b = Inr (target, c)"
    "lockGoalRefineDraft tx (gri_UserID input) (gri_DraftID input) (gri_GoalID input) c = Inr (draft, d)"
    "recover_expired ErrGoalDraftPersistenceInvariant tx (gri_UserID input) (gri_Now input) d = Inr (v, e)"
    "gd_FindGoalRefineReplay tx (gri_UserID input) (gri_IdempotencyKey input) e = Inr (r, f)"
    "(case r of
        Some r \<Rightarrow> refine_replay_outcome r (goalRefineRequestHash sha256 (dr_ID draft) input) (gri_ExpectedGoalRevision input)
      | None \<Rightarrow> tx_bind (begin_refine_fresh tx hmac limitsOf settings selectContext input target draft
           (goalRefineRequestHash sha256 (dr_ID draft) input)) (\<lambda>snapshot. tx_return (Inr snapshot))) f
      = Inr (Inr snapshot, t)"
    unfolding begin_refine_tx_def Let_def tx_bind_Inr tx_check_Inr by blast
  have a: "keyed (ledger a)" by (rule preservesD[OF safe_reads[OF LockUser_reads] keys steps(1)])
  have b: "keyed (ledger b)" by (rule preservesD[OF safe_reads[OF FindGoalRefineReplay_reads] a steps(2)])
  have c: "keyed (ledger c)" by (rule preservesD[OF refine_target_safe b steps(3)])
  have d: "keyed (ledger d)" by (rule preservesD[OF lockGoalRefineDraft_safe c steps(4)])
  have e: "keyed (ledger e)" by (rule preservesD[OF recover_expired_safe d steps(5)])
  have f: "keyed (ledger f)" by (rule preservesD[OF safe_reads[OF FindGoalRefineReplay_reads] e steps(6)])
  have "r = None" using steps(7) new by (cases r) (auto dest: replay_outcome_replayed)
  with steps(7) obtain x where "begin_refine_fresh tx hmac limitsOf settings selectContext input target draft
      (goalRefineRequestHash sha256 (dr_ID draft) input) f = Inr (x, t)" by auto
  then show ?thesis by (rule begin_refine_fresh_admitted) (rule f)
qed

lemma BeginGoalRefine_admitted:
  assumes "BeginGoalRefine tx sha256 hmac limitsOf settings selectContext newID now input s = (Inr snapshot, t)"
    and "keyed (ledger s)" "as_ReplayedOutput snapshot = None"
    and started: "started = (if time_is_zero (gri_Now input) then utc now else utc (gri_Now input))"
  shows "admitted limitsOf (gds_MonthlyBudgetUSD settings) (gri_UserID input) started t"
proof -
  from assms(1) obtain accepted where accepted: "refine_input newID now input = Inr accepted"
    "begin_refine_tx tx sha256 hmac limitsOf settings selectContext accepted s = Inr (Inr snapshot, t)"
    by (auto simp: BeginGoalRefine_def outcome_def commit_or_rollback_def split: sum.splits)
  from accepted(1) have "gri_UserID accepted = gri_UserID input" "gri_Now accepted = started"
    by (auto simp: refine_input_def started)
  with begin_refine_admitted[OF accepted(2) assms(2,3)] show ?thesis by simp
qed

end

subsection \<open>Actions\<close>

locale action_admission =
  action_ledger tx ledger keyed charged unsettled + ai_admission tx ledger keyed charged unsettled exposure recent
  for tx :: "'s ActionAITx" and ledger :: "'s \<Rightarrow> 'l" and keyed charged unsettled exposure recent +
  assumes FindActionAIReplay_reads: "keeps ledger (aat_FindActionAIReplay tx userID operation key)"
    and HasRunningCycleGeneration_reads: "keeps ledger (aat_HasRunningCycleGeneration tx userID goalID cycleID)"
    and InsertActionAIGeneration_law:
      "keeps (\<lambda>s. (keyed (ledger s), exposure (ledger s), recent (ledger s))) (aat_InsertActionAIGeneration tx record)"
begin

lemma accept_action_admitted:
  assumes run: "accept_action tx hmac limitsOf settings selectContext newID input target current requestHash s = Inr (x, t)"
    and keys: "keyed (ledger s)"
  shows "admitted limitsOf (aas_MonthlyBudgetUSD settings) (aii_UserID input) (aii_Now input) t"
proof -
  from run obtain past a running b m c generationID snapshot d where steps:
    "ai_ListAIContextCycles tx (aii_UserID input) (aii_GoalID input) (aii_CycleID input) actionAIContextSize s = Inr (past, a)"
    "aat_HasRunningCycleGeneration tx (aii_UserID input) (aii_GoalID input) (aii_CycleID input) a = Inr (running, b)"
    "reserve_exposure ErrActionAIPersistenceInvariant ''reserve Action AI budget'' tx limitsOf
       (checkRateLimits tx hmac settings input) (aas_MonthlyBudgetUSD settings)
       (aas_ReservationUSD settings) (aii_UserID input) (aii_Now input) b = Inr (m, c)"
    "aat_InsertActionAIGeneration tx (action_generation settings input generationID target current requestHash
       snapshot (fst m) (snd m)) c = Inr (1, d)"
    "ai_InsertAcceptedUsage tx (action_usage settings input generationID (fst m) (snd m)) d = Inr (1, t)"
    by (auto simp: accept_action_def Let_def split: if_splits prod.splits)
  have "reserved limitsOf (aas_MonthlyBudgetUSD settings) (aii_UserID input) (aii_Now input) c"
    by (rule reserve_exposure_reserved[OF check_ai_buckets_figures steps(3)[unfolded checkRateLimits_def]])
      (use keepsD[OF ListAIContextCycles_reads steps(1)] keepsD[OF HasRunningCycleGeneration_reads steps(2)] keys in simp)
  from reserved_then_recorded[OF reserved_figures[OF InsertActionAIGeneration_law steps(4) this] steps(5)]
  show ?thesis .
qed

text \<open>A replay answers with a stored output, so a snapshot without one was admitted.\<close>

lemma replayActionAI_replayed: "yields replayed (replayActionAI tx input replay)"
  unfolding replayActionAI_def by (intro yields_intros) (simp_all add: replayed_def)

lemma replayed_action_replayed: "yields replayed (replayed_action tx input requestHash found)"
  unfolding replayed_action_def by (intro yields_intros replayActionAI_replayed)

lemma begin_action_tx_admitted:
  assumes run: "begin_action_tx tx sha256 hmac limitsOf settings selectContext newID input s = Inr (Inr snapshot, t)"
    and keys: "keyed (ledger s)" and new: "as_ReplayedOutput snapshot = None"
  shows "admitted limitsOf (aas_MonthlyBudgetUSD settings) (aii_UserID input) (aii_Now input) t"
proof -
  from run obtain u a r b where steps:
    "ai_LockUser tx (aii_UserID input) s = Inr (u, a)"
    "aat_FindActionAIReplay tx (aii_UserID input) (aii_Operation input) (aii_IdempotencyKey input) a = Inr (r, b)"
    "(case r of Some r \<Rightarrow> replayed_action tx input (actionAIRequestHash sha256 input) r
      | None \<Rightarrow> tx_bind (fresh_action tx hmac limitsOf settings selectContext newID input
          (actionAIRequestHash sha256 input)) (\<lambda>snapshot. tx_return (Inr snapshot))) b = Inr (Inr snapshot, t)"
    unfolding begin_action_tx_def Let_def tx_bind_Inr by blast
  have "r = None" using steps(3) new by (cases r) (auto dest: yieldsD[OF replayed_action_replayed] simp: replayed_def)
  with steps(3) obtain x where fresh: "fresh_action tx hmac limitsOf settings selectContext newID input
      (actionAIRequestHash sha256 input) b = Inr (x, t)" by auto
  then obtain target c current d v e where more:
    "ai_LockGoalWithCurrentVersion tx (aii_UserID input) (aii_GoalID input) b = Inr (target, c)"
    "aat_LockActionCycle tx (aii_UserID input) (aii_GoalID input) (aii_CycleID input) c = Inr (current, d)"
    "recover_expired ErrActionAIPersistenceInvariant tx (aii_UserID input) (aii_Now input) d = Inr (v, e)"
    "accept_action tx hmac limitsOf settings selectContext newID input target current
       (actionAIRequestHash sha256 input) e = Inr (x, t)"
    by (auto simp: fresh_action_def split: if_splits)
  have "ledger d = ledger s"
    using keepsD[OF LockUser_reads steps(1)] keepsD[OF FindActionAIReplay_reads steps(2)]
      keepsD[OF LockGoal_reads more(1)] keepsD[OF LockActionCycle_reads more(2)] by simp
  with keys have "keyed (ledger d)" by simp
  from accept_action_admitted[OF more(4) preservesD[OF recover_expired_safe this more(3)]] show ?thesis .
qed

lemma begin_action_admitted:
  assumes "begin_action tx sha256 hmac limitsOf settings selectContext newID now input s = (Inr snapshot, t)"
    and "keyed (ledger s)" "as_ReplayedOutput snapshot = None"
    and started: "started = (if time_is_zero (aii_Now input) then utc now else utc (aii_Now input))"
  shows "admitted limitsOf (aas_MonthlyBudgetUSD settings) (aii_UserID input) started t"
proof -
  from assms(1) have "begin_action_tx tx sha256 hmac limitsOf settings selectContext newID (input\<lparr>aii_Now := started\<rparr>) s =
      Inr (Inr snapshot, t)"
    by (auto simp: begin_action_def started outcome_def commit_or_rollback_def Let_def split: sum.splits if_splits)
  from begin_action_tx_admitted[OF this assms(2,3)] show ?thesis by simp
qed

end

end
