(* ===== verification/AIBudgetStore.thy ===== *)
theory AIBudgetStore
  imports AIBudget AILedgerStore
begin

section \<open>The PostgreSQL adapter keeps the budget\<close>

text \<open>
  The interpretations of \<open>AIBudget\<close>: the exposure of a month is what its row of
  \<open>ai_budget_monthly\<close> adds up to, the recent operations of a User are the usages accepted after a
  time.
\<close>

subsection \<open>The figures\<close>

definition exposure_of :: "Database \<Rightarrow> gotime \<Rightarrow> rat" where
  "exposure_of d month =
     (case find (\<lambda>b. tz_eq (bu_MonthUtc b) (goalDeleteDate month)) (db_ai_budget_monthly d) of
        None \<Rightarrow> 0
      | Some b \<Rightarrow> bu_ReservedCostUSD b + bu_ActualCostUSD b + bu_UnattributedCostUSD b)"

definition recent_usages :: "(string \<Rightarrow> string option) \<Rightarrow> Database \<Rightarrow> string \<Rightarrow> gotime \<Rightarrow> int" where
  "recent_usages scan d userID after =
     int (length (filter (\<lambda>u. sql_eq (us_UserID u) (scan userID) \<and> tz_less (stored_at after) (us_AcceptedAt u))
       (db_ai_usage_events d)))"

subsection \<open>The laws\<close>

lemma round_even_int [simp]: "round_even (of_int k) = k"
  by (simp add: round_even_def Let_def)

lemma money_eight:
  assumes "eight_decimals x"
  shows "money x = x"
proof -
  from assms obtain k where x: "x = of_int k / 10 ^ 8" by (auto simp: eight_decimals_iff)
  have "\<bar>x\<bar> * 10 ^ 8 = of_int \<bar>k\<bar>" by (simp add: x abs_if)
  then have "money x = (if x < 0 then - 1 else 1) * of_int \<bar>k\<bar> / 10 ^ 8" by (simp only: money_def round_even_int)
  then show ?thesis by (simp add: x abs_if)
qed

lemma numeric_text_read: "eight_decimals x \<Longrightarrow> rat_SetString (numeric_text x) = Some x"
  by (simp add: numeric_text_def decimalFromFloat_read money_eight)

lemma find_map_update:
  "(\<And>r. P (change r) = P r) \<Longrightarrow>
   find P (map (\<lambda>r. if selected r then change r else r) rows) =
     map_option (\<lambda>r. if selected r then change r else r) (find P rows)"
  by (induction rows) auto

lemma find_in: "find P rows = Some r \<Longrightarrow> r \<in> set rows \<and> P r"
  by (auto simp: find_Some_iff)

lemma keys_update_budget:
  assumes month: "\<And>b. bu_MonthUtc (change b) = bu_MonthUtc b"
    and amounts: "\<And>b. eight_decimals (bu_ReservedCostUSD b) \<Longrightarrow> eight_decimals (bu_ActualCostUSD b) \<Longrightarrow>
      eight_decimals (bu_UnattributedCostUSD b) \<Longrightarrow> eight_decimals (bu_ReservedCostUSD (change b)) \<and>
      eight_decimals (bu_ActualCostUSD (change b)) \<and> eight_decimals (bu_UnattributedCostUSD (change b))"
  shows "preserves (\<lambda>s. ledger_keys (gdt_db s)) (execute (update_budget selected change))"
proof (unfold preserves_def, intro allI impI)
  fix s n t
  assume keys: "ledger_keys (gdt_db s)" and run: "execute (update_budget selected change) s = Inr (n, t)"
  let ?rows = "db_ai_budget_monthly (gdt_db s)"
  let ?new = "map (\<lambda>b. if selected b then change b else b) ?rows"
  from run have t: "gdt_db t = (gdt_db s)\<lparr>db_ai_budget_monthly := ?new\<rparr>"
    by (auto simp: update_budget_def update_rows_def)
  have "map budget_key ?new = map budget_key ?rows"
    by (rule map_update_key) (simp add: budget_key_def month)
  moreover have "\<forall>b\<in>set ?new. tz_Valid (bu_MonthUtc b) \<and> eight_decimals (bu_ReservedCostUSD b) \<and>
      eight_decimals (bu_ActualCostUSD b) \<and> eight_decimals (bu_UnattributedCostUSD b)"
    using keys amounts month by (auto simp: ledger_keys_def)
  ultimately show "ledger_keys (gdt_db t)" using keys by (simp add: t ledger_keys_def del: map_map set_map)
qed

lemma ReleaseBudget_store:
  "preserves (\<lambda>s. ledger_keys (gdt_db s)) (gdt_ReleaseBudgetReservationCAS month amount now)"
  unfolding gdt_ReleaseBudgetReservationCAS_def
  by (intro preserves_bind preserves_keeps[OF keeps_numeric_param] keys_update_budget)
    (simp_all add: eight_decimals_numeric_8)

lemma ExpireUsage_store:
  "preserves (\<lambda>s. ledger_keys (gdt_db s)) (gdt_ExpireUsageCAS scan generationID month reserved)"
proof -
  have "preserves (\<lambda>s. ledger_keys (gdt_db s)) (execute (update_usages selected (us_Status_update (\<lambda>_. x))))"
    for selected and x :: string
    using map_update_key[of us_OperationID "us_Status_update (\<lambda>_. x)" selected]
    by (auto simp: preserves_def update_usages_def update_rows_def ledger_keys_def simp del: map_map)
  then show ?thesis unfolding gdt_ExpireUsageCAS_def
    by (intro preserves_bind preserves_keeps[OF keeps_numeric_param] preserves_keeps[OF keeps_mustUUID])
qed

lemma IncrementRateBucket_tables: "keeps (\<lambda>s. ledger_tables (gdt_db s)) (gdt_IncrementRateBucket bucket)"
  unfolding gdt_IncrementRateBucket_def
  by (intro keeps_execute) (auto simp: ledger_tables_def Let_def split: option.splits if_splits)

lemma budget_figures_of_tables:
  "keeps (\<lambda>s. ledger_tables (gdt_db s)) m \<Longrightarrow>
   keeps (\<lambda>s. (ledger_keys (gdt_db s), exposure_of (gdt_db s), recent_usages scan (gdt_db s))) m"
  unfolding keeps_def
  by (auto simp: ledger_tables_def ledger_keys_def exposure_of_def recent_usages_def fun_eq_iff)

lemma CountRollingUsage_store:
  "gdt_CountRollingUsage scan userID after s = Inr (n, t) \<Longrightarrow>
   gdt_db t = gdt_db s \<and> n = recent_usages scan (gdt_db s) userID after"
  by (auto simp: gdt_CountRollingUsage_def recent_usages_def)

lemma EnsureBudgetMonth_recent_store:
  "keeps (\<lambda>s. recent_usages scan (gdt_db s)) (gdt_EnsureBudgetMonth month now)"
  unfolding gdt_EnsureBudgetMonth_def
  by (intro keeps_execute) (auto simp: recent_usages_def fun_eq_iff split: if_splits)

lemma LockBudgetMonth_store:
  assumes "gdt_LockBudgetMonth month s = Inr (budget, t)" "ledger_keys (gdt_db s)"
  shows "gdt_db t = gdt_db s \<and>
    (\<exists>r a u. rat_SetString (ab_ReservedCostUSD budget) = Some r \<and> rat_SetString (ab_ActualCostUSD budget) = Some a \<and>
       rat_SetString (ab_UnattributedCostUSD budget) = Some u \<and> r + a + u = exposure_of (gdt_db s) month)"
proof -
  from assms(1) obtain b where b: "find (\<lambda>b. tz_eq (bu_MonthUtc b) (goalDeleteDate month))
      (db_ai_budget_monthly (gdt_db s)) = Some b" "aiBudgetStateFromSQLC b = Inr budget" "t = s"
    by (auto simp: gdt_LockBudgetMonth_def split: option.splits)
  from find_in[OF b(1)] assms(2) have "eight_decimals (bu_ReservedCostUSD b)" "eight_decimals (bu_ActualCostUSD b)"
    "eight_decimals (bu_UnattributedCostUSD b)" by (auto simp: ledger_keys_def)
  then show ?thesis using b
    by (auto simp: aiBudgetStateFromSQLC_def Let_def exposure_of_def numeric_text_read split: if_splits)
qed

lemma ReserveBudget_store:
  assumes "gdt_ReserveBudgetCAS month (decimalFromFloat cost) now s = Inr (1, t)" "ledger_keys (gdt_db s)"
  shows "ledger_keys (gdt_db t) \<and> exposure_of (gdt_db t) month = exposure_of (gdt_db s) month + money cost \<and>
    recent_usages scan (gdt_db t) = recent_usages scan (gdt_db s)"
proof -
  let ?selected = "\<lambda>b. tz_eq (bu_MonthUtc b) (goalDeleteDate month)"
  let ?change = "\<lambda>b. b\<lparr>bu_ReservedCostUSD := numeric_8 (bu_ReservedCostUSD b + money cost), bu_UpdatedAt := stored_at now\<rparr>"
  let ?rows = "db_ai_budget_monthly (gdt_db s)"
  from assms(1) have run: "execute (update_budget ?selected ?change) s = Inr (1, t)"
    by (simp add: gdt_ReserveBudgetCAS_def del: execute_Inr)
  have keys: "ledger_keys (gdt_db t)"
    by (rule preservesD[OF keys_update_budget _ run]) (simp_all add: assms(2) eight_decimals_numeric_8)
  from run have t: "gdt_db t = (gdt_db s)\<lparr>db_ai_budget_monthly := map (\<lambda>b. if ?selected b then ?change b else b) ?rows\<rparr>"
    and n: "of_nat (length (filter ?selected ?rows)) = (1 :: i64)"
    by (auto simp: update_budget_def update_rows_def)
  have "filter ?selected ?rows \<noteq> []"
  proof
    assume "filter ?selected ?rows = []"
    with n show False by simp
  qed
  then obtain b where b: "find ?selected ?rows = Some b"
    by (cases "find ?selected ?rows") (auto simp: find_None_iff filter_empty_conv)
  from find_in[OF b] assms(2) have "?selected b" "eight_decimals (bu_ReservedCostUSD b)" by (auto simp: ledger_keys_def)
  then have "exposure_of (gdt_db t) month = exposure_of (gdt_db s) month + money cost"
    using b find_map_update[of ?selected ?change ?selected ?rows]
    by (simp add: exposure_of_def t numeric_8_eight eight_decimals_arith)
  then show ?thesis using keys by (simp add: t recent_usages_def fun_eq_iff)
qed

definition accepted_usage :: "pgUUID \<Rightarrow> pgUUID \<Rightarrow> pgUUID \<Rightarrow> rat \<Rightarrow> AIUsageRecord \<Rightarrow> UsageRow" where
  "accepted_usage operation_id user_id goal_id reservation record =
     \<lparr>us_OperationID = operation_id, us_UserID = user_id, us_GoalID = goal_id,
      us_OperationType = aur_Operation record, us_Status = ''accepted'',
      us_Provider = aur_Provider record, us_Model = aur_Model record,
      us_PromptVersion = aur_PromptVersion record, us_AcceptedAt = stored_at (aur_AcceptedAt record),
      us_InputTokens = None, us_OutputTokens = None, us_EstimatedCostUSD = None,
      us_ProviderUsageFinalizedAt = null_Timestamptz,
      us_QuotaRetainUntil = stored_at (aur_QuotaRetainUntil record), us_ContentDeleted = False,
      us_SettlementBudgetMonthUtc = goalDeleteDate (aur_SettlementBudgetMonthUtc record),
      us_SettlementReservationCostUSD = Some (numeric_8 reservation)\<rparr>"

lemma InsertAcceptedUsage_store:
  assumes "gdt_InsertAcceptedUsage scan record s = Inr (1, t)" "ledger_keys (gdt_db s)"
  shows "ledger_keys (gdt_db t) \<and> exposure_of (gdt_db t) = exposure_of (gdt_db s) \<and>
    recent_usages scan (gdt_db t) userID after \<le> recent_usages scan (gdt_db s) userID after + 1"
proof -
  from assms(1) obtain goal_id reservation where t:
    "scan (aur_OperationID record) \<noteq> None"
    "\<not> list_ex (\<lambda>u. sql_eq (us_OperationID u) (scan (aur_OperationID record))) (db_ai_usage_events (gdt_db s))"
    "gdt_db t = (gdt_db s)\<lparr>db_ai_usage_events := db_ai_usage_events (gdt_db s) @
       [accepted_usage (scan (aur_OperationID record)) (scan (aur_UserID record)) goal_id reservation record]\<rparr>"
    by (auto simp: gdt_InsertAcceptedUsage_def accepted_usage_def nullableCycleUUID_def numeric_param_def
        split: if_splits option.splits)
  then show ?thesis using assms(2)
    by (auto simp: ledger_keys_def exposure_of_def recent_usages_def list_ex_iff sql_eq_def accepted_usage_def)
qed

subsection \<open>The interpretations\<close>

lemma keys_of_tables:
  assumes "keeps (\<lambda>s. ledger_tables (gdt_db s)) m"
  shows "preserves (\<lambda>s. ledger_keys (gdt_db s)) m"
  using figures_of_tables(1)[OF keepsD[OF assms]] by (auto simp: preserves_def)

lemmas admission_laws =
  reads draft_reads action_reads ReleaseBudget_store ExpireUsage_store keys_of_tables[OF other_tables(1)]
  CountRollingUsage_store EnsureBudgetMonth_recent_store ReserveBudget_store InsertAcceptedUsage_store
  budget_figures_of_tables[OF IncrementRateBucket_tables] budget_figures_of_tables[OF other_tables(5)]
  budget_figures_of_tables[OF other_tables(6)]

interpretation refine_budget: refine_admission "store_GoalDraftTx scan" gdt_db ledger_keys actual_total
  "unsettled_usage scan" exposure_of "recent_usages scan" for scan
  by unfold_locales
    (simp_all only: store_GoalDraftTx_def AITx.simps GoalDraftTx.simps admission_laws LockBudgetMonth_store)

interpretation action_budget: action_admission "store_ActionAITx scan" gdt_db ledger_keys actual_total
  "unsettled_usage scan" exposure_of "recent_usages scan" for scan
  by unfold_locales
    (simp_all only: store_ActionAITx_def AITx.simps ActionAITx.simps admission_laws LockBudgetMonth_store)

end
