(* ===== verification/AIOperations.thy ===== *)
theory AIOperations
  imports AIBudgetStore CycleStoreRuns
begin

section \<open>The AI operations account for what they spend\<close>

text \<open>
  The properties of the AI operations on the PostgreSQL adapter that rest on the contracts of
  \<open>AILedger\<close> and \<open>AIBudget\<close>: an operation is paid for at most once and never answered unpaid, and it
  is only accepted within the budget of the month and the limit of the User.
\<close>

subsection \<open>A sample database\<close>

text \<open>A usage that waits for its settlement after its generation was deleted, and its month.\<close>

definition ledger_time :: gotime where
  "ledger_time = \<lparr>nanos = 63000000000000000000, loc = UTC\<rparr>"

definition ledger_stamp :: pgTimestamptz where
  "ledger_stamp = stored_at ledger_time"

definition open_usage_row :: UsageRow where
  "open_usage_row =
     \<lparr>us_OperationID = Some ''g'', us_UserID = Some ''u'', us_GoalID = None, us_OperationType = ''goal_refine'',
      us_Status = ''accepted'', us_Provider = ''p'', us_Model = ''m'', us_PromptVersion = ''v'',
      us_AcceptedAt = ledger_stamp, us_InputTokens = None, us_OutputTokens = None, us_EstimatedCostUSD = None,
      us_ProviderUsageFinalizedAt = null_Timestamptz, us_QuotaRetainUntil = ledger_stamp, us_ContentDeleted = False,
      us_SettlementBudgetMonthUtc = goalDeleteDate ledger_time, us_SettlementReservationCostUSD = Some 3\<rparr>"

definition ledger_database :: Database where
  "ledger_database =
     \<lparr>db_users = [sample_user_row ''u''], db_sessions = [],
      db_anonymous_bootstraps = [], db_auth_identities = [], db_goals = [], db_goal_versions = [], db_goal_version_success_signals = [],
      db_pdca_cycles = [], db_pdca_cycle_review_schedules = [], db_goal_drafts = [],
      db_goal_draft_success_signals = [], db_ai_generations = [], db_ai_usage_events = [open_usage_row],
      db_ai_budget_monthly =
        [\<lparr>bu_MonthUtc = goalDeleteDate ledger_time, bu_ReservedCostUSD = 0, bu_ActualCostUSD = 1,
          bu_UnattributedCostUSD = 0, bu_UpdatedAt = ledger_stamp\<rparr>],
      db_goal_delete_receipts = [], db_abuse_rate_buckets = [],
      db_anonymous_rate_limit_guards = []\<rparr>"

definition ledger_result :: "rat AIExecutionResult" where
  "ledger_result =
     \<lparr>ae_Output = ''o'', ae_Usage = \<lparr>au_InputTokens = 1, au_OutputTokens = 1, au_ProviderRequestID = [], au_CostUSD = 1 / 4\<rparr>,
      ae_Attempts = 1\<rparr>"

lemma ledger_database_keys: "ledger_keys ledger_database"
  by (simp add: ledger_keys_def ledger_database_def goalDeleteDate_def eight_decimals_def)

lemma decimalFromFloat_nonempty: "decimalFromFloat x \<noteq> []"
  by (simp add: decimalFromFloat_def Let_def)

lemma find_usage:
  "gdt_db s = ledger_database \<Longrightarrow> gdt_FindUsageLocator Some ''g'' s =
     Inr (Some \<lparr>aul_UserID = ''u'', aul_AcceptedAt = ledger_time, aul_FinalizedAt = None\<rparr>, s)"
  by (simp add: gdt_FindUsageLocator_def tx_bind_def mustUUID_def fetch_def ledger_database_def open_usage_row_def
     aiUsageLocatorFromSQLC_def uuidString_def tx_return_def tx_lift_def sql_eq_def ledger_stamp_def stored_at_def timestamptz_def
     optionalAITimestamptz_def finiteGoalDeleteTimestamptz_def null_Timestamptz_def ledger_time_def stored_time_def truncate_time_def
     microsecond_def time_is_zero_def zero_time_def utc_def)

lemma lock_usage:
  "gdt_db s = ledger_database \<Longrightarrow> gdt_LockUsage Some ''g'' ''u'' s =
     Inr (\<lparr>ause_AcceptedAt = ledger_time, ause_FinalizedAt = None,
           ause_SettlementBudgetMonthUtc = truncate_time day_length ledger_time,
           ause_SettlementReservationCostUSD = decimalFromFloat 3\<rparr>, s)"
  by (simp add: gdt_LockUsage_def tx_bind_def mustUUID_def fetch_def ledger_database_def open_usage_row_def
     aiUsageStateFromSQLC_def uuidString_def tx_return_def tx_lift_def sql_eq_def ledger_stamp_def stored_at_def timestamptz_def
     optionalAITimestamptz_def finiteGoalDeleteTimestamptz_def null_Timestamptz_def ledger_time_def stored_time_def truncate_time_def
     microsecond_def time_is_zero_def zero_time_def utc_def goalDeleteDate_def numeric_text_def decimalFromFloat_nonempty day_length_def)

lemma lock_user: "gdt_db s = ledger_database \<Longrightarrow> shared (store_LockUser Some ''u'') s = Inr ((), s)"
  by (simp add: shared_def store_LockUser_def tx_bind_def mustUUID_def query_def tx_return_def ledger_database_def sample_user_row_def sql_eq_def)

lemma ensure_month:
  "gdt_db s = ledger_database \<Longrightarrow>
   gdt_EnsureBudgetMonth (truncate_time day_length ledger_time) ledger_time s = Inr ((), s)"
  by (simp add: gdt_EnsureBudgetMonth_def execute_def ledger_database_def tz_eq_def
      goalDeleteDate_def truncate_time_def day_length_def ledger_time_def utc_def)

lemma add_cost:
  "gdt_db s = ledger_database \<Longrightarrow>
   \<exists>d. gdt_AddLateActualCostCAS (truncate_time day_length ledger_time) (decimalFromFloat (1 / 4)) ledger_time s
      = Inr (1, s\<lparr>gdt_db := d\<rparr>) \<and> db_ai_usage_events d = [open_usage_row]"
  by (rule exI, rule conjI)
    (simp add: gdt_AddLateActualCostCAS_def tx_bind_def tx_return_def execute_def update_budget_def update_rows_def
      ledger_database_def tz_eq_def goalDeleteDate_def truncate_time_def day_length_def ledger_time_def utc_def,
     simp)

lemma money_samples: "money 3 = 3" "money (1 / 4) = 1 / 4"
  by (simp_all add: money_def round_even_def Let_def)

lemma finalize_usage:
  assumes "db_ai_usage_events (gdt_db s) = [open_usage_row]"
    and "aus_OperationID settlement = ''g''" "aus_ExpectedReservationCostUSD settlement = decimalFromFloat 3"
    "aus_ExpectedBudgetMonthUtc settlement = truncate_time day_length ledger_time"
    "aus_EstimatedCostUSD settlement = decimalFromFloat (1 / 4)"
  shows "gdt_FinalizeLateUsageCAS Some settlement s = Inr (1, s\<lparr>gdt_db := (gdt_db s)
    \<lparr>db_ai_usage_events := [finalized_usage settlement (1 / 4) open_usage_row]\<rparr>\<rparr>)"
  using assms
  by (simp add: gdt_FinalizeLateUsageCAS_def tx_bind_def mustUUID_def tx_return_def execute_def update_usages_def
      update_rows_def open_usage_def open_usage_row_def sql_eq_def money_samples null_Timestamptz_def tz_eq_def
      goalDeleteDate_def truncate_time_def day_length_def ledger_time_def utc_def)

text \<open>The late settlement of the sample usage changes the database.\<close>

lemma late_settlement:
  fixes tx :: "('z workspaceGoalDraftTx_scheme, 'y) AITx_scheme"
  assumes s: "gdt_db s = ledger_database"
    and tx: "ai_FindUsageLocator tx = gdt_FindUsageLocator Some" "ai_LockUsage tx = gdt_LockUsage Some"
    "ai_LockUser tx = (\<lambda>userID. shared (store_LockUser Some userID))" "ai_EnsureBudgetMonth tx = gdt_EnsureBudgetMonth"
    "ai_AddLateActualCostCAS tx = gdt_AddLateActualCostCAS" "ai_FinalizeLateUsageCAS tx = gdt_FinalizeLateUsageCAS Some"
  shows "\<exists>t. finish_late invariant tx ''g'' [] False ledger_result None ledger_time s = Inr (Inl ErrNotFound, t) \<and>
    gdt_db t \<noteq> ledger_database"
proof -
  from add_cost[OF s] obtain d where d: "gdt_AddLateActualCostCAS (truncate_time day_length ledger_time)
      (decimalFromFloat (1 / 4)) ledger_time s = Inr (1, s\<lparr>gdt_db := d\<rparr>)" "db_ai_usage_events d = [open_usage_row]" by blast
  have times: "utc ledger_time = ledger_time" "\<not> time_is_zero (truncate_time day_length ledger_time)"
    by (simp_all add: utc_def ledger_time_def time_is_zero_def zero_time_def truncate_time_def day_length_def)
  have other: "d\<lparr>db_ai_usage_events := [finalized_usage settlement c open_usage_row]\<rparr> \<noteq> ledger_database" for settlement c
  proof -
    have "tz_Valid (us_ProviderUsageFinalizedAt (finalized_usage settlement c open_usage_row)) \<noteq>
        tz_Valid (us_ProviderUsageFinalizedAt open_usage_row)"
      by (simp add: finalized_usage_def open_usage_row_def stored_at_def stored_time_def timestamptz_def null_Timestamptz_def)
    moreover have "db_ai_usage_events ledger_database = [open_usage_row]" by (simp add: ledger_database_def)
    ultimately show ?thesis by (auto dest: arg_cong[where f = db_ai_usage_events])
  qed
  show ?thesis using other
    by (simp add: finish_late_def settle_late_def tx tx_bind_def tx_try_def tx_return_def tx_check_def ledger_result_def
        Let_def must_write_def finalize_usage d decimalFromFloat_nonempty find_usage[OF s] lock_user[OF s] lock_usage[OF s]
        ensure_month[OF s] times)
qed

lemma no_generation:
  "gdt_db s = ledger_database \<Longrightarrow> gdt_FindGenerationLocator Some ''g'' s = Inr (None, s)"
  by (simp add: gdt_FindGenerationLocator_def tx_bind_def mustUUID_def fetch_def tx_return_def ledger_database_def)

lemma late_refinement:
  "\<exists>r t. FinishGoalRefine (store_GoalDraftTx Some) (zero_AISnapshot\<lparr>as_GenerationID := ''g''\<rparr>) ledger_result None
     ledger_time (goal_draft_tx ledger_database) = (r, t) \<and> gdt_db t \<noteq> ledger_database"
proof -
  have s: "gdt_db (goal_draft_tx ledger_database) = ledger_database" "utc ledger_time = ledger_time"
    by (simp_all add: goal_draft_tx_def utc_def ledger_time_def)
  obtain t :: workspaceGoalDraftTx where "finish_late ErrGoalDraftPersistenceInvariant (store_GoalDraftTx Some) ''g'' [] False
      ledger_result None ledger_time (goal_draft_tx ledger_database) = Inr (Inl ErrNotFound :: workspace_error + AIResponse, t)"
    "gdt_db t \<noteq> ledger_database"
    using late_settlement[OF s(1), of "store_GoalDraftTx Some"] by (auto simp: store_GoalDraftTx_def)
  then show ?thesis using no_generation[OF s(1)]
    by (simp add: FinishGoalRefine_def finish_refine_tx_def commit_or_rollback_def Let_def tx_bind_def s(2) zero_AISnapshot_def)
      (simp add: store_GoalDraftTx_def)
qed

lemma late_action:
  "\<exists>r t. uc_FinishAction (store_ActionAITx Some) (zero_AISnapshot\<lparr>as_GenerationID := ''g''\<rparr>) ledger_result None
     ledger_time (action_ai_tx ledger_database) = (r, t) \<and> gdt_db t \<noteq> ledger_database"
proof -
  have s: "gdt_db (action_ai_tx ledger_database) = ledger_database" "utc ledger_time = ledger_time"
    by (simp_all add: action_ai_tx_def utc_def ledger_time_def)
  obtain t :: workspaceActionAITx where "finish_late ErrActionAIPersistenceInvariant (store_ActionAITx Some) ''g'' [] False
      ledger_result None ledger_time (action_ai_tx ledger_database) = Inr (Inl ErrNotFound :: workspace_error + AIResponse, t)"
    "gdt_db t \<noteq> ledger_database"
    using late_settlement[OF s(1), of "store_ActionAITx Some"] by (auto simp: store_ActionAITx_def)
  then show ?thesis using no_generation[OF s(1)]
    by (simp add: uc_FinishAction_def finish_action_tx_def commit_or_rollback_def Let_def tx_bind_def s(2) zero_AISnapshot_def)
      (simp add: store_ActionAITx_def)
qed

subsection \<open>Sample acceptances\<close>

text \<open>Both start on the sample database of the Cycle commands, the refinement with a draft in it.\<close>

definition refine_database :: Database where
  "refine_database = sample_database
     \<lparr>db_goal_drafts := [\<lparr>sd_ID = Some ''d'', sd_UserID = Some ''a'', sd_DraftType = ''creation'', sd_GoalID = None,
        sd_BaseGoalVersionID = None, sd_ReviewCycleID = None, sd_Body = ''b'', sd_Revision = 0,
        sd_CreatedAt = sample_stamp, sd_UpdatedAt = sample_stamp\<rparr>]\<rparr>"

definition sample_limits :: Entitlements where
  "sample_limits = \<lparr>en_MaxProgressingGoals = 3, en_MaxAIOperationsPer24Hours = 5, en_MaxAIInputTokens = 1000,
     en_GoalRefineOutputTokens = 100, en_ActionOutputTokens = 100\<rparr>"

definition refine_settings :: GoalDraftUseCaseSettings where
  "refine_settings = \<lparr>gds_Provider = ''p'', gds_Model = ''m'', gds_GoalPromptVersion = ''v'',
     gds_MonthlyBudgetUSD = 10, gds_ReservationUSD = 3, gds_LeaseDuration = 0, gds_RateHashKey = [],
     gds_GoalStartPerUserMinute = 0, gds_GoalStartPerSessionMinute = 0, gds_AIPerUserMinute = 0,
     gds_AIPerSessionMinute = 0, gds_AIPerIPMinute = 0\<rparr>"

definition sample_select :: "AISnapshot \<Rightarrow> workspace_error + AISnapshot" where
  "sample_select candidate = Inr (candidate\<lparr>as_CanonicalProviderInputHash := ''h''\<rparr>)"

definition sample_refine :: GoalRefineInput where
  "sample_refine = \<lparr>gri_UserID = ''a'', gri_DraftID = ''d'', gri_GoalID = [], gri_ExpectedDraftRevision = 0,
     gri_ExpectedGoalRevision = None, gri_IdempotencyKey = ''k'', gri_GenerationID = ''g'', gri_RemoteAddress = [],
     gri_SessionID = [], gri_Now = sample_now\<rparr>"

lemma tz_eq_month: "tz_eq (goalDeleteDate month) (goalDeleteDate month)"
  by (simp add: tz_eq_def goalDeleteDate_def)

lemma exceedsBudget_sample:
  "exceedsBudget \<lparr>ab_ReservedCostUSD = decimalFromFloat 0, ab_ActualCostUSD = decimalFromFloat 0, ab_UnattributedCostUSD = decimalFromFloat 0\<rparr>
     (decimalFromFloat 3) (decimalFromFloat 10) = Inr False"
  by (simp add: exceedsBudget_def decimalFromFloat_read money_def round_even_def Let_def)

lemma sample_texts_valid: "utf8_valid ''b''" "utf8_valid ''goal''" "utf8_valid ''p''" "utf8_valid ''d''" "utf8_valid ''c''" "utf8_valid ''a''" "utf8_valid []"
  by (simp_all add: utf8_valid.simps decode_rune_ascii rune_error_def)

lemma sample_now_simps: "\<not> time_is_zero sample_now"
  by (simp add: sample_now_def time_is_zero_def zero_time_def)

lemmas run_ai = gdt_FindGoalRefineReplay_def gdt_LockDraftByID_def gdt_LockExpiredGenerations_def
  gdt_SumLockedReservationsByMonth_def gdt_HasRunningDraftGeneration_def gdt_CountRollingUsage_def
  gdt_EnsureBudgetMonth_def gdt_LockBudgetMonth_def gdt_ReserveBudgetCAS_def gdt_InsertGoalRefineGeneration_def
  gdt_InsertAcceptedUsage_def nullableCycleUUID_def fetch_def execute_def shared_def find_draft_def draft_columns_def
  goalDraftFromColumns_def goalDraftNullableUUID_def aiBudgetStateFromSQLC_def update_budget_def insert_generation_def
  must_affect_def must_write_def requireRows_def running_generation_def

lemma sample_BeginGoalRefine:
  "\<exists>snapshot t. BeginGoalRefine (store_GoalDraftTx Some) (\<lambda>_. ''h'') (\<lambda>_ _. []) (\<lambda>_. Inr sample_limits) refine_settings
     (Some sample_select) (Inr sample_uuid) sample_now sample_refine (goal_draft_tx refine_database) = (Inr snapshot, t) \<and>
     as_ReplayedOutput snapshot = None"
  by (simp add: BeginGoalRefine_def begin_refine_tx_def begin_refine_fresh_def refine_input_def refine_target_def
      lockGoalRefineDraft_def validateGoalRefineDraftTarget_def recover_expired_def expired_order_def monthly_order_def
      refine_scope_def refine_snapshot_def selected_refine_context_def assertSameGoalContext_def
      validateGoalRefineContextSelection_def validGoalRefineSelectedText_def reserve_exposure_def checkAIRateLimits_def
      refine_generation_def refine_usage_def commit_or_rollback_def outcome_def zero_AISnapshot_def
      sample_select_def sample_refine_def refine_settings_def sample_limits_def refine_database_def goal_draft_tx_def
      store_GoalDraftTx_def run_monad run_reads run_rows run_writes run_sample run_ai decimalFromFloat_nonempty
      exceedsBudget_sample sample_texts_valid sample_now_simps tz_eq_month aiContextCycleIDs_def sql_eq_def numeric_text_def text_eval
      cong: tx_bind_weak rbind_weak del: rbind_eq_Inr tx_bind_Inr)

definition action_settings :: ActionAIUseCaseSettings where
  "action_settings = \<lparr>aas_Provider = ''p'', aas_Model = ''m'', aas_GeneratePromptVersion = ''v'',
     aas_RefinePromptVersion = ''w'', aas_MonthlyBudgetUSD = 10, aas_ReservationUSD = 3, aas_LeaseDuration = 0,
     aas_RateHashKey = [], aas_AIPerUserMinute = 0, aas_AIPerSessionMinute = 0, aas_AIPerIPMinute = 0\<rparr>"

definition sample_action :: actionAIInput where
  "sample_action = \<lparr>aii_UserID = ''a'', aii_GoalID = ''b'', aii_CycleID = sample_cycle_id,
     aii_Operation = OperationActionGenerate, aii_ExpectedContentRevision = 4, aii_ConfirmReplace = True,
     aii_IdempotencyKey = ''k'', aii_GenerationID = ''g'', aii_RemoteAddress = [], aii_SessionID = [], aii_Now = sample_now\<rparr>"

lemmas run_action = gdt_FindActionAIReplay_def gdt_LockActionCycle_def gdt_LockGoalWithCurrentVersion_def
  gdt_ListAIContextCycles_def context_rows_def gdt_HasRunningCycleGeneration_def gdt_InsertActionAIGeneration_def
  requireActionOperation_def note_action_cycle_def List.map_filter_def

lemma sample_begin_action:
  "\<exists>snapshot t. begin_action (store_ActionAITx Some) (\<lambda>_. ''h'') (\<lambda>_ _. []) (\<lambda>_. Inr sample_limits) action_settings
     (Some sample_select) (Inr sample_uuid) sample_now sample_action (action_ai_tx sample_database) = (Inr snapshot, t) \<and>
     as_ReplayedOutput snapshot = None"
  by (simp add: begin_action_def begin_action_tx_def fresh_action_def accept_action_def action_input_error_def
      action_snapshot_def selected_action_context_def assertSameGoalContext_def
      recover_expired_def expired_order_def monthly_order_def actionAIContextSize_def
      validateActionAIContextSelection_def validActionSelectedText_def validSelectedAction_def
      reserve_exposure_def checkRateLimits_def action_generation_def action_usage_def promptVersion_def
      commit_or_rollback_def outcome_def zero_AISnapshot_def IsBlank_def
      sample_select_def sample_action_def action_settings_def sample_limits_def action_ai_tx_def
      store_ActionAITx_def run_monad run_reads run_rows run_writes run_sample run_ai run_action decimalFromFloat_nonempty
      exceedsBudget_sample sample_texts_valid sample_now_simps tz_eq_month aiContextCycleIDs_def sql_eq_def numeric_text_def text_eval
      cong: tx_bind_weak rbind_weak del: rbind_eq_Inr tx_bind_Inr)

subsection \<open>The properties\<close>

text \<open>[C22] A goal refinement is paid for at most once.  Finishing it either leaves the database as it was
  and gives no answer, or the usage of the operation was unsettled before and is settled after, the cost
  (in eight decimals) is added to the actual costs exactly once, the keys of the ledger hold, and
  every later attempt to finish the same operation, whatever its result, changes nothing.\<close>

theorem refine_charged_once:
  assumes "ledger_keys (gdt_db s)"
    and "FinishGoalRefine (store_GoalDraftTx scan) snapshot result providerErr now s = (r, t)"
  shows "gdt_db t = gdt_db s \<and> (\<forall>response. r \<noteq> Inr response) \<or>
    unsettled_usage scan (gdt_db s) (as_GenerationID snapshot) \<and>
    \<not> unsettled_usage scan (gdt_db t) (as_GenerationID snapshot) \<and> ledger_keys (gdt_db t) \<and>
    actual_total (gdt_db t) = actual_total (gdt_db s) + money (au_CostUSD (ae_Usage result)) \<and>
    (\<forall>retried providerErr' now'.
       gdt_db (snd (FinishGoalRefine (store_GoalDraftTx scan) snapshot retried providerErr' now' t)) = gdt_db t)"
  using refine_store.FinishGoalRefine_settles[OF assms(1), of scan snapshot result providerErr now] assms(2)
    refine_store.FinishGoalRefine_settles[of t scan snapshot] refine_store.FinishGoalRefine_paid[OF assms(1)]
  unfolding settles_def by (metis snd_conv)

theorem refine_charged_once_witness:
  "\<exists>d. d \<noteq> ledger_database \<and> actual_total d = actual_total ledger_database + 1 / 4"
proof -
  from late_refinement obtain r t where run: "FinishGoalRefine (store_GoalDraftTx Some)
      (zero_AISnapshot\<lparr>as_GenerationID := ''g''\<rparr>) ledger_result None ledger_time (goal_draft_tx ledger_database) = (r, t)"
    "gdt_db t \<noteq> ledger_database" by blast
  have "ledger_keys (gdt_db (goal_draft_tx ledger_database))" by (simp add: goal_draft_tx_def ledger_database_keys)
  from refine_charged_once[OF this run(1)] run(2)
  have "gdt_db t \<noteq> ledger_database \<and> actual_total (gdt_db t) = actual_total ledger_database + 1 / 4"
    by (simp add: goal_draft_tx_def ledger_result_def money_samples)
  then show ?thesis by blast
qed

text \<open>The same of an Action operation, which also writes the Action of the Cycle: it is paid for at most
  once and never answered unpaid.\<close>

theorem action_charged_once:
  assumes "ledger_keys (gdt_db s)"
    and "uc_FinishAction (store_ActionAITx scan) snapshot result providerErr now s = (r, t)"
  shows "gdt_db t = gdt_db s \<and> (\<forall>response. r \<noteq> Inr response) \<or>
    unsettled_usage scan (gdt_db s) (as_GenerationID snapshot) \<and>
    \<not> unsettled_usage scan (gdt_db t) (as_GenerationID snapshot) \<and> ledger_keys (gdt_db t) \<and>
    actual_total (gdt_db t) = actual_total (gdt_db s) + money (au_CostUSD (ae_Usage result)) \<and>
    (\<forall>retried providerErr' now'.
       gdt_db (snd (uc_FinishAction (store_ActionAITx scan) snapshot retried providerErr' now' t)) = gdt_db t)"
  using action_store.FinishAction_settles[OF assms(1), of scan snapshot result providerErr now] assms(2)
    action_store.FinishAction_settles[of t scan snapshot] action_store.FinishAction_paid[OF assms(1)]
  unfolding settles_def by (metis snd_conv)

theorem action_charged_once_witness:
  "\<exists>d. d \<noteq> ledger_database \<and> actual_total d = actual_total ledger_database + 1 / 4"
proof -
  from late_action obtain r t where run: "uc_FinishAction (store_ActionAITx Some)
      (zero_AISnapshot\<lparr>as_GenerationID := ''g''\<rparr>) ledger_result None ledger_time (action_ai_tx ledger_database) = (r, t)"
    "gdt_db t \<noteq> ledger_database" by blast
  have "ledger_keys (gdt_db (action_ai_tx ledger_database))" by (simp add: action_ai_tx_def ledger_database_keys)
  from action_charged_once[OF this run(1)] run(2)
  have "gdt_db t \<noteq> ledger_database \<and> actual_total (gdt_db t) = actual_total ledger_database + 1 / 4"
    by (simp add: action_ai_tx_def ledger_result_def money_samples)
  then show ?thesis by blast
qed

text \<open>[C23] A goal refinement is accepted only within the limits: when \<open>BeginGoalRefine\<close> answers with a new
  snapshot (not the output of a replay), the reserved, actual and unattributed costs of the month,
  with the new reservation in it, do not exceed the monthly budget, and the operations of the User in
  the rolling window, with the new one, do not exceed the User's entitlement.\<close>

theorem refine_admitted_within_limits:
  assumes "ledger_keys (gdt_db s)"
    and "BeginGoalRefine (store_GoalDraftTx scan) sha256 hmac limitsOf settings selectContext newID now input s =
      (Inr snapshot, t)"
    and "as_ReplayedOutput snapshot = None"
    and "started = (if time_is_zero (gri_Now input) then utc now else utc (gri_Now input))"
  shows "ledger_keys (gdt_db t) \<and>
    exposure_of (gdt_db t) (budget_month started) \<le> money (gds_MonthlyBudgetUSD settings) \<and>
    (\<exists>limits. limitsOf (gri_UserID input) = Inr limits \<and>
       recent_usages scan (gdt_db t) (gri_UserID input) (time_add started (- AIRollingWindow))
         \<le> en_MaxAIOperationsPer24Hours limits)"
  using refine_budget.BeginGoalRefine_admitted[OF assms(2,1,3,4)] by (simp only: refine_budget.admitted_def)

theorem refine_admitted_within_limits_witness:
  "\<exists>d. ledger_keys d \<and> exposure_of d (budget_month (utc sample_now)) \<le> money 10 \<and>
     recent_usages Some d ''a'' (time_add (utc sample_now) (- AIRollingWindow)) \<le> 5"
proof -
  from sample_BeginGoalRefine obtain snapshot t where run: "BeginGoalRefine (store_GoalDraftTx Some) (\<lambda>_. ''h'') (\<lambda>_ _. [])
      (\<lambda>_. Inr sample_limits) refine_settings (Some sample_select) (Inr sample_uuid) sample_now sample_refine
      (goal_draft_tx refine_database) = (Inr snapshot, t)" "as_ReplayedOutput snapshot = None" by blast
  have "ledger_keys (gdt_db (goal_draft_tx refine_database))"
    by (simp add: goal_draft_tx_def refine_database_def sample_database_def ledger_keys_def)
  from refine_admitted_within_limits[OF this run refl] show ?thesis
    by (auto simp: sample_refine_def sample_now_simps refine_settings_def sample_limits_def)
qed

text \<open>An Action operation is accepted only within the same limits.\<close>

theorem action_admitted_within_limits:
  assumes "ledger_keys (gdt_db s)"
    and "begin_action (store_ActionAITx scan) sha256 hmac limitsOf settings selectContext newID now input s =
      (Inr snapshot, t)"
    and "as_ReplayedOutput snapshot = None"
    and "started = (if time_is_zero (aii_Now input) then utc now else utc (aii_Now input))"
  shows "ledger_keys (gdt_db t) \<and>
    exposure_of (gdt_db t) (budget_month started) \<le> money (aas_MonthlyBudgetUSD settings) \<and>
    (\<exists>limits. limitsOf (aii_UserID input) = Inr limits \<and>
       recent_usages scan (gdt_db t) (aii_UserID input) (time_add started (- AIRollingWindow))
         \<le> en_MaxAIOperationsPer24Hours limits)"
  using action_budget.begin_action_admitted[OF assms(2,1,3,4)] by (simp only: action_budget.admitted_def)

theorem action_admitted_within_limits_witness:
  "\<exists>d. ledger_keys d \<and> exposure_of d (budget_month (utc sample_now)) \<le> money 10 \<and>
     recent_usages Some d ''a'' (time_add (utc sample_now) (- AIRollingWindow)) \<le> 5"
proof -
  from sample_begin_action obtain snapshot t where run: "begin_action (store_ActionAITx Some) (\<lambda>_. ''h'') (\<lambda>_ _. [])
      (\<lambda>_. Inr sample_limits) action_settings (Some sample_select) (Inr sample_uuid) sample_now sample_action
      (action_ai_tx sample_database) = (Inr snapshot, t)" "as_ReplayedOutput snapshot = None" by blast
  have "ledger_keys (gdt_db (action_ai_tx sample_database))"
    by (simp add: action_ai_tx_def sample_database_def ledger_keys_def)
  from action_admitted_within_limits[OF this run refl] show ?thesis
    by (auto simp: sample_action_def sample_now_simps action_settings_def sample_limits_def)
qed

end
