(* ===== verification/GoalStore.thy ===== *)
theory GoalStore
  imports GoalUseCases AIGenerationStore
begin

section \<open>The PostgreSQL adapter of the Goal transactions\<close>

text \<open>
  Model of \<open>workspace_goal_uow.go\<close> and \<open>workspace_goal_delete_ai_mapping.go\<close> over the statements of
  \<open>queries/goal_delete.sql\<close>, \<open>goal_delete_ai.sql\<close> and \<open>ai_budget.sql\<close>.  The state of the transaction is
  the database; the conventions are those of \<open>CycleStore\<close> and \<open>AIStore\<close>.  Deleting a Goal cascades
  along the foreign keys of the schema; the constraints that are checked at the commit are not
  modelled.
\<close>

type_synonym 'a goal_tx = "(Database, 'a) tx"

definition goal_read :: "(Database \<Rightarrow> 'a) \<Rightarrow> 'a goal_tx" where
  "goal_read f d = Inr (f d, d)"

subsection \<open>Locks\<close>

definition gos_LockUser :: "(string \<Rightarrow> string option) \<Rightarrow> string \<Rightarrow> unit goal_tx" where
  "gos_LockUser scan userID =
     tx_bind (mustUUID scan userID) (\<lambda>user_id.
     tx_bind (goal_read (\<lambda>d. find (\<lambda>u. sql_eq (ur_ID u) user_id) (db_users d))) (\<lambda>row.
     if row = None then tx_fail ErrNotFound else tx_return ()))"

definition goalDeleteReceiptFromRow :: "GoalDeleteReceiptRow \<Rightarrow> workspace_error + GoalDeleteReceipt" where
  "goalDeleteReceiptFromRow row =
     (if gdrow_DeletedGoalID row = None
      then Inl (ErrGoalPersistenceInvariant ''receipt deleted_goal_id is invalid'')
      else if gdrow_RequestHash row = []
      then Inl (ErrGoalPersistenceInvariant ''receipt request_hash is empty'')
      else if \<not> tz_Valid (gdrow_ExpiresAt row) \<or> tz_InfinityModifier (gdrow_ExpiresAt row) \<noteq> Finite
      then Inl (ErrGoalPersistenceInvariant ''receipt expires_at is invalid or non-finite'')
      else Inr \<lparr>gdr_GoalID = uuidString (gdrow_DeletedGoalID row), gdr_RequestHash = gdrow_RequestHash row,
                gdr_ExpiresAt = tz_Time (gdrow_ExpiresAt row)\<rparr>)"

definition find_delete_receipt :: "pgUUID \<Rightarrow> pgUUID \<Rightarrow> Database \<Rightarrow> GoalDeleteReceiptRow option" where
  "find_delete_receipt user_id key d =
     find (\<lambda>r. sql_eq (gdrow_UserID r) user_id \<and> sql_eq (gdrow_IdempotencyKey r) key) (db_goal_delete_receipts d)"

definition gos_FindGoalDeleteReceipt ::
  "(string \<Rightarrow> string option) \<Rightarrow> string \<Rightarrow> string \<Rightarrow> GoalDeleteReceipt option goal_tx" where
  "gos_FindGoalDeleteReceipt scan userID idempotencyKey =
     tx_bind (mustUUID scan userID) (\<lambda>user_id.
     tx_bind (mustUUID scan idempotencyKey) (\<lambda>key.
     tx_bind (goal_read (find_delete_receipt user_id key)) (\<lambda>row.
     case row of
       None \<Rightarrow> tx_return None
     | Some r \<Rightarrow> tx_bind (tx_lift (goalDeleteReceiptFromRow r)) (\<lambda>receipt. tx_return (Some receipt)))))"

definition gos_LockGoalForDelete ::
  "(string \<Rightarrow> string option) \<Rightarrow> string \<Rightarrow> string \<Rightarrow> GoalDeleteTarget goal_tx" where
  "gos_LockGoalForDelete scan userID goalID =
     tx_bind (mustUUID scan goalID) (\<lambda>goal_id.
     tx_bind (mustUUID scan userID) (\<lambda>user_id.
     tx_bind (goal_read (\<lambda>d. find (owned_goal goal_id user_id) (db_goals d))) (\<lambda>row.
     case row of
       None \<Rightarrow> tx_fail ErrNotFound
     | Some g \<Rightarrow>
         if gr_Status g \<notin> {StatusActiveCycle, StatusGoalReview, StatusAchieved, StatusEnded}
         then tx_fail (ErrGoalPersistenceInvariant ''locked Goal status is invalid'')
         else tx_return \<lparr>gdt_Revision = gr_Revision g, gdt_Status = gr_Status g\<rparr>)))"

definition goalDeleteDraftIDsFromRows :: "pgUUID list \<Rightarrow> workspace_error + string list" where
  "goalDeleteDraftIDsFromRows rows =
     map_rows (\<lambda>row. if row = None then Inl (ErrGoalPersistenceInvariant ''locked Goal Draft id is invalid'')
                     else Inr (uuidString row)) rows"

definition gos_LockGoalDraftIDs ::
  "(string \<Rightarrow> string option) \<Rightarrow> string \<Rightarrow> string \<Rightarrow> string list goal_tx" where
  "gos_LockGoalDraftIDs scan userID goalID =
     tx_bind (mustUUID scan goalID) (\<lambda>goal_id.
     tx_bind (mustUUID scan userID) (\<lambda>user_id.
     tx_bind (goal_read (\<lambda>d. sort_key uuidString (map sd_ID
                (filter (\<lambda>r. sql_eq (sd_GoalID r) goal_id \<and> sql_eq (sd_UserID r) user_id) (db_goal_drafts d)))))
       (\<lambda>rows. tx_lift (goalDeleteDraftIDsFromRows rows))))"

definition gos_LockGoalCycleIDs ::
  "(string \<Rightarrow> string option) \<Rightarrow> string \<Rightarrow> string \<Rightarrow> string list goal_tx" where
  "gos_LockGoalCycleIDs scan userID goalID =
     tx_bind (mustUUID scan goalID) (\<lambda>goal_id.
     tx_bind (mustUUID scan userID) (\<lambda>user_id.
     tx_bind (goal_read (\<lambda>d. sort_key uuidString (map pc_ID
                (filter (\<lambda>c. sql_eq (pc_GoalID c) goal_id \<and> sql_eq (pc_UserID c) user_id) (db_pdca_cycles d)))))
       (\<lambda>rows. tx_lift (cycleIDsFromSQLC rows))))"

subsection \<open>The AI operations of the Goal\<close>

definition goal_generation :: "pgUUID \<Rightarrow> pgUUID \<Rightarrow> GenerationRow \<Rightarrow> bool" where
  "goal_generation user_id goal_id g \<longleftrightarrow>
     sql_eq (ge_UserID g) user_id \<and> sql_eq (ge_GoalID g) goal_id \<and> ge_Status g = ''running''"

definition goal_usage :: "pgUUID \<Rightarrow> pgUUID \<Rightarrow> UsageRow \<Rightarrow> bool" where
  "goal_usage user_id goal_id u \<longleftrightarrow> sql_eq (us_UserID u) user_id \<and> sql_eq (us_GoalID u) goal_id"

definition goalDeleteGenerationFromSQLC :: "GenerationRow \<Rightarrow> workspace_error + GoalDeleteGeneration" where
  "goalDeleteGenerationFromSQLC row =
     (let generationID = uuidString (ge_ID row); reserved = numeric_text (ge_BudgetReservedCostUSD row) in
      if generationID = [] \<or> reserved = []
      then Inl (ErrGoalPersistenceInvariant ''locked AI Generation state is incomplete'')
      else Inr \<lparr>gdg_ID = generationID, gdg_ReservedCostUSD = reserved\<rparr>)"

definition gos_LockRunningGoalGenerations ::
  "(string \<Rightarrow> string option) \<Rightarrow> string \<Rightarrow> string \<Rightarrow> GoalDeleteGeneration list goal_tx" where
  "gos_LockRunningGoalGenerations scan userID goalID =
     tx_bind (mustUUID scan userID) (\<lambda>user_id.
     tx_bind (mustUUID scan goalID) (\<lambda>goal_id.
     tx_bind (goal_read (\<lambda>d. sort_key (\<lambda>g. uuidString (ge_ID g))
                (filter (goal_generation user_id goal_id) (db_ai_generations d)))) (\<lambda>rows.
     tx_lift (map_rows goalDeleteGenerationFromSQLC rows))))"

definition goalDeleteMonthlyReservationFromSQLC ::
  "pgTimestamptz \<times> rat \<Rightarrow> workspace_error + MonthlyReservation" where
  "goalDeleteMonthlyReservationFromSQLC row =
     (let amount = numeric_text (snd row) in
      case finiteGoalDeleteTimestamptz (fst row) of
        None \<Rightarrow> Inl (ErrGoalPersistenceInvariant ''Goal budget reservation state is incomplete'')
      | Some month \<Rightarrow>
          if time_is_zero month \<or> amount = []
          then Inl (ErrGoalPersistenceInvariant ''Goal budget reservation state is incomplete'')
          else Inr \<lparr>mr_MonthUtc = month, mr_AmountUSD = amount\<rparr>)"

definition gos_SumLockedGoalReservationsByMonth ::
  "(string \<Rightarrow> string option) \<Rightarrow> string \<Rightarrow> string \<Rightarrow> string list \<Rightarrow> MonthlyReservation list goal_tx" where
  "gos_SumLockedGoalReservationsByMonth scan userID goalID generationIDs =
     (if generationIDs = [] then tx_return []
      else
        tx_bind (mustUUID scan userID) (\<lambda>user_id.
        tx_bind (mustUUID scan goalID) (\<lambda>goal_id.
        tx_bind (uuid_array scan generationIDs) (\<lambda>generation_ids.
        tx_bind (goal_read (\<lambda>d. reservations_by_month
                   (filter (\<lambda>g. goal_generation user_id goal_id g \<and> list_ex (sql_eq (ge_ID g)) generation_ids)
                     (db_ai_generations d)))) (\<lambda>rows.
        tx_lift (map_rows goalDeleteMonthlyReservationFromSQLC rows))))))"

definition gos_ReleaseGoalBudgetReservationCAS :: "gotime \<Rightarrow> string \<Rightarrow> gotime \<Rightarrow> i64 goal_tx" where
  "gos_ReleaseGoalBudgetReservationCAS month amountUSD now =
     tx_bind (numeric_param amountUSD) (\<lambda>amount.
     update_budget
       (\<lambda>b. tz_eq (bu_MonthUtc b) (goalDeleteDate month) \<and> bu_ReservedCostUSD b \<ge> amount)
       (\<lambda>b. b\<lparr>bu_ReservedCostUSD := numeric_8 (bu_ReservedCostUSD b - amount),
             bu_UpdatedAt := stored_at now\<rparr>))"

definition gos_TerminalizeGoalGenerationCAS ::
  "(string \<Rightarrow> string option) \<Rightarrow> string \<Rightarrow> string \<Rightarrow> GoalDeleteGeneration \<Rightarrow> gotime \<Rightarrow> i64 goal_tx" where
  "gos_TerminalizeGoalGenerationCAS scan userID goalID generation now =
     tx_bind (mustUUID scan (gdg_ID generation)) (\<lambda>generation_id.
     tx_bind (mustUUID scan userID) (\<lambda>user_id.
     tx_bind (mustUUID scan goalID) (\<lambda>goal_id.
     tx_bind (numeric_param (gdg_ReservedCostUSD generation)) (\<lambda>reservation.
     update_generations
       (\<lambda>g. sql_eq (ge_ID g) generation_id \<and> goal_generation user_id goal_id g \<and>
            ge_BudgetReservedCostUSD g = reservation)
       (\<lambda>g. g\<lparr>ge_Status := ''failed'', ge_FailureCode := Some ''goal_deleted'', ge_BudgetReservedCostUSD := 0,
             ge_LeaseExpiresAt := null_Timestamptz, ge_FinishedAt := stored_at now\<rparr>)))))"

definition gos_FailRunningGoalUsageCAS ::
  "(string \<Rightarrow> string option) \<Rightarrow> string \<Rightarrow> string \<Rightarrow> string \<Rightarrow> i64 goal_tx" where
  "gos_FailRunningGoalUsageCAS scan userID goalID operationID =
     tx_bind (mustUUID scan operationID) (\<lambda>operation_id.
     tx_bind (mustUUID scan userID) (\<lambda>user_id.
     tx_bind (mustUUID scan goalID) (\<lambda>goal_id.
     update_usages
       (\<lambda>u. sql_eq (us_OperationID u) operation_id \<and> goal_usage user_id goal_id u \<and>
            us_Status u = ''accepted'' \<and> \<not> tz_Valid (us_ProviderUsageFinalizedAt u))
       (\<lambda>u. u\<lparr>us_GoalID := None, us_Status := ''failed'', us_ContentDeleted := True\<rparr>))))"

definition goalDeleteUsageFromSQLC :: "UsageRow \<Rightarrow> workspace_error + GoalDeleteUsage" where
  "goalDeleteUsageFromSQLC row =
     (let operationID = uuidString (us_OperationID row) in
      case finiteGoalDeleteTimestamptz (us_QuotaRetainUntil row) of
        None \<Rightarrow> Inl (ErrGoalPersistenceInvariant ''locked Goal usage state is incomplete'')
      | Some retainUntil \<Rightarrow>
          if operationID = [] \<or> time_is_zero retainUntil
          then Inl (ErrGoalPersistenceInvariant ''locked Goal usage state is incomplete'')
          else if us_Status row \<notin> {''accepted'', ''succeeded'', ''failed''}
          then Inl (ErrGoalPersistenceInvariant ''locked Goal usage status is invalid'')
          else
            let usage = (\<lambda>finalizedAt. \<lparr>gdu_OperationID = operationID, gdu_Status = us_Status row,
                  gdu_QuotaRetainUntil = retainUntil, gdu_ProviderUsageFinalizedAt = finalizedAt\<rparr>) in
            if \<not> tz_Valid (us_ProviderUsageFinalizedAt row) then Inr (usage None)
            else (case finiteGoalDeleteTimestamptz (us_ProviderUsageFinalizedAt row) of
              None \<Rightarrow> Inl (ErrGoalPersistenceInvariant ''locked Goal usage finalization timestamp is invalid'')
            | Some finalized \<Rightarrow>
                if time_is_zero finalized
                then Inl (ErrGoalPersistenceInvariant ''locked Goal usage finalization timestamp is invalid'')
                else Inr (usage (Some finalized))))"

definition gos_LockGoalUsages ::
  "(string \<Rightarrow> string option) \<Rightarrow> string \<Rightarrow> string \<Rightarrow> GoalDeleteUsage list goal_tx" where
  "gos_LockGoalUsages scan userID goalID =
     tx_bind (mustUUID scan userID) (\<lambda>user_id.
     tx_bind (mustUUID scan goalID) (\<lambda>goal_id.
     tx_bind (goal_read (\<lambda>d. sort_key (\<lambda>u. uuidString (us_OperationID u))
                (filter (goal_usage user_id goal_id) (db_ai_usage_events d)))) (\<lambda>rows.
     tx_lift (map_rows goalDeleteUsageFromSQLC rows))))"

definition gos_RedactGoalUsagesCAS ::
  "(string \<Rightarrow> string option) \<Rightarrow> string \<Rightarrow> string \<Rightarrow> string list \<Rightarrow> i64 goal_tx" where
  "gos_RedactGoalUsagesCAS scan userID goalID operationIDs =
     tx_bind (mustUUID scan userID) (\<lambda>user_id.
     tx_bind (mustUUID scan goalID) (\<lambda>goal_id.
     tx_bind (uuid_array scan operationIDs) (\<lambda>operation_ids.
     update_usages
       (\<lambda>u. goal_usage user_id goal_id u \<and> list_ex (sql_eq (us_OperationID u)) operation_ids)
       (\<lambda>u. u\<lparr>us_GoalID := None,
             us_Status := (if us_Status u = ''accepted'' then ''failed'' else us_Status u),
             us_ContentDeleted := True\<rparr>))))"

definition gos_DeleteExpiredFinalizedGoalUsagesCAS ::
  "(string \<Rightarrow> string option) \<Rightarrow> string \<Rightarrow> string \<Rightarrow> string list \<Rightarrow> gotime \<Rightarrow> i64 goal_tx" where
  "gos_DeleteExpiredFinalizedGoalUsagesCAS scan userID goalID operationIDs now =
     tx_bind (mustUUID scan userID) (\<lambda>user_id.
     tx_bind (mustUUID scan goalID) (\<lambda>goal_id.
     tx_bind (uuid_array scan operationIDs) (\<lambda>operation_ids d.
     let selected = (\<lambda>u. goal_usage user_id goal_id u \<and> list_ex (sql_eq (us_OperationID u)) operation_ids \<and>
           tz_le (us_QuotaRetainUntil u) (stored_at now) \<and> tz_Valid (us_ProviderUsageFinalizedAt u)) in
     Inr (of_nat (length (filter selected (db_ai_usage_events d))),
          d\<lparr>db_ai_usage_events := filter (\<lambda>u. \<not> selected u) (db_ai_usage_events d)\<rparr>))))"

subsection \<open>Deleting the Goal\<close>

text \<open>The rows that go with the Goal, and the usage events that lose their reference to it.\<close>

definition delete_goal_cascade :: "pgUUID \<Rightarrow> pgUUID \<Rightarrow> Database \<Rightarrow> Database" where
  "delete_goal_cascade goal_id user_id d =
     (let of_goal = (\<lambda>owner goal. sql_eq owner user_id \<and> sql_eq goal goal_id);
          version_row = (\<lambda>v. of_goal (sv_UserID v) (sv_GoalID v));
          cycle_row = (\<lambda>c. of_goal (pc_UserID c) (pc_GoalID c));
          draft_row = (\<lambda>r. of_goal (sd_UserID r) (sd_GoalID r));
          generation_row = (\<lambda>g. of_goal (ge_UserID g) (ge_GoalID g) \<or>
            list_ex (\<lambda>v. version_row v \<and> sql_eq (sv_GoalID v) (ge_GoalID g) \<and> sql_eq (sv_ID v) (ge_GoalVersionID g))
              (db_goal_versions d))
      in d\<lparr>db_goals := filter (\<lambda>g. \<not> owned_goal goal_id user_id g) (db_goals d),
          db_goal_versions := filter (\<lambda>v. \<not> version_row v) (db_goal_versions d),
          db_goal_version_success_signals := filter (\<lambda>(version_id, _).
            \<not> list_ex (\<lambda>v. version_row v \<and> sql_eq (sv_ID v) version_id) (db_goal_versions d))
            (db_goal_version_success_signals d),
          db_pdca_cycles := filter (\<lambda>c. \<not> cycle_row c) (db_pdca_cycles d),
          db_pdca_cycle_review_schedules := filter (\<lambda>s.
            \<not> list_ex (\<lambda>c. cycle_row c \<and> sql_eq (pc_ID c) (sch_CycleID s)) (db_pdca_cycles d))
            (db_pdca_cycle_review_schedules d),
          db_goal_drafts := filter (\<lambda>r. \<not> draft_row r) (db_goal_drafts d),
          db_goal_draft_success_signals := filter (\<lambda>(draft_id, _).
            \<not> list_ex (\<lambda>r. draft_row r \<and> sql_eq (sd_ID r) draft_id) (db_goal_drafts d))
            (db_goal_draft_success_signals d),
          db_ai_generations := filter (\<lambda>g. \<not> generation_row g) (db_ai_generations d),
          db_ai_usage_events :=
            map (\<lambda>u. if sql_eq (us_GoalID u) goal_id then u\<lparr>us_GoalID := None\<rparr> else u) (db_ai_usage_events d)\<rparr>)"

definition gos_DeleteGoalCAS ::
  "(string \<Rightarrow> string option) \<Rightarrow> string \<Rightarrow> string \<Rightarrow> i64 \<Rightarrow> i64 goal_tx" where
  "gos_DeleteGoalCAS scan userID goalID expectedRevision =
     tx_bind (mustUUID scan goalID) (\<lambda>goal_id.
     tx_bind (mustUUID scan userID) (\<lambda>user_id d.
     let selected = filter (\<lambda>g. owned_goal goal_id user_id g \<and> gr_Revision g = expectedRevision) (db_goals d) in
     Inr (of_nat (length selected), if selected = [] then d else delete_goal_cascade goal_id user_id d)))"

definition gos_InsertGoalDeleteReceipt ::
  "(string \<Rightarrow> string option) \<Rightarrow> GoalDeleteReceiptRecord \<Rightarrow> i64 goal_tx" where
  "gos_InsertGoalDeleteReceipt scan record =
     tx_bind (mustUUID scan (gdrr_UserID record)) (\<lambda>user_id.
     tx_bind (mustUUID scan (gdrr_IdempotencyKey record)) (\<lambda>key.
     tx_bind (mustUUID scan (gdrr_GoalID record)) (\<lambda>goal_id d.
     if find_delete_receipt user_id key d \<noteq> None then Inl unique_violation
     else Inr (1, d\<lparr>db_goal_delete_receipts := db_goal_delete_receipts d @
       [\<lparr>gdrow_UserID = user_id, gdrow_IdempotencyKey = key, gdrow_DeletedGoalID = goal_id,
         gdrow_RequestHash = gdrr_RequestHash record, gdrow_DeletedAt = stored_at (gdrr_DeletedAt record),
         gdrow_ExpiresAt = stored_at (gdrr_ExpiresAt record)\<rparr>]\<rparr>))))"

subsection \<open>The transaction\<close>

definition store_GoalTx :: "(string \<Rightarrow> string option) \<Rightarrow> Database GoalTx" where
  "store_GoalTx scan =
     \<lparr>gt_LockUser = gos_LockUser scan, gt_FindGoalDeleteReceipt = gos_FindGoalDeleteReceipt scan,
      gt_LockGoalForDelete = gos_LockGoalForDelete scan, gt_LockGoalDraftIDs = gos_LockGoalDraftIDs scan,
      gt_LockGoalCycleIDs = gos_LockGoalCycleIDs scan,
      gt_LockRunningGoalGenerations = gos_LockRunningGoalGenerations scan,
      gt_LockGoalUsages = gos_LockGoalUsages scan,
      gt_SumLockedGoalReservationsByMonth = gos_SumLockedGoalReservationsByMonth scan,
      gt_ReleaseGoalBudgetReservationCAS = gos_ReleaseGoalBudgetReservationCAS,
      gt_TerminalizeGoalGenerationCAS = gos_TerminalizeGoalGenerationCAS scan,
      gt_FailRunningGoalUsageCAS = gos_FailRunningGoalUsageCAS scan,
      gt_RedactGoalUsagesCAS = gos_RedactGoalUsagesCAS scan,
      gt_DeleteExpiredFinalizedGoalUsagesCAS = gos_DeleteExpiredFinalizedGoalUsagesCAS scan,
      gt_DeleteGoalCAS = gos_DeleteGoalCAS scan,
      gt_InsertGoalDeleteReceipt = gos_InsertGoalDeleteReceipt scan\<rparr>"

definition WithinGoalTransaction :: "'a goal_tx \<Rightarrow> Database \<Rightarrow> (workspace_error + 'a) \<times> Database" where
  "WithinGoalTransaction operation = commit_or_rollback operation"

end
