(* ===== verification/Sessions.thy ===== *)
theory Sessions
  imports Wire AIStore
begin

section \<open>Sessions and accounts\<close>

text \<open>
  Model of \<open>application/session/service.go\<close> and \<open>application/account/service.go\<close>.  The repositories
  are records of functions on a state; each call commits by itself, so what an earlier call wrote
  stays when a later one fails.  HMAC-SHA-256, the verifier of Google tokens, the anti-abuse check,
  and the answers of the generators of identifiers and tokens are arguments; the observer of costs,
  which only feeds metrics, is left out.
\<close>

text \<open>The errors of both packages; the account errors joined with their cause carry it.\<close>

datatype auth_error =
    ErrSessionMissing | ErrSessionExpired | ErrCSRFInvalid | ErrBootstrapID
  | ErrGoogleTokenInvalid | ErrGoogleVerificationFailed | ErrGoogleIdentityLinked | ErrGoogleAccountNotLinked
  | ErrDeleteConfirmationRequired
  | ErrAccountUpgradeFailed auth_error | ErrGoogleLoginFailed auth_error | ErrAccountDeleteFailed auth_error
  | ErrAnonymousCreationBlocked | ErrAntiAbuseUnavailable
  | CSRFFailure csrf_error | SystemFailure string
  | ErrNoRows | UniqueViolation string | SessionPersistenceInvariant string | AccountInvariant string
  | AdapterFailure workspace_error

subsection \<open>Sessions\<close>

record AuthenticatedSession =
  asn_ID :: string
  asn_UserID :: string
  asn_CSRFTokenHash :: string
  asn_LastSeenAt :: gotime
  asn_IdleExpiresAt :: gotime
  asn_AbsoluteExpiresAt :: gotime
  asn_GoogleConnected :: bool
  asn_GoogleEmail :: "string option"

record CreateAnonymousRecord =
  car_BootstrapKeyHash :: string
  car_BootstrapExpires :: gotime
  car_UserID :: string
  car_SessionID :: string
  car_SessionTokenHash :: string
  car_CSRFTokenHash :: string
  car_Now :: gotime
  car_IdleExpiresAt :: gotime
  car_AbsoluteExpiresAt :: gotime

record AnonymousRecord =
  anr_UserID :: string
  anr_Created :: bool

record SessionView =
  sv_view_UserID :: string
  sv_view_GoogleConnected :: bool
  sv_view_GoogleEmail :: "string option"
  sv_view_CSRFToken :: string
  sv_view_SessionToken :: string
  sv_view_Created :: bool

record CreateAnonymousInput =
  cai_BootstrapID :: string
  cai_TurnstileToken :: string
  cai_RemoteAddress :: string
  cai_UserAgent :: string

record AnonymousAbuseInput =
  aab_TurnstileToken :: string
  aab_RemoteAddress :: string
  aab_UserAgent :: string
  aab_BootstrapID :: string

record SessionSettings =
  ses_SessionHashKey :: string
  ses_CSRFHashKey :: string
  ses_BootstrapHashKey :: string
  ses_IdleTTL :: int
  ses_AbsoluteTTL :: int
  ses_ActivityTouchAfter :: int
  ses_BootstrapTTL :: int

record 's SessionRepository =
  sr_FindByTokenHash :: "string \<Rightarrow> gotime \<Rightarrow> (auth_error, 's, AuthenticatedSession) etx"
  sr_ConvergeCSRF :: "string \<Rightarrow> string \<Rightarrow> gotime \<Rightarrow> (auth_error, 's, unit) etx"
  sr_Touch :: "string \<Rightarrow> gotime \<Rightarrow> gotime \<Rightarrow> (auth_error, 's, unit) etx"
  sr_CreateOrResumeAnonymous :: "CreateAnonymousRecord \<Rightarrow> (auth_error, 's, AnonymousRecord) etx"

text \<open>\<open>Time.Sub\<close> saturates at the bounds of a duration.\<close>

definition time_sub :: "gotime \<Rightarrow> gotime \<Rightarrow> int" where
  "time_sub t u = max (- (2 ^ 63)) (min (2 ^ 63 - 1) (nanos t - nanos u))"

definition Authenticate ::
  "'s SessionRepository \<Rightarrow> (string \<Rightarrow> string \<Rightarrow> string) \<Rightarrow> SessionSettings \<Rightarrow> gotime \<Rightarrow> string \<Rightarrow> 's \<Rightarrow>
   (auth_error + AuthenticatedSession) \<times> 's" where
  "Authenticate repository hmac settings now0 sessionToken s =
     (if sessionToken = [] then (Inl ErrSessionMissing, s)
      else let now = utc now0 in
        case sr_FindByTokenHash repository (hmac (ses_SessionHashKey settings) sessionToken) now s of
          Inl err \<Rightarrow> (Inl err, s)
        | Inr (session, t) \<Rightarrow>
            if time_sub now (asn_LastSeenAt session) \<ge> ses_ActivityTouchAfter settings
            then (Inr session,
                  snd (commit_or_rollback (sr_Touch repository (asn_ID session) now
                         (time_add now (ses_IdleTTL settings))) t))
            else (Inr session, t))"

definition RefreshAuthenticated ::
  "'s SessionRepository \<Rightarrow> (string \<Rightarrow> string \<Rightarrow> string) \<Rightarrow> SessionSettings \<Rightarrow> gotime \<Rightarrow>
   AuthenticatedSession \<Rightarrow> string \<Rightarrow> 's \<Rightarrow> (auth_error + SessionView) \<times> 's" where
  "RefreshAuthenticated repository hmac settings now session sessionToken s =
     (case csrf_Derive hmac (ses_CSRFHashKey settings) (asn_ID session) of
        Inl err \<Rightarrow> (Inl (CSRFFailure err), s)
      | Inr csrfToken \<Rightarrow>
          (case sr_ConvergeCSRF repository (asn_ID session) (hmac (ses_CSRFHashKey settings) csrfToken)
                  (utc now) s of
             Inl err \<Rightarrow> (Inl err, s)
           | Inr (_, t) \<Rightarrow>
               (Inr \<lparr>sv_view_UserID = asn_UserID session, sv_view_GoogleConnected = asn_GoogleConnected session,
                     sv_view_GoogleEmail = asn_GoogleEmail session, sv_view_CSRFToken = csrfToken,
                     sv_view_SessionToken = sessionToken, sv_view_Created = False\<rparr>, t)))"

text \<open>The clock is read once for each of the two steps.\<close>

definition Refresh ::
  "'s SessionRepository \<Rightarrow> (string \<Rightarrow> string \<Rightarrow> string) \<Rightarrow> SessionSettings \<Rightarrow> gotime \<Rightarrow> gotime \<Rightarrow> string \<Rightarrow>
   's \<Rightarrow> (auth_error + SessionView) \<times> 's" where
  "Refresh repository hmac settings now1 now2 sessionToken s =
     (case Authenticate repository hmac settings now1 sessionToken s of
        (Inl err, t) \<Rightarrow> (Inl err, t)
      | (Inr session, t) \<Rightarrow> RefreshAuthenticated repository hmac settings now2 session sessionToken t)"

definition CreateAnonymous ::
  "'s SessionRepository \<Rightarrow> (string \<Rightarrow> string \<Rightarrow> string) \<Rightarrow> SessionSettings \<Rightarrow>
   (AnonymousAbuseInput \<Rightarrow> auth_error option) \<Rightarrow> auth_error + string \<Rightarrow> auth_error + string \<Rightarrow>
   auth_error + string \<Rightarrow> gotime \<Rightarrow> CreateAnonymousInput \<Rightarrow> 's \<Rightarrow> (auth_error + SessionView) \<times> 's" where
  "CreateAnonymous repository hmac settings abuse newUserID newSessionID newToken now0 input s =
     (if \<not> IsCanonicalUUIDv7 (cai_BootstrapID input) then (Inl ErrBootstrapID, s)
      else (case abuse \<lparr>aab_TurnstileToken = cai_TurnstileToken input,
                        aab_RemoteAddress = cai_RemoteAddress input, aab_UserAgent = cai_UserAgent input,
                        aab_BootstrapID = cai_BootstrapID input\<rparr> of
          Some err \<Rightarrow> (Inl err, s)
        | None \<Rightarrow>
            let material = rbind newUserID (\<lambda>userID. rbind newSessionID (\<lambda>sessionID.
                  rbind newToken (\<lambda>sessionToken.
                  rbind (err_map CSRFFailure (csrf_Derive hmac (ses_CSRFHashKey settings) sessionID))
                    (\<lambda>csrfToken. Inr (userID, sessionID, sessionToken, csrfToken))))) in
            (case material of
               Inl err \<Rightarrow> (Inl err, s)
             | Inr (userID, sessionID, sessionToken, csrfToken) \<Rightarrow>
                 let now = utc now0 in
                 (case sr_CreateOrResumeAnonymous repository
                    \<lparr>car_BootstrapKeyHash = hmac (ses_BootstrapHashKey settings) (cai_BootstrapID input),
                     car_BootstrapExpires = time_add now (ses_BootstrapTTL settings), car_UserID = userID,
                     car_SessionID = sessionID,
                     car_SessionTokenHash = hmac (ses_SessionHashKey settings) sessionToken,
                     car_CSRFTokenHash = hmac (ses_CSRFHashKey settings) csrfToken, car_Now = now,
                     car_IdleExpiresAt = time_add now (ses_IdleTTL settings),
                     car_AbsoluteExpiresAt = time_add now (ses_AbsoluteTTL settings)\<rparr> s of
                    Inl err \<Rightarrow> (Inl err, s)
                  | Inr (created, t) \<Rightarrow>
                      (Inr \<lparr>sv_view_UserID = anr_UserID created, sv_view_GoogleConnected = False,
                            sv_view_GoogleEmail = None, sv_view_CSRFToken = csrfToken,
                            sv_view_SessionToken = sessionToken, sv_view_Created = anr_Created created\<rparr>, t)))))"

definition csrfTokenMatches :: "string \<Rightarrow> string \<Rightarrow> string \<Rightarrow> string \<Rightarrow> bool" where
  "csrfTokenMatches stableToken presentedToken storedVerifier presentedVerifier \<longleftrightarrow>
     stableToken = presentedToken \<or> storedVerifier = presentedVerifier"

definition VerifyCSRF ::
  "(string \<Rightarrow> string \<Rightarrow> string) \<Rightarrow> SessionSettings \<Rightarrow> AuthenticatedSession \<Rightarrow> string \<Rightarrow> auth_error option" where
  "VerifyCSRF hmac settings session token =
     (if \<not> csrf_IsValid token then Some ErrCSRFInvalid
      else (case csrf_Derive hmac (ses_CSRFHashKey settings) (asn_ID session) of
          Inl _ \<Rightarrow> Some ErrCSRFInvalid
        | Inr stableToken \<Rightarrow>
            if csrfTokenMatches stableToken token (asn_CSRFTokenHash session)
                 (hmac (ses_CSRFHashKey settings) token)
            then None else Some ErrCSRFInvalid))"

subsection \<open>Accounts\<close>

record GoogleIdentity =
  gid_Subject :: string
  gid_Email :: "string option"
  gid_EmailVerified :: "bool option"

record sessionMaterial =
  sm_id :: string
  sm_token :: string
  sm_csrf :: string
  sm_tokenHash :: string
  sm_csrfHash :: string
  sm_now :: gotime
  sm_idleExpiresAt :: gotime
  sm_absoluteExpiresAt :: gotime

record LoginRecord =
  lgr_CurrentSessionID :: string
  lgr_Identity :: GoogleIdentity
  lgr_NewSessionID :: string
  lgr_SessionTokenHash :: string
  lgr_CSRFTokenHash :: string
  lgr_Now :: gotime
  lgr_IdleExpiresAt :: gotime
  lgr_AbsoluteExpiresAt :: gotime

record UpgradeRecord = LoginRecord +
  upr_CurrentUserID :: string
  upr_IdentityID :: string

record AuthResult =
  aur_result_UserID :: string
  aur_result_GoogleEmail :: "string option"

record DeleteResult =
  der_UnattributedCostUSD :: rat
  der_SettlementOperationCount :: i64

record AccountView =
  acv_UserID :: string
  acv_GoogleConnected :: bool
  acv_GoogleEmail :: "string option"
  acv_SessionToken :: string
  acv_CSRFToken :: string

record 's AccountRepository =
  acr_UpgradeGoogle :: "UpgradeRecord \<Rightarrow> (auth_error, 's, AuthResult) etx"
  acr_LoginGoogle :: "LoginRecord \<Rightarrow> (auth_error, 's, AuthResult) etx"
  acr_DeleteAccount :: "string \<Rightarrow> gotime \<Rightarrow> (auth_error, 's, DeleteResult) etx"

text \<open>Of the settings the account service uses the session key, the CSRF key and the two lifetimes.\<close>

definition createSession ::
  "(string \<Rightarrow> string \<Rightarrow> string) \<Rightarrow> SessionSettings \<Rightarrow> auth_error + string \<Rightarrow> auth_error + string \<Rightarrow> gotime \<Rightarrow>
   (sessionMaterial \<Rightarrow> (auth_error, 's, AuthResult) etx) \<Rightarrow> (auth_error, 's, AccountView) etx" where
  "createSession hmac settings newSessionID newToken now0 operation =
     tx_bind (tx_lift (rbind newSessionID (\<lambda>sessionID. rbind newToken (\<lambda>token.
        rbind (err_map CSRFFailure (csrf_Derive hmac (ses_CSRFHashKey settings) sessionID)) (\<lambda>csrf.
        Inr (sessionID, token, csrf)))))) (\<lambda>(sessionID, token, csrf).
     let now = utc now0 in
     tx_bind (operation
       \<lparr>sm_id = sessionID, sm_token = token, sm_csrf = csrf,
        sm_tokenHash = hmac (ses_SessionHashKey settings) token,
        sm_csrfHash = hmac (ses_CSRFHashKey settings) csrf, sm_now = now,
        sm_idleExpiresAt = time_add now (ses_IdleTTL settings),
        sm_absoluteExpiresAt = time_add now (ses_AbsoluteTTL settings)\<rparr>) (\<lambda>result.
     tx_return \<lparr>acv_UserID = aur_result_UserID result, acv_GoogleConnected = True,
       acv_GoogleEmail = aur_result_GoogleEmail result, acv_SessionToken = token, acv_CSRFToken = csrf\<rparr>))"

definition login_record :: "string \<Rightarrow> GoogleIdentity \<Rightarrow> sessionMaterial \<Rightarrow> LoginRecord" where
  "login_record currentSessionID identity session =
     \<lparr>lgr_CurrentSessionID = currentSessionID, lgr_Identity = identity, lgr_NewSessionID = sm_id session,
      lgr_SessionTokenHash = sm_tokenHash session, lgr_CSRFTokenHash = sm_csrfHash session,
      lgr_Now = sm_now session, lgr_IdleExpiresAt = sm_idleExpiresAt session,
      lgr_AbsoluteExpiresAt = sm_absoluteExpiresAt session\<rparr>"

definition upgrade_record ::
  "string \<Rightarrow> string \<Rightarrow> string \<Rightarrow> GoogleIdentity \<Rightarrow> sessionMaterial \<Rightarrow> UpgradeRecord" where
  "upgrade_record currentUserID currentSessionID identityID identity session =
     \<lparr>lgr_CurrentSessionID = currentSessionID, lgr_Identity = identity, lgr_NewSessionID = sm_id session,
      lgr_SessionTokenHash = sm_tokenHash session, lgr_CSRFTokenHash = sm_csrfHash session,
      lgr_Now = sm_now session, lgr_IdleExpiresAt = sm_idleExpiresAt session,
      lgr_AbsoluteExpiresAt = sm_absoluteExpiresAt session, upr_CurrentUserID = currentUserID,
      upr_IdentityID = identityID\<rparr>"

definition uc_UpgradeGoogle ::
  "'s AccountRepository \<Rightarrow> (string \<Rightarrow> string \<Rightarrow> string) \<Rightarrow> SessionSettings \<Rightarrow>
   (string \<Rightarrow> auth_error + GoogleIdentity) \<Rightarrow> auth_error + string \<Rightarrow> auth_error + string \<Rightarrow>
   auth_error + string \<Rightarrow> gotime \<Rightarrow> string \<Rightarrow> string \<Rightarrow> string \<Rightarrow> 's \<Rightarrow> (auth_error + AccountView) \<times> 's" where
  "uc_UpgradeGoogle repository hmac settings verify newIdentityID newSessionID newToken now
     currentUserID currentSessionID idToken s =
     (case rbind (verify idToken) (\<lambda>identity. rbind newIdentityID (\<lambda>identityID. Inr (identity, identityID))) of
        Inl err \<Rightarrow> (Inl err, s)
      | Inr (identity, identityID) \<Rightarrow>
          (let (r, t) = commit_or_rollback (createSession hmac settings newSessionID newToken now (\<lambda>session.
                 acr_UpgradeGoogle repository
                   (upgrade_record currentUserID currentSessionID identityID identity session))) s
           in (err_map (\<lambda>err. if err = ErrGoogleIdentityLinked then err else ErrAccountUpgradeFailed err) r, t)))"

definition uc_LoginGoogle ::
  "'s AccountRepository \<Rightarrow> (string \<Rightarrow> string \<Rightarrow> string) \<Rightarrow> SessionSettings \<Rightarrow>
   (string \<Rightarrow> auth_error + GoogleIdentity) \<Rightarrow> auth_error + string \<Rightarrow> auth_error + string \<Rightarrow> gotime \<Rightarrow>
   string \<Rightarrow> string \<Rightarrow> 's \<Rightarrow> (auth_error + AccountView) \<times> 's" where
  "uc_LoginGoogle repository hmac settings verify newSessionID newToken now currentSessionID idToken s =
     (case verify idToken of
        Inl err \<Rightarrow> (Inl err, s)
      | Inr identity \<Rightarrow>
          (let (r, t) = commit_or_rollback (createSession hmac settings newSessionID newToken now (\<lambda>session.
                 acr_LoginGoogle repository (login_record currentSessionID identity session))) s
           in (err_map (\<lambda>err. if err = ErrGoogleAccountNotLinked then err else ErrGoogleLoginFailed err) r, t)))"

definition uc_DeleteAccount ::
  "'s AccountRepository \<Rightarrow> gotime \<Rightarrow> string \<Rightarrow> bool \<Rightarrow> 's \<Rightarrow> (auth_error + unit) \<times> 's" where
  "uc_DeleteAccount repository now userID confirmed s =
     (if \<not> confirmed then (Inl ErrDeleteConfirmationRequired, s)
      else let (r, t) = commit_or_rollback (acr_DeleteAccount repository userID (utc now)) s
           in (case r of Inl err \<Rightarrow> Inl (ErrAccountDeleteFailed err) | Inr _ \<Rightarrow> Inr (), t))"

end
