(* ===== verification/SessionStore.thy ===== *)
theory SessionStore
  imports Sessions CycleStoreLaws
begin

section \<open>The PostgreSQL adapter of the sessions\<close>

text \<open>
  Model of \<open>session_repository.go\<close> over the statements of \<open>queries/sessions.sql\<close> and \<open>users.sql\<close>,
  on the database of \<open>CycleStore\<close> and with its conventions.  The unique keys of \<open>users\<close>, \<open>sessions\<close>
  and \<open>anonymous_bootstraps\<close> are modelled; a violation names the constraint.  Two transactions may
  race for one bootstrap key, and the code retries once: \<open>others\<close> is what other transactions commit
  between the lookup of the key and the statements after it.
\<close>

type_synonym 'a auth_tx = "(auth_error, Database, 'a) etx"

definition fetch_auth :: "(Database \<Rightarrow> 'a) \<Rightarrow> 'a auth_tx" where
  "fetch_auth f d = Inr (f d, d)"

definition auth_uuid :: "(string \<Rightarrow> string option) \<Rightarrow> string \<Rightarrow> pgUUID auth_tx" where
  "auth_uuid scan v = tx_map_error AdapterFailure (mustUUID scan v)"

definition lockUser :: "(string \<Rightarrow> string option) \<Rightarrow> string \<Rightarrow> unit auth_tx" where
  "lockUser scan userID =
     tx_bind (auth_uuid scan userID) (\<lambda>user_id.
     tx_bind (fetch_auth (\<lambda>d. find (\<lambda>u. sql_eq (ur_ID u) user_id) (db_users d))) (\<lambda>row.
     if row = None then tx_fail ErrNoRows else tx_return ()))"

definition sessionFiniteTimestamptz :: "pgTimestamptz \<Rightarrow> gotime option" where
  "sessionFiniteTimestamptz value =
     (if \<not> tz_Valid value \<or> tz_InfinityModifier value \<noteq> Finite then None else Some (utc (tz_Time value)))"

definition sessionAnonymousBootstrapState ::
  "pgUUID \<Rightarrow> pgTimestamptz \<Rightarrow> auth_error + pgUUID \<times> gotime" where
  "sessionAnonymousBootstrapState userID expiresAt =
     (case sessionFiniteTimestamptz expiresAt of
        None \<Rightarrow> Inl (SessionPersistenceInvariant ''anonymous bootstrap identity or expiry is invalid'')
      | Some expires \<Rightarrow>
          if uuidString userID = []
          then Inl (SessionPersistenceInvariant ''anonymous bootstrap identity or expiry is invalid'')
          else Inr (userID, expires))"

subsection \<open>The statements\<close>

definition update_sessions :: "(SessionRow \<Rightarrow> bool) \<Rightarrow> (SessionRow \<Rightarrow> SessionRow) \<Rightarrow> i64 auth_tx" where
  "update_sessions selected change d =
     (let (n, rows) = update_rows selected change (db_sessions d) in Inr (n, d\<lparr>db_sessions := rows\<rparr>))"

definition tz_greatest :: "pgTimestamptz \<Rightarrow> pgTimestamptz \<Rightarrow> pgTimestamptz" where
  "tz_greatest a b = (if tz_less a b then b else a)"

definition tz_least :: "pgTimestamptz \<Rightarrow> pgTimestamptz \<Rightarrow> pgTimestamptz" where
  "tz_least a b = (if tz_less b a then b else a)"

text \<open>The clause of the statements that use a session: not revoked, and before both of its expiries.\<close>

definition live_session :: "pgTimestamptz \<Rightarrow> SessionRow \<Rightarrow> bool" where
  "live_session moment s \<longleftrightarrow> \<not> tz_Valid (se_RevokedAt s) \<and>
     tz_less moment (se_IdleExpiresAt s) \<and> tz_less moment (se_AbsoluteExpiresAt s)"

definition google_identity :: "Database \<Rightarrow> pgUUID \<Rightarrow> AuthIdentityRow option" where
  "google_identity d user_id =
     find (\<lambda>i. sql_eq (id_UserID i) user_id \<and> id_Provider i = ''google'') (db_auth_identities d)"

definition google_email :: "AuthIdentityRow \<Rightarrow> string option" where
  "google_email i = (if id_EmailVerifiedAtLink i = Some True then id_EmailAtLink i else None)"

definition store_FindByTokenHash :: "string \<Rightarrow> gotime \<Rightarrow> AuthenticatedSession auth_tx" where
  "store_FindByTokenHash hash now =
     tx_bind (fetch_auth (\<lambda>d. map_option (\<lambda>s. (s, google_identity d (se_UserID s)))
        (find (\<lambda>s. se_TokenHash s = hash \<and> live_session (stored_at now) s) (db_sessions d)))) (\<lambda>row.
     case row of
       None \<Rightarrow> tx_fail ErrSessionExpired
     | Some (s, identity) \<Rightarrow>
         (case (sessionFiniteTimestamptz (se_LastSeenAt s), sessionFiniteTimestamptz (se_IdleExpiresAt s),
                sessionFiniteTimestamptz (se_AbsoluteExpiresAt s)) of
            (Some lastSeenAt, Some idleExpiresAt, Some absoluteExpiresAt) \<Rightarrow>
              if uuidString (se_ID s) = [] \<or> uuidString (se_UserID s) = []
              then tx_fail (SessionPersistenceInvariant ''required Session identity or timestamp is invalid'')
              else tx_return
                \<lparr>asn_ID = uuidString (se_ID s), asn_UserID = uuidString (se_UserID s),
                 asn_CSRFTokenHash = se_CsrfTokenHash s, asn_LastSeenAt = lastSeenAt,
                 asn_IdleExpiresAt = idleExpiresAt, asn_AbsoluteExpiresAt = absoluteExpiresAt,
                 asn_GoogleConnected = (identity \<noteq> None),
                 asn_GoogleEmail = Option.bind identity google_email\<rparr>
          | _ \<Rightarrow> tx_fail (SessionPersistenceInvariant ''required Session identity or timestamp is invalid'')))"

definition store_ConvergeCSRF :: "(string \<Rightarrow> string option) \<Rightarrow> string \<Rightarrow> string \<Rightarrow> gotime \<Rightarrow> unit auth_tx" where
  "store_ConvergeCSRF scan sessionID hash now =
     tx_bind (auth_uuid scan sessionID) (\<lambda>session_id.
     tx_bind (update_sessions (\<lambda>s. sql_eq (se_ID s) session_id \<and> live_session (stored_at now) s)
                (se_CsrfTokenHash_update (\<lambda>_. hash))) (\<lambda>rows.
     if rows \<noteq> 1 then tx_fail ErrSessionExpired else tx_return ()))"

text \<open>
  One statement: it locates the session that is not revoked, locks its User, advances the session,
  and advances the activity of the User.
\<close>

definition touched_session :: "gotime \<Rightarrow> gotime \<Rightarrow> SessionRow \<Rightarrow> SessionRow" where
  "touched_session now idleExpiresAt s =
     s\<lparr>se_LastSeenAt := tz_greatest (se_LastSeenAt s) (stored_at now),
       se_IdleExpiresAt := tz_least (se_AbsoluteExpiresAt s)
         (tz_greatest (se_IdleExpiresAt s) (stored_at idleExpiresAt))\<rparr>"

definition store_Touch :: "(string \<Rightarrow> string option) \<Rightarrow> string \<Rightarrow> gotime \<Rightarrow> gotime \<Rightarrow> unit auth_tx" where
  "store_Touch scan sessionID now idleExpiresAt =
     tx_bind (auth_uuid scan sessionID) (\<lambda>session_id d.
       let located = (\<lambda>s. sql_eq (se_ID s) session_id \<and> \<not> tz_Valid (se_RevokedAt s)) in
       (case find (\<lambda>s. located s \<and> list_ex (\<lambda>u. sql_eq (ur_ID u) (se_UserID s)) (db_users d)) (db_sessions d) of
          None \<Rightarrow> Inr ((), d)
        | Some session \<Rightarrow>
            let seen = se_LastSeenAt (touched_session now idleExpiresAt session) in
            Inr ((), d\<lparr>db_sessions := map (\<lambda>s. if located s then touched_session now idleExpiresAt s else s)
                         (db_sessions d),
                       db_users := map (\<lambda>u. if sql_eq (ur_ID u) (se_UserID session)
                         then u\<lparr>ur_LastActiveAt := tz_greatest (ur_LastActiveAt u) seen,
                                ur_UpdatedAt := tz_greatest (ur_UpdatedAt u) seen\<rparr> else u) (db_users d)\<rparr>)))"

definition insert_session_row :: "SessionRow \<Rightarrow> unit auth_tx" where
  "insert_session_row row d =
     (if list_ex (\<lambda>s. sql_eq (se_ID s) (se_ID row)) (db_sessions d) then Inl (UniqueViolation ''sessions_pkey'')
      else if list_ex (\<lambda>s. se_TokenHash s = se_TokenHash row) (db_sessions d)
      then Inl (UniqueViolation ''sessions_token_hash_key'')
      else Inr ((), d\<lparr>db_sessions := db_sessions d @ [row]\<rparr>))"

text \<open>\<open>InsertSession\<close>, the statement \<open>insertSession\<close> and \<open>insertAccountSession\<close> run.\<close>

definition insert_session ::
  "(string \<Rightarrow> string option) \<Rightarrow> string \<Rightarrow> pgUUID \<Rightarrow> string \<Rightarrow> string \<Rightarrow> gotime \<Rightarrow> gotime \<Rightarrow> gotime \<Rightarrow> unit auth_tx" where
  "insert_session scan sessionID user_id tokenHash csrfHash now idleExpiry absoluteExpiry =
     tx_bind (auth_uuid scan sessionID) (\<lambda>session_id.
     insert_session_row
       \<lparr>se_ID = session_id, se_UserID = user_id, se_TokenHash = tokenHash, se_CsrfTokenHash = csrfHash,
        se_CreatedAt = stored_at now, se_LastSeenAt = stored_at now, se_IdleExpiresAt = stored_at idleExpiry,
        se_AbsoluteExpiresAt = stored_at absoluteExpiry, se_RevokedAt = null_Timestamptz\<rparr>)"

definition insertSession :: "(string \<Rightarrow> string option) \<Rightarrow> CreateAnonymousRecord \<Rightarrow> pgUUID \<Rightarrow> unit auth_tx" where
  "insertSession scan input user_id =
     insert_session scan (car_SessionID input) user_id (car_SessionTokenHash input) (car_CSRFTokenHash input)
       (car_Now input) (car_IdleExpiresAt input) (car_AbsoluteExpiresAt input)"

definition insert_user :: "pgUUID \<Rightarrow> gotime \<Rightarrow> unit auth_tx" where
  "insert_user user_id now d =
     (if list_ex (\<lambda>u. sql_eq (ur_ID u) user_id) (db_users d) then Inl (UniqueViolation ''users_pkey'')
      else Inr ((), d\<lparr>db_users := db_users d @ [\<lparr>ur_ID = user_id, ur_LastActiveAt = stored_at now,
                        ur_CreatedAt = stored_at now, ur_UpdatedAt = stored_at now\<rparr>]\<rparr>))"

definition bootstrap_conflict :: auth_error where
  "bootstrap_conflict = UniqueViolation ''anonymous_bootstraps_pkey''"

definition insert_bootstrap :: "string \<Rightarrow> pgUUID \<Rightarrow> gotime \<Rightarrow> gotime \<Rightarrow> unit auth_tx" where
  "insert_bootstrap keyHash user_id expiresAt now d =
     (if list_ex (\<lambda>b. abr_KeyHash b = keyHash) (db_anonymous_bootstraps d) then Inl bootstrap_conflict
      else if list_ex (\<lambda>b. sql_eq (abr_UserID b) user_id) (db_anonymous_bootstraps d)
      then Inl (UniqueViolation ''anonymous_bootstraps_user_id_key'')
      else Inr ((), d\<lparr>db_anonymous_bootstraps := db_anonymous_bootstraps d @
        [\<lparr>abr_KeyHash = keyHash, abr_UserID = user_id, abr_ExpiresAt = stored_at expiresAt,
          abr_CreatedAt = stored_at now\<rparr>]\<rparr>))"

definition delete_bootstraps :: "(AnonymousBootstrapRow \<Rightarrow> bool) \<Rightarrow> unit auth_tx" where
  "delete_bootstraps selected d =
     Inr ((), d\<lparr>db_anonymous_bootstraps := filter (\<lambda>b. \<not> selected b) (db_anonymous_bootstraps d)\<rparr>)"

subsection \<open>Creating or resuming an anonymous User\<close>

definition find_bootstrap :: "string \<Rightarrow> Database \<Rightarrow> AnonymousBootstrapRow option" where
  "find_bootstrap keyHash d = find (\<lambda>b. abr_KeyHash b = keyHash) (db_anonymous_bootstraps d)"

definition create_anonymous_user ::
  "(string \<Rightarrow> string option) \<Rightarrow> CreateAnonymousRecord \<Rightarrow> AnonymousRecord auth_tx" where
  "create_anonymous_user scan input =
     tx_bind (auth_uuid scan (car_UserID input)) (\<lambda>user_id.
     tx_bind (insert_user user_id (car_Now input)) (\<lambda>_.
     tx_bind (insertSession scan input user_id) (\<lambda>_.
     tx_bind (insert_bootstrap (car_BootstrapKeyHash input) user_id (car_BootstrapExpires input) (car_Now input)) (\<lambda>_.
     tx_return \<lparr>anr_UserID = car_UserID input, anr_Created = True\<rparr>))))"

definition resume_or_replace ::
  "(string \<Rightarrow> string option) \<Rightarrow> CreateAnonymousRecord \<Rightarrow> AnonymousBootstrapRow \<Rightarrow> AnonymousRecord auth_tx" where
  "resume_or_replace scan input located =
     tx_bind (tx_lift (sessionAnonymousBootstrapState (abr_UserID located) (abr_ExpiresAt located)))
       (\<lambda>(locatedUserID, _).
     tx_bind (lockUser scan (uuidString locatedUserID)) (\<lambda>_.
     tx_bind (fetch_auth (\<lambda>d. find (\<lambda>b. abr_KeyHash b = car_BootstrapKeyHash input \<and>
                sql_eq (abr_UserID b) locatedUserID) (db_anonymous_bootstraps d))) (\<lambda>row.
     case row of
       None \<Rightarrow> tx_fail ErrNoRows
     | Some locked \<Rightarrow>
         tx_bind (tx_lift (sessionAnonymousBootstrapState (abr_UserID locked) (abr_ExpiresAt locked)))
           (\<lambda>(existingUserID, existingExpires).
         if nanos existingExpires > nanos (car_Now input)
         then tx_bind (insertSession scan input existingUserID) (\<lambda>_.
              tx_return \<lparr>anr_UserID = uuidString existingUserID, anr_Created = False\<rparr>)
         else tx_bind (delete_bootstraps (\<lambda>b. abr_KeyHash b = car_BootstrapKeyHash input)) (\<lambda>_.
              create_anonymous_user scan input)))))"

definition createOrResumeAnonymousOnce ::
  "(string \<Rightarrow> string option) \<Rightarrow> (Database \<Rightarrow> Database) \<Rightarrow> CreateAnonymousRecord \<Rightarrow> AnonymousRecord auth_tx" where
  "createOrResumeAnonymousOnce scan others input =
     tx_bind (fetch_auth (find_bootstrap (car_BootstrapKeyHash input))) (\<lambda>row.
     tx_bind (\<lambda>d. Inr ((), others d)) (\<lambda>_.
     case row of
       None \<Rightarrow> create_anonymous_user scan input
     | Some located \<Rightarrow> resume_or_replace scan input located))"

text \<open>
  The two attempts, each with what others commit meanwhile.  A failed attempt leaves what the
  others committed and nothing of its own.
\<close>

fun anonymous_attempts ::
  "(string \<Rightarrow> string option) \<Rightarrow> (Database \<Rightarrow> Database) list \<Rightarrow> CreateAnonymousRecord \<Rightarrow> AnonymousRecord auth_tx" where
  "anonymous_attempts scan [] input d = Inl (SystemFailure ''anonymous bootstrap conflict did not converge'')"
| "anonymous_attempts scan (others # rest) input d =
     (case createOrResumeAnonymousOnce scan others input d of
        Inr r \<Rightarrow> Inr r
      | Inl err \<Rightarrow>
          if err \<noteq> bootstrap_conflict then Inl err else anonymous_attempts scan rest input (others d))"

definition store_CreateOrResumeAnonymous ::
  "(string \<Rightarrow> string option) \<Rightarrow> (Database \<Rightarrow> Database) \<Rightarrow> (Database \<Rightarrow> Database) \<Rightarrow> CreateAnonymousRecord \<Rightarrow>
   AnonymousRecord auth_tx" where
  "store_CreateOrResumeAnonymous scan others1 others2 = anonymous_attempts scan [others1, others2]"

text \<open>The repository, with no interference between the statements of one transaction.\<close>

definition store_SessionRepository :: "(string \<Rightarrow> string option) \<Rightarrow> Database SessionRepository" where
  "store_SessionRepository scan =
     \<lparr>sr_FindByTokenHash = store_FindByTokenHash, sr_ConvergeCSRF = store_ConvergeCSRF scan,
      sr_Touch = store_Touch scan, sr_CreateOrResumeAnonymous = store_CreateOrResumeAnonymous scan (\<lambda>d. d) (\<lambda>d. d)\<rparr>"

end
