(* ===== verification/AccountStore.thy ===== *)
theory AccountStore
  imports SessionStore
begin

section \<open>The PostgreSQL adapter of the accounts\<close>

text \<open>
  Model of \<open>account_repository.go\<close> over the statements of \<open>queries/account_delete.sql\<close>,
  \<open>auth_identities.sql\<close> and \<open>sessions.sql\<close>.  A \<open>SUM\<close> of amounts is rendered with all eight decimals.
  Deleting a User cascades along the foreign keys of the schema: its rows go with it, and a usage
  event of another User would lose its reference to a deleted Goal.
\<close>

subsection \<open>Identities and sessions\<close>

definition verifiedGoogleEmail :: "GoogleIdentity \<Rightarrow> string option" where
  "verifiedGoogleEmail identity =
     (case (gid_Email identity, gid_EmailVerified identity) of
        (Some email, Some True) \<Rightarrow> Some email
      | _ \<Rightarrow> None)"

definition accountGoogleIdentity :: "AuthIdentityRow \<Rightarrow> auth_error + string \<times> string option" where
  "accountGoogleIdentity row =
     (if uuidString (id_UserID row) = [] then Inl (AccountInvariant ''Google identity user ID is invalid'')
      else Inr (uuidString (id_UserID row), google_email row))"

definition find_google_identity :: "string \<Rightarrow> Database \<Rightarrow> AuthIdentityRow option" where
  "find_google_identity subject d =
     find (\<lambda>i. id_Provider i = ''google'' \<and> id_ProviderSubject i = subject) (db_auth_identities d)"

definition insert_google_identity :: "AuthIdentityRow \<Rightarrow> unit auth_tx" where
  "insert_google_identity row d =
     (if list_ex (\<lambda>i. sql_eq (id_ID i) (id_ID row)) (db_auth_identities d)
      then Inl (UniqueViolation ''auth_identities_pkey'')
      else if list_ex (\<lambda>i. id_Provider i = id_Provider row \<and> id_ProviderSubject i = id_ProviderSubject row)
                (db_auth_identities d)
      then Inl (UniqueViolation ''auth_identities_provider_provider_subject_key'')
      else if list_ex (\<lambda>i. sql_eq (id_UserID i) (id_UserID row) \<and> id_Provider i = id_Provider row)
                (db_auth_identities d)
      then Inl (UniqueViolation ''auth_identities_user_id_provider_key'')
      else Inr ((), d\<lparr>db_auth_identities := db_auth_identities d @ [row]\<rparr>))"

text \<open>\<open>RevokeSession\<close> and \<open>RevokeOwnedSession\<close>; a session that is not there or revoked is an error.\<close>

definition revoke_session :: "(SessionRow \<Rightarrow> bool) \<Rightarrow> gotime \<Rightarrow> unit auth_tx" where
  "revoke_session selected now =
     tx_bind (update_sessions (\<lambda>s. selected s \<and> \<not> tz_Valid (se_RevokedAt s))
                (se_RevokedAt_update (\<lambda>_. stored_at now))) (\<lambda>rows.
     if rows \<noteq> 1 then tx_fail ErrNoRows else tx_return ())"

definition insertAccountSession ::
  "(string \<Rightarrow> string option) \<Rightarrow> ('z LoginRecord_scheme) \<Rightarrow> string \<Rightarrow> unit auth_tx" where
  "insertAccountSession scan input userID =
     tx_bind (auth_uuid scan userID) (\<lambda>user_id.
     insert_session scan (lgr_NewSessionID input) user_id (lgr_SessionTokenHash input) (lgr_CSRFTokenHash input)
       (lgr_Now input) (lgr_IdleExpiresAt input) (lgr_AbsoluteExpiresAt input))"

definition rotateSession ::
  "(string \<Rightarrow> string option) \<Rightarrow> ('z LoginRecord_scheme) \<Rightarrow> string \<Rightarrow> unit auth_tx" where
  "rotateSession scan input userID =
     tx_bind (auth_uuid scan (lgr_CurrentSessionID input)) (\<lambda>session_id.
     tx_bind (auth_uuid scan userID) (\<lambda>user_id.
     tx_bind (revoke_session (\<lambda>s. sql_eq (se_ID s) session_id \<and> sql_eq (se_UserID s) user_id) (lgr_Now input)) (\<lambda>_.
     insertAccountSession scan input userID)))"

subsection \<open>Linking and logging in\<close>

definition is_unique_violation :: "auth_error \<Rightarrow> bool" where
  "is_unique_violation err = (case err of UniqueViolation _ \<Rightarrow> True | _ \<Rightarrow> False)"

definition link_identity :: "(string \<Rightarrow> string option) \<Rightarrow> UpgradeRecord \<Rightarrow> string option auth_tx" where
  "link_identity scan input =
     tx_bind (fetch_auth (find_google_identity (gid_Subject (lgr_Identity input)))) (\<lambda>linked.
     case linked of
       None \<Rightarrow>
         tx_bind (auth_uuid scan (upr_IdentityID input)) (\<lambda>identity_id.
         tx_bind (auth_uuid scan (upr_CurrentUserID input)) (\<lambda>user_id.
         tx_bind (tx_map_error (\<lambda>err. if is_unique_violation err then ErrGoogleIdentityLinked else err)
           (insert_google_identity
              \<lparr>id_ID = identity_id, id_UserID = user_id, id_Provider = ''google'',
               id_ProviderSubject = gid_Subject (lgr_Identity input),
               id_EmailAtLink = gid_Email (lgr_Identity input),
               id_EmailVerifiedAtLink = gid_EmailVerified (lgr_Identity input),
               id_CreatedAt = stored_at (lgr_Now input)\<rparr>)) (\<lambda>_.
         tx_return (verifiedGoogleEmail (lgr_Identity input)))))
     | Some row \<Rightarrow>
         tx_bind (tx_lift (accountGoogleIdentity row)) (\<lambda>(linkedUserID, linkedEmail).
         if linkedUserID \<noteq> upr_CurrentUserID input then tx_fail ErrGoogleIdentityLinked
         else tx_return linkedEmail))"

definition store_UpgradeGoogle :: "(string \<Rightarrow> string option) \<Rightarrow> UpgradeRecord \<Rightarrow> AuthResult auth_tx" where
  "store_UpgradeGoogle scan input =
     tx_bind (lockUser scan (upr_CurrentUserID input)) (\<lambda>_.
     tx_bind (link_identity scan input) (\<lambda>email.
     tx_bind (auth_uuid scan (upr_CurrentUserID input)) (\<lambda>user_id.
     tx_bind (delete_bootstraps (\<lambda>b. sql_eq (abr_UserID b) user_id)) (\<lambda>_.
     tx_bind (rotateSession scan input (upr_CurrentUserID input)) (\<lambda>_.
     tx_return \<lparr>aur_result_UserID = upr_CurrentUserID input, aur_result_GoogleEmail = email\<rparr>)))))"

definition store_LoginGoogle :: "(string \<Rightarrow> string option) \<Rightarrow> LoginRecord \<Rightarrow> AuthResult auth_tx" where
  "store_LoginGoogle scan input =
     tx_bind (fetch_auth (find_google_identity (gid_Subject (lgr_Identity input)))) (\<lambda>linked.
     case linked of
       None \<Rightarrow> tx_fail ErrGoogleAccountNotLinked
     | Some row \<Rightarrow>
         tx_bind (tx_lift (accountGoogleIdentity row)) (\<lambda>(targetUserID, googleEmail).
         tx_bind (lockUser scan targetUserID) (\<lambda>_.
         tx_bind (auth_uuid scan (lgr_CurrentSessionID input)) (\<lambda>session_id.
         tx_bind (revoke_session (\<lambda>s. sql_eq (se_ID s) session_id) (lgr_Now input)) (\<lambda>_.
         tx_bind (insertAccountSession scan input targetUserID) (\<lambda>_.
         tx_return \<lparr>aur_result_UserID = targetUserID, aur_result_GoogleEmail = googleEmail\<rparr>))))))"

subsection \<open>Deleting an account\<close>

record exposureRow =
  exr_id :: string
  exr_month :: gotime
  exr_reservation :: string

record accountMonthlyExposure =
  ame_month :: gotime
  ame_reservedToRelease :: string
  ame_unattributedToAdd :: string

definition accountExposureDate :: "pgTimestamptz \<Rightarrow> gotime option" where
  "accountExposureDate value =
     (if \<not> tz_Valid value \<or> tz_InfinityModifier value \<noteq> Finite then None
      else Some (truncate_time day_length (utc (tz_Time value))))"

definition accountDateParam :: "gotime \<Rightarrow> pgTimestamptz" where
  "accountDateParam value =
     \<lparr>tz_Time = truncate_time day_length (utc value), tz_InfinityModifier = Finite, tz_Valid = True\<rparr>"

text \<open>The running generations of a User, and its usage events whose provider usage is not final.\<close>

definition account_generation :: "pgUUID \<Rightarrow> GenerationRow \<Rightarrow> bool" where
  "account_generation user_id g \<longleftrightarrow> sql_eq (ge_UserID g) user_id \<and> ge_Status g = ''running''"

definition unfinalized_usage :: "pgUUID \<Rightarrow> UsageRow \<Rightarrow> bool" where
  "unfinalized_usage user_id u \<longleftrightarrow>
     sql_eq (us_UserID u) user_id \<and> \<not> tz_Valid (us_ProviderUsageFinalizedAt u)"

definition has_running_generation :: "Database \<Rightarrow> UsageRow \<Rightarrow> bool" where
  "has_running_generation d u \<longleftrightarrow>
     list_ex (\<lambda>g. sql_eq (ge_ID g) (us_OperationID u) \<and> account_generation (us_UserID u) g) (db_ai_generations d)"

definition generation_exposure :: "GenerationRow \<Rightarrow> auth_error + exposureRow" where
  "generation_exposure g =
     (case accountExposureDate (ge_BudgetMonthUtc g) of
        None \<Rightarrow> Inl (AccountInvariant ''account delete generation exposure mapping invariant failed'')
      | Some month \<Rightarrow>
          if uuidString (ge_ID g) = []
          then Inl (AccountInvariant ''account delete generation exposure mapping invariant failed'')
          else Inr \<lparr>exr_id = uuidString (ge_ID g), exr_month = month,
                    exr_reservation = numeric_text (ge_BudgetReservedCostUSD g)\<rparr>)"

text \<open>A row of the query: a NULL amount does not scan into its string.\<close>

record usageExposureRow =
  uer_OperationID :: pgUUID
  uer_SettlementBudgetMonthUtc :: pgTimestamptz
  uer_SettlementReservationCostUsd :: string

definition usage_exposure_row :: "UsageRow \<Rightarrow> auth_error + usageExposureRow" where
  "usage_exposure_row u =
     (case us_SettlementReservationCostUSD u of
        None \<Rightarrow> Inl (SystemFailure ''cannot scan NULL into *string'')
      | Some reservation \<Rightarrow> Inr \<lparr>uer_OperationID = us_OperationID u,
          uer_SettlementBudgetMonthUtc = us_SettlementBudgetMonthUtc u,
          uer_SettlementReservationCostUsd = numeric_text reservation\<rparr>)"

definition usage_exposure :: "usageExposureRow \<Rightarrow> auth_error + exposureRow" where
  "usage_exposure row =
     (case accountExposureDate (uer_SettlementBudgetMonthUtc row) of
        None \<Rightarrow> Inl (AccountInvariant ''account delete usage exposure mapping invariant failed'')
      | Some month \<Rightarrow>
          if uuidString (uer_OperationID row) = []
          then Inl (AccountInvariant ''account delete usage exposure mapping invariant failed'')
          else Inr \<lparr>exr_id = uuidString (uer_OperationID row), exr_month = month,
                    exr_reservation = uer_SettlementReservationCostUsd row\<rparr>)"

fun exposure_rows :: "('r \<Rightarrow> auth_error + 'a) \<Rightarrow> 'r list \<Rightarrow> auth_error + 'a list" where
  "exposure_rows f [] = Inr []"
| "exposure_rows f (row # rows) = rbind (f row) (\<lambda>x. rbind (exposure_rows f rows) (\<lambda>xs. Inr (x # xs)))"

text \<open>
  The usage events of running generations must agree with them; the others are released.  The map
  of generations keeps the last one of an identifier.
\<close>

fun released_exposures :: "exposureRow list \<Rightarrow> usageExposureRow list \<Rightarrow> auth_error + exposureRow list" where
  "released_exposures generations [] = Inr []"
| "released_exposures generations (row # rows) =
     rbind (usage_exposure row) (\<lambda>u.
     case map_of (rev (map (\<lambda>g. (exr_id g, g)) generations)) (exr_id u) of
       None \<Rightarrow> rbind (released_exposures generations rows) (\<lambda>released. Inr (u # released))
     | Some g \<Rightarrow>
         if \<not> time_equal (exr_month g) (exr_month u) \<or> exr_reservation g \<noteq> exr_reservation u
         then Inl (AccountInvariant ''account delete running AI settlement exposure invariant failed'')
         else released_exposures generations rows)"

text \<open>\<open>ListAccountMonthlyExposures\<close>: per month, what is reserved and what becomes unattributed.\<close>

definition month_exposures :: "pgUUID \<Rightarrow> Database \<Rightarrow> (int \<times> rat \<times> rat) list" where
  "month_exposures user_id d =
     map (\<lambda>g. (nanos (tz_Time (ge_BudgetMonthUtc g)), ge_BudgetReservedCostUSD g, ge_BudgetReservedCostUSD g))
       (filter (account_generation user_id) (db_ai_generations d)) @
     map (\<lambda>u. (nanos (tz_Time (us_SettlementBudgetMonthUtc u)), 0,
                case us_SettlementReservationCostUSD u of None \<Rightarrow> 0 | Some amount \<Rightarrow> amount))
       (filter (\<lambda>u. unfinalized_usage user_id u \<and> \<not> has_running_generation d u) (db_ai_usage_events d))"

definition list_monthly_exposures :: "pgUUID \<Rightarrow> Database \<Rightarrow> accountMonthlyExposure list" where
  "list_monthly_exposures user_id d =
     (let exposures = month_exposures user_id d in
      map (\<lambda>month. let rows = filter (\<lambda>(m, _). m = month) exposures in
             \<lparr>ame_month = \<lparr>nanos = month, loc = UTC\<rparr>,
              ame_reservedToRelease = numeric_text (sum_list (map (\<lambda>(_, reserved, _). reserved) rows)),
              ame_unattributedToAdd = numeric_text (sum_list (map (\<lambda>(_, _, unattributed). unattributed) rows))\<rparr>)
        (sort (remdups (map fst exposures))))"

fun sumUnattributedCost :: "accountMonthlyExposure list \<Rightarrow> auth_error + rat" where
  "sumUnattributedCost [] = Inr 0"
| "sumUnattributedCost (exposure # exposures) =
     (case rat_SetString (ame_unattributedToAdd exposure) of
        None \<Rightarrow> Inl (AccountInvariant ''account delete unattributed cost mapping invariant failed'')
      | Some cost \<Rightarrow>
          if cost < 0 then Inl (AccountInvariant ''account delete unattributed cost mapping invariant failed'')
          else rbind (sumUnattributedCost exposures) (\<lambda>total. Inr (cost + total)))"

definition one_row_or :: "string \<Rightarrow> i64 auth_tx \<Rightarrow> unit auth_tx" where
  "one_row_or failure statement =
     tx_bind statement (\<lambda>rows. if rows \<noteq> 1 then tx_fail (AccountInvariant failure) else tx_return ())"

fun each_row :: "('r \<Rightarrow> unit auth_tx) \<Rightarrow> 'r list \<Rightarrow> unit auth_tx" where
  "each_row f [] = tx_return ()"
| "each_row f (row # rows) = tx_bind (f row) (\<lambda>_. each_row f rows)"

definition ReleaseAccountGenerationReservationCAS ::
  "(string \<Rightarrow> string option) \<Rightarrow> pgUUID \<Rightarrow> exposureRow \<Rightarrow> i64 auth_tx" where
  "ReleaseAccountGenerationReservationCAS scan user_id g =
     tx_bind (auth_uuid scan (exr_id g)) (\<lambda>generation_id.
     tx_bind (tx_map_error AdapterFailure (numeric_param (exr_reservation g))) (\<lambda>reservation.
     tx_map_error AdapterFailure (update_generations
       (\<lambda>r. account_generation user_id r \<and> sql_eq (ge_ID r) generation_id \<and>
            tz_eq (ge_BudgetMonthUtc r) (accountDateParam (exr_month g)) \<and> ge_BudgetReservedCostUSD r = reservation)
       (ge_BudgetReservedCostUSD_update (\<lambda>_. 0)))))"

definition MoveAccountExposureToUnattributedCAS ::
  "gotime \<Rightarrow> accountMonthlyExposure \<Rightarrow> i64 auth_tx" where
  "MoveAccountExposureToUnattributedCAS now exposure =
     tx_bind (tx_map_error AdapterFailure (numeric_param (ame_reservedToRelease exposure))) (\<lambda>release.
     tx_bind (tx_map_error AdapterFailure (numeric_param (ame_unattributedToAdd exposure))) (\<lambda>add.
     tx_map_error AdapterFailure (update_budget
       (\<lambda>b. tz_eq (bu_MonthUtc b) (accountDateParam (ame_month exposure)) \<and> bu_ReservedCostUSD b \<ge> release)
       (\<lambda>b. b\<lparr>bu_ReservedCostUSD := numeric_8 (bu_ReservedCostUSD b - release),
             bu_UnattributedCostUSD := numeric_8 (bu_UnattributedCostUSD b + add),
             bu_UpdatedAt := stored_at now\<rparr>))))"

definition DeleteReleasedAccountUsageExposureCAS ::
  "(string \<Rightarrow> string option) \<Rightarrow> pgUUID \<Rightarrow> exposureRow \<Rightarrow> i64 auth_tx" where
  "DeleteReleasedAccountUsageExposureCAS scan user_id usage =
     tx_bind (auth_uuid scan (exr_id usage)) (\<lambda>operation_id.
     tx_bind (tx_map_error AdapterFailure (numeric_param (exr_reservation usage))) (\<lambda>reservation d.
       let selected = (\<lambda>u. unfinalized_usage user_id u \<and> sql_eq (us_OperationID u) operation_id \<and>
             tz_eq (us_SettlementBudgetMonthUtc u) (accountDateParam (exr_month usage)) \<and>
             us_SettlementReservationCostUSD u = Some reservation \<and> \<not> has_running_generation d u) in
       Inr (of_nat (length (filter selected (db_ai_usage_events d))),
            d\<lparr>db_ai_usage_events := filter (\<lambda>u. \<not> selected u) (db_ai_usage_events d)\<rparr>)))"

text \<open>The rows that go with a User.\<close>

definition deleted_goal :: "Database \<Rightarrow> pgUUID \<Rightarrow> pgUUID \<Rightarrow> pgUUID \<Rightarrow> bool" where
  "deleted_goal d user_id owner goal_id \<longleftrightarrow>
     sql_eq owner user_id \<and> list_ex (\<lambda>g. sql_eq (gr_UserID g) user_id \<and> sql_eq (gr_ID g) goal_id) (db_goals d)"

definition delete_user_rows :: "pgUUID \<Rightarrow> Database \<Rightarrow> Database" where
  "delete_user_rows user_id d =
     (let goal_row = (\<lambda>owner goal_id. deleted_goal d user_id owner goal_id);
          version_row = (\<lambda>v. goal_row (sv_UserID v) (sv_GoalID v));
          cycle_row = (\<lambda>c. goal_row (pc_UserID c) (pc_GoalID c));
          draft_row = (\<lambda>r. sql_eq (sd_UserID r) user_id)
      in d\<lparr>db_users := filter (\<lambda>u. \<not> sql_eq (ur_ID u) user_id) (db_users d),
          db_sessions := filter (\<lambda>s. \<not> sql_eq (se_UserID s) user_id) (db_sessions d),
          db_anonymous_bootstraps := filter (\<lambda>b. \<not> sql_eq (abr_UserID b) user_id) (db_anonymous_bootstraps d),
          db_auth_identities := filter (\<lambda>i. \<not> sql_eq (id_UserID i) user_id) (db_auth_identities d),
          db_goals := filter (\<lambda>g. \<not> sql_eq (gr_UserID g) user_id) (db_goals d),
          db_goal_versions := filter (\<lambda>v. \<not> version_row v) (db_goal_versions d),
          db_goal_version_success_signals := filter (\<lambda>(version_id, _).
            \<not> list_ex (\<lambda>v. version_row v \<and> sql_eq (sv_ID v) version_id) (db_goal_versions d))
            (db_goal_version_success_signals d),
          db_pdca_cycles := filter (\<lambda>c. \<not> cycle_row c) (db_pdca_cycles d),
          db_pdca_cycle_review_schedules := filter (\<lambda>s.
            \<not> list_ex (\<lambda>c. cycle_row c \<and> sql_eq (pc_ID c) (sch_CycleID s)) (db_pdca_cycles d))
            (db_pdca_cycle_review_schedules d),
          db_goal_drafts := filter (\<lambda>r. \<not> draft_row r) (db_goal_drafts d),
          db_goal_draft_success_signals := filter (\<lambda>(draft_id, _).
            \<not> list_ex (\<lambda>r. draft_row r \<and> sql_eq (sd_ID r) draft_id) (db_goal_drafts d))
            (db_goal_draft_success_signals d),
          db_ai_generations := filter (\<lambda>g. \<not> sql_eq (ge_UserID g) user_id) (db_ai_generations d),
          db_ai_usage_events := map (\<lambda>u. if goal_row user_id (us_GoalID u) then u\<lparr>us_GoalID := None\<rparr> else u)
            (filter (\<lambda>u. \<not> sql_eq (us_UserID u) user_id) (db_ai_usage_events d)),
          db_goal_delete_receipts := filter (\<lambda>r. \<not> sql_eq (gdrow_UserID r) user_id) (db_goal_delete_receipts d)\<rparr>)"

definition DeleteAccountUserCAS :: "pgUUID \<Rightarrow> i64 auth_tx" where
  "DeleteAccountUserCAS user_id d =
     Inr (of_nat (length (filter (\<lambda>u. sql_eq (ur_ID u) user_id) (db_users d))), delete_user_rows user_id d)"

definition settle_deleted_exposure ::
  "(string \<Rightarrow> string option) \<Rightarrow> pgUUID \<Rightarrow> gotime \<Rightarrow> exposureRow list \<Rightarrow> exposureRow list \<Rightarrow>
   accountMonthlyExposure list \<Rightarrow> rat auth_tx" where
  "settle_deleted_exposure scan user_id now generations released monthly =
     tx_bind (each_row (\<lambda>g. one_row_or ''account delete generation reservation invariant failed''
       (ReleaseAccountGenerationReservationCAS scan user_id g)) generations) (\<lambda>_.
     tx_bind (tx_lift (sumUnattributedCost monthly)) (\<lambda>cost.
     tx_bind (each_row (\<lambda>m. one_row_or ''account delete budget settlement exposure invariant failed''
       (MoveAccountExposureToUnattributedCAS now m)) monthly) (\<lambda>_.
     tx_bind (each_row (\<lambda>u. one_row_or ''account delete released AI usage exposure invariant failed''
       (DeleteReleasedAccountUsageExposureCAS scan user_id u)) released) (\<lambda>_.
     tx_return cost))))"

text \<open>
  The queries order the rows by their identifier; the order only decides which of several errors is
  reported, and is the order of the table here.
\<close>

definition store_DeleteAccount ::
  "(string \<Rightarrow> string option) \<Rightarrow> string \<Rightarrow> gotime \<Rightarrow> DeleteResult auth_tx" where
  "store_DeleteAccount scan userID now =
     tx_bind (lockUser scan userID) (\<lambda>_.
     tx_bind (auth_uuid scan userID) (\<lambda>user_id.
     tx_bind (fetch_auth (\<lambda>d. filter (account_generation user_id) (db_ai_generations d))) (\<lambda>generationRows.
     tx_bind (tx_lift (exposure_rows generation_exposure generationRows)) (\<lambda>generations.
     tx_bind (fetch_auth (\<lambda>d. filter (unfinalized_usage user_id) (db_ai_usage_events d))) (\<lambda>usageRows.
     tx_bind (tx_lift (rbind (exposure_rows usage_exposure_row usageRows) (released_exposures generations))) (\<lambda>released.
     tx_bind (fetch_auth (list_monthly_exposures user_id)) (\<lambda>monthly.
     tx_bind (settle_deleted_exposure scan user_id now generations released monthly) (\<lambda>cost.
     tx_bind (DeleteAccountUserCAS user_id) (\<lambda>rows.
     if rows \<noteq> 1 then tx_fail ErrNoRows
     else tx_return \<lparr>der_UnattributedCostUSD = cost,
            der_SettlementOperationCount = of_nat (length generations + length released)\<rparr>)))))))))"

definition store_AccountRepository :: "(string \<Rightarrow> string option) \<Rightarrow> Database AccountRepository" where
  "store_AccountRepository scan =
     \<lparr>acr_UpgradeGoogle = store_UpgradeGoogle scan, acr_LoginGoogle = store_LoginGoogle scan,
      acr_DeleteAccount = store_DeleteAccount scan\<rparr>"

end
