(* ===== verification/AuthLaws.thy ===== *)
theory AuthLaws
  imports AccountStore
begin

section \<open>Laws of the session and account statements\<close>

text \<open>
  What each statement of \<open>SessionStore\<close> and \<open>AccountStore\<close> does to the tables of the sessions, as
  equivalences the simplifier applies to a successful run, and the invariant of these tables: their
  unique keys, their references to users, and sessions whose idle expiry is within the absolute one.
\<close>

subsection \<open>Successful runs\<close>

lemma fetch_auth_Inr [simp]: "fetch_auth f d = Inr (x, t) \<longleftrightarrow> x = f d \<and> t = d"
  by (auto simp: fetch_auth_def)

lemma auth_uuid_Inr [simp]: "auth_uuid scan v d = Inr (x, t) \<longleftrightarrow> x \<noteq> None \<and> x = scan v \<and> t = d"
  by (cases "scan v") (auto simp: auth_uuid_def)

lemma lockUser_Inr [simp]:
  "lockUser scan userID d = Inr (x, t) \<longleftrightarrow>
     scan userID \<noteq> None \<and> scan userID \<in> ur_ID ` set (db_users d) \<and> t = d"
  by (auto simp: lockUser_def find_None_iff sql_eq_def image_iff; metis)

lemma update_sessions_Inr [simp]:
  "update_sessions selected change d = Inr (n, t) \<longleftrightarrow>
     n = of_nat (length (filter selected (db_sessions d))) \<and>
     t = d\<lparr>db_sessions := map (\<lambda>s. if selected s then change s else s) (db_sessions d)\<rparr>"
  by (auto simp: update_sessions_def update_rows_def)

lemma insert_session_row_Inr [simp]:
  "insert_session_row row d = Inr (x, t) \<longleftrightarrow>
     (\<forall>s\<in>set (db_sessions d). \<not> sql_eq (se_ID s) (se_ID row) \<and> se_TokenHash s \<noteq> se_TokenHash row) \<and>
     t = d\<lparr>db_sessions := db_sessions d @ [row]\<rparr>"
  by (auto simp: insert_session_row_def list_ex_iff)

lemma insert_user_Inr [simp]:
  "insert_user user_id now d = Inr (x, t) \<longleftrightarrow>
     (\<forall>u\<in>set (db_users d). \<not> sql_eq (ur_ID u) user_id) \<and>
     t = d\<lparr>db_users := db_users d @ [\<lparr>ur_ID = user_id, ur_LastActiveAt = stored_at now,
            ur_CreatedAt = stored_at now, ur_UpdatedAt = stored_at now\<rparr>]\<rparr>"
  by (auto simp: insert_user_def list_ex_iff)

lemma insert_bootstrap_Inr [simp]:
  "insert_bootstrap keyHash user_id expiresAt now d = Inr (x, t) \<longleftrightarrow>
     (\<forall>b\<in>set (db_anonymous_bootstraps d). abr_KeyHash b \<noteq> keyHash \<and> \<not> sql_eq (abr_UserID b) user_id) \<and>
     t = d\<lparr>db_anonymous_bootstraps := db_anonymous_bootstraps d @
        [\<lparr>abr_KeyHash = keyHash, abr_UserID = user_id, abr_ExpiresAt = stored_at expiresAt,
          abr_CreatedAt = stored_at now\<rparr>]\<rparr>"
  by (auto simp: insert_bootstrap_def list_ex_iff)

lemma delete_bootstraps_Inr [simp]:
  "delete_bootstraps selected d = Inr (x, t) \<longleftrightarrow>
     t = d\<lparr>db_anonymous_bootstraps := filter (\<lambda>b. \<not> selected b) (db_anonymous_bootstraps d)\<rparr>"
  by (auto simp: delete_bootstraps_def)

lemma insert_google_identity_Inr [simp]:
  "insert_google_identity row d = Inr (x, t) \<longleftrightarrow>
     (\<forall>i\<in>set (db_auth_identities d). \<not> sql_eq (id_ID i) (id_ID row) \<and>
        \<not> (id_Provider i = id_Provider row \<and> id_ProviderSubject i = id_ProviderSubject row) \<and>
        \<not> (sql_eq (id_UserID i) (id_UserID row) \<and> id_Provider i = id_Provider row)) \<and>
     t = d\<lparr>db_auth_identities := db_auth_identities d @ [row]\<rparr>"
  by (auto simp: insert_google_identity_def list_ex_iff)

lemma bootstrap_state_Inr [simp]:
  "sessionAnonymousBootstrapState userID expiresAt = Inr (u, e) \<longleftrightarrow>
     u = userID \<and> sessionFiniteTimestamptz expiresAt = Some e \<and> uuidString userID \<noteq> []"
  by (auto simp: sessionAnonymousBootstrapState_def split: option.splits)

lemma uuidString_Some: "uuidString user_id \<noteq> [] \<Longrightarrow> user_id = Some (uuidString user_id)"
  by (cases user_id) (auto simp: uuidString_def)

subsection \<open>The invariant\<close>

definition session_ok :: "SessionRow \<Rightarrow> bool" where
  "session_ok s \<longleftrightarrow> se_ID s \<noteq> None \<and> tz_le (se_IdleExpiresAt s) (se_AbsoluteExpiresAt s) \<and>
     tz_le (se_CreatedAt s) (se_LastSeenAt s)"

definition auth_invariant :: "Database \<Rightarrow> bool" where
  "auth_invariant d \<longleftrightarrow>
     distinct (map se_ID (db_sessions d)) \<and> distinct (map se_TokenHash (db_sessions d)) \<and>
     distinct (map ur_ID (db_users d)) \<and>
     distinct (map abr_KeyHash (db_anonymous_bootstraps d)) \<and>
     distinct (map abr_UserID (db_anonymous_bootstraps d)) \<and>
     distinct (map (\<lambda>i. (id_Provider i, id_ProviderSubject i)) (db_auth_identities d)) \<and>
     distinct (map (\<lambda>i. (id_Provider i, id_UserID i)) (db_auth_identities d)) \<and>
     (\<forall>s\<in>set (db_sessions d). session_ok s) \<and>
     se_UserID ` set (db_sessions d) \<subseteq> ur_ID ` set (db_users d) \<and>
     abr_UserID ` set (db_anonymous_bootstraps d) \<subseteq> ur_ID ` set (db_users d) \<and>
     id_UserID ` set (db_auth_identities d) \<subseteq> ur_ID ` set (db_users d) \<and>
     (\<forall>u\<in>set (db_users d). ur_ID u \<noteq> None)"

lemma tz_le_refl: "tz_Valid a \<Longrightarrow> tz_le a a"
  by (simp add: tz_le_def)

lemma stored_at_valid [simp]: "tz_Valid (stored_at t)"
  by (simp add: stored_at_def stored_time_def timestamptz_def)

lemma stored_at_mono: "nanos t \<le> nanos u \<Longrightarrow> tz_le (stored_at t) (stored_at u)"
  by (simp add: tz_le_def stored_at_def stored_time_def timestamptz_def truncate_time_def utc_def
      microsecond_def minus_mod_eq_mult_div zdiv_mono1)

lemma touched_session_ok: "session_ok s \<Longrightarrow> session_ok (touched_session now idle s)"
  by (auto simp: session_ok_def touched_session_def tz_least_def tz_greatest_def tz_le_def tz_less_def)

lemma touched_session_same [simp]:
  "se_ID (touched_session now idle s) = se_ID s" "se_TokenHash (touched_session now idle s) = se_TokenHash s"
  "se_UserID (touched_session now idle s) = se_UserID s" "se_RevokedAt (touched_session now idle s) = se_RevokedAt s"
  "se_AbsoluteExpiresAt (touched_session now idle s) = se_AbsoluteExpiresAt s"
  by (simp_all add: touched_session_def)

text \<open>An update that keeps the keys of the sessions and their well-formedness keeps the invariant.\<close>

lemma auth_invariant_sessions:
  assumes "auth_invariant d"
    and "\<And>s. s \<in> set (db_sessions d) \<Longrightarrow> se_ID (f s) = se_ID s \<and> se_TokenHash (f s) = se_TokenHash s \<and>
           se_UserID (f s) = se_UserID s \<and> (session_ok s \<longrightarrow> session_ok (f s))"
  shows "auth_invariant (d\<lparr>db_sessions := map f (db_sessions d)\<rparr>)"
proof -
  have ids: "map se_ID (map f (db_sessions d)) = map se_ID (db_sessions d)"
    and hashes: "map se_TokenHash (map f (db_sessions d)) = map se_TokenHash (db_sessions d)"
    and owners: "se_UserID ` set (map f (db_sessions d)) = se_UserID ` set (db_sessions d)"
    using assms(2) by (auto simp: image_iff)
  have "\<forall>s\<in>set (map f (db_sessions d)). session_ok s"
    using assms by (auto simp: auth_invariant_def)
  then show ?thesis using assms(1)
    by (simp add: auth_invariant_def ids hashes owners del: map_map set_map)
qed

lemma auth_invariant_insert_session:
  assumes "auth_invariant d" "se_UserID row \<in> ur_ID ` set (db_users d)" "session_ok row"
    and "\<forall>s\<in>set (db_sessions d). \<not> sql_eq (se_ID s) (se_ID row) \<and> se_TokenHash s \<noteq> se_TokenHash row"
  shows "auth_invariant (d\<lparr>db_sessions := db_sessions d @ [row]\<rparr>)"
  using assms by (auto simp: auth_invariant_def session_ok_def sql_eq_def)

lemma auth_invariant_insert_user:
  assumes "auth_invariant d" "ur_ID row \<noteq> None" "\<forall>u\<in>set (db_users d). \<not> sql_eq (ur_ID u) (ur_ID row)"
  shows "auth_invariant (d\<lparr>db_users := db_users d @ [row]\<rparr>)"
  using assms by (auto simp: auth_invariant_def sql_eq_def)

lemma auth_invariant_insert_bootstrap:
  assumes "auth_invariant d" "abr_UserID row \<in> ur_ID ` set (db_users d)"
    and "\<forall>b\<in>set (db_anonymous_bootstraps d). abr_KeyHash b \<noteq> abr_KeyHash row \<and> \<not> sql_eq (abr_UserID b) (abr_UserID row)"
  shows "auth_invariant (d\<lparr>db_anonymous_bootstraps := db_anonymous_bootstraps d @ [row]\<rparr>)"
proof -
  obtain u where "abr_UserID row = Some u" using assms(1,2) by (auto simp: auth_invariant_def)
  then show ?thesis using assms by (auto simp: auth_invariant_def)
qed

lemma auth_invariant_delete_bootstraps:
  "auth_invariant d \<Longrightarrow>
   auth_invariant (d\<lparr>db_anonymous_bootstraps := filter P (db_anonymous_bootstraps d)\<rparr>)"
  by (auto simp: auth_invariant_def distinct_map_filter)

lemma auth_invariant_insert_identity:
  assumes "auth_invariant d" "id_UserID row \<in> ur_ID ` set (db_users d)"
    and "\<forall>i\<in>set (db_auth_identities d). \<not> (id_Provider i = id_Provider row \<and> id_ProviderSubject i = id_ProviderSubject row) \<and>
           \<not> (sql_eq (id_UserID i) (id_UserID row) \<and> id_Provider i = id_Provider row)"
  shows "auth_invariant (d\<lparr>db_auth_identities := db_auth_identities d @ [row]\<rparr>)"
proof -
  obtain u where "id_UserID row = Some u" using assms(1,2) by (auto simp: auth_invariant_def)
  then show ?thesis using assms by (auto simp: auth_invariant_def)
qed

lemma image_filter_subset:
  "f ` A \<subseteq> g ` B \<Longrightarrow> f ` {x \<in> A. P (f x)} \<subseteq> g ` {y \<in> B. P (g y)}"
  by force

lemma auth_invariant_delete_user:
  assumes "auth_invariant d"
  shows "auth_invariant (delete_user_rows user_id d)"
  using assms unfolding auth_invariant_def delete_user_rows_def Let_def
  by (simp add: distinct_map_filter; intro conjI image_filter_subset; simp)

lemma auth_invariant_cong:
  assumes "db_users d' = db_users d" "db_sessions d' = db_sessions d"
    "db_anonymous_bootstraps d' = db_anonymous_bootstraps d" "db_auth_identities d' = db_auth_identities d"
  shows "auth_invariant d' = auth_invariant d"
  by (simp add: auth_invariant_def assms)

subsection \<open>How the tables evolve\<close>

text \<open>
  A session row stems from a row of the same session, user, token and absolute expiry, still
  revoked if that one was, or is new under one of \<open>ids\<close>; a bootstrap likewise stems from a row of
  the same key and user or is new for one of \<open>ids\<close>.
\<close>

definition session_stems :: "SessionRow \<Rightarrow> SessionRow \<Rightarrow> bool" where
  "session_stems s s' \<longleftrightarrow> se_ID s' = se_ID s \<and> se_UserID s' = se_UserID s \<and> se_TokenHash s' = se_TokenHash s \<and>
     se_AbsoluteExpiresAt s' = se_AbsoluteExpiresAt s \<and> (tz_Valid (se_RevokedAt s) \<longrightarrow> tz_Valid (se_RevokedAt s'))"

definition auth_evolves :: "pgUUID set \<Rightarrow> Database \<Rightarrow> Database \<Rightarrow> bool" where
  "auth_evolves ids d d' \<longleftrightarrow>
     (\<forall>s'\<in>set (db_sessions d'). se_ID s' \<in> ids \<or> (\<exists>s\<in>set (db_sessions d). session_stems s s')) \<and>
     (\<forall>b'\<in>set (db_anonymous_bootstraps d'). abr_UserID b' \<in> ids \<or>
        (\<exists>b\<in>set (db_anonymous_bootstraps d). abr_UserID b = abr_UserID b' \<and> abr_KeyHash b = abr_KeyHash b'))"

definition auth_transition :: "pgUUID set \<Rightarrow> Database \<Rightarrow> Database \<Rightarrow> bool" where
  "auth_transition ids d d' \<longleftrightarrow> (auth_invariant d \<longrightarrow> auth_invariant d') \<and> auth_evolves ids d d'"

lemma session_stems_refl [simp]: "session_stems s s"
  by (simp add: session_stems_def)

lemma auth_evolves_grow:
  assumes "set (db_sessions d') \<subseteq> set (db_sessions d) \<union> {s. se_ID s \<in> ids}"
    and "set (db_anonymous_bootstraps d') \<subseteq> set (db_anonymous_bootstraps d) \<union> {b. abr_UserID b \<in> ids}"
  shows "auth_evolves ids d d'"
  unfolding auth_evolves_def using assms session_stems_refl by fastforce

lemma auth_evolves_refl: "auth_evolves ids d d"
  by (rule auth_evolves_grow) auto

lemma session_stems_trans: "session_stems a b \<Longrightarrow> session_stems b c \<Longrightarrow> session_stems a c"
  by (simp add: session_stems_def)

lemma auth_evolves_trans:
  assumes "auth_evolves A d d'" "auth_evolves B d' d''"
  shows "auth_evolves (A \<union> B) d d''"
proof (unfold auth_evolves_def, intro conjI ballI)
  fix s'' assume "s'' \<in> set (db_sessions d'')"
  then consider "se_ID s'' \<in> B" | s' where "s' \<in> set (db_sessions d')" "session_stems s' s''"
    using assms(2) by (auto simp: auth_evolves_def)
  then show "se_ID s'' \<in> A \<union> B \<or> (\<exists>s\<in>set (db_sessions d). session_stems s s'')"
  proof cases
    case 2
    then consider "se_ID s' \<in> A" | s where "s \<in> set (db_sessions d)" "session_stems s s'"
      using assms(1) by (auto simp: auth_evolves_def)
    then show ?thesis using 2(2) session_stems_trans by cases (auto simp: session_stems_def)
  qed simp
next
  fix b'' assume "b'' \<in> set (db_anonymous_bootstraps d'')"
  then consider "abr_UserID b'' \<in> B"
    | b' where "b' \<in> set (db_anonymous_bootstraps d')" "abr_UserID b' = abr_UserID b''" "abr_KeyHash b' = abr_KeyHash b''"
    using assms(2) by (auto simp: auth_evolves_def)
  then show "abr_UserID b'' \<in> A \<union> B \<or>
      (\<exists>b\<in>set (db_anonymous_bootstraps d). abr_UserID b = abr_UserID b'' \<and> abr_KeyHash b = abr_KeyHash b'')"
  proof cases
    case 2
    then show ?thesis using assms(1) by (fastforce simp: auth_evolves_def)
  qed simp
qed

lemma auth_evolves_mono: "auth_evolves A d d' \<Longrightarrow> A \<subseteq> B \<Longrightarrow> auth_evolves B d d'"
  by (fastforce simp: auth_evolves_def)

lemma auth_transition_refl: "auth_transition ids d d"
  by (simp add: auth_transition_def auth_evolves_refl)

lemma auth_transition_trans:
  "auth_transition A d d' \<Longrightarrow> auth_transition B d' d'' \<Longrightarrow> auth_transition (A \<union> B) d d''"
  using auth_evolves_trans by (auto simp: auth_transition_def)

lemma auth_transition_step:
  "auth_transition ids d d' \<Longrightarrow> auth_transition ids d' d'' \<Longrightarrow> auth_transition ids d d''"
  using auth_transition_trans[of ids d d' ids d''] by simp

lemma auth_transition_mono: "auth_transition A d d' \<Longrightarrow> A \<subseteq> B \<Longrightarrow> auth_transition B d d'"
  using auth_evolves_mono by (auto simp: auth_transition_def)

subsection \<open>The statements evolve the tables\<close>

lemma transition_map_sessions:
  assumes "\<And>s. session_stems s (f s) \<and> (session_ok s \<longrightarrow> session_ok (f s))"
  shows "auth_transition ids d (d\<lparr>db_sessions := map f (db_sessions d)\<rparr>)"
  using assms auth_invariant_sessions[of d f]
  by (auto simp: auth_transition_def auth_evolves_def session_stems_def)

lemma transition_update_sessions:
  assumes "update_sessions selected change d = Inr (n, d')"
    and "\<And>s. session_stems s (change s) \<and> (session_ok s \<longrightarrow> session_ok (change s))"
  shows "auth_transition ids d d'"
  using assms transition_map_sessions[of "\<lambda>s. if selected s then change s else s" ids d] by simp

lemma transition_insert_session:
  assumes "insert_session scan sessionID user_id tokenHash csrfHash now idle absolute d = Inr (x, d')"
    and "auth_invariant d \<Longrightarrow> user_id \<in> ur_ID ` set (db_users d)" "nanos idle \<le> nanos absolute" "scan sessionID \<in> ids"
  shows "auth_transition ids d d'"
  using assms stored_at_mono[of idle absolute] tz_le_refl[of "stored_at now"]
  by (auto simp: insert_session_def auth_transition_def session_ok_def
      intro!: auth_invariant_insert_session auth_evolves_grow)

lemma transition_insert_user:
  assumes "insert_user user_id now d = Inr (x, d')" "user_id \<noteq> None"
  shows "auth_transition ids d d'"
  using assms by (auto simp: auth_transition_def intro!: auth_invariant_insert_user auth_evolves_grow)

lemma transition_insert_bootstrap:
  assumes "insert_bootstrap keyHash user_id expires now d = Inr (x, d')"
    and "user_id \<in> ur_ID ` set (db_users d)" "user_id \<in> ids"
  shows "auth_transition ids d d'"
  using assms by (auto simp: auth_transition_def intro!: auth_invariant_insert_bootstrap auth_evolves_grow)

lemma transition_delete_bootstraps:
  "delete_bootstraps selected d = Inr (x, d') \<Longrightarrow> auth_transition ids d d'"
  by (auto simp: auth_transition_def auth_invariant_delete_bootstraps intro!: auth_evolves_grow)

lemma transition_insert_identity:
  assumes "insert_google_identity row d = Inr (x, d')" "id_UserID row \<in> ur_ID ` set (db_users d)"
  shows "auth_transition ids d d'"
  using assms by (auto simp: auth_transition_def intro!: auth_invariant_insert_identity auth_evolves_grow)

lemma transition_delete_user: "auth_transition ids d (delete_user_rows user_id d)"
proof -
  have "auth_evolves ids d (delete_user_rows user_id d)"
    by (rule auth_evolves_grow) (auto simp: delete_user_rows_def Let_def)
  then show ?thesis by (simp add: auth_transition_def auth_invariant_delete_user)
qed

lemma transition_same:
  assumes "db_users d' = db_users d" "db_sessions d' = db_sessions d"
    "db_anonymous_bootstraps d' = db_anonymous_bootstraps d" "db_auth_identities d' = db_auth_identities d"
  shows "auth_transition ids d d'"
  using auth_invariant_cong[OF assms] by (simp add: auth_transition_def auth_evolves_grow assms)

end
