(* ===== verification/AuthRuns.thy ===== *)
theory AuthRuns
  imports AuthLaws
begin

section \<open>Runs of the session and account operations\<close>

text \<open>
  The operations of \<open>Sessions\<close> on the adapters of \<open>SessionStore\<close> and \<open>AccountStore\<close>, as a step relation
  on the database, and what holds of every run: the invariant of the tables of the sessions, and that
  a session once revoked or expired, and a bootstrap once given up, never comes back.
\<close>

subsection \<open>The transactions\<close>

lemma create_anonymous_user_transition:
  assumes run: "create_anonymous_user scan input d = Inr (r, d')"
    and expiry: "nanos (car_IdleExpiresAt input) \<le> nanos (car_AbsoluteExpiresAt input)"
    and ids: "scan (car_UserID input) \<in> ids" "scan (car_SessionID input) \<in> ids"
  shows "auth_transition ids d d'"
proof -
  obtain d1 d2 where user: "scan (car_UserID input) \<noteq> None"
      "insert_user (scan (car_UserID input)) (car_Now input) d = Inr ((), d1)"
    and session: "insertSession scan input (scan (car_UserID input)) d1 = Inr ((), d2)"
    and bootstrap: "insert_bootstrap (car_BootstrapKeyHash input) (scan (car_UserID input))
      (car_BootstrapExpires input) (car_Now input) d2 = Inr ((), d')"
    using run by (auto simp: create_anonymous_user_def simp del: insert_user_Inr insert_bootstrap_Inr)
  have known: "scan (car_UserID input) \<in> ur_ID ` set (db_users d1)" using user by auto
  then have known2: "scan (car_UserID input) \<in> ur_ID ` set (db_users d2)"
    using session by (auto simp: insertSession_def insert_session_def)
  have "auth_transition ids d d1" by (rule transition_insert_user[OF user(2,1)])
  moreover have "auth_transition ids d1 d2"
    by (rule transition_insert_session[OF session[unfolded insertSession_def] known expiry ids(2)])
  moreover have "auth_transition ids d2 d'" by (rule transition_insert_bootstrap[OF bootstrap known2 ids(1)])
  ultimately show ?thesis using auth_transition_step by blast
qed

lemma resume_or_replace_transition:
  assumes run: "resume_or_replace scan input located d = Inr (r, d')"
    and expiry: "nanos (car_IdleExpiresAt input) \<le> nanos (car_AbsoluteExpiresAt input)"
    and ids: "scan (car_UserID input) \<in> ids" "scan (car_SessionID input) \<in> ids"
  shows "auth_transition ids d d'"
proof -
  obtain b where b: "b \<in> set (db_anonymous_bootstraps d)"
    and "insertSession scan input (abr_UserID b) d = Inr ((), d') \<or>
      (\<exists>d1. delete_bootstraps (\<lambda>b. abr_KeyHash b = car_BootstrapKeyHash input) d = Inr ((), d1) \<and>
         create_anonymous_user scan input d1 = Inr (r, d'))"
    using run by (auto simp: resume_or_replace_def find_Some_iff split: if_splits option.splits
        simp del: delete_bootstraps_Inr dest: nth_mem)
  then consider "insertSession scan input (abr_UserID b) d = Inr ((), d')"
    | d1 where "delete_bootstraps (\<lambda>b. abr_KeyHash b = car_BootstrapKeyHash input) d = Inr ((), d1)"
        "create_anonymous_user scan input d1 = Inr (r, d')"
    by blast
  then show ?thesis
  proof cases
    case 1
    have "auth_invariant d \<Longrightarrow> abr_UserID b \<in> ur_ID ` set (db_users d)"
      using b by (auto simp: auth_invariant_def)
    then show ?thesis using transition_insert_session[OF 1[unfolded insertSession_def] _ expiry ids(2)] by blast
  next
    case 2
    show ?thesis
      by (rule auth_transition_step[OF transition_delete_bootstraps[OF 2(1)]
            create_anonymous_user_transition[OF 2(2) expiry ids]])
  qed
qed

lemma CreateOrResumeAnonymous_transition:
  assumes run: "store_CreateOrResumeAnonymous scan (\<lambda>d. d) (\<lambda>d. d) input d = Inr (r, d')"
    and expiry: "nanos (car_IdleExpiresAt input) \<le> nanos (car_AbsoluteExpiresAt input)"
    and ids: "scan (car_UserID input) \<in> ids" "scan (car_SessionID input) \<in> ids"
  shows "auth_transition ids d d'"
proof -
  have "createOrResumeAnonymousOnce scan (\<lambda>d. d) input d = Inr (r, d')"
    using run by (auto simp: store_CreateOrResumeAnonymous_def split: sum.splits if_splits)
  then show ?thesis
    using create_anonymous_user_transition[OF _ expiry ids] resume_or_replace_transition[OF _ expiry ids]
    by (auto simp: createOrResumeAnonymousOnce_def split: option.splits)
qed

lemma ConvergeCSRF_transition:
  assumes "store_ConvergeCSRF scan sessionID hash now d = Inr (r, d')"
  shows "auth_transition ids d d'"
proof -
  have "\<exists>f. d' = d\<lparr>db_sessions := map f (db_sessions d)\<rparr> \<and>
    (\<forall>s. session_stems s (f s) \<and> (session_ok s \<longrightarrow> session_ok (f s)))"
    using assms by (auto simp: store_ConvergeCSRF_def session_stems_def session_ok_def split: if_splits
        intro!: exI[where x = "\<lambda>s. if sql_eq (se_ID s) (scan sessionID) \<and> live_session (stored_at now) s
          then s\<lparr>se_CsrfTokenHash := hash\<rparr> else s"])
  then show ?thesis using transition_map_sessions by blast
qed

lemma transition_users_kept:
  assumes "auth_transition ids d d1" "db_sessions d' = db_sessions d1"
    "db_anonymous_bootstraps d' = db_anonymous_bootstraps d1" "db_auth_identities d' = db_auth_identities d1"
    "map ur_ID (db_users d') = map ur_ID (db_users d1)"
  shows "auth_transition ids d d'"
proof -
  have ids: "ur_ID ` set (db_users d') = ur_ID ` set (db_users d1)"
    using arg_cong[OF assms(5), of set] by simp
  have some: "(\<forall>u\<in>set (db_users x). ur_ID u \<noteq> None) \<longleftrightarrow> None \<notin> ur_ID ` set (db_users x)" for x
    by force
  have "auth_invariant d' \<longleftrightarrow> auth_invariant d1"
    by (simp only: auth_invariant_def some ids assms(2-5))
  then show ?thesis using assms(1-4) by (simp add: auth_transition_def auth_evolves_def)
qed

lemma Touch_transition:
  assumes "store_Touch scan sessionID now idle d = Inr (r, d')"
  shows "auth_transition ids d d'"
proof -
  let ?touch = "\<lambda>s. if sql_eq (se_ID s) (scan sessionID) \<and> \<not> tz_Valid (se_RevokedAt s)
    then touched_session now idle s else s"
  have touched: "auth_transition ids d (d\<lparr>db_sessions := map ?touch (db_sessions d)\<rparr>)"
    by (rule transition_map_sessions) (auto simp: session_stems_def touched_session_ok)
  consider "d' = d"
    | "db_sessions d' = map ?touch (db_sessions d)" "db_anonymous_bootstraps d' = db_anonymous_bootstraps d"
      "db_auth_identities d' = db_auth_identities d" "map ur_ID (db_users d') = map ur_ID (db_users d)"
    using assms by (auto simp: store_Touch_def Let_def split: option.splits)
  then show ?thesis
  proof cases
    case 2
    then show ?thesis by (intro transition_users_kept[OF touched]) simp_all
  qed (simp add: auth_transition_refl)
qed

lemma revoke_session_transition:
  assumes "revoke_session selected now d = Inr (r, d')"
  shows "auth_transition ids d d'" "db_users d' = db_users d"
proof -
  obtain n where "update_sessions (\<lambda>s. selected s \<and> \<not> tz_Valid (se_RevokedAt s))
      (se_RevokedAt_update (\<lambda>_. stored_at now)) d = Inr (n, d')"
    using assms by (auto simp: revoke_session_def split: if_splits simp del: update_sessions_Inr)
  then show "auth_transition ids d d'"
    by (rule transition_update_sessions) (auto simp: session_stems_def session_ok_def)
  show "db_users d' = db_users d" using assms by (auto simp: revoke_session_def split: if_splits)
qed

lemma insertAccountSession_transition:
  assumes run: "insertAccountSession scan input userID d = Inr (r, d')"
    and "scan userID \<in> ur_ID ` set (db_users d)"
    and "nanos (lgr_IdleExpiresAt input) \<le> nanos (lgr_AbsoluteExpiresAt input)"
    and "scan (lgr_NewSessionID input) \<in> ids"
  shows "auth_transition ids d d'"
proof -
  have "insert_session scan (lgr_NewSessionID input) (scan userID) (lgr_SessionTokenHash input)
      (lgr_CSRFTokenHash input) (lgr_Now input) (lgr_IdleExpiresAt input) (lgr_AbsoluteExpiresAt input) d = Inr ((), d')"
    using run by (auto simp: insertAccountSession_def)
  then show ?thesis by (rule transition_insert_session) (use assms in auto)
qed

lemma link_identity_transition:
  assumes "link_identity scan input d = Inr (email, d')" "scan (upr_CurrentUserID input) \<in> ur_ID ` set (db_users d)"
  shows "auth_transition ids d d'" "db_users d' = db_users d"
proof -
  have "auth_transition ids d d' \<and> db_users d' = db_users d"
  proof (cases "find_google_identity (gid_Subject (lgr_Identity input)) d")
    case None
    then have "insert_google_identity
        \<lparr>id_ID = scan (upr_IdentityID input), id_UserID = scan (upr_CurrentUserID input), id_Provider = ''google'',
         id_ProviderSubject = gid_Subject (lgr_Identity input), id_EmailAtLink = gid_Email (lgr_Identity input),
         id_EmailVerifiedAtLink = gid_EmailVerified (lgr_Identity input), id_CreatedAt = stored_at (lgr_Now input)\<rparr>
        d = Inr ((), d')" (is "?insert d = _")
      using assms(1) by (auto simp: link_identity_def simp del: insert_google_identity_Inr)
    moreover from this have "db_users d' = db_users d" by simp
    ultimately show ?thesis using transition_insert_identity assms(2) by fastforce
  next
    case (Some row)
    then have "d' = d" using assms(1) by (auto simp: link_identity_def split: if_splits)
    then show ?thesis by (simp add: auth_transition_refl)
  qed
  then show "auth_transition ids d d'" "db_users d' = db_users d" by simp_all
qed

lemma UpgradeGoogle_transition:
  assumes run: "store_UpgradeGoogle scan input d = Inr (r, d')"
    and expiry: "nanos (lgr_IdleExpiresAt input) \<le> nanos (lgr_AbsoluteExpiresAt input)"
    and ids: "scan (lgr_NewSessionID input) \<in> ids"
  shows "auth_transition ids d d'" "\<forall>b\<in>set (db_anonymous_bootstraps d'). abr_UserID b \<noteq> scan (upr_CurrentUserID input)"
proof -
  let ?user = "scan (upr_CurrentUserID input)"
  obtain email d1 d2 d3 where user: "?user \<noteq> None" "?user \<in> ur_ID ` set (db_users d)"
    and link: "link_identity scan input d = Inr (email, d1)"
    and bootstraps: "delete_bootstraps (\<lambda>b. sql_eq (abr_UserID b) ?user) d1 = Inr ((), d2)"
    and revoke: "revoke_session (\<lambda>s. sql_eq (se_ID s) (scan (lgr_CurrentSessionID input)) \<and>
        sql_eq (se_UserID s) ?user) (lgr_Now input) d2 = Inr ((), d3)"
    and session: "insertAccountSession scan input (upr_CurrentUserID input) d3 = Inr ((), d')"
    using run by (auto simp: store_UpgradeGoogle_def rotateSession_def simp del: delete_bootstraps_Inr)
  have users: "?user \<in> ur_ID ` set (db_users d3)"
    using user link_identity_transition(2)[OF link user(2)] bootstraps revoke_session_transition(2)[OF revoke] by simp
  have "auth_transition ids d d1" by (rule link_identity_transition[OF link user(2)])
  moreover have "auth_transition ids d1 d2" by (rule transition_delete_bootstraps[OF bootstraps])
  moreover have "auth_transition ids d2 d3" by (rule revoke_session_transition[OF revoke])
  moreover have "auth_transition ids d3 d'" by (rule insertAccountSession_transition[OF session users expiry ids])
  ultimately show "auth_transition ids d d'" using auth_transition_step by blast
  have "db_anonymous_bootstraps d' = db_anonymous_bootstraps d2"
    using session revoke by (auto simp: insertAccountSession_def insert_session_def revoke_session_def split: if_splits)
  then show "\<forall>b\<in>set (db_anonymous_bootstraps d'). abr_UserID b \<noteq> ?user"
    using bootstraps user(1) by (auto simp: sql_eq_def)
qed

lemma LoginGoogle_transition:
  assumes run: "store_LoginGoogle scan input d = Inr (r, d')"
    and expiry: "nanos (lgr_IdleExpiresAt input) \<le> nanos (lgr_AbsoluteExpiresAt input)"
    and ids: "scan (lgr_NewSessionID input) \<in> ids"
  shows "auth_transition ids d d'"
proof -
  obtain user d1 where user: "scan user \<in> ur_ID ` set (db_users d)"
    and revoke: "revoke_session (\<lambda>s. sql_eq (se_ID s) (scan (lgr_CurrentSessionID input))) (lgr_Now input) d = Inr ((), d1)"
    and session: "insertAccountSession scan input user d1 = Inr ((), d')"
    using run by (auto simp: store_LoginGoogle_def split: option.splits prod.splits)
  have "scan user \<in> ur_ID ` set (db_users d1)" using user revoke_session_transition(2)[OF revoke] by simp
  then show ?thesis
    using auth_transition_step[OF revoke_session_transition(1)[OF revoke]
        insertAccountSession_transition[OF session _ expiry ids]] by blast
qed

text \<open>Settling the exposure of a deleted account does not touch the tables of the sessions.\<close>

definition auth_tables ::
  "Database \<Rightarrow> UserRow list \<times> SessionRow list \<times> AnonymousBootstrapRow list \<times> AuthIdentityRow list" where
  "auth_tables d = (db_users d, db_sessions d, db_anonymous_bootstraps d, db_auth_identities d)"

lemma keeps_auth_statements [keeps_intros]:
  "keeps f (fetch_auth g)" "keeps f (auth_uuid scan v)" "keeps f (numeric_param a)" "keeps f (lockUser scan v)"
  "keeps auth_tables (update_generations P h)" "keeps auth_tables (update_budget Q k)"
  by (auto simp: keeps_def auth_tables_def update_generations_def update_budget_def numeric_param_def Let_def
      split: prod.splits option.splits)

lemma keeps_each_row [keeps_intros]: "(\<And>x. keeps f (g x)) \<Longrightarrow> keeps f (each_row g xs)"
  by (induction xs) (auto intro: keeps_intros)

lemma keeps_one_row [keeps_intros]: "keeps f m \<Longrightarrow> keeps f (one_row_or failure m)"
  unfolding one_row_or_def by (intro keeps_intros)

lemma settle_deleted_exposure_keeps:
  "keeps auth_tables (settle_deleted_exposure scan user_id now generations released monthly)"
proof -
  have delete: "keeps auth_tables (DeleteReleasedAccountUsageExposureCAS scan user_id u)" for u
    unfolding DeleteReleasedAccountUsageExposureCAS_def
    by (intro keeps_intros) (auto simp: keeps_def auth_tables_def Let_def)
  show ?thesis
    unfolding settle_deleted_exposure_def ReleaseAccountGenerationReservationCAS_def
      MoveAccountExposureToUnattributedCAS_def
    by (intro keeps_intros delete)
qed

lemma DeleteAccount_transition:
  assumes "store_DeleteAccount scan userID now d = Inr (r, d')"
  shows "auth_transition ids d d'"
proof -
  obtain generations released monthly cost d1
    where settle: "settle_deleted_exposure scan (scan userID) now generations released monthly d = Inr (cost, d1)"
      and delete: "d' = delete_user_rows (scan userID) d1"
    using assms by (auto simp: store_DeleteAccount_def DeleteAccountUserCAS_def split: if_splits)
  have "auth_tables d1 = auth_tables d" by (rule keepsD[OF settle_deleted_exposure_keeps settle])
  then have "auth_transition ids d d1" by (intro transition_same) (simp_all add: auth_tables_def)
  then show ?thesis unfolding delete by (rule auth_transition_step[OF _ transition_delete_user])
qed

subsection \<open>The operations of the services\<close>

text \<open>\<open>offered\<close>: the identifiers the generator answered an operation with.\<close>

definition offered :: "(string \<Rightarrow> string option) \<Rightarrow> (auth_error + string) list \<Rightarrow> pgUUID set" where
  "offered scan answers = {scan v | v. Inr v \<in> set answers}"

definition settings_ok :: "SessionSettings \<Rightarrow> bool" where
  "settings_ok settings \<longleftrightarrow> ses_IdleTTL settings \<le> ses_AbsoluteTTL settings"

inductive auth_step ::
  "(string \<Rightarrow> string option) \<Rightarrow> (string \<Rightarrow> string \<Rightarrow> string) \<Rightarrow> SessionSettings \<Rightarrow> pgUUID set \<Rightarrow> Database \<Rightarrow>
   Database \<Rightarrow> bool" for scan hmac settings where
  create: "CreateAnonymous (store_SessionRepository scan) hmac settings abuse newUserID newSessionID newToken now
     input d = (r, d') \<Longrightarrow> auth_step scan hmac settings (offered scan [newUserID, newSessionID]) d d'"
| authenticate: "Authenticate (store_SessionRepository scan) hmac settings now token d = (r, d') \<Longrightarrow>
     auth_step scan hmac settings {} d d'"
| refresh: "Refresh (store_SessionRepository scan) hmac settings now1 now2 token d = (r, d') \<Longrightarrow>
     auth_step scan hmac settings {} d d'"
| upgrade: "uc_UpgradeGoogle (store_AccountRepository scan) hmac settings verify newIdentityID newSessionID newToken
     now currentUserID currentSessionID idToken d = (r, d') \<Longrightarrow>
     auth_step scan hmac settings (offered scan [newSessionID]) d d'"
| login: "uc_LoginGoogle (store_AccountRepository scan) hmac settings verify newSessionID newToken now
     currentSessionID idToken d = (r, d') \<Longrightarrow>
     auth_step scan hmac settings (offered scan [newSessionID]) d d'"
| delete: "uc_DeleteAccount (store_AccountRepository scan) now userID confirmed d = (r, d') \<Longrightarrow>
     auth_step scan hmac settings {} d d'"
| workspace: "auth_tables d' = auth_tables d \<Longrightarrow> auth_step scan hmac settings {} d d'"

inductive auth_run ::
  "(string \<Rightarrow> string option) \<Rightarrow> (string \<Rightarrow> string \<Rightarrow> string) \<Rightarrow> SessionSettings \<Rightarrow> pgUUID set \<Rightarrow> Database \<Rightarrow>
   Database \<Rightarrow> bool" for scan hmac settings where
  start: "auth_run scan hmac settings {} d d"
| step: "auth_run scan hmac settings A d d' \<Longrightarrow> auth_step scan hmac settings B d' d'' \<Longrightarrow>
     auth_run scan hmac settings (A \<union> B) d d''"

lemma nanos_time_add: "a \<le> b \<Longrightarrow> nanos (time_add t a) \<le> nanos (time_add t b)"
  by (simp add: time_add_def)

lemma CreateAnonymous_transition:
  assumes "CreateAnonymous (store_SessionRepository scan) hmac settings abuse newUserID newSessionID newToken now
     input d = (r, d')" "settings_ok settings"
  shows "auth_transition (offered scan [newUserID, newSessionID]) d d'"
proof -
  have "d' = d \<or> (\<exists>userID sessionID entry result. newUserID = Inr userID \<and> newSessionID = Inr sessionID \<and>
      car_UserID entry = userID \<and> car_SessionID entry = sessionID \<and>
      nanos (car_IdleExpiresAt entry) \<le> nanos (car_AbsoluteExpiresAt entry) \<and>
      store_CreateOrResumeAnonymous scan (\<lambda>d. d) (\<lambda>d. d) entry d = Inr (result, d'))"
    using assms by (fastforce simp: CreateAnonymous_def store_SessionRepository_def settings_ok_def Let_def
        nanos_time_add split: if_splits option.splits sum.splits prod.splits)
  then show ?thesis
  proof (elim disjE exE conjE)
    fix userID sessionID entry result
    assume "newUserID = Inr userID" "newSessionID = Inr sessionID" "car_UserID entry = userID"
      "car_SessionID entry = sessionID" "nanos (car_IdleExpiresAt entry) \<le> nanos (car_AbsoluteExpiresAt entry)"
      "store_CreateOrResumeAnonymous scan (\<lambda>d. d) (\<lambda>d. d) entry d = Inr (result, d')"
    then show ?thesis by (intro CreateOrResumeAnonymous_transition) (auto simp: offered_def)
  qed (simp add: auth_transition_refl)
qed

lemma Authenticate_transition:
  assumes "Authenticate (store_SessionRepository scan) hmac settings now token d = (r, d')"
  shows "auth_transition ids d d'"
proof -
  have found: "store_FindByTokenHash hash moment d = Inr (x, t) \<Longrightarrow> t = d" for hash moment x t
    by (auto simp: store_FindByTokenHash_def split: option.splits if_splits prod.splits)
  have "d' = d \<or> (\<exists>session_id moment idle x. store_Touch scan session_id moment idle d = Inr (x, d'))"
    using assms by (auto simp: Authenticate_def store_SessionRepository_def Let_def commit_or_rollback_def
        split: if_splits sum.splits prod.splits dest!: found)
  then show ?thesis using Touch_transition auth_transition_refl by blast
qed

lemma Refresh_transition:
  assumes "Refresh (store_SessionRepository scan) hmac settings now1 now2 token d = (r, d')"
  shows "auth_transition ids d d'"
proof -
  obtain a d1 where authenticate: "Authenticate (store_SessionRepository scan) hmac settings now1 token d = (a, d1)"
    by fastforce
  have "d' = d1 \<or> (\<exists>session_id hash moment x. store_ConvergeCSRF scan session_id hash moment d1 = Inr (x, d'))"
    using assms authenticate by (auto simp: Refresh_def RefreshAuthenticated_def store_SessionRepository_def
        split: sum.splits prod.splits)
  then have "auth_transition ids d1 d'" using ConvergeCSRF_transition auth_transition_refl by blast
  then show ?thesis by (rule auth_transition_step[OF Authenticate_transition[OF authenticate]])
qed

lemma createSession_Inr:
  assumes "createSession hmac settings newSessionID newToken now operation d = Inr (view, d')" "settings_ok settings"
  obtains material r where "newSessionID = Inr (sm_id material)" "operation material d = Inr (r, d')"
    "nanos (sm_idleExpiresAt material) \<le> nanos (sm_absoluteExpiresAt material)"
    "aur_result_UserID r = acv_UserID view"
proof -
  from assms(1) obtain sessionID token csrf r where "newSessionID = Inr sessionID"
    and "operation \<lparr>sm_id = sessionID, sm_token = token, sm_csrf = csrf,
        sm_tokenHash = hmac (ses_SessionHashKey settings) token, sm_csrfHash = hmac (ses_CSRFHashKey settings) csrf,
        sm_now = utc now, sm_idleExpiresAt = time_add (utc now) (ses_IdleTTL settings),
        sm_absoluteExpiresAt = time_add (utc now) (ses_AbsoluteTTL settings)\<rparr> d = Inr (r, d')"
    and "aur_result_UserID r = acv_UserID view"
    by (auto simp: createSession_def Let_def)
  then show thesis using assms(2) by (intro that) (auto simp: settings_ok_def nanos_time_add)
qed

lemma uc_UpgradeGoogle_committed:
  assumes "uc_UpgradeGoogle (store_AccountRepository scan) hmac settings verify newIdentityID newSessionID newToken
     now currentUserID currentSessionID idToken d = (Inr view, d')" "settings_ok settings"
  obtains input r where "store_UpgradeGoogle scan input d = Inr (r, d')" "newSessionID = Inr (lgr_NewSessionID input)"
    "upr_CurrentUserID input = currentUserID" "nanos (lgr_IdleExpiresAt input) \<le> nanos (lgr_AbsoluteExpiresAt input)"
proof -
  from assms(1) obtain identityID identity where "createSession hmac settings newSessionID newToken now
      (\<lambda>session. store_UpgradeGoogle scan (upgrade_record currentUserID currentSessionID identityID identity session)) d
      = Inr (view, d')"
    by (auto simp: uc_UpgradeGoogle_def store_AccountRepository_def commit_or_rollback_def
        split: sum.splits prod.splits)
  then show thesis
  proof (rule createSession_Inr[OF _ assms(2)])
    fix material :: sessionMaterial and r
    assume id: "newSessionID = Inr (sm_id material)"
      and run: "store_UpgradeGoogle scan (upgrade_record currentUserID currentSessionID identityID identity material) d
        = Inr (r, d')"
      and expiry: "nanos (sm_idleExpiresAt material) \<le> nanos (sm_absoluteExpiresAt material)"
    show thesis by (rule that[OF run]) (use id expiry in \<open>simp_all add: upgrade_record_def\<close>)
  qed
qed

lemma uc_UpgradeGoogle_failed:
  assumes "uc_UpgradeGoogle repository hmac settings verify newIdentityID newSessionID newToken
     now currentUserID currentSessionID idToken d = (Inl err, d')"
  shows "d' = d"
  using assms by (auto simp: uc_UpgradeGoogle_def commit_or_rollback_def split: sum.splits prod.splits)

lemma uc_LoginGoogle_transition:
  assumes "uc_LoginGoogle (store_AccountRepository scan) hmac settings verify newSessionID newToken now
     currentSessionID idToken d = (r, d')" "settings_ok settings"
  shows "auth_transition (offered scan [newSessionID]) d d'"
proof -
  have "d' = d \<or> (\<exists>identity view. createSession hmac settings newSessionID newToken now
      (\<lambda>session. store_LoginGoogle scan (login_record currentSessionID identity session)) d = Inr (view, d'))"
    using assms(1) by (auto simp: uc_LoginGoogle_def store_AccountRepository_def commit_or_rollback_def
        split: sum.splits prod.splits)
  then show ?thesis
  proof (elim disjE exE)
    fix identity view
    assume run: "createSession hmac settings newSessionID newToken now
      (\<lambda>session. store_LoginGoogle scan (login_record currentSessionID identity session)) d = Inr (view, d')"
    show ?thesis
    proof (rule createSession_Inr[OF run assms(2)])
      fix material :: sessionMaterial and r
      assume id: "newSessionID = Inr (sm_id material)"
        and run: "store_LoginGoogle scan (login_record currentSessionID identity material) d = Inr (r, d')"
        and expiry: "nanos (sm_idleExpiresAt material) \<le> nanos (sm_absoluteExpiresAt material)"
      show ?thesis
        by (rule LoginGoogle_transition[OF run]) (use id expiry in \<open>auto simp: offered_def login_record_def\<close>)
    qed
  qed (simp add: auth_transition_refl)
qed

lemma uc_DeleteAccount_transition:
  assumes "uc_DeleteAccount (store_AccountRepository scan) now userID confirmed d = (r, d')"
  shows "auth_transition ids d d'"
proof -
  have "d' = d \<or> (\<exists>x. store_DeleteAccount scan userID (utc now) d = Inr (x, d'))"
    using assms by (auto simp: uc_DeleteAccount_def store_AccountRepository_def commit_or_rollback_def
        split: if_splits sum.splits prod.splits)
  then show ?thesis using DeleteAccount_transition auth_transition_refl by blast
qed

lemma auth_step_transition:
  "auth_step scan hmac settings ids d d' \<Longrightarrow> settings_ok settings \<Longrightarrow> auth_transition ids d d'"
proof (induction rule: auth_step.induct)
  case (upgrade verify newIdentityID newSessionID newToken now currentUserID currentSessionID idToken d r d')
  show ?case
  proof (cases r)
    case (Inl err)
    then show ?thesis using uc_UpgradeGoogle_failed upgrade.hyps auth_transition_refl by metis
  next
    case (Inr view)
    show ?thesis
      by (rule uc_UpgradeGoogle_committed[OF upgrade.hyps[unfolded Inr] upgrade.prems])
         (auto simp: offered_def intro: UpgradeGoogle_transition(1))
  qed
next
  case (workspace d' d)
  then show ?case by (intro transition_same) (simp_all add: auth_tables_def)
qed (auto intro: CreateAnonymous_transition Authenticate_transition Refresh_transition uc_LoginGoogle_transition
      uc_DeleteAccount_transition)

lemma auth_run_transition:
  "auth_run scan hmac settings ids d d' \<Longrightarrow> settings_ok settings \<Longrightarrow> auth_transition ids d d'"
  by (induction rule: auth_run.induct)
     (auto intro: auth_transition_refl auth_transition_trans auth_step_transition)

end
