(* ===== verification/SessionContract.thy ===== *)
theory SessionContract
  imports AuthRuns
begin

section \<open>The contract of the session repository\<close>

text \<open>
  What the session service relies on for its CSRF protection: the repository keeps one verifier per
  session, a lookup returns the stored one, and \<open>ConvergeCSRF\<close> replaces it.  The service's lemmas
  are proved from that, and the PostgreSQL adapter is an instance.
\<close>

locale session_repository =
  fixes repository :: "'s SessionRepository"
    and inv :: "'s \<Rightarrow> bool"
    and verifier :: "'s \<Rightarrow> string \<Rightarrow> string option"
  assumes find_law: "inv s \<Longrightarrow> sr_FindByTokenHash repository hash now s = Inr (session, t) \<Longrightarrow>
      t = s \<and> verifier s (asn_ID session) = Some (asn_CSRFTokenHash session)"
    and converge_law: "inv s \<Longrightarrow> sr_ConvergeCSRF repository sessionID hash now s = Inr (u, t) \<Longrightarrow>
      inv t \<and> verifier t sessionID = Some hash"
begin

lemma Authenticate_verifier:
  assumes "inv s" "Authenticate repository hmac settings now token s = (Inr session, t)"
  shows "verifier s (asn_ID session) = Some (asn_CSRFTokenHash session)"
  using assms find_law by (auto simp: Authenticate_def Let_def split: if_splits sum.splits prod.splits)

lemma RefreshAuthenticated_converges:
  assumes "inv s" "RefreshAuthenticated repository hmac settings now session token s = (Inr view, t)"
  shows "inv t" "csrf_Derive hmac (ses_CSRFHashKey settings) (asn_ID session) = Inr (sv_view_CSRFToken view)"
    "verifier t (asn_ID session) = Some (hmac (ses_CSRFHashKey settings) (sv_view_CSRFToken view))"
  using assms converge_law by (auto simp: RefreshAuthenticated_def split: sum.splits prod.splits)

lemma VerifyCSRF_after_refresh:
  assumes "inv s" "RefreshAuthenticated repository hmac settings now1 session sessionToken s = (Inr view, t)"
    and "Authenticate repository hmac settings now2 sessionToken2 t = (Inr session2, u)"
    and "asn_ID session2 = asn_ID session"
  shows "VerifyCSRF hmac settings session2 token = None \<longleftrightarrow>
    csrf_IsValid token \<and> (token = sv_view_CSRFToken view \<or>
      hmac (ses_CSRFHashKey settings) token = hmac (ses_CSRFHashKey settings) (sv_view_CSRFToken view))"
proof -
  note refreshed = RefreshAuthenticated_converges[OF assms(1,2)]
  have "asn_CSRFTokenHash session2 = hmac (ses_CSRFHashKey settings) (sv_view_CSRFToken view)"
    using Authenticate_verifier[OF refreshed(1) assms(3)] refreshed(3) assms(4) by simp
  then show ?thesis using refreshed(2) assms(4) by (auto simp: VerifyCSRF_def csrfTokenMatches_def)
qed

end

text \<open>The adapter: the stored identifiers are the canonical ones, which \<open>scan\<close> reads back.\<close>

definition canonical_sessions :: "(string \<Rightarrow> string option) \<Rightarrow> Database \<Rightarrow> bool" where
  "canonical_sessions scan d \<longleftrightarrow> auth_invariant d \<and>
     (\<forall>s\<in>set (db_sessions d). scan (uuidString (se_ID s)) = se_ID s)"

definition stored_verifier :: "(string \<Rightarrow> string option) \<Rightarrow> Database \<Rightarrow> string \<Rightarrow> string option" where
  "stored_verifier scan d sessionID =
     map_option se_CsrfTokenHash (find (\<lambda>s. sql_eq (se_ID s) (scan sessionID)) (db_sessions d))"

lemma unique_session_found:
  assumes "auth_invariant d" "s \<in> set (db_sessions d)" "sql_eq (se_ID s) session_id"
  shows "find (\<lambda>s. sql_eq (se_ID s) session_id) (db_sessions d) = Some s"
proof -
  have inj: "inj_on se_ID (set (db_sessions d))" using assms(1) by (simp add: auth_invariant_def distinct_map)
  have "find (\<lambda>s. sql_eq (se_ID s) session_id) (db_sessions d) \<noteq> None"
    using assms(2,3) by (auto simp: find_None_iff)
  then obtain s' where found: "find (\<lambda>s. sql_eq (se_ID s) session_id) (db_sessions d) = Some s'" by auto
  then have s': "s' \<in> set (db_sessions d)" "sql_eq (se_ID s') session_id"
    by (auto simp: find_Some_iff)
  have "se_ID s' = se_ID s" using s'(2) assms(3) by (simp add: sql_eq_def)
  then have "s' = s" by (rule inj_onD[OF inj _ s'(1) assms(2)])
  then show ?thesis using found by simp
qed

lemma FindByTokenHash_verifier:
  assumes "canonical_sessions scan d" "store_FindByTokenHash hash now d = Inr (session, t)"
  shows "t = d \<and> stored_verifier scan d (asn_ID session) = Some (asn_CSRFTokenHash session)"
proof -
  obtain s where s: "s \<in> set (db_sessions d)" "asn_ID session = uuidString (se_ID s)"
      "asn_CSRFTokenHash session = se_CsrfTokenHash s" "t = d"
    using assms(2) by (auto simp: store_FindByTokenHash_def find_Some_iff split: option.splits if_splits prod.splits
        dest: nth_mem)
  moreover have "sql_eq (se_ID s) (scan (asn_ID session))"
    using s assms(1) by (auto simp: canonical_sessions_def auth_invariant_def session_ok_def sql_eq_def)
  ultimately show ?thesis
    using unique_session_found[of d s] assms(1) by (simp add: stored_verifier_def canonical_sessions_def)
qed

lemma ConvergeCSRF_verifier:
  assumes "canonical_sessions scan d" "store_ConvergeCSRF scan sessionID hash now d = Inr (u, t)"
  shows "canonical_sessions scan t \<and> stored_verifier scan t sessionID = Some hash"
proof -
  let ?selected = "\<lambda>s. sql_eq (se_ID s) (scan sessionID) \<and> live_session (stored_at now) s"
  let ?change = "\<lambda>s. if ?selected s then s\<lparr>se_CsrfTokenHash := hash\<rparr> else s"
  have n: "of_nat (length (filter ?selected (db_sessions d))) = (1 :: i64)"
    and t: "t = d\<lparr>db_sessions := map ?change (db_sessions d)\<rparr>"
    using assms(2) by (auto simp: store_ConvergeCSRF_def split: if_splits)
  have inv: "auth_invariant t"
    using ConvergeCSRF_transition[OF assms(2)] assms(1) by (simp add: auth_transition_def canonical_sessions_def)
  have canonical: "\<forall>s\<in>set (db_sessions t). scan (uuidString (se_ID s)) = se_ID s"
    using assms(1) by (auto simp: t canonical_sessions_def)
  have "filter ?selected (db_sessions d) \<noteq> []" using n by auto
  then obtain s where s: "s \<in> set (db_sessions d)" "?selected s"
    by (auto simp: filter_empty_conv)
  then have "?change s \<in> set (db_sessions t)" by (auto simp: t)
  with s(2) have "find (\<lambda>s. sql_eq (se_ID s) (scan sessionID)) (db_sessions t) = Some (?change s)"
    by (intro unique_session_found[OF inv]) auto
  then show ?thesis using inv canonical s(2) by (simp add: canonical_sessions_def stored_verifier_def)
qed

interpretation session_store: session_repository "store_SessionRepository scan" "canonical_sessions scan"
  "stored_verifier scan" for scan
  by unfold_locales
     (simp_all only: store_SessionRepository_def SessionRepository.simps FindByTokenHash_verifier
        ConvergeCSRF_verifier simp_thms)

end
