(* ===== verification/AuthProperties.thy ===== *)
theory AuthProperties
  imports SessionContract CycleStoreRuns
begin

section \<open>Properties of the sessions and accounts\<close>

text \<open>
  The properties of the session and account services on their PostgreSQL adapters: the invariant of
  every run, the end of revoked and expired sessions, the end of a bootstrap when its User links an
  identity, the race of two bootstraps, and the CSRF tokens a refresh hands out.
\<close>

definition session_dead :: "Database \<Rightarrow> string \<Rightarrow> gotime \<Rightarrow> bool" where
  "session_dead d sessionID now \<longleftrightarrow>
     (\<forall>s\<in>set (db_sessions d). se_ID s = Some sessionID \<longrightarrow>
        tz_Valid (se_RevokedAt s) \<or> \<not> tz_less (stored_at now) (se_AbsoluteExpiresAt s))"

lemma session_dead_stays:
  assumes "auth_run scan hmac settings ids d d'" "settings_ok settings"
    and "session_dead d sessionID now" "Some sessionID \<notin> ids" "nanos now \<le> nanos now'"
  shows "session_dead d' sessionID now'"
  unfolding session_dead_def
proof (intro ballI impI)
  fix s' assume s': "s' \<in> set (db_sessions d')" "se_ID s' = Some sessionID"
  then obtain s where s: "s \<in> set (db_sessions d)" "session_stems s s'"
    using auth_run_transition[OF assms(1,2)] assms(4) by (auto simp: auth_transition_def auth_evolves_def)
  then have "tz_Valid (se_RevokedAt s) \<or> \<not> tz_less (stored_at now) (se_AbsoluteExpiresAt s)"
    using assms(3) s'(2) by (auto simp: session_dead_def session_stems_def)
  moreover have "tz_less (stored_at now') a \<Longrightarrow> tz_less (stored_at now) a" for a
    using stored_at_mono[OF assms(5)] by (auto simp: tz_le_def tz_less_def)
  ultimately show "tz_Valid (se_RevokedAt s') \<or> \<not> tz_less (stored_at now') (se_AbsoluteExpiresAt s')"
    using s(2) by (auto simp: session_stems_def)
qed

lemma stored_at_utc [simp]: "stored_at (utc now) = stored_at now"
  by (simp add: stored_at_def timestamptz_def utc_def)

lemma Authenticate_not_dead:
  assumes "Authenticate (store_SessionRepository scan) hmac settings now token d = (Inr session, d')"
    and "session_dead d sessionID now"
  shows "asn_ID session \<noteq> sessionID"
proof
  assume id: "asn_ID session = sessionID"
  obtain t where "store_FindByTokenHash (hmac (ses_SessionHashKey settings) token) (utc now) d = Inr (session, t)"
    using assms(1) by (auto simp: Authenticate_def store_SessionRepository_def Let_def split: if_splits sum.splits prod.splits)
  then obtain s where "s \<in> set (db_sessions d)" "live_session (stored_at now) s" "asn_ID session = uuidString (se_ID s)"
      "uuidString (se_ID s) \<noteq> []"
    by (auto simp: store_FindByTokenHash_def find_Some_iff split: option.splits if_splits prod.splits dest: nth_mem)
  then show False using assms(2) id uuidString_Some[of "se_ID s"]
    by (auto simp: session_dead_def live_session_def)
qed

lemma revoked_session_dead:
  assumes "revoke_session selected now d = Inr (u, d1)"
    and "\<And>s. se_ID s = Some sessionID \<Longrightarrow> s \<in> set (db_sessions d) \<Longrightarrow> selected s"
  shows "session_dead d1 sessionID moment"
  using assms by (auto simp: revoke_session_def session_dead_def split: if_splits)

lemma insertAccountSession_dead:
  assumes "insertAccountSession scan input userID d = Inr (u, d')" "session_dead d sessionID now"
    and "scan (lgr_NewSessionID input) \<noteq> Some sessionID"
  shows "session_dead d' sessionID now"
  using assms by (auto simp: insertAccountSession_def insert_session_def session_dead_def)

lemma LoginGoogle_session_dead:
  assumes "store_LoginGoogle scan input d = Inr (r, d')" "scan (lgr_CurrentSessionID input) = Some sessionID"
    and "scan (lgr_NewSessionID input) \<noteq> Some sessionID"
  shows "session_dead d' sessionID now"
proof -
  obtain user d1
    where revoke: "revoke_session (\<lambda>s. sql_eq (se_ID s) (scan (lgr_CurrentSessionID input))) (lgr_Now input) d = Inr ((), d1)"
      and session: "insertAccountSession scan input user d1 = Inr ((), d')"
    using assms(1) by (auto simp: store_LoginGoogle_def split: option.splits prod.splits)
  show ?thesis
    by (rule insertAccountSession_dead[OF session revoked_session_dead[OF revoke] assms(3)]) (simp add: assms(2))
qed

subsection \<open>Anonymous bootstraps\<close>

lemma CreateOrResumeAnonymous_user:
  assumes "store_CreateOrResumeAnonymous scan (\<lambda>d. d) (\<lambda>d. d) input d = Inr (r, d')"
  shows "anr_UserID r = car_UserID input \<or> (\<exists>b\<in>set (db_anonymous_bootstraps d). abr_UserID b = Some (anr_UserID r))"
proof -
  have created: "create_anonymous_user scan input e = Inr (r, d') \<Longrightarrow> anr_UserID r = car_UserID input" for e
    by (auto simp: create_anonymous_user_def)
  have "createOrResumeAnonymousOnce scan (\<lambda>d. d) input d = Inr (r, d')"
    using assms by (auto simp: store_CreateOrResumeAnonymous_def split: sum.splits if_splits)
  then consider "create_anonymous_user scan input d = Inr (r, d')"
    | located where "resume_or_replace scan input located d = Inr (r, d')"
    by (auto simp: createOrResumeAnonymousOnce_def split: option.splits)
  then show ?thesis
  proof cases
    case 2
    then obtain b where "b \<in> set (db_anonymous_bootstraps d)"
      and "anr_UserID r = uuidString (abr_UserID b) \<and> uuidString (abr_UserID b) \<noteq> [] \<or>
        (\<exists>e. create_anonymous_user scan input e = Inr (r, d'))"
      by (auto simp: resume_or_replace_def find_Some_iff split: if_splits option.splits dest: nth_mem)
    then show ?thesis using created uuidString_Some by metis
  qed (use created in blast)
qed

lemma CreateAnonymous_user:
  assumes "CreateAnonymous (store_SessionRepository scan) hmac settings abuse newUserID newSessionID newToken now
     input d = (Inr view, d')"
  shows "newUserID = Inr (sv_view_UserID view) \<or>
    (\<exists>b\<in>set (db_anonymous_bootstraps d). abr_UserID b = Some (sv_view_UserID view))"
proof -
  have "\<exists>entry r. store_CreateOrResumeAnonymous scan (\<lambda>d. d) (\<lambda>d. d) entry d = Inr (r, d') \<and>
      newUserID = Inr (car_UserID entry) \<and> sv_view_UserID view = anr_UserID r"
    using assms unfolding CreateAnonymous_def store_SessionRepository_def Let_def
    by (auto split: if_splits option.splits sum.splits prod.splits) force
  then show ?thesis using CreateOrResumeAnonymous_user by metis
qed

lemma bootstrap_given_up:
  assumes "auth_run scan hmac settings ids d d'" "settings_ok settings"
    and "\<forall>b\<in>set (db_anonymous_bootstraps d). abr_UserID b \<noteq> user_id" "user_id \<notin> ids"
  shows "\<forall>b\<in>set (db_anonymous_bootstraps d'). abr_UserID b \<noteq> user_id"
  using auth_run_transition[OF assms(1,2)] assms(3,4) by (fastforce simp: auth_transition_def auth_evolves_def)

lemma create_anonymous_user_runs:
  assumes "scan (car_UserID input) = Some user" "\<forall>u\<in>set (db_users d). ur_ID u \<noteq> Some user"
    and "scan (car_SessionID input) = Some session"
    and "\<forall>s\<in>set (db_sessions d). se_ID s \<noteq> Some session \<and> se_TokenHash s \<noteq> car_SessionTokenHash input"
    and "\<exists>b\<in>set (db_anonymous_bootstraps d). abr_KeyHash b = car_BootstrapKeyHash input"
  shows "create_anonymous_user scan input d = Inl bootstrap_conflict"
proof -
  obtain d1 where user: "insert_user (Some user) (car_Now input) d = Inr ((), d1)" using assms(2) by simp
  then have d1: "db_sessions d1 = db_sessions d" "db_anonymous_bootstraps d1 = db_anonymous_bootstraps d" by simp_all
  have uuid: "auth_uuid scan (car_SessionID input) d1 = Inr (Some session, d1)"
    "auth_uuid scan (car_UserID input) d = Inr (Some user, d)" using assms(1,3) by simp_all
  have "\<exists>d2. insertSession scan input (Some user) d1 = Inr ((), d2)"
    using assms(3,4) d1 by (simp add: insertSession_def insert_session_def)
  then obtain d2 where session: "insertSession scan input (Some user) d1 = Inr ((), d2)" by blast
  then have "db_anonymous_bootstraps d2 = db_anonymous_bootstraps d"
    using d1 by (auto simp: insertSession_def insert_session_def)
  then have "insert_bootstrap (car_BootstrapKeyHash input) (Some user) (car_BootstrapExpires input) (car_Now input) d2
      = Inl bootstrap_conflict"
    using assms(5) by (auto simp: insert_bootstrap_def list_ex_iff)
  then show ?thesis
    by (simp add: create_anonymous_user_def tx_bind_def uuid user session)
qed

lemma resume_runs:
  assumes "find_bootstrap (car_BootstrapKeyHash input) d = Some b" "abr_UserID b = Some user" "user \<noteq> []"
    and "scan user = Some user" "Some user \<in> ur_ID ` set (db_users d)"
    and "sessionFiniteTimestamptz (abr_ExpiresAt b) = Some expires" "nanos (car_Now input) < nanos expires"
    and "\<And>c. c \<in> set (db_anonymous_bootstraps d) \<Longrightarrow> abr_KeyHash c = car_BootstrapKeyHash input \<Longrightarrow> c = b"
    and "scan (car_SessionID input) = Some session"
    and "\<forall>s\<in>set (db_sessions d). se_ID s \<noteq> Some session \<and> se_TokenHash s \<noteq> car_SessionTokenHash input"
  shows "\<exists>d'. createOrResumeAnonymousOnce scan (\<lambda>d. d) input d = Inr (\<lparr>anr_UserID = user, anr_Created = False\<rparr>, d') \<and>
    db_users d' = db_users d \<and> db_anonymous_bootstraps d' = db_anonymous_bootstraps d"
proof -
  have b: "b \<in> set (db_anonymous_bootstraps d)" "abr_KeyHash b = car_BootstrapKeyHash input"
    using assms(1) by (auto simp: find_bootstrap_def find_Some_iff)
  let ?locked = "\<lambda>c. abr_KeyHash c = car_BootstrapKeyHash input \<and> sql_eq (abr_UserID c) (Some user)"
  have locked: "find ?locked (db_anonymous_bootstraps d) = Some b"
  proof (cases "find ?locked (db_anonymous_bootstraps d)")
    case None
    then show ?thesis using b assms(2) by (auto simp: find_None_iff)
  next
    case (Some c)
    then have "c \<in> set (db_anonymous_bootstraps d)" "?locked c" by (auto simp: find_Some_iff)
    then show ?thesis using Some assms(8) by blast
  qed
  show ?thesis
    using assms(1-7,9,10) locked
    by (simp add: createOrResumeAnonymousOnce_def resume_or_replace_def insertSession_def insert_session_def
        uuidString_def)
qed

lemma created_bootstrap:
  assumes "create_anonymous_user scan input d = Inr (r, d')" "find_bootstrap (car_BootstrapKeyHash input) d = None"
  obtains b user where "find_bootstrap (car_BootstrapKeyHash input) d' = Some b"
    "scan (car_UserID input) = Some user" "abr_UserID b = Some user" "abr_ExpiresAt b = stored_at (car_BootstrapExpires input)"
    "\<And>c. c \<in> set (db_anonymous_bootstraps d') \<Longrightarrow> abr_KeyHash c = car_BootstrapKeyHash input \<Longrightarrow> c = b"
    "Some user \<in> ur_ID ` set (db_users d')" "r = \<lparr>anr_UserID = car_UserID input, anr_Created = True\<rparr>"
proof -
  let ?b = "\<lparr>abr_KeyHash = car_BootstrapKeyHash input, abr_UserID = scan (car_UserID input),
    abr_ExpiresAt = stored_at (car_BootstrapExpires input), abr_CreatedAt = stored_at (car_Now input)\<rparr>"
  have new: "db_anonymous_bootstraps d' = db_anonymous_bootstraps d @ [?b]"
    and user: "scan (car_UserID input) \<noteq> None" "scan (car_UserID input) \<in> ur_ID ` set (db_users d')"
    and r: "r = \<lparr>anr_UserID = car_UserID input, anr_Created = True\<rparr>"
    using assms(1) by (auto simp: create_anonymous_user_def insertSession_def insert_session_def)
  have none: "\<forall>c\<in>set (db_anonymous_bootstraps d). abr_KeyHash c \<noteq> car_BootstrapKeyHash input"
    using assms(2) by (simp add: find_bootstrap_def find_None_iff)
  obtain u where u: "scan (car_UserID input) = Some u" using user(1) by blast
  have "find_bootstrap (car_BootstrapKeyHash input) d' = Some ?b"
    using assms(2) by (simp add: find_bootstrap_def new find_None_append)
  then show thesis by (rule that[OF _ u]) (use none user(2) u r in \<open>auto simp: new\<close>)
qed

subsection \<open>The properties\<close>

text \<open>[C24] Every run of the session and account operations, with any changes of the other tables between
  them, keeps the tables of the sessions consistent: unique users, sessions, token hashes, bootstrap
  keys and identities, one bootstrap and one Google identity per User, no row without its User, and
  no session whose idle expiry is after its absolute expiry.\<close>

theorem auth_run_invariant:
  assumes "auth_run scan hmac settings ids d d'" "settings_ok settings" "auth_invariant d"
  shows "auth_invariant d'"
  using auth_run_transition[OF assms(1,2)] assms(3) by (simp add: auth_transition_def)


text \<open>[C26] A login with Google replaces the session it came from: the old session never authenticates
  again, whatever runs afterwards, unless its identifier is given out again.\<close>

theorem login_replaces_session:
  assumes "uc_LoginGoogle (store_AccountRepository scan) hmac settings verify newSessionID newToken now
      currentSessionID idToken d = (Inr view, d1)"
    and "scan currentSessionID = Some sessionID" "Some sessionID \<notin> offered scan [newSessionID]"
    and "auth_run scan hmac settings ids d1 d2" "settings_ok settings" "Some sessionID \<notin> ids"
    and "Authenticate (store_SessionRepository scan) hmac settings now2 token d2 = (Inr session, d3)"
  shows "asn_ID session \<noteq> sessionID"
proof -
  obtain identity where run: "createSession hmac settings newSessionID newToken now
      (\<lambda>session. store_LoginGoogle scan (login_record currentSessionID identity session)) d = Inr (view, d1)"
    using assms(1) by (auto simp: uc_LoginGoogle_def store_AccountRepository_def commit_or_rollback_def
        split: sum.splits prod.splits)
  have "session_dead d1 sessionID now2"
  proof (rule createSession_Inr[OF run assms(5)])
    fix material :: sessionMaterial and r
    assume id: "newSessionID = Inr (sm_id material)"
      and login: "store_LoginGoogle scan (login_record currentSessionID identity material) d = Inr (r, d1)"
    show ?thesis
      by (rule LoginGoogle_session_dead[OF login])
         (use assms(2,3) id in \<open>auto simp: login_record_def offered_def\<close>)
  qed
  then show ?thesis
    using Authenticate_not_dead[OF assms(7) session_dead_stays[OF assms(4,5) _ assms(6) order_refl]] by blast
qed

text \<open>[C27] Linking a Google identity ends anonymous access to the account: after it, no bootstrap
  identifier leads to a session of that User, whatever runs in between, unless the identifier of
  the User is given out again.\<close>

theorem linked_account_leaves_bootstrap:
  assumes "uc_UpgradeGoogle (store_AccountRepository scan) hmac settings verify newIdentityID newSessionID newToken
      now currentUserID currentSessionID idToken d = (Inr view, d1)"
    and "scan currentUserID = Some userID"
    and "auth_run scan hmac settings ids d1 d2" "settings_ok settings" "Some userID \<notin> ids"
    and "newUserID \<noteq> Inr userID"
    and "CreateAnonymous (store_SessionRepository scan) hmac settings abuse newUserID newSessionID2 newToken2 now2
      input d2 = (Inr anonymous, d3)"
  shows "sv_view_UserID anonymous \<noteq> userID"
proof -
  have "\<forall>b\<in>set (db_anonymous_bootstraps d1). abr_UserID b \<noteq> Some userID"
    by (rule uc_UpgradeGoogle_committed[OF assms(1,4)])
       (use UpgradeGoogle_transition(2) assms(2) in fastforce)
  from bootstrap_given_up[OF assms(3,4) this assms(5)]
  show ?thesis using CreateAnonymous_user[OF assms(7)] assms(6) by auto
qed



subsection \<open>Concrete runs\<close>

definition sample_hmac :: "string \<Rightarrow> string \<Rightarrow> string" where
  "sample_hmac key message = take 32 (key @ message @ replicate 32 CHR ''x'')"

definition auth_settings :: SessionSettings where
  "auth_settings = \<lparr>ses_SessionHashKey = ''s'', ses_CSRFHashKey = ''c'', ses_BootstrapHashKey = ''b'',
     ses_IdleTTL = 3600000000000, ses_AbsoluteTTL = 7200000000000, ses_ActivityTouchAfter = 60000000000,
     ses_BootstrapTTL = 7200000000000\<rparr>"

definition sample_after :: "int \<Rightarrow> pgTimestamptz" where
  "sample_after n = sample_stamp\<lparr>tz_Time := \<lparr>nanos = 63000000000000000000 + n, loc = UTC\<rparr>\<rparr>"

definition sample_csrf :: "string \<Rightarrow> string" where
  "sample_csrf sessionID = b64_encode (sample_hmac ''c'' (stableTokenContextV1 @ [CHR 0x00] @ sessionID))"

definition sample_session_row :: "string \<Rightarrow> string \<Rightarrow> string \<Rightarrow> SessionRow" where
  "sample_session_row sessionID user token =
     \<lparr>se_ID = Some sessionID, se_UserID = Some user, se_TokenHash = sample_hmac ''s'' token,
      se_CsrfTokenHash = sample_hmac ''c'' (sample_csrf sessionID), se_CreatedAt = sample_stamp,
      se_LastSeenAt = sample_stamp, se_IdleExpiresAt = sample_after 3600000000000,
      se_AbsoluteExpiresAt = sample_after 7200000000000, se_RevokedAt = null_Timestamptz\<rparr>"

definition sample_identity :: GoogleIdentity where
  "sample_identity = \<lparr>gid_Subject = ''g'', gid_Email = Some ''e'', gid_EmailVerified = Some True\<rparr>"

text \<open>A User with one session, a bootstrap and a linked identity.\<close>

definition sample_auth_database :: Database where
  "sample_auth_database = sample_database
     \<lparr>db_users := [sample_user_row ''a''], db_sessions := [sample_session_row sample_cycle_id ''a'' ''t''],
      db_anonymous_bootstraps := [\<lparr>abr_KeyHash = sample_hmac ''b'' sample_uuid, abr_UserID = Some ''a'',
        abr_ExpiresAt = sample_after 7200000000000, abr_CreatedAt = sample_stamp\<rparr>],
      db_auth_identities := [\<lparr>id_ID = Some sample_uuid, id_UserID = Some ''a'', id_Provider = ''google'',
        id_ProviderSubject = ''g'', id_EmailAtLink = Some ''e'', id_EmailVerifiedAtLink = Some True,
        id_CreatedAt = sample_stamp\<rparr>]\<rparr>"

definition sample_login_database :: Database where
  "sample_login_database = sample_auth_database
     \<lparr>db_sessions := [(sample_session_row sample_cycle_id ''a'' ''t'')\<lparr>se_RevokedAt := sample_stamp\<rparr>,
                      sample_session_row sample_uuid ''a'' ''u'']\<rparr>"

lemma sample_auth_simps:
  "sample_hmac ''s'' ''u'' \<noteq> sample_hmac ''s'' ''t''" "sample_hmac ''s'' ''t'' \<noteq> sample_hmac ''s'' ''u''"
  "sample_hmac ''s'' ''v'' \<noteq> sample_hmac ''s'' ''t''" "sample_hmac ''s'' ''v'' \<noteq> sample_hmac ''s'' ''u''"
  "sample_hmac ''s'' ''t'' \<noteq> sample_hmac ''s'' ''v''" "sample_hmac ''s'' ''u'' \<noteq> sample_hmac ''s'' ''v''"
  by (simp_all add: sample_hmac_def)

lemma sample_csrf_simps:
  "csrf_Derive sample_hmac ''c'' sample_uuid = Inr (sample_csrf sample_uuid)"
  "csrf_Derive sample_hmac ''c'' sample_cycle_id = Inr (sample_csrf sample_cycle_id)"
  by (simp_all add: csrf_Derive_def sample_csrf_def sample_uuid_canonical sample_cycle_id_simps)

lemma sample_stored_times:
  "utc sample_time = sample_time" "stored_at sample_time = sample_stamp"
  "time_add sample_time n = \<lparr>nanos = 63000000000000000000 + n, loc = UTC\<rparr>"
  "stored_at \<lparr>nanos = 63000003600000000000, loc = UTC\<rparr> = sample_after 3600000000000"
  "stored_at \<lparr>nanos = 63000007200000000000, loc = UTC\<rparr> = sample_after 7200000000000"
  "tz_Valid (sample_after n)" "tz_Valid sample_stamp" "\<not> tz_Valid null_Timestamptz"
  "tz_less sample_stamp (sample_after n) \<longleftrightarrow> 0 < n"
  "sessionFiniteTimestamptz sample_stamp = Some sample_time"
  "sessionFiniteTimestamptz (sample_after n) = Some \<lparr>nanos = 63000000000000000000 + n, loc = UTC\<rparr>"
  "time_sub sample_time sample_time = 0"
  by (simp_all add: sample_time_def sample_after_def sample_stamp_def stored_at_def stored_time_def timestamptz_def
      utc_def truncate_time_def microsecond_def time_add_def null_Timestamptz_def tz_less_def
      sessionFiniteTimestamptz_def time_sub_def)

lemmas run_auth = Authenticate_def store_SessionRepository_def store_AccountRepository_def store_FindByTokenHash_def
  fetch_auth_def auth_uuid_def lockUser_def update_sessions_def live_session_def google_identity_def google_email_def
  insert_session_def insert_session_row_def insertAccountSession_def rotateSession_def revoke_session_def
  link_identity_def find_google_identity_def accountGoogleIdentity_def delete_bootstraps_def createSession_def
  login_record_def upgrade_record_def commit_or_rollback_def update_rows_def uuidString_def auth_settings_def
  sample_identity_def sample_auth_simps sample_csrf_simps sample_stored_times sample_uuid_nonempty sample_cycle_id_simps

lemmas sample_auth_defs = sample_auth_database_def sample_login_database_def sample_session_row_def
  sample_user_row_def sample_database_def

lemma sample_login:
  "\<exists>view. uc_LoginGoogle (store_AccountRepository Some) sample_hmac auth_settings (\<lambda>_. Inr sample_identity)
     (Inr sample_uuid) (Inr ''u'') sample_time sample_cycle_id ''i'' sample_auth_database =
   (Inr view, sample_login_database)"
  by (simp add: uc_LoginGoogle_def store_LoginGoogle_def run_auth run_monad sample_auth_defs
      cong: tx_bind_weak rbind_weak del: rbind_eq_Inr tx_bind_Inr)

lemma sample_authenticate:
  "\<exists>session. Authenticate (store_SessionRepository Some) sample_hmac auth_settings sample_time ''u'' sample_login_database =
     (Inr session, sample_login_database) \<and> asn_ID session = sample_uuid"
  by (simp add: run_auth run_monad sample_auth_defs cong: tx_bind_weak rbind_weak del: rbind_eq_Inr tx_bind_Inr)

lemma auth_settings_ok: "settings_ok auth_settings"
  by (simp add: settings_ok_def auth_settings_def)

lemma sample_auth_invariant: "auth_invariant sample_auth_database"
  by (simp add: auth_invariant_def sample_auth_defs session_ok_def tz_le_def sample_after_def sample_stamp_def)

lemma sample_login_run:
  "auth_run Some sample_hmac auth_settings (offered Some [Inr sample_uuid]) sample_auth_database sample_login_database"
proof -
  obtain view where "uc_LoginGoogle (store_AccountRepository Some) sample_hmac auth_settings (\<lambda>_. Inr sample_identity)
     (Inr sample_uuid) (Inr ''u'') sample_time sample_cycle_id ''i'' sample_auth_database =
     (Inr view, sample_login_database)"
    using sample_login by blast
  from auth_run.step[OF auth_run.start auth_step.login[OF this]] show ?thesis by simp
qed

lemma sample_authenticate_run: "auth_run Some sample_hmac auth_settings {} sample_login_database sample_login_database"
proof -
  obtain session where "Authenticate (store_SessionRepository Some) sample_hmac auth_settings sample_time ''u''
      sample_login_database = (Inr session, sample_login_database)"
    using sample_authenticate by blast
  from auth_run.step[OF auth_run.start auth_step.authenticate[OF this]] show ?thesis by simp
qed

theorem auth_run_invariant_witness: "auth_invariant sample_login_database"
  by (rule auth_run_invariant[OF sample_login_run auth_settings_ok sample_auth_invariant])


theorem login_replaces_session_witness:
  "\<exists>session. Authenticate (store_SessionRepository Some) sample_hmac auth_settings sample_time ''u'' sample_login_database =
     (Inr session, sample_login_database) \<and> asn_ID session \<noteq> sample_cycle_id"
proof -
  obtain session where a: "Authenticate (store_SessionRepository Some) sample_hmac auth_settings sample_time ''u''
      sample_login_database = (Inr session, sample_login_database)"
    using sample_authenticate by blast
  obtain view where l: "uc_LoginGoogle (store_AccountRepository Some) sample_hmac auth_settings (\<lambda>_. Inr sample_identity)
     (Inr sample_uuid) (Inr ''u'') sample_time sample_cycle_id ''i'' sample_auth_database =
     (Inr view, sample_login_database)"
    using sample_login by blast
  from login_replaces_session[OF l _ _ sample_authenticate_run auth_settings_ok _ a] a
  show ?thesis by (simp add: offered_def sample_cycle_id_simps)
qed

definition sample_linked_database :: Database where
  "sample_linked_database = sample_login_database\<lparr>db_anonymous_bootstraps := []\<rparr>"

lemma sample_upgrade:
  "\<exists>view. uc_UpgradeGoogle (store_AccountRepository Some) sample_hmac auth_settings (\<lambda>_. Inr sample_identity)
     (Inr ''j'') (Inr sample_uuid) (Inr ''u'') sample_time ''a'' sample_cycle_id ''i'' sample_auth_database =
   (Inr view, sample_linked_database)"
  by (simp add: uc_UpgradeGoogle_def store_UpgradeGoogle_def run_auth run_monad sample_auth_defs
      sample_linked_database_def cong: tx_bind_weak rbind_weak del: rbind_eq_Inr tx_bind_Inr)

definition sample_anonymous :: CreateAnonymousInput where
  "sample_anonymous = \<lparr>cai_BootstrapID = sample_uuid, cai_TurnstileToken = [], cai_RemoteAddress = [], cai_UserAgent = []\<rparr>"

definition sample_session_id :: string where
  "sample_session_id = ''0190a2b4-0000-7000-8000-0000000000f1''"

lemma sample_session_id_simps:
  "sample_session_id \<noteq> sample_uuid" "sample_session_id \<noteq> sample_cycle_id"
  "sample_uuid \<noteq> sample_session_id" "sample_cycle_id \<noteq> sample_session_id"
  "csrf_Derive sample_hmac ''c'' sample_session_id = Inr (sample_csrf sample_session_id)"
proof -
  have "IsCanonicalUUIDv7 sample_session_id"
    by (simp add: IsCanonicalUUIDv7_def sample_session_id_def range_from_ascii isUUIDVariant_def isLowerHex_def)
  then show "csrf_Derive sample_hmac ''c'' sample_session_id = Inr (sample_csrf sample_session_id)"
    by (simp add: csrf_Derive_def sample_csrf_def)
qed (simp_all add: sample_session_id_def sample_uuid_def sample_cycle_id_def)

lemma sample_new_anonymous:
  "\<exists>view d. CreateAnonymous (store_SessionRepository Some) sample_hmac auth_settings (\<lambda>_. None) (Inr ''n'')
     (Inr sample_session_id) (Inr ''v'') sample_time sample_anonymous sample_linked_database = (Inr view, d)"
  by (simp add: CreateAnonymous_def store_CreateOrResumeAnonymous_def createOrResumeAnonymousOnce_def
      create_anonymous_user_def insert_user_def insertSession_def insert_bootstrap_def find_bootstrap_def
      sample_anonymous_def sample_session_id_simps sample_uuid_canonical run_auth run_monad sample_auth_defs
      sample_linked_database_def cong: tx_bind_weak rbind_weak del: rbind_eq_Inr tx_bind_Inr)

theorem linked_account_leaves_bootstrap_witness:
  "\<exists>view d. CreateAnonymous (store_SessionRepository Some) sample_hmac auth_settings (\<lambda>_. None) (Inr ''n'')
     (Inr sample_session_id) (Inr ''v'') sample_time sample_anonymous sample_linked_database = (Inr view, d) \<and>
     sv_view_UserID view \<noteq> ''a''"
proof -
  obtain view where u: "uc_UpgradeGoogle (store_AccountRepository Some) sample_hmac auth_settings
     (\<lambda>_. Inr sample_identity) (Inr ''j'') (Inr sample_uuid) (Inr ''u'') sample_time ''a'' sample_cycle_id ''i''
     sample_auth_database = (Inr view, sample_linked_database)"
    using sample_upgrade by blast
  obtain anonymous d where c: "CreateAnonymous (store_SessionRepository Some) sample_hmac auth_settings (\<lambda>_. None)
     (Inr ''n'') (Inr sample_session_id) (Inr ''v'') sample_time sample_anonymous sample_linked_database =
     (Inr anonymous, d)"
    using sample_new_anonymous by blast
  from linked_account_leaves_bootstrap[OF u _ auth_run.start auth_settings_ok _ _ c] c show ?thesis by simp
qed

definition sample_scan :: "string \<Rightarrow> string option" where
  "sample_scan v = (if v = [] then None else Some v)"

definition sample_record :: "string \<Rightarrow> string \<Rightarrow> string \<Rightarrow> CreateAnonymousRecord" where
  "sample_record user session tokenHash =
     \<lparr>car_BootstrapKeyHash = ''k'', car_BootstrapExpires = \<lparr>nanos = 63000007200000000000, loc = UTC\<rparr>,
      car_UserID = user, car_SessionID = session, car_SessionTokenHash = tokenHash, car_CSRFTokenHash = ''c'',
      car_Now = sample_time, car_IdleExpiresAt = \<lparr>nanos = 63000003600000000000, loc = UTC\<rparr>,
      car_AbsoluteExpiresAt = \<lparr>nanos = 63000007200000000000, loc = UTC\<rparr>\<rparr>"

definition sample_empty_database :: Database where
  "sample_empty_database = sample_database\<lparr>db_users := [], db_sessions := [], db_anonymous_bootstraps := []\<rparr>"

lemma sample_first_bootstrap:
  "\<exists>winner d. store_CreateOrResumeAnonymous sample_scan (\<lambda>d. d) (\<lambda>d. d) (sample_record ''n'' ''p'' ''h'')
     sample_empty_database = Inr (winner, d) \<and> map ur_ID (db_users d) = [Some ''n''] \<and>
     map se_ID (db_sessions d) = [Some ''p''] \<and> map se_TokenHash (db_sessions d) = [''h'']"
  by (simp add: store_CreateOrResumeAnonymous_def createOrResumeAnonymousOnce_def create_anonymous_user_def
      insert_user_def insertSession_def insert_bootstrap_def find_bootstrap_def sample_record_def sample_scan_def
      sample_empty_database_def run_auth run_monad sample_auth_defs
      cong: tx_bind_weak rbind_weak del: rbind_eq_Inr tx_bind_Inr)



end
