(* ===== verification/AccountDeletion.thy ===== *)
theory AccountDeletion
  imports AuthProperties AIBudgetStore
begin

section \<open>Deleting an account\<close>

text \<open>
  What \<open>DeleteAccount\<close> does to the ledger of the AI costs and to the rows of the users: the
  reservations of the User's running generations leave the reserved costs, these and the exposures
  of its unsettled operations become unattributed costs, every row of the User goes, and no row of
  another User changes.
\<close>

subsection \<open>The amounts\<close>

definition reserved_total :: "Database \<Rightarrow> rat" where
  "reserved_total d = sum_list (map bu_ReservedCostUSD (db_ai_budget_monthly d))"

definition unattributed_total :: "Database \<Rightarrow> rat" where
  "unattributed_total d = sum_list (map bu_UnattributedCostUSD (db_ai_budget_monthly d))"

definition running_reserved :: "pgUUID \<Rightarrow> Database \<Rightarrow> rat" where
  "running_reserved user_id d =
     sum_list (map ge_BudgetReservedCostUSD (filter (account_generation user_id) (db_ai_generations d)))"

definition released_cost :: "pgUUID \<Rightarrow> Database \<Rightarrow> rat" where
  "released_cost user_id d =
     sum_list (map (\<lambda>u. case us_SettlementReservationCostUSD u of None \<Rightarrow> 0 | Some amount \<Rightarrow> amount)
       (filter (\<lambda>u. unfinalized_usage user_id u \<and> \<not> has_running_generation d u) (db_ai_usage_events d)))"

text \<open>The amounts of the tables are those of the type \<open>numeric(14, 8)\<close> and not negative.\<close>

definition amounts_ok :: "Database \<Rightarrow> bool" where
  "amounts_ok d \<longleftrightarrow>
     (\<forall>g\<in>set (db_ai_generations d). eight_decimals (ge_BudgetReservedCostUSD g) \<and> 0 \<le> ge_BudgetReservedCostUSD g) \<and>
     (\<forall>u\<in>set (db_ai_usage_events d). \<forall>amount. us_SettlementReservationCostUSD u = Some amount \<longrightarrow>
        eight_decimals amount \<and> 0 \<le> amount)"

lemma eight_decimals_0 [simp]: "eight_decimals 0"
  by (simp add: eight_decimals_def)

lemma eight_decimals_sum_list: "(\<And>x. x \<in> set xs \<Longrightarrow> eight_decimals x) \<Longrightarrow> eight_decimals (sum_list xs)"
  by (induction xs) (auto intro: eight_decimals_arith)

lemma group_sum:
  fixes f :: "'k \<times> 'v \<Rightarrow> rat"
  assumes "distinct ms" "fst ` set xs \<subseteq> set ms"
  shows "sum_list (map (\<lambda>m. sum_list (map f (filter (\<lambda>x. fst x = m) xs))) ms) = sum_list (map f xs)"
  using assms(2)
proof (induction xs)
  case (Cons x xs)
  have single: "sum_list (map (\<lambda>m. if fst x = m then f x else 0) ms) = f x"
    using assms(1) Cons.prems by (simp add: sum_list_distinct_conv_sum_set)
  have step: "sum_list (map f (filter (\<lambda>y. fst y = m) (x # xs))) =
      (if fst x = m then f x else 0) + sum_list (map f (filter (\<lambda>y. fst y = m) xs))" for m
    by simp
  have rest: "sum_list (map (\<lambda>m. sum_list (map f (filter (\<lambda>x. fst x = m) xs))) ms) = sum_list (map f xs)"
    using Cons by simp
  show ?case by (simp only: step sum_list_addf single rest list.map sum_list.Cons)
qed simp

subsection \<open>The monthly exposures\<close>

definition month_released :: "pgUUID \<Rightarrow> Database \<Rightarrow> int \<Rightarrow> rat" where
  "month_released user_id d month =
     sum_list (map (\<lambda>(_, reserved, _). reserved) (filter (\<lambda>x. fst x = month) (month_exposures user_id d)))"

definition month_added :: "pgUUID \<Rightarrow> Database \<Rightarrow> int \<Rightarrow> rat" where
  "month_added user_id d month =
     sum_list (map (\<lambda>(_, _, unattributed). unattributed) (filter (\<lambda>x. fst x = month) (month_exposures user_id d)))"

definition exposure_months :: "pgUUID \<Rightarrow> Database \<Rightarrow> int list" where
  "exposure_months user_id d = sort (remdups (map fst (month_exposures user_id d)))"

lemma list_monthly_exposures_alt:
  "list_monthly_exposures user_id d =
     map (\<lambda>month. \<lparr>ame_month = \<lparr>nanos = month, loc = UTC\<rparr>, ame_reservedToRelease = numeric_text (month_released user_id d month),
                  ame_unattributedToAdd = numeric_text (month_added user_id d month)\<rparr>) (exposure_months user_id d)"
  by (simp add: list_monthly_exposures_def Let_def month_released_def month_added_def exposure_months_def
      case_prod_unfold)

lemma month_exposures_ok:
  assumes "amounts_ok d" "(m, r, a) \<in> set (month_exposures user_id d)"
  shows "eight_decimals r" "eight_decimals a" "0 \<le> r" "r \<le> a"
  using assms by (auto simp: month_exposures_def amounts_ok_def split: option.splits)

lemma month_amounts:
  assumes "amounts_ok d"
  shows "eight_decimals (month_released user_id d month)" "eight_decimals (month_added user_id d month)"
    "0 \<le> month_released user_id d month" "month_released user_id d month \<le> month_added user_id d month"
  unfolding month_released_def month_added_def
  using month_exposures_ok[OF assms]
  by (auto intro!: eight_decimals_sum_list sum_list_nonneg sum_list_mono)

lemma month_totals:
  "sum_list (map (month_released user_id d) (exposure_months user_id d)) = running_reserved user_id d"
  "sum_list (map (month_added user_id d) (exposure_months user_id d)) =
     running_reserved user_id d + released_cost user_id d"
proof -
  have months: "distinct (exposure_months user_id d)"
    "fst ` set (month_exposures user_id d) \<subseteq> set (exposure_months user_id d)"
    by (auto simp: exposure_months_def)
  have "sum_list (map (\<lambda>(_, reserved, _). reserved) (month_exposures user_id d)) = running_reserved user_id d"
    by (simp add: month_exposures_def running_reserved_def comp_def)
  then show "sum_list (map (month_released user_id d) (exposure_months user_id d)) = running_reserved user_id d"
    using group_sum[OF months, of "\<lambda>(_, reserved, _). reserved"] by (simp add: month_released_def[abs_def])
  have "sum_list (map (\<lambda>(_, _, unattributed). unattributed) (month_exposures user_id d)) =
      running_reserved user_id d + released_cost user_id d"
    by (simp add: month_exposures_def running_reserved_def released_cost_def comp_def)
  then show "sum_list (map (month_added user_id d) (exposure_months user_id d)) =
      running_reserved user_id d + released_cost user_id d"
    using group_sum[OF months, of "\<lambda>(_, _, unattributed). unattributed"] by (simp add: month_added_def[abs_def])
qed

subsection \<open>Moving the exposure of a month\<close>

lemma one_row_or_Inr [simp]: "one_row_or failure m d = Inr (u, t) \<longleftrightarrow> m d = Inr (1, t)"
  by (auto simp: one_row_or_def)

lemma Move_Inr:
  assumes "MoveAccountExposureToUnattributedCAS now exposure d = Inr (1, d')"
    and "ame_reservedToRelease exposure = numeric_text r" "ame_unattributedToAdd exposure = numeric_text a"
    and "eight_decimals r" "eight_decimals a"
  shows "update_budget
    (\<lambda>b. tz_eq (bu_MonthUtc b) (accountDateParam (ame_month exposure)) \<and> bu_ReservedCostUSD b \<ge> r)
    (\<lambda>b. b\<lparr>bu_ReservedCostUSD := numeric_8 (bu_ReservedCostUSD b - r),
          bu_UnattributedCostUSD := numeric_8 (bu_UnattributedCostUSD b + a), bu_UpdatedAt := stored_at now\<rparr>) d
    = Inr (1, d')"
  using assms by (auto simp: MoveAccountExposureToUnattributedCAS_def numeric_param_def numeric_text_read
      split: option.splits)

lemma update_budget_effect:
  assumes update: "update_budget selected change d = Inr (1, d')" and keys: "ledger_keys d"
    and selected: "\<And>b. selected b \<Longrightarrow> tz_eq (bu_MonthUtc b) month'"
    and month: "\<And>b. bu_MonthUtc (change b) = bu_MonthUtc b"
    and amounts: "\<And>b. eight_decimals (bu_ReservedCostUSD b) \<Longrightarrow> eight_decimals (bu_UnattributedCostUSD b) \<Longrightarrow>
      bu_ReservedCostUSD (change b) = bu_ReservedCostUSD b - r \<and>
      bu_UnattributedCostUSD (change b) = bu_UnattributedCostUSD b + a \<and> bu_ActualCostUSD (change b) = bu_ActualCostUSD b"
    and ra: "eight_decimals r" "eight_decimals a"
  shows "ledger_keys d'" "reserved_total d' = reserved_total d - r" "unattributed_total d' = unattributed_total d + a"
    "actual_total d' = actual_total d" "r \<le> a \<Longrightarrow> exposure_of d month \<le> exposure_of d' month"
proof -
  let ?rows = "db_ai_budget_monthly d"
  let ?new = "map (\<lambda>b. if selected b then change b else b) ?rows"
  have update: "d' = d\<lparr>db_ai_budget_monthly := ?new\<rparr>" "of_nat (length (filter selected ?rows)) = (1 :: i64)"
    using update by (auto simp: update_budget_def update_rows_def)
  have one: "length (filter selected ?rows) = 1"
    by (rule one_row[where key = budget_key, OF _ _ update(2)])
       (use keys selected month_key in \<open>auto simp: ledger_keys_def\<close>)
  have ok: "tz_Valid (bu_MonthUtc b) \<and> eight_decimals (bu_ReservedCostUSD b) \<and> eight_decimals (bu_ActualCostUSD b) \<and>
      eight_decimals (bu_UnattributedCostUSD b)" if "b \<in> set ?rows" for b
    using keys that by (simp add: ledger_keys_def)
  have changed: "bu_ReservedCostUSD (change b) = bu_ReservedCostUSD b - r"
    "bu_UnattributedCostUSD (change b) = bu_UnattributedCostUSD b + a"
    "bu_ActualCostUSD (change b) = bu_ActualCostUSD b" if "b \<in> set ?rows" for b
    using ok[OF that] amounts[of b] by simp_all
  have "map budget_key ?new = map budget_key ?rows" by (rule map_update_key) (simp add: budget_key_def month)
  moreover have "\<forall>b\<in>set ?new. tz_Valid (bu_MonthUtc b) \<and> eight_decimals (bu_ReservedCostUSD b) \<and>
      eight_decimals (bu_ActualCostUSD b) \<and> eight_decimals (bu_UnattributedCostUSD b)"
    using ok changed ra by (auto simp: month eight_decimals_arith)
  ultimately show "ledger_keys d'" using keys by (simp add: update(1) ledger_keys_def del: map_map set_map)
  show "reserved_total d' = reserved_total d - r"
    using sum_update[where f = bu_ReservedCostUSD and rows = ?rows and selected = selected and change = change and c = "- r"]
      changed one by (simp add: update(1) reserved_total_def del: map_map)
  show "unattributed_total d' = unattributed_total d + a"
    using sum_update[where f = bu_UnattributedCostUSD and rows = ?rows and selected = selected and change = change and c = a]
      changed one by (simp add: update(1) unattributed_total_def del: map_map)
  show "actual_total d' = actual_total d"
    using sum_update[where f = bu_ActualCostUSD and rows = ?rows and selected = selected and change = change and c = 0]
      changed by (simp add: update(1) actual_total_def del: map_map)
  show "exposure_of d month \<le> exposure_of d' month" if "r \<le> a"
  proof -
    let ?month = "\<lambda>b. tz_eq (bu_MonthUtc b) (goalDeleteDate month)"
    have "find ?month ?new = map_option (\<lambda>b. if selected b then change b else b) (find ?month ?rows)"
      by (rule find_map_update) (simp add: month)
    moreover have "b \<in> set ?rows" if "find ?month ?rows = Some b" for b using find_in[OF that] by simp
    ultimately show ?thesis using changed \<open>r \<le> a\<close>
      by (auto simp: exposure_of_def update(1) split: option.split)
  qed
qed

lemma Move_effect:
  assumes run: "MoveAccountExposureToUnattributedCAS now exposure d = Inr (1, d')"
    and texts: "ame_reservedToRelease exposure = numeric_text r" "ame_unattributedToAdd exposure = numeric_text a"
    and amounts: "eight_decimals r" "eight_decimals a" and keys: "ledger_keys d"
  shows "ledger_keys d'" "reserved_total d' = reserved_total d - r" "unattributed_total d' = unattributed_total d + a"
    "actual_total d' = actual_total d" "r \<le> a \<Longrightarrow> exposure_of d month \<le> exposure_of d' month"
  using update_budget_effect[OF Move_Inr[OF run texts amounts] keys, of "accountDateParam (ame_month exposure)" r a] amounts
  by (simp_all add: numeric_8_eight eight_decimals_arith)

lemma Move_all_effect:
  assumes "each_row (\<lambda>m. one_row_or failure (MoveAccountExposureToUnattributedCAS now m))
      (map (\<lambda>m. \<lparr>ame_month = f m, ame_reservedToRelease = numeric_text (r m), ame_unattributedToAdd = numeric_text (a m)\<rparr>) ms)
      d = Inr (u, d')"
    and "\<And>m. eight_decimals (r m) \<and> eight_decimals (a m) \<and> r m \<le> a m" "ledger_keys d"
  shows "ledger_keys d' \<and> reserved_total d' = reserved_total d - sum_list (map r ms) \<and>
    unattributed_total d' = unattributed_total d + sum_list (map a ms) \<and> actual_total d' = actual_total d \<and>
    (\<forall>month. exposure_of d month \<le> exposure_of d' month)"
  using assms(1,3)
proof (induction ms arbitrary: d)
  case (Cons m ms)
  let ?e = "\<lparr>ame_month = f m, ame_reservedToRelease = numeric_text (r m), ame_unattributedToAdd = numeric_text (a m)\<rparr>"
  from Cons.prems(1) obtain d1 where first: "MoveAccountExposureToUnattributedCAS now ?e d = Inr (1, d1)"
    and rest: "each_row (\<lambda>m. one_row_or failure (MoveAccountExposureToUnattributedCAS now m))
      (map (\<lambda>m. \<lparr>ame_month = f m, ame_reservedToRelease = numeric_text (r m), ame_unattributedToAdd = numeric_text (a m)\<rparr>) ms)
      d1 = Inr (u, d')"
    by auto
  note effect = Move_effect[OF first _ _ _ _ Cons.prems(2), of "r m" "a m"]
  have "ledger_keys d1 \<and> reserved_total d1 = reserved_total d - r m \<and> unattributed_total d1 = unattributed_total d + a m \<and>
      actual_total d1 = actual_total d \<and> (\<forall>month. exposure_of d month \<le> exposure_of d1 month)"
    using effect assms(2)[of m] by simp
  then show ?case using Cons.IH[OF rest] by (auto intro: order_trans)
qed (auto simp: tx_return_def)

subsection \<open>Settling a deleted account\<close>

lemma ledger_of_tables:
  assumes "ledger_tables d' = ledger_tables d"
  shows "ledger_keys d' = ledger_keys d" "reserved_total d' = reserved_total d"
    "unattributed_total d' = unattributed_total d" "actual_total d' = actual_total d"
    "exposure_of d' month = exposure_of d month"
  using assms by (simp_all add: ledger_tables_def ledger_keys_def reserved_total_def unattributed_total_def
      actual_total_def exposure_of_def)

lemma ReleaseAccountGeneration_keeps: "keeps ledger_tables (ReleaseAccountGenerationReservationCAS scan user_id g)"
proof -
  have "keeps ledger_tables (update_generations P h)" for P h
    by (auto simp: keeps_def ledger_tables_def update_generations_def Let_def split: prod.splits)
  then show ?thesis unfolding ReleaseAccountGenerationReservationCAS_def by (intro keeps_intros)
qed

lemma sumUnattributedCost_texts:
  assumes "\<And>m. eight_decimals (a m) \<and> 0 \<le> a m"
  shows "sumUnattributedCost (map (\<lambda>m. \<lparr>ame_month = f m, ame_reservedToRelease = r m, ame_unattributedToAdd = numeric_text (a m)\<rparr>) ms)
    = Inr (sum_list (map a ms))"
  using assms by (induction ms) (simp_all add: numeric_text_read not_less)

lemma DeleteReleased_effect:
  assumes "DeleteReleasedAccountUsageExposureCAS scan user_id usage d = Inr (n, d')"
  shows "db_ai_budget_monthly d' = db_ai_budget_monthly d" "\<exists>P. db_ai_usage_events d' = filter P (db_ai_usage_events d)"
  using assms by (auto simp: DeleteReleasedAccountUsageExposureCAS_def numeric_param_def Let_def split: option.splits)

lemma DeleteReleased_all_effect:
  assumes "each_row (\<lambda>u. one_row_or failure (DeleteReleasedAccountUsageExposureCAS scan user_id u)) us d = Inr (x, d')"
  shows "db_ai_budget_monthly d' = db_ai_budget_monthly d"
  using assms
proof (induction us arbitrary: d)
  case (Cons u us)
  then obtain d1 where "DeleteReleasedAccountUsageExposureCAS scan user_id u d = Inr (1, d1)"
    "each_row (\<lambda>u. one_row_or failure (DeleteReleasedAccountUsageExposureCAS scan user_id u)) us d1 = Inr (x, d')" by auto
  then show ?case using Cons.IH DeleteReleased_effect(1) by metis
qed (auto simp: tx_return_def)

lemma DeleteAccount_Inr:
  assumes "store_DeleteAccount scan userID now d = Inr (r, d')"
  obtains generations released d1 where
    "settle_deleted_exposure scan (scan userID) now generations released (list_monthly_exposures (scan userID) d) d
      = Inr (der_UnattributedCostUSD r, d1)"
    "d' = delete_user_rows (scan userID) d1" "scan userID \<noteq> None"
  using assms by (auto simp: store_DeleteAccount_def DeleteAccountUserCAS_def split: if_splits)

lemma settle_deleted_exposure_effect:
  assumes run: "settle_deleted_exposure scan user_id now generations released (list_monthly_exposures user_id d) d = Inr (cost, d')"
    and keys: "ledger_keys d" and amounts: "amounts_ok d"
  shows "cost = running_reserved user_id d + released_cost user_id d"
    "reserved_total d' = reserved_total d - running_reserved user_id d"
    "unattributed_total d' = unattributed_total d + cost" "actual_total d' = actual_total d"
    "exposure_of d month \<le> exposure_of d' month"
proof -
  let ?months = "list_monthly_exposures user_id d"
  obtain d1 d2 where gens: "each_row (\<lambda>g. one_row_or ''account delete generation reservation invariant failed''
       (ReleaseAccountGenerationReservationCAS scan user_id g)) generations d = Inr ((), d1)"
    and sum: "sumUnattributedCost ?months = Inr cost"
    and moves: "each_row (\<lambda>m. one_row_or ''account delete budget settlement exposure invariant failed''
       (MoveAccountExposureToUnattributedCAS now m)) ?months d1 = Inr ((), d2)"
    and usages: "each_row (\<lambda>u. one_row_or ''account delete released AI usage exposure invariant failed''
       (DeleteReleasedAccountUsageExposureCAS scan user_id u)) released d2 = Inr ((), d')"
    using run by (auto simp: settle_deleted_exposure_def)
  have "keeps ledger_tables (each_row (\<lambda>g. one_row_or ''account delete generation reservation invariant failed''
       (ReleaseAccountGenerationReservationCAS scan user_id g)) generations)"
    by (intro keeps_intros ReleaseAccountGeneration_keeps)
  from keepsD[OF this gens] have d1: "ledger_tables d1 = ledger_tables d" .
  note months = month_amounts[OF amounts, of user_id] month_totals[of user_id d]
  show cost: "cost = running_reserved user_id d + released_cost user_id d"
    using sum sumUnattributedCost_texts[of "month_added user_id d"] months order_trans[OF months(3,4)]
    by (simp add: list_monthly_exposures_alt)
  have moved: "reserved_total d2 = reserved_total d1 - running_reserved user_id d"
      "unattributed_total d2 = unattributed_total d1 + cost" "actual_total d2 = actual_total d1"
      "exposure_of d1 month \<le> exposure_of d2 month" for month
    using Move_all_effect[OF moves[unfolded list_monthly_exposures_alt]] months cost ledger_of_tables(1)[OF d1] keys by simp_all
  have "db_ai_budget_monthly d' = db_ai_budget_monthly d2" by (rule DeleteReleased_all_effect[OF usages])
  then have "reserved_total d' = reserved_total d2" "unattributed_total d' = unattributed_total d2"
    "actual_total d' = actual_total d2" "exposure_of d' month = exposure_of d2 month" for month
    by (simp_all add: reserved_total_def unattributed_total_def actual_total_def exposure_of_def)
  then show "reserved_total d' = reserved_total d - running_reserved user_id d"
    "unattributed_total d' = unattributed_total d + cost" "actual_total d' = actual_total d"
    "exposure_of d month \<le> exposure_of d' month"
    using moved ledger_of_tables[OF d1] by simp_all
qed

lemma uc_DeleteAccount_committed:
  assumes "uc_DeleteAccount (store_AccountRepository scan) now userID confirmed d = (Inr u, d')"
  obtains r where "store_DeleteAccount scan userID (utc now) d = Inr (r, d')"
  using assms by (auto simp: uc_DeleteAccount_def store_AccountRepository_def commit_or_rollback_def
      split: if_splits sum.splits prod.splits)

subsection \<open>The rows of a User\<close>

text \<open>What the deletion is for: the database without the rows of a User and those that hang on them.\<close>

definition without_user :: "pgUUID \<Rightarrow> Database \<Rightarrow> Database" where
  "without_user user_id d =
     d\<lparr>db_users := filter (\<lambda>u. ur_ID u \<noteq> user_id) (db_users d),
       db_sessions := filter (\<lambda>s. se_UserID s \<noteq> user_id) (db_sessions d),
       db_anonymous_bootstraps := filter (\<lambda>b. abr_UserID b \<noteq> user_id) (db_anonymous_bootstraps d),
       db_auth_identities := filter (\<lambda>i. id_UserID i \<noteq> user_id) (db_auth_identities d),
       db_goals := filter (\<lambda>g. gr_UserID g \<noteq> user_id) (db_goals d),
       db_goal_versions := filter (\<lambda>v. sv_UserID v \<noteq> user_id) (db_goal_versions d),
       db_goal_version_success_signals := filter (\<lambda>s.
         \<forall>v\<in>set (db_goal_versions d). sv_UserID v = user_id \<longrightarrow> \<not> sql_eq (sv_ID v) (fst s))
         (db_goal_version_success_signals d),
       db_pdca_cycles := filter (\<lambda>c. pc_UserID c \<noteq> user_id) (db_pdca_cycles d),
       db_pdca_cycle_review_schedules := filter (\<lambda>s.
         \<forall>c\<in>set (db_pdca_cycles d). pc_UserID c = user_id \<longrightarrow> \<not> sql_eq (pc_ID c) (sch_CycleID s))
         (db_pdca_cycle_review_schedules d),
       db_goal_drafts := filter (\<lambda>r. sd_UserID r \<noteq> user_id) (db_goal_drafts d),
       db_goal_draft_success_signals := filter (\<lambda>s.
         \<forall>r\<in>set (db_goal_drafts d). sd_UserID r = user_id \<longrightarrow> \<not> sql_eq (sd_ID r) (fst s))
         (db_goal_draft_success_signals d),
       db_ai_generations := filter (\<lambda>g. ge_UserID g \<noteq> user_id) (db_ai_generations d),
       db_ai_usage_events := filter (\<lambda>u. us_UserID u \<noteq> user_id) (db_ai_usage_events d),
       db_goal_delete_receipts := filter (\<lambda>r. gdrow_UserID r \<noteq> user_id) (db_goal_delete_receipts d)\<rparr>"

text \<open>
  What the cascade rests on: versions and Cycles belong to a Goal of their User, and a usage event
  refers to a Goal of its User.
\<close>

definition content_keys :: "Database \<Rightarrow> bool" where
  "content_keys d \<longleftrightarrow>
     (\<forall>v\<in>set (db_goal_versions d). \<exists>g\<in>set (db_goals d). sql_eq (gr_UserID g) (sv_UserID v) \<and> sql_eq (gr_ID g) (sv_GoalID v)) \<and>
     (\<forall>c\<in>set (db_pdca_cycles d). \<exists>g\<in>set (db_goals d). sql_eq (gr_UserID g) (pc_UserID c) \<and> sql_eq (gr_ID g) (pc_GoalID c)) \<and>
     (\<forall>u\<in>set (db_ai_usage_events d). \<forall>g\<in>set (db_goals d). sql_eq (gr_ID g) (us_GoalID u) \<longrightarrow> gr_UserID g = us_UserID u)"

lemma deleted_goal_iff:
  assumes "\<exists>g\<in>set (db_goals d). sql_eq (gr_UserID g) owner \<and> sql_eq (gr_ID g) goal_id"
  shows "deleted_goal d user_id owner goal_id \<longleftrightarrow> owner = user_id"
  using assms by (auto simp: deleted_goal_def list_ex_iff sql_eq_def)

lemma sql_eq_known: "user_id \<noteq> None \<Longrightarrow> sql_eq owner user_id \<longleftrightarrow> owner = user_id"
  by (auto simp: sql_eq_def)

lemma delete_user_rows_spec:
  assumes "user_id \<noteq> None"
    and versions: "\<And>v. v \<in> set (db_goal_versions d) \<Longrightarrow> deleted_goal d user_id (sv_UserID v) (sv_GoalID v) \<longleftrightarrow> sv_UserID v = user_id"
    and cycles: "\<And>c. c \<in> set (db_pdca_cycles d) \<Longrightarrow> deleted_goal d user_id (pc_UserID c) (pc_GoalID c) \<longleftrightarrow> pc_UserID c = user_id"
    and usages: "\<And>u. u \<in> set (db_ai_usage_events d) \<Longrightarrow> us_UserID u \<noteq> user_id \<Longrightarrow> \<not> deleted_goal d user_id user_id (us_GoalID u)"
  shows "delete_user_rows user_id d = without_user user_id d"
proof -
  have "filter (\<lambda>v. \<not> deleted_goal d user_id (sv_UserID v) (sv_GoalID v)) (db_goal_versions d) =
      filter (\<lambda>v. sv_UserID v \<noteq> user_id) (db_goal_versions d)"
    using versions by (auto intro: filter_cong)
  moreover have "filter (\<lambda>c. \<not> deleted_goal d user_id (pc_UserID c) (pc_GoalID c)) (db_pdca_cycles d) =
      filter (\<lambda>c. pc_UserID c \<noteq> user_id) (db_pdca_cycles d)"
    using cycles by (auto intro: filter_cong)
  moreover have "(\<lambda>(version_id, _). \<not> list_ex (\<lambda>v. deleted_goal d user_id (sv_UserID v) (sv_GoalID v) \<and>
      sql_eq (sv_ID v) version_id) (db_goal_versions d)) =
      (\<lambda>s :: pgUUID \<times> string. \<forall>v\<in>set (db_goal_versions d). sv_UserID v = user_id \<longrightarrow> \<not> sql_eq (sv_ID v) (fst s))"
    using versions by (intro ext) (auto simp: list_ex_iff split: prod.splits)
  moreover have "(\<lambda>s :: ReviewScheduleRow. \<not> list_ex (\<lambda>c. deleted_goal d user_id (pc_UserID c) (pc_GoalID c) \<and>
      sql_eq (pc_ID c) (sch_CycleID s)) (db_pdca_cycles d)) =
      (\<lambda>s. \<forall>c\<in>set (db_pdca_cycles d). pc_UserID c = user_id \<longrightarrow> \<not> sql_eq (pc_ID c) (sch_CycleID s))"
    using cycles by (intro ext) (auto simp: list_ex_iff)
  moreover have "(\<lambda>(draft_id, _). \<not> list_ex (\<lambda>r. sd_UserID r = user_id \<and> sql_eq (sd_ID r) draft_id) (db_goal_drafts d)) =
      (\<lambda>s :: pgUUID \<times> string. \<forall>r\<in>set (db_goal_drafts d). sd_UserID r = user_id \<longrightarrow> \<not> sql_eq (sd_ID r) (fst s))"
    by (intro ext) (auto simp: list_ex_iff split: prod.splits)
  moreover have "map (\<lambda>u. if deleted_goal d user_id user_id (us_GoalID u) then u\<lparr>us_GoalID := None\<rparr> else u)
      (filter (\<lambda>u. us_UserID u \<noteq> user_id) (db_ai_usage_events d)) =
      filter (\<lambda>u. us_UserID u \<noteq> user_id) (db_ai_usage_events d)"
    using usages by (intro map_idI) auto
  ultimately show ?thesis
    by (simp add: delete_user_rows_def without_user_def Let_def sql_eq_known[OF assms(1)])
qed

subsection \<open>Settling touches the User only\<close>

definition content_tables :: "Database \<Rightarrow> GoalRow list \<times> StoredVersionRow list \<times> PdcaCycleRow list" where
  "content_tables d = (db_goals d, db_goal_versions d, db_pdca_cycles d)"

definition others_view :: "pgUUID \<Rightarrow> Database \<Rightarrow> Database \<times> GoalRow list \<times> StoredVersionRow list \<times> PdcaCycleRow list" where
  "others_view user_id d = ((without_user user_id d)\<lparr>db_ai_budget_monthly := []\<rparr>, content_tables d)"

lemma filter_update:
  assumes "\<And>r. selected r \<Longrightarrow> \<not> P r \<and> \<not> P (change r)"
  shows "filter P (map (\<lambda>r. if selected r then change r else r) rows) = filter P rows"
  using assms by (induction rows) auto

lemma others_view_generations:
  assumes "\<And>g. selected g \<Longrightarrow> ge_UserID g = user_id" "\<And>g. ge_UserID (change g) = ge_UserID g"
  shows "keeps (others_view user_id) (update_generations selected change)"
  using assms filter_update[of selected "\<lambda>g. ge_UserID g \<noteq> user_id" change]
  by (auto simp: keeps_def others_view_def content_tables_def without_user_def update_generations_def update_rows_def Let_def)

lemma others_view_budget: "keeps (others_view user_id) (update_budget selected change)"
  by (auto simp: keeps_def others_view_def content_tables_def without_user_def update_budget_def update_rows_def Let_def)

lemma others_view_usages:
  assumes "\<And>d u. selected d u \<Longrightarrow> us_UserID u = user_id"
  shows "keeps (others_view user_id)
    (\<lambda>d. Inr (n d, d\<lparr>db_ai_usage_events := filter (\<lambda>u. \<not> selected d u) (db_ai_usage_events d)\<rparr>))"
proof -
  have "filter (\<lambda>u. us_UserID u \<noteq> user_id) (filter (\<lambda>u. \<not> selected d u) (db_ai_usage_events d)) =
      filter (\<lambda>u. us_UserID u \<noteq> user_id) (db_ai_usage_events d)" for d
    using assms by (auto intro: filter_cong)
  then show ?thesis by (auto simp: keeps_def others_view_def content_tables_def without_user_def simp del: filter_filter)
qed

lemma settle_keeps_others:
  assumes "user_id \<noteq> None"
  shows "keeps (others_view user_id) (settle_deleted_exposure scan user_id now generations released monthly)"
proof -
  have "keeps (others_view user_id) (ReleaseAccountGenerationReservationCAS scan user_id g)" for g
    unfolding ReleaseAccountGenerationReservationCAS_def
    by (intro keeps_intros others_view_generations) (auto simp: account_generation_def sql_eq_def)
  moreover have "keeps (others_view user_id) (DeleteReleasedAccountUsageExposureCAS scan user_id u)" for u
    unfolding DeleteReleasedAccountUsageExposureCAS_def Let_def
    by (intro keeps_intros others_view_usages) (auto simp: unfinalized_usage_def sql_eq_def)
  ultimately show ?thesis
    unfolding settle_deleted_exposure_def MoveAccountExposureToUnattributedCAS_def
    by (intro keeps_intros others_view_budget)
qed

lemma DeleteAccount_without_user:
  assumes "store_DeleteAccount scan userID now d = Inr (r, d')" "content_keys d"
  shows "d' = (without_user (scan userID) d)\<lparr>db_ai_budget_monthly := db_ai_budget_monthly d'\<rparr>"
proof (rule DeleteAccount_Inr[OF assms(1)])
  fix generations released d1
  let ?user = "scan userID"
  assume settle: "settle_deleted_exposure scan ?user now generations released (list_monthly_exposures ?user d) d
      = Inr (der_UnattributedCostUSD r, d1)"
    and d': "d' = delete_user_rows ?user d1" and user: "?user \<noteq> None"
  have view: "others_view ?user d1 = others_view ?user d" by (rule keepsD[OF settle_keeps_others[OF user] settle])
  then have tables: "db_goals d1 = db_goals d" "db_goal_versions d1 = db_goal_versions d" "db_pdca_cycles d1 = db_pdca_cycles d"
    by (simp_all add: others_view_def content_tables_def)
  have same: "(without_user ?user d1)\<lparr>db_ai_budget_monthly := []\<rparr> = (without_user ?user d)\<lparr>db_ai_budget_monthly := []\<rparr>"
    using view by (simp add: others_view_def)
  from arg_cong[OF same, of "\<lambda>d. set (db_ai_usage_events d)"]
  have usages: "u \<in> set (db_ai_usage_events d)" if "u \<in> set (db_ai_usage_events d1)" "us_UserID u \<noteq> ?user" for u
    using that by (auto simp: without_user_def)
  have goals: "deleted_goal d1 = deleted_goal d" by (simp add: fun_eq_iff deleted_goal_def tables)
  have "delete_user_rows ?user d1 = without_user ?user d1"
  proof (rule delete_user_rows_spec[OF user])
    fix u assume "u \<in> set (db_ai_usage_events d1)" "us_UserID u \<noteq> ?user"
    then show "\<not> deleted_goal d1 ?user ?user (us_GoalID u)"
      using usages[of u] assms(2) by (auto simp: goals deleted_goal_def list_ex_iff content_keys_def sql_eq_known[OF user])
  qed (use assms(2) deleted_goal_iff in \<open>auto simp: goals tables content_keys_def\<close>)
  moreover have "(without_user ?user d1)\<lparr>db_ai_budget_monthly := b\<rparr> = (without_user ?user d)\<lparr>db_ai_budget_monthly := b\<rparr>" for b
    using arg_cong[OF same, of "\<lambda>d. d\<lparr>db_ai_budget_monthly := b\<rparr>"] by simp
  ultimately show "d' = (without_user ?user d)\<lparr>db_ai_budget_monthly := db_ai_budget_monthly d'\<rparr>"
    by (simp add: d')
       (metis Database.surjective Database.update_convs(14))
qed

subsection \<open>The properties\<close>

text \<open>[C30] Deleting an account removes everything of the User and nothing else: afterwards the database is the
  one before without the rows of the User and the rows that hang on them, in every table but the
  budget, whatever generations were running and whatever operations were unsettled.\<close>

theorem account_deletion_erases:
  assumes "uc_DeleteAccount (store_AccountRepository scan) now userID confirmed d = (Inr (), d')" "content_keys d"
  shows "d' = (without_user (scan userID) d)\<lparr>db_ai_budget_monthly := db_ai_budget_monthly d'\<rparr>"
  by (rule uc_DeleteAccount_committed[OF assms(1)]) (rule DeleteAccount_without_user[OF _ assms(2)])

text \<open>[C31] Deleting an account loses no cost: the reservations of the User's running generations leave the
  reserved total, they and the exposures of its other unsettled operations become unattributed
  costs, the actual costs stay, and no month can afford more than before.\<close>

theorem account_deletion_keeps_costs:
  assumes "uc_DeleteAccount (store_AccountRepository scan) now userID confirmed d = (Inr (), d')"
    and "ledger_keys d" "amounts_ok d"
  shows "reserved_total d' = reserved_total d - running_reserved (scan userID) d \<and>
    unattributed_total d' = unattributed_total d + running_reserved (scan userID) d + released_cost (scan userID) d \<and>
    actual_total d' = actual_total d \<and> (\<forall>month. exposure_of d month \<le> exposure_of d' month)"
proof (rule uc_DeleteAccount_committed[OF assms(1)])
  fix r assume "store_DeleteAccount scan userID (utc now) d = Inr (r, d')"
  then show ?thesis
  proof (rule DeleteAccount_Inr)
    fix generations released d1
    assume settle: "settle_deleted_exposure scan (scan userID) (utc now) generations released
        (list_monthly_exposures (scan userID) d) d = Inr (der_UnattributedCostUSD r, d1)"
      and "d' = delete_user_rows (scan userID) d1"
    then have "db_ai_budget_monthly d' = db_ai_budget_monthly d1" by (simp add: delete_user_rows_def Let_def)
    then have "reserved_total d' = reserved_total d1" "unattributed_total d' = unattributed_total d1"
      "actual_total d' = actual_total d1" "exposure_of d' month = exposure_of d1 month" for month
      by (simp_all add: reserved_total_def unattributed_total_def actual_total_def exposure_of_def)
    then show ?thesis using settle_deleted_exposure_effect[OF settle assms(2,3)] by simp
  qed
qed

subsection \<open>A concrete deletion\<close>

definition sample_month :: pgTimestamptz where
  "sample_month = \<lparr>tz_Time = \<lparr>nanos = 0, loc = UTC\<rparr>, tz_InfinityModifier = Finite, tz_Valid = True\<rparr>"

definition sample_generation_row :: GenerationRow where
  "sample_generation_row =
     \<lparr>ge_ID = Some ''r'', ge_UserID = Some ''a'', ge_OperationType = ''goal_refine'', ge_Status = ''running'',
      ge_SourceGoalDraftID = None, ge_GoalID = None, ge_GoalVersionID = None, ge_CycleID = None, ge_TargetRevision = 0,
      ge_IdempotencyKey = None, ge_IdempotencyRequestHash = [], ge_CanonicalProviderInputHash = [],
      ge_SourceText = None, ge_Output = None, ge_ContextCycleIDs = [], ge_Provider = [], ge_Model = [],
      ge_PromptVersion = [], ge_InputTokens = None, ge_OutputTokens = None, ge_EstimatedCostUSD = None,
      ge_BudgetMonthUtc = sample_month, ge_BudgetReservedCostUSD = 3, ge_AttemptCount = 0, ge_FailureCode = None,
      ge_ProviderRequestID = None, ge_LeaseExpiresAt = sample_stamp, ge_ContextChanged = False,
      ge_AdoptedAt = null_Timestamptz, ge_AdoptedDraftRevision = None, ge_AppliedAt = null_Timestamptz,
      ge_StartedAt = sample_stamp, ge_FinishedAt = null_Timestamptz\<rparr>"

definition sample_usage_row :: "string \<Rightarrow> rat \<Rightarrow> UsageRow" where
  "sample_usage_row operationID amount =
     \<lparr>us_OperationID = Some operationID, us_UserID = Some ''a'', us_GoalID = None, us_OperationType = ''goal_refine'',
      us_Status = ''accepted'', us_Provider = [], us_Model = [], us_PromptVersion = [], us_AcceptedAt = sample_stamp,
      us_InputTokens = None, us_OutputTokens = None, us_EstimatedCostUSD = None,
      us_ProviderUsageFinalizedAt = null_Timestamptz, us_QuotaRetainUntil = sample_stamp, us_ContentDeleted = False,
      us_SettlementBudgetMonthUtc = sample_month, us_SettlementReservationCostUSD = Some amount\<rparr>"

text \<open>A running generation with its usage event, and an operation whose generation has gone.\<close>

definition sample_deletion_database :: Database where
  "sample_deletion_database = sample_database
     \<lparr>db_ai_generations := [sample_generation_row],
      db_ai_usage_events := [sample_usage_row ''r'' 3, sample_usage_row ''s'' 2],
      db_ai_budget_monthly := [\<lparr>bu_MonthUtc = sample_month, bu_ReservedCostUSD = 5, bu_ActualCostUSD = 1,
        bu_UnattributedCostUSD = 0, bu_UpdatedAt = sample_stamp\<rparr>]\<rparr>"

lemma eight_decimals_numeral [simp]: "eight_decimals (numeral n)" "eight_decimals 1"
  by (simp_all add: eight_decimals_def)

lemma sample_deletion:
  "\<exists>d. uc_DeleteAccount (store_AccountRepository Some) sample_time ''a'' True sample_deletion_database = (Inr (), d)"
  by (simp add: uc_DeleteAccount_def store_DeleteAccount_def settle_deleted_exposure_def
      ReleaseAccountGenerationReservationCAS_def MoveAccountExposureToUnattributedCAS_def
      DeleteReleasedAccountUsageExposureCAS_def DeleteAccountUserCAS_def list_monthly_exposures_def month_exposures_def
      account_generation_def unfinalized_usage_def has_running_generation_def generation_exposure_def
      usage_exposure_def usage_exposure_row_def accountExposureDate_def accountDateParam_def one_row_or_def numeric_param_def
      numeric_text_read eight_decimals_arith update_generations_def update_budget_def tz_eq_def time_equal_def
      utc_def truncate_time_def sample_month_def sample_generation_row_def sample_usage_row_def
      sample_deletion_database_def null_Timestamptz_def run_auth run_monad sample_user_row_def sample_database_def
      cong: tx_bind_weak rbind_weak del: rbind_eq_Inr tx_bind_Inr)

theorem account_deletion_erases_witness:
  "\<exists>d. uc_DeleteAccount (store_AccountRepository Some) sample_time ''a'' True sample_deletion_database = (Inr (), d) \<and>
     db_ai_generations d = [] \<and> db_ai_usage_events d = [] \<and> map ur_ID (db_users d) = [Some ''z''] \<and>
     map gr_ID (db_goals d) = [Some ''y'']"
proof -
  obtain d where d: "uc_DeleteAccount (store_AccountRepository Some) sample_time ''a'' True sample_deletion_database =
      (Inr (), d)"
    using sample_deletion by blast
  have "content_keys sample_deletion_database"
    by (simp add: content_keys_def sample_deletion_database_def sample_database_def sample_goal_row_def
        sample_cycle_row_def sample_usage_row_def)
  from account_deletion_erases[OF d this]
  have "d = (without_user (Some ''a'') sample_deletion_database)\<lparr>db_ai_budget_monthly := db_ai_budget_monthly d\<rparr>" .
  from arg_cong[OF this, of db_ai_generations] arg_cong[OF this, of db_ai_usage_events]
    arg_cong[OF this, of db_users] arg_cong[OF this, of db_goals]
  show ?thesis using d
    by (simp add: without_user_def sample_deletion_database_def sample_database_def sample_user_row_def
        sample_generation_row_def sample_usage_row_def sample_goal_row_def)
qed

theorem account_deletion_keeps_costs_witness:
  "\<exists>d. uc_DeleteAccount (store_AccountRepository Some) sample_time ''a'' True sample_deletion_database = (Inr (), d) \<and>
     reserved_total d = 2 \<and> unattributed_total d = 5 \<and> actual_total d = 1"
proof -
  obtain d where d: "uc_DeleteAccount (store_AccountRepository Some) sample_time ''a'' True sample_deletion_database =
      (Inr (), d)"
    using sample_deletion by blast
  have keys: "ledger_keys sample_deletion_database" "amounts_ok sample_deletion_database"
    by (simp_all add: ledger_keys_def amounts_ok_def sample_deletion_database_def sample_month_def sample_usage_row_def
        sample_generation_row_def)
  show ?thesis using account_deletion_keeps_costs[OF d keys] d
    by (simp add: reserved_total_def unattributed_total_def actual_total_def running_reserved_def released_cost_def
        account_generation_def unfinalized_usage_def has_running_generation_def sample_deletion_database_def
        sample_generation_row_def sample_usage_row_def null_Timestamptz_def)
qed

end
