(* ===== verification/GoalDeletion.thy ===== *)
theory GoalDeletion
  imports GoalStore AccountDeletion
begin

section \<open>Deleting a Goal\<close>

text \<open>
  What \<open>DeleteGoalWithResult\<close> does to the database when it runs on the PostgreSQL adapter: every row
  that refers to the Goal goes, its usage events are redacted while the quota needs them and deleted
  afterwards, the reservations of its running generations are released, and a receipt makes a retry a
  replay.
\<close>

subsection \<open>The statements\<close>

lemma committed_iff: "commit_or_rollback m d = (Inr x, d') \<longleftrightarrow> m d = Inr (x, d')"
  by (auto simp: commit_or_rollback_def split: sum.splits prod.splits)

lemma goal_read_Inr [simp]: "goal_read f d = Inr (x, d') \<longleftrightarrow> x = f d \<and> d' = d"
  by (auto simp: goal_read_def)

lemma uuid_array_Inr [simp]:
  "uuid_array scan vs s = Inr (us, t) \<longleftrightarrow> (\<forall>v\<in>set vs. scan v \<noteq> None) \<and> us = map scan vs \<and> t = s"
  by (induction vs arbitrary: s us) (auto simp: tx_return_def)

lemma numeric_param_Inr [simp]: "numeric_param v s = Inr (r, t) \<longleftrightarrow> rat_SetString v = Some r \<and> t = s"
  by (auto simp: numeric_param_def tx_return_def split: option.splits)

text \<open>The locks answer and leave the database as it is.\<close>

definition read_answer :: "('s, 'a) tx \<Rightarrow> 's \<Rightarrow> workspace_error + 'a" where
  "read_answer m s = rbind (m s) (\<lambda>(x, _). Inr x)"

lemma read_answer_iff: "keeps (\<lambda>s. s) m \<Longrightarrow> m s = Inr (x, t) \<longleftrightarrow> t = s \<and> read_answer m s = Inr x"
  by (auto simp: keeps_def read_answer_def)

lemma keeps_goal_read [keeps_intros]: "keeps f (goal_read g)"
  by (simp add: keeps_def)

lemma goal_reads:
  "keeps f (gos_LockUser scan u)" "keeps f (gos_FindGoalDeleteReceipt scan u k)"
  "keeps f (gos_LockGoalForDelete scan u g)" "keeps f (gos_LockGoalDraftIDs scan u g)"
  "keeps f (gos_LockGoalCycleIDs scan u g)" "keeps f (gos_LockRunningGoalGenerations scan u g)"
  "keeps f (gos_SumLockedGoalReservationsByMonth scan u g ids)" "keeps f (gos_LockGoalUsages scan u g)"
  unfolding gos_LockUser_def gos_FindGoalDeleteReceipt_def gos_LockGoalForDelete_def gos_LockGoalDraftIDs_def
    gos_LockGoalCycleIDs_def gos_LockRunningGoalGenerations_def gos_SumLockedGoalReservationsByMonth_def
    gos_LockGoalUsages_def
  by (intro keeps_intros)+

lemmas goal_answers = goal_reads[THEN read_answer_iff]

definition redacted_usage :: "UsageRow \<Rightarrow> UsageRow" where
  "redacted_usage u =
     u\<lparr>us_GoalID := None, us_Status := (if us_Status u = ''accepted'' then ''failed'' else us_Status u),
       us_ContentDeleted := True\<rparr>"

definition redact_usages :: "(UsageRow \<Rightarrow> bool) \<Rightarrow> Database \<Rightarrow> Database" where
  "redact_usages P d = d\<lparr>db_ai_usage_events := map (\<lambda>u. if P u then redacted_usage u else u) (db_ai_usage_events d)\<rparr>"

lemma goal_ops:
  "gt_LockUser (store_GoalTx scan) = gos_LockUser scan"
  "gt_FindGoalDeleteReceipt (store_GoalTx scan) = gos_FindGoalDeleteReceipt scan"
  "gt_LockGoalForDelete (store_GoalTx scan) = gos_LockGoalForDelete scan"
  "gt_LockGoalDraftIDs (store_GoalTx scan) = gos_LockGoalDraftIDs scan"
  "gt_LockGoalCycleIDs (store_GoalTx scan) = gos_LockGoalCycleIDs scan"
  "gt_LockRunningGoalGenerations (store_GoalTx scan) = gos_LockRunningGoalGenerations scan"
  "gt_LockGoalUsages (store_GoalTx scan) = gos_LockGoalUsages scan"
  "gt_SumLockedGoalReservationsByMonth (store_GoalTx scan) = gos_SumLockedGoalReservationsByMonth scan"
  "gt_ReleaseGoalBudgetReservationCAS (store_GoalTx scan) = gos_ReleaseGoalBudgetReservationCAS"
  "gt_TerminalizeGoalGenerationCAS (store_GoalTx scan) = gos_TerminalizeGoalGenerationCAS scan"
  "gt_FailRunningGoalUsageCAS (store_GoalTx scan) = gos_FailRunningGoalUsageCAS scan"
  "gt_RedactGoalUsagesCAS (store_GoalTx scan) = gos_RedactGoalUsagesCAS scan"
  "gt_DeleteExpiredFinalizedGoalUsagesCAS (store_GoalTx scan) = gos_DeleteExpiredFinalizedGoalUsagesCAS scan"
  "gt_DeleteGoalCAS (store_GoalTx scan) = gos_DeleteGoalCAS scan"
  "gt_InsertGoalDeleteReceipt (store_GoalTx scan) = gos_InsertGoalDeleteReceipt scan"
  by (simp_all add: store_GoalTx_def)

text \<open>A deletion that was carried out, step by step.\<close>

lemma delete_goal_rows_Inr:
  assumes "delete_goal_rows (store_GoalTx scan) rat_sign now userID goalID revision key hash d = Inr (result, d')"
  shows "\<exists>generations monthly d1 d2 usages redacted deleted d3 d4 d5.
     read_answer (gos_LockRunningGoalGenerations scan userID goalID) d = Inr generations \<and>
     read_answer (gos_SumLockedGoalReservationsByMonth scan userID goalID (map gdg_ID generations)) d = Inr monthly \<and>
     release_reservations (store_GoalTx scan) now monthly d = Inr ((), d1) \<and>
     terminalize_generations (store_GoalTx scan) now userID goalID generations d1 = Inr ((), d2) \<and>
     read_answer (gos_LockGoalUsages scan userID goalID) d2 = Inr usages \<and>
     partitionGoalDeleteUsages usages now = Inr (redacted, deleted) \<and>
     (if redacted = [] then d3 = d2 else \<exists>n. gos_RedactGoalUsagesCAS scan userID goalID redacted d2 = Inr (n, d3)) \<and>
     (if deleted = [] then d4 = d3
      else \<exists>n. gos_DeleteExpiredFinalizedGoalUsagesCAS scan userID goalID deleted now d3 = Inr (n, d4)) \<and>
     gos_DeleteGoalCAS scan userID goalID revision d4 = Inr (1, d5) \<and>
     gos_InsertGoalDeleteReceipt scan
       \<lparr>gdrr_UserID = userID, gdrr_IdempotencyKey = key, gdrr_GoalID = goalID, gdrr_RequestHash = hash,
        gdrr_DeletedAt = now, gdrr_ExpiresAt = now\<lparr>nanos := nanos now + goalDeleteReceiptTTL\<rparr>\<rparr> d5 = Inr (1, d') \<and>
     \<not> gdres_Replayed result"
  using assms
  by (auto simp: delete_goal_rows_def goal_ops goal_answers split: if_splits)

subsection \<open>Stage by stage\<close>

lemma release_keeps: "keeps (\<lambda>d. d\<lparr>db_ai_budget_monthly := []\<rparr>) (release_reservations (store_GoalTx scan) now monthly)"
proof (induction monthly)
  case (Cons m monthly)
  have "keeps (\<lambda>d. d\<lparr>db_ai_budget_monthly := []\<rparr>) (update_budget P change)" for P change
    by (auto simp: keeps_def update_budget_def update_rows_def)
  then have "keeps (\<lambda>d. d\<lparr>db_ai_budget_monthly := []\<rparr>) (gos_ReleaseGoalBudgetReservationCAS month amount now)" for month amount
    unfolding gos_ReleaseGoalBudgetReservationCAS_def by (intro keeps_intros) (simp_all add: keeps_def)
  then show ?case unfolding release_reservations.simps goal_ops by (intro keeps_intros Cons.IH)
qed (simp add: keeps_def tx_return_def)

text \<open>The running generations and their usage events.\<close>

definition open_goal_usage :: "pgUUID \<Rightarrow> pgUUID \<Rightarrow> UsageRow \<Rightarrow> bool" where
  "open_goal_usage user_id goal_id u \<longleftrightarrow>
     goal_usage user_id goal_id u \<and> us_Status u = ''accepted'' \<and> \<not> tz_Valid (us_ProviderUsageFinalizedAt u)"

definition generation_owner :: "GenerationRow \<Rightarrow> pgUUID \<times> pgUUID" where
  "generation_owner g = (ge_UserID g, ge_GoalID g)"

definition terminalized :: "pgUUID \<Rightarrow> pgUUID \<Rightarrow> Database \<Rightarrow> Database \<Rightarrow> bool" where
  "terminalized user_id goal_id d d' \<longleftrightarrow>
     (\<exists>P rows. d' = (redact_usages P d)\<lparr>db_ai_generations := rows\<rparr> \<and>
        (\<forall>u. P u \<longrightarrow> open_goal_usage user_id goal_id u) \<and>
        map generation_owner rows = map generation_owner (db_ai_generations d) \<and>
        filter (\<lambda>g. \<not> sql_eq (ge_GoalID g) goal_id) rows =
          filter (\<lambda>g. \<not> sql_eq (ge_GoalID g) goal_id) (db_ai_generations d))"

lemma terminalized_refl: "terminalized user_id goal_id d d"
  unfolding terminalized_def
  by (rule exI[of _ "\<lambda>_. False"], rule exI[of _ "db_ai_generations d"]) (simp add: redact_usages_def)

lemma not_goal_usage_redacted [simp]: "\<not> goal_usage user_id goal_id (redacted_usage u)"
  by (simp add: goal_usage_def redacted_usage_def)

lemma redact_usages_twice:
  assumes "\<And>u. Q u \<Longrightarrow> goal_usage user_id goal_id u"
  shows "redact_usages Q (redact_usages P d) = redact_usages (\<lambda>u. P u \<or> Q u) d"
proof -
  have "Q (redacted_usage u) = False" for u using assms not_goal_usage_redacted by blast
  then show ?thesis by (auto simp: redact_usages_def comp_def)
qed

lemma terminalized_trans:
  assumes "terminalized user_id goal_id d d1" "terminalized user_id goal_id d1 d2"
  shows "terminalized user_id goal_id d d2"
proof -
  from assms(1) obtain P rows where d1: "d1 = (redact_usages P d)\<lparr>db_ai_generations := rows\<rparr>"
    "\<forall>u. P u \<longrightarrow> open_goal_usage user_id goal_id u"
    "map generation_owner rows = map generation_owner (db_ai_generations d)"
    "filter (\<lambda>g. \<not> sql_eq (ge_GoalID g) goal_id) rows =
      filter (\<lambda>g. \<not> sql_eq (ge_GoalID g) goal_id) (db_ai_generations d)"
    unfolding terminalized_def by blast
  from assms(2) obtain Q rows' where d2: "d2 = (redact_usages Q d1)\<lparr>db_ai_generations := rows'\<rparr>"
    "\<forall>u. Q u \<longrightarrow> open_goal_usage user_id goal_id u"
    "map generation_owner rows' = map generation_owner (db_ai_generations d1)"
    "filter (\<lambda>g. \<not> sql_eq (ge_GoalID g) goal_id) rows' =
      filter (\<lambda>g. \<not> sql_eq (ge_GoalID g) goal_id) (db_ai_generations d1)"
    unfolding terminalized_def by blast
  have "redact_usages Q ((redact_usages P d)\<lparr>db_ai_generations := rows\<rparr>) =
      (redact_usages Q (redact_usages P d))\<lparr>db_ai_generations := rows\<rparr>"
    by (simp add: redact_usages_def)
  also have "redact_usages Q (redact_usages P d) = redact_usages (\<lambda>u. P u \<or> Q u) d"
    using d2(2) by (intro redact_usages_twice) (auto simp: open_goal_usage_def)
  finally have "d2 = (redact_usages (\<lambda>u. P u \<or> Q u) d)\<lparr>db_ai_generations := rows'\<rparr>"
    using d2(1) d1(1) by simp
  moreover have "db_ai_generations d1 = rows" by (simp add: d1(1))
  ultimately show ?thesis unfolding terminalized_def
    using d1(2,3,4) d2(2,3,4) by (intro exI[of _ "\<lambda>u. P u \<or> Q u"] exI[of _ rows']) auto
qed

lemma TerminalizeGoalGeneration_effect:
  assumes "gos_TerminalizeGoalGenerationCAS scan userID goalID generation now d = Inr (n, d')"
  shows "terminalized (scan userID) (scan goalID) d d'"
proof -
  from assms obtain r where upd: "update_generations
       (\<lambda>g. sql_eq (ge_ID g) (scan (gdg_ID generation)) \<and> goal_generation (scan userID) (scan goalID) g \<and>
            ge_BudgetReservedCostUSD g = r)
       (\<lambda>g. g\<lparr>ge_Status := ''failed'', ge_FailureCode := Some ''goal_deleted'', ge_BudgetReservedCostUSD := 0,
             ge_LeaseExpiresAt := null_Timestamptz, ge_FinishedAt := stored_at now\<rparr>) d = Inr (n, d')"
    (is "update_generations ?sel ?change d = _") by (auto simp: gos_TerminalizeGoalGenerationCAS_def)
  let ?rows = "map (\<lambda>g. if ?sel g then ?change g else g) (db_ai_generations d)"
  from upd have d': "d' = (redact_usages (\<lambda>_. False) d)\<lparr>db_ai_generations := ?rows\<rparr>"
    by (auto simp: update_generations_def update_rows_def redact_usages_def)
  have "map generation_owner ?rows = map generation_owner (db_ai_generations d)"
    by (rule map_update_key) (simp add: generation_owner_def)
  moreover have "filter (\<lambda>g. \<not> sql_eq (ge_GoalID g) (scan goalID)) ?rows =
      filter (\<lambda>g. \<not> sql_eq (ge_GoalID g) (scan goalID)) (db_ai_generations d)"
    by (rule filter_update) (simp add: goal_generation_def)
  ultimately show ?thesis unfolding terminalized_def using d' by blast
qed

lemma FailRunningGoalUsage_effect:
  assumes "gos_FailRunningGoalUsageCAS scan userID goalID operationID d = Inr (n, d')"
  shows "terminalized (scan userID) (scan goalID) d d'"
proof -
  let ?P = "\<lambda>u. sql_eq (us_OperationID u) (scan operationID) \<and> open_goal_usage (scan userID) (scan goalID) u"
  have "d' = redact_usages ?P d"
    using assms by (auto simp: gos_FailRunningGoalUsageCAS_def update_usages_def update_rows_def redact_usages_def
        redacted_usage_def open_goal_usage_def intro!: arg_cong[of _ _ "\<lambda>rows. d\<lparr>db_ai_usage_events := rows\<rparr>"])
  then show ?thesis unfolding terminalized_def
    by (intro exI[of _ ?P] exI[of _ "db_ai_generations d"]) (simp add: redact_usages_def)
qed

lemma terminalize_effect:
  "terminalize_generations (store_GoalTx scan) now userID goalID generations d = Inr (u, d') \<Longrightarrow>
   terminalized (scan userID) (scan goalID) d d'"
proof (induction generations arbitrary: d)
  case (Cons g generations)
  from Cons.prems obtain n d1 m d2 where steps:
    "gos_TerminalizeGoalGenerationCAS scan userID goalID g now d = Inr (n, d1)"
    "gos_FailRunningGoalUsageCAS scan userID goalID (gdg_ID g) d1 = Inr (m, d2)"
    "terminalize_generations (store_GoalTx scan) now userID goalID generations d2 = Inr (u, d')"
    by (auto simp: goal_ops)
  from terminalized_trans[OF FailRunningGoalUsage_effect[OF steps(2)] Cons.IH[OF steps(3)]]
  show ?case by (rule terminalized_trans[OF TerminalizeGoalGeneration_effect[OF steps(1)]])
qed (simp add: tx_return_def terminalized_refl)

text \<open>The usage events that are left: kept without content while the quota needs them.\<close>

definition quota_open :: "gotime \<Rightarrow> UsageRow \<Rightarrow> bool" where
  "quota_open now u \<longleftrightarrow>
     nanos now < nanos (tz_Time (us_QuotaRetainUntil u)) \<or> \<not> tz_Valid (us_ProviderUsageFinalizedAt u)"

text \<open>The identifiers are in the form the adapter writes, the quota deadlines have whole microseconds.\<close>

definition canonical_usages :: "(string \<Rightarrow> string option) \<Rightarrow> Database \<Rightarrow> bool" where
  "canonical_usages scan d \<longleftrightarrow> (\<forall>u\<in>set (db_ai_usage_events d).
     (\<forall>x. us_OperationID u = Some x \<longrightarrow> scan x = Some x) \<and>
     nanos (tz_Time (us_QuotaRetainUntil u)) mod microsecond = 0)"

lemma map_rows_Inr: "map_rows f rows = Inr xs \<longleftrightarrow> (\<forall>r\<in>set rows. \<exists>x. f r = Inr x) \<and> xs = map (\<lambda>r. projr (f r)) rows"
proof (induction rows arbitrary: xs)
  case (Cons r rows)
  then show ?case by (cases "f r") auto
qed auto

lemma usage_ids_Inr:
  "usage_ids_from seen usages = Inr ids \<Longrightarrow>
     ids = map gdu_OperationID usages \<and> distinct ids \<and> set ids \<inter> set seen = {}"
  by (induction usages arbitrary: seen ids) (fastforce split: if_splits)+

lemma partition_Inr:
  assumes "partitionGoalDeleteUsages usages now = Inr (redacted, deleted)"
  shows "distinct (map gdu_OperationID usages)"
    "redacted = map gdu_OperationID (filter (goal_usage_retained now) usages)"
    "deleted = map gdu_OperationID (filter (\<lambda>u. \<not> goal_usage_retained now u) usages)"
  using assms usage_ids_Inr[of "[]" usages]
  by (auto simp: partitionGoalDeleteUsages_def split: if_splits)

lemma usage_row_Inr:
  assumes "goalDeleteUsageFromSQLC u = Inr x"
  shows "us_OperationID u = Some (gdu_OperationID x)" "tz_Valid (us_QuotaRetainUntil u)"
    "goal_usage_retained now x \<longleftrightarrow> quota_open now u"
  using assms
  by (auto simp: goalDeleteUsageFromSQLC_def finiteGoalDeleteTimestamptz_def uuidString_def goal_usage_retained_def
      quota_open_def time_before_def utc_def Let_def split: option.splits if_splits)

lemma locked_usages:
  assumes lock: "read_answer (gos_LockGoalUsages scan userID goalID) d = Inr usages"
    and part: "partitionGoalDeleteUsages usages now = Inr (redacted, deleted)"
    and ids: "\<forall>u\<in>set (db_ai_usage_events d). \<forall>x. us_OperationID u = Some x \<longrightarrow> scan x = Some x"
    and u: "u \<in> set (db_ai_usage_events d)" "goal_usage (scan userID) (scan goalID) u"
  shows "tz_Valid (us_QuotaRetainUntil u)" "us_OperationID u \<in> scan ` set redacted \<longleftrightarrow> quota_open now u"
    "us_OperationID u \<in> scan ` set deleted \<longleftrightarrow> \<not> quota_open now u"
proof -
  let ?f = goalDeleteUsageFromSQLC
  let ?rows = "sort_key (\<lambda>u. uuidString (us_OperationID u))
    (filter (goal_usage (scan userID) (scan goalID)) (db_ai_usage_events d))"
  have rows: "map_rows ?f ?rows = Inr usages"
    using lock by (auto simp: read_answer_def gos_LockGoalUsages_def mustUUID_def tx_bind_def goal_read_def tx_lift_def
        tx_return_def tx_fail_def split: option.splits sum.splits)
  then have usages: "usages = map (\<lambda>r. projr (?f r)) ?rows" and ok: "\<And>v. v \<in> set ?rows \<Longrightarrow> ?f v = Inr (projr (?f v))"
    unfolding map_rows_Inr by auto
  have in_rows: "u \<in> set ?rows" using u by simp
  note row = usage_row_Inr[OF ok]
  show "tz_Valid (us_QuotaRetainUntil u)" by (rule row(2)[OF in_rows])
  have id: "us_OperationID v = Some (gdu_OperationID (projr (?f v)))"
    "scan (gdu_OperationID (projr (?f v))) = Some (gdu_OperationID (projr (?f v)))" if "v \<in> set ?rows" for v
    using row(1)[OF that] ids that by auto
  have inj: "inj_on (\<lambda>v. gdu_OperationID (projr (?f v))) (set ?rows)"
    using partition_Inr(1)[OF part] unfolding usages by (simp add: distinct_map comp_def)
  have mem: "us_OperationID u \<in> scan ` gdu_OperationID ` set (filter Q usages) \<longleftrightarrow> Q (projr (?f u))" for Q
  proof
    assume "us_OperationID u \<in> scan ` gdu_OperationID ` set (filter Q usages)"
    then obtain v where v: "v \<in> set ?rows" "Q (projr (?f v))" "us_OperationID u = scan (gdu_OperationID (projr (?f v)))"
      unfolding usages by auto
    then have "gdu_OperationID (projr (?f u)) = gdu_OperationID (projr (?f v))"
      using id(1)[OF in_rows] id(2)[OF v(1)] by simp
    then have "u = v" using inj_onD[OF inj] in_rows v(1) by blast
    then show "Q (projr (?f u))" using v(2) by simp
  next
    assume "Q (projr (?f u))"
    then have "projr (?f u) \<in> set (filter Q usages)" using in_rows by (simp add: usages)
    moreover have "us_OperationID u = scan (gdu_OperationID (projr (?f u)))" using id[OF in_rows] by simp
    ultimately show "us_OperationID u \<in> scan ` gdu_OperationID ` set (filter Q usages)" by blast
  qed
  show "us_OperationID u \<in> scan ` set redacted \<longleftrightarrow> quota_open now u"
    using mem[of "goal_usage_retained now"] row(3)[OF in_rows] partition_Inr(2)[OF part]
    by simp
  show "us_OperationID u \<in> scan ` set deleted \<longleftrightarrow> \<not> quota_open now u"
    using mem[of "\<lambda>x. \<not> goal_usage_retained now x"] row(3)[OF in_rows] partition_Inr(3)[OF part]
    by simp
qed

subsection \<open>The rows of a Goal\<close>

text \<open>
  What the deletion is for: the database without the rows that refer to a Goal.  Its usage events stay,
  without the reference, as long as the quota counts them or their usage is not final.
\<close>

definition without_goal :: "pgUUID \<Rightarrow> gotime \<Rightarrow> Database \<Rightarrow> Database" where
  "without_goal goal_id now d =
     d\<lparr>db_goals := filter (\<lambda>g. \<not> sql_eq (gr_ID g) goal_id) (db_goals d),
       db_goal_versions := filter (\<lambda>v. \<not> sql_eq (sv_GoalID v) goal_id) (db_goal_versions d),
       db_goal_version_success_signals := filter (\<lambda>s.
         \<forall>v\<in>set (db_goal_versions d). sql_eq (sv_GoalID v) goal_id \<longrightarrow> \<not> sql_eq (sv_ID v) (fst s))
         (db_goal_version_success_signals d),
       db_pdca_cycles := filter (\<lambda>c. \<not> sql_eq (pc_GoalID c) goal_id) (db_pdca_cycles d),
       db_pdca_cycle_review_schedules := filter (\<lambda>s.
         \<forall>c\<in>set (db_pdca_cycles d). sql_eq (pc_GoalID c) goal_id \<longrightarrow> \<not> sql_eq (pc_ID c) (sch_CycleID s))
         (db_pdca_cycle_review_schedules d),
       db_goal_drafts := filter (\<lambda>r. \<not> sql_eq (sd_GoalID r) goal_id) (db_goal_drafts d),
       db_goal_draft_success_signals := filter (\<lambda>s.
         \<forall>r\<in>set (db_goal_drafts d). sql_eq (sd_GoalID r) goal_id \<longrightarrow> \<not> sql_eq (sd_ID r) (fst s))
         (db_goal_draft_success_signals d),
       db_ai_generations := filter (\<lambda>g. \<not> sql_eq (ge_GoalID g) goal_id) (db_ai_generations d),
       db_ai_usage_events := map (\<lambda>u. if sql_eq (us_GoalID u) goal_id then redacted_usage u else u)
         (filter (\<lambda>u. sql_eq (us_GoalID u) goal_id \<longrightarrow> quota_open now u) (db_ai_usage_events d))\<rparr>"

text \<open>A row that refers to a Goal belongs to the User of the Goal.\<close>

definition goal_owners :: "Database \<Rightarrow> bool" where
  "goal_owners d \<longleftrightarrow> (\<forall>g\<in>set (db_goals d).
     (\<forall>h\<in>set (db_goals d). sql_eq (gr_ID h) (gr_ID g) \<longrightarrow> gr_UserID h = gr_UserID g) \<and>
     (\<forall>v\<in>set (db_goal_versions d). sql_eq (sv_GoalID v) (gr_ID g) \<longrightarrow> sv_UserID v = gr_UserID g) \<and>
     (\<forall>c\<in>set (db_pdca_cycles d). sql_eq (pc_GoalID c) (gr_ID g) \<longrightarrow> pc_UserID c = gr_UserID g) \<and>
     (\<forall>r\<in>set (db_goal_drafts d). sql_eq (sd_GoalID r) (gr_ID g) \<longrightarrow> sd_UserID r = gr_UserID g) \<and>
     (\<forall>x\<in>set (db_ai_generations d). sql_eq (ge_GoalID x) (gr_ID g) \<longrightarrow> ge_UserID x = gr_UserID g) \<and>
     (\<forall>u\<in>set (db_ai_usage_events d). sql_eq (us_GoalID u) (gr_ID g) \<longrightarrow> us_UserID u = gr_UserID g))"

lemma cascade_spec:
  assumes user: "user_id \<noteq> None"
    and owners: "\<And>g. g \<in> set (db_goals d) \<Longrightarrow> sql_eq (gr_ID g) goal_id \<Longrightarrow> gr_UserID g = user_id"
      "\<And>v. v \<in> set (db_goal_versions d) \<Longrightarrow> sql_eq (sv_GoalID v) goal_id \<Longrightarrow> sv_UserID v = user_id"
      "\<And>c. c \<in> set (db_pdca_cycles d) \<Longrightarrow> sql_eq (pc_GoalID c) goal_id \<Longrightarrow> pc_UserID c = user_id"
      "\<And>r. r \<in> set (db_goal_drafts d) \<Longrightarrow> sql_eq (sd_GoalID r) goal_id \<Longrightarrow> sd_UserID r = user_id"
      "\<And>x. x \<in> set (db_ai_generations d) \<Longrightarrow> sql_eq (ge_GoalID x) goal_id \<Longrightarrow> ge_UserID x = user_id"
    and usages: "\<And>u. u \<in> set (db_ai_usage_events d) \<Longrightarrow> \<not> sql_eq (us_GoalID u) goal_id"
  shows "delete_goal_cascade goal_id user_id d = without_goal goal_id now d"
proof -
  let ?of = "\<lambda>owner goal. sql_eq owner user_id \<and> sql_eq goal goal_id"
  have known: "sql_eq owner user_id \<longleftrightarrow> owner = user_id" for owner by (rule sql_eq_known[OF user])
  have goals: "filter (\<lambda>g. \<not> owned_goal goal_id user_id g) (db_goals d) =
      filter (\<lambda>g. \<not> sql_eq (gr_ID g) goal_id) (db_goals d)"
    using owners(1) by (intro filter_cong) (auto simp: owned_goal_def known)
  have versions: "?of (sv_UserID v) (sv_GoalID v) \<longleftrightarrow> sql_eq (sv_GoalID v) goal_id" if "v \<in> set (db_goal_versions d)" for v
    using owners(2) that by (auto simp: known)
  have cycles: "?of (pc_UserID c) (pc_GoalID c) \<longleftrightarrow> sql_eq (pc_GoalID c) goal_id" if "c \<in> set (db_pdca_cycles d)" for c
    using owners(3) that by (auto simp: known)
  have drafts: "?of (sd_UserID r) (sd_GoalID r) \<longleftrightarrow> sql_eq (sd_GoalID r) goal_id" if "r \<in> set (db_goal_drafts d)" for r
    using owners(4) that by (auto simp: known)
  have generations: "filter (\<lambda>x. \<not> (?of (ge_UserID x) (ge_GoalID x) \<or> list_ex (\<lambda>v. ?of (sv_UserID v) (sv_GoalID v) \<and>
      sql_eq (sv_GoalID v) (ge_GoalID x) \<and> sql_eq (sv_ID v) (ge_GoalVersionID x)) (db_goal_versions d)))
      (db_ai_generations d) = filter (\<lambda>x. \<not> sql_eq (ge_GoalID x) goal_id) (db_ai_generations d)"
    using owners(5) user by (intro filter_cong) (auto simp: known list_ex_iff sql_eq_def)
  have kept: "map (\<lambda>u. if sql_eq (us_GoalID u) goal_id then u\<lparr>us_GoalID := None\<rparr> else u) (db_ai_usage_events d) =
      map (\<lambda>u. if sql_eq (us_GoalID u) goal_id then redacted_usage u else u)
        (filter (\<lambda>u. sql_eq (us_GoalID u) goal_id \<longrightarrow> quota_open now u) (db_ai_usage_events d))"
    using usages by (simp cong: filter_cong map_cong)
  have signals: "(\<lambda>(version_id, _). \<not> list_ex (\<lambda>v. ?of (sv_UserID v) (sv_GoalID v) \<and> sql_eq (sv_ID v) version_id)
      (db_goal_versions d)) = (\<lambda>s :: pgUUID \<times> string. \<forall>v\<in>set (db_goal_versions d).
        sql_eq (sv_GoalID v) goal_id \<longrightarrow> \<not> sql_eq (sv_ID v) (fst s))"
    using owners(2) by (auto simp: fun_eq_iff list_ex_iff known)
  have schedules: "(\<lambda>s. \<not> list_ex (\<lambda>c. ?of (pc_UserID c) (pc_GoalID c) \<and> sql_eq (pc_ID c) (sch_CycleID s))
      (db_pdca_cycles d)) = (\<lambda>s. \<forall>c\<in>set (db_pdca_cycles d).
        sql_eq (pc_GoalID c) goal_id \<longrightarrow> \<not> sql_eq (pc_ID c) (sch_CycleID s))"
    using owners(3) by (auto simp: fun_eq_iff list_ex_iff known)
  have draft_signals: "(\<lambda>(draft_id, _). \<not> list_ex (\<lambda>r. ?of (sd_UserID r) (sd_GoalID r) \<and> sql_eq (sd_ID r) draft_id)
      (db_goal_drafts d)) = (\<lambda>s :: pgUUID \<times> string. \<forall>r\<in>set (db_goal_drafts d).
        sql_eq (sd_GoalID r) goal_id \<longrightarrow> \<not> sql_eq (sd_ID r) (fst s))"
    using owners(4) by (auto simp: fun_eq_iff list_ex_iff known)
  show ?thesis unfolding delete_goal_cascade_def without_goal_def Let_def goals kept signals schedules draft_signals generations
    by (simp add: versions cycles drafts cong: filter_cong)
qed

subsection \<open>The whole deletion\<close>

lemma redact_stage:
  assumes "if ids = [] then d' = d else \<exists>n. gos_RedactGoalUsagesCAS scan userID goalID ids d = Inr (n, d')"
  shows "d' = redact_usages (\<lambda>u. goal_usage (scan userID) (scan goalID) u \<and> us_OperationID u \<in> scan ` set ids) d"
proof (cases "ids = []")
  case False
  then obtain n where "gos_RedactGoalUsagesCAS scan userID goalID ids d = Inr (n, d')" using assms by auto
  then have scanned: "\<forall>v\<in>set ids. scan v \<noteq> None" and d': "d' = redact_usages
      (\<lambda>u. goal_usage (scan userID) (scan goalID) u \<and> list_ex (sql_eq (us_OperationID u)) (map scan ids)) d"
    by (auto simp: gos_RedactGoalUsagesCAS_def update_usages_def update_rows_def redact_usages_def redacted_usage_def[abs_def])
  have "list_ex (sql_eq x) (map scan ids) \<longleftrightarrow> x \<in> scan ` set ids" for x
    using scanned by (auto simp: list_ex_iff sql_eq_def)
  then show ?thesis unfolding d' by simp
qed (use assms in \<open>simp add: redact_usages_def\<close>)

lemma delete_stage:
  assumes "if ids = [] then d' = d
    else \<exists>n. gos_DeleteExpiredFinalizedGoalUsagesCAS scan userID goalID ids now d = Inr (n, d')"
  shows "d' = d\<lparr>db_ai_usage_events := filter (\<lambda>u. \<not> (goal_usage (scan userID) (scan goalID) u \<and>
    us_OperationID u \<in> scan ` set ids \<and> tz_le (us_QuotaRetainUntil u) (stored_at now) \<and>
    tz_Valid (us_ProviderUsageFinalizedAt u))) (db_ai_usage_events d)\<rparr>"
proof (cases "ids = []")
  case False
  then obtain n where "gos_DeleteExpiredFinalizedGoalUsagesCAS scan userID goalID ids now d = Inr (n, d')"
    using assms by auto
  then have scanned: "\<forall>v\<in>set ids. scan v \<noteq> None" and d': "d' = d\<lparr>db_ai_usage_events := filter
      (\<lambda>u. \<not> (goal_usage (scan userID) (scan goalID) u \<and> list_ex (sql_eq (us_OperationID u)) (map scan ids) \<and>
        tz_le (us_QuotaRetainUntil u) (stored_at now) \<and> tz_Valid (us_ProviderUsageFinalizedAt u)))
      (db_ai_usage_events d)\<rparr>"
    by (auto simp: gos_DeleteExpiredFinalizedGoalUsagesCAS_def Let_def)
  have "list_ex (sql_eq x) (map scan ids) \<longleftrightarrow> x \<in> scan ` set ids" for x
    using scanned by (auto simp: list_ex_iff sql_eq_def)
  then show ?thesis unfolding d' by simp
qed (use assms in simp)

lemma expired_before_now:
  assumes "tz_Valid stamp" "nanos (tz_Time stamp) mod microsecond = 0"
  shows "tz_le stamp (stored_at now) \<longleftrightarrow> nanos (tz_Time stamp) \<le> nanos now"
proof -
  from assms(2) obtain k where k: "nanos (tz_Time stamp) = 1000 * k" by (auto simp: microsecond_def)
  have "1000 * k \<le> n - n mod 1000 \<longleftrightarrow> 1000 * k \<le> n" for n :: int
  proof
    show "1000 * k \<le> n" if "1000 * k \<le> n - n mod 1000" using that pos_mod_sign[of 1000 n] by linarith
    show "1000 * k \<le> n - n mod 1000" if "1000 * k \<le> n"
      using zdiv_mono1[OF that, of 1000] by (simp add: minus_mod_eq_mult_div)
  qed
  then show ?thesis using assms(1) k
    by (auto simp: tz_le_def stored_at_def stored_time_def timestamptz_def truncate_time_def microsecond_def utc_def)
qed

lemma filter_map_map:
  assumes "\<And>u. u \<in> set us \<Longrightarrow> gone (g (f u)) \<longleftrightarrow> \<not> keep u" "\<And>u. u \<in> set us \<Longrightarrow> keep u \<Longrightarrow> g (f u) = h u"
  shows "filter (\<lambda>u. \<not> gone u) (map g (map f us)) = map h (filter keep us)"
  using assms by (induction us) auto

lemma usages_after_deletion:
  assumes d: "canonical_usages scan d" "\<forall>u\<in>set (db_ai_usage_events d). sql_eq (us_GoalID u) (scan goalID) \<longrightarrow>
      us_UserID u = scan userID" "scan userID \<noteq> None"
    and P: "\<forall>u. P u \<longrightarrow> open_goal_usage (scan userID) (scan goalID) u"
    and lock: "read_answer (gos_LockGoalUsages scan userID goalID) (redact_usages P d) = Inr usages"
    and part: "partitionGoalDeleteUsages usages now = Inr (redacted, deleted)"
  shows "filter (\<lambda>u. \<not> (goal_usage (scan userID) (scan goalID) u \<and> us_OperationID u \<in> scan ` set deleted \<and>
        tz_le (us_QuotaRetainUntil u) (stored_at now) \<and> tz_Valid (us_ProviderUsageFinalizedAt u)))
      (map (\<lambda>u. if goal_usage (scan userID) (scan goalID) u \<and> us_OperationID u \<in> scan ` set redacted
                then redacted_usage u else u)
        (map (\<lambda>u. if P u then redacted_usage u else u) (db_ai_usage_events d))) =
    map (\<lambda>u. if sql_eq (us_GoalID u) (scan goalID) then redacted_usage u else u)
      (filter (\<lambda>u. sql_eq (us_GoalID u) (scan goalID) \<longrightarrow> quota_open now u) (db_ai_usage_events d))"
proof (rule filter_map_map)
  fix u assume u: "u \<in> set (db_ai_usage_events d)"
  let ?goal = "goal_usage (scan userID) (scan goalID)"
  have goal: "sql_eq (us_GoalID u) (scan goalID) \<longleftrightarrow> ?goal u"
    using d(2,3) u by (auto simp: goal_usage_def sql_eq_known)
  have P': "?goal u \<and> quota_open now u" if "P u"
    using P that by (auto simp: open_goal_usage_def quota_open_def)
  have locked: "tz_Valid (us_QuotaRetainUntil u)" "us_OperationID u \<in> scan ` set redacted \<longleftrightarrow> quota_open now u"
    "us_OperationID u \<in> scan ` set deleted \<longleftrightarrow> \<not> quota_open now u" if "?goal u" "\<not> P u"
  proof -
    have "u \<in> set (db_ai_usage_events (redact_usages P d))" using u that(2) by (force simp: redact_usages_def)
    moreover have "\<forall>u\<in>set (db_ai_usage_events (redact_usages P d)). \<forall>x. us_OperationID u = Some x \<longrightarrow> scan x = Some x"
      using d(1) by (auto simp: canonical_usages_def redact_usages_def redacted_usage_def)
    ultimately show "tz_Valid (us_QuotaRetainUntil u)" "us_OperationID u \<in> scan ` set redacted \<longleftrightarrow> quota_open now u"
      "us_OperationID u \<in> scan ` set deleted \<longleftrightarrow> \<not> quota_open now u"
      using locked_usages[OF lock part] that(1) by blast+
  qed
  have stamp: "nanos (tz_Time (us_QuotaRetainUntil u)) mod microsecond = 0" using d(1) u by (simp add: canonical_usages_def)
  have expired: "tz_le (us_QuotaRetainUntil u) (stored_at now) \<and> tz_Valid (us_ProviderUsageFinalizedAt u)"
    if "?goal u" "\<not> P u" "\<not> quota_open now u"
    using expired_before_now[OF locked(1)[OF that(1,2)] stamp] that(3) by (simp add: quota_open_def)
  let ?red = "if P u then redacted_usage u else u"
  let ?kept = "if ?goal ?red \<and> us_OperationID ?red \<in> scan ` set redacted then redacted_usage ?red else ?red"
  show "(?goal ?kept \<and> us_OperationID ?kept \<in> scan ` set deleted \<and> tz_le (us_QuotaRetainUntil ?kept) (stored_at now) \<and>
      tz_Valid (us_ProviderUsageFinalizedAt ?kept)) \<longleftrightarrow> \<not> (sql_eq (us_GoalID u) (scan goalID) \<longrightarrow> quota_open now u)"
    unfolding goal using P' locked(2,3) expired by (cases "P u"; cases "?goal u"; cases "quota_open now u") auto
  show "?kept = (if sql_eq (us_GoalID u) (scan goalID) then redacted_usage u else u)"
    if "sql_eq (us_GoalID u) (scan goalID) \<longrightarrow> quota_open now u"
    using that unfolding goal using P' locked(2) by (cases "P u"; cases "?goal u") auto
qed

definition delete_receipt_row ::
  "(string \<Rightarrow> string option) \<Rightarrow> string \<Rightarrow> string \<Rightarrow> string \<Rightarrow> string \<Rightarrow> gotime \<Rightarrow> GoalDeleteReceiptRow" where
  "delete_receipt_row scan userID key goalID hash now =
     \<lparr>gdrow_UserID = scan userID, gdrow_IdempotencyKey = scan key, gdrow_DeletedGoalID = scan goalID,
      gdrow_RequestHash = hash, gdrow_DeletedAt = stored_at now,
      gdrow_ExpiresAt = stored_at (now\<lparr>nanos := nanos now + goalDeleteReceiptTTL\<rparr>)\<rparr>"

lemma InsertReceipt_effect:
  assumes "gos_InsertGoalDeleteReceipt scan
    \<lparr>gdrr_UserID = userID, gdrr_IdempotencyKey = key, gdrr_GoalID = goalID, gdrr_RequestHash = hash,
     gdrr_DeletedAt = now, gdrr_ExpiresAt = expires\<rparr> d = Inr (n, d')"
    "expires = now\<lparr>nanos := nanos now + goalDeleteReceiptTTL\<rparr>"
  shows "d' = d\<lparr>db_goal_delete_receipts := db_goal_delete_receipts d @ [delete_receipt_row scan userID key goalID hash now]\<rparr>"
    "find_delete_receipt (scan userID) (scan key) d = None" "scan userID \<noteq> None" "scan key \<noteq> None"
  using assms by (auto simp: gos_InsertGoalDeleteReceipt_def delete_receipt_row_def split: if_splits)

lemma DeleteGoalCAS_effect:
  assumes "gos_DeleteGoalCAS scan userID goalID revision d = Inr (1, d')"
  shows "d' = delete_goal_cascade (scan goalID) (scan userID) d"
    "\<exists>g\<in>set (db_goals d). owned_goal (scan goalID) (scan userID) g"
proof -
  let ?rows = "filter (\<lambda>g. owned_goal (scan goalID) (scan userID) g \<and> gr_Revision g = revision) (db_goals d)"
  have n: "of_nat (length ?rows) = (1 :: i64)" and
    d': "d' = (if ?rows = [] then d else delete_goal_cascade (scan goalID) (scan userID) d)"
    using assms by (auto simp: gos_DeleteGoalCAS_def Let_def)
  have rows: "?rows \<noteq> []"
  proof
    assume "?rows = []"
    with n show False by simp
  qed
  then show "d' = delete_goal_cascade (scan goalID) (scan userID) d" unfolding d' by (simp only: if_False)
  from rows show "\<exists>g\<in>set (db_goals d). owned_goal (scan goalID) (scan userID) g" by (auto simp: filter_empty_conv)
qed

lemma delete_goal_rows_effect:
  assumes run: "delete_goal_rows (store_GoalTx scan) rat_sign now userID goalID revision key hash d = Inr (result, d')"
    and owners: "goal_owners d" and canonical: "canonical_usages scan d"
  shows "d' = (without_goal (scan goalID) now d)\<lparr>db_ai_budget_monthly := db_ai_budget_monthly d',
    db_goal_delete_receipts := db_goal_delete_receipts d @ [delete_receipt_row scan userID key goalID hash now]\<rparr>"
proof -
  let ?user = "scan userID" and ?goal = "scan goalID"
  from delete_goal_rows_Inr[OF run] obtain generations monthly d1 d2 usages redacted deleted d3 d4 d5 where
    release: "release_reservations (store_GoalTx scan) now monthly d = Inr ((), d1)" and
    terminal: "terminalize_generations (store_GoalTx scan) now userID goalID generations d1 = Inr ((), d2)" and
    lock: "read_answer (gos_LockGoalUsages scan userID goalID) d2 = Inr usages" and
    part: "partitionGoalDeleteUsages usages now = Inr (redacted, deleted)" and
    redact: "if redacted = [] then d3 = d2 else \<exists>n. gos_RedactGoalUsagesCAS scan userID goalID redacted d2 = Inr (n, d3)" and
    expire: "if deleted = [] then d4 = d3
      else \<exists>n. gos_DeleteExpiredFinalizedGoalUsagesCAS scan userID goalID deleted now d3 = Inr (n, d4)" and
    del: "gos_DeleteGoalCAS scan userID goalID revision d4 = Inr (1, d5)" and
    receipt: "gos_InsertGoalDeleteReceipt scan
       \<lparr>gdrr_UserID = userID, gdrr_IdempotencyKey = key, gdrr_GoalID = goalID, gdrr_RequestHash = hash,
        gdrr_DeletedAt = now, gdrr_ExpiresAt = now\<lparr>nanos := nanos now + goalDeleteReceiptTTL\<rparr>\<rparr> d5 = Inr (1, d')"
    by blast
  have user: "?user \<noteq> None" by (rule InsertReceipt_effect(3)[OF receipt refl])
  have d1: "d1 = d\<lparr>db_ai_budget_monthly := db_ai_budget_monthly d1\<rparr>"
    using arg_cong[OF keepsD[OF release_keeps release], of "\<lambda>x. x\<lparr>db_ai_budget_monthly := db_ai_budget_monthly d1\<rparr>"] by simp
  then obtain budget where d1: "d1 = d\<lparr>db_ai_budget_monthly := budget\<rparr>" by blast
  from terminalize_effect[OF terminal] obtain P rows where d2: "d2 = (redact_usages P d1)\<lparr>db_ai_generations := rows\<rparr>"
    and P: "\<forall>u. P u \<longrightarrow> open_goal_usage ?user ?goal u"
    and same_owner: "map generation_owner rows = map generation_owner (db_ai_generations d1)"
    and others: "filter (\<lambda>g. \<not> sql_eq (ge_GoalID g) ?goal) rows =
      filter (\<lambda>g. \<not> sql_eq (ge_GoalID g) ?goal) (db_ai_generations d1)"
    unfolding terminalized_def by blast
  define left where "left = map (\<lambda>u. if sql_eq (us_GoalID u) ?goal then redacted_usage u else u)
      (filter (\<lambda>u. sql_eq (us_GoalID u) ?goal \<longrightarrow> quota_open now u) (db_ai_usage_events d))"
  have goal: "\<exists>g\<in>set (db_goals d). owned_goal ?goal ?user g"
    using DeleteGoalCAS_effect(2)[OF del] unfolding delete_stage[OF expire] redact_stage[OF redact]
    by (simp add: redact_usages_def d2 d1)
  then obtain g where g: "g \<in> set (db_goals d)" "gr_ID g = ?goal" "gr_UserID g = ?user"
    by (auto simp: owned_goal_def sql_eq_def)
  from bspec[OF owners[unfolded goal_owners_def] g(1), unfolded g(2,3)]
  have belong: "\<forall>u\<in>set (db_ai_usage_events d). sql_eq (us_GoalID u) ?goal \<longrightarrow> us_UserID u = ?user"
    "\<And>g. g \<in> set (db_goals d) \<Longrightarrow> sql_eq (gr_ID g) ?goal \<Longrightarrow> gr_UserID g = ?user"
    "\<And>v. v \<in> set (db_goal_versions d) \<Longrightarrow> sql_eq (sv_GoalID v) ?goal \<Longrightarrow> sv_UserID v = ?user"
    "\<And>c. c \<in> set (db_pdca_cycles d) \<Longrightarrow> sql_eq (pc_GoalID c) ?goal \<Longrightarrow> pc_UserID c = ?user"
    "\<And>r. r \<in> set (db_goal_drafts d) \<Longrightarrow> sql_eq (sd_GoalID r) ?goal \<Longrightarrow> sd_UserID r = ?user"
    "\<And>x. x \<in> set (db_ai_generations d) \<Longrightarrow> sql_eq (ge_GoalID x) ?goal \<Longrightarrow> ge_UserID x = ?user"
    by blast+
  have lock': "read_answer (gos_LockGoalUsages scan userID goalID) (redact_usages P d) = Inr usages"
    using lock by (simp add: read_answer_def gos_LockGoalUsages_def d2 d1 redact_usages_def mustUUID_def tx_bind_def
        goal_read_def tx_lift_def tx_return_def tx_fail_def split: option.splits sum.splits)
  have d4: "d4 = d\<lparr>db_ai_budget_monthly := budget, db_ai_generations := rows, db_ai_usage_events := left\<rparr>"
    using usages_after_deletion[OF canonical belong(1) user P lock' part, folded left_def]
    unfolding delete_stage[OF expire] redact_stage[OF redact] by (simp add: redact_usages_def d2 d1)
  have free: "\<not> sql_eq (us_GoalID u) ?goal" if "u \<in> set left" for u
    using that by (auto simp: left_def redacted_usage_def split: if_splits)
  then have left: "filter (\<lambda>u. sql_eq (us_GoalID u) ?goal \<longrightarrow> quota_open now u) left = left"
    "map (\<lambda>u. if sql_eq (us_GoalID u) ?goal then redacted_usage u else u) left = left"
    by (auto intro: map_idI)
  have rows_owner: "ge_UserID x = ?user" if "x \<in> set rows" "sql_eq (ge_GoalID x) ?goal" for x
  proof -
    have "generation_owner x \<in> generation_owner ` set (db_ai_generations d)"
      using that(1) arg_cong[OF same_owner, of set] by (auto simp: d1)
    then obtain y where "y \<in> set (db_ai_generations d)" "generation_owner x = generation_owner y" by blast
    then show ?thesis using belong(6)[of y] that(2) by (simp add: generation_owner_def)
  qed
  have "d5 = without_goal ?goal now d4"
    unfolding DeleteGoalCAS_effect(1)[OF del]
    by (rule cascade_spec[OF user]) (use belong rows_owner free in \<open>auto simp: d4\<close>)
  also have "\<dots> = (without_goal ?goal now d)\<lparr>db_ai_budget_monthly := budget\<rparr>"
    using others left by (simp add: without_goal_def d4 d1 left_def[symmetric])
  finally show ?thesis unfolding InsertReceipt_effect(1)[OF receipt refl] by (simp add: without_goal_def)
qed

lemma DeleteGoal_committed:
  assumes "WithinGoalTransaction (DeleteGoalWithResult (store_GoalTx scan) sha256 rat_sign now userID goalID confirmed
      revision key) d = (Inr result, d')" "\<not> gdres_Replayed result"
  shows "delete_goal_rows (store_GoalTx scan) rat_sign (utc now) userID goalID revision key
      (deleteRequestHash sha256 goalID confirmed revision) d = Inr (result, d')" "confirmed"
proof -
  have run: "DeleteGoalWithResult (store_GoalTx scan) sha256 rat_sign now userID goalID confirmed revision key d = Inr (result, d')"
    using assms(1) by (simp add: WithinGoalTransaction_def committed_iff)
  then show confirmed: "confirmed" by (cases confirmed) (simp_all add: DeleteGoalWithResult_def tx_fail_def)
  from run show "delete_goal_rows (store_GoalTx scan) rat_sign (utc now) userID goalID revision key
      (deleteRequestHash sha256 goalID confirmed revision) d = Inr (result, d')"
    apply (simp add: DeleteGoalWithResult_def confirmed goal_ops goal_answers Let_def)
    apply (elim exE conjE)
    subgoal for receipt
      using assms(2) by (cases receipt) (auto simp: tx_fail_def tx_return_def split: if_split_asm)
    done
qed

subsection \<open>Retrying\<close>

lemma find_snoc: "find P xs = None \<Longrightarrow> P x \<Longrightarrow> find P ((xs @ [x]) @ ys) = Some x"
  by (induction xs) (auto split: if_splits)

lemma find_receipt_of_deletion:
  assumes run: "delete_goal_rows (store_GoalTx scan) rat_sign now userID goalID revision key hash d = Inr (result, d')"
    and "scan goalID = Some goalID" "goalID \<noteq> []" "hash \<noteq> []"
    and later: "db_goal_delete_receipts e = db_goal_delete_receipts d' @ later"
  shows "gos_FindGoalDeleteReceipt scan userID key e = Inr (Some \<lparr>gdr_GoalID = goalID, gdr_RequestHash = hash,
      gdr_ExpiresAt = truncate_time microsecond (utc (now\<lparr>nanos := nanos now + goalDeleteReceiptTTL\<rparr>))\<rparr>, e)"
    "scan userID \<noteq> None"
proof -
  from delete_goal_rows_Inr[OF run] obtain d5 where receipt: "gos_InsertGoalDeleteReceipt scan
       \<lparr>gdrr_UserID = userID, gdrr_IdempotencyKey = key, gdrr_GoalID = goalID, gdrr_RequestHash = hash,
        gdrr_DeletedAt = now, gdrr_ExpiresAt = now\<lparr>nanos := nanos now + goalDeleteReceiptTTL\<rparr>\<rparr> d5 = Inr (1, d')"
    by blast
  note effect = InsertReceipt_effect[OF receipt refl]
  have receipts: "db_goal_delete_receipts e =
      (db_goal_delete_receipts d5 @ [delete_receipt_row scan userID key goalID hash now]) @ later"
    using later by (simp add: effect(1))
  have "find_delete_receipt (scan userID) (scan key) e = Some (delete_receipt_row scan userID key goalID hash now)"
    unfolding find_delete_receipt_def receipts
    by (rule find_snoc) (use effect(2-4) in \<open>simp_all add: find_delete_receipt_def delete_receipt_row_def sql_eq_def\<close>)
  then show "gos_FindGoalDeleteReceipt scan userID key e = Inr (Some \<lparr>gdr_GoalID = goalID, gdr_RequestHash = hash,
      gdr_ExpiresAt = truncate_time microsecond (utc (now\<lparr>nanos := nanos now + goalDeleteReceiptTTL\<rparr>))\<rparr>, e)"
    using effect(3,4) assms(2-4)
    by (simp add: gos_FindGoalDeleteReceipt_def goalDeleteReceiptFromRow_def delete_receipt_row_def uuidString_def
        stored_at_def stored_time_def timestamptz_def)
  show "scan userID \<noteq> None" by (rule effect(3))
qed

subsection \<open>The budget\<close>

definition goal_reserved :: "pgUUID \<Rightarrow> pgUUID \<Rightarrow> Database \<Rightarrow> rat" where
  "goal_reserved user_id goal_id d =
     sum_list (map ge_BudgetReservedCostUSD (filter (goal_generation user_id goal_id) (db_ai_generations d)))"

definition canonical_generations :: "(string \<Rightarrow> string option) \<Rightarrow> Database \<Rightarrow> bool" where
  "canonical_generations scan d \<longleftrightarrow>
     (\<forall>g\<in>set (db_ai_generations d). \<forall>x. ge_ID g = Some x \<longrightarrow> scan x = Some x)"

lemma sum_positive:
  assumes "\<And>x. x \<in> set xs \<Longrightarrow> (0 :: rat) \<le> snd x"
  shows "sum_list (map snd (filter (\<lambda>(_, amount). amount > 0) xs)) = sum_list (map snd xs)"
  using assms by (induction xs) (force simp: order_le_less)+

lemma reservations_by_month_sum:
  assumes "\<And>g. g \<in> set rows \<Longrightarrow> eight_decimals (ge_BudgetReservedCostUSD g) \<and> 0 \<le> ge_BudgetReservedCostUSD g"
  shows "sum_list (map snd (reservations_by_month rows)) = sum_list (map ge_BudgetReservedCostUSD rows)"
    "x \<in> set (reservations_by_month rows) \<Longrightarrow> eight_decimals (snd x)"
proof -
  let ?months = "remdups (sort_key (\<lambda>month. nanos (tz_Time month)) (map ge_BudgetMonthUtc rows))"
  let ?sum = "\<lambda>month. sum_list (map ge_BudgetReservedCostUSD (filter (\<lambda>g. ge_BudgetMonthUtc g = month) rows))"
  let ?pairs = "map (\<lambda>g. (ge_BudgetMonthUtc g, ge_BudgetReservedCostUSD g)) rows"
  have sum: "?sum month = sum_list (map snd (filter (\<lambda>x. fst x = month) ?pairs))" for month
    by (induction rows) simp_all
  have "sum_list (map snd (reservations_by_month rows)) = sum_list (map ?sum ?months)"
    unfolding reservations_by_month_def
    by (subst sum_positive) (use assms in \<open>auto simp: comp_def intro!: sum_list_nonneg\<close>)
  also have "\<dots> = sum_list (map snd ?pairs)"
    unfolding sum by (rule group_sum) auto
  finally show "sum_list (map snd (reservations_by_month rows)) = sum_list (map ge_BudgetReservedCostUSD rows)"
    by (simp add: comp_def)
  show "eight_decimals (snd x)" if "x \<in> set (reservations_by_month rows)"
    using that assms by (auto simp: reservations_by_month_def intro!: eight_decimals_sum_list)
qed

lemma reservation_row_Inr:
  "goalDeleteMonthlyReservationFromSQLC row = Inr m \<Longrightarrow> mr_AmountUSD m = numeric_text (snd row)"
  by (auto simp: goalDeleteMonthlyReservationFromSQLC_def Let_def split: option.splits if_splits)

lemma generation_row_Inr:
  "goalDeleteGenerationFromSQLC row = Inr g \<Longrightarrow> ge_ID row = Some (gdg_ID g)"
  by (auto simp: goalDeleteGenerationFromSQLC_def uuidString_def Let_def split: option.splits if_splits)

lemma locked_reservations:
  assumes lock: "read_answer (gos_LockRunningGoalGenerations scan userID goalID) d = Inr generations"
    and sum: "read_answer (gos_SumLockedGoalReservationsByMonth scan userID goalID (map gdg_ID generations)) d = Inr monthly"
    and ok: "amounts_ok d" "canonical_generations scan d"
  shows "\<exists>amounts. map mr_AmountUSD monthly = map numeric_text amounts \<and> (\<forall>a\<in>set amounts. eight_decimals a) \<and>
    sum_list amounts = goal_reserved (scan userID) (scan goalID) d"
proof -
  let ?mine = "goal_generation (scan userID) (scan goalID)"
  let ?rows = "sort_key (\<lambda>g. uuidString (ge_ID g)) (filter ?mine (db_ai_generations d))"
  have rows: "map_rows goalDeleteGenerationFromSQLC ?rows = Inr generations"
    using lock by (auto simp: read_answer_def gos_LockRunningGoalGenerations_def mustUUID_def tx_bind_def goal_read_def
        tx_lift_def tx_return_def tx_fail_def split: option.splits sum.splits)
  then have gens: "generations = map (\<lambda>r. projr (goalDeleteGenerationFromSQLC r)) ?rows"
    and id: "\<And>g. g \<in> set ?rows \<Longrightarrow> ge_ID g = Some (gdg_ID (projr (goalDeleteGenerationFromSQLC g)))"
    unfolding map_rows_Inr using generation_row_Inr by force+
  show ?thesis
  proof (cases "generations = []")
    case True
    then have "filter ?mine (db_ai_generations d) = []" using gens
      by (metis length_0_conv length_map length_sort)
    then show ?thesis using sum True
      by (simp add: read_answer_def gos_SumLockedGoalReservationsByMonth_def tx_return_def goal_reserved_def)
  next
    case False
    let ?chosen = "filter (\<lambda>g. ?mine g \<and> list_ex (sql_eq (ge_ID g)) (map scan (map gdg_ID generations))) (db_ai_generations d)"
    have chosen: "?chosen = filter ?mine (db_ai_generations d)"
    proof (rule filter_cong[OF refl])
      fix g assume g: "g \<in> set (db_ai_generations d)"
      show "?mine g \<and> list_ex (sql_eq (ge_ID g)) (map scan (map gdg_ID generations)) \<longleftrightarrow> ?mine g"
      proof (intro iffI conjI)
        assume mine: "?mine g"
        then have "g \<in> set ?rows" using g by simp
        note i = id[OF this]
        have "scan (gdg_ID (projr (goalDeleteGenerationFromSQLC g))) = ge_ID g"
          using ok(2) g i by (simp add: canonical_generations_def)
        moreover have "projr (goalDeleteGenerationFromSQLC g) \<in> set generations"
          using \<open>g \<in> set ?rows\<close> by (simp add: gens)
        ultimately show "list_ex (sql_eq (ge_ID g)) (map scan (map gdg_ID generations))"
          using i by (auto simp: list_ex_iff sql_eq_def intro: rev_image_eqI)
      qed simp_all
    qed
    have monthly: "map_rows goalDeleteMonthlyReservationFromSQLC (reservations_by_month ?chosen) = Inr monthly"
      using sum False by (auto simp: read_answer_def gos_SumLockedGoalReservationsByMonth_def simp del: map_map)
    have amounts: "eight_decimals (ge_BudgetReservedCostUSD g) \<and> 0 \<le> ge_BudgetReservedCostUSD g"
      if "g \<in> set (filter ?mine (db_ai_generations d))" for g
      using ok(1) that by (simp add: amounts_ok_def)
    have "map mr_AmountUSD monthly = map numeric_text (map snd (reservations_by_month ?chosen))"
      using monthly reservation_row_Inr unfolding map_rows_Inr by force
    then show ?thesis unfolding chosen goal_reserved_def
      using reservations_by_month_sum[of "filter ?mine (db_ai_generations d)", OF amounts]
      by (intro exI[of _ "map snd (reservations_by_month (filter ?mine (db_ai_generations d)))"]) (simp add: ball_simps del: map_map filter_filter)
  qed
qed

lemma Release_effect:
  assumes run: "gos_ReleaseGoalBudgetReservationCAS month (numeric_text r) now d = Inr (1, d')"
    and r: "eight_decimals r" and keys: "ledger_keys d"
  shows "ledger_keys d' \<and> reserved_total d' = reserved_total d - r \<and> unattributed_total d' = unattributed_total d \<and>
    actual_total d' = actual_total d"
proof -
  have update: "update_budget (\<lambda>b. tz_eq (bu_MonthUtc b) (goalDeleteDate month) \<and> bu_ReservedCostUSD b \<ge> r)
      (\<lambda>b. b\<lparr>bu_ReservedCostUSD := numeric_8 (bu_ReservedCostUSD b - r), bu_UpdatedAt := stored_at now\<rparr>) d = Inr (1, d')"
    using run r by (simp add: gos_ReleaseGoalBudgetReservationCAS_def numeric_text_read)
  show ?thesis using update_budget_effect[OF update keys, of "goalDeleteDate month" r 0] r
    by (simp add: numeric_8_eight eight_decimals_arith)
qed

lemma release_effect:
  "release_reservations (store_GoalTx scan) now monthly d = Inr (u, d') \<Longrightarrow>
   map mr_AmountUSD monthly = map numeric_text amounts \<Longrightarrow> \<forall>a\<in>set amounts. eight_decimals a \<Longrightarrow> ledger_keys d \<Longrightarrow>
   reserved_total d' = reserved_total d - sum_list amounts \<and> unattributed_total d' = unattributed_total d \<and>
   actual_total d' = actual_total d"
proof (induction monthly arbitrary: d amounts)
  case (Cons m monthly)
  from Cons.prems(2) obtain a rest where amounts: "amounts = a # rest" "mr_AmountUSD m = numeric_text a"
    "map mr_AmountUSD monthly = map numeric_text rest" by (auto simp: Cons_eq_map_conv)
  from Cons.prems(1) obtain d1 where
    step: "gos_ReleaseGoalBudgetReservationCAS (mr_MonthUtc m) (numeric_text a) now d = Inr (1, d1)"
    and later: "release_reservations (store_GoalTx scan) now monthly d1 = Inr (u, d')"
    by (auto simp: goal_ops amounts)
  show ?case using Release_effect[OF step _ Cons.prems(4)] Cons.IH[OF later amounts(3)] Cons.prems(3)
    by (simp add: amounts(1))
qed (simp add: tx_return_def)

lemma delete_goal_rows_budget:
  assumes run: "delete_goal_rows (store_GoalTx scan) rat_sign now userID goalID revision key hash d = Inr (result, d')"
    and ok: "ledger_keys d" "amounts_ok d" "canonical_generations scan d"
  shows "reserved_total d' = reserved_total d - goal_reserved (scan userID) (scan goalID) d \<and>
    unattributed_total d' = unattributed_total d \<and> actual_total d' = actual_total d"
proof -
  from delete_goal_rows_Inr[OF run] obtain generations monthly d1 d2 redacted deleted d3 d4 d5 where
    locks: "read_answer (gos_LockRunningGoalGenerations scan userID goalID) d = Inr generations"
      "read_answer (gos_SumLockedGoalReservationsByMonth scan userID goalID (map gdg_ID generations)) d = Inr monthly" and
    release: "release_reservations (store_GoalTx scan) now monthly d = Inr ((), d1)" and
    terminal: "terminalize_generations (store_GoalTx scan) now userID goalID generations d1 = Inr ((), d2)" and
    redact: "if redacted = [] then d3 = d2 else \<exists>n. gos_RedactGoalUsagesCAS scan userID goalID redacted d2 = Inr (n, d3)" and
    expire: "if deleted = [] then d4 = d3
      else \<exists>n. gos_DeleteExpiredFinalizedGoalUsagesCAS scan userID goalID deleted now d3 = Inr (n, d4)" and
    del: "gos_DeleteGoalCAS scan userID goalID revision d4 = Inr (1, d5)" and
    receipt: "gos_InsertGoalDeleteReceipt scan
       \<lparr>gdrr_UserID = userID, gdrr_IdempotencyKey = key, gdrr_GoalID = goalID, gdrr_RequestHash = hash,
        gdrr_DeletedAt = now, gdrr_ExpiresAt = now\<lparr>nanos := nanos now + goalDeleteReceiptTTL\<rparr>\<rparr> d5 = Inr (1, d')"
    by blast
  from terminalize_effect[OF terminal] have "db_ai_budget_monthly d2 = db_ai_budget_monthly d1"
    by (auto simp: terminalized_def redact_usages_def)
  moreover have "db_ai_budget_monthly d4 = db_ai_budget_monthly d2"
    unfolding delete_stage[OF expire] redact_stage[OF redact] by (simp add: redact_usages_def)
  moreover have "db_ai_budget_monthly d' = db_ai_budget_monthly d4"
    unfolding InsertReceipt_effect(1)[OF receipt refl] DeleteGoalCAS_effect(1)[OF del]
    by (simp add: delete_goal_cascade_def Let_def)
  ultimately have same: "reserved_total d' = reserved_total d1" "unattributed_total d' = unattributed_total d1"
    "actual_total d' = actual_total d1"
    by (simp_all add: reserved_total_def unattributed_total_def actual_total_def)
  from locked_reservations[OF locks ok(2,3)] obtain amounts where
    "map mr_AmountUSD monthly = map numeric_text amounts" "\<forall>a\<in>set amounts. eight_decimals a"
    "sum_list amounts = goal_reserved (scan userID) (scan goalID) d" by blast
  with release_effect[OF release] ok(1) show ?thesis by (simp add: same)
qed

subsection \<open>The properties\<close>

text \<open>[C32] Deleting a Goal removes everything that refers to it and nothing else: afterwards the database is the
  one before without the rows of the Goal and those that hang on them; of its usage events those the
  quota still counts, or whose usage is not final, stay without the reference and the content; one
  receipt is added; only the budget is changed besides.\<close>

theorem goal_deletion_erases:
  assumes "WithinGoalTransaction (DeleteGoalWithResult (store_GoalTx scan) sha256 rat_sign now userID goalID confirmed
      revision key) d = (Inr result, d')" "\<not> gdres_Replayed result"
    and "goal_owners d" "canonical_usages scan d"
  shows "d' = (without_goal (scan goalID) (utc now) d)\<lparr>db_ai_budget_monthly := db_ai_budget_monthly d',
    db_goal_delete_receipts := db_goal_delete_receipts d @ [delete_receipt_row scan userID key goalID
      (deleteRequestHash sha256 goalID confirmed revision) (utc now)]\<rparr>"
  by (rule delete_goal_rows_effect[OF DeleteGoal_committed(1)[OF assms(1,2)] assms(3,4)])

text \<open>[C33] The deletion of a Goal releases the budget its running generations had reserved, to the last
  decimal, and no other: the reserved total falls by exactly their reservations, the actual and the
  unattributed costs stay.\<close>

theorem goal_deletion_releases_reservations:
  assumes "WithinGoalTransaction (DeleteGoalWithResult (store_GoalTx scan) sha256 rat_sign now userID goalID confirmed
      revision key) d = (Inr result, d')" "\<not> gdres_Replayed result"
    and "ledger_keys d" "amounts_ok d" "canonical_generations scan d"
  shows "reserved_total d' = reserved_total d - goal_reserved (scan userID) (scan goalID) d \<and>
    unattributed_total d' = unattributed_total d \<and> actual_total d' = actual_total d"
  by (rule delete_goal_rows_budget[OF DeleteGoal_committed(1)[OF assms(1,2)] assms(3-5)])

text \<open>[C34] A deletion can be retried for 24 hours: until the receipt expires, the same request under the same
  key is answered as a replay and changes nothing, and a request for another Goal or another revision
  under the key is rejected, whatever has happened in between, as long as the User exists and no
  receipt was removed.\<close>

theorem goal_deletion_replays:
  assumes "WithinGoalTransaction (DeleteGoalWithResult (store_GoalTx scan) sha256 rat_sign now userID goalID confirmed
      revision key) d = (Inr result, d')" "\<not> gdres_Replayed result"
    and "scan goalID = Some goalID" "goalID \<noteq> []" "deleteRequestHash sha256 goalID True revision \<noteq> []"
    and "\<exists>u\<in>set (db_users e). ur_ID u = scan userID"
      "db_goal_delete_receipts e = db_goal_delete_receipts d' @ later"
  shows "(nanos now' + microsecond \<le> nanos now + goalDeleteReceiptTTL \<longrightarrow>
      WithinGoalTransaction (DeleteGoalWithResult (store_GoalTx scan) sha256 rat_sign now' userID goalID True revision key) e
        = (Inr \<lparr>gdres_SourceState = [], gdres_Replayed = True\<rparr>, e)) \<and>
    (goalID' \<noteq> goalID \<or> deleteRequestHash sha256 goalID' True revision' \<noteq> deleteRequestHash sha256 goalID True revision \<longrightarrow>
      WithinGoalTransaction (DeleteGoalWithResult (store_GoalTx scan) sha256 rat_sign now' userID goalID' True revision' key) e
        = (Inl ErrIdempotencyKeyReused, e))"
proof -
  note run = DeleteGoal_committed[OF assms(1,2)]
  note find = find_receipt_of_deletion[OF run(1) assms(3,4) _ assms(7)]
  have hash: "deleteRequestHash sha256 goalID confirmed revision = deleteRequestHash sha256 goalID True revision"
    using run(2) by simp
  have known: "scan userID \<noteq> None" using find(2) assms(5) by (simp add: hash)
  have "find (\<lambda>u. ur_ID u = scan userID) (db_users e) \<noteq> None" using assms(6) by (auto simp: find_None_iff)
  then have lock: "gos_LockUser scan userID e = Inr ((), e)"
    using known by (auto simp: gos_LockUser_def mustUUID_def tx_bind_def goal_read_def tx_return_def)
  have expires: "time_before (utc now') (truncate_time microsecond
      (utc ((utc now)\<lparr>nanos := nanos (utc now) + goalDeleteReceiptTTL\<rparr>)))"
    if "nanos now' + microsecond \<le> nanos now + goalDeleteReceiptTTL"
    using that pos_mod_bound[of microsecond "nanos now + goalDeleteReceiptTTL"]
    by (simp add: time_before_def truncate_time_def utc_def microsecond_def)
  show ?thesis using expires find(1)[unfolded hash, OF assms(5)]
    by (auto simp: WithinGoalTransaction_def commit_or_rollback_def DeleteGoalWithResult_def goal_ops Let_def tx_bind_def
        lock tx_return_def tx_fail_def)
qed

subsection \<open>A concrete deletion\<close>

text \<open>A Goal with a running generation and its usage event, and a finished operation the quota no longer counts.\<close>

definition february_time :: gotime where
  "february_time = \<lparr>nanos = 31 * day_length, loc = UTC\<rparr>"

definition february :: pgTimestamptz where
  "february = \<lparr>tz_Time = february_time, tz_InfinityModifier = Finite, tz_Valid = True\<rparr>"

lemma february_simps:
  "utc february_time = february_time" "truncate_time day_length february_time = february_time"
  "\<not> time_is_zero february_time"
  by (simp_all add: february_time_def utc_def truncate_time_def time_is_zero_def day_length_def)

definition sample_goal_deletion_database :: Database where
  "sample_goal_deletion_database = sample_deletion_database
     \<lparr>db_ai_generations := [sample_generation_row\<lparr>ge_GoalID := Some ''b'', ge_BudgetMonthUtc := february\<rparr>],
      db_ai_usage_events := [(sample_usage_row ''r'' 3)\<lparr>us_GoalID := Some ''b''\<rparr>,
        (sample_usage_row ''s'' 2)\<lparr>us_GoalID := Some ''b'', us_Status := ''succeeded'',
          us_ProviderUsageFinalizedAt := sample_stamp\<rparr>],
      db_ai_budget_monthly := [\<lparr>bu_MonthUtc = february, bu_ReservedCostUSD = 5, bu_ActualCostUSD = 1,
        bu_UnattributedCostUSD = 0, bu_UpdatedAt = sample_stamp\<rparr>]\<rparr>"

lemma numeric_text_plain: "CHR ''/'' \<notin> set (numeric_text x)" "numeric_text x \<noteq> []"
proof -
  have "CHR ''/'' \<notin> set (decimal n)" for n
  proof
    assume "CHR ''/'' \<in> set (decimal n)"
    then show False using decimal_digits[of n] by (auto simp: list_all_iff is_digit_char_def)
  qed
  then show "CHR ''/'' \<notin> set (numeric_text x)" "numeric_text x \<noteq> []"
    by (simp_all add: numeric_text_def decimalFromFloat_def pad_zeros_def Let_def)
qed

lemma sample_tables:
  "db_users sample_goal_deletion_database = [sample_user_row ''a'', sample_user_row ''z'']"
  "db_goals sample_goal_deletion_database = [sample_goal_row ''b'' ''a'', sample_goal_row ''y'' ''z'']"
  "db_goal_versions sample_goal_deletion_database = db_goal_versions sample_database"
  "db_pdca_cycles sample_goal_deletion_database = [sample_cycle_row]"
  "db_goal_drafts sample_goal_deletion_database = []"
  "db_goal_delete_receipts sample_goal_deletion_database = []"
  "db_ai_generations sample_goal_deletion_database =
     [sample_generation_row\<lparr>ge_GoalID := Some ''b'', ge_BudgetMonthUtc := february\<rparr>]"
  "db_ai_usage_events sample_goal_deletion_database = [(sample_usage_row ''r'' 3)\<lparr>us_GoalID := Some ''b''\<rparr>,
        (sample_usage_row ''s'' 2)\<lparr>us_GoalID := Some ''b'', us_Status := ''succeeded'',
          us_ProviderUsageFinalizedAt := sample_stamp\<rparr>]"
  "db_ai_budget_monthly sample_goal_deletion_database = [\<lparr>bu_MonthUtc = february, bu_ReservedCostUSD = 5,
     bu_ActualCostUSD = 1, bu_UnattributedCostUSD = 0, bu_UpdatedAt = sample_stamp\<rparr>]"
  by (simp_all add: sample_goal_deletion_database_def sample_deletion_database_def sample_database_def)

lemma sample_rows:
  "ur_ID (sample_user_row u) = Some u"
  "gr_ID (sample_goal_row g u) = Some g" "gr_UserID (sample_goal_row g u) = Some u"
  "gr_Status (sample_goal_row g u) = StatusActiveCycle" "gr_Revision (sample_goal_row g u) = 0"
  "pc_ID sample_cycle_row = Some sample_cycle_id" "pc_UserID sample_cycle_row = Some ''a''"
  "pc_GoalID sample_cycle_row = Some ''b''"
  "ge_ID sample_generation_row = Some ''r''" "ge_UserID sample_generation_row = Some ''a''"
  "ge_Status sample_generation_row = ''running''" "ge_BudgetReservedCostUSD sample_generation_row = 3"
  "us_OperationID (sample_usage_row x m) = Some x" "us_UserID (sample_usage_row x m) = Some ''a''"
  "us_Status (sample_usage_row x m) = ''accepted''" "\<not> tz_Valid (us_ProviderUsageFinalizedAt (sample_usage_row x m))"
  "us_QuotaRetainUntil (sample_usage_row x m) = sample_stamp"
  by (simp_all add: sample_user_row_def sample_goal_row_def sample_cycle_row_def sample_generation_row_def
      sample_usage_row_def null_Timestamptz_def)

lemma sample_goal_deletion:
  "\<exists>d result. WithinGoalTransaction (DeleteGoalWithResult (store_GoalTx Some) (\<lambda>_. ''h'') (\<lambda>_. Some 1) sample_time
      ''a'' ''b'' True 0 ''k'') sample_goal_deletion_database = (Inr result, d) \<and> \<not> gdres_Replayed result"
  by (simp add: WithinGoalTransaction_def DeleteGoalWithResult_def delete_goal_rows_def goal_ops commit_or_rollback_def
      gos_LockUser_def gos_FindGoalDeleteReceipt_def gos_LockGoalForDelete_def gos_LockGoalDraftIDs_def
      gos_LockGoalCycleIDs_def gos_LockRunningGoalGenerations_def gos_SumLockedGoalReservationsByMonth_def
      gos_LockGoalUsages_def gos_ReleaseGoalBudgetReservationCAS_def gos_TerminalizeGoalGenerationCAS_def
      gos_FailRunningGoalUsageCAS_def gos_RedactGoalUsagesCAS_def gos_DeleteExpiredFinalizedGoalUsagesCAS_def
      gos_DeleteGoalCAS_def gos_InsertGoalDeleteReceipt_def find_delete_receipt_def goal_read_def goal_generation_def
      goal_usage_def goalDeleteDraftIDsFromRows_def goalDeleteGenerationFromSQLC_def goalDeleteUsageFromSQLC_def
      goalDeleteMonthlyReservationFromSQLC_def finiteGoalDeleteTimestamptz_def reservations_by_month_def
      requireGoalIDOrder_def requireGoalGenerationOrder_def requireGoalMonthlyReservationOrder_def
      validPositiveGoalDecimal_def requireGoalRows_def partitionGoalDeleteUsages_def goal_usage_retained_def
      delete_goal_cascade_def owned_goal_def goalDeleteDate_def cycleIDsFromSQLC_def uuidString_def
      numeric_param_def numeric_text_read update_generations_def update_usages_def update_budget_def update_rows_def tz_eq_def
      tz_le_def stored_at_def stored_time_def timestamptz_def numeric_text_plain february_def february_simps
      sample_tables sample_rows sample_stamp_def sample_time_simps sample_cycle_id_simps run_monad
      cong: tx_bind_weak rbind_weak del: rbind_eq_Inr tx_bind_Inr)

theorem goal_deletion_erases_witness:
  "\<exists>d. snd (WithinGoalTransaction (DeleteGoalWithResult (store_GoalTx Some) (\<lambda>_. ''h'') (\<lambda>_. Some 1) sample_time
      ''a'' ''b'' True 0 ''k'') sample_goal_deletion_database) = d \<and>
     map gr_ID (db_goals d) = [Some ''y''] \<and> db_goal_versions d = [] \<and> db_pdca_cycles d = [] \<and> db_ai_generations d = [] \<and>
     map us_OperationID (db_ai_usage_events d) = [Some ''r''] \<and> map us_GoalID (db_ai_usage_events d) = [None] \<and>
     length (db_goal_delete_receipts d) = 1"
proof -
  obtain d result where run: "WithinGoalTransaction (DeleteGoalWithResult (store_GoalTx Some) (\<lambda>_. ''h'') (\<lambda>_. Some 1)
      sample_time ''a'' ''b'' True 0 ''k'') sample_goal_deletion_database = (Inr result, d)" "\<not> gdres_Replayed result"
    using sample_goal_deletion by blast
  have "goal_owners sample_goal_deletion_database" "canonical_usages Some sample_goal_deletion_database"
    by (simp_all add: goal_owners_def canonical_usages_def sample_tables sample_rows sample_database_def
        sample_stamp_def sample_time_def microsecond_def)
  from goal_deletion_erases[OF run this] have "d = (without_goal (Some ''b'') sample_time sample_goal_deletion_database)
      \<lparr>db_ai_budget_monthly := db_ai_budget_monthly d, db_goal_delete_receipts := [delete_receipt_row Some ''a'' ''k'' ''b''
        (deleteRequestHash (\<lambda>_. ''h'') ''b'' True 0) sample_time]\<rparr>"
    by (simp add: sample_tables sample_time_simps)
  from arg_cong[OF this, of db_goals] arg_cong[OF this, of db_ai_generations] arg_cong[OF this, of db_ai_usage_events]
    arg_cong[OF this, of db_goal_delete_receipts] arg_cong[OF this, of db_goal_versions] arg_cong[OF this, of db_pdca_cycles]
  show ?thesis
    by (simp add: run without_goal_def sample_tables sample_rows sample_database_def quota_open_def redacted_usage_def
        sample_stamp_def)
qed

theorem goal_deletion_releases_reservations_witness:
  "\<exists>d. snd (WithinGoalTransaction (DeleteGoalWithResult (store_GoalTx Some) (\<lambda>_. ''h'') (\<lambda>_. Some 1) sample_time
      ''a'' ''b'' True 0 ''k'') sample_goal_deletion_database) = d \<and> reserved_total d = 2 \<and> actual_total d = 1"
proof -
  obtain d result where run: "WithinGoalTransaction (DeleteGoalWithResult (store_GoalTx Some) (\<lambda>_. ''h'') (\<lambda>_. Some 1)
      sample_time ''a'' ''b'' True 0 ''k'') sample_goal_deletion_database = (Inr result, d)" "\<not> gdres_Replayed result"
    using sample_goal_deletion by blast
  have "ledger_keys sample_goal_deletion_database" "amounts_ok sample_goal_deletion_database"
    "canonical_generations Some sample_goal_deletion_database"
    by (simp_all add: ledger_keys_def amounts_ok_def canonical_generations_def sample_tables february_def
        sample_rows sample_usage_row_def)
  from goal_deletion_releases_reservations[OF run this] show ?thesis
    by (simp add: run reserved_total_def actual_total_def goal_reserved_def goal_generation_def sample_tables sample_rows)
qed

theorem goal_deletion_replays_witness:
  "\<exists>d. snd (WithinGoalTransaction (DeleteGoalWithResult (store_GoalTx Some) (\<lambda>_. ''h'') (\<lambda>_. Some 1) sample_time
      ''a'' ''b'' True 0 ''k'') sample_goal_deletion_database) = d \<and>
     WithinGoalTransaction (DeleteGoalWithResult (store_GoalTx Some) (\<lambda>_. ''h'') (\<lambda>_. Some 1) sample_time
      ''a'' ''b'' True 0 ''k'') (d\<lparr>db_users := [sample_user_row ''a'']\<rparr>) =
      (Inr \<lparr>gdres_SourceState = [], gdres_Replayed = True\<rparr>, d\<lparr>db_users := [sample_user_row ''a'']\<rparr>) \<and>
     WithinGoalTransaction (DeleteGoalWithResult (store_GoalTx Some) (\<lambda>_. ''h'') (\<lambda>_. Some 1) sample_time
      ''a'' ''c'' True 0 ''k'') (d\<lparr>db_users := [sample_user_row ''a'']\<rparr>) =
      (Inl ErrIdempotencyKeyReused, d\<lparr>db_users := [sample_user_row ''a'']\<rparr>)"
proof -
  obtain d result where run: "WithinGoalTransaction (DeleteGoalWithResult (store_GoalTx Some) (\<lambda>_. ''h'') (\<lambda>_. Some 1)
      sample_time ''a'' ''b'' True 0 ''k'') sample_goal_deletion_database = (Inr result, d)" "\<not> gdres_Replayed result"
    using sample_goal_deletion by blast
  have hash: "deleteRequestHash (\<lambda>_. ''h'') ''b'' True 0 \<noteq> []"
    by (simp add: deleteRequestHash_def hashRequest_def hex_encode_def)
  note replays = goal_deletion_replays[OF run _ _ hash, of "d\<lparr>db_users := [sample_user_row ''a'']\<rparr>" "[]" sample_time]
  show ?thesis using replays[where goalID' = "''c''" and revision' = 0]
    by (simp add: run sample_rows microsecond_def goalDeleteReceiptTTL_def)
qed

end
