(* ===== verification/Cleanup.thy ===== *)
theory Cleanup
  imports Prelude
begin

section \<open>Retention cleanup: the service\<close>

text \<open>
  Model of \<open>application/cleanup/service.go\<close>.  Every batch is a transaction of its own, so what earlier
  batches deleted stays deleted when a later one fails: an operation of the repository returns its
  answer beside the state it leaves.  \<open>ctx k\<close> is what the \<open>k\<close>-th call of \<open>ctx.Err()\<close> answers.  The loop
  over the batches runs until a batch deletes nothing; it is a partial function, and the laws of
  \<open>batch_repository\<close> are what makes it return.
\<close>

datatype cleanup_error =
    ErrInvalidBatchSize
  | ErrInvalidDeadline
  | ErrRepositoryState
  | ContextEnded string
  | RepositoryFailure string

definition ModeDryRun :: string where "ModeDryRun = ''dry_run''"
definition ModeExecute :: string where "ModeExecute = ''execute''"
definition MaxBatchSize :: i64 where "MaxBatchSize = 1000"

record CandidateCounts =
  cc_AIUsageEvents :: i64
  cc_AbuseRateBuckets :: i64
  cc_AnonymousRateLimitGuards :: i64

record ResourceResult =
  rr_CandidateCount :: i64
  rr_DeletedCount :: i64
  rr_BatchCount :: i64

record CleanupResult =
  clr_Mode :: string
  clr_AIUsageEvents :: ResourceResult
  clr_AbuseRateBuckets :: ResourceResult
  clr_AnonymousRateLimitGuards :: ResourceResult

type_synonym 's batch_delete = "'s \<Rightarrow> (cleanup_error + i64) \<times> 's"

record 's CleanupRepository =
  clp_CountCandidates :: "gotime \<Rightarrow> 's \<Rightarrow> cleanup_error + CandidateCounts"
  clp_DeleteAIUsageEventsBatch :: "gotime \<Rightarrow> i32 \<Rightarrow> 's batch_delete"
  clp_DeleteAbuseRateBucketsBatch :: "gotime \<Rightarrow> i32 \<Rightarrow> 's batch_delete"
  clp_DeleteAnonymousRateLimitGuardsBatch :: "gotime \<Rightarrow> i32 \<Rightarrow> 's batch_delete"

definition zero_ResourceResult :: ResourceResult where
  "zero_ResourceResult = \<lparr>rr_CandidateCount = 0, rr_DeletedCount = 0, rr_BatchCount = 0\<rparr>"

definition new_CleanupResult :: "string \<Rightarrow> CleanupResult" where
  "new_CleanupResult mode =
     \<lparr>clr_Mode = mode, clr_AIUsageEvents = zero_ResourceResult, clr_AbuseRateBuckets = zero_ResourceResult,
      clr_AnonymousRateLimitGuards = zero_ResourceResult\<rparr>"

definition cleanup_DryRun ::
  "(nat \<Rightarrow> cleanup_error option) \<Rightarrow> 's CleanupRepository \<Rightarrow> gotime \<Rightarrow> 's \<Rightarrow>
   CleanupResult \<times> cleanup_error option" where
  "cleanup_DryRun ctx repository capturedNow s =
     (let result = new_CleanupResult ModeDryRun in
      if time_is_zero capturedNow then (result, Some ErrInvalidDeadline)
      else case ctx 0 of
        Some err \<Rightarrow> (result, Some err)
      | None \<Rightarrow>
          (case clp_CountCandidates repository (utc capturedNow) s of
             Inl err \<Rightarrow> (result, Some err)
           | Inr counts \<Rightarrow>
               if cc_AIUsageEvents counts <s 0 \<or> cc_AbuseRateBuckets counts <s 0 \<or>
                  cc_AnonymousRateLimitGuards counts <s 0
               then (result, Some ErrRepositoryState)
               else (result\<lparr>
                 clr_AIUsageEvents := zero_ResourceResult\<lparr>rr_CandidateCount := cc_AIUsageEvents counts\<rparr>,
                 clr_AbuseRateBuckets := zero_ResourceResult\<lparr>rr_CandidateCount := cc_AbuseRateBuckets counts\<rparr>,
                 clr_AnonymousRateLimitGuards :=
                   zero_ResourceResult\<lparr>rr_CandidateCount := cc_AnonymousRateLimitGuards counts\<rparr>\<rparr>, None)))"

definition count_batch :: "i64 \<Rightarrow> ResourceResult \<Rightarrow> ResourceResult" where
  "count_batch deleted result =
     \<lparr>rr_CandidateCount = rr_CandidateCount result + deleted,
      rr_DeletedCount = rr_DeletedCount result + deleted,
      rr_BatchCount = rr_BatchCount result + 1\<rparr>"

text \<open>\<open>k\<close> counts the calls of \<open>ctx.Err()\<close>; the answer carries it on to the next resource.\<close>

partial_function (option) runBatches ::
  "(nat \<Rightarrow> cleanup_error option) \<Rightarrow> i32 \<Rightarrow> 's batch_delete \<Rightarrow> nat \<Rightarrow> ResourceResult \<Rightarrow> 's \<Rightarrow>
   (ResourceResult \<times> cleanup_error option \<times> nat \<times> 's) option" where
  "runBatches ctx batchSize deleteBatch k result s =
     (case ctx k of
        Some err \<Rightarrow> Some (result, Some err, Suc k, s)
      | None \<Rightarrow>
          (case deleteBatch s of
             (Inl err, t) \<Rightarrow> Some (result, Some err, Suc k, t)
           | (Inr deleted, t) \<Rightarrow>
               if sint deleted < 0 \<or> sint deleted > sint batchSize
               then Some (result, Some ErrRepositoryState, Suc k, t)
               else if deleted = 0 then Some (result, None, Suc k, t)
               else runBatches ctx batchSize deleteBatch (Suc k) (count_batch deleted result) t))"

definition cleanup_Execute ::
  "(nat \<Rightarrow> cleanup_error option) \<Rightarrow> 's CleanupRepository \<Rightarrow> gotime \<Rightarrow> i64 \<Rightarrow> 's \<Rightarrow>
   (CleanupResult \<times> cleanup_error option \<times> 's) option" where
  "cleanup_Execute ctx repository capturedNow batchSize s =
     (let result = new_CleanupResult ModeExecute; deadline = utc capturedNow; batch = (ucast batchSize :: i32) in
      if time_is_zero capturedNow then Some (result, Some ErrInvalidDeadline, s)
      else if sint batchSize \<le> 0 \<or> sint batchSize > sint MaxBatchSize
      then Some (result, Some ErrInvalidBatchSize, s)
      else Option.bind (runBatches ctx batch (clp_DeleteAIUsageEventsBatch repository deadline batch) 0
                          zero_ResourceResult s) (\<lambda>(usage, err, k, s).
        let result = result\<lparr>clr_AIUsageEvents := usage\<rparr> in
        if err \<noteq> None then Some (result, err, s)
        else Option.bind (runBatches ctx batch (clp_DeleteAbuseRateBucketsBatch repository deadline batch) k
                            zero_ResourceResult s) (\<lambda>(buckets, err, k, s).
          let result = result\<lparr>clr_AbuseRateBuckets := buckets\<rparr> in
          if err \<noteq> None then Some (result, err, s)
          else Option.bind (runBatches ctx batch
                              (clp_DeleteAnonymousRateLimitGuardsBatch repository deadline batch) k
                              zero_ResourceResult s) (\<lambda>(guards, err, k, s).
            Some (result\<lparr>clr_AnonymousRateLimitGuards := guards\<rparr>, err, s)))))"

subsection \<open>The contract of a batch\<close>

lemma sint_nonzero: "n \<noteq> 0 \<Longrightarrow> sint n \<noteq> 0" for n :: "'a::len word"
proof
  assume "n \<noteq> 0" "sint n = 0"
  then have "sint n = sint (0 :: 'a word)" by simp
  from signed_word_eqI[OF this] show False using \<open>n \<noteq> 0\<close> by contradiction
qed

lemma word_of_nonneg: "0 \<le> sint n \<Longrightarrow> n = of_nat (nat (sint n))" for n :: "'a::len word"
  using of_int_sint[of n] by (simp add: of_nat_nat)

text \<open>
  A batch that answers has deleted as many of the \<open>pending\<close> rows as fit in it, one that fails has
  deleted none; \<open>kept\<close> is what no batch touches.
\<close>

locale batch_repository =
  fixes deleteBatch :: "'s batch_delete"
    and batchSize :: i32
    and ok :: "'s \<Rightarrow> bool"
    and pending :: "'s \<Rightarrow> nat"
    and kept :: "'s \<Rightarrow> 'x"
  assumes batch_counts: "0 < sint batchSize \<Longrightarrow> ok s \<Longrightarrow> deleteBatch s = (Inr n, t) \<Longrightarrow>
      ok t \<and> sint n = min (sint batchSize) (int (pending s)) \<and> int (pending t) = int (pending s) - sint n \<and>
      kept t = kept s"
    and batch_fails: "0 < sint batchSize \<Longrightarrow> ok s \<Longrightarrow> deleteBatch s = (Inl err, t) \<Longrightarrow> t = s"
begin

text \<open>What a run of the loop from \<open>s\<close> with \<open>result\<close> so far answers.\<close>

definition settles_batches ::
  "ResourceResult \<Rightarrow> 's \<Rightarrow> ResourceResult \<Rightarrow> cleanup_error option \<Rightarrow> 's \<Rightarrow> bool" where
  "settles_batches result s result' err t \<longleftrightarrow>
     ok t \<and> kept t = kept s \<and> pending t \<le> pending s \<and>
     rr_CandidateCount result' = rr_CandidateCount result + of_nat (pending s - pending t) \<and>
     rr_DeletedCount result' = rr_DeletedCount result + of_nat (pending s - pending t) \<and>
     (err = None \<longrightarrow> pending t = 0 \<and>
        rr_BatchCount result' =
          rr_BatchCount result + of_nat ((pending s + nat (sint batchSize) - 1) div nat (sint batchSize)))"

lemma settles_refl: "ok s \<Longrightarrow> settles_batches result s result (Some err) s"
  by (simp add: settles_batches_def)

lemma settles_empty: "0 < sint batchSize \<Longrightarrow> ok t \<Longrightarrow> kept t = kept s \<Longrightarrow> pending s = 0 \<Longrightarrow> pending t = 0 \<Longrightarrow>
    settles_batches result s result None t"
  by (simp add: settles_batches_def)

lemma settles_step:
  assumes size: "0 < sint batchSize" and ok: "ok s" and batch: "deleteBatch s = (Inr n, t)" and "n \<noteq> 0"
    and rest: "settles_batches (count_batch n result) t result' err u"
  shows "settles_batches result s result' err u"
proof -
  define m b where "m = nat (sint n)" and "b = nat (sint batchSize)"
  note counts = batch_counts[OF size ok batch]
  have m: "0 \<le> sint n" "int m = sint n" using counts size by (simp_all add: m_def)
  have n: "n = of_nat m" using word_of_nonneg[OF m(1)] by (simp add: m_def)
  have "sint n \<noteq> 0" using sint_nonzero[OF \<open>n \<noteq> 0\<close>] .
  then have pos: "0 < m" using m by simp
  have le: "m \<le> pending s" "pending t = pending s - m" using counts m by linarith+
  have round: "pending t = 0 \<Longrightarrow> pending s \<le> b"
    and full: "pending t \<noteq> 0 \<Longrightarrow> m = b"
    using counts m le size by (auto simp: b_def min_def split: if_splits)
  have b: "0 < b" using size by (simp add: b_def)
  have batches: "(pending s + b - 1) div b = Suc ((pending t + b - 1) div b)"
  proof (cases "pending t = 0")
    case True
    have "(b + (pending s - 1)) div b = Suc ((pending s - 1) div b)"
      using div_add_self1[of b "pending s - 1"] b by linarith
    moreover have "(pending s - 1) div b = 0" "b + (pending s - 1) = pending s + b - 1"
      using pos le round[OF True] b by (simp, linarith)
    ultimately have "(pending s + b - 1) div b = Suc 0" by metis
    then show ?thesis using True b by (simp add: True)
  next
    case False
    have "(b + (pending t + b - 1)) div b = Suc ((pending t + b - 1) div b)"
      using div_add_self1[of b "pending t + b - 1"] b by linarith
    moreover have "b + (pending t + b - 1) = pending s + b - 1" using full[OF False] le b by linarith
    ultimately show ?thesis by simp
  qed
  have more: "pending u \<le> pending t \<Longrightarrow>
      n + of_nat (pending t - pending u) = (of_nat (pending s - pending u) :: i64)"
  proof -
    assume "pending u \<le> pending t"
    then have "pending s - pending u = m + (pending t - pending u)" using le by linarith
    then show ?thesis using n by simp
  qed
  have "pending u \<le> pending t" using rest by (simp add: settles_batches_def)
  then have "pending u \<le> pending s" using le by linarith
  then show ?thesis
    using rest counts le more batches
    by (auto simp: settles_batches_def count_batch_def b_def add.assoc)
qed

text \<open>The loop returns, whatever the contexts and the batches answer.\<close>

lemma batches_return:
  assumes size: "0 < sint batchSize" and ok: "ok s"
  shows "\<exists>result' err j t. runBatches ctx batchSize deleteBatch k result s = Some (result', err, j, t) \<and>
           settles_batches result s result' err t"
  using ok
proof (induction "pending s" arbitrary: s k result rule: less_induct)
  case less
  note unfold = runBatches.simps[of ctx batchSize deleteBatch k result s]
  show ?case
  proof (cases "ctx k")
    case (Some err)
    then show ?thesis using unfold settles_refl[OF less.prems] by auto
  next
    case None
    obtain answer t where batch: "deleteBatch s = (answer, t)" by (cases "deleteBatch s")
    show ?thesis
    proof (cases answer)
      case (Inl err)
      then show ?thesis
        using unfold None batch settles_refl[OF less.prems] batch_fails[OF size less.prems, of err t] by auto
    next
      case (Inr n)
      note counts = batch_counts[OF size less.prems batch[unfolded Inr]]
      have in_range: "\<not> (sint n < 0 \<or> sint n > sint batchSize)" using counts size by simp
      show ?thesis
      proof (cases "n = 0")
        case True
        then have "pending s = 0" "pending t = 0" using counts size by (auto simp: min_def split: if_splits)
        then show ?thesis
          using unfold None batch Inr True size counts settles_empty[OF size, of t s result] by auto
      next
        case False
        have "sint n \<noteq> 0" using sint_nonzero[OF False] .
        then have "pending t < pending s" using counts in_range by linarith
        from less.hyps[OF this, of "Suc k" "count_batch n result"] counts
        obtain result' err j u where
          rest: "runBatches ctx batchSize deleteBatch (Suc k) (count_batch n result) t = Some (result', err, j, u)"
            "settles_batches (count_batch n result) t result' err u" by blast
        then show ?thesis
          using unfold None batch Inr False in_range
            settles_step[OF size less.prems batch[unfolded Inr] False rest(2)] by auto
      qed
    qed
  qed
qed

text \<open>With contexts and batches that do not fail, it returns without an error.\<close>

lemma batches_complete:
  assumes size: "0 < sint batchSize" and "ok s"
    and contexts: "\<And>j. ctx j = None" and answers: "\<And>u. ok u \<Longrightarrow> \<exists>n t. deleteBatch u = (Inr n, t)"
    and run: "runBatches ctx batchSize deleteBatch k result s = Some (result', err, j, t)"
  shows "err = None"
  using \<open>ok s\<close> run
proof (induction "pending s" arbitrary: s k result rule: less_induct)
  case less
  obtain n u where batch: "deleteBatch s = (Inr n, u)" using answers[OF less.prems(1)] by blast
  note counts = batch_counts[OF size less.prems(1) batch]
  have in_range: "\<not> (sint n < 0 \<or> sint n > sint batchSize)" using counts size by simp
  show ?case
  proof (cases "n = 0")
    case True
    then show ?thesis
      using less.prems(2) runBatches.simps[of ctx batchSize deleteBatch k result s] contexts[of k] batch in_range
      by simp
  next
    case False
    have "sint n \<noteq> 0" using sint_nonzero[OF False] .
    then have "pending u < pending s" using counts in_range by linarith
    moreover have "runBatches ctx batchSize deleteBatch (Suc k) (count_batch n result) u = Some (result', err, j, t)"
      using less.prems(2) runBatches.simps[of ctx batchSize deleteBatch k result s] contexts[of k] batch in_range
        False by simp
    ultimately show ?thesis using less.hyps counts by blast
  qed
qed

end

end
