(* ===== verification/CleanupStore.thy ===== *)
theory CleanupStore
  imports Cleanup AIStore "HOL-Library.Multiset"
begin

section \<open>The PostgreSQL adapter of the retention cleanup\<close>

text \<open>
  Model of \<open>cleanup_repository.go\<close> over the statements of \<open>queries/cleanup.sql\<close>.  \<open>pool\<close> is what the
  connection pool answers: the error of \<open>Begin\<close> or of \<open>Commit\<close>, where there is one; a transaction that
  does not commit leaves the database as it was.  \<open>FOR UPDATE SKIP LOCKED\<close> passes over the rows another
  transaction holds, which are the rows of \<open>held\<close>.  \<open>collate\<close> is the sort key of the collation of
  the column \<open>scope\<close>.
\<close>

record PoolErrors =
  pe_Begin :: "Database \<Rightarrow> cleanup_error option"
  pe_Commit :: "Database \<Rightarrow> cleanup_error option"

record HeldRows =
  hr_usage :: "UsageRow \<Rightarrow> bool"
  hr_bucket :: "RateBucketRow \<Rightarrow> bool"
  hr_guard :: "RateLimitGuardRow \<Rightarrow> bool"

subsection \<open>The statements\<close>

definition expired_usage :: "pgTimestamptz \<Rightarrow> UsageRow \<Rightarrow> bool" where
  "expired_usage now u \<longleftrightarrow>
     us_ContentDeleted u \<and> tz_le (us_QuotaRetainUntil u) now \<and> tz_Valid (us_ProviderUsageFinalizedAt u)"

definition expired_bucket :: "pgTimestamptz \<Rightarrow> RateBucketRow \<Rightarrow> bool" where
  "expired_bucket now b \<longleftrightarrow> tz_le (ra_ExpiresAt b) now"

definition expired_guard :: "pgTimestamptz \<Rightarrow> RateLimitGuardRow \<Rightarrow> bool" where
  "expired_guard now g \<longleftrightarrow> tz_le (rg_ExpiresAt g) now"

definition bucket_key :: "RateBucketRow \<Rightarrow> string \<times> string \<times> int" where
  "bucket_key b = (ra_Scope b, ra_KeyHash b, nanos (tz_Time (ra_WindowStart b)))"

definition guard_key :: "RateLimitGuardRow \<Rightarrow> string \<times> string" where
  "guard_key g = (rg_Scope g, rg_KeyHash g)"

definition usage_order :: "UsageRow list \<Rightarrow> UsageRow list" where
  "usage_order rows =
     sort_key (\<lambda>u. nanos (tz_Time (us_QuotaRetainUntil u))) (sort_key (\<lambda>u. uuidString (us_OperationID u)) rows)"

definition bucket_order :: "(string \<Rightarrow> string) \<Rightarrow> RateBucketRow list \<Rightarrow> RateBucketRow list" where
  "bucket_order collate rows =
     sort_key (\<lambda>b. nanos (tz_Time (ra_ExpiresAt b)))
       (sort_key (\<lambda>b. collate (ra_Scope b))
         (sort_key ra_KeyHash (sort_key (\<lambda>b. nanos (tz_Time (ra_WindowStart b))) rows)))"

definition guard_order :: "(string \<Rightarrow> string) \<Rightarrow> RateLimitGuardRow list \<Rightarrow> RateLimitGuardRow list" where
  "guard_order collate rows =
     sort_key (\<lambda>g. nanos (tz_Time (rg_ExpiresAt g))) (sort_key (\<lambda>g. collate (rg_Scope g)) (sort_key rg_KeyHash rows))"

text \<open>
  The candidates in their order up to the limit, then the deletion of the rows that have their keys
  and are still expired.  A negative \<open>LIMIT\<close> is an error of the server.
\<close>

definition delete_candidates ::
  "('r \<Rightarrow> 'k) \<Rightarrow> ('r \<Rightarrow> bool) \<Rightarrow> ('r \<Rightarrow> bool) \<Rightarrow> ('r list \<Rightarrow> 'r list) \<Rightarrow> i32 \<Rightarrow> 'r list \<Rightarrow>
   cleanup_error + i64 \<times> 'r list" where
  "delete_candidates key expired held order limit rows =
     (if sint limit < 0 then Inl (RepositoryFailure ''2201W'')
      else let candidates = map key (take (nat (sint limit)) (order (filter (\<lambda>r. expired r \<and> \<not> held r) rows)));
               selected = (\<lambda>r. key r \<in> set candidates \<and> expired r)
           in Inr (of_nat (length (filter selected rows)), filter (\<lambda>r. \<not> selected r) rows))"

definition sql_DeleteUsages :: "HeldRows \<Rightarrow> pgTimestamptz \<Rightarrow> i32 \<Rightarrow> Database \<Rightarrow> cleanup_error + i64 \<times> Database" where
  "sql_DeleteUsages held now limit d =
     rbind (delete_candidates us_OperationID (expired_usage now) (hr_usage held) usage_order limit
              (db_ai_usage_events d)) (\<lambda>(n, rows).
     Inr (n, d\<lparr>db_ai_usage_events := rows\<rparr>))"

definition sql_DeleteBuckets ::
  "HeldRows \<Rightarrow> (string \<Rightarrow> string) \<Rightarrow> pgTimestamptz \<Rightarrow> i32 \<Rightarrow> Database \<Rightarrow> cleanup_error + i64 \<times> Database" where
  "sql_DeleteBuckets held collate now limit d =
     rbind (delete_candidates bucket_key (expired_bucket now) (hr_bucket held) (bucket_order collate) limit
              (db_abuse_rate_buckets d)) (\<lambda>(n, rows).
     Inr (n, d\<lparr>db_abuse_rate_buckets := rows\<rparr>))"

definition sql_DeleteGuards ::
  "HeldRows \<Rightarrow> (string \<Rightarrow> string) \<Rightarrow> pgTimestamptz \<Rightarrow> i32 \<Rightarrow> Database \<Rightarrow> cleanup_error + i64 \<times> Database" where
  "sql_DeleteGuards held collate now limit d =
     rbind (delete_candidates guard_key (expired_guard now) (hr_guard held) (guard_order collate) limit
              (db_anonymous_rate_limit_guards d)) (\<lambda>(n, rows).
     Inr (n, d\<lparr>db_anonymous_rate_limit_guards := rows\<rparr>))"

subsection \<open>The repository\<close>

definition cleanup_CountCandidates :: "PoolErrors \<Rightarrow> gotime \<Rightarrow> Database \<Rightarrow> cleanup_error + CandidateCounts" where
  "cleanup_CountCandidates pool capturedNow d =
     (let now = stored_at (utc capturedNow);
          counts = \<lparr>cc_AIUsageEvents = of_nat (length (filter (expired_usage now) (db_ai_usage_events d))),
                    cc_AbuseRateBuckets = of_nat (length (filter (expired_bucket now) (db_abuse_rate_buckets d))),
                    cc_AnonymousRateLimitGuards =
                      of_nat (length (filter (expired_guard now) (db_anonymous_rate_limit_guards d)))\<rparr>
      in case pe_Begin pool d of
           Some err \<Rightarrow> Inl err
         | None \<Rightarrow> (case pe_Commit pool d of Some err \<Rightarrow> Inl err | None \<Rightarrow> Inr counts))"

definition cleanup_deleteBatch ::
  "PoolErrors \<Rightarrow> (Database \<Rightarrow> cleanup_error + i64 \<times> Database) \<Rightarrow> Database batch_delete" where
  "cleanup_deleteBatch pool deleteRows d =
     (case pe_Begin pool d of
        Some err \<Rightarrow> (Inl err, d)
      | None \<Rightarrow>
          (case deleteRows d of
             Inl err \<Rightarrow> (Inl err, d)
           | Inr (deleted, t) \<Rightarrow>
               if sint deleted < 0 then (Inl (RepositoryFailure ''negative cleanup delete count''), d)
               else (case pe_Commit pool t of
                       Some err \<Rightarrow> (Inl err, d)
                     | None \<Rightarrow> (Inr deleted, t))))"

definition store_DeleteAIUsageEventsBatch ::
  "PoolErrors \<Rightarrow> HeldRows \<Rightarrow> gotime \<Rightarrow> i32 \<Rightarrow> Database batch_delete" where
  "store_DeleteAIUsageEventsBatch pool held capturedNow batchSize =
     cleanup_deleteBatch pool (sql_DeleteUsages held (stored_at (utc capturedNow)) batchSize)"

definition store_DeleteAbuseRateBucketsBatch ::
  "PoolErrors \<Rightarrow> HeldRows \<Rightarrow> (string \<Rightarrow> string) \<Rightarrow> gotime \<Rightarrow> i32 \<Rightarrow> Database batch_delete" where
  "store_DeleteAbuseRateBucketsBatch pool held collate capturedNow batchSize =
     cleanup_deleteBatch pool (sql_DeleteBuckets held collate (stored_at (utc capturedNow)) batchSize)"

definition store_DeleteAnonymousRateLimitGuardsBatch ::
  "PoolErrors \<Rightarrow> HeldRows \<Rightarrow> (string \<Rightarrow> string) \<Rightarrow> gotime \<Rightarrow> i32 \<Rightarrow> Database batch_delete" where
  "store_DeleteAnonymousRateLimitGuardsBatch pool held collate capturedNow batchSize =
     cleanup_deleteBatch pool (sql_DeleteGuards held collate (stored_at (utc capturedNow)) batchSize)"

definition store_CleanupRepository ::
  "PoolErrors \<Rightarrow> HeldRows \<Rightarrow> (string \<Rightarrow> string) \<Rightarrow> Database CleanupRepository" where
  "store_CleanupRepository pool held collate =
     \<lparr>clp_CountCandidates = cleanup_CountCandidates pool,
      clp_DeleteAIUsageEventsBatch = store_DeleteAIUsageEventsBatch pool held,
      clp_DeleteAbuseRateBucketsBatch = store_DeleteAbuseRateBucketsBatch pool held collate,
      clp_DeleteAnonymousRateLimitGuardsBatch = store_DeleteAnonymousRateLimitGuardsBatch pool held collate\<rparr>"

subsection \<open>A batch deletes its candidates\<close>

lemma usage_order_mset [simp]: "mset (usage_order rows) = mset rows"
  by (simp add: usage_order_def)

lemma bucket_order_mset [simp]: "mset (bucket_order collate rows) = mset rows"
  by (simp add: bucket_order_def)

lemma guard_order_mset [simp]: "mset (guard_order collate rows) = mset rows"
  by (simp add: guard_order_def)

lemma length_filter_subset:
  assumes "distinct rows" "set part \<subseteq> set rows" "distinct part"
  shows "length (filter (\<lambda>r. r \<in> set part) rows) = length part"
proof -
  have "set (filter (\<lambda>r. r \<in> set part) rows) = set part" using assms(2) by auto
  then show ?thesis using assms distinct_card by (metis distinct_filter)
qed

text \<open>With a primary key, a batch selects exactly the candidates it took.\<close>

lemma batch_rows:
  assumes keys: "distinct (map key rows)" and order: "\<And>xs. mset (order xs) = mset xs" and limit: "0 \<le> sint limit"
  obtains part where
    "delete_candidates key expired held order limit rows =
       Inr (of_nat (length part), filter (\<lambda>r. r \<notin> set part) rows)"
    "distinct part" "set part \<subseteq> set (filter (\<lambda>r. expired r \<and> \<not> held r) rows)"
    "length part = min (nat (sint limit)) (length (filter (\<lambda>r. expired r \<and> \<not> held r) rows))"
proof -
  define eligible where "eligible = filter (\<lambda>r. expired r \<and> \<not> held r) rows"
  define part where "part = take (nat (sint limit)) (order eligible)"
  have distinct: "distinct rows" using keys by (simp add: distinct_map)
  have mset: "mset (order eligible) = mset eligible" by (rule order)
  have "distinct eligible" using distinct by (simp add: eligible_def)
  then have part_distinct: "distinct part" using mset_eq_imp_distinct_iff[OF mset] by (simp add: part_def)
  have "set part \<subseteq> set (order eligible)" by (simp add: part_def set_take_subset)
  then have part_set: "set part \<subseteq> set eligible" using mset_eq_setD[OF mset] by simp
  have part_length: "length part = min (nat (sint limit)) (length eligible)"
    using mset_eq_length[OF mset] by (simp add: part_def)
  have selected: "key r \<in> set (map key part) \<and> expired r \<longleftrightarrow> r \<in> set part" if "r \<in> set rows" for r
  proof
    assume "key r \<in> set (map key part) \<and> expired r"
    then obtain p where "p \<in> set part" "key p = key r" by auto
    moreover have "p \<in> set rows" using \<open>p \<in> set part\<close> part_set by (auto simp: eligible_def)
    ultimately show "r \<in> set part" using keys that by (metis distinct_map inj_onD)
  next
    assume "r \<in> set part"
    then show "key r \<in> set (map key part) \<and> expired r" using part_set by (auto simp: eligible_def)
  qed
  have "filter (\<lambda>r. key r \<in> set (map key part) \<and> expired r) rows = filter (\<lambda>r. r \<in> set part) rows"
    "filter (\<lambda>r. \<not> (key r \<in> set (map key part) \<and> expired r)) rows = filter (\<lambda>r. r \<notin> set part) rows"
    using selected by (auto intro: filter_cong)
  moreover have "length (filter (\<lambda>r. r \<in> set part) rows) = length part"
    using length_filter_subset[OF distinct _ part_distinct] part_set by (auto simp: eligible_def)
  ultimately have "delete_candidates key expired held order limit rows =
      Inr (of_nat (length part), filter (\<lambda>r. r \<notin> set part) rows)"
    using limit unfolding delete_candidates_def by (simp add: Let_def part_def eligible_def)
  then show ?thesis using that part_distinct part_set part_length by (simp add: eligible_def)
qed

text \<open>What that leaves of the candidates and of the other rows.\<close>

lemma batch_leaves:
  assumes "distinct rows" "distinct part" "set part \<subseteq> set (filter P rows)"
  shows "length (filter P (filter (\<lambda>r. r \<notin> set part) rows)) = length (filter P rows) - length part"
    and "filter (\<lambda>r. \<not> P r) (filter (\<lambda>r. r \<notin> set part) rows) = filter (\<lambda>r. \<not> P r) rows"
proof -
  have eligible: "distinct (filter P rows)" using assms(1) by simp
  have "length (filter (\<lambda>r. r \<in> set part) (filter P rows)) = length part"
    by (rule length_filter_subset[OF eligible assms(3,2)])
  moreover have "filter P (filter (\<lambda>r. r \<notin> set part) rows) = filter (\<lambda>r. r \<notin> set part) (filter P rows)"
    by (simp add: conj_commute)
  ultimately show "length (filter P (filter (\<lambda>r. r \<notin> set part) rows)) = length (filter P rows) - length part"
    using sum_length_filter_compl[of "\<lambda>r. r \<in> set part" "filter P rows"] by simp
  show "filter (\<lambda>r. \<not> P r) (filter (\<lambda>r. r \<notin> set part) rows) = filter (\<lambda>r. \<not> P r) rows"
    using assms(3) by (auto intro: filter_cong)
qed

subsection \<open>The contract holds of every table\<close>

text \<open>
  The interface of a table: \<open>get\<close> reads its rows, \<open>put\<close> replaces them, \<open>key\<close> is its primary key, and
  \<open>deleteRows\<close> is the statement that deletes a batch of the rows that are expired and not held.
\<close>

locale table_cleanup =
  fixes deleteRows :: "i32 \<Rightarrow> Database \<Rightarrow> cleanup_error + i64 \<times> Database"
    and key :: "'r \<Rightarrow> 'k" and expired held :: "'r \<Rightarrow> bool" and order :: "'r list \<Rightarrow> 'r list"
    and get :: "Database \<Rightarrow> 'r list" and put :: "'r list \<Rightarrow> Database \<Rightarrow> Database"
  assumes sql: "deleteRows limit d =
      rbind (delete_candidates key expired held order limit (get d)) (\<lambda>(n, rows). Inr (n, put rows d))"
    and get_put: "get (put rows d) = rows"
    and put_put: "put rows (put rows' d) = put rows d"
    and put_get: "put (get d) d = d"
    and order: "mset (order xs) = mset xs"
begin

abbreviation pending :: "'r \<Rightarrow> bool" where
  "pending r \<equiv> expired r \<and> \<not> held r"

lemma sql_batch:
  assumes "0 < sint limit" "distinct (map key (get d))"
  obtains part where
    "deleteRows limit d = Inr (of_nat (length part), put (filter (\<lambda>r. r \<notin> set part) (get d)) d)"
    "distinct part" "set part \<subseteq> set (filter pending (get d))"
    "sint (of_nat (length part) :: i64) = int (length part)"
    "int (length part) = min (sint limit) (int (length (filter pending (get d))))"
proof -
  have "0 \<le> sint limit" using assms(1) by simp
  then obtain part where part: "delete_candidates key expired held order limit (get d) =
        Inr (of_nat (length part), filter (\<lambda>r. r \<notin> set part) (get d))"
      "distinct part" "set part \<subseteq> set (filter pending (get d))"
      "length part = min (nat (sint limit)) (length (filter pending (get d)))"
    using batch_rows[where order = order and key = key and rows = "get d" and limit = limit
      and expired = expired and held = held, OF assms(2) order] by blast
  have "sint limit < 2 ^ 31" using sint_less[of limit] by simp
  then have "int (length part) < 2 ^ 31" using part(4) assms(1) by linarith
  then have "sint (of_nat (length part) :: i64) = int (length part)"
    by (simp add: signed_of_nat signed_take_bit_int_eq_self)
  moreover have "int (length part) = min (sint limit) (int (length (filter pending (get d))))"
    using part(4) assms(1) by linarith
  ultimately show ?thesis using that[OF _ part(2,3)] sql[of limit d] part(1) by simp
qed

lemma table_batch_counts:
  assumes limit: "0 < sint limit" and keys: "distinct (map key (get d))"
    and batch: "cleanup_deleteBatch pool (deleteRows limit) d = (Inr n, t)"
  shows "distinct (map key (get t)) \<and> sint n = min (sint limit) (int (length (filter pending (get d)))) \<and>
    int (length (filter pending (get t))) = int (length (filter pending (get d))) - sint n \<and>
    (filter (\<lambda>r. \<not> pending r) (get t), put [] t) = (filter (\<lambda>r. \<not> pending r) (get d), put [] d)"
proof -
  obtain part where part:
    "deleteRows limit d = Inr (of_nat (length part), put (filter (\<lambda>r. r \<notin> set part) (get d)) d)"
    "distinct part" "set part \<subseteq> set (filter pending (get d))"
    "sint (of_nat (length part) :: i64) = int (length part)"
    "int (length part) = min (sint limit) (int (length (filter pending (get d))))"
    by (rule sql_batch[OF limit keys])
  have n: "n = of_nat (length part)" and t: "t = put (filter (\<lambda>r. r \<notin> set part) (get d)) d"
    using batch part(1) by (auto simp: cleanup_deleteBatch_def split: option.splits if_splits)
  have distinct: "distinct (get d)" using keys by (simp add: distinct_map)
  have "distinct (map key (get t))" using keys by (simp add: t get_put distinct_map_filter)
  moreover have "int (length (filter pending (get t))) = int (length (filter pending (get d))) - sint n"
    unfolding t get_put batch_leaves(1)[OF distinct part(2,3)] n part(4) using part(5) by linarith
  moreover have "filter (\<lambda>r. \<not> pending r) (get t) = filter (\<lambda>r. \<not> pending r) (get d)"
    unfolding t get_put by (rule batch_leaves(2)[OF distinct part(2,3)])
  moreover have "put [] t = put [] d" by (simp add: t put_put)
  ultimately show ?thesis using part(4,5) n by simp
qed

lemma table_batch_fails: "cleanup_deleteBatch pool (deleteRows limit) d = (Inl err, t) \<Longrightarrow> t = d"
  by (auto simp: cleanup_deleteBatch_def split: option.splits sum.splits if_splits)

lemma table_batch_answers:
  assumes "pe_Begin pool = (\<lambda>_. None)" "pe_Commit pool = (\<lambda>_. None)"
    and limit: "0 < sint limit" and keys: "distinct (map key (get d))"
  shows "\<exists>n t. cleanup_deleteBatch pool (deleteRows limit) d = (Inr n, t)"
proof -
  obtain part where
    "deleteRows limit d = Inr (of_nat (length part), put (filter (\<lambda>r. r \<notin> set part) (get d)) d)"
    "sint (of_nat (length part) :: i64) = int (length part)"
    by (rule sql_batch[OF limit keys])
  then show ?thesis using assms(1,2) by (simp add: cleanup_deleteBatch_def)
qed

sublocale batches: batch_repository
  "cleanup_deleteBatch pool (deleteRows limit)" limit "\<lambda>d. distinct (map key (get d))"
  "\<lambda>d. length (filter pending (get d))" "\<lambda>d. (filter (\<lambda>r. \<not> pending r) (get d), put [] d)"
  for pool limit
proof (rule batch_repository.intro, goal_cases)
  case (1 s n t)
  then show ?case by (rule table_batch_counts)
next
  case (2 s err t)
  from 2(3) show ?case by (rule table_batch_fails)
qed

end

interpretation usage_cleanup: table_cleanup
  "sql_DeleteUsages rows_held now" us_OperationID "expired_usage now" "hr_usage rows_held" usage_order
  db_ai_usage_events "\<lambda>rows. db_ai_usage_events_update (\<lambda>_. rows)"
  for rows_held now
  by unfold_locales (simp_all add: sql_DeleteUsages_def)

interpretation bucket_cleanup: table_cleanup
  "sql_DeleteBuckets rows_held collate now" bucket_key "expired_bucket now" "hr_bucket rows_held"
  "bucket_order collate" db_abuse_rate_buckets "\<lambda>rows. db_abuse_rate_buckets_update (\<lambda>_. rows)"
  for rows_held collate now
  by unfold_locales (simp_all add: sql_DeleteBuckets_def)

interpretation guard_cleanup: table_cleanup
  "sql_DeleteGuards rows_held collate now" guard_key "expired_guard now" "hr_guard rows_held"
  "guard_order collate" db_anonymous_rate_limit_guards "\<lambda>rows. db_anonymous_rate_limit_guards_update (\<lambda>_. rows)"
  for rows_held collate now
  by unfold_locales (simp_all add: sql_DeleteGuards_def)

end
