(* ===== verification/CleanupRuns.thy ===== *)
theory CleanupRuns
  imports CleanupStore CycleStoreRuns
begin

section \<open>Retention cleanup: what a run does\<close>

text \<open>
  The loop of the service on the PostgreSQL adapter: a run returns, its counts are those of the rows
  it deleted even when it fails on the way, and a run that is not interrupted leaves exactly the
  rows that are not expired, or that another transaction holds.
\<close>

text \<open>The primary keys of the three tables.\<close>

definition cleanup_keys :: "Database \<Rightarrow> bool" where
  "cleanup_keys d \<longleftrightarrow>
     distinct (map us_OperationID (db_ai_usage_events d)) \<and>
     distinct (map bucket_key (db_abuse_rate_buckets d)) \<and>
     distinct (map guard_key (db_anonymous_rate_limit_guards d))"

definition usage_pending :: "HeldRows \<Rightarrow> gotime \<Rightarrow> UsageRow \<Rightarrow> bool" where
  "usage_pending held now u \<longleftrightarrow> expired_usage (stored_at (utc now)) u \<and> \<not> hr_usage held u"

definition bucket_pending :: "HeldRows \<Rightarrow> gotime \<Rightarrow> RateBucketRow \<Rightarrow> bool" where
  "bucket_pending held now b \<longleftrightarrow> expired_bucket (stored_at (utc now)) b \<and> \<not> hr_bucket held b"

definition guard_pending :: "HeldRows \<Rightarrow> gotime \<Rightarrow> RateLimitGuardRow \<Rightarrow> bool" where
  "guard_pending held now g \<longleftrightarrow> expired_guard (stored_at (utc now)) g \<and> \<not> hr_guard held g"

definition purged :: "HeldRows \<Rightarrow> gotime \<Rightarrow> Database \<Rightarrow> Database" where
  "purged held now d =
     d\<lparr>db_ai_usage_events := filter (\<lambda>u. \<not> usage_pending held now u) (db_ai_usage_events d),
       db_abuse_rate_buckets := filter (\<lambda>b. \<not> bucket_pending held now b) (db_abuse_rate_buckets d),
       db_anonymous_rate_limit_guards :=
         filter (\<lambda>g. \<not> guard_pending held now g) (db_anonymous_rate_limit_guards d)\<rparr>"

text \<open>The result that counts \<open>n\<close> deleted rows, in batches of \<open>limit\<close>.\<close>

definition purge_counts :: "nat \<Rightarrow> nat \<Rightarrow> ResourceResult" where
  "purge_counts limit n =
     \<lparr>rr_CandidateCount = of_nat n, rr_DeletedCount = of_nat n,
      rr_BatchCount = of_nat ((n + limit - 1) div limit)\<rparr>"

definition counts_deleted :: "'r list \<Rightarrow> 'r list \<Rightarrow> ResourceResult \<Rightarrow> bool" where
  "counts_deleted before after r \<longleftrightarrow> length after \<le> length before \<and>
     rr_CandidateCount r = of_nat (length before - length after) \<and>
     rr_DeletedCount r = of_nat (length before - length after)"

subsection \<open>One resource\<close>

text \<open>What a finished loop says of the rows of its table.\<close>

lemma settled_rows:
  assumes "filter (\<lambda>r. \<not> P r) rows' = filter (\<lambda>r. \<not> P r) rows"
    and "length (filter P rows') \<le> length (filter P rows)"
    and "rr_CandidateCount r = of_nat (length (filter P rows) - length (filter P rows'))"
    and "rr_DeletedCount r = of_nat (length (filter P rows) - length (filter P rows'))"
    and finished: "err = None \<Longrightarrow> length (filter P rows') = 0 \<and>
      rr_BatchCount r = of_nat ((length (filter P rows) + nat (sint limit) - 1) div nat (sint limit))"
  shows "counts_deleted rows rows' r"
    and "err = None \<Longrightarrow> rows' = filter (\<lambda>r. \<not> P r) rows \<and>
      r = purge_counts (nat (sint limit)) (length (filter P rows))"
proof -
  have lengths: "length rows = length (filter P rows) + length (filter (\<lambda>r. \<not> P r) rows)"
    "length rows' = length (filter P rows') + length (filter (\<lambda>r. \<not> P r) rows)"
    using sum_length_filter_compl[of P rows] sum_length_filter_compl[of P rows'] assms(1) by simp_all
  then show "counts_deleted rows rows' r"
    using assms(2-4) by (simp add: counts_deleted_def)
  assume "err = None"
  note finished = finished[OF this]
  then have "filter P rows' = []" by simp
  then have "filter (\<lambda>r. \<not> P r) rows' = rows'" by (simp add: filter_empty_conv)
  then show "rows' = filter (\<lambda>r. \<not> P r) rows \<and> r = purge_counts (nat (sint limit)) (length (filter P rows))"
    using finished assms(1,3,4) by (simp add: purge_counts_def)
qed

text \<open>What the loop leaves of a table, and that nothing but an error of its surroundings interrupts it.\<close>

definition undisturbed :: "(nat \<Rightarrow> cleanup_error option) \<Rightarrow> PoolErrors \<Rightarrow> bool" where
  "undisturbed ctx pool \<longleftrightarrow>
     (\<forall>k. ctx k = None) \<and> pe_Begin pool = (\<lambda>_. None) \<and> pe_Commit pool = (\<lambda>_. None)"

definition table_outcome ::
  "bool \<Rightarrow> ('r \<Rightarrow> bool) \<Rightarrow> int \<Rightarrow> 'r list \<Rightarrow> 'r list \<Rightarrow> ResourceResult \<Rightarrow> cleanup_error option \<Rightarrow> bool" where
  "table_outcome calm P limit before after r err \<longleftrightarrow>
     filter (\<lambda>r. \<not> P r) after = filter (\<lambda>r. \<not> P r) before \<and> counts_deleted before after r \<and>
     (err = None \<longrightarrow> after = filter (\<lambda>r. \<not> P r) before \<and>
        r = purge_counts (nat limit) (length (filter P before))) \<and>
     (calm \<longrightarrow> err = None)"

context table_cleanup
begin

lemma table_phase:
  assumes limit: "0 < sint limit" and keys: "distinct (map key (get d))"
  shows "\<exists>r err j rows.
    runBatches ctx limit (cleanup_deleteBatch pool (deleteRows limit)) k zero_ResourceResult d =
      Some (r, err, j, put rows d) \<and>
    table_outcome (undisturbed ctx pool) pending (sint limit) (get d) rows r err"
proof -
  obtain r err j t where
    run: "runBatches ctx limit (cleanup_deleteBatch pool (deleteRows limit)) k zero_ResourceResult d =
        Some (r, err, j, t)" and
    settled: "batches.settles_batches limit zero_ResourceResult d r err t"
    using batches.batches_return[OF limit keys] by blast
  note settled = settled[unfolded batches.settles_batches_def]
  have t: "t = put (get t) d" using settled put_get[of t] put_put by (metis prod.inject)
  have complete: "err = None" if "undisturbed ctx pool"
    using that batches.batches_complete[OF limit keys _ table_batch_answers[OF _ _ limit] run]
    by (simp add: undisturbed_def)
  have rows: "filter (\<lambda>r. \<not> pending r) (get t) = filter (\<lambda>r. \<not> pending r) (get d)"
    "length (filter pending (get t)) \<le> length (filter pending (get d))"
    "rr_CandidateCount r = of_nat (length (filter pending (get d)) - length (filter pending (get t)))"
    "rr_DeletedCount r = of_nat (length (filter pending (get d)) - length (filter pending (get t)))"
    "err = None \<Longrightarrow> length (filter pending (get t)) = 0 \<and>
      rr_BatchCount r = of_nat ((length (filter pending (get d)) + nat (sint limit) - 1) div nat (sint limit))"
    using settled by (simp_all add: zero_ResourceResult_def)
  have "table_outcome (undisturbed ctx pool) pending (sint limit) (get d) (get t) r err"
    unfolding table_outcome_def
    using rows(1) settled_rows[where err = err and limit = limit, OF rows] complete by simp
  then show ?thesis using run t by metis
qed

end

subsection \<open>A whole run\<close>

text \<open>The counts of a run, resource by resource.\<close>

definition counts_run :: "Database \<Rightarrow> Database \<Rightarrow> CleanupResult \<Rightarrow> bool" where
  "counts_run d t result \<longleftrightarrow>
     counts_deleted (db_ai_usage_events d) (db_ai_usage_events t) (clr_AIUsageEvents result) \<and>
     counts_deleted (db_abuse_rate_buckets d) (db_abuse_rate_buckets t) (clr_AbuseRateBuckets result) \<and>
     counts_deleted (db_anonymous_rate_limit_guards d) (db_anonymous_rate_limit_guards t)
       (clr_AnonymousRateLimitGuards result)"

definition purge_result :: "HeldRows \<Rightarrow> gotime \<Rightarrow> nat \<Rightarrow> Database \<Rightarrow> CleanupResult" where
  "purge_result held now limit d =
     \<lparr>clr_Mode = ModeExecute,
      clr_AIUsageEvents = purge_counts limit (length (filter (usage_pending held now) (db_ai_usage_events d))),
      clr_AbuseRateBuckets =
        purge_counts limit (length (filter (bucket_pending held now) (db_abuse_rate_buckets d))),
      clr_AnonymousRateLimitGuards =
        purge_counts limit (length (filter (guard_pending held now) (db_anonymous_rate_limit_guards d)))\<rparr>"

lemma counts_nothing [simp]: "counts_deleted rows rows zero_ResourceResult"
  by (simp add: counts_deleted_def zero_ResourceResult_def)

lemma int32_batch_size: "0 < sint n \<Longrightarrow> sint n \<le> 1000 \<Longrightarrow> sint (ucast n :: i32) = sint n" for n :: i64
proof -
  assume n: "0 < sint n" "sint n \<le> 1000"
  define m where "m = nat (sint n)"
  have "n = of_nat m" using word_of_nonneg[of n] n by (simp add: m_def)
  moreover have "int m \<le> 1000" "sint n = int m" using n by (simp_all add: m_def)
  ultimately show ?thesis
    by (simp add: unsigned_of_nat signed_of_nat take_bit_nat_eq_self signed_take_bit_int_eq_self)
qed

lemma execute_settles:
  assumes now: "\<not> time_is_zero now" and size: "0 < sint batchSize" "sint batchSize \<le> 1000"
    and keys: "cleanup_keys d"
  shows "\<exists>result err t.
    cleanup_Execute ctx (store_CleanupRepository pool held collate) now batchSize d = Some (result, err, t) \<and>
    purged held now t = purged held now d \<and> counts_run d t result \<and>
    (err = None \<longrightarrow> t = purged held now d \<and> result = purge_result held now (nat (sint batchSize)) d) \<and>
    (undisturbed ctx pool \<longrightarrow> err = None)"
proof -
  define limit where "limit = (ucast batchSize :: i32)"
  define moment where "moment = stored_at (utc now)"
  have sint_limit: "sint limit = sint batchSize" using int32_batch_size[OF size] by (simp add: limit_def)
  then have pos: "0 < sint limit" using size by simp
  have keys1: "distinct (map us_OperationID (db_ai_usage_events d))"
    and keys2: "distinct (map bucket_key (db_abuse_rate_buckets d))"
    and keys3: "distinct (map guard_key (db_anonymous_rate_limit_guards d))"
    using keys by (simp_all add: cleanup_keys_def)
  note execute = cleanup_Execute_def store_CleanupRepository_def store_DeleteAIUsageEventsBatch_def
    store_DeleteAbuseRateBucketsBatch_def store_DeleteAnonymousRateLimitGuardsBatch_def MaxBatchSize_def Let_def
    new_CleanupResult_def limit_def[symmetric] moment_def[symmetric]
  note outcome = purged_def counts_run_def purge_result_def usage_pending_def[abs_def] bucket_pending_def[abs_def]
    guard_pending_def[abs_def] table_outcome_def moment_def[symmetric]
  obtain r1 err1 k1 rows1 where usage:
    "runBatches ctx limit (cleanup_deleteBatch pool (sql_DeleteUsages held moment limit)) 0 zero_ResourceResult d =
       Some (r1, err1, k1, d\<lparr>db_ai_usage_events := rows1\<rparr>)"
    "table_outcome (undisturbed ctx pool) (usage_cleanup.pending moment held) (sint limit)
       (db_ai_usage_events d) rows1 r1 err1"
    using usage_cleanup.table_phase[OF pos keys1] by blast
  let ?d1 = "d\<lparr>db_ai_usage_events := rows1\<rparr>"
  show ?thesis
  proof (cases "err1 = None")
    case False
    then have "cleanup_Execute ctx (store_CleanupRepository pool held collate) now batchSize d =
        Some ((new_CleanupResult ModeExecute)\<lparr>clr_AIUsageEvents := r1\<rparr>, err1, ?d1)"
      using now size usage(1) by (simp add: execute)
    then show ?thesis using usage(2) False by (auto simp: outcome new_CleanupResult_def)
  next
    case True
    obtain r2 err2 k2 rows2 where buckets:
      "runBatches ctx limit (cleanup_deleteBatch pool (sql_DeleteBuckets held collate moment limit)) k1
         zero_ResourceResult ?d1 = Some (r2, err2, k2, ?d1\<lparr>db_abuse_rate_buckets := rows2\<rparr>)"
      "table_outcome (undisturbed ctx pool) (bucket_cleanup.pending moment held) (sint limit)
         (db_abuse_rate_buckets d) rows2 r2 err2"
      using bucket_cleanup.table_phase[where ctx = ctx and pool = pool and rows_held = held and collate = collate
            and now = moment and k = k1 and d = ?d1, OF pos] keys2 by auto
    let ?d2 = "?d1\<lparr>db_abuse_rate_buckets := rows2\<rparr>"
    show ?thesis
    proof (cases "err2 = None")
      case False
      then have "cleanup_Execute ctx (store_CleanupRepository pool held collate) now batchSize d =
          Some ((new_CleanupResult ModeExecute)\<lparr>clr_AIUsageEvents := r1, clr_AbuseRateBuckets := r2\<rparr>, err2, ?d2)"
        using now size usage(1) buckets(1) True by (simp add: execute)
      then show ?thesis using usage(2) buckets(2) True False by (auto simp: outcome new_CleanupResult_def)
    next
      case no_error: True
      obtain r3 err3 k3 rows3 where guards:
        "runBatches ctx limit (cleanup_deleteBatch pool (sql_DeleteGuards held collate moment limit)) k2
           zero_ResourceResult ?d2 = Some (r3, err3, k3, ?d2\<lparr>db_anonymous_rate_limit_guards := rows3\<rparr>)"
        "table_outcome (undisturbed ctx pool) (guard_cleanup.pending moment held) (sint limit)
           (db_anonymous_rate_limit_guards d) rows3 r3 err3"
        using guard_cleanup.table_phase[where ctx = ctx and pool = pool and rows_held = held and collate = collate
            and now = moment and k = k2 and d = ?d2, OF pos] keys3 by auto
      have "cleanup_Execute ctx (store_CleanupRepository pool held collate) now batchSize d =
          Some (\<lparr>clr_Mode = ModeExecute, clr_AIUsageEvents = r1, clr_AbuseRateBuckets = r2,
                 clr_AnonymousRateLimitGuards = r3\<rparr>, err3, ?d2\<lparr>db_anonymous_rate_limit_guards := rows3\<rparr>)"
        using now size usage(1) buckets(1) guards(1) True no_error by (simp add: execute)
      then show ?thesis
        using usage(2) buckets(2) guards(2) True no_error sint_limit by (auto simp: outcome)
    qed
  qed
qed

subsection \<open>The properties\<close>

text \<open>[C37] A retention cleanup returns, whatever the contexts, the connections and the rows held by others
  answer on the way, and whether its arguments are valid or not; it touches no row that is not expired,
  and its counts are those of the rows it really deleted, also when it reports an error.\<close>

theorem cleanup_execute_terminates:
  assumes "cleanup_keys d"
  shows "\<exists>result err t.
    cleanup_Execute ctx (store_CleanupRepository pool held collate) now batchSize d = Some (result, err, t) \<and>
    purged held now t = purged held now d \<and> counts_run d t result"
proof (cases "time_is_zero now \<or> sint batchSize \<le> 0 \<or> sint batchSize > sint MaxBatchSize")
  case True
  then have "\<exists>err. cleanup_Execute ctx (store_CleanupRepository pool held collate) now batchSize d =
      Some (new_CleanupResult ModeExecute, Some err, d)"
    by (auto simp: cleanup_Execute_def Let_def)
  then show ?thesis by (auto simp: counts_run_def new_CleanupResult_def)
next
  case False
  then show ?thesis using execute_settles[of now batchSize d ctx pool held collate] assms
    by (auto simp: MaxBatchSize_def)
qed

text \<open>[C38] A retention cleanup with valid arguments that nothing interrupts deletes exactly the usage events,
  rate buckets and rate limit guards that are expired and not held by another transaction, in
  batches of the requested size, and reports their numbers.\<close>

theorem cleanup_execute_purges:
  assumes "cleanup_keys d" "\<not> time_is_zero now" "1 \<le> sint batchSize" "sint batchSize \<le> 1000" "undisturbed ctx pool"
  shows "cleanup_Execute ctx (store_CleanupRepository pool held collate) now batchSize d =
    Some (purge_result held now (nat (sint batchSize)) d, None, purged held now d)"
  using execute_settles[of now batchSize d ctx pool held collate] assms by auto

text \<open>[C39] The dry run of the retention cleanup changes nothing and announces, resource by resource, the number of
  rows that an execution at the same moment then deletes.\<close>

theorem cleanup_dry_run_predicts:
  assumes "cleanup_keys d" "\<not> time_is_zero now" "1 \<le> sint batchSize" "sint batchSize \<le> 1000" "undisturbed ctx pool"
    and "length (db_ai_usage_events d) < 2 ^ 63" "length (db_abuse_rate_buckets d) < 2 ^ 63"
    and "length (db_anonymous_rate_limit_guards d) < 2 ^ 63"
    and free: "hr_usage held = (\<lambda>_. False)" "hr_bucket held = (\<lambda>_. False)" "hr_guard held = (\<lambda>_. False)"
  shows "\<exists>planned done t.
    cleanup_DryRun ctx (store_CleanupRepository pool held collate) now d = (planned, None) \<and>
    cleanup_Execute ctx (store_CleanupRepository pool held collate) now batchSize d = Some (done, None, t) \<and>
    rr_CandidateCount (clr_AIUsageEvents planned) = rr_DeletedCount (clr_AIUsageEvents done) \<and>
    rr_CandidateCount (clr_AbuseRateBuckets planned) = rr_DeletedCount (clr_AbuseRateBuckets done) \<and>
    rr_CandidateCount (clr_AnonymousRateLimitGuards planned) = rr_DeletedCount (clr_AnonymousRateLimitGuards done)"
proof -
  have small: "\<not> (of_nat (length (filter P rows)) :: i64) <s 0" if "length rows < 2 ^ 63" for P and rows :: "'r list"
  proof -
    have "int (length (filter P rows)) < 2 ^ 63" using le_less_trans[OF length_filter_le[of P rows] that] by simp
    then show ?thesis by (simp add: word_sless_alt signed_of_nat signed_take_bit_int_eq_self)
  qed
  have "cleanup_Execute ctx (store_CleanupRepository pool held collate) now batchSize d =
      Some (purge_result held now (nat (sint batchSize)) d, None, purged held now d)"
    using execute_settles[of now batchSize d ctx pool held collate] assms(1-5) by auto
  then show ?thesis
    using assms(2,5) small[OF assms(6)] small[OF assms(7)] small[OF assms(8)]
    by (simp add: cleanup_DryRun_def store_CleanupRepository_def cleanup_CountCandidates_def undisturbed_def Let_def
        purge_result_def purge_counts_def usage_pending_def[abs_def] bucket_pending_def[abs_def]
        guard_pending_def[abs_def] free)
qed

subsection \<open>Concrete runs\<close>

text \<open>Three expired buckets, one that is not, and a bucket of the expired that another transaction holds.\<close>

definition sample_bucket :: "string \<Rightarrow> int \<Rightarrow> RateBucketRow" where
  "sample_bucket hash expiry =
     \<lparr>ra_Scope = ''goal_start'', ra_KeyHash = hash, ra_WindowStart = sample_stamp, ra_RequestCount = 1,
      ra_ExpiresAt = sample_stamp\<lparr>tz_Time := sample_time\<lparr>nanos := nanos sample_time + expiry\<rparr>\<rparr>\<rparr>"

definition sample_cleanup_database :: Database where
  "sample_cleanup_database = sample_database
     \<lparr>db_abuse_rate_buckets :=
        [sample_bucket ''p'' 0, sample_bucket ''q'' 1000, sample_bucket ''r'' (-1000), sample_bucket ''s'' (-5000)]\<rparr>"

definition calm_pool :: PoolErrors where
  "calm_pool = \<lparr>pe_Begin = (\<lambda>_. None), pe_Commit = (\<lambda>_. None)\<rparr>"

definition held_rows :: "string \<Rightarrow> HeldRows" where
  "held_rows hash = \<lparr>hr_usage = (\<lambda>_. False), hr_bucket = (\<lambda>b. ra_KeyHash b = hash), hr_guard = (\<lambda>_. False)\<rparr>"

lemma sample_cleanup_keys: "cleanup_keys sample_cleanup_database"
  by (simp add: cleanup_keys_def bucket_key_def sample_bucket_def sample_cleanup_database_def sample_database_def)

lemma sample_moment: "\<not> time_is_zero sample_time" "stored_at (utc sample_time) = sample_stamp"
  by (simp_all add: time_is_zero_def sample_time_def sample_stamp_def stored_at_def stored_time_def timestamptz_def
      utc_def truncate_time_def microsecond_def)

lemma sample_pending:
  "bucket_pending (held_rows hash) sample_time (sample_bucket key expiry) \<longleftrightarrow> expiry \<le> 0 \<and> key \<noteq> hash"
  by (simp add: bucket_pending_def expired_bucket_def sample_moment sample_bucket_def held_rows_def tz_le_def
      sample_stamp_def)

theorem cleanup_execute_terminates_witness:
  "\<exists>result err t. cleanup_Execute (\<lambda>k. if k = 2 then Some (ContextEnded ''canceled'') else None)
     (store_CleanupRepository calm_pool (held_rows ''r'') (\<lambda>s. s)) sample_time 1 sample_cleanup_database =
       Some (result, err, t) \<and>
     map ra_KeyHash (filter (\<lambda>b. \<not> bucket_pending (held_rows ''r'') sample_time b) (db_abuse_rate_buckets t)) =
       [''q'', ''r'']"
proof -
  obtain result err t where run:
    "cleanup_Execute (\<lambda>k. if k = 2 then Some (ContextEnded ''canceled'') else None)
       (store_CleanupRepository calm_pool (held_rows ''r'') (\<lambda>s. s)) sample_time 1 sample_cleanup_database =
     Some (result, err, t)"
    "purged (held_rows ''r'') sample_time t = purged (held_rows ''r'') sample_time sample_cleanup_database"
    using cleanup_execute_terminates[OF sample_cleanup_keys] by blast
  have "filter (\<lambda>b. \<not> bucket_pending (held_rows ''r'') sample_time b) (db_abuse_rate_buckets t) =
      [sample_bucket ''q'' 1000, sample_bucket ''r'' (-1000)]"
    using arg_cong[OF run(2), of db_abuse_rate_buckets]
    by (simp add: purged_def sample_pending sample_cleanup_database_def)
  then have "map ra_KeyHash (filter (\<lambda>b. \<not> bucket_pending (held_rows ''r'') sample_time b) (db_abuse_rate_buckets t)) =
      [''q'', ''r'']"
    by (simp add: sample_bucket_def)
  with run(1) show ?thesis by (intro exI[of _ result] exI[of _ err] exI[of _ t] conjI)
qed

theorem cleanup_execute_purges_witness:
  "\<exists>result t. cleanup_Execute (\<lambda>_. None) (store_CleanupRepository calm_pool (held_rows ''r'') (\<lambda>s. s)) sample_time 1
     sample_cleanup_database = Some (result, None, t) \<and>
     map ra_KeyHash (db_abuse_rate_buckets t) = [''q'', ''r''] \<and>
     rr_DeletedCount (clr_AbuseRateBuckets result) = 2 \<and> rr_BatchCount (clr_AbuseRateBuckets result) = 2"
proof -
  have "undisturbed (\<lambda>_. None) calm_pool" by (simp add: undisturbed_def calm_pool_def)
  from cleanup_execute_purges[OF sample_cleanup_keys sample_moment(1) _ _ this, of 1 "held_rows ''r''" "\<lambda>s. s"]
  show ?thesis
    by (simp add: purged_def purge_result_def purge_counts_def sample_pending sample_cleanup_database_def)
       (simp add: sample_bucket_def)
qed

theorem cleanup_dry_run_predicts_witness:
  "\<exists>planned done t.
     cleanup_DryRun (\<lambda>_. None) (store_CleanupRepository calm_pool
       \<lparr>hr_usage = (\<lambda>_. False), hr_bucket = (\<lambda>_. False), hr_guard = (\<lambda>_. False)\<rparr> (\<lambda>s. s)) sample_time
       sample_cleanup_database = (planned, None) \<and>
     cleanup_Execute (\<lambda>_. None) (store_CleanupRepository calm_pool
       \<lparr>hr_usage = (\<lambda>_. False), hr_bucket = (\<lambda>_. False), hr_guard = (\<lambda>_. False)\<rparr> (\<lambda>s. s)) sample_time 2
       sample_cleanup_database = Some (done, None, t) \<and>
     rr_CandidateCount (clr_AbuseRateBuckets planned) = rr_DeletedCount (clr_AbuseRateBuckets done)"
proof -
  have "undisturbed (\<lambda>_. None) calm_pool" by (simp add: undisturbed_def calm_pool_def)
  note run = cleanup_dry_run_predicts[OF sample_cleanup_keys sample_moment(1) _ _ this, of 2
      "\<lparr>hr_usage = (\<lambda>_. False), hr_bucket = (\<lambda>_. False), hr_guard = (\<lambda>_. False)\<rparr>" "\<lambda>s. s"]
  show ?thesis using run by (simp add: sample_cleanup_database_def sample_database_def) blast
qed

end
