(* ===== verification/RateLimiter.thy ===== *)
theory RateLimiter
  imports CleanupStore
begin

section \<open>The rate limit of anonymous creations\<close>

text \<open>
  Model of \<open>anonymous_rate_limiter.go\<close> over the statements of \<open>queries/rate_limits.sql\<close>.  The guard row of
  an address keeps a canonical time that never goes back, as the moment 25 hours later; every request
  is counted in the bucket of the canonical hour, whether it is admitted or not.  The reading of the
  server's clock is an argument, \<open>pool\<close> is what the connection pool answers to \<open>BeginTx\<close> and \<open>Commit\<close>.
\<close>

record LimiterPool =
  lp_Begin :: "Database \<Rightarrow> workspace_error option"
  lp_Commit :: "Database \<Rightarrow> workspace_error option"

record AnonymousRateLimiter =
  arl_hourLimit :: int
  arl_dayLimit :: int

definition NewAnonymousRateLimiter :: "int \<Rightarrow> int \<Rightarrow> AnonymousRateLimiter" where
  "NewAnonymousRateLimiter hourLimit dayLimit = \<lparr>arl_hourLimit = hourLimit, arl_dayLimit = dayLimit\<rparr>"

definition hour_length :: int where
  "hour_length = 3600 * 1000000000"

subsection \<open>The statements\<close>

text \<open>The order of \<open>timestamptz\<close>, infinities included, and the interval added to a moment.\<close>

definition tz_below :: "pgTimestamptz \<Rightarrow> pgTimestamptz \<Rightarrow> bool" where
  "tz_below a b =
     (case tz_InfinityModifier a of
        NegInfinity \<Rightarrow> tz_InfinityModifier b \<noteq> NegInfinity
      | PosInfinity \<Rightarrow> False
      | Finite \<Rightarrow>
          (case tz_InfinityModifier b of
             NegInfinity \<Rightarrow> False
           | PosInfinity \<Rightarrow> True
           | Finite \<Rightarrow> nanos (tz_Time a) < nanos (tz_Time b)))"

definition sql_greatest :: "pgTimestamptz \<Rightarrow> pgTimestamptz \<Rightarrow> pgTimestamptz" where
  "sql_greatest a b = (if tz_below a b then b else a)"

definition sql_interval :: "pgTimestamptz \<Rightarrow> int \<Rightarrow> pgTimestamptz" where
  "sql_interval t i = (if tz_InfinityModifier t = Finite then t\<lparr>tz_Time := time_add (tz_Time t) i\<rparr> else t)"

definition same_guard :: "string \<Rightarrow> RateLimitGuardRow \<Rightarrow> bool" where
  "same_guard keyHash g \<longleftrightarrow> rg_Scope g = ''anonymous_ip'' \<and> rg_KeyHash g = keyHash"

definition same_bucket :: "string \<Rightarrow> pgTimestamptz \<Rightarrow> RateBucketRow \<Rightarrow> bool" where
  "same_bucket keyHash window b \<longleftrightarrow>
     ra_Scope b = ''anonymous_ip_hour'' \<and> ra_KeyHash b = keyHash \<and> tz_eq (ra_WindowStart b) window"

text \<open>The conflicting update writes the row's own value: it only takes the lock of the row.\<close>

definition sql_AcquireGuard :: "string \<Rightarrow> Database \<Rightarrow> Database" where
  "sql_AcquireGuard keyHash d =
     (if list_ex (same_guard keyHash) (db_anonymous_rate_limit_guards d) then d
      else d\<lparr>db_anonymous_rate_limit_guards := db_anonymous_rate_limit_guards d @
             [\<lparr>rg_Scope = ''anonymous_ip'', rg_KeyHash = keyHash,
               rg_ExpiresAt = \<lparr>tz_Time = zero_time, tz_InfinityModifier = NegInfinity, tz_Valid = True\<rparr>\<rparr>]\<rparr>)"

definition advanced_guard :: "gotime \<Rightarrow> RateLimitGuardRow \<Rightarrow> RateLimitGuardRow" where
  "advanced_guard clock g =
     g\<lparr>rg_ExpiresAt := sql_greatest (rg_ExpiresAt g) (sql_interval (stored_at clock) (25 * hour_length))\<rparr>"

definition sql_AdvanceGuard ::
  "gotime \<Rightarrow> string \<Rightarrow> Database \<Rightarrow> workspace_error + pgTimestamptz \<times> Database" where
  "sql_AdvanceGuard clock keyHash d =
     (case find (same_guard keyHash) (db_anonymous_rate_limit_guards d) of
        None \<Rightarrow> Inl (Infrastructure ''no rows in result set'')
      | Some g \<Rightarrow>
          Inr (sql_interval (rg_ExpiresAt (advanced_guard clock g)) (- 25 * hour_length),
            d\<lparr>db_anonymous_rate_limit_guards :=
              map (\<lambda>g. if same_guard keyHash g then advanced_guard clock g else g)
                (db_anonymous_rate_limit_guards d)\<rparr>))"

definition counted_bucket :: "pgTimestamptz \<Rightarrow> RateBucketRow \<Rightarrow> RateBucketRow" where
  "counted_bucket expires b =
     b\<lparr>ra_RequestCount := ra_RequestCount b + 1, ra_ExpiresAt := sql_greatest (ra_ExpiresAt b) expires\<rparr>"

definition sql_IncrementHourBucket ::
  "string \<Rightarrow> gotime \<Rightarrow> gotime \<Rightarrow> Database \<Rightarrow> workspace_error + i32 \<times> Database" where
  "sql_IncrementHourBucket keyHash windowStart expiresAt d =
     (let window = stored_at windowStart; expires = stored_at expiresAt; same = same_bucket keyHash window;
          buckets = db_abuse_rate_buckets d in
      case find same buckets of
        None \<Rightarrow> Inr (1, d\<lparr>db_abuse_rate_buckets := buckets @
          [\<lparr>ra_Scope = ''anonymous_ip_hour'', ra_KeyHash = keyHash, ra_WindowStart = window,
            ra_RequestCount = 1, ra_ExpiresAt = expires\<rparr>]\<rparr>)
      | Some b \<Rightarrow>
          if sint (ra_RequestCount b) = 2 ^ 31 - 1 then Inl (Infrastructure ''22003'')
          else Inr (ra_RequestCount b + 1,
            d\<lparr>db_abuse_rate_buckets := map (\<lambda>b. if same b then counted_bucket expires b else b) buckets\<rparr>))"

definition sql_CountRollingUsage :: "string \<Rightarrow> gotime \<Rightarrow> gotime \<Rightarrow> Database \<Rightarrow> int" where
  "sql_CountRollingUsage keyHash includedFrom includedThrough d =
     (\<Sum>b\<leftarrow>filter (\<lambda>b. ra_Scope b = ''anonymous_ip_hour'' \<and> ra_KeyHash b = keyHash \<and>
          tz_le (stored_at includedFrom) (ra_WindowStart b) \<and>
          tz_le (ra_WindowStart b) (stored_at includedThrough)) (db_abuse_rate_buckets d).
        sint (ra_RequestCount b))"

subsection \<open>The check\<close>

definition limiter_statements ::
  "AnonymousRateLimiter \<Rightarrow> string \<Rightarrow> gotime \<Rightarrow> Database \<Rightarrow> workspace_error + bool \<times> Database" where
  "limiter_statements limiter keyHash clock d =
     rbind (sql_AdvanceGuard clock keyHash (sql_AcquireGuard keyHash d)) (\<lambda>(canonicalValue, d1).
     if \<not> tz_Valid canonicalValue \<or> tz_InfinityModifier canonicalValue \<noteq> Finite
     then Inl (Infrastructure ''invalid anonymous rate limit canonical time'')
     else let canonicalTime = utc (tz_Time canonicalValue); window = truncate_time hour_length canonicalTime in
     rbind (sql_IncrementHourBucket keyHash window (time_add canonicalTime (25 * hour_length)) d1)
       (\<lambda>(hourCount, d2).
     let rollingCount = sql_CountRollingUsage keyHash (time_add window (- 24 * hour_length)) window d2 in
     Inr (sint hourCount > arl_hourLimit limiter \<or> rollingCount > arl_dayLimit limiter, d2)))"

definition limiter_Check ::
  "LimiterPool \<Rightarrow> AnonymousRateLimiter \<Rightarrow> string \<Rightarrow> gotime \<Rightarrow> Database \<Rightarrow> workspace_error option \<times> Database" where
  "limiter_Check pool limiter keyHash clock d =
     (case lp_Begin pool d of
        Some err \<Rightarrow> (Some err, d)
      | None \<Rightarrow>
          (case limiter_statements limiter keyHash clock d of
             Inl err \<Rightarrow> (Some err, d)
           | Inr (blocked, t) \<Rightarrow>
               (case lp_Commit pool t of
                  Some err \<Rightarrow> (Some err, d)
                | None \<Rightarrow> (if blocked then Some ErrRateLimitExceeded else None, t))))"

subsection \<open>Runs\<close>

text \<open>
  A run of the backend as the limiter sees it: checks of any address at any reading of the clock,
  batches of the retention cleanup, and anything that leaves the rows of the limiter alone.  The first
  part of the state is the latest moment a cleanup used; a check reads a clock that is not behind it.
\<close>

definition limiter_buckets :: "Database \<Rightarrow> RateBucketRow list" where
  "limiter_buckets d = filter (\<lambda>b. ra_Scope b = ''anonymous_ip_hour'') (db_abuse_rate_buckets d)"

definition limiter_guards :: "Database \<Rightarrow> RateLimitGuardRow list" where
  "limiter_guards d = filter (\<lambda>g. rg_Scope g = ''anonymous_ip'') (db_anonymous_rate_limit_guards d)"

datatype limiter_event =
    Checked string gotime pgTimestamptz "workspace_error option"
  | Unchecked

text \<open>The canonical time of a check: what the guard row says once it is advanced.\<close>

definition canonical_time :: "string \<Rightarrow> gotime \<Rightarrow> Database \<Rightarrow> pgTimestamptz" where
  "canonical_time keyHash clock d =
     (case find (same_guard keyHash) (db_anonymous_rate_limit_guards d) of
        None \<Rightarrow> stored_at clock
      | Some g \<Rightarrow> sql_interval (rg_ExpiresAt (advanced_guard clock g)) (- 25 * hour_length))"

inductive limiter_step ::
  "AnonymousRateLimiter \<Rightarrow> int \<times> Database \<Rightarrow> limiter_event \<Rightarrow> int \<times> Database \<Rightarrow> bool"
  for limiter :: AnonymousRateLimiter
where
  check: "limiter_Check pool limiter keyHash clock d = (err, t) \<Longrightarrow>
    swept \<le> nanos (tz_Time (stored_at clock)) \<Longrightarrow>
    limiter_step limiter (swept, d) (Checked keyHash clock (canonical_time keyHash clock d) err) (swept, t)"
| buckets: "store_DeleteAbuseRateBucketsBatch errors held collate now batchSize d = (result, t) \<Longrightarrow>
    limiter_step limiter (swept, d) Unchecked (max swept (nanos (tz_Time (stored_at now))), t)"
| guards: "store_DeleteAnonymousRateLimitGuardsBatch errors held collate now batchSize d = (result, t) \<Longrightarrow>
    limiter_step limiter (swept, d) Unchecked (max swept (nanos (tz_Time (stored_at now))), t)"
| elsewhere: "limiter_buckets t = limiter_buckets d \<Longrightarrow> limiter_guards t = limiter_guards d \<Longrightarrow>
    limiter_step limiter (swept, d) Unchecked (swept, t)"

inductive limiter_run ::
  "AnonymousRateLimiter \<Rightarrow> int \<times> Database \<Rightarrow> limiter_event list \<Rightarrow> int \<times> Database \<Rightarrow> bool"
  for limiter :: AnonymousRateLimiter
where
  start: "limiter_run limiter s [] s"
| next_step: "limiter_run limiter s events t \<Longrightarrow> limiter_step limiter t e u \<Longrightarrow>
    limiter_run limiter s (events @ [e]) u"

inductive_cases limiter_stepE: "limiter_step limiter s e t"

text \<open>The canonical times, in nanoseconds, of the requests of an address that were admitted.\<close>

fun admission :: "string \<Rightarrow> limiter_event \<Rightarrow> int list" where
  "admission keyHash (Checked k clock canonical None) = (if k = keyHash then [nanos (tz_Time canonical)] else [])"
| "admission keyHash _ = []"

definition admissions :: "string \<Rightarrow> limiter_event list \<Rightarrow> int list" where
  "admissions keyHash events = concat (map (admission keyHash) events)"

definition hour_of :: "int \<Rightarrow> int" where
  "hour_of t = t - t mod hour_length"

end
