(* ===== verification/RateLimiterRuns.thy ===== *)
theory RateLimiterRuns
  imports RateLimiter AuthProperties
begin

section \<open>The rate limit of anonymous creations: what it bounds\<close>

subsection \<open>Finding rows\<close>

lemma find_map_kept:
  assumes "\<And>x. P (f x) = P x"
  shows "find P (map f xs) = map_option f (find P xs)"
  using assms by (induction xs) auto

lemma find_filter_kept: "find P xs = Some x \<Longrightarrow> Q x \<Longrightarrow> find P (filter Q xs) = Some x"
  by (induction xs) (auto split: if_splits)

lemma find_filter: "find P (filter Q xs) = find (\<lambda>x. Q x \<and> P x) xs"
  by (induction xs) auto

lemma find_append_one: "find P (xs @ [x]) = (case find P xs of None \<Rightarrow> if P x then Some x else None | Some y \<Rightarrow> Some y)"
  by (induction xs) auto

lemma list_ex_find: "list_ex P xs \<longleftrightarrow> find P xs \<noteq> None"
  by (induction xs) auto

subsection \<open>The rows of the limiter\<close>

definition column_time :: "pgTimestamptz \<Rightarrow> bool" where
  "column_time t \<longleftrightarrow> tz_Valid t \<and> tz_InfinityModifier t = Finite \<and> nanos (tz_Time t) mod microsecond = 0"

definition bucket_row_ok :: "RateBucketRow \<Rightarrow> bool" where
  "bucket_row_ok b \<longleftrightarrow>
     tz_Valid (ra_WindowStart b) \<and> 0 \<le> sint (ra_RequestCount b) \<and> column_time (ra_ExpiresAt b)"

definition guard_row_ok :: "RateLimitGuardRow \<Rightarrow> bool" where
  "guard_row_ok g \<longleftrightarrow> column_time (rg_ExpiresAt g)"

definition buckets_ok :: "RateBucketRow list \<Rightarrow> bool" where
  "buckets_ok rows \<longleftrightarrow> (\<forall>b\<in>set rows. bucket_row_ok b) \<and> distinct (map bucket_key rows)"

definition limiter_rows_ok :: "Database \<Rightarrow> bool" where
  "limiter_rows_ok d \<longleftrightarrow>
     buckets_ok (limiter_buckets d) \<and> (\<forall>g\<in>set (limiter_guards d). guard_row_ok g)"

definition hour_row :: "string \<Rightarrow> int \<Rightarrow> Database \<Rightarrow> RateBucketRow option" where
  "hour_row k w d = find (\<lambda>b. ra_KeyHash b = k \<and> tz_Valid (ra_WindowStart b) \<and> nanos (tz_Time (ra_WindowStart b)) = w)
     (limiter_buckets d)"

definition guard_row :: "string \<Rightarrow> Database \<Rightarrow> RateLimitGuardRow option" where
  "guard_row k d = find (\<lambda>g. rg_KeyHash g = k) (limiter_guards d)"

abbreviation bucket_end :: "RateBucketRow \<Rightarrow> int" where
  "bucket_end b \<equiv> nanos (tz_Time (ra_ExpiresAt b))"

abbreviation guard_end :: "RateLimitGuardRow \<Rightarrow> int" where
  "guard_end g \<equiv> nanos (tz_Time (rg_ExpiresAt g))"

lemma find_same_bucket:
  assumes "tz_Valid window"
  shows "find (same_bucket k window) (db_abuse_rate_buckets d) = hour_row k (nanos (tz_Time window)) d"
proof -
  have "same_bucket k window = (\<lambda>b. ra_Scope b = ''anonymous_ip_hour'' \<and>
      (ra_KeyHash b = k \<and> tz_Valid (ra_WindowStart b) \<and> nanos (tz_Time (ra_WindowStart b)) = nanos (tz_Time window)))"
    using assms by (auto simp: same_bucket_def tz_eq_def)
  then show ?thesis by (simp only: hour_row_def limiter_buckets_def find_filter)
qed

lemma find_same_guard: "find (same_guard k) (db_anonymous_rate_limit_guards d) = guard_row k d"
  by (simp add: guard_row_def limiter_guards_def find_filter same_guard_def[abs_def])

lemma column_time_stored [simp]: "column_time (stored_at t)"
  by (simp add: column_time_def stored_at_def stored_time_def timestamptz_def truncate_time_def microsecond_def
      minus_mod_eq_mult_div)

lemma column_time_interval:
  assumes "column_time t"
  shows "column_time (sql_interval t (n * hour_length))"
    and "nanos (tz_Time (sql_interval t i)) = nanos (tz_Time t) + i"
proof -
  have "n * hour_length = microsecond * (n * 3600000000)"
    by (simp add: hour_length_def microsecond_def)
  then have "(nanos (tz_Time t) + n * hour_length) mod microsecond = nanos (tz_Time t) mod microsecond"
    by (simp only: mod_mult_self2)
  then show "column_time (sql_interval t (n * hour_length))"
    using assms by (simp add: column_time_def sql_interval_def time_add_def)
  show "nanos (tz_Time (sql_interval t i)) = nanos (tz_Time t) + i"
    using assms by (simp add: column_time_def sql_interval_def time_add_def)
qed

lemma sql_greatest_column:
  assumes "column_time a" "column_time b"
  shows "column_time (sql_greatest a b)" and "nanos (tz_Time (sql_greatest a b)) = max (nanos (tz_Time a)) (nanos (tz_Time b))"
  using assms by (auto simp: sql_greatest_def tz_below_def column_time_def max_def)

subsection \<open>The guard\<close>

lemma acquire_guard:
  obtains g where "guard_row k (sql_AcquireGuard k d) = Some g"
    "guard_row k d = Some g \<or> guard_row k d = None \<and> tz_InfinityModifier (rg_ExpiresAt g) = NegInfinity"
    "\<forall>k'. k' \<noteq> k \<longrightarrow> guard_row k' (sql_AcquireGuard k d) = guard_row k' d"
    "set (limiter_guards (sql_AcquireGuard k d)) \<subseteq> insert g (set (limiter_guards d))"
    "db_abuse_rate_buckets (sql_AcquireGuard k d) = db_abuse_rate_buckets d"
proof (cases "guard_row k d")
  case None
  define g where "g = \<lparr>rg_Scope = ''anonymous_ip'', rg_KeyHash = k,
    rg_ExpiresAt = \<lparr>tz_Time = zero_time, tz_InfinityModifier = NegInfinity, tz_Valid = True\<rparr>\<rparr>"
  have acquired: "sql_AcquireGuard k d =
      d\<lparr>db_anonymous_rate_limit_guards := db_anonymous_rate_limit_guards d @ [g]\<rparr>"
    using None by (simp add: sql_AcquireGuard_def list_ex_find find_same_guard g_def)
  have g: "rg_Scope g = ''anonymous_ip''" "rg_KeyHash g = k" "tz_InfinityModifier (rg_ExpiresAt g) = NegInfinity"
    by (simp_all add: g_def)
  then have guards: "limiter_guards (sql_AcquireGuard k d) = limiter_guards d @ [g]"
    by (simp add: acquired limiter_guards_def)
  have "guard_row k' (sql_AcquireGuard k d) = guard_row k' d" if "k' \<noteq> k" for k'
    using that g(2) by (simp add: guard_row_def guards find_append_one split: option.splits)
  moreover have "guard_row k (sql_AcquireGuard k d) = Some g"
    using None g(2) by (simp add: guard_row_def guards find_append_one)
  moreover have "set (limiter_guards (sql_AcquireGuard k d)) \<subseteq> insert g (set (limiter_guards d))"
    by (auto simp: guards)
  moreover have "db_abuse_rate_buckets (sql_AcquireGuard k d) = db_abuse_rate_buckets d" by (simp add: acquired)
  ultimately show ?thesis using that[of g] None g(3) by blast
next
  case (Some g)
  then have "sql_AcquireGuard k d = d" by (simp add: sql_AcquireGuard_def list_ex_find find_same_guard)
  then show ?thesis using that[of g] Some by auto
qed

lemma advanced_guard_ok:
  assumes "guard_row_ok g \<or> tz_InfinityModifier (rg_ExpiresAt g) = NegInfinity"
  shows "guard_row_ok (advanced_guard clock g)"
    and "nanos (tz_Time (stored_at clock)) + 25 * hour_length \<le> guard_end (advanced_guard clock g)"
    and "guard_row_ok g \<Longrightarrow> guard_end g \<le> guard_end (advanced_guard clock g)"
proof -
  define e where "e = sql_interval (stored_at clock) (25 * hour_length)"
  have e: "column_time e" "nanos (tz_Time e) = nanos (tz_Time (stored_at clock)) + 25 * hour_length"
    by (simp_all add: e_def column_time_interval)
  have "column_time (rg_ExpiresAt g) \<or> sql_greatest (rg_ExpiresAt g) e = e"
    using assms e(1) by (auto simp: guard_row_ok_def sql_greatest_def tz_below_def column_time_def)
  then show "guard_row_ok (advanced_guard clock g)"
    and "nanos (tz_Time (stored_at clock)) + 25 * hour_length \<le> guard_end (advanced_guard clock g)"
    and "guard_row_ok g \<Longrightarrow> guard_end g \<le> guard_end (advanced_guard clock g)"
    using sql_greatest_column[OF _ e(1), of "rg_ExpiresAt g"] e
    by (auto simp: advanced_guard_def guard_row_ok_def simp flip: e_def)
qed


text \<open>What the first two statements leave: the canonical time, and the guard that holds it.\<close>

lemma advance_guard:
  assumes ok: "\<forall>g\<in>set (limiter_guards d). guard_row_ok g"
  obtains g u where
    "sql_AdvanceGuard clock k (sql_AcquireGuard k d) = Inr (canonical_time k clock d, u)"
    "column_time (canonical_time k clock d)"
    "nanos (tz_Time (stored_at clock)) \<le> nanos (tz_Time (canonical_time k clock d))"
    "guard_row k u = Some g" "guard_end g = nanos (tz_Time (canonical_time k clock d)) + 25 * hour_length"
    "\<forall>g0. guard_row k d = Some g0 \<longrightarrow> guard_end g0 \<le> guard_end g"
    "\<forall>k'. k' \<noteq> k \<longrightarrow> guard_row k' u = guard_row k' d"
    "\<forall>g\<in>set (limiter_guards u). guard_row_ok g"
    "db_abuse_rate_buckets u = db_abuse_rate_buckets d"
proof -
  obtain a where a: "guard_row k (sql_AcquireGuard k d) = Some a"
    "guard_row k d = Some a \<or> guard_row k d = None \<and> tz_InfinityModifier (rg_ExpiresAt a) = NegInfinity"
    "\<forall>k'. k' \<noteq> k \<longrightarrow> guard_row k' (sql_AcquireGuard k d) = guard_row k' d"
    "set (limiter_guards (sql_AcquireGuard k d)) \<subseteq> insert a (set (limiter_guards d))"
    "db_abuse_rate_buckets (sql_AcquireGuard k d) = db_abuse_rate_buckets d"
    by (rule acquire_guard[of k d])
  define f where "f = (\<lambda>g. if same_guard k g then advanced_guard clock g else g)"
  define u where "u = sql_AcquireGuard k d\<lparr>db_anonymous_rate_limit_guards :=
    map f (db_anonymous_rate_limit_guards (sql_AcquireGuard k d))\<rparr>"
  have found: "a \<in> set (limiter_guards d)" if "guard_row k d = Some a"
    using find_SomeD[of _ "limiter_guards d" a] that by (auto simp: guard_row_def)
  have a_ok: "guard_row_ok a \<or> tz_InfinityModifier (rg_ExpiresAt a) = NegInfinity"
    using a(2) found ok by auto
  note adv = advanced_guard_ok[OF a_ok, of clock]
  have canonical: "canonical_time k clock d = sql_interval (rg_ExpiresAt (advanced_guard clock a)) (- 25 * hour_length)"
    using a(2)
  proof
    assume "guard_row k d = None \<and> tz_InfinityModifier (rg_ExpiresAt a) = NegInfinity"
    moreover from this have "rg_ExpiresAt (advanced_guard clock a) = sql_interval (stored_at clock) (25 * hour_length)"
      using column_time_interval(1)[OF column_time_stored[of clock], of 25]
      by (simp add: advanced_guard_def sql_greatest_def tz_below_def column_time_def)
    moreover have "sql_interval (sql_interval t i) (- i) = t" for t i
      by (simp add: sql_interval_def time_add_def)
    ultimately show ?thesis
      using \<open>\<And>t i. sql_interval (sql_interval t i) (- i) = t\<close>[of "stored_at clock" "25 * hour_length"]
      by (simp add: canonical_time_def find_same_guard)
  qed (simp add: canonical_time_def find_same_guard)
  have column: "column_time (rg_ExpiresAt (advanced_guard clock a))" using adv(1) by (simp add: guard_row_ok_def)
  have scope: "rg_Scope (f g) = rg_Scope g" "rg_KeyHash (f g) = rg_KeyHash g" for g
    by (simp_all add: f_def advanced_guard_def)
  have guards: "limiter_guards u = map f (limiter_guards (sql_AcquireGuard k d))"
    by (simp add: u_def limiter_guards_def filter_map comp_def scope)
  have rows: "guard_row k' u = map_option f (guard_row k' (sql_AcquireGuard k d))" for k'
    by (simp add: guard_row_def guards find_map_kept scope)
  have row_key: "rg_KeyHash g = k'" if "guard_row k' e = Some g" for k' g e
    using that find_SomeD by (auto simp: guard_row_def dest: find_SomeD)
  have a_same: "same_guard k a" using a(1) find_SomeD[of "same_guard k" _ a] by (auto simp flip: find_same_guard)
  show ?thesis
  proof (rule that[of u "advanced_guard clock a"])
    show "sql_AdvanceGuard clock k (sql_AcquireGuard k d) = Inr (canonical_time k clock d, u)"
      using a(1) by (simp add: sql_AdvanceGuard_def find_same_guard canonical u_def f_def)
    show "column_time (canonical_time k clock d)"
      using column_time_interval(1)[OF column, of "- 25"] by (simp add: canonical)
    show "nanos (tz_Time (stored_at clock)) \<le> nanos (tz_Time (canonical_time k clock d))"
      and "guard_end (advanced_guard clock a) = nanos (tz_Time (canonical_time k clock d)) + 25 * hour_length"
      using adv(2) column_time_interval(2)[OF column, of "- 25 * hour_length"] by (simp_all add: canonical)
    show "guard_row k u = Some (advanced_guard clock a)" using a(1) a_same by (simp add: rows f_def)
    show "\<forall>g0. guard_row k d = Some g0 \<longrightarrow> guard_end g0 \<le> guard_end (advanced_guard clock a)"
      using a(2) adv(3) found ok by auto
    have "guard_row k' u = guard_row k' d" if "k' \<noteq> k" for k'
      using that a(3) by (cases "guard_row k' d") (auto simp: rows f_def same_guard_def dest: row_key)
    then show "\<forall>k'. k' \<noteq> k \<longrightarrow> guard_row k' u = guard_row k' d" by blast
    show "\<forall>g\<in>set (limiter_guards u). guard_row_ok g"
      using a(4) ok adv(1) a_same advanced_guard_ok(1) by (auto simp: guards f_def)
    show "db_abuse_rate_buckets u = db_abuse_rate_buckets d" by (simp add: u_def a(5))
  qed
qed

subsection \<open>The bucket\<close>

lemma increment_bucket:
  assumes run: "sql_IncrementHourBucket k windowStart expiresAt d = Inr (n, t)"
    and ok: "buckets_ok (limiter_buckets d)"
  defines "w \<equiv> nanos (tz_Time (stored_at windowStart))"
  obtains b where "hour_row k w t = Some b" "n = ra_RequestCount b"
    "sint n = 1 + (case hour_row k w d of None \<Rightarrow> 0 | Some b0 \<Rightarrow> sint (ra_RequestCount b0))"
    "nanos (tz_Time (stored_at expiresAt)) \<le> bucket_end b"
    "\<forall>b0. hour_row k w d = Some b0 \<longrightarrow> bucket_end b0 \<le> bucket_end b"
    "\<forall>k' w'. (k', w') \<noteq> (k, w) \<longrightarrow> hour_row k' w' t = hour_row k' w' d"
    "buckets_ok (limiter_buckets t)"
    "db_anonymous_rate_limit_guards t = db_anonymous_rate_limit_guards d"
proof -
  define window where "window = stored_at windowStart"
  define expires where "expires = stored_at expiresAt"
  have valid: "tz_Valid window" and column: "column_time expires"
    by (simp_all add: window_def expires_def)
  have find: "find (same_bucket k window) (db_abuse_rate_buckets e) = hour_row k w e" for e
    using find_same_bucket[OF valid] by (simp add: w_def window_def)
  show ?thesis
  proof (cases "hour_row k w d")
    case None
    define b where "b = \<lparr>ra_Scope = ''anonymous_ip_hour'', ra_KeyHash = k, ra_WindowStart = window,
      ra_RequestCount = 1, ra_ExpiresAt = expires\<rparr>"
    have n: "n = 1" and t: "t = d\<lparr>db_abuse_rate_buckets := db_abuse_rate_buckets d @ [b]\<rparr>"
      using run None by (simp_all add: sql_IncrementHourBucket_def find b_def Let_def flip: window_def expires_def)
    have b: "ra_Scope b = ''anonymous_ip_hour''" "ra_KeyHash b = k" "ra_WindowStart b = window"
      "ra_RequestCount b = 1" "ra_ExpiresAt b = expires" by (simp_all add: b_def)
    have buckets: "limiter_buckets t = limiter_buckets d @ [b]" by (simp add: t limiter_buckets_def b(1))
    have row: "hour_row k' w' t = (if (k', w') = (k, w) then Some b else hour_row k' w' d)" for k' w'
      using None valid by (auto simp: hour_row_def buckets find_append_one b window_def w_def split: option.splits)
    show ?thesis
    proof (rule that[of b])
      show "hour_row k w t = Some b" by (simp add: row)
      show "\<forall>k' w'. (k', w') \<noteq> (k, w) \<longrightarrow> hour_row k' w' t = hour_row k' w' d" by (auto simp: row)
      have "bucket_key b \<noteq> bucket_key r" if "r \<in> set (limiter_buckets d)" for r
        using None that ok b by (auto simp: hour_row_def find_None_iff buckets_ok_def bucket_row_ok_def bucket_key_def
            w_def window_def)
      then show "buckets_ok (limiter_buckets t)" using ok column b valid by (auto simp: buckets buckets_ok_def bucket_row_ok_def)
    qed (use None b in \<open>simp_all add: n t expires_def\<close>)
  next
    case (Some b0)
    define f where "f = (\<lambda>b. if same_bucket k window b then counted_bucket expires b else b)"
    have counted: "ra_Scope (counted_bucket expires b) = ra_Scope b" "ra_KeyHash (counted_bucket expires b) = ra_KeyHash b"
      "ra_WindowStart (counted_bucket expires b) = ra_WindowStart b"
      "ra_RequestCount (counted_bucket expires b) = ra_RequestCount b + 1" for b
      by (simp_all add: counted_bucket_def)
    then have scope: "ra_Scope (f b) = ra_Scope b" "ra_KeyHash (f b) = ra_KeyHash b" "ra_WindowStart (f b) = ra_WindowStart b" for b
      by (simp_all add: f_def)
    have below: "sint (ra_RequestCount b0) \<noteq> 2 ^ 31 - 1" and n: "n = ra_RequestCount b0 + 1"
      and t: "t = d\<lparr>db_abuse_rate_buckets := map f (db_abuse_rate_buckets d)\<rparr>"
      using run Some by (simp_all add: sql_IncrementHourBucket_def find f_def Let_def split: if_splits
          flip: window_def expires_def)
    have buckets: "limiter_buckets t = map f (limiter_buckets d)"
      by (simp add: t limiter_buckets_def filter_map comp_def scope)
    have row: "hour_row k' w' t = map_option f (hour_row k' w' d)" for k' w'
      by (simp add: hour_row_def buckets find_map_kept scope)
    have b0: "b0 \<in> set (limiter_buckets d)" "same_bucket k window b0"
      using Some find find_SomeD[of _ "limiter_buckets d" b0] find_SomeD[of "same_bucket k window" "db_abuse_rate_buckets d" b0]
      by (auto simp: hour_row_def)
    have Suc: "sint (ra_RequestCount b0 + 1) = sint (ra_RequestCount b0) + 1"
      using below sint_less[of "ra_RequestCount b0"] by (intro sint_Suc_i32) simp
    have ends: "bucket_row_ok b \<Longrightarrow> column_time (ra_ExpiresAt (counted_bucket expires b)) \<and>
        bucket_end b \<le> bucket_end (counted_bucket expires b) \<and>
        nanos (tz_Time expires) \<le> bucket_end (counted_bucket expires b)" for b
      using sql_greatest_column[OF _ column, of "ra_ExpiresAt b"] by (simp add: bucket_row_ok_def counted_bucket_def)
    have only: "b = b0" if "b \<in> set (limiter_buckets d)" "same_bucket k window b" for b
    proof -
      have "bucket_key b = bucket_key b0" using that(2) b0(2) by (auto simp: same_bucket_def bucket_key_def tz_eq_def)
      then show ?thesis using ok b0(1) that(1) by (auto simp: buckets_ok_def distinct_map inj_on_def)
    qed
    have b0_ok: "bucket_row_ok b0" using ok b0(1) by (simp add: buckets_ok_def)
    show ?thesis
    proof (rule that[of "f b0"])
      show "hour_row k w t = Some (f b0)" using Some by (simp add: row)
      show "n = ra_RequestCount (f b0)" using b0(2) by (simp add: n f_def counted)
      show "sint n = 1 + (case hour_row k w d of None \<Rightarrow> 0 | Some b0 \<Rightarrow> sint (ra_RequestCount b0))"
        using Some by (simp add: n Suc)
      show "nanos (tz_Time (stored_at expiresAt)) \<le> bucket_end (f b0)"
        "\<forall>b. hour_row k w d = Some b \<longrightarrow> bucket_end b \<le> bucket_end (f b0)"
        using ends[OF b0_ok] b0(2) Some by (simp_all add: f_def expires_def)
      have "f b = b" if "hour_row k' w' d = Some b" "(k', w') \<noteq> (k, w)" for k' w' b
        using that find_SomeD[of _ "limiter_buckets d" b] by (auto simp: f_def same_bucket_def hour_row_def tz_eq_def
            w_def window_def dest: find_SomeD)
      then show "\<forall>k' w'. (k', w') \<noteq> (k, w) \<longrightarrow> hour_row k' w' t = hour_row k' w' d"
        by (auto simp: row map_option_cong option.map_ident intro!: option.expand split: option.splits)
      have "bucket_row_ok (f b)" if "b \<in> set (limiter_buckets d)" for b
        using that ok only[OF that] ends[of b] Suc
        by (auto simp: f_def buckets_ok_def bucket_row_ok_def counted)
      moreover have "bucket_key \<circ> f = bucket_key" by (auto simp: bucket_key_def scope)
      ultimately show "buckets_ok (limiter_buckets t)" using ok by (simp add: buckets buckets_ok_def)
    qed (simp add: t)
  qed
qed

subsection \<open>A check that commits\<close>

definition window_usage :: "string \<Rightarrow> int \<Rightarrow> int \<Rightarrow> Database \<Rightarrow> int" where
  "window_usage k lo hi d =
     (\<Sum>b\<leftarrow>filter (\<lambda>b. ra_KeyHash b = k \<and> lo \<le> nanos (tz_Time (ra_WindowStart b)) \<and>
          nanos (tz_Time (ra_WindowStart b)) \<le> hi) (limiter_buckets d). sint (ra_RequestCount b))"

lemma stored_at_nanos: "nanos (tz_Time (stored_at t)) = nanos t - nanos t mod microsecond"
  by (simp add: stored_at_def stored_time_def timestamptz_def truncate_time_def microsecond_def)

lemma stored_at_whole: "nanos t mod microsecond = 0 \<Longrightarrow> nanos (tz_Time (stored_at t)) = nanos t"
  by (simp add: stored_at_nanos)

lemma hour_of_whole: "(hour_of c + n * hour_length) mod microsecond = 0"
proof -
  have "hour_of c = c div hour_length * hour_length" by (simp add: hour_of_def minus_mod_eq_div_mult)
  then have "hour_of c + n * hour_length = microsecond * ((c div hour_length + n) * 3600000000)"
    by (simp add: hour_length_def microsecond_def)
  then show ?thesis by simp
qed

lemma count_window_usage:
  assumes "buckets_ok (limiter_buckets d)"
  shows "sql_CountRollingUsage k lo hi d =
    window_usage k (nanos (tz_Time (stored_at lo))) (nanos (tz_Time (stored_at hi))) d"
proof -
  have "filter (\<lambda>b. ra_Scope b = ''anonymous_ip_hour'' \<and> ra_KeyHash b = k \<and>
          tz_le (stored_at lo) (ra_WindowStart b) \<and> tz_le (ra_WindowStart b) (stored_at hi)) (db_abuse_rate_buckets d) =
      filter (\<lambda>b. ra_KeyHash b = k \<and> nanos (tz_Time (stored_at lo)) \<le> nanos (tz_Time (ra_WindowStart b)) \<and>
          nanos (tz_Time (ra_WindowStart b)) \<le> nanos (tz_Time (stored_at hi))) (limiter_buckets d)"
    using assms by (auto simp: limiter_buckets_def buckets_ok_def bucket_row_ok_def tz_le_def intro: filter_cong)
  then show ?thesis by (simp add: sql_CountRollingUsage_def window_usage_def)
qed

lemma limiter_statements_run:
  assumes run: "limiter_statements limiter k clock d = Inr (blocked, t)" and ok: "limiter_rows_ok d"
  defines "c \<equiv> nanos (tz_Time (canonical_time k clock d))"
  obtains g b where "nanos (tz_Time (stored_at clock)) \<le> c" "limiter_rows_ok t"
    "guard_row k t = Some g" "guard_end g = c + 25 * hour_length"
    "\<forall>g0. guard_row k d = Some g0 \<longrightarrow> guard_end g0 \<le> guard_end g"
    "\<forall>k'. k' \<noteq> k \<longrightarrow> guard_row k' t = guard_row k' d"
    "hour_row k (hour_of c) t = Some b"
    "sint (ra_RequestCount b) =
      1 + (case hour_row k (hour_of c) d of None \<Rightarrow> 0 | Some b0 \<Rightarrow> sint (ra_RequestCount b0))"
    "c + 25 * hour_length \<le> bucket_end b"
    "\<forall>b0. hour_row k (hour_of c) d = Some b0 \<longrightarrow> bucket_end b0 \<le> bucket_end b"
    "\<forall>k' w'. (k', w') \<noteq> (k, hour_of c) \<longrightarrow> hour_row k' w' t = hour_row k' w' d"
    "\<not> blocked \<Longrightarrow> sint (ra_RequestCount b) \<le> arl_hourLimit limiter"
    "\<not> blocked \<Longrightarrow> window_usage k (hour_of c - 24 * hour_length) (hour_of c) t \<le> arl_dayLimit limiter"
proof -
  have guards_ok: "\<forall>g\<in>set (limiter_guards d). guard_row_ok g" and buckets_ok: "buckets_ok (limiter_buckets d)"
    using ok by (simp_all add: limiter_rows_ok_def)
  obtain g u where g: "sql_AdvanceGuard clock k (sql_AcquireGuard k d) = Inr (canonical_time k clock d, u)"
    "column_time (canonical_time k clock d)" "nanos (tz_Time (stored_at clock)) \<le> c"
    "guard_row k u = Some g" "guard_end g = c + 25 * hour_length"
    "\<forall>g0. guard_row k d = Some g0 \<longrightarrow> guard_end g0 \<le> guard_end g"
    "\<forall>k'. k' \<noteq> k \<longrightarrow> guard_row k' u = guard_row k' d"
    "\<forall>g\<in>set (limiter_guards u). guard_row_ok g" "db_abuse_rate_buckets u = db_abuse_rate_buckets d"
    unfolding c_def by (rule advance_guard[OF guards_ok])
  have same_rows: "limiter_buckets u = limiter_buckets d" "hour_row k' w u = hour_row k' w d" for k' w
    by (simp_all add: limiter_buckets_def hour_row_def g(9))
  define T where "T = utc (tz_Time (canonical_time k clock d))"
  define window where "window = truncate_time hour_length T"
  have T: "nanos T = c" "c mod microsecond = 0"
    using g(2) by (simp_all add: T_def c_def column_time_def)
  have window: "nanos window = hour_of c"
    by (simp add: window_def truncate_time_def T hour_of_def hour_length_def)
  have w: "nanos (tz_Time (stored_at window)) = hour_of c"
    using hour_of_whole[of c 0] by (simp add: stored_at_whole window)
  have first: "nanos (tz_Time (stored_at (time_add window (- 24 * hour_length)))) = hour_of c - 24 * hour_length"
    using hour_of_whole[of c "- 24"] by (simp add: stored_at_whole time_add_def window)
  have e: "nanos (tz_Time (stored_at (time_add T (25 * hour_length)))) = c + 25 * hour_length"
  proof -
    have "column_time (sql_interval (canonical_time k clock d) (25 * hour_length))"
      by (rule column_time_interval(1)[OF g(2)])
    then have "(c + 25 * hour_length) mod microsecond = 0"
      using column_time_interval(2)[OF g(2), of "25 * hour_length"] by (simp add: column_time_def c_def)
    then show ?thesis by (simp add: stored_at_whole time_add_def T)
  qed
  obtain n where step: "sql_IncrementHourBucket k window (time_add T (25 * hour_length)) u = Inr (n, t)"
    and blocked: "blocked \<longleftrightarrow> sint n > arl_hourLimit limiter \<or>
      sql_CountRollingUsage k (time_add window (- 24 * hour_length)) window t > arl_dayLimit limiter"
    using run g(1,2) by (auto simp: limiter_statements_def column_time_def Let_def rbind_eq_Inr simp flip: T_def window_def)
  have buckets_ok_u: "buckets_ok (limiter_buckets u)" using buckets_ok by (simp add: same_rows)
  obtain b where b: "hour_row k (hour_of c) t = Some b" "n = ra_RequestCount b"
    "sint n = 1 + (case hour_row k (hour_of c) u of None \<Rightarrow> 0 | Some b0 \<Rightarrow> sint (ra_RequestCount b0))"
    "c + 25 * hour_length \<le> bucket_end b"
    "\<forall>b0. hour_row k (hour_of c) u = Some b0 \<longrightarrow> bucket_end b0 \<le> bucket_end b"
    "\<forall>k' w'. (k', w') \<noteq> (k, hour_of c) \<longrightarrow> hour_row k' w' t = hour_row k' w' u"
    "buckets_ok (limiter_buckets t)"
    "db_anonymous_rate_limit_guards t = db_anonymous_rate_limit_guards u"
    by (rule increment_bucket[OF step buckets_ok_u, unfolded w e])
  have guards: "limiter_guards t = limiter_guards u" "guard_row k' t = guard_row k' u" for k'
    by (simp_all add: guard_row_def limiter_guards_def b(8))
  show ?thesis
    by (rule that[of g b])
      (use g(3-8) b(1-7) blocked count_window_usage[OF b(7), of k "time_add window (- 24 * hour_length)" window] w first
        in \<open>auto simp: guards same_rows limiter_rows_ok_def\<close>)
qed

subsection \<open>What a step keeps of the rows\<close>

text \<open>Until a cleanup uses a moment that is not before its end, a row stays, and only grows.\<close>

definition limiter_evolves :: "int \<Rightarrow> Database \<Rightarrow> Database \<Rightarrow> bool" where
  "limiter_evolves swept d t \<longleftrightarrow> limiter_rows_ok t \<and>
     (\<forall>k g. guard_row k d = Some g \<longrightarrow> guard_end g \<le> swept \<or>
        (\<exists>g'. guard_row k t = Some g' \<and> guard_end g \<le> guard_end g')) \<and>
     (\<forall>k w b. hour_row k w d = Some b \<longrightarrow> bucket_end b \<le> swept \<or>
        (\<exists>b'. hour_row k w t = Some b' \<and> sint (ra_RequestCount b) \<le> sint (ra_RequestCount b') \<and>
          bucket_end b \<le> bucket_end b'))"

lemma limiter_evolves_refl: "limiter_rows_ok d \<Longrightarrow> limiter_evolves swept d d"
  by (simp add: limiter_evolves_def)

lemma limiter_evolves_rows:
  assumes "limiter_rows_ok d" "limiter_buckets t = limiter_buckets d" "limiter_guards t = limiter_guards d"
  shows "limiter_evolves swept d t"
  using assms by (simp add: limiter_evolves_def limiter_rows_ok_def guard_row_def hour_row_def)

lemma limiter_evolves_statements:
  assumes run: "limiter_statements limiter k clock d = Inr (blocked, t)" and ok: "limiter_rows_ok d"
  shows "limiter_evolves swept d t"
proof -
  define c where "c = nanos (tz_Time (canonical_time k clock d))"
  obtain g b where t: "limiter_rows_ok t" "guard_row k t = Some g"
    "\<forall>g0. guard_row k d = Some g0 \<longrightarrow> guard_end g0 \<le> guard_end g"
    "\<forall>k'. k' \<noteq> k \<longrightarrow> guard_row k' t = guard_row k' d"
    "hour_row k (hour_of c) t = Some b"
    "sint (ra_RequestCount b) =
      1 + (case hour_row k (hour_of c) d of None \<Rightarrow> 0 | Some b0 \<Rightarrow> sint (ra_RequestCount b0))"
    "\<forall>b0. hour_row k (hour_of c) d = Some b0 \<longrightarrow> bucket_end b0 \<le> bucket_end b"
    "\<forall>k' w'. (k', w') \<noteq> (k, hour_of c) \<longrightarrow> hour_row k' w' t = hour_row k' w' d"
    unfolding c_def by (rule limiter_statements_run[OF run ok]) blast
  have "\<exists>g'. guard_row k' t = Some g' \<and> guard_end a \<le> guard_end g'" if "guard_row k' d = Some a" for k' a
    using that t(2-4) by (cases "k' = k") auto
  moreover have "\<exists>b'. hour_row k' w t = Some b' \<and> sint (ra_RequestCount a) \<le> sint (ra_RequestCount b') \<and>
      bucket_end a \<le> bucket_end b'" if "hour_row k' w d = Some a" for k' w a
    using that t(5-8) by (cases "(k', w) = (k, hour_of c)") auto
  ultimately show ?thesis using t(1) by (simp add: limiter_evolves_def)
qed

text \<open>A check changes the database only when it commits, and then it reports nothing but the limit.\<close>

lemma limiter_Check_result:
  assumes "limiter_Check pool limiter k clock d = (err, t)"
  obtains "t = d" "err \<noteq> None"
    | blocked where "limiter_statements limiter k clock d = Inr (blocked, t)"
        "err = (if blocked then Some ErrRateLimitExceeded else None)"
proof (cases "lp_Begin pool d")
  case (Some e)
  then have "(err, t) = (Some e, d)" using assms by (simp add: limiter_Check_def)
    then show ?thesis using that(1) by blast
next
  case None
  show ?thesis
  proof (cases "limiter_statements limiter k clock d")
    case (Inl e)
    then have "(err, t) = (Some e, d)" using None assms by (simp add: limiter_Check_def)
    then show ?thesis using that(1) by blast
  next
    case (Inr r)
    obtain blocked u where r: "r = (blocked, u)" by (cases r)
    show ?thesis
    proof (cases "lp_Commit pool u")
      case (Some e)
      then have "(err, t) = (Some e, d)" using None Inr r assms by (simp add: limiter_Check_def)
    then show ?thesis using that(1) by blast
    next
      case None': None
      then show ?thesis using None Inr r assms that(2)[of blocked] by (simp add: limiter_Check_def)
    qed
  qed
qed

lemma limiter_evolves_check:
  assumes "limiter_Check pool limiter k clock d = (err, t)" "limiter_rows_ok d"
  shows "limiter_evolves swept d t"
  using assms(1)
  by (rule limiter_Check_result)
    (simp add: limiter_evolves_refl assms(2), rule limiter_evolves_statements[OF _ assms(2)])

lemma deleteBatch_result:
  assumes "cleanup_deleteBatch errors statement d = (result, t)"
  shows "t = d \<or> (\<exists>n. statement d = Inr (n, t))"
  using assms by (auto simp: cleanup_deleteBatch_def split: option.splits sum.splits if_splits)

lemma delete_candidates_result:
  assumes "delete_candidates key expired held order limit rows = Inr (n, rest)"
  obtains Q where "rest = filter Q rows" "\<forall>r. \<not> Q r \<longrightarrow> expired r"
proof -
  define selected where "selected = (\<lambda>r. key r \<in> set (map key (take (nat (sint limit))
    (order (filter (\<lambda>r. expired r \<and> \<not> held r) rows)))) \<and> expired r)"
  have "rest = filter (\<lambda>r. \<not> selected r) rows"
    using assms by (simp add: delete_candidates_def Let_def selected_def split: if_splits)
  moreover have "\<forall>r. \<not> \<not> selected r \<longrightarrow> expired r" by (simp add: selected_def)
  ultimately show ?thesis using that by blast
qed

lemma limiter_evolves_buckets:
  assumes "store_DeleteAbuseRateBucketsBatch errors held collate now batchSize d = (result, t)" and ok: "limiter_rows_ok d"
    and swept: "nanos (tz_Time (stored_at now)) \<le> swept"
  shows "limiter_evolves swept d t"
proof -
  from assms(1) consider "t = d"
    | n where "sql_DeleteBuckets held collate (stored_at (utc now)) batchSize d = Inr (n, t)"
    by (auto simp: store_DeleteAbuseRateBucketsBatch_def dest: deleteBatch_result)
  then show ?thesis
  proof cases
    case 1
    then show ?thesis using ok by (simp add: limiter_evolves_refl)
  next
    case (2 n)
    obtain rest where rest: "delete_candidates bucket_key (expired_bucket (stored_at (utc now))) (hr_bucket held)
        (bucket_order collate) batchSize (db_abuse_rate_buckets d) = Inr (n, rest)"
      and t: "t = d\<lparr>db_abuse_rate_buckets := rest\<rparr>"
      using 2 by (auto simp: sql_DeleteBuckets_def rbind_eq_Inr)
    obtain Q where Q: "rest = filter Q (db_abuse_rate_buckets d)" "\<forall>r. \<not> Q r \<longrightarrow> expired_bucket (stored_at (utc now)) r"
      by (rule delete_candidates_result[OF rest])
    have buckets: "limiter_buckets t = filter Q (limiter_buckets d)"
      by (simp add: t Q(1) limiter_buckets_def conj_commute)
    have guards: "limiter_guards t = limiter_guards d" by (simp add: t limiter_guards_def)
    have "hour_row k w t = Some b \<or> bucket_end b \<le> swept" if "hour_row k w d = Some b" for k w b
      using that Q(2) swept find_filter_kept[of _ "limiter_buckets d" b Q]
      by (cases "Q b") (auto simp: hour_row_def buckets expired_bucket_def tz_le_def utc_def
          stored_at_nanos)
    moreover have "limiter_rows_ok t"
      using ok by (auto simp: limiter_rows_ok_def buckets guards buckets_ok_def distinct_map_filter)
    ultimately show ?thesis by (auto simp: limiter_evolves_def guard_row_def guards)
  qed
qed

lemma limiter_evolves_guards:
  assumes "store_DeleteAnonymousRateLimitGuardsBatch errors held collate now batchSize d = (result, t)"
    and ok: "limiter_rows_ok d" and swept: "nanos (tz_Time (stored_at now)) \<le> swept"
  shows "limiter_evolves swept d t"
proof -
  from assms(1) consider "t = d"
    | n where "sql_DeleteGuards held collate (stored_at (utc now)) batchSize d = Inr (n, t)"
    by (auto simp: store_DeleteAnonymousRateLimitGuardsBatch_def dest: deleteBatch_result)
  then show ?thesis
  proof cases
    case 1
    then show ?thesis using ok by (simp add: limiter_evolves_refl)
  next
    case (2 n)
    obtain rest where rest: "delete_candidates guard_key (expired_guard (stored_at (utc now))) (hr_guard held)
        (guard_order collate) batchSize (db_anonymous_rate_limit_guards d) = Inr (n, rest)"
      and t: "t = d\<lparr>db_anonymous_rate_limit_guards := rest\<rparr>"
      using 2 by (auto simp: sql_DeleteGuards_def rbind_eq_Inr)
    obtain Q where Q: "rest = filter Q (db_anonymous_rate_limit_guards d)"
      "\<forall>r. \<not> Q r \<longrightarrow> expired_guard (stored_at (utc now)) r"
      by (rule delete_candidates_result[OF rest])
    have guards: "limiter_guards t = filter Q (limiter_guards d)"
      by (simp add: t Q(1) limiter_guards_def conj_commute)
    have buckets: "limiter_buckets t = limiter_buckets d" by (simp add: t limiter_buckets_def)
    have "guard_row k t = Some g \<or> guard_end g \<le> swept" if "guard_row k d = Some g" for k g
      using that Q(2) swept find_filter_kept[of _ "limiter_guards d" g Q]
      by (cases "Q g") (auto simp: guard_row_def guards expired_guard_def tz_le_def utc_def stored_at_nanos)
    moreover have "limiter_rows_ok t" using ok by (auto simp: limiter_rows_ok_def buckets guards)
    ultimately show ?thesis by (auto simp: limiter_evolves_def hour_row_def buckets)
  qed
qed

subsection \<open>Counting\<close>

lemma hour_of_bounds: "hour_of a \<le> a" "a < hour_of a + hour_length"
  using pos_mod_bound[of hour_length a] pos_mod_sign[of hour_length a]
  by (simp_all add: hour_of_def hour_length_def)

lemma hour_of_mono: "a \<le> b \<Longrightarrow> hour_of a \<le> hour_of b"
  by (simp add: hour_of_def minus_mod_eq_mult_div hour_length_def zdiv_mono1)

lemma hour_of_shift: "hour_of (a - 24 * hour_length) = hour_of a - 24 * hour_length"
proof -
  have "(a - 24 * hour_length) mod hour_length = a mod hour_length"
    using mod_mult_self3[of "- 24" hour_length a] by simp
  then show ?thesis by (simp add: hour_of_def)
qed

lemma length_filter_groups:
  assumes "finite W" "\<forall>a\<in>set h. P a \<longrightarrow> g a \<in> W"
  shows "length (filter P h) \<le> (\<Sum>w\<in>W. length (filter (\<lambda>a. g a = w) h))"
  using assms(2)
proof (induction h)
  case (Cons x h)
  have "(\<Sum>w\<in>W. length (filter (\<lambda>a. g a = w) (x # h))) =
      (\<Sum>w\<in>W. (if g x = w then 1 else 0) + length (filter (\<lambda>a. g a = w) h))"
    by (rule sum.cong) auto
  also have "\<dots> = (if g x \<in> W then 1 else 0) + (\<Sum>w\<in>W. length (filter (\<lambda>a. g a = w) h))"
    using assms(1) by (simp add: sum.distrib sum.delta)
  finally show ?case using Cons by auto
qed simp

lemma sum_rows_above:
  fixes f :: "'r \<Rightarrow> int"
  assumes "finite W" "\<forall>r\<in>set rows. 0 \<le> f r" "\<forall>w\<in>W. \<exists>r\<in>set rows. g r = w \<and> m w \<le> f r"
  shows "(\<Sum>w\<in>W. m w) \<le> (\<Sum>r\<leftarrow>rows. f r)"
  using assms
proof (induction rows arbitrary: W)
  case (Cons r rows)
  show ?case
  proof (cases "g r \<in> W \<and> m (g r) \<le> f r")
    case True
    have "\<forall>w\<in>W - {g r}. \<exists>r\<in>set rows. g r = w \<and> m w \<le> f r" using Cons.prems(3) by auto
    then have "(\<Sum>w\<in>W - {g r}. m w) \<le> (\<Sum>r\<leftarrow>rows. f r)" using Cons by simp
    moreover have "(\<Sum>w\<in>W. m w) = m (g r) + (\<Sum>w\<in>W - {g r}. m w)"
      using True Cons.prems(1) by (intro sum.remove) simp_all
    ultimately show ?thesis using True by simp
  next
    case False
    then have "\<forall>w\<in>W. \<exists>r\<in>set rows. g r = w \<and> m w \<le> f r" using Cons.prems(3) by auto
    then have "(\<Sum>w\<in>W. m w) \<le> (\<Sum>r\<leftarrow>rows. f r)" using Cons by simp
    then show ?thesis using Cons.prems(2) by simp
  qed
qed simp

subsection \<open>The admissions of an address are on record\<close>

abbreviation in_hour :: "int \<Rightarrow> int list \<Rightarrow> nat" where
  "in_hour w h \<equiv> length (filter (\<lambda>a. hour_of a = w) h)"

definition on_record :: "string \<Rightarrow> int \<Rightarrow> Database \<Rightarrow> int list \<Rightarrow> bool" where
  "on_record k swept d h \<longleftrightarrow> limiter_rows_ok d \<and>
     (\<forall>a\<in>set h. a + 25 * hour_length \<le> swept \<or>
        (\<exists>g. guard_row k d = Some g \<and> a + 25 * hour_length \<le> guard_end g)) \<and>
     (\<forall>w\<in>hour_of ` set h. w + 25 * hour_length \<le> swept \<or>
        (\<exists>b. hour_row k w d = Some b \<and> int (in_hour w h) \<le> sint (ra_RequestCount b) \<and>
           (\<forall>a\<in>set h. hour_of a = w \<longrightarrow> a + 25 * hour_length \<le> bucket_end b)))"

definition within_limits :: "AnonymousRateLimiter \<Rightarrow> int list \<Rightarrow> bool" where
  "within_limits limiter h \<longleftrightarrow>
     (\<forall>w. in_hour w h \<le> nat (arl_hourLimit limiter)) \<and>
     (\<forall>u. length (filter (\<lambda>a. u - 24 * hour_length \<le> a \<and> a \<le> u) h) \<le> nat (arl_dayLimit limiter))"

lemma on_record_evolves:
  assumes rec: "on_record k swept d h" and step: "limiter_evolves swept' d t" and le: "swept \<le> swept'"
  shows "on_record k swept' t h"
proof -
  have "a + 25 * hour_length \<le> swept' \<or> (\<exists>g. guard_row k t = Some g \<and> a + 25 * hour_length \<le> guard_end g)"
    if a: "a \<in> set h" for a
  proof -
    consider "a + 25 * hour_length \<le> swept" | g where "guard_row k d = Some g" "a + 25 * hour_length \<le> guard_end g"
      using rec a unfolding on_record_def by blast
    then show ?thesis
    proof cases
      case (2 g)
      then show ?thesis using step unfolding limiter_evolves_def by (meson order_trans)
    qed (use le in simp)
  qed
  moreover have "w + 25 * hour_length \<le> swept' \<or> (\<exists>b. hour_row k w t = Some b \<and>
      int (in_hour w h) \<le> sint (ra_RequestCount b) \<and>
      (\<forall>a\<in>set h. hour_of a = w \<longrightarrow> a + 25 * hour_length \<le> bucket_end b))" if w: "w \<in> hour_of ` set h" for w
  proof -
    consider "w + 25 * hour_length \<le> swept"
      | b where "hour_row k w d = Some b" "int (in_hour w h) \<le> sint (ra_RequestCount b)"
        "\<forall>a\<in>set h. hour_of a = w \<longrightarrow> a + 25 * hour_length \<le> bucket_end b"
      using rec w unfolding on_record_def by blast
    then show ?thesis
    proof cases
      case (2 b)
      from w obtain a where a: "a \<in> set h" "hour_of a = w" by blast
      from step 2(1) consider "bucket_end b \<le> swept'"
        | b' where "hour_row k w t = Some b'" "sint (ra_RequestCount b) \<le> sint (ra_RequestCount b')"
          "bucket_end b \<le> bucket_end b'"
        unfolding limiter_evolves_def by blast
      then show ?thesis
      proof cases
        case 1
        then have "w + 25 * hour_length \<le> swept'" using 2(3) a hour_of_bounds(1)[of a] by force
        then show ?thesis by simp
      qed (use 2 in force)
    qed (use le in simp)
  qed
  ultimately show ?thesis using step by (simp add: on_record_def limiter_evolves_def)
qed

lemma on_record_admits:
  assumes run: "limiter_statements limiter k clock d = Inr (False, t)" and swept: "swept \<le> nanos (tz_Time (stored_at clock))"
    and rec: "on_record k swept d h" and limits: "within_limits limiter h"
  defines "c \<equiv> nanos (tz_Time (canonical_time k clock d))"
  shows "on_record k swept t (h @ [c])" and "within_limits limiter (h @ [c])"
proof -
  have ok: "limiter_rows_ok d" using rec by (simp add: on_record_def)
  obtain g b where t: "nanos (tz_Time (stored_at clock)) \<le> c" "limiter_rows_ok t"
    "guard_row k t = Some g" "guard_end g = c + 25 * hour_length"
    "\<forall>g0. guard_row k d = Some g0 \<longrightarrow> guard_end g0 \<le> guard_end g"
    "hour_row k (hour_of c) t = Some b"
    "sint (ra_RequestCount b) =
      1 + (case hour_row k (hour_of c) d of None \<Rightarrow> 0 | Some b0 \<Rightarrow> sint (ra_RequestCount b0))"
    "c + 25 * hour_length \<le> bucket_end b"
    "sint (ra_RequestCount b) \<le> arl_hourLimit limiter"
    "window_usage k (hour_of c - 24 * hour_length) (hour_of c) t \<le> arl_dayLimit limiter"
    unfolding c_def by (rule limiter_statements_run[OF run ok]) simp
  have le: "swept \<le> c" using swept t(1) by simp
  have past: "a \<le> c" if "a \<in> set h" for a
    using rec that le t(4,5) by (force simp: on_record_def hour_length_def)
  have kept: "on_record k swept t h"
    by (rule on_record_evolves[OF rec limiter_evolves_statements[OF run ok]]) simp
  have here: "int (in_hour (hour_of c) h) + 1 \<le> sint (ra_RequestCount b)"
  proof (cases "hour_of c \<in> hour_of ` set h")
    case True
    moreover have "\<not> hour_of c + 25 * hour_length \<le> swept"
      using le hour_of_bounds(2)[of c] by (simp add: hour_length_def)
    ultimately show ?thesis using rec t(7) by (fastforce simp: on_record_def)
  next
    case False
    then have "in_hour (hour_of c) h = 0" by (metis (mono_tags) filter_False image_eqI list.size(3))
    moreover have "0 \<le> sint (ra_RequestCount b0)" if "hour_row k (hour_of c) d = Some b0" for b0
      using that ok find_SomeD[of _ "limiter_buckets d" b0]
      by (auto simp: hour_row_def limiter_rows_ok_def buckets_ok_def bucket_row_ok_def)
    ultimately show ?thesis using t(7) by (auto split: option.splits)
  qed
  have rows: "w + 25 * hour_length \<le> swept \<or> (\<exists>b. hour_row k w t = Some b \<and>
      int (in_hour w (h @ [c])) \<le> sint (ra_RequestCount b) \<and>
      (\<forall>a\<in>set (h @ [c]). hour_of a = w \<longrightarrow> a + 25 * hour_length \<le> bucket_end b))"
    if "w \<in> hour_of ` set (h @ [c])" for w
  proof (cases "w = hour_of c")
    case True
    then show ?thesis using t(6,8) here past by force
  next
    case False
    then have "w \<in> hour_of ` set h" "in_hour w (h @ [c]) = in_hour w h" using that by auto
    then show ?thesis using kept False by (auto simp: on_record_def)
  qed
  have "a + 25 * hour_length \<le> guard_end g" if "a \<in> set (h @ [c])" for a
    using that past t(4) by auto
  then show "on_record k swept t (h @ [c])"
    using rows t(2,3) unfolding on_record_def by blast
  have "in_hour w (h @ [c]) \<le> nat (arl_hourLimit limiter)" for w
    using limits here t(9) by (cases "w = hour_of c") (auto simp: within_limits_def)
  moreover have "length (filter (\<lambda>a. u - 24 * hour_length \<le> a \<and> a \<le> u) (h @ [c])) \<le> nat (arl_dayLimit limiter)" for u
  proof (cases "u - 24 * hour_length \<le> c \<and> c \<le> u")
    case True
    define P where "P = (\<lambda>a. u - 24 * hour_length \<le> a \<and> a \<le> u)"
    define W where "W = hour_of ` {a \<in> set (h @ [c]). P a}"
    define included where "included = filter (\<lambda>b. ra_KeyHash b = k \<and>
      hour_of c - 24 * hour_length \<le> nanos (tz_Time (ra_WindowStart b)) \<and>
      nanos (tz_Time (ra_WindowStart b)) \<le> hour_of c) (limiter_buckets t)"
    have "\<exists>r\<in>set included. nanos (tz_Time (ra_WindowStart r)) = w \<and> int (in_hour w (h @ [c])) \<le> sint (ra_RequestCount r)"
      if "w \<in> W" for w
    proof -
      from that obtain a where a: "a \<in> set (h @ [c])" "P a" "w = hour_of a" by (auto simp: W_def)
      have "c - 24 * hour_length \<le> a" "a \<le> c" using a True past by (auto simp: P_def)
      then have w: "hour_of c - 24 * hour_length \<le> w" "w \<le> hour_of c"
        using hour_of_mono[of "c - 24 * hour_length" a] hour_of_mono[of a c] by (simp_all add: hour_of_shift a(3))
      moreover have "\<not> w + 25 * hour_length \<le> swept"
        using w(1) le hour_of_bounds(2)[of c] by (simp add: hour_length_def)
      ultimately obtain r where r: "hour_row k w t = Some r" "int (in_hour w (h @ [c])) \<le> sint (ra_RequestCount r)"
        using rows[of w] a by auto
      have "r \<in> set included" "nanos (tz_Time (ra_WindowStart r)) = w"
        using find_SomeD[OF r(1)[unfolded hour_row_def]] w by (auto simp: included_def)
      then show ?thesis using r(2) by blast
    qed
    moreover have "\<forall>r\<in>set included. 0 \<le> sint (ra_RequestCount r)"
      using t(2) by (auto simp: included_def limiter_rows_ok_def buckets_ok_def bucket_row_ok_def)
    ultimately have "(\<Sum>w\<in>W. int (in_hour w (h @ [c]))) \<le> (\<Sum>r\<leftarrow>included. sint (ra_RequestCount r))"
      by (intro sum_rows_above[where g = "\<lambda>r. nanos (tz_Time (ra_WindowStart r))"]) (auto simp: W_def)
    moreover have "(\<Sum>r\<leftarrow>included. sint (ra_RequestCount r)) \<le> arl_dayLimit limiter"
      using t(10) by (simp add: window_usage_def included_def)
    moreover have "length (filter P (h @ [c])) \<le> (\<Sum>w\<in>W. in_hour w (h @ [c]))"
      by (rule length_filter_groups) (auto simp: W_def)
    ultimately show ?thesis by (simp only: P_def of_nat_sum[symmetric])
  next
    case False
    then show ?thesis using limits by (auto simp: within_limits_def)
  qed
  ultimately show "within_limits limiter (h @ [c])" by (simp add: within_limits_def)
qed

subsection \<open>Every run\<close>

lemma on_record_step:
  assumes "limiter_step limiter (swept, d) e (swept', t)" and rec: "on_record k swept d h"
    and limits: "within_limits limiter h"
  shows "on_record k swept' t (h @ admission k e) \<and> within_limits limiter (h @ admission k e)"
  using assms(1)
proof (cases rule: limiter_step.cases)
  case (check pool keyHash clock err)
  have ok: "limiter_rows_ok d" using rec by (simp add: on_record_def)
  have kept: "on_record k swept' t h"
    using on_record_evolves[OF rec limiter_evolves_check[OF check(3) ok]] check(2) by blast
  show ?thesis
  proof (cases "keyHash = k \<and> err = None")
    case True
    from check(3) have run: "limiter_statements limiter k clock d = Inr (False, t)"
      by (rule limiter_Check_result) (use True in \<open>auto split: if_splits\<close>)
    then show ?thesis
      using on_record_admits[OF run _ rec limits] check(1,2,4) True by simp
  next
    case False
    then have "admission k e = []" by (cases err) (auto simp: check(1))
    then show ?thesis using kept limits by simp
  qed
next
  case (buckets errors held collate now batchSize result)
  have ok: "limiter_rows_ok d" using rec by (simp add: on_record_def)
  show ?thesis using on_record_evolves[OF rec limiter_evolves_buckets[OF buckets(3) ok]] limits
    by (simp add: buckets(1,2))
next
  case (guards errors held collate now batchSize result)
  have ok: "limiter_rows_ok d" using rec by (simp add: on_record_def)
  show ?thesis using on_record_evolves[OF rec limiter_evolves_guards[OF guards(3) ok]] limits
    by (simp add: guards(1,2))
next
  case elsewhere
  have ok: "limiter_rows_ok d" using rec by (simp add: on_record_def)
  show ?thesis using on_record_evolves[OF rec limiter_evolves_rows[OF ok elsewhere(3,4)]] limits
    by (simp add: elsewhere(1,2))
qed

lemma on_record_run:
  assumes "limiter_run limiter s events u" "limiter_rows_ok (snd s)"
  shows "on_record k (fst u) (snd u) (admissions k events) \<and> within_limits limiter (admissions k events)"
  using assms
proof (induction rule: limiter_run.induct)
  case (start s)
  then show ?case by (simp add: on_record_def within_limits_def admissions_def)
next
  case (next_step s events t e u)
  then show ?case
    using on_record_step[of limiter "fst t" "snd t" e "fst u" "snd u" k "admissions k events"]
    by (simp add: admissions_def)
qed

subsection \<open>A clock that does not go back\<close>

fun clock_reading :: "limiter_event \<Rightarrow> int list" where
  "clock_reading (Checked k clock canonical err) = [nanos (tz_Time (stored_at clock))]"
| "clock_reading Unchecked = []"

definition clock_readings :: "limiter_event list \<Rightarrow> int list" where
  "clock_readings events = concat (map clock_reading events)"

definition guards_before :: "int \<Rightarrow> Database \<Rightarrow> bool" where
  "guards_before c d \<longleftrightarrow> (\<forall>g\<in>set (limiter_guards d). guard_end g \<le> c + 25 * hour_length)"

lemma canonical_time_nanos:
  assumes "limiter_rows_ok d" "guards_before (nanos (tz_Time (stored_at clock))) d"
  shows "nanos (tz_Time (canonical_time k clock d)) = nanos (tz_Time (stored_at clock))"
proof (cases "guard_row k d")
  case None
  then show ?thesis by (simp add: canonical_time_def find_same_guard)
next
  case (Some g)
  then have "g \<in> set (limiter_guards d)" by (auto simp: guard_row_def dest: find_SomeD)
  then have g: "guard_row_ok g" "guard_end g \<le> nanos (tz_Time (stored_at clock)) + 25 * hour_length"
    using assms by (simp_all add: limiter_rows_ok_def guards_before_def)
  have e: "column_time (sql_interval (stored_at clock) (25 * hour_length))"
    by (simp add: column_time_interval)
  have "column_time (rg_ExpiresAt (advanced_guard clock g))"
    using advanced_guard_ok(1)[of g clock] g(1) by (simp add: guard_row_ok_def)
  moreover have "guard_end (advanced_guard clock g) = nanos (tz_Time (stored_at clock)) + 25 * hour_length"
    using sql_greatest_column(2)[OF _ e, of "rg_ExpiresAt g"] g
    by (simp add: advanced_guard_def guard_row_ok_def column_time_interval)
  ultimately show ?thesis
    using Some column_time_interval(2)[of "rg_ExpiresAt (advanced_guard clock g)" "- 25 * hour_length"]
    by (simp add: canonical_time_def find_same_guard)
qed

lemma guards_before_statements:
  assumes run: "limiter_statements limiter k clock d = Inr (blocked, t)"
    and ok: "limiter_rows_ok d" and before: "guards_before (nanos (tz_Time (stored_at clock))) d"
  shows "guards_before (nanos (tz_Time (stored_at clock))) t"
proof -
  define B where "B = nanos (tz_Time (stored_at clock)) + 25 * hour_length"
  have e: "column_time (sql_interval (stored_at clock) (25 * hour_length))"
    "nanos (tz_Time (sql_interval (stored_at clock) (25 * hour_length))) = B"
    by (simp_all add: column_time_interval B_def)
  have advanced: "guard_end (advanced_guard clock g) \<le> B"
    if "guard_row_ok g \<and> guard_end g \<le> B \<or> tz_InfinityModifier (rg_ExpiresAt g) = NegInfinity" for g
    using that e sql_greatest_column(2)[OF _ e(1), of "rg_ExpiresAt g"]
    by (auto simp: advanced_guard_def guard_row_ok_def sql_greatest_def tz_below_def column_time_def)
  obtain a where a: "guard_row k (sql_AcquireGuard k d) = Some a"
    "guard_row k d = Some a \<or> guard_row k d = None \<and> tz_InfinityModifier (rg_ExpiresAt a) = NegInfinity"
    "set (limiter_guards (sql_AcquireGuard k d)) \<subseteq> insert a (set (limiter_guards d))"
    by (rule acquire_guard[of k d])
  have rows: "guard_row_ok g \<and> guard_end g \<le> B" if "g \<in> set (limiter_guards d)" for g
    using that ok before by (simp add: limiter_rows_ok_def guards_before_def B_def)
  obtain u where u: "sql_AdvanceGuard clock k (sql_AcquireGuard k d) = Inr (canonical_time k clock d, u)"
    "column_time (canonical_time k clock d)"
    by (rule advance_guard[of d clock k]) (use ok in \<open>simp add: limiter_rows_ok_def\<close>, blast)
  have "set (limiter_guards u) \<subseteq>
      (\<lambda>g. if same_guard k g then advanced_guard clock g else g) ` set (limiter_guards (sql_AcquireGuard k d))"
    using u(1) a(1) by (auto simp: sql_AdvanceGuard_def find_same_guard limiter_guards_def advanced_guard_def)
  moreover have "same_guard k a" using find_SomeD[OF a(1)[folded find_same_guard]] by simp
  moreover have "guard_row_ok a \<and> guard_end a \<le> B \<or> tz_InfinityModifier (rg_ExpiresAt a) = NegInfinity"
    using a(2) rows find_SomeD[of _ "limiter_guards d" a] by (auto simp: guard_row_def)
  ultimately have "\<forall>g\<in>set (limiter_guards u). guard_end g \<le> B"
    using a(3) rows advanced by auto
  moreover have "limiter_guards t = limiter_guards u"
    using run u by (auto simp: limiter_statements_def sql_IncrementHourBucket_def limiter_guards_def Let_def rbind_eq_Inr
        column_time_def split: option.splits if_splits)
  ultimately show ?thesis by (simp add: guards_before_def B_def)
qed

fun admitted_reading :: "string \<Rightarrow> limiter_event \<Rightarrow> int list" where
  "admitted_reading keyHash (Checked k clock canonical None) =
     (if k = keyHash then [nanos (tz_Time (stored_at clock))] else [])"
| "admitted_reading keyHash _ = []"

definition admitted_readings :: "string \<Rightarrow> limiter_event list \<Rightarrow> int list" where
  "admitted_readings keyHash events = concat (map (admitted_reading keyHash) events)"

lemma guards_before_subset:
  "set (limiter_guards t) \<subseteq> set (limiter_guards d) \<Longrightarrow> guards_before c d \<Longrightarrow> guards_before c t"
  by (auto simp: guards_before_def)

lemma deleted_buckets_guards:
  assumes "store_DeleteAbuseRateBucketsBatch errors held collate now batchSize d = (result, t)"
  shows "limiter_guards t = limiter_guards d"
proof -
  from assms consider "t = d" | n where "sql_DeleteBuckets held collate (stored_at (utc now)) batchSize d = Inr (n, t)"
    by (auto simp: store_DeleteAbuseRateBucketsBatch_def dest: deleteBatch_result)
  then show ?thesis by cases (auto simp: sql_DeleteBuckets_def rbind_eq_Inr limiter_guards_def)
qed

lemma deleted_guards_guards:
  assumes "store_DeleteAnonymousRateLimitGuardsBatch errors held collate now batchSize d = (result, t)"
  shows "set (limiter_guards t) \<subseteq> set (limiter_guards d)"
proof -
  from assms consider "t = d" | n where "sql_DeleteGuards held collate (stored_at (utc now)) batchSize d = Inr (n, t)"
    by (auto simp: store_DeleteAnonymousRateLimitGuardsBatch_def dest: deleteBatch_result)
  then show ?thesis
    by cases (auto simp: sql_DeleteGuards_def rbind_eq_Inr limiter_guards_def elim!: delete_candidates_result)
qed

text \<open>After any step, no guard is ahead of a moment that none was ahead of, and that the step's clock reaches.\<close>

lemma guards_before_step:
  assumes "limiter_step limiter (swept, d) e (swept', t)" and ok: "limiter_rows_ok d"
    and before: "guards_before c d" and reading: "\<forall>r\<in>set (clock_reading e). guards_before r d \<and> r \<le> c"
  shows "guards_before c t \<and> admitted_reading k e = admission k e"
  using assms(1)
proof (cases rule: limiter_step.cases)
  case (check pool keyHash clock err)
  have r: "guards_before (nanos (tz_Time (stored_at clock))) d" "nanos (tz_Time (stored_at clock)) \<le> c"
    using reading by (simp_all add: check(1))
  have "guards_before c t"
    using check(3)
  proof (rule limiter_Check_result)
    fix blocked assume "limiter_statements limiter keyHash clock d = Inr (blocked, t)"
    from guards_before_statements[OF this ok r(1)] show ?thesis using r(2) by (force simp: guards_before_def)
  qed (use before in simp)
  then show ?thesis using canonical_time_nanos[OF ok r(1), of keyHash] by (cases err) (auto simp: check(1))
next
  case buckets
  then show ?thesis using before deleted_buckets_guards[OF buckets(3)] by (simp add: guards_before_def)
next
  case guards
  then show ?thesis using guards_before_subset[OF deleted_guards_guards[OF guards(3)] before] by simp
next
  case elsewhere
  then show ?thesis using before by (simp add: guards_before_def)
qed

lemma guards_before_run:
  assumes "limiter_run limiter s events u" "limiter_rows_ok (snd s)" "sorted (clock_readings events)"
    and "\<forall>r\<in>set (clock_readings events). guards_before r (snd s)"
  shows "admitted_readings k events = admissions k events \<and>
    (\<forall>c. guards_before c (snd s) \<and> (\<forall>r\<in>set (clock_readings events). r \<le> c) \<longrightarrow> guards_before c (snd u))"
  using assms
proof (induction rule: limiter_run.induct)
  case (start s)
  then show ?case by (simp add: admissions_def admitted_readings_def)
next
  case (next_step s events t e u)
  have readings: "clock_readings (events @ [e]) = clock_readings events @ clock_reading e"
    by (simp add: clock_readings_def)
  have sorted: "sorted (clock_readings events)" "\<forall>r\<in>set (clock_readings events). \<forall>c\<in>set (clock_reading e). r \<le> c"
    using next_step.prems(2) by (simp_all add: readings sorted_append)
  have IH: "admitted_readings k events = admissions k events"
    "\<And>c. guards_before c (snd s) \<Longrightarrow> (\<forall>r\<in>set (clock_readings events). r \<le> c) \<Longrightarrow> guards_before c (snd t)"
    using next_step sorted(1) by (simp_all add: readings)
  have ok: "limiter_rows_ok (snd t)"
    using on_record_run[OF next_step.hyps(1) next_step.prems(1), of k] by (simp add: on_record_def)
  have now: "\<forall>r\<in>set (clock_reading e). guards_before r (snd t)"
    using IH(2) sorted(2) next_step.prems(3) by (simp add: readings)
  note step = guards_before_step[of limiter "fst t" "snd t" e "fst u" "snd u" _ k]
  have "guards_before c (snd u)"
    if "guards_before c (snd s)" "\<forall>r\<in>set (clock_readings (events @ [e])). r \<le> c" for c
    using step[of c] next_step.hyps(2) ok now IH(2)[OF that(1)] that(2) by (auto simp: readings)
  moreover have "admitted_reading k e = admission k e"
  proof (cases "clock_reading e")
    case Nil
    then show ?thesis by (cases e) auto
  next
    case (Cons c rest)
    then have "rest = []" by (cases e) auto
    then show ?thesis using step[of c] next_step.hyps(2) ok now Cons by simp
  qed
  ultimately show ?case using IH(1) by (simp add: admitted_readings_def admissions_def)
qed

subsection \<open>A run of two checks\<close>

text \<open>The second reading of the clock is two hours before the first one.\<close>

definition sample_limiter :: AnonymousRateLimiter where
  "sample_limiter = NewAnonymousRateLimiter 1 5"

definition sample_reading :: gotime where
  "sample_reading = \<lparr>nanos = 63900000000 * 1000000000, loc = UTC\<rparr>"

definition sample_pool :: LimiterPool where
  "sample_pool = \<lparr>lp_Begin = (\<lambda>_. None), lp_Commit = (\<lambda>_. None)\<rparr>"

definition sample_unlimited :: Database where
  "sample_unlimited = sample_database\<lparr>db_anonymous_rate_limit_guards := [], db_abuse_rate_buckets := []\<rparr>"

definition sample_limited :: Database where
  "sample_limited = sample_database\<lparr>
     db_anonymous_rate_limit_guards := [\<lparr>rg_Scope = ''anonymous_ip'', rg_KeyHash = ''key'',
       rg_ExpiresAt = stored_at (time_add sample_reading (25 * hour_length))\<rparr>],
     db_abuse_rate_buckets := [\<lparr>ra_Scope = ''anonymous_ip_hour'', ra_KeyHash = ''key'',
       ra_WindowStart = stored_at (truncate_time hour_length sample_reading), ra_RequestCount = 1,
       ra_ExpiresAt = stored_at (time_add sample_reading (25 * hour_length))\<rparr>]\<rparr>"

lemmas limiter_run_defs = limiter_statements_def sql_AcquireGuard_def sql_AdvanceGuard_def
  sql_IncrementHourBucket_def sql_CountRollingUsage_def same_guard_def same_bucket_def advanced_guard_def
  counted_bucket_def sql_greatest_def tz_below_def sql_interval_def sample_limiter_def
  NewAnonymousRateLimiter_def tz_eq_def tz_le_def stored_at_def stored_time_def timestamptz_def truncate_time_def
  microsecond_def hour_length_def time_add_def sample_reading_def zero_time_def utc_def

lemma limiter_commits:
  assumes "limiter_statements limiter k clock d = Inr (blocked, t)"
  shows "limiter_Check sample_pool limiter k clock d = (if blocked then Some ErrRateLimitExceeded else None, t)"
  using assms by (simp add: limiter_Check_def sample_pool_def)

lemma first_check: "limiter_statements sample_limiter ''key'' sample_reading sample_unlimited = Inr (False, sample_limited)"
  by (simp add: limiter_run_defs sample_limited_def sample_unlimited_def Let_def)

lemma second_check:
  "\<exists>t. limiter_statements sample_limiter ''key'' (time_add sample_reading (- 2 * hour_length)) sample_limited = Inr (True, t)"
  by (simp add: limiter_run_defs sample_limited_def Let_def)

abbreviation sample_first :: limiter_event where
  "sample_first \<equiv> Checked ''key'' sample_reading (canonical_time ''key'' sample_reading sample_unlimited) None"

abbreviation sample_second :: limiter_event where
  "sample_second \<equiv> Checked ''key'' (time_add sample_reading (- 2 * hour_length))
     (canonical_time ''key'' (time_add sample_reading (- 2 * hour_length)) sample_limited) (Some ErrRateLimitExceeded)"

lemma sample_first_run: "limiter_run sample_limiter (0, sample_unlimited) [sample_first] (0, sample_limited)"
proof -
  have "0 \<le> nanos (tz_Time (stored_at sample_reading))"
    by (simp add: stored_at_nanos sample_reading_def microsecond_def)
  from limiter_step.check[OF limiter_commits[OF first_check, simplified] this]
  show ?thesis using limiter_run.next_step[OF limiter_run.start] by force
qed

lemma sample_run: "\<exists>t. limiter_run sample_limiter (0, sample_unlimited) [sample_first, sample_second] (0, t)"
proof -
  obtain t where t: "limiter_statements sample_limiter ''key'' (time_add sample_reading (- 2 * hour_length)) sample_limited =
      Inr (True, t)" using second_check by blast
  have "0 \<le> nanos (tz_Time (stored_at (time_add sample_reading (- 2 * hour_length))))"
    by (simp add: stored_at_nanos sample_reading_def time_add_def hour_length_def microsecond_def)
  from limiter_step.check[OF limiter_commits[OF t, unfolded if_True] this]
  show ?thesis using limiter_run.next_step[OF sample_first_run] by force
qed

lemma sample_unlimited_ok: "limiter_rows_ok sample_unlimited"
  by (simp add: limiter_rows_ok_def sample_unlimited_def limiter_buckets_def limiter_guards_def buckets_ok_def)



text \<open>[C36] While the clock does not go back and no guard starts ahead of it, the limits hold of the moments
  the clock showed: at most the hourly limit of admitted creations of an address in an hour, at most the
  daily limit in any 24 hours.\<close>

theorem anonymous_creations_are_limited_by_clock:
  assumes "limiter_run limiter (swept, d) events (swept', t)" and "limiter_rows_ok d"
    and "sorted (clock_readings events)" and "\<forall>r\<in>set (clock_readings events). guards_before r d"
  shows "length (filter (\<lambda>a. hour_of a = w) (admitted_readings keyHash events)) \<le> nat (arl_hourLimit limiter) \<and>
    length (filter (\<lambda>a. until - 24 * hour_length \<le> a \<and> a \<le> until) (admitted_readings keyHash events))
      \<le> nat (arl_dayLimit limiter)"
  using on_record_run[OF assms(1), of keyHash] guards_before_run[OF assms(1), of keyHash] assms(2-4)
  by (simp add: within_limits_def)

theorem anonymous_creations_are_limited_by_clock_witness:
  "admitted_readings ''key'' [sample_first] = [63900000000 * 1000000000] \<and>
   length (filter (\<lambda>a. hour_of a = 63900000000 * 1000000000) (admitted_readings ''key'' [sample_first])) \<le> 1"
proof -
  have "sorted (clock_readings [sample_first])"
    "\<forall>r\<in>set (clock_readings [sample_first]). guards_before r sample_unlimited"
    by (simp_all add: clock_readings_def guards_before_def sample_unlimited_def limiter_guards_def)
  from anonymous_creations_are_limited_by_clock[OF sample_first_run sample_unlimited_ok this,
      of "63900000000 * 1000000000" "''key''" 0]
  have "length (filter (\<lambda>a. hour_of a = 63900000000 * 1000000000) (admitted_readings ''key'' [sample_first])) \<le> 1"
    by (simp add: sample_limiter_def NewAnonymousRateLimiter_def)
  moreover have "admitted_readings ''key'' [sample_first] = [63900000000 * 1000000000]"
    by (simp add: admitted_readings_def stored_at_nanos sample_reading_def microsecond_def)
  ultimately show ?thesis by blast
qed

end
