(* ===== verification/Spec2Isabelle.thy ===== *)
theory Spec2Isabelle
  imports CycleLifecycle GoalLifecycle QueryRuns ReviewRuns CycleStoreRuns AISelectionChecks AIOperations
    GoalDeletion CleanupRuns RateLimiterRuns
begin

text \<open>
  Verification library of the backend of fukamu/cycle, a web service in which a User keeps Goals, works
  on each in PDCA Cycles, reviews the Goal after every Cycle and asks an AI provider for texts on the
  way.  Paths are relative to \<open>src/backend/internal\<close>.

  \<^bold>\<open>The program and its parts.\<close>  The domain packages are pure functions on aggregates.  The use cases of
  \<open>application/workspace\<close> run them inside a transaction: they take locks and receipts through Go
  interfaces, decide, write with compare-and-set statements whose row counts they check, and return
  views they validate once more.  \<open>infrastructure/postgres\<close> implements the interfaces with statements
  that sqlc generates from SQL.  \<open>application/session\<close> and \<open>application/account\<close> keep sessions, anonymous
  bootstraps and Google identities; \<open>application/cleanup\<close> deletes expired rows.  The AI operations are
  accepted in one transaction (rate limits, monthly budget, a running generation), executed outside of
  any, and finished in a second one that settles their cost.

  \<^bold>\<open>Theories.\<close>
    \<^item> Language and encodings: \<open>Prelude\<close> (times, sums, words), \<open>GoText\<close> (UTF-8 decoding, trimming, line
      endings), \<open>Wire\<close> (\<open>hashRequest\<close>, canonical JSON, cursors, UUIDs, \<open>securehash\<close>, \<open>csrftoken\<close>).
    \<^item> Domain: \<open>CycleDomain\<close> (\<open>domain/cycle\<close>), \<open>GoalDomain\<close> (\<open>domain/goal\<close>, \<open>domain/user\<close>), \<open>AIOutput\<close>
      (\<open>domain/ai\<close>).  \<open>CycleLifecycle\<close> and \<open>GoalLifecycle\<close> hold their invariants and contracts.
    \<^item> Use cases: \<open>WorkspaceTypes\<close> (\<open>types.go\<close>, the sentinel errors, the transaction monad), \<open>Views\<close>,
      \<open>CycleUseCases\<close>, \<open>ReviewTransitions\<close>, \<open>GoalUseCases\<close>, \<open>GoalDraftUseCases\<close>, \<open>GoalRefine\<close>, \<open>ActionAI\<close>, with
      the parts the AI use cases share in \<open>AIContext\<close> (\<open>context_selector.go\<close>), \<open>AIExecution\<close> (\<open>service.go\<close>),
      \<open>AIAccounting\<close> and \<open>AIAdmission\<close>; \<open>Sessions\<close> (\<open>application/session\<close>, \<open>application/account\<close>) and \<open>Cleanup\<close>
      (\<open>application/cleanup\<close>).
    \<^item> Adapters: \<open>PgRows\<close> (row mappings), \<open>CycleStore\<close> (\<open>workspace_cycle_uow.go\<close>), \<open>AIStore\<close>,
      \<open>AIGenerationStore\<close> and \<open>GoalDraftStore\<close> (\<open>workspace_goal_draft_uow.go\<close>,
      \<open>workspace_action_ai_uow.go\<close>), \<open>GoalStore\<close> (\<open>workspace_goal_uow.go\<close>), \<open>ReviewStore\<close>
      (\<open>workspace_review_transition_uow.go\<close>), \<open>QueryStore\<close> (the read models: \<open>workspace_store.go\<close>,
      \<open>workspace_cycle_query.go\<close>, \<open>workspace_goal_query.go\<close>), \<open>SessionStore\<close>, \<open>AccountStore\<close>, \<open>CleanupStore\<close>,
      \<open>RateLimiter\<close> (\<open>anonymous_rate_limiter.go\<close>, with the runs of its environment as a step relation).
    \<^item> Contracts of the interfaces, as locales: \<open>CycleContract\<close> (\<open>cycle_tx_laws\<close>), \<open>ReviewContract\<close>
      (\<open>review_tx_laws\<close>), \<open>AILedger\<close> and \<open>AIBudget\<close> (\<open>ai_ledger\<close>, \<open>ai_admission\<close> and their extensions),
      \<open>SessionContract\<close> (\<open>session_repository\<close>), \<open>Cleanup\<close> (\<open>batch_repository\<close>).  \<open>CycleStoreLaws\<close>, \<open>ReviewRuns\<close>,
      \<open>AILedgerStore\<close>, \<open>AIBudgetStore\<close>, \<open>SessionContract\<close> and \<open>CleanupStore\<close> interpret them on the adapters;
      \<open>AuthLaws\<close> states what the statements on the session tables do.
    \<^item> Programs that run: \<open>CycleListing\<close>, \<open>CycleStoreRuns\<close>, \<open>ReviewRuns\<close>, \<open>AISelectionChecks\<close>, \<open>AIOperations\<close>,
      \<open>AuthRuns\<close> and \<open>AuthProperties\<close>, \<open>AccountDeletion\<close>, \<open>GoalDeletion\<close>, \<open>CleanupRuns\<close>, \<open>QueryRuns\<close>,
      \<open>RateLimiterRuns\<close>.

  \<^bold>\<open>How the code is written down.\<close>  A struct is a record with the Go field names behind a short prefix, a
  pointer an \<open>option\<close>, an interface a record of functions.  \<open>int64\<close>, \<open>int32\<close> and \<open>int16\<close> are words, and wrap;
  a Go \<open>int\<close>, which counts within memory, is an \<open>int\<close>.  Strings are bytes.  A time is its nanoseconds
  since the zero time of Go, with its location; a column of type \<open>timestamptz\<close> keeps microseconds, one of
  type \<open>numeric(14, 8)\<close> eight decimals.  \<open>float64\<close> amounts of money are exact rationals.  A transaction maps a
  state to an error or to a result and the next state; the database is a record of tables, each a list
  of rows, and a transaction that returns an error leaves it as it was.  Unique keys of the schema are
  tested where a statement inserts or changes them; a foreign key with \<open>ON DELETE CASCADE\<close> is part of the
  statement that deletes.  A clock reading, a new identifier or the answer of a lookup outside the
  transaction is an argument of the use case.

  \<^bold>\<open>Parameters.\<close>  SHA-256 and HMAC-SHA-256, the decoder of a cursor body, the scanner of UUIDs (the law used
  is that a canonical identifier scans to itself), the tokenizer's codec, the provider and its errors,
  the context's \<open>Err\<close>, the errors of the connection pool, the rows other transactions hold, the collation,
  and the sign \<open>math/big\<close> reads from a decimal.

  \<^bold>\<open>What is shown.\<close>
    \<^item> Aggregates: every Cycle and every Goal that operations reach is well formed; frame saves and draft
      saves lose no update; completing, replanning and continuing a review do what they promise, and a
      replan of a consistent aggregate is never rejected.
    \<^item> Idempotency on the adapter: the operation keys of Complete, Replan, Continue, Terminate and of the
      Goal deletion apply a request once, and reject any other request under the key.
    \<^item> Isolation: commands of a User change no row of another, contexts sent to the provider hold nothing
      of another Goal, cursors are signed, and following them shows every Cycle of a Goal exactly once.
    \<^item> Money: the budget check is exact, an operation is admitted within its limits and charged at most
      once, deleting an account or a Goal neither loses nor invents a cost.
    \<^item> Sessions: the keys of the tables are an invariant of every run, revoked sessions stay dead, linked
      accounts leave no bootstrap, racing bootstraps converge, refreshed CSRF tokens are accepted.
    \<^item> Deletion and retention: what is left of the database is written down table by table; the cleanup
      returns whatever fails around it, deletes what is expired and nobody holds, and its dry run counts
      the same.
    \<^item> Rate limit: in every run of checks and cleanups the anonymous creations of an address stay within the
      hourly and the daily limit, whatever the clock of the server does.

  \<^bold>\<open>Bounds and fuel.\<close>  The loop that shrinks a context runs at most 16 times in the code and has 16 steps
  here; the retry loop of an AI call recurses on the attempts of its settings; a bootstrap is tried
  twice.  The binary search of the tokenizer recurses on the interval it halves, the string functions on
  the rest of the string.  The cleanup loop has no bound in the code: it is a partial function, and it
  is shown to return because every batch but the last lowers the number of pending rows.

  \<^bold>\<open>Not modelled.\<close>  The HTTP handlers and cookies, the encryption of contents
  (rows hold plain text here), the HTTP clients of the AI provider, Google and Turnstile, the
  observability and configuration packages, the command line programs, the KPI report and the launch
  gate, and everything outside the backend: these are input and output, glue to libraries or
  aggregations that are only read.  Of the generated queries, the scanning of rows is taken from the
  column lists; of PostgreSQL, isolation is that of one transaction at a time, with interleavings where a
  theory names them, and constraints that are deferred to the commit are not checked.
\<close>

end
